(* ===== verification/Prelude.thy ===== *)
theory Prelude
  imports Complex_Main "HOL-Library.Multiset"
begin

text \<open>
  What every component shares: computations that read and change a state and may throw
  (the async functions of the services), the array operations of JavaScript the code uses
  (a stable sort by a comparator, \<open>slice\<close> with a negative index, updates by key),
  and the collections of hints the component proofs go through.
\<close>

named_theorems io_simps "unfolding of computations on a concrete outcome"
named_theorems service_defs "definitions of the operations of a service"

section \<open>Computations with a state and exceptions\<close>

text \<open>
  An \<open>async\<close> function is a function of the state it runs in; it returns the state it
  leaves and either the thrown value (\<open>Inl\<close>) or the value it resolves to (\<open>Inr\<close>).
\<close>

type_synonym ('s, 'e, 'a) io = "'s \<Rightarrow> ('e + 'a) \<times> 's"

definition io_return :: "'a \<Rightarrow> ('s, 'e, 'a) io" where
  "io_return x s = (Inr x, s)"

definition io_throw :: "'e \<Rightarrow> ('s, 'e, 'a) io" where
  "io_throw e s = (Inl e, s)"

definition io_bind :: "('s, 'e, 'a) io \<Rightarrow> ('a \<Rightarrow> ('s, 'e, 'b) io) \<Rightarrow> ('s, 'e, 'b) io" where
  "io_bind m f s = (case m s of (Inl e, s') \<Rightarrow> (Inl e, s') | (Inr x, s') \<Rightarrow> f x s')"

definition io_then :: "('s, 'e, 'a) io \<Rightarrow> ('s, 'e, 'b) io \<Rightarrow> ('s, 'e, 'b) io" where
  "io_then m n = io_bind m (\<lambda>_. n)"

definition io_modify :: "('s \<Rightarrow> 's) \<Rightarrow> ('s, 'e, unit) io" where
  "io_modify f s = (Inr (), f s)"

definition io_gets :: "('s \<Rightarrow> 'a) \<Rightarrow> ('s, 'e, 'a) io" where
  "io_gets f s = (Inr (f s), s)"

definition io_when :: "bool \<Rightarrow> ('s, 'e, unit) io \<Rightarrow> ('s, 'e, unit) io" where
  "io_when b m = (if b then m else io_return ())"

text \<open>\<open>try { m } catch (e) { h e }\<close> and \<open>try { m } finally { f }\<close>: the handler runs on a
  throw only, the finalizer on both paths, and a throw of the finalizer wins.\<close>

definition io_catch :: "('s, 'e, 'a) io \<Rightarrow> ('e \<Rightarrow> ('s, 'e, 'a) io) \<Rightarrow> ('s, 'e, 'a) io" where
  "io_catch m h s = (case m s of (Inl e, s') \<Rightarrow> h e s' | (Inr x, s') \<Rightarrow> (Inr x, s'))"

definition io_finally :: "('s, 'e, 'a) io \<Rightarrow> ('s, 'e, unit) io \<Rightarrow> ('s, 'e, 'a) io" where
  "io_finally m f s =
     (case m s of (r, s') \<Rightarrow> (case f s' of (Inl e, s'') \<Rightarrow> (Inl e, s'') | (Inr _, s'') \<Rightarrow> (r, s'')))"

lemmas io_unfold [io_simps] =
  io_return_def io_throw_def io_bind_def io_then_def io_modify_def io_gets_def io_when_def
  io_catch_def io_finally_def

text \<open>The monad laws, and the two ways a \<open>try\<close> block can go.\<close>

lemma io_bind_return [simp]: "io_bind m io_return = m"
  by (rule ext) (simp add: io_simps split: prod.split sum.split)

lemma io_return_bind [simp]: "io_bind (io_return x) f = f x"
  by (rule ext) (simp add: io_simps)

lemma io_bind_assoc: "io_bind (io_bind m f) g = io_bind m (\<lambda>x. io_bind (f x) g)"
  by (rule ext) (simp add: io_simps split: prod.split sum.split)

lemma io_catch_throw [simp]: "io_catch (io_throw e) h = h e"
  by (rule ext) (simp add: io_simps)

lemma io_catch_return [simp]: "io_catch (io_return x) h = io_return x"
  by (rule ext) (simp add: io_simps)

lemma io_finally_modify:
  "io_finally m (io_modify f) s = (fst (m s), f (snd (m s)))"
  by (simp add: io_simps split: prod.split)

text \<open>
  A flag that is written by the finalizer has that value after the operation, however the
  operation ends: the contract of every \<open>isLoading\<close> flag of the services.
\<close>

locale flag_field =
  fixes get_flag :: "'s \<Rightarrow> bool"
    and set_flag :: "bool \<Rightarrow> 's \<Rightarrow> 's"
  assumes get_set: "get_flag (set_flag b s) = b"
    and set_set: "set_flag b (set_flag c s) = set_flag b s"
begin

lemma finally_flag: "get_flag (snd (io_finally m (io_modify (set_flag b)) s)) = b"
  by (simp add: io_finally_modify get_set)

lemma finally_result: "fst (io_finally m (io_modify (set_flag b)) s) = fst (m s)"
  by (simp add: io_finally_modify)

lemma finally_nested:
  "io_finally (io_finally m (io_modify (set_flag b))) (io_modify (set_flag c)) s
   = io_finally m (io_modify (set_flag c)) s"
  by (simp add: io_finally_modify set_set)

end

section \<open>Arrays\<close>

text \<open>\<open>xs.slice(-n)\<close>: a negative argument counts from the end, but \<open>-0\<close> is \<open>0\<close>, so
  \<open>xs.slice(-0)\<close> is all of \<open>xs\<close>.\<close>

definition slice_neg :: "int \<Rightarrow> 'a list \<Rightarrow> 'a list" where
  "slice_neg n xs = (if 0 < n then drop (length xs - nat n) xs else drop (nat (- n)) xs)"

lemma slice_neg_zero [simp]: "slice_neg 0 xs = xs"
  by (simp add: slice_neg_def)

lemma length_slice_neg: "0 < n \<Longrightarrow> length (slice_neg n xs) = min (length xs) (nat n)"
  by (simp add: slice_neg_def)

lemma slice_neg_short: "int (length xs) \<le> n \<Longrightarrow> slice_neg n xs = xs"
  by (cases "0 < n") (simp_all add: slice_neg_def)

lemma slice_neg_suffix: "\<exists>ys. xs = ys @ slice_neg n xs"
  unfolding slice_neg_def by (metis append_take_drop_id)

lemma set_slice_neg: "set (slice_neg n xs) \<subseteq> set xs"
  by (simp add: slice_neg_def set_drop_subset)

lemma last_slice_neg: "0 < n \<Longrightarrow> xs \<noteq> [] \<Longrightarrow> last (slice_neg n xs) = last xs"
  by (simp add: slice_neg_def last_drop)

lemma slice_neg_nonempty: "0 < n \<Longrightarrow> xs \<noteq> [] \<Longrightarrow> slice_neg n xs \<noteq> []"
  using length_slice_neg [of n xs] by (cases xs) fastforce+

lemma sorted_wrt_slice_neg: "sorted_wrt P xs \<Longrightarrow> sorted_wrt P (slice_neg n xs)"
  by (simp add: slice_neg_def sorted_wrt_drop)

lemma distinct_map_slice_neg: "distinct (map f xs) \<Longrightarrow> distinct (map f (slice_neg n xs))"
  by (simp add: slice_neg_def flip: drop_map)

subsection \<open>Sorting by a comparator\<close>

text \<open>
  \<open>Array.prototype.sort\<close> is stable; for a consistent comparator its result is fixed by the
  language. The model is the insertion sort that keeps equal elements in their order.
\<close>

fun js_insort :: "('a \<Rightarrow> 'a \<Rightarrow> int) \<Rightarrow> 'a \<Rightarrow> 'a list \<Rightarrow> 'a list" where
  "js_insort cmp x [] = [x]"
| "js_insort cmp x (y # ys) = (if cmp x y \<le> 0 then x # y # ys else y # js_insort cmp x ys)"

definition js_sort :: "('a \<Rightarrow> 'a \<Rightarrow> int) \<Rightarrow> 'a list \<Rightarrow> 'a list" where
  "js_sort cmp xs = foldr (js_insort cmp) xs []"

lemma js_sort_Nil [simp]: "js_sort cmp [] = []"
  by (simp add: js_sort_def)

lemma js_sort_Cons [simp]: "js_sort cmp (x # xs) = js_insort cmp x (js_sort cmp xs)"
  by (simp add: js_sort_def)

lemma mset_js_insort [simp]: "mset (js_insort cmp x xs) = add_mset x (mset xs)"
  by (induction xs) auto

lemma mset_js_sort [simp]: "mset (js_sort cmp xs) = mset xs"
  by (induction xs) simp_all

lemma set_js_sort [simp]: "set (js_sort cmp xs) = set xs"
  by (rule mset_eq_setD) simp

lemma length_js_sort [simp]: "length (js_sort cmp xs) = length xs"
  by (rule mset_eq_length) simp

lemma set_js_insort [simp]: "set (js_insort cmp x xs) = insert x (set xs)"
  by (metis mset_js_insort set_mset_add_mset_insert set_mset_mset)

lemma distinct_map_js_sort: "distinct (map f (js_sort cmp xs)) \<longleftrightarrow> distinct (map f xs)"
  by (metis mset_eq_imp_distinct_iff mset_js_sort mset_map)

text \<open>The result depends on the comparator only through the order it puts the elements in.\<close>

lemma js_insort_cong:
  "(\<And>y. y \<in> set xs \<Longrightarrow> (f x y \<le> 0) = (g x y \<le> 0)) \<Longrightarrow> js_insort f x xs = js_insort g x xs"
  by (induction xs) auto

lemma js_sort_cong:
  "(\<And>x y. x \<in> set xs \<Longrightarrow> y \<in> set xs \<Longrightarrow> (f x y \<le> 0) = (g x y \<le> 0)) \<Longrightarrow> js_sort f xs = js_sort g xs"
proof (induction xs)
  case (Cons x xs)
  then have "js_sort f xs = js_sort g xs" by simp
  with Cons.prems show ?case by (auto intro!: js_insort_cong)
qed simp

text \<open>Elements the comparator does not tell apart stay in their order.\<close>

lemma filter_js_insort:
  "(\<And>y. P x \<Longrightarrow> P y \<Longrightarrow> cmp x y \<le> 0) \<Longrightarrow> filter P (js_insort cmp x ys) = filter P (x # ys)"
  by (induction ys) auto

lemma filter_js_sort:
  assumes "\<And>x y. P x \<Longrightarrow> P y \<Longrightarrow> cmp x y \<le> 0"
  shows "filter P (js_sort cmp xs) = filter P xs"
proof (induction xs)
  case (Cons x xs)
  have "filter P (js_insort cmp x (js_sort cmp xs)) = filter P (x # js_sort cmp xs)"
    by (rule filter_js_insort) (rule assms)
  with Cons show ?case by simp
qed simp

text \<open>
  The contract of a comparator. A comparator that meets it sorts: the result is ordered,
  is a permutation, and keeps equal elements in their first order.
\<close>

locale comparator =
  fixes cmp :: "'a \<Rightarrow> 'a \<Rightarrow> int"
  assumes cmp_total: "cmp x y \<le> 0 \<or> cmp y x \<le> 0"
    and cmp_trans: "cmp x y \<le> 0 \<Longrightarrow> cmp y z \<le> 0 \<Longrightarrow> cmp x z \<le> 0"
begin

definition equiv :: "'a \<Rightarrow> 'a \<Rightarrow> bool" where
  "equiv x y \<longleftrightarrow> cmp x y \<le> 0 \<and> cmp y x \<le> 0"

lemma insort_sorted:
  "sorted_wrt (\<lambda>a b. cmp a b \<le> 0) xs \<Longrightarrow> sorted_wrt (\<lambda>a b. cmp a b \<le> 0) (js_insort cmp x xs)"
proof (induction xs)
  case (Cons y ys)
  then show ?case
    using cmp_total [of x y] by (auto intro: cmp_trans)
qed simp

lemma sort_sorted: "sorted_wrt (\<lambda>a b. cmp a b \<le> 0) (js_sort cmp xs)"
  by (induction xs) (simp_all add: insort_sorted)

lemma insort_le_all: "(\<And>y. y \<in> set xs \<Longrightarrow> cmp x y \<le> 0) \<Longrightarrow> js_insort cmp x xs = x # xs"
  by (cases xs) auto

lemma sort_id: "sorted_wrt (\<lambda>a b. cmp a b \<le> 0) xs \<Longrightarrow> js_sort cmp xs = xs"
  by (induction xs) (auto simp: insort_le_all)

lemma sort_stable: "filter (equiv k) (js_sort cmp xs) = filter (equiv k) xs"
  by (rule filter_js_sort) (auto simp: equiv_def intro: cmp_trans)

lemma sort_head_least: "xs \<noteq> [] \<Longrightarrow> y \<in> set xs \<Longrightarrow> cmp (hd (js_sort cmp xs)) y \<le> 0"
proof -
  assume "xs \<noteq> []" "y \<in> set xs"
  then have y: "y \<in> set (js_sort cmp xs)" by simp
  then obtain z zs where zs: "js_sort cmp xs = z # zs" by (cases "js_sort cmp xs") auto
  with y sort_sorted [of xs] show ?thesis
    using cmp_total [of y y] by auto
qed

end

text \<open>A comparator that compares keys in a linear order meets the contract.\<close>

locale key_comparator =
  fixes cmp :: "'a \<Rightarrow> 'a \<Rightarrow> int"
    and key :: "'a \<Rightarrow> 'k :: linorder"
  assumes cmp_key: "cmp x y \<le> 0 \<longleftrightarrow> key x \<le> key y"

sublocale key_comparator \<subseteq> comparator cmp
  by unfold_locales (auto simp: cmp_key)

context key_comparator begin

lemma sort_keys_sorted: "sorted (map key (js_sort cmp xs))"
  using sort_sorted [of xs] by (simp add: cmp_key sorted_wrt_map)

lemma sort_keys_stable: "filter (\<lambda>x. key x = k) (js_sort cmp xs) = filter (\<lambda>x. key x = k) xs"
proof (cases "\<exists>x \<in> set xs. key x = k")
  case True
  then obtain x where "key x = k" by blast
  then have "equiv x = (\<lambda>y. key y = k)" by (intro ext) (auto simp: equiv_def cmp_key)
  then show ?thesis using sort_stable [of x xs] by simp
next
  case False
  then show ?thesis by (simp add: filter_empty_conv)
qed

end

subsection \<open>Caches keyed by an id\<close>

text \<open>
  The lists the services keep: \<open>xs.filter(x => x.id !== k)\<close> and
  \<open>xs.map(x => x.id === k ? f x : x)\<close>.
\<close>

definition drop_key :: "('a \<Rightarrow> 'k) \<Rightarrow> 'k \<Rightarrow> 'a list \<Rightarrow> 'a list" where
  "drop_key key k xs = filter (\<lambda>x. key x \<noteq> k) xs"

definition update_key :: "('a \<Rightarrow> 'k) \<Rightarrow> 'k \<Rightarrow> ('a \<Rightarrow> 'a) \<Rightarrow> 'a list \<Rightarrow> 'a list" where
  "update_key key k f xs = map (\<lambda>x. if key x = k then f x else x) xs"

lemma drop_key_absent [simp]: "k \<notin> key ` set (drop_key key k xs)"
  by (auto simp: drop_key_def)

lemma set_drop_key: "set (drop_key key k xs) = {x \<in> set xs. key x \<noteq> k}"
  by (auto simp: drop_key_def)

lemma drop_key_idem [simp]: "drop_key key k (drop_key key k xs) = drop_key key k xs"
  by (simp add: drop_key_def)

lemma distinct_drop_key: "distinct (map key xs) \<Longrightarrow> distinct (map key (drop_key key k xs))"
  by (simp add: drop_key_def distinct_map_filter)

lemma length_drop_key_le: "length (drop_key key k xs) \<le> length xs"
  by (simp add: drop_key_def)

lemma length_update_key [simp]: "length (update_key key k f xs) = length xs"
  by (simp add: update_key_def)

lemma update_key_keys:
  "(\<And>x. key x = k \<Longrightarrow> key (f x) = k) \<Longrightarrow> map key (update_key key k f xs) = map key xs"
  by (simp add: update_key_def)

lemma update_key_absent: "k \<notin> key ` set xs \<Longrightarrow> update_key key k f xs = xs"
  by (induction xs) (auto simp: update_key_def)

lemma update_key_nth:
  "i < length xs \<Longrightarrow> update_key key k f xs ! i = (if key (xs ! i) = k then f (xs ! i) else xs ! i)"
  by (simp add: update_key_def)

subsection \<open>Optional values\<close>

text \<open>\<open>x ?? d\<close> on a value that is \<open>null\<close> or missing.\<close>

definition nullish :: "'a option \<Rightarrow> 'a \<Rightarrow> 'a" where
  "nullish x d = (case x of None \<Rightarrow> d | Some v \<Rightarrow> v)"

lemma nullish_simps [simp]: "nullish None d = d" "nullish (Some v) d = v"
  by (simp_all add: nullish_def)

end
