(* ===== verification/JsStrings.thy ===== *)
theory JsStrings
  imports Prelude "HOL-Library.Char_ord" "HOL-Library.List_Lexorder"
begin

text \<open>
  The string operations of JavaScript the code uses. A string of the model is a list of
  characters, one per UTF-16 code unit of the program's string; the 256 values of
  \<open>char\<close> are read as Windows-1252, which covers every literal of the code and both of its
  languages (the em dash is 0x97, the ellipsis 0x85, the bullet 0x95, the degree sign 0xB0),
  so lengths and slices are those of the program. \<open>s < t\<close> on strings is the library's
  lexicographic order on the characters.
\<close>

definition em_dash :: string where "em_dash = [CHR 0x97]"
definition ellipsis :: string where "ellipsis = [CHR 0x85]"
definition bullets :: string where "bullets = [CHR 0x95, CHR 0x95, CHR 0x95]"

lemmas js_literals = em_dash_def ellipsis_def bullets_def

subsection \<open>Numbers in decimal\<close>

definition digit_char :: "nat \<Rightarrow> char" where
  "digit_char d = char_of (48 + d)"

definition digit_val :: "char \<Rightarrow> nat" where
  "digit_val c = of_char c - 48"

fun nat_str :: "nat \<Rightarrow> string" where
  "nat_str n = (if n < 10 then [digit_char n] else nat_str (n div 10) @ [digit_char (n mod 10)])"

declare nat_str.simps [simp del]

definition int_str :: "int \<Rightarrow> string" where
  "int_str i = (if i < 0 then ''-'' @ nat_str (nat (- i)) else nat_str (nat i))"

definition str_nat :: "string \<Rightarrow> nat" where
  "str_nat s = foldl (\<lambda>a c. 10 * a + digit_val c) 0 s"

definition is_digit :: "char \<Rightarrow> bool" where
  "is_digit c \<longleftrightarrow> 48 \<le> (of_char c :: nat) \<and> (of_char c :: nat) \<le> 57"

lemma of_char_digit_char: "d < 10 \<Longrightarrow> (of_char (digit_char d) :: nat) = 48 + d"
  by (simp add: digit_char_def)

lemma digit_val_digit_char [simp]: "d < 10 \<Longrightarrow> digit_val (digit_char d) = d"
  by (simp add: digit_val_def of_char_digit_char)

lemma is_digit_digit_char [simp]: "d < 10 \<Longrightarrow> is_digit (digit_char d)"
  by (simp add: is_digit_def of_char_digit_char)

lemma str_nat_snoc: "str_nat (s @ [c]) = 10 * str_nat s + digit_val c"
  by (simp add: str_nat_def)

lemma str_nat_nat_str [simp]: "str_nat (nat_str n) = n"
proof (induction n rule: nat_str.induct)
  case (1 n)
  show ?case
  proof (cases "n < 10")
    case True
    then show ?thesis by (simp add: nat_str.simps [of n] str_nat_def)
  next
    case False
    with "1.IH" have "str_nat (nat_str n) = 10 * (n div 10) + n mod 10"
      by (simp add: nat_str.simps [of n] str_nat_snoc)
    then show ?thesis by simp
  qed
qed

lemma nat_str_inject [simp]: "nat_str m = nat_str n \<longleftrightarrow> m = n"
  by (metis str_nat_nat_str)

lemma nat_str_digits: "c \<in> set (nat_str n) \<Longrightarrow> is_digit c"
proof (induction n rule: nat_str.induct)
  case (1 n)
  then show ?case by (cases "n < 10") (auto simp: nat_str.simps [of n])
qed

lemma nat_str_nonempty [simp]: "nat_str n \<noteq> []"
  by (subst nat_str.simps) simp

lemma nat_str_no_dash: "CHR ''-'' \<notin> set (nat_str n)"
  using nat_str_digits [of "CHR ''-''" n] by (auto simp: is_digit_def)

lemma length_nat_str_two: "n < 100 \<Longrightarrow> length (nat_str n) \<le> 2"
proof -
  assume "n < 100"
  then have "n div 10 < 10" by simp
  then show ?thesis by (simp add: nat_str.simps [of n] nat_str.simps [of "n div 10"])
qed

subsection \<open>Searching and cutting\<close>

fun is_prefix :: "string \<Rightarrow> string \<Rightarrow> bool" where
  "is_prefix [] _ = True"
| "is_prefix (_ # _) [] = False"
| "is_prefix (a # as) (b # bs) = (a = b \<and> is_prefix as bs)"

lemma is_prefix_iff: "is_prefix p s \<longleftrightarrow> (\<exists>t. s = p @ t)"
  by (induction p s rule: is_prefix.induct) auto

text \<open>\<open>hay.includes(needle)\<close>\<close>

fun includes_str :: "string \<Rightarrow> string \<Rightarrow> bool" where
  "includes_str [] needle = (needle = [])"
| "includes_str (c # cs) needle = (is_prefix needle (c # cs) \<or> includes_str cs needle)"

lemma includes_str_iff: "includes_str hay needle \<longleftrightarrow> (\<exists>a b. hay = a @ needle @ b)"
proof (induction hay)
  case (Cons c cs)
  have "(\<exists>a b. c # cs = a @ needle @ b) \<longleftrightarrow>
        (\<exists>b. c # cs = needle @ b) \<or> (\<exists>a b. cs = a @ needle @ b)"
    by (metis append_Cons append_Nil list.exhaust list.inject)
  with Cons show ?case by (simp add: is_prefix_iff)
qed simp

lemma includes_str_Nil [simp]: "includes_str hay []"
  by (cases hay) simp_all

text \<open>\<open>s.replace(pat, rep)\<close> with a string pattern: the first occurrence.\<close>

fun replace_first :: "string \<Rightarrow> string \<Rightarrow> string \<Rightarrow> string" where
  "replace_first pat rep [] = (if pat = [] then rep else [])"
| "replace_first pat rep (c # cs) =
     (if is_prefix pat (c # cs) then rep @ drop (length pat) (c # cs)
      else c # replace_first pat rep cs)"

lemma replace_first_absent:
  "pat \<noteq> [] \<Longrightarrow> \<not> includes_str s pat \<Longrightarrow> replace_first pat rep s = s"
  by (induction s) auto

text \<open>\<open>parts.join(sep)\<close>\<close>

fun join_with :: "string \<Rightarrow> string list \<Rightarrow> string" where
  "join_with sep [] = []"
| "join_with sep [x] = x"
| "join_with sep (x # y # ys) = x @ sep @ join_with sep (y # ys)"

text \<open>\<open>s.split(c)\<close> for a one-character separator: always at least one part.\<close>

fun split_char :: "char \<Rightarrow> string \<Rightarrow> string list" where
  "split_char c [] = [[]]"
| "split_char c (d # ds) =
     (if d = c then [] # split_char c ds
      else (case split_char c ds of [] \<Rightarrow> [[d]] | w # ws \<Rightarrow> (d # w) # ws))"

lemma split_char_nonempty [simp]: "split_char c s \<noteq> []"
  by (cases "(c, s)" rule: split_char.cases) (auto split: list.split)

lemma join_split_char: "join_with [c] (split_char c s) = s"
proof (induction s)
  case (Cons d ds)
  obtain w ws where w: "split_char c ds = w # ws" by (cases "split_char c ds") auto
  with Cons show ?case by (cases ws) auto
qed simp

lemma split_char_no_sep: "w \<in> set (split_char c s) \<Longrightarrow> c \<notin> set w"
proof (induction s arbitrary: w)
  case (Cons d ds)
  then show ?case by (cases "split_char c ds") (auto split: if_splits)
qed simp

lemma split_char_single: "c \<notin> set w \<Longrightarrow> split_char c w = [w]"
  by (induction w) auto

lemma split_char_append:
  "c \<notin> set w \<Longrightarrow> split_char c (w @ c # s) = w # split_char c s"
  by (induction w) auto

lemma split_join_char:
  "xs \<noteq> [] \<Longrightarrow> \<forall>x \<in> set xs. c \<notin> set x \<Longrightarrow> split_char c (join_with [c] xs) = xs"
  by (induction "[c]" xs rule: join_with.induct) (simp_all add: split_char_append split_char_single)

text \<open>\<open>s.indexOf(c)\<close> for one character, \<open>-1\<close> when it is absent.\<close>

definition index_of_char :: "char \<Rightarrow> string \<Rightarrow> int" where
  "index_of_char c s = (if c \<in> set s then int (length (takeWhile (\<lambda>d. d \<noteq> c) s)) else - 1)"

text \<open>\<open>s.padStart(n, c)\<close>\<close>

definition pad_start :: "nat \<Rightarrow> char \<Rightarrow> string \<Rightarrow> string" where
  "pad_start n c s = replicate (n - length s) c @ s"

lemma length_pad_start: "length (pad_start n c s) = max n (length s)"
  by (simp add: pad_start_def)

text \<open>\<open>s.replaceAll(c, rep)\<close> for one character.\<close>

definition replace_all_char :: "char \<Rightarrow> string \<Rightarrow> string \<Rightarrow> string" where
  "replace_all_char c rep s = concat (map (\<lambda>d. if d = c then rep else [d]) s)"

subsection \<open>Comparing\<close>

text \<open>
  The order of \<open><\<close> on strings as a comparator. The order of \<open>localeCompare\<close> depends on the
  locale and the implementation, so it is an argument wherever the code sorts by it; on
  timestamps of one format it is this order.
\<close>

definition code_unit_cmp :: "string \<Rightarrow> string \<Rightarrow> int" where
  "code_unit_cmp a b = (if a = b then 0 else if a < b then - 1 else 1)"

lemma code_unit_cmp_le [simp]: "code_unit_cmp a b \<le> 0 \<longleftrightarrow> a \<le> b"
  by (auto simp: code_unit_cmp_def)

subsection \<open>White space and case\<close>

definition is_space :: "char \<Rightarrow> bool" where
  "is_space c \<longleftrightarrow> (let n = (of_char c :: nat) in (9 \<le> n \<and> n \<le> 13) \<or> n = 32 \<or> n = 160)"

definition trim :: "string \<Rightarrow> string" where
  "trim s = rev (dropWhile is_space (rev (dropWhile is_space s)))"

lemma trim_idem [simp]: "trim (trim s) = trim s"
proof -
  have hd: "xs = [] \<or> \<not> is_space (hd xs)" if "xs = dropWhile is_space ys" for xs ys
    using that hd_dropWhile by blast
  define t where "t = dropWhile is_space s"
  define u where "u = rev (dropWhile is_space (rev t))"
  have u: "trim s = u" by (simp add: trim_def t_def u_def)
  show ?thesis
  proof (cases "u = []")
    case True
    with u have "trim s = []" by simp
    moreover have "trim [] = []" by (simp add: trim_def)
    ultimately show ?thesis by simp
  next
    case False
    obtain v where tv: "t = u @ v"
      unfolding u_def by (metis rev_append rev_rev_ident takeWhile_dropWhile_id)
    with False have "hd u = hd t" "t \<noteq> []" by auto
    with hd [OF t_def] have "\<not> is_space (hd u)" by auto
    with False have d: "dropWhile is_space u = u" by (cases u) auto
    have "dropWhile is_space (rev u) = rev u" by (simp add: u_def)
    with d u show ?thesis by (simp add: trim_def)
  qed
qed

text \<open>\<open>s.split(/\s+/)\<close>: the parts between the maximal runs of white space.\<close>

function split_space :: "string \<Rightarrow> string list" where
  "split_space s =
     (let w = takeWhile (\<lambda>c. \<not> is_space c) s; r = dropWhile (\<lambda>c. \<not> is_space c) s
      in if r = [] then [w] else w # split_space (dropWhile is_space r))"
  by pat_completeness auto
termination
proof (relation "measure length", goal_cases)
  case (2 s w r)
  then have ne: "r \<noteq> []" by simp
  then have "is_space (hd r)"
    using hd_dropWhile [of "\<lambda>c. \<not> is_space c" s] unfolding 2(2) by simp
  with ne obtain c cs where r: "r = c # cs" "is_space c" by (cases r) auto
  have "length (dropWhile is_space cs) \<le> length cs" by (rule length_dropWhile_le)
  also have "\<dots> < length r" using r by simp
  also have "\<dots> \<le> length s" unfolding 2(2) by (rule length_dropWhile_le)
  finally show ?case using r by simp
qed simp

declare split_space.simps [simp del]

lemma split_space_nonempty [simp]: "split_space s \<noteq> []"
  by (subst split_space.simps) (simp add: Let_def)

text \<open>
  Lower and upper case over the Windows-1252 characters. Two of them (the florin sign and
  the micro sign) have an upper case outside the set and are left as they are.
\<close>

definition lower_char :: "char \<Rightarrow> char" where
  "lower_char c =
     (let n = (of_char c :: nat) in
      if (65 \<le> n \<and> n \<le> 90) \<or> (192 \<le> n \<and> n \<le> 222 \<and> n \<noteq> 215) then char_of (n + 32)
      else if n = 138 \<or> n = 140 \<or> n = 142 then char_of (n + 16)
      else if n = 159 then char_of (255 :: nat)
      else c)"

definition to_lower :: "string \<Rightarrow> string" where
  "to_lower s = map lower_char s"

definition upper_char :: "char \<Rightarrow> string" where
  "upper_char c =
     (let n = (of_char c :: nat) in
      if (97 \<le> n \<and> n \<le> 122) \<or> (224 \<le> n \<and> n \<le> 254 \<and> n \<noteq> 247) then [char_of (n - 32)]
      else if n = 154 \<or> n = 156 \<or> n = 158 then [char_of (n - 16)]
      else if n = 255 then [char_of (159 :: nat)]
      else if n = 223 then ''SS''
      else [c])"

definition to_upper :: "string \<Rightarrow> string" where
  "to_upper s = concat (map upper_char s)"

lemma length_to_lower [simp]: "length (to_lower s) = length s"
  by (simp add: to_lower_def)

lemma to_lower_append [simp]: "to_lower (s @ t) = to_lower s @ to_lower t"
  by (simp add: to_lower_def)

end
