(* ===== verification/JsValues.thy ===== *)
theory JsValues
  imports JsStrings
begin

text \<open>
  Numbers and untyped values of JavaScript. A number is a real or one of the three special
  values; arithmetic follows the special-value rules of the language and is exact on finite
  numbers (rounding to 53 bits and the sign of zero are not modelled). A value of unknown
  type, such as a parsed message, is a \<open>json\<close>.
\<close>

section \<open>Numbers\<close>

datatype number = Fin real | PosInf | NegInf | NaN

fun is_finite :: "number \<Rightarrow> bool" where
  "is_finite (Fin _) = True"
| "is_finite _ = False"

fun num_less :: "number \<Rightarrow> number \<Rightarrow> bool" where
  "num_less NaN _ = False"
| "num_less _ NaN = False"
| "num_less (Fin a) (Fin b) = (a < b)"
| "num_less (Fin a) PosInf = True"
| "num_less (Fin a) NegInf = False"
| "num_less NegInf (Fin b) = True"
| "num_less NegInf PosInf = True"
| "num_less NegInf NegInf = False"
| "num_less PosInf _ = False"

fun num_leq :: "number \<Rightarrow> number \<Rightarrow> bool" where
  "num_leq NaN _ = False"
| "num_leq _ NaN = False"
| "num_leq (Fin a) (Fin b) = (a \<le> b)"
| "num_leq (Fin a) PosInf = True"
| "num_leq (Fin a) NegInf = False"
| "num_leq NegInf _ = True"
| "num_leq PosInf PosInf = True"
| "num_leq PosInf _ = False"

fun num_neg :: "number \<Rightarrow> number" where
  "num_neg (Fin a) = Fin (- a)"
| "num_neg PosInf = NegInf"
| "num_neg NegInf = PosInf"
| "num_neg NaN = NaN"

fun num_add :: "number \<Rightarrow> number \<Rightarrow> number" where
  "num_add NaN _ = NaN"
| "num_add _ NaN = NaN"
| "num_add (Fin a) (Fin b) = Fin (a + b)"
| "num_add (Fin a) b = b"
| "num_add a (Fin b) = a"
| "num_add PosInf PosInf = PosInf"
| "num_add NegInf NegInf = NegInf"
| "num_add PosInf NegInf = NaN"
| "num_add NegInf PosInf = NaN"

definition num_sub :: "number \<Rightarrow> number \<Rightarrow> number" where
  "num_sub a b = num_add a (num_neg b)"

definition signed_inf :: "bool \<Rightarrow> number" where
  "signed_inf pos = (if pos then PosInf else NegInf)"

fun num_mul :: "number \<Rightarrow> number \<Rightarrow> number" where
  "num_mul NaN _ = NaN"
| "num_mul _ NaN = NaN"
| "num_mul (Fin a) (Fin b) = Fin (a * b)"
| "num_mul (Fin a) PosInf = (if a = 0 then NaN else signed_inf (0 < a))"
| "num_mul (Fin a) NegInf = (if a = 0 then NaN else signed_inf (a < 0))"
| "num_mul PosInf (Fin b) = (if b = 0 then NaN else signed_inf (0 < b))"
| "num_mul NegInf (Fin b) = (if b = 0 then NaN else signed_inf (b < 0))"
| "num_mul PosInf PosInf = PosInf"
| "num_mul NegInf NegInf = PosInf"
| "num_mul PosInf NegInf = NegInf"
| "num_mul NegInf PosInf = NegInf"

text \<open>Division by a constant of the code, which is never zero.\<close>

definition num_div_const :: "number \<Rightarrow> real \<Rightarrow> number" where
  "num_div_const a c = num_mul a (Fin (1 / c))"

fun num_sqrt :: "number \<Rightarrow> number" where
  "num_sqrt (Fin a) = (if a < 0 then NaN else Fin (sqrt a))"
| "num_sqrt PosInf = PosInf"
| "num_sqrt _ = NaN"

fun num_abs :: "number \<Rightarrow> number" where
  "num_abs (Fin a) = Fin (abs a)"
| "num_abs NegInf = PosInf"
| "num_abs x = x"

text \<open>\<open>Math.min\<close> and \<open>Math.max\<close> of two numbers: \<open>NaN\<close> wins.\<close>

definition num_min :: "number \<Rightarrow> number \<Rightarrow> number" where
  "num_min a b = (if a = NaN \<or> b = NaN then NaN else if num_less a b then a else b)"

definition num_max :: "number \<Rightarrow> number \<Rightarrow> number" where
  "num_max a b = (if a = NaN \<or> b = NaN then NaN else if num_less a b then b else a)"

lemma num_less_leq: "num_less a b \<Longrightarrow> num_leq a b"
  by (cases a; cases b) auto

lemma num_leq_trans: "num_leq a b \<Longrightarrow> num_leq b c \<Longrightarrow> num_leq a c"
  by (cases a; cases b; cases c) auto

lemma num_leq_refl: "num_leq a a \<longleftrightarrow> a \<noteq> NaN"
  by (cases a) auto

lemma num_less_iff: "num_less a b \<longleftrightarrow> a \<noteq> NaN \<and> b \<noteq> NaN \<and> \<not> num_leq b a"
  by (cases a; cases b) auto

text \<open>\<open>Math.max(lo, Math.min(hi, x))\<close> stays in the range, unless \<open>x\<close> is \<open>NaN\<close>.\<close>

lemma num_clamp_range:
  assumes "num_leq lo hi" "x \<noteq> NaN"
  shows "num_leq lo (num_max lo (num_min hi x)) \<and> num_leq (num_max lo (num_min hi x)) hi"
  using assms unfolding num_max_def num_min_def
  by (cases lo; cases hi; cases x) auto

text \<open>\<open>x.toFixed(d)\<close>: the decimal with \<open>d\<close> digits nearest to the exact value of \<open>x\<close>, the
  larger one of two; from \<open>1e21\<close> on it is \<open>String(x)\<close>, the argument \<open>ns\<close>.\<close>

definition fixed_digits :: "nat \<Rightarrow> nat \<Rightarrow> string" where
  "fixed_digits d n =
     (if d = 0 then nat_str n
      else nat_str (n div 10 ^ d) @ ''.'' @ pad_start d (CHR ''0'') (nat_str (n mod 10 ^ d)))"

definition fixed_real :: "nat \<Rightarrow> real \<Rightarrow> string" where
  "fixed_real d r =
     (if r < 0 then ''-'' else []) @ fixed_digits d (nat \<lfloor>\<bar>r\<bar> * 10 ^ d + 1 / 2\<rfloor>)"

fun to_fixed :: "(number \<Rightarrow> string) \<Rightarrow> nat \<Rightarrow> number \<Rightarrow> string" where
  "to_fixed ns d (Fin r) = (if \<bar>r\<bar> < 10 ^ 21 then fixed_real d r else ns (Fin r))"
| "to_fixed ns d PosInf = ''Infinity''"
| "to_fixed ns d NegInf = ''-Infinity''"
| "to_fixed ns d NaN = ''NaN''"

section \<open>Values of unknown type\<close>

datatype json =
    JUndefined
  | JNull
  | JBool bool
  | JNumber number
  | JString string
  | JArray "json list"
  | JObject "(string \<times> json) list"

fun typeof_string :: "json \<Rightarrow> bool" where
  "typeof_string (JString _) = True"
| "typeof_string _ = False"

fun typeof_number :: "json \<Rightarrow> bool" where
  "typeof_number (JNumber _) = True"
| "typeof_number _ = False"

fun typeof_boolean :: "json \<Rightarrow> bool" where
  "typeof_boolean (JBool _) = True"
| "typeof_boolean _ = False"

text \<open>\<open>typeof v === 'object' && v !== null\<close>, the local \<open>isRecord\<close> of two modules: arrays
  pass it too.\<close>

fun is_record :: "json \<Rightarrow> bool" where
  "is_record (JArray _) = True"
| "is_record (JObject _) = True"
| "is_record _ = False"

text \<open>\<open>v.k\<close> and \<open>'k' in v\<close> for the property names the code reads, none of which an array has.\<close>

fun prop_of :: "string \<Rightarrow> json \<Rightarrow> json" where
  "prop_of k (JObject ps) = (case map_of ps k of None \<Rightarrow> JUndefined | Some v \<Rightarrow> v)"
| "prop_of k _ = JUndefined"

fun has_prop :: "string \<Rightarrow> json \<Rightarrow> bool" where
  "has_prop k (JObject ps) = (map_of ps k \<noteq> None)"
| "has_prop k _ = False"

text \<open>
  \<open>String(v)\<close>. An array is its elements joined by commas (\<open>null\<close> and \<open>undefined\<close> are
  empty); an object is the fixed text of \<open>Object.prototype\<close>, unless a property named
  \<open>toString\<close> hides that method, which raises a \<open>TypeError\<close> (\<open>None\<close>). \<open>ns\<close> is the number
  formatting of the language.
\<close>

fun string_of :: "(number \<Rightarrow> string) \<Rightarrow> json \<Rightarrow> string option"
  and strings_of :: "(number \<Rightarrow> string) \<Rightarrow> json list \<Rightarrow> string list option" where
  "string_of ns JUndefined = Some ''undefined''"
| "string_of ns JNull = Some ''null''"
| "string_of ns (JBool b) = Some (if b then ''true'' else ''false'')"
| "string_of ns (JNumber n) = Some (ns n)"
| "string_of ns (JString s) = Some s"
| "string_of ns (JArray vs) = map_option (join_with '','') (strings_of ns vs)"
| "string_of ns (JObject ps) = (if map_of ps ''toString'' = None then Some ''[object Object]'' else None)"
| "strings_of ns [] = Some []"
| "strings_of ns (v # vs) =
     (case (if v = JNull \<or> v = JUndefined then Some [] else string_of ns v) of
        None \<Rightarrow> None
      | Some s \<Rightarrow> map_option ((#) s) (strings_of ns vs))"

lemma typeof_string_iff: "typeof_string v \<longleftrightarrow> (\<exists>s. v = JString s)"
  by (cases v) auto

lemma typeof_number_iff: "typeof_number v \<longleftrightarrow> (\<exists>n. v = JNumber n)"
  by (cases v) auto

lemma typeof_boolean_iff: "typeof_boolean v \<longleftrightarrow> (\<exists>b. v = JBool b)"
  by (cases v) auto

lemma prop_not_record: "\<not> is_record v \<Longrightarrow> prop_of k v = JUndefined"
  by (cases v) auto

lemmas typeof_iffs = typeof_string_iff typeof_number_iff typeof_boolean_iff

end
