(* ===== verification/JsTime.thy ===== *)
theory JsTime
  imports JsValues
begin

text \<open>
  Timestamps. \<open>new Date(s).getTime()\<close> is the argument \<open>getTime\<close> of every definition that uses
  it: which strings the language parses, apart from its own format, is left to the
  implementation; a string it cannot parse gives \<open>NaN\<close>. A list is sorted by the difference of
  two times, where \<open>NaN\<close> counts as \<open>0\<close>.
\<close>

definition cmp_value :: "number \<Rightarrow> int" where
  "cmp_value x = (if num_less x (Fin 0) then - 1 else if num_less (Fin 0) x then 1 else 0)"

definition by_time :: "('b \<Rightarrow> number) \<Rightarrow> ('a \<Rightarrow> 'b) \<Rightarrow> 'a \<Rightarrow> 'a \<Rightarrow> int" where
  "by_time getTime f a b = cmp_value (num_sub (getTime (f a)) (getTime (f b)))"

fun real_part :: "number \<Rightarrow> real" where
  "real_part (Fin r) = r"
| "real_part _ = 0"

lemma finite_iff: "is_finite x \<longleftrightarrow> x = Fin (real_part x)"
  by (cases x) simp_all

lemma cmp_value_Fin: "cmp_value (num_sub (Fin a) (Fin b)) \<le> 0 \<longleftrightarrow> a \<le> b"
  by (simp add: cmp_value_def num_sub_def)

interpretation real_key: key_comparator "\<lambda>x y. cmp_value (num_sub (Fin (k x)) (Fin (k y)))" k for k
  by unfold_locales (rule cmp_value_Fin)

text \<open>The same comparator with its arguments swapped: newest first.\<close>

interpretation real_key_desc:
  comparator "\<lambda>x y. cmp_value (num_sub (Fin (k y)) (Fin (k x)))" for k
  by unfold_locales (auto simp: cmp_value_Fin)

abbreviation (input) time_at :: "('b \<Rightarrow> number) \<Rightarrow> ('a \<Rightarrow> 'b) \<Rightarrow> 'a \<Rightarrow> real" where
  "time_at getTime f x \<equiv> real_part (getTime (f x))"

lemma by_time_finite:
  "is_finite (getTime (f a)) \<Longrightarrow> is_finite (getTime (f b)) \<Longrightarrow>
   by_time getTime f a b = cmp_value (num_sub (Fin (time_at getTime f a)) (Fin (time_at getTime f b)))"
  by (cases "getTime (f a)"; cases "getTime (f b)") (simp_all add: by_time_def)

lemma sort_by_time_eq:
  assumes "\<forall>x \<in> set xs. is_finite (getTime (f x))"
  shows "js_sort (by_time getTime f) xs =
    js_sort (\<lambda>x y. cmp_value (num_sub (Fin (time_at getTime f x)) (Fin (time_at getTime f y)))) xs"
  using assms by (intro js_sort_cong) (simp add: by_time_finite)

lemma sort_by_time_desc_eq:
  assumes "\<forall>x \<in> set xs. is_finite (getTime (f x))"
  shows "js_sort (\<lambda>x y. by_time getTime f y x) xs =
    js_sort (\<lambda>x y. cmp_value (num_sub (Fin (time_at getTime f y)) (Fin (time_at getTime f x)))) xs"
  using assms by (intro js_sort_cong) (simp add: by_time_finite)

lemma sort_by_time_sorted:
  "\<forall>x \<in> set xs. is_finite (getTime (f x)) \<Longrightarrow>
   sorted (map (time_at getTime f) (js_sort (by_time getTime f) xs))"
  using real_key.sort_keys_sorted [of "time_at getTime f" xs] by (simp add: sort_by_time_eq)

lemma sort_by_time_desc_sorted:
  "\<forall>x \<in> set xs. is_finite (getTime (f x)) \<Longrightarrow>
   sorted_wrt (\<ge>) (map (time_at getTime f) (js_sort (\<lambda>x y. by_time getTime f y x) xs))"
  using real_key_desc.sort_sorted [of "time_at getTime f" xs]
  by (simp add: sort_by_time_desc_eq cmp_value_Fin sorted_wrt_map)

end
