(* ===== verification/ApiTypes.thy ===== *)
theory ApiTypes
  imports JsValues
begin

text \<open>
  The wire types of \<open>types/api\<close>: one record or datatype per interface or union, the fields
  in the source's order, prefixed by the type they belong to. A field of type \<open>T | null\<close>
  or \<open>T?\<close> is an \<open>option\<close>. Timestamps stay the strings they are on the wire.
\<close>

section \<open>Envelopes and errors\<close>

text \<open>The \<open>data\<close> of an envelope is typed \<open>T\<close>, but the services test it for being absent
  (\<open>!response.data\<close>), so it is an option.\<close>

record 'a envelope =
  env_status_code :: int
  env_message :: string
  env_data :: "'a option"

record api_error =
  err_status :: int
  err_message :: string
  err_code :: "string option"

section \<open>Users\<close>

datatype user_role = RoleUser | RoleSuperAdmin

record auth_user =
  au_id :: string
  au_email :: string
  au_name :: string

record auth_session =
  as_user :: auth_user

record oauth_authorize_response =
  oa_authUrl :: string

datatype oauth_provider = Google | Discord | Github

record user =
  u_id :: string
  u_email :: string
  u_email_verified :: bool
  u_image :: "string option"
  u_name :: string
  u_lastname :: string
  u_role :: user_role
  u_must_change_password :: bool
  u_created_at :: string

record user_device =
  ud_id :: string
  ud_uuid_firmware :: string
  ud_name :: string

record pagination_meta =
  pm_page :: int
  pm_page_size :: int
  pm_total :: int
  pm_total_pages :: int

record user_with_devices = user +
  uwd_devices :: "user_device list"
  uwd_pagination :: pagination_meta

record created_user = user +
  cu_temporary_password :: string

record create_user_dto =
  cud_email :: string
  cud_name :: string
  cud_lastname :: "string option"

record update_user_dto =
  uud_name :: "string option"
  uud_lastname :: "string option"

record sign_in_credentials =
  si_email :: string
  si_password :: string

record sign_up_credentials =
  su_email :: string
  su_password :: string
  su_name :: string

record change_password_dto =
  cp_old_password :: string
  cp_new_password :: string

datatype language = En | Es

record request_password_recovery_dto =
  rpr_email :: string
  rpr_locale :: language
  rpr_reset_password_url :: string

record consume_password_recovery_dto =
  cpr_token :: string
  cpr_new_password :: string

record user_filter_counts =
  ufc_all :: int
  ufc_admin :: int
  ufc_user :: int
  ufc_verified :: int
  ufc_unverified :: int

datatype user_email_filter = EmailAll | EmailVerified | EmailUnverified

datatype user_sort_key = CreatedDesc | CreatedAsc | NameAsc

section \<open>Devices\<close>

datatype vehicle_type = Bicycle | Motorcycle | Car | Truck | Van | OtherVehicle

datatype access_role = Owner | Editor | Viewer

record device =
  d_id :: string
  d_uuid_firmware :: string
  d_name :: string
  d_vehicle_type :: vehicle_type
  d_created_at :: string
  d_last_contact_at :: "string option"

record device_with_access = device +
  da_access_role :: access_role

record device_access_list_item =
  dal_user_id :: string
  dal_name :: string
  dal_email :: string
  dal_role :: access_role
  dal_access_granted_at :: string

record device_detail = device_with_access +
  dd_users :: "device_access_list_item list"

record device_list_response =
  dlr_items :: "device_with_access list"
  dlr_pagination :: pagination_meta

record device_count_response =
  dcr_total :: int

record create_device_dto =
  cdd_uuid_firmware :: string
  cdd_name :: string
  cdd_vehicle_type :: vehicle_type

record update_device_dto =
  udd_name :: string
  udd_vehicle_type :: "vehicle_type option"

section \<open>API keys and share links\<close>

record api_key =
  k_id :: string
  k_created_at :: string
  k_last_used_at :: "string option"
  k_expires_at :: "string option"

record create_api_key_response =
  ck_id :: string
  ck_created_at :: string
  ck_plain_key :: string

record api_key_row =
  kr_id :: string
  kr_name :: string
  kr_device_name :: string
  kr_device_id :: string
  kr_created_at :: string

record device_share_link =
  sl_id :: string
  sl_created_at :: string
  sl_expires_at :: string

record created_device_share_link = device_share_link +
  sl_token :: string

section \<open>Locations\<close>

record location_point =
  lp_device_id :: string
  lp_recorded_at :: string
  lp_latitude :: number
  lp_longitude :: number
  lp_altitude :: "number option"
  lp_speed :: "number option"
  lp_accuracy :: "number option"
  lp_battery_voltage :: "number option"
  lp_signal_strength :: "number option"

record location_history_response =
  lh_items :: "location_point list"
  lh_pagination :: pagination_meta

record location_route_response =
  lr_items :: "location_point list"
  lr_total_points :: int
  lr_returned :: int
  lr_sampled :: bool

datatype presence_state = NeverSeen | OnlineMoving | OnlineStationary | Offline

record device_presence =
  dp_state :: presence_state
  dp_last_contact_at :: "string option"
  dp_expires_at :: "string option"

record live_location_snapshot =
  ls_device_id :: string
  ls_location :: "location_point option"
  ls_presence :: device_presence
  ls_server_time :: string

datatype live_stream_connection_state = Connecting | Live | Reconnecting | Fallback

record live_location_state =
  ll_snapshot :: "live_location_snapshot option"
  ll_route :: "location_point list"

record guest_location =
  gl_recorded_at :: string
  gl_latitude :: number
  gl_longitude :: number

record guest_live_snapshot =
  gs_device_name :: string
  gs_location :: "guest_location option"
  gs_presence_state :: presence_state
  gs_server_time :: string

section \<open>Reports and messages\<close>

record report_filter =
  rf_from :: string
  rf_to :: string
  rf_timeZone :: string
  rf_deviceIds :: "string list"
  rf_vehicleType :: "vehicle_type option"

record welcome_email_request =
  we_subject :: string
  we_first_name :: string
  we_temporary_password :: string
  we_email :: string
  we_locale :: language

record bootstrap_status =
  bs_needsSetup :: bool

section \<open>The strings behind the unions\<close>

fun role_str :: "user_role \<Rightarrow> string" where
  "role_str RoleUser = ''user''"
| "role_str RoleSuperAdmin = ''super_admin''"

fun language_str :: "language \<Rightarrow> string" where
  "language_str En = ''en''"
| "language_str Es = ''es''"

fun oauth_provider_str :: "oauth_provider \<Rightarrow> string" where
  "oauth_provider_str Google = ''google''"
| "oauth_provider_str Discord = ''discord''"
| "oauth_provider_str Github = ''github''"

fun vehicle_type_str :: "vehicle_type \<Rightarrow> string" where
  "vehicle_type_str Bicycle = ''bicycle''"
| "vehicle_type_str Motorcycle = ''motorcycle''"
| "vehicle_type_str Car = ''car''"
| "vehicle_type_str Truck = ''truck''"
| "vehicle_type_str Van = ''van''"
| "vehicle_type_str OtherVehicle = ''other''"

fun presence_state_str :: "presence_state \<Rightarrow> string" where
  "presence_state_str NeverSeen = ''never_seen''"
| "presence_state_str OnlineMoving = ''online_moving''"
| "presence_state_str OnlineStationary = ''online_stationary''"
| "presence_state_str Offline = ''offline''"

definition presence_state_strs :: "string list" where
  "presence_state_strs = [''never_seen'', ''online_moving'', ''online_stationary'', ''offline'']"

definition presence_of_str :: "string \<Rightarrow> presence_state option" where
  "presence_of_str s =
     map_of [(''never_seen'', NeverSeen), (''online_moving'', OnlineMoving),
             (''online_stationary'', OnlineStationary), (''offline'', Offline)] s"

lemma presence_roundtrip [simp]: "presence_of_str (presence_state_str p) = Some p"
  by (cases p) (simp_all add: presence_of_str_def)

lemma presence_of_str_iff: "presence_of_str s \<noteq> None \<longleftrightarrow> s \<in> set presence_state_strs"
  by (auto simp: presence_of_str_def presence_state_strs_def split: if_splits)

lemma presence_of_str_Some: "presence_of_str s = Some p \<Longrightarrow> s = presence_state_str p"
  by (auto simp: presence_of_str_def split: if_splits)

lemma vehicle_type_str_inject [simp]: "vehicle_type_str a = vehicle_type_str b \<longleftrightarrow> a = b"
  by (cases a; cases b) simp_all

end
