(* ===== verification/World.thy ===== *)
theory World
  imports ApiTypes
begin

text \<open>
  The state all islands of a page share: the atoms of the stores (\<open>lib/stores\<close>), the
  clock behind \<open>Date.now()\<close>, the browser's path, language and navigations, and the log of the requests
  handed to the two HTTP clients (\<open>lib/api/client.ts\<close>). A service adds its own
  \<open>useState\<close> fields to it as a record extension.

  The HTTP library (better-fetch) is not part of the repository. The outcome of each
  awaited call is an argument of the operation that makes it: a thrown value, or a result
  with its \<open>data\<close> and \<open>error\<close> fields.
\<close>

section \<open>Toasts\<close>

datatype toast_variant = ToastSuccess | ToastError | ToastWarning | ToastInfo

record toast_body =
  t_variant :: toast_variant
  t_title :: string
  t_message :: "string option"
  t_duration :: "int option"

record toast_item = toast_body +
  t_id :: string

definition mk_toast :: "toast_variant \<Rightarrow> string \<Rightarrow> string \<Rightarrow> toast_body" where
  "mk_toast v title msg = \<lparr>t_variant = v, t_title = title, t_message = Some msg, t_duration = None\<rparr>"

section \<open>The auth store\<close>

record auth_atoms =
  a_user :: "auth_user option"
  a_isAuthLoading :: bool
  a_profile :: "user option"
  a_isRoleLoaded :: bool
  a_mustChangePassword :: bool

definition initial_auth :: auth_atoms where
  "initial_auth = \<lparr>a_user = None, a_isAuthLoading = False, a_profile = None,
                   a_isRoleLoaded = False, a_mustChangePassword = False\<rparr>"

section \<open>Requests and outcomes\<close>

datatype http_client = AuthClient | ApiClient
datatype http_verb = GET | POST | PUT | DELETE

record request =
  rq_client :: http_client
  rq_verb :: http_verb
  rq_path :: string
  rq_query :: "(string \<times> json) list"
  rq_body :: "json option"

definition mk_request :: "http_client \<Rightarrow> http_verb \<Rightarrow> string \<Rightarrow> request" where
  "mk_request c v p = \<lparr>rq_client = c, rq_verb = v, rq_path = p, rq_query = [], rq_body = None\<rparr>"

text \<open>
  The values the code can catch. \<open>BetterFetchError\<close> and \<open>JsError\<close> are instances of
  \<open>Error\<close>; the first carries the status, the message of the \<open>Error\<close> and the parsed body
  as its \<open>cause\<close>. \<open>ApiObj\<close> is a plain object of the shape \<open>ApiError\<close>; \<open>PlainObj\<close> any
  other object, with its \<open>message\<close> property if it has one; \<open>Primitive\<close> anything else.
\<close>

record error_body =
  eb_message :: "string option"
  eb_code :: "string option"

datatype thrown =
    BetterFetchError int string "error_body option"
  | JsError string
  | ApiObj api_error
  | PlainObj "string option"
  | Primitive

text \<open>The message of the \<open>TypeError\<close> the language raises on a property of \<open>null\<close>.\<close>

definition null_property_error :: thrown where
  "null_property_error = JsError ''Cannot read properties of null''"

record fetch_error =
  fe_status :: int
  fe_message :: "string option"

record 'a fetch_result =
  fr_data :: "'a option"
  fr_error :: "fetch_error option"

definition fetched :: "'a \<Rightarrow> thrown + 'a fetch_result" where
  "fetched x = Inr \<lparr>fr_data = Some x, fr_error = None\<rparr>"

section \<open>The shared state\<close>

record world =
  w_toasts :: "toast_item list"
  w_counter :: nat
  w_now :: nat
  w_auth :: auth_atoms
  w_nav :: "string list"
  w_pathname :: string
  w_language :: string
  w_sent :: "request list"

definition initial_world :: world where
  "initial_world = \<lparr>w_toasts = [], w_counter = 0, w_now = 0, w_auth = initial_auth,
                    w_nav = [], w_pathname = ''/'', w_language = ''en'', w_sent = []\<rparr>"

type_synonym ('z, 'a) act = "('z world_scheme, thrown, 'a) io"

text \<open>Awaiting a client call: the request is sent, then the outcome is thrown or returned.\<close>

definition await_call :: "request \<Rightarrow> (thrown + 'a) \<Rightarrow> ('z, 'a) act" where
  "await_call rq out w =
     (case out of Inl e \<Rightarrow> (Inl e, w\<lparr>w_sent := w_sent w @ [rq]\<rparr>)
                | Inr x \<Rightarrow> (Inr x, w\<lparr>w_sent := w_sent w @ [rq]\<rparr>))"

lemma await_call_simps [simp]:
  "await_call rq (Inl e) w = (Inl e, w\<lparr>w_sent := w_sent w @ [rq]\<rparr>)"
  "await_call rq (Inr x) w = (Inr x, w\<lparr>w_sent := w_sent w @ [rq]\<rparr>)"
  by (simp_all add: await_call_def)

lemma snd_await_call: "snd (await_call rq out w) = w\<lparr>w_sent := w_sent w @ [rq]\<rparr>"
  by (cases out) simp_all

text \<open>A change of the auth atoms, with the rest of the shared state kept.\<close>

definition on_auth :: "(auth_atoms \<Rightarrow> auth_atoms) \<Rightarrow> 'z world_scheme \<Rightarrow> 'z world_scheme" where
  "on_auth f w = w\<lparr>w_auth := f (w_auth w)\<rparr>"

lemma on_auth_simps [simp]:
  "w_auth (on_auth f w) = f (w_auth w)" "w_toasts (on_auth f w) = w_toasts w"
  "w_counter (on_auth f w) = w_counter w" "w_now (on_auth f w) = w_now w"
  "w_nav (on_auth f w) = w_nav w" "w_sent (on_auth f w) = w_sent w"
  "w_pathname (on_auth f w) = w_pathname w" "w_language (on_auth f w) = w_language w"
  "world.more (on_auth f w) = world.more w"
  by (simp_all add: on_auth_def)

end
