(* ===== verification/Toasts.thy ===== *)
theory Toasts
  imports World
begin

text \<open>
  The toast store (\<open>lib/stores/toast.store.ts\<close>) and the provider that dismisses toasts
  after a delay (\<open>components/react/ui/ToastProvider.tsx\<close>).
\<close>

section \<open>The toast bus\<close>

definition TOAST_STACK_MAX :: nat where
  "TOAST_STACK_MAX = 5"

definition toast_id :: "nat \<Rightarrow> nat \<Rightarrow> string" where
  "toast_id now c = ''t-'' @ nat_str now @ ''-'' @ nat_str c"

definition next_id :: "('z, string) act" where
  "next_id w = (Inr (toast_id (w_now w) (w_counter w + 1)), w\<lparr>w_counter := w_counter w + 1\<rparr>)"

definition with_id :: "string \<Rightarrow> toast_body \<Rightarrow> toast_item" where
  "with_id i b = toast_body.extend b \<lparr>t_id = i\<rparr>"

definition trim_stack :: "toast_item list \<Rightarrow> toast_item list" where
  "trim_stack stack =
     (if length stack \<ge> TOAST_STACK_MAX then drop (length stack - TOAST_STACK_MAX + 1) stack
      else stack)"

definition toast_push :: "toast_body \<Rightarrow> ('z, string) act" where
  "toast_push item =
     io_bind next_id (\<lambda>i.
     io_then (io_modify (\<lambda>w. w\<lparr>w_toasts := trim_stack (w_toasts w) @ [with_id i item]\<rparr>))
     (io_return i))"

definition toast_dismiss :: "string \<Rightarrow> ('z, unit) act" where
  "toast_dismiss i = io_modify (\<lambda>w. w\<lparr>w_toasts := drop_key t_id i (w_toasts w)\<rparr>)"

definition toast_clear :: "('z, unit) act" where
  "toast_clear = io_modify (\<lambda>w. w\<lparr>w_toasts := []\<rparr>)"

lemma t_id_with_id [simp]: "t_id (with_id i b) = i"
  by (simp add: with_id_def toast_body.defs)

lemma body_with_id [simp]:
  "t_title (with_id i b) = t_title b" "t_message (with_id i b) = t_message b"
  "t_variant (with_id i b) = t_variant b" "t_duration (with_id i b) = t_duration b"
  by (simp_all add: with_id_def toast_body.defs)

text \<open>The state after a push: one counter step, and the stack's newest four with the new one.\<close>

definition pushed :: "toast_body \<Rightarrow> 'z world_scheme \<Rightarrow> 'z world_scheme" where
  "pushed b w = w\<lparr>w_counter := w_counter w + 1,
     w_toasts := trim_stack (w_toasts w) @ [with_id (toast_id (w_now w) (w_counter w + 1)) b]\<rparr>"

lemma toast_push_eq [io_simps]:
  "toast_push b w = (Inr (toast_id (w_now w) (w_counter w + 1)), pushed b w)"
  by (simp add: toast_push_def next_id_def pushed_def io_simps)

lemma pushed_frame [simp]:
  "w_auth (pushed b w) = w_auth w" "w_nav (pushed b w) = w_nav w" "w_now (pushed b w) = w_now w"
  "w_sent (pushed b w) = w_sent w" "w_counter (pushed b w) = w_counter w + 1"
  "w_pathname (pushed b w) = w_pathname w" "w_language (pushed b w) = w_language w" "world.more (pushed b w) = world.more w"
  by (simp_all add: pushed_def)

lemma toasts_pushed:
  "w_toasts (pushed b w) = trim_stack (w_toasts w) @ [with_id (toast_id (w_now w) (w_counter w + 1)) b]"
  by (simp add: pushed_def)

lemma length_trim_stack: "length (trim_stack xs) \<le> 4"
  by (simp add: trim_stack_def TOAST_STACK_MAX_def)

lemma set_trim_stack: "set (trim_stack xs) \<subseteq> set xs"
  by (simp add: trim_stack_def set_drop_subset)

lemma trim_stack_last: "length xs \<le> 5 \<Longrightarrow> trim_stack xs = slice_neg 4 xs"
  by (auto simp: trim_stack_def slice_neg_def TOAST_STACK_MAX_def)

lemma last_toast_pushed [simp]: "t_message (last (w_toasts (pushed b w))) = t_message b"
  "t_title (last (w_toasts (pushed b w))) = t_title b" "w_toasts (pushed b w) \<noteq> []"
  by (simp_all add: toasts_pushed)

subsection \<open>Ids\<close>

lemma toast_id_inject:
  assumes "toast_id a m = toast_id b n"
  shows "m = n"
proof -
  have tail: "rev (takeWhile (\<lambda>c. c \<noteq> CHR ''-'') (rev (toast_id x k))) = nat_str k" for x k
  proof -
    have ok: "\<forall>c \<in> set (rev (nat_str k)). c \<noteq> CHR ''-''"
      using nat_str_no_dash [of k] by auto
    have e: "rev (toast_id x k) = rev (nat_str k) @ CHR ''-'' # rev (nat_str x) @ ''-t''"
      by (simp add: toast_id_def)
    show ?thesis
      unfolding e using ok by (subst takeWhile_append2) (simp_all del: set_rev)
  qed
  from assms have "nat_str m = nat_str n" using tail [of a m] tail [of b n] by simp
  then show ?thesis by simp
qed

text \<open>The invariant of the store: at most five toasts, with distinct ids that were all
  generated before.\<close>

definition toast_inv :: "'z world_scheme \<Rightarrow> bool" where
  "toast_inv w \<longleftrightarrow>
     length (w_toasts w) \<le> TOAST_STACK_MAX \<and> distinct (map t_id (w_toasts w)) \<and>
     (\<forall>t \<in> set (w_toasts w). \<exists>ms c. t_id t = toast_id ms c \<and> c \<le> w_counter w)"

lemma toast_inv_initial: "toast_inv initial_world"
  by (simp add: toast_inv_def initial_world_def)

lemma toast_inv_cong:
  "w_toasts w = w_toasts w' \<Longrightarrow> w_counter w = w_counter w' \<Longrightarrow> toast_inv w = toast_inv w'"
  by (simp add: toast_inv_def)

lemma fresh_toast_id:
  assumes "toast_inv w" "t \<in> set (w_toasts w)"
  shows "t_id t \<noteq> toast_id ms (w_counter w + 1)"
proof -
  obtain ms' c where "t_id t = toast_id ms' c" "c \<le> w_counter w"
    using assms by (auto simp: toast_inv_def)
  then show ?thesis using toast_id_inject [of ms' c ms "w_counter w + 1"] by auto
qed

lemma toast_inv_pushed:
  assumes inv: "toast_inv w"
  shows "toast_inv (pushed b w)"
proof -
  let ?s = "trim_stack (w_toasts w)" and ?i = "toast_id (w_now w) (w_counter w + 1)"
  have sub: "set ?s \<subseteq> set (w_toasts w)" by (rule set_trim_stack)
  have fresh: "?i \<notin> t_id ` set ?s"
  proof
    assume "?i \<in> t_id ` set ?s"
    then obtain t where "t \<in> set ?s" "t_id t = ?i" by auto
    with fresh_toast_id [OF inv, of t "w_now w"] sub show False by blast
  qed
  have "distinct (map t_id ?s)"
    using inv by (simp add: toast_inv_def trim_stack_def flip: drop_map)
  with fresh have d: "distinct (map t_id (w_toasts (pushed b w)))"
    by (simp add: toasts_pushed)
  have l: "length (w_toasts (pushed b w)) \<le> TOAST_STACK_MAX"
    using length_trim_stack [of "w_toasts w"] by (simp add: toasts_pushed TOAST_STACK_MAX_def)
  have "\<exists>ms c. t_id t = toast_id ms c \<and> c \<le> w_counter w + 1" if "t \<in> set (w_toasts (pushed b w))" for t
  proof -
    from that consider "t \<in> set (w_toasts w)" | "t_id t = ?i"
      using sub by (auto simp: toasts_pushed)
    then show ?thesis
    proof cases
      case 1
      then obtain ms c where "t_id t = toast_id ms c" "c \<le> w_counter w"
        using inv by (auto simp: toast_inv_def)
      then show ?thesis by (intro exI [of _ ms] exI [of _ c]) simp
    qed blast
  qed
  with d l show ?thesis by (simp add: toast_inv_def)
qed

lemma toast_inv_dismiss: "toast_inv w \<Longrightarrow> toast_inv (snd (toast_dismiss i w))"
  by (auto simp: toast_inv_def toast_dismiss_def io_simps distinct_drop_key set_drop_key
      intro: le_trans [OF length_drop_key_le])

lemma toast_inv_clear: "toast_inv w \<Longrightarrow> toast_inv (snd (toast_clear w))"
  by (simp add: toast_inv_def toast_clear_def io_simps)

subsection \<open>Any use of the bus\<close>

datatype toast_event = Push toast_body | Dismiss string | Clear | Elapse nat

fun toast_step :: "toast_event \<Rightarrow> world \<Rightarrow> world" where
  "toast_step (Push b) w = snd (toast_push b w)"
| "toast_step (Dismiss i) w = snd (toast_dismiss i w)"
| "toast_step Clear w = snd (toast_clear w)"
| "toast_step (Elapse ms) w = w\<lparr>w_now := w_now w + ms\<rparr>"

definition toast_run :: "toast_event list \<Rightarrow> world \<Rightarrow> world" where
  "toast_run es w = fold toast_step es w"

lemma toast_inv_step: "toast_inv w \<Longrightarrow> toast_inv (toast_step e w)"
proof (cases e)
  case (Elapse ms)
  assume "toast_inv w"
  then show ?thesis using Elapse toast_inv_cong [of w "w\<lparr>w_now := w_now w + ms\<rparr>"] by simp
qed (simp_all add: toast_push_eq toast_inv_pushed toast_inv_dismiss toast_inv_clear)

lemma toast_inv_run: "toast_inv w \<Longrightarrow> toast_inv (toast_run es w)"
  unfolding toast_run_def by (induction es arbitrary: w) (simp_all add: toast_inv_step)

end
