(* ===== verification/ApiErrors.thy ===== *)
theory ApiErrors
  imports Toasts
begin

text \<open>
  Error handling of the API layer: \<open>lib/api/api-utils.ts\<close>,
  \<open>lib/api/helpers/with-api-error-toast.ts\<close> and \<open>lib/api/helpers/handle-api-error.ts\<close>.
\<close>

definition mk_api_error :: "int \<Rightarrow> string \<Rightarrow> api_error" where
  "mk_api_error st msg = \<lparr>err_status = st, err_message = msg, err_code = None\<rparr>"

section \<open>Guards and normalisation\<close>

text \<open>\<open>isApiError\<close>: an object with a numeric \<open>status\<close> and a string \<open>message\<close>. The error
  class of the HTTP library has both; a plain \<open>Error\<close> has no status.\<close>

fun isApiError :: "thrown \<Rightarrow> bool" where
  "isApiError (ApiObj _) = True"
| "isApiError (BetterFetchError _ _ _) = True"
| "isApiError (JsError _) = False"
| "isApiError (PlainObj _) = False"
| "isApiError Primitive = False"

text \<open>What code that stores an \<open>isApiError\<close> value as an \<open>ApiError\<close> keeps of it.\<close>

fun the_api_error :: "thrown \<Rightarrow> api_error" where
  "the_api_error (ApiObj e) = e"
| "the_api_error (BetterFetchError st msg _) = mk_api_error st msg"
| "the_api_error _ = mk_api_error 0 []"

text \<open>\<open>asApiError(err).message\<close>\<close>

fun asApiError :: "thrown \<Rightarrow> string option" where
  "asApiError (ApiObj e) = Some (err_message e)"
| "asApiError (BetterFetchError _ msg _) = Some msg"
| "asApiError (JsError msg) = Some msg"
| "asApiError (PlainObj m) = m"
| "asApiError Primitive = None"

fun toApiError :: "thrown \<Rightarrow> api_error" where
  "toApiError (BetterFetchError _ msg _) = mk_api_error 0 msg"
| "toApiError (JsError msg) = mk_api_error 0 msg"
| "toApiError _ = mk_api_error 0 ''Network error''"

text \<open>\<open>body?.message || default\<close>: a missing body, a missing message and the empty message all
  give the default.\<close>

definition betterFetchErrorToApi :: "int \<Rightarrow> error_body option \<Rightarrow> api_error" where
  "betterFetchErrorToApi st body =
     (let msg = Option.bind body eb_message
      in \<lparr>err_status = st,
          err_message = (if msg = None \<or> msg = Some [] then ''An unexpected error occurred'' else the msg),
          err_code = Option.bind body eb_code\<rparr>)"

fun handleApiError :: "thrown \<Rightarrow> ('z, 'a) act" where
  "handleApiError (BetterFetchError st msg body) = io_throw (ApiObj (betterFetchErrorToApi st body))"
| "handleApiError e = io_throw (ApiObj (toApiError e))"

fun toError :: "thrown \<Rightarrow> api_error" where
  "toError (BetterFetchError st msg body) = betterFetchErrorToApi st body"
| "toError (ApiObj e) = e"
| "toError (JsError msg) = mk_api_error 0 msg"
| "toError (PlainObj m) = mk_api_error 0 (nullish m ''Network error'')"
| "toError Primitive = mk_api_error 0 (nullish (asApiError Primitive) ''Network error'')"

definition isEnvelope :: "json \<Rightarrow> bool" where
  "isEnvelope v \<longleftrightarrow>
     is_record v \<and> has_prop ''status_code'' v \<and> typeof_number (prop_of ''status_code'' v) \<and>
     has_prop ''message'' v \<and> typeof_string (prop_of ''message'' v) \<and> has_prop ''data'' v"

definition titleForStatus :: "int \<Rightarrow> string" where
  "titleForStatus st =
     (if st = 0 then ''Network error''
      else if st = 401 then ''Unauthorized''
      else if st = 403 then ''Forbidden''
      else if st = 404 then ''Not found''
      else if st \<ge> 500 then ''Server error''
      else ''Error'')"

section \<open>Errors as toasts\<close>

definition error_toast :: "api_error \<Rightarrow> toast_body" where
  "error_toast e = mk_toast ToastError (titleForStatus (err_status e)) (err_message e)"

definition withApiErrorToast :: "('z, 'a) act \<Rightarrow> bool \<Rightarrow> ('z, 'a) act" where
  "withApiErrorToast fn notify =
     io_catch fn (\<lambda>e.
       let apiErr = toError e
       in io_then (io_when notify (io_bind (toast_push (error_toast apiErr)) (\<lambda>_. io_return ())))
          (io_throw (ApiObj apiErr)))"

text \<open>The toast the services push themselves on a response they cannot use.\<close>

definition service_error_toast :: "string \<Rightarrow> ('z, unit) act" where
  "service_error_toast msg =
     io_bind (toast_push (mk_toast ToastError ''Error'' msg)) (\<lambda>_. io_return ())"

lemma mk_api_error_simps [simp]:
  "err_status (mk_api_error st msg) = st" "err_message (mk_api_error st msg) = msg"
  "err_code (mk_api_error st msg) = None"
  by (simp_all add: mk_api_error_def)

lemma service_error_toast_eq [io_simps]:
  "service_error_toast msg w = (Inr (), pushed (mk_toast ToastError ''Error'' msg) w)"
  by (simp add: service_error_toast_def io_simps)

lemma handleApiError_eq [io_simps]:
  "handleApiError e w = (Inl (ApiObj (case e of BetterFetchError st _ b \<Rightarrow> betterFetchErrorToApi st b
                                                | _ \<Rightarrow> toApiError e)), w)"
  by (cases e) (simp_all add: io_simps)

lemma withApiErrorToast_ok: "fn w = (Inr x, w') \<Longrightarrow> withApiErrorToast fn b w = (Inr x, w')"
  by (simp add: withApiErrorToast_def io_simps)

lemma withApiErrorToast_throw:
  "fn w = (Inl e, w') \<Longrightarrow> withApiErrorToast fn b w =
     (Inl (ApiObj (toError e)), (if b then pushed (error_toast (toError e)) w' else w'))"
  by (simp add: withApiErrorToast_def Let_def io_simps)

text \<open>An awaited client call under the wrapper, on both outcomes: every service goes through
  these two equations.\<close>

definition sent :: "request \<Rightarrow> 'z world_scheme \<Rightarrow> 'z world_scheme" where
  "sent rq w = w\<lparr>w_sent := w_sent w @ [rq]\<rparr>"

lemma sent_frame [simp]:
  "w_auth (sent rq w) = w_auth w" "w_nav (sent rq w) = w_nav w" "w_now (sent rq w) = w_now w"
  "w_toasts (sent rq w) = w_toasts w" "w_counter (sent rq w) = w_counter w"
  "w_pathname (sent rq w) = w_pathname w" "w_language (sent rq w) = w_language w" "world.more (sent rq w) = world.more w"
  "w_sent (sent rq w) = w_sent w @ [rq]"
  by (simp_all add: sent_def)

lemma await_call_eq [io_simps]:
  "await_call rq out w = (case out of Inl e \<Rightarrow> (Inl e, sent rq w) | Inr x \<Rightarrow> (Inr x, sent rq w))"
  by (simp add: await_call_def sent_def split: sum.split)

lemma wrapped_call_simps [io_simps]:
  "withApiErrorToast (await_call rq (Inr x)) b w = (Inr x, sent rq w)"
  "withApiErrorToast (await_call rq (Inl e)) b w =
     (Inl (ApiObj (toError e)), (if b then pushed (error_toast (toError e)) (sent rq w) else sent rq w))"
  by (simp_all add: withApiErrorToast_ok withApiErrorToast_throw io_simps)

lemma toast_inv_sent [simp]: "toast_inv (sent rq w) = toast_inv w"
  by (rule toast_inv_cong) simp_all

text \<open>Every value thrown through the wrapper is an \<open>ApiError\<close>, and wrapping again keeps it.\<close>

lemma withApiErrorToast_throws_api:
  "fst (withApiErrorToast fn b w) = Inl e \<Longrightarrow> \<exists>a. e = ApiObj a"
  by (auto simp: withApiErrorToast_def Let_def io_simps split: prod.splits sum.splits if_splits)

lemma toError_idem [simp]: "toError (ApiObj (toError e)) = toError e"
  by simp

end
