(* ===== verification/Navigation.thy ===== *)
theory Navigation
  imports ApiErrors
begin

text \<open>
  Locale-aware navigation: \<open>lib/router-utils.ts\<close>, the paths of \<open>constants/auth\<close> and the
  locale choice of \<open>components/react/auth/FirstRunGate.tsx\<close>.
\<close>

definition REDIRECT_AFTER_AUTH :: string where "REDIRECT_AFTER_AUTH = ''/''"
definition REDIRECT_AFTER_SIGNOUT :: string where "REDIRECT_AFTER_SIGNOUT = ''/login''"
definition LOGIN_PATH :: string where "LOGIN_PATH = ''/login''"
definition SIGNUP_PATH :: string where "SIGNUP_PATH = ''/signup''"
definition DASHBOARD_PATH :: string where "DASHBOARD_PATH = ''/''"

lemmas path_defs =
  REDIRECT_AFTER_AUTH_def REDIRECT_AFTER_SIGNOUT_def LOGIN_PATH_def SIGNUP_PATH_def DASHBOARD_PATH_def

section \<open>redirectTo\<close>

definition supported_langs :: "string list" where
  "supported_langs = [''en'', ''es'']"

text \<open>\<open>pathname.split('/').filter(Boolean)[0]\<close>\<close>

definition first_segment :: "string \<Rightarrow> string option" where
  "first_segment pathname =
     (case filter (\<lambda>p. p \<noteq> []) (split_char (CHR ''/'') pathname) of [] \<Rightarrow> None | p # _ \<Rightarrow> Some p)"

definition redirect_lang :: "string \<Rightarrow> string \<Rightarrow> string" where
  "redirect_lang pathname language =
     (case first_segment pathname of
        Some p \<Rightarrow> if p \<in> set supported_langs then p else
          (let l = hd (split_char (CHR ''-'') (if language = [] then ''en'' else language))
           in if l \<in> set supported_langs then l else ''en'')
      | None \<Rightarrow>
          (let l = hd (split_char (CHR ''-'') (if language = [] then ''en'' else language))
           in if l \<in> set supported_langs then l else ''en''))"

definition redirect_url :: "string \<Rightarrow> string \<Rightarrow> string \<Rightarrow> string" where
  "redirect_url pathname language path = ''/'' @ redirect_lang pathname language @ path"

definition redirectTo :: "string \<Rightarrow> ('z, unit) act" where
  "redirectTo path =
     io_modify (\<lambda>w. w\<lparr>w_nav := w_nav w @ [redirect_url (w_pathname w) (w_language w) path]\<rparr>)"

lemma redirect_lang_supported: "redirect_lang pathname language \<in> set supported_langs"
  by (auto simp: redirect_lang_def Let_def supported_langs_def split: option.split)

definition navigated :: "string \<Rightarrow> 'z world_scheme \<Rightarrow> 'z world_scheme" where
  "navigated path w = w\<lparr>w_nav := w_nav w @ [redirect_url (w_pathname w) (w_language w) path]\<rparr>"

lemma redirectTo_eq [io_simps]: "redirectTo path w = (Inr (), navigated path w)"
  by (simp add: redirectTo_def navigated_def io_simps)

lemma navigated_frame [simp]:
  "w_auth (navigated p w) = w_auth w" "w_now (navigated p w) = w_now w"
  "w_toasts (navigated p w) = w_toasts w" "w_counter (navigated p w) = w_counter w"
  "w_pathname (navigated p w) = w_pathname w" "w_language (navigated p w) = w_language w"
  "w_sent (navigated p w) = w_sent w" "world.more (navigated p w) = world.more w"
  "w_nav (navigated p w) = w_nav w @ [redirect_url (w_pathname w) (w_language w) p]"
  by (simp_all add: navigated_def)

lemma toast_inv_navigated [simp]: "toast_inv (navigated p w) = toast_inv w"
  by (rule toast_inv_cong) simp_all

section \<open>buildLocalizedUrl\<close>

definition is_line_end :: "char \<Rightarrow> bool" where
  "is_line_end c \<longleftrightarrow> (of_char c :: nat) = 10 \<or> (of_char c :: nat) = 13"

text \<open>\<open>pathname.match(/^\/(en|es)(\/.*)?$/)\<close>: \<open>None\<close> for no match, otherwise the second group.\<close>

definition match_locale :: "string \<Rightarrow> string option option" where
  "match_locale pathname =
     (if is_prefix ''/en'' pathname \<or> is_prefix ''/es'' pathname then
        (case drop 3 pathname of
           [] \<Rightarrow> Some None
         | c # cs \<Rightarrow> if c = CHR ''/'' \<and> \<not> list_ex is_line_end cs then Some (Some (c # cs)) else None)
      else None)"

definition buildLocalizedUrl :: "string \<Rightarrow> string \<Rightarrow> string \<Rightarrow> language \<Rightarrow> string option" where
  "buildLocalizedUrl pathname search hash locale =
     (case match_locale pathname of
        None \<Rightarrow> None
      | Some rest \<Rightarrow> Some (''/'' @ language_str locale @ nullish rest ''/'' @ search @ hash))"

lemma match_locale_prefix:
  "match_locale (''/'' @ language_str l @ s) =
     (case s of [] \<Rightarrow> Some None
              | c # cs \<Rightarrow> if c = CHR ''/'' \<and> \<not> list_ex is_line_end cs then Some (Some s) else None)"
  by (cases l) (simp_all add: match_locale_def split: list.split)

lemma match_locale_rest:
  assumes "match_locale p = Some (Some r)"
  shows "\<exists>cs. r = CHR ''/'' # cs \<and> \<not> list_ex is_line_end cs"
  using assms by (auto simp: match_locale_def split: if_splits list.splits) metis+

lemma match_locale_relocalized:
  assumes "match_locale p = Some r"
  shows "match_locale (''/'' @ language_str l @ nullish r ''/'') = Some (Some (nullish r ''/''))"
proof (cases r)
  case None
  then show ?thesis by (simp only: match_locale_prefix) simp
next
  case (Some s)
  with assms match_locale_rest [of p s] obtain cs where "s = CHR ''/'' # cs" "\<not> list_ex is_line_end cs"
    by auto
  with Some show ?thesis by (simp only: match_locale_prefix) simp
qed

section \<open>The sidebar of the older layout\<close>

datatype nav_icon = LayoutDashboard | Cpu | KeyRound | ShieldCheck | UserIcon

record sidebar_nav_item =
  sn_key :: string
  sn_href :: string
  sn_label :: string
  sn_icon :: nav_icon

record nav_labels =
  nl_dashboard :: string
  nl_devices :: string
  nl_apiKeysTitle :: string
  nl_admin :: string
  nl_profile :: string

definition generateNavbarItems :: "language \<Rightarrow> nav_labels \<Rightarrow> bool \<Rightarrow> sidebar_nav_item list" where
  "generateNavbarItems locale tr showAdmin =
     (let base = ''/'' @ language_str locale;
          navItems =
            [\<lparr>sn_key = ''dashboard'', sn_href = base @ ''/'', sn_label = nl_dashboard tr, sn_icon = LayoutDashboard\<rparr>,
             \<lparr>sn_key = ''devices'', sn_href = base @ ''/devices/'', sn_label = nl_devices tr, sn_icon = Cpu\<rparr>,
             \<lparr>sn_key = ''api-keys'', sn_href = base @ ''/api-keys'', sn_label = nl_apiKeysTitle tr, sn_icon = KeyRound\<rparr>];
          withAdmin =
            (if showAdmin then navItems @
               [\<lparr>sn_key = ''admin'', sn_href = base @ ''/admin/'', sn_label = nl_admin tr, sn_icon = ShieldCheck\<rparr>]
             else navItems)
      in withAdmin @
           [\<lparr>sn_key = ''profile'', sn_href = base @ ''/profile'', sn_label = nl_profile tr, sn_icon = UserIcon\<rparr>])"

section \<open>The first-run redirect\<close>

text \<open>\<open>resolveLocale(supported)\<close>: the first supported entry when the browser's language is
  not in the list (the code reads \<open>supported[0]\<close>, so the list must not be empty).\<close>

definition resolveLocale :: "string \<Rightarrow> string list \<Rightarrow> string option" where
  "resolveLocale language supported =
     (let raw = hd (split_char (CHR ''-'') language)
      in case find (\<lambda>l. l = raw) supported of
           Some l \<Rightarrow> Some l
         | None \<Rightarrow> (case supported of [] \<Rightarrow> None | l # _ \<Rightarrow> Some l))"

text \<open>The effect of \<open>FirstRunGate\<close> once the bootstrap request has settled.\<close>

definition firstRunTarget :: "string \<Rightarrow> string list \<Rightarrow> (thrown + bootstrap_status) \<Rightarrow> string" where
  "firstRunTarget language supported status =
     (let locale = nullish (resolveLocale language supported) ''undefined''
      in case status of
           Inr st \<Rightarrow> ''/'' @ locale @ ''/'' @ (if bs_needsSetup st then ''signup'' else ''login'')
         | Inl _ \<Rightarrow> ''/'' @ locale @ ''/error'')"

end
