(* ===== verification/AuthService.thy ===== *)
theory AuthService
  imports Navigation
begin

text \<open>
  The auth store (\<open>lib/stores/auth.ts\<close>) and the hook over the authentication API
  (\<open>lib/api/services/authService.ts\<close>). \<open>getSession\<close> starts \<open>fetchProfile\<close> without
  awaiting it; the model runs the two as separate operations, so that they can interleave
  with the others.
\<close>

section \<open>The store\<close>

definition setUser :: "auth_user \<Rightarrow> ('z, unit) act" where
  "setUser u = io_modify (on_auth (\<lambda>a. a\<lparr>a_user := Some u\<rparr>))"

definition cleared :: "auth_atoms \<Rightarrow> auth_atoms" where
  "cleared a = a\<lparr>a_user := None, a_profile := None, a_isRoleLoaded := False, a_mustChangePassword := False\<rparr>"

definition clearUser :: "('z, unit) act" where
  "clearUser = io_modify (on_auth cleared)"

definition set_auth_loading :: "bool \<Rightarrow> 'z world_scheme \<Rightarrow> 'z world_scheme" where
  "set_auth_loading b = on_auth (\<lambda>a. a\<lparr>a_isAuthLoading := b\<rparr>)"

definition setAuthLoading :: "bool \<Rightarrow> ('z, unit) act" where
  "setAuthLoading b = io_modify (set_auth_loading b)"

definition setProfile :: "user \<Rightarrow> ('z, unit) act" where
  "setProfile u = io_modify (on_auth (\<lambda>a. a\<lparr>a_profile := Some u\<rparr>))"

definition clearProfile :: "('z, unit) act" where
  "clearProfile = io_modify (on_auth (\<lambda>a. a\<lparr>a_profile := None\<rparr>))"

definition set_role_loaded :: "bool \<Rightarrow> 'z world_scheme \<Rightarrow> 'z world_scheme" where
  "set_role_loaded b = on_auth (\<lambda>a. a\<lparr>a_isRoleLoaded := b\<rparr>)"

definition setRoleLoaded :: "('z, unit) act" where
  "setRoleLoaded = io_modify (set_role_loaded True)"

definition setMustChangePassword :: "bool \<Rightarrow> ('z, unit) act" where
  "setMustChangePassword b = io_modify (on_auth (\<lambda>a. a\<lparr>a_mustChangePassword := b\<rparr>))"

definition isAuthenticated :: "auth_atoms \<Rightarrow> bool" where
  "isAuthenticated a \<longleftrightarrow> a_user a \<noteq> None"

definition userRole :: "auth_atoms \<Rightarrow> user_role option" where
  "userRole a = map_option u_role (a_profile a)"

definition isSuperAdmin :: "user_role option \<Rightarrow> bool" where
  "isSuperAdmin r \<longleftrightarrow> r = Some RoleSuperAdmin"

lemmas auth_store_defs [service_defs] =
  setUser_def clearUser_def setAuthLoading_def setProfile_def clearProfile_def setRoleLoaded_def
  setMustChangePassword_def

interpretation auth_loading: flag_field "\<lambda>w. a_isAuthLoading (w_auth w)" set_auth_loading
  by unfold_locales (simp_all add: set_auth_loading_def on_auth_def)

interpretation role_loaded: flag_field "\<lambda>w. a_isRoleLoaded (w_auth w)" set_role_loaded
  by unfold_locales (simp_all add: set_role_loaded_def on_auth_def)

section \<open>The hook\<close>

record auth_service = world +
  asv_isLoading :: bool

type_synonym ('z, 'a) auth_act = "('z auth_service_scheme, thrown, 'a) io"

definition set_asv_loading :: "bool \<Rightarrow> 'z auth_service_scheme \<Rightarrow> 'z auth_service_scheme" where
  "set_asv_loading b w = w\<lparr>asv_isLoading := b\<rparr>"

interpretation asv_loading: flag_field asv_isLoading set_asv_loading
  by unfold_locales (simp_all add: set_asv_loading_def)

definition reportEmptyResponse :: "string \<Rightarrow> bool \<Rightarrow> ('z, 'a) act" where
  "reportEmptyResponse msg showToast =
     io_then (io_when showToast (service_error_toast msg)) (handleApiError (JsError msg))"

definition signIn_request :: "sign_in_credentials \<Rightarrow> request" where
  "signIn_request c = (mk_request AuthClient POST ''/email-password/sign-in'')
     \<lparr>rq_body := Some (JObject [(''email'', JString (si_email c)), (''password'', JString (si_password c))])\<rparr>"

definition signIn ::
  "sign_in_credentials \<Rightarrow> (thrown + auth_session fetch_result) \<Rightarrow> ('z, unit) auth_act" where
  "signIn c out =
     io_then (io_modify (set_asv_loading True))
     (io_finally
       (io_bind (withApiErrorToast (await_call (signIn_request c) out) True) (\<lambda>r.
          case fr_data r of
            None \<Rightarrow> reportEmptyResponse ''sign-in returned an empty response'' True
          | Some s \<Rightarrow> io_then (setUser (as_user s)) (redirectTo REDIRECT_AFTER_AUTH)))
       (io_modify (set_asv_loading False)))"

definition signUp_request :: "sign_up_credentials \<Rightarrow> request" where
  "signUp_request c = (mk_request AuthClient POST ''/email-password/sign-up'')
     \<lparr>rq_body := Some (JObject [(''email'', JString (su_email c)), (''password'', JString (su_password c)),
                                (''name'', JString (su_name c))])\<rparr>"

definition signUp :: "sign_up_credentials \<Rightarrow> (thrown + auth_session fetch_result) \<Rightarrow> ('z, unit) act" where
  "signUp c out =
     io_then (setAuthLoading True)
     (io_finally
       (io_bind (withApiErrorToast (await_call (signUp_request c) out) True) (\<lambda>r.
          case fr_data r of
            None \<Rightarrow> reportEmptyResponse ''sign-up returned an empty response'' True
          | Some s \<Rightarrow> io_then (setUser (as_user s)) (redirectTo REDIRECT_AFTER_AUTH)))
       (setAuthLoading False))"

definition signOut :: "(thrown + 'b fetch_result) \<Rightarrow> ('z, unit) act" where
  "signOut out =
     io_then (setAuthLoading True)
     (io_finally
       (io_catch
         (io_then (withApiErrorToast (await_call (mk_request AuthClient POST ''/sign-out'') out) True)
            (io_return ()))
         (\<lambda>_. io_return ()))
       (io_then clearUser (io_then (redirectTo REDIRECT_AFTER_SIGNOUT) (setAuthLoading False))))"

definition fetchMe :: "bool \<Rightarrow> (thrown + auth_session fetch_result) \<Rightarrow> ('z, auth_user option) act" where
  "fetchMe showToast out =
     io_catch
       (io_bind (withApiErrorToast (await_call (mk_request AuthClient GET ''/me'') out) True) (\<lambda>r.
          case fr_data r of
            None \<Rightarrow> reportEmptyResponse ''me returned an empty response'' showToast
          | Some s \<Rightarrow> io_return (Some (as_user s))))
       (\<lambda>_. io_return None)"

text \<open>The 403 of the backend's password middleware.\<close>

definition must_change_password_error :: "fetch_error option \<Rightarrow> bool" where
  "must_change_password_error e =
     (case e of None \<Rightarrow> False
              | Some f \<Rightarrow> fe_status f = 403 \<and> fe_message f = Some ''must_change_password'')"

definition fetchProfile :: "(thrown + user envelope fetch_result) \<Rightarrow> ('z, user option) act" where
  "fetchProfile out =
     io_then (setMustChangePassword False)
     (io_finally
       (io_catch
         (io_bind (await_call (mk_request ApiClient GET ''/users/me'') out) (\<lambda>r.
            if must_change_password_error (fr_error r)
            then io_then (setMustChangePassword True) (io_return None)
            else (case Option.bind (fr_data r) env_data of
                    None \<Rightarrow> reportEmptyResponse ''profile returned an empty response'' True
                  | Some u \<Rightarrow> io_then (setProfile u) (io_return (Some u)))))
         (\<lambda>_. io_return None))
       setRoleLoaded)"

text \<open>\<open>encodeURIComponent\<close> is the argument \<open>enc\<close>.\<close>

definition authorize_request :: "(string \<Rightarrow> string) \<Rightarrow> oauth_provider \<Rightarrow> string \<Rightarrow> request" where
  "authorize_request enc provider callback =
     mk_request AuthClient GET
       (''/oauth2/authorize/'' @ oauth_provider_str provider @ ''?redirect_to='' @ enc callback)"

definition fetchOAuthAuthorizeUrl ::
  "(string \<Rightarrow> string) \<Rightarrow> oauth_provider \<Rightarrow> string \<Rightarrow> (thrown + oauth_authorize_response fetch_result)
   \<Rightarrow> ('z, string) act" where
  "fetchOAuthAuthorizeUrl enc provider callback out =
     io_catch
       (io_bind (withApiErrorToast (await_call (authorize_request enc provider callback) out) True) (\<lambda>r.
          case fr_data r of
            None \<Rightarrow> reportEmptyResponse ''oauth authorize returned an empty response'' True
          | Some d \<Rightarrow> if oa_authUrl d = []
                      then reportEmptyResponse ''oauth authorize returned an empty response'' True
                      else io_return (oa_authUrl d)))
       (\<lambda>_. io_return [])"

text \<open>\<open>getSession\<close> up to the start of the profile request; \<open>fetchProfile\<close> is a later step.\<close>

definition getSession :: "bool \<Rightarrow> (thrown + auth_session fetch_result) \<Rightarrow> ('z, auth_user option) act" where
  "getSession showToast out =
     io_then (setAuthLoading True)
     (io_finally
       (io_bind (fetchMe showToast out) (\<lambda>u.
          io_then (case u of Some usr \<Rightarrow> setUser usr | None \<Rightarrow> clearUser) (io_return u)))
       (setAuthLoading False))"

definition changePassword ::
  "change_password_dto \<Rightarrow> (thrown + bool envelope fetch_result) \<Rightarrow> (thrown + user envelope fetch_result)
   \<Rightarrow> ('z, unit) act" where
  "changePassword p out out_profile =
     io_bind (withApiErrorToast
       (await_call ((mk_request ApiClient POST ''/auth/change-password'')
          \<lparr>rq_body := Some (JObject [(''old_password'', JString (cp_old_password p)),
                                     (''new_password'', JString (cp_new_password p))])\<rparr>) out) True) (\<lambda>_.
     io_bind (fetchProfile out_profile) (\<lambda>_. io_return ()))"

definition requestPasswordRecovery ::
  "request_password_recovery_dto \<Rightarrow> (thrown + string envelope fetch_result) \<Rightarrow> ('z, string option) act" where
  "requestPasswordRecovery p out =
     io_bind (withApiErrorToast
       (await_call ((mk_request ApiClient POST ''/auth/generate-pwd-recovery-token'')
          \<lparr>rq_body := Some (JObject [(''email'', JString (rpr_email p)),
                                     (''locale'', JString (language_str (rpr_locale p))),
                                     (''reset_password_url'', JString (rpr_reset_password_url p))])\<rparr>) out) True)
       (\<lambda>r. io_return (Option.bind (fr_data r) env_data))"

definition consumePasswordRecovery ::
  "consume_password_recovery_dto \<Rightarrow> (thrown + bool envelope fetch_result) \<Rightarrow> ('z, unit) act" where
  "consumePasswordRecovery p out =
     io_then (withApiErrorToast
       (await_call ((mk_request ApiClient POST ''/auth/consume-pwd-recovery-token'')
          \<lparr>rq_body := Some (JObject [(''token'', JString (cpr_token p)),
                                     (''new_password'', JString (cpr_new_password p))])\<rparr>) out) True)
     (io_return ())"

text \<open>\<open>signInOAuth\<close>: the success path leaves the page (a navigation to the absolute URL) and
  keeps the loading flag set.\<close>

definition signInOAuth ::
  "(string \<Rightarrow> string) \<Rightarrow> string \<Rightarrow> oauth_provider \<Rightarrow> (thrown + oauth_authorize_response fetch_result)
   \<Rightarrow> ('z, unit) act" where
  "signInOAuth enc origin provider out =
     io_then (setAuthLoading True)
     (io_catch
       (io_bind (withApiErrorToast (await_call (authorize_request enc provider origin) out) True) (\<lambda>r.
          case fr_data r of
            None \<Rightarrow> io_throw (JsError ''oauth authorize returned an empty response'')
          | Some d \<Rightarrow> if oa_authUrl d = []
                      then io_throw (JsError ''oauth authorize returned an empty response'')
                      else io_modify (\<lambda>w. w\<lparr>w_nav := w_nav w @ [oa_authUrl d]\<rparr>)))
       (\<lambda>e. io_then (setAuthLoading False) (io_throw e)))"

section \<open>Lemmas on the operations\<close>

lemma set_auth_loading_frame [simp]:
  "w_nav (set_auth_loading b w) = w_nav w" "w_toasts (set_auth_loading b w) = w_toasts w"
  "w_sent (set_auth_loading b w) = w_sent w" "w_counter (set_auth_loading b w) = w_counter w"
  "w_pathname (set_auth_loading b w) = w_pathname w" "w_language (set_auth_loading b w) = w_language w"
  "w_now (set_auth_loading b w) = w_now w"
  "w_auth (set_auth_loading b w) = (w_auth w)\<lparr>a_isAuthLoading := b\<rparr>"
  by (simp_all add: set_auth_loading_def)

lemma set_role_loaded_frame [simp]:
  "w_nav (set_role_loaded b w) = w_nav w" "w_toasts (set_role_loaded b w) = w_toasts w"
  "w_sent (set_role_loaded b w) = w_sent w" "w_counter (set_role_loaded b w) = w_counter w"
  "w_auth (set_role_loaded b w) = (w_auth w)\<lparr>a_isRoleLoaded := b\<rparr>"
  by (simp_all add: set_role_loaded_def)

lemma cleared_simps [simp]:
  "a_user (cleared a) = None" "a_profile (cleared a) = None" "\<not> a_isRoleLoaded (cleared a)"
  "\<not> a_mustChangePassword (cleared a)" "a_isAuthLoading (cleared a) = a_isAuthLoading a"
  by (simp_all add: cleared_def)

lemma reportEmptyResponse_eq [io_simps]:
  "reportEmptyResponse msg b w =
     (Inl (ApiObj (mk_api_error 0 msg)),
      (if b then pushed (mk_toast ToastError ''Error'' msg) w else w))"
  by (simp add: reportEmptyResponse_def io_simps)

definition me_of :: "(thrown + auth_session fetch_result) \<Rightarrow> auth_user option" where
  "me_of out = (case out of Inl _ \<Rightarrow> None | Inr r \<Rightarrow> map_option as_user (fr_data r))"

lemma me_of_simps [simp]:
  "me_of (Inl e) = None" "me_of (Inr r) = map_option as_user (fr_data r)"
  by (simp_all add: me_of_def)

lemma fetchMe_result: "fst (fetchMe b out w) = Inr (me_of out)"
  by (cases out) (simp_all add: fetchMe_def io_simps split: option.split)

lemma fetchMe_pair: "fetchMe b out w = (Inr (me_of out), snd (fetchMe b out w))"
  by (metis fetchMe_result prod.collapse)

lemma fetchMe_auth [simp]: "w_auth (snd (fetchMe b out w)) = w_auth w"
  by (cases out) (simp_all add: fetchMe_def io_simps split: option.split)

end
