(* ===== verification/AuthProps.thy ===== *)
theory AuthProps
  imports AuthService
begin

text \<open>
  What the authentication hook guarantees, for every outcome of its requests.
\<close>

section \<open>Signing out\<close>

text \<open>Signing out never throws, whatever the backend answers: afterwards nobody is
  signed in (user, profile, role and password flags are all cleared), the loading flag is
  off, and the last navigation goes to the login page of a supported locale.\<close>

theorem signOut_always_clears:
  "fst (signOut out w) = Inr () \<and>
   (let w' = snd (signOut out w) in
      w_auth w' = (cleared (w_auth w))\<lparr>a_isAuthLoading := False\<rparr> \<and>
      \<not> isAuthenticated (w_auth w') \<and> userRole (w_auth w') = None \<and>
      w_nav w' = w_nav w @ [''/'' @ redirect_lang (w_pathname w) (w_language w) @ ''/login''])"
  by (cases out)
    (simp_all add: signOut_def io_simps service_defs isAuthenticated_def userRole_def cleared_def
      redirect_url_def path_defs Let_def)

section \<open>The session\<close>

lemma getSession_eq:
  "getSession b out w =
     (Inr (me_of out),
      set_auth_loading False
        (on_auth (case me_of out of None \<Rightarrow> cleared | Some u \<Rightarrow> (\<lambda>a. a\<lparr>a_user := Some u\<rparr>))
           (snd (fetchMe b out (set_auth_loading True w)))))"
proof -
  obtain w1 where f: "fetchMe b out (set_auth_loading True w) = (Inr (me_of out), w1)"
    using fetchMe_pair by metis
  show ?thesis
    by (cases "me_of out") (use f in \<open>simp_all add: getSession_def io_simps service_defs\<close>)
qed

text \<open>Reading the session never throws. It resolves to the user the backend named and
  stores that user; on a missing body and on every failure it resolves to \<open>null\<close> and leaves
  nobody signed in. Either way the loading flag ends off.\<close>

theorem getSession_total:
  "\<exists>u. fst (getSession b out w) = Inr u \<and>
     a_user (w_auth (snd (getSession b out w))) = u \<and>
     \<not> a_isAuthLoading (w_auth (snd (getSession b out w))) \<and>
     (u = None \<longleftrightarrow> (case out of Inl _ \<Rightarrow> True | Inr r \<Rightarrow> fr_data r = None)) \<and>
     a_profile (w_auth (snd (getSession b out w))) = (if u = None then None else a_profile (w_auth w))"
  by (cases out) (simp_all add: getSession_eq split: option.split)

section \<open>The profile\<close>

text \<open>C19: Reading the profile never throws, and what it returns and leaves is fixed by the answer. The middleware's 403
  raises the password gate and returns nothing; a profile in the body is returned and stored; an exception, or a body without
  a profile, returns nothing and keeps the last known profile. On every path the role flag is settled, the gate is down
  unless that 403 raised it, and neither the user nor the loading flag is touched.\<close>

theorem fetchProfile_settles:
  "let gate = (case out of
         Inl _ \<Rightarrow> False
       | Inr r \<Rightarrow> (case fr_error r of None \<Rightarrow> False | Some f \<Rightarrow> fe_status f = 403 \<and> fe_message f = Some ''must_change_password''));
       body = (case out of
         Inl _ \<Rightarrow> None
       | Inr r \<Rightarrow> (case fr_data r of None \<Rightarrow> None | Some e \<Rightarrow> env_data e))
   in fst (fetchProfile out w) = Inr (if gate then None else body) \<and>
      w_auth (snd (fetchProfile out w)) =
        (w_auth w)\<lparr>a_isRoleLoaded := True, a_mustChangePassword := gate,
          a_profile := (if gate \<or> body = None then a_profile (w_auth w) else body)\<rparr>"
proof (cases out)
  case (Inl e)
  then show ?thesis by (simp add: fetchProfile_def io_simps service_defs)
next
  case (Inr r)
  then show ?thesis
    by (cases "fr_error r"; cases "fr_data r"; cases "Option.bind (fr_data r) env_data")
      (auto simp: fetchProfile_def io_simps service_defs must_change_password_error_def)
qed

section \<open>Signing in\<close>

text \<open>A sign-in that returns a body stores its user and navigates to the start page; any
  other outcome throws an \<open>ApiError\<close>, pushes an error toast, and leaves the auth atoms and the
  navigations as they were. The hook's loading flag ends off on every path.\<close>

theorem signIn_outcomes:
  "(case out of
      Inr r \<Rightarrow> (case fr_data r of
         Some s \<Rightarrow> fst (signIn c out w) = Inr () \<and>
           w_auth (snd (signIn c out w)) = (w_auth w)\<lparr>a_user := Some (as_user s)\<rparr> \<and>
           w_nav (snd (signIn c out w)) = w_nav w @ [''/'' @ redirect_lang (w_pathname w) (w_language w) @ ''/'']
       | None \<Rightarrow> fst (signIn c out w) = Inl (ApiObj (mk_api_error 0 ''sign-in returned an empty response'')) \<and>
           w_auth (snd (signIn c out w)) = w_auth w \<and> w_nav (snd (signIn c out w)) = w_nav w \<and>
           t_message (last (w_toasts (snd (signIn c out w)))) = Some ''sign-in returned an empty response'')
    | Inl e \<Rightarrow> fst (signIn c out w) = Inl (ApiObj (toError e)) \<and>
        w_auth (snd (signIn c out w)) = w_auth w \<and> w_nav (snd (signIn c out w)) = w_nav w \<and>
        t_message (last (w_toasts (snd (signIn c out w)))) = Some (err_message (toError e)))
   \<and> \<not> asv_isLoading (snd (signIn c out w))"
proof (cases out)
  case (Inl e)
  then show ?thesis
    by (simp add: signIn_def io_simps set_asv_loading_def error_toast_def mk_toast_def toasts_pushed)
next
  case (Inr r)
  then show ?thesis
    by (cases "fr_data r")
      (simp_all add: signIn_def io_simps set_asv_loading_def mk_toast_def toasts_pushed service_defs
        redirect_url_def path_defs)
qed

text \<open>The OAuth hand-off keeps the loading flag set exactly when it leaves the page for the
  provider's URL; on every other outcome the flag is reset and the error is thrown on.\<close>

theorem signInOAuth_loading:
  "(a_isAuthLoading (w_auth (snd (signInOAuth enc origin p out w)))
      \<longleftrightarrow> fst (signInOAuth enc origin p out w) = Inr ()) \<and>
   (fst (signInOAuth enc origin p out w) = Inr ()
      \<longleftrightarrow> (\<exists>r d. out = Inr r \<and> fr_data r = Some d \<and> oa_authUrl d \<noteq> [])) \<and>
   w_nav (snd (signInOAuth enc origin p out w)) =
     (case out of Inr r \<Rightarrow> (case fr_data r of Some d \<Rightarrow>
          (if oa_authUrl d = [] then w_nav w else w_nav w @ [oa_authUrl d]) | None \<Rightarrow> w_nav w)
      | Inl _ \<Rightarrow> w_nav w)"
proof (cases out)
  case (Inl e)
  then show ?thesis by (simp add: signInOAuth_def io_simps service_defs)
next
  case (Inr r)
  then show ?thesis
    by (cases "fr_data r") (simp_all add: signInOAuth_def io_simps service_defs)
qed

text \<open>Asking for the session silently (\<open>showToast = false\<close>) is silent only about an empty
  body: a failed request still pushes an error toast.\<close>

theorem silent_session_still_toasts:
  "w_toasts (snd (getSession False (Inl e) w)) =
     trim_stack (w_toasts w) @ [with_id (toast_id (w_now w) (w_counter w + 1)) (error_toast (toError e))] \<and>
   w_toasts (snd (getSession False (Inr \<lparr>fr_data = None, fr_error = err\<rparr>) w)) = w_toasts w"
  by (simp add: getSession_def fetchMe_def io_simps service_defs toasts_pushed)

end
