(* ===== verification/RouteGates.thy ===== *)
theory RouteGates
  imports AuthService
begin

text \<open>
  The route gates of \<open>components/react/auth\<close>: what each renders for a state of the auth
  store, and the effects it runs. A gate's own state is the bootstrap status it asked for.
  The gates of one page are stepped together with the store by \<open>gate_step\<close>.
\<close>

datatype gate_view = ShowFallback | ShowNothing | ShowChildren

section \<open>The four gates\<close>

definition protected_render :: "auth_atoms \<Rightarrow> bootstrap_status option \<Rightarrow> gate_view" where
  "protected_render a st =
     (if a_isAuthLoading a then ShowFallback
      else if \<not> isAuthenticated a \<and> st = None then ShowFallback
      else if \<not> isAuthenticated a then ShowNothing
      else ShowChildren)"

text \<open>The first effect asks for the status; a failed request counts as "set up".\<close>

definition protected_asks :: "auth_atoms \<Rightarrow> bootstrap_status option \<Rightarrow> bool" where
  "protected_asks a st \<longleftrightarrow> \<not> (a_isAuthLoading a \<or> isAuthenticated a \<or> st \<noteq> None)"

definition settle_status :: "(thrown + bootstrap_status) \<Rightarrow> bootstrap_status" where
  "settle_status out = (case out of Inr st \<Rightarrow> st | Inl _ \<Rightarrow> \<lparr>bs_needsSetup = False\<rparr>)"

definition protected_redirect :: "auth_atoms \<Rightarrow> bootstrap_status option \<Rightarrow> string option" where
  "protected_redirect a st =
     (if a_isAuthLoading a \<or> isAuthenticated a then None
      else map_option (\<lambda>s. if bs_needsSetup s then SIGNUP_PATH else LOGIN_PATH) st)"

definition public_render :: "bool \<Rightarrow> auth_atoms \<Rightarrow> bootstrap_status option \<Rightarrow> gate_view" where
  "public_render isLoginPage a st =
     (if a_isAuthLoading a then ShowFallback
      else if isAuthenticated a then ShowNothing
      else (case st of
              None \<Rightarrow> ShowFallback
            | Some s \<Rightarrow>
                if isLoginPage \<and> bs_needsSetup s then ShowNothing
                else if \<not> isLoginPage \<and> \<not> bs_needsSetup s then ShowNothing
                else ShowChildren))"

definition public_asks :: "auth_atoms \<Rightarrow> bootstrap_status option \<Rightarrow> bool" where
  "public_asks a st \<longleftrightarrow> \<not> (isAuthenticated a \<or> st \<noteq> None)"

text \<open>The redirect of the effect, and the one made while rendering for a signed-in user.\<close>

definition public_redirect :: "bool \<Rightarrow> auth_atoms \<Rightarrow> bootstrap_status option \<Rightarrow> string option" where
  "public_redirect isLoginPage a st =
     (if a_isAuthLoading a then None
      else if isAuthenticated a then Some DASHBOARD_PATH
      else (case st of
              None \<Rightarrow> None
            | Some s \<Rightarrow>
                if isLoginPage \<and> bs_needsSetup s then Some SIGNUP_PATH
                else if \<not> isLoginPage \<and> \<not> bs_needsSetup s then Some LOGIN_PATH
                else None))"

definition admin_render :: "auth_atoms \<Rightarrow> gate_view" where
  "admin_render a =
     (if a_isAuthLoading a \<or> \<not> isAuthenticated a \<or> \<not> a_isRoleLoaded a then ShowFallback
      else if \<not> isSuperAdmin (userRole a) then ShowNothing
      else ShowChildren)"

definition admin_redirect :: "language \<Rightarrow> auth_atoms \<Rightarrow> string option" where
  "admin_redirect locale a =
     (if a_isAuthLoading a \<or> \<not> isAuthenticated a \<or> \<not> a_isRoleLoaded a then None
      else if isSuperAdmin (userRole a) then None
      else Some (''/'' @ language_str locale @ ''/no-access''))"

definition password_gate_open :: "auth_atoms \<Rightarrow> bool" where
  "password_gate_open a \<longleftrightarrow>
     a_isRoleLoaded a \<and>
     (map_option u_must_change_password (a_profile a) = Some True \<or> a_mustChangePassword a)"

lemmas gate_defs =
  protected_render_def protected_asks_def protected_redirect_def public_render_def public_asks_def
  public_redirect_def admin_render_def admin_redirect_def

section \<open>The life of a protected page\<close>

text \<open>
  The page of a protected gate: the atoms, the gate's status and whether its request is in
  flight, and the redirects made. Steps: the session request settles, the gate's effect asks
  for the status, that request settles, the redirect effect runs.
\<close>

record gate_state =
  g_auth :: auth_atoms
  g_status :: "bootstrap_status option"
  g_asking :: bool
  g_redirects :: "string list"

definition gate_start :: gate_state where
  "gate_start = \<lparr>g_auth = initial_auth\<lparr>a_isAuthLoading := True\<rparr>, g_status = None, g_asking = False,
                 g_redirects = []\<rparr>"

inductive gate_step :: "gate_state \<Rightarrow> gate_state \<Rightarrow> bool" where
  session_ok: "a_isAuthLoading (g_auth g) \<Longrightarrow>
     gate_step g (g\<lparr>g_auth := (g_auth g)\<lparr>a_user := Some u, a_isAuthLoading := False\<rparr>\<rparr>)"
| session_none: "a_isAuthLoading (g_auth g) \<Longrightarrow>
     gate_step g (g\<lparr>g_auth := (cleared (g_auth g))\<lparr>a_isAuthLoading := False\<rparr>\<rparr>)"
| ask: "protected_asks (g_auth g) (g_status g) \<Longrightarrow> \<not> g_asking g \<Longrightarrow> gate_step g (g\<lparr>g_asking := True\<rparr>)"
| settle: "g_asking g \<Longrightarrow>
     gate_step g (g\<lparr>g_asking := False, g_status := Some (settle_status out)\<rparr>)"
| redirect: "protected_redirect (g_auth g) (g_status g) = Some p \<Longrightarrow> g_redirects g = [] \<Longrightarrow>
     gate_step g (g\<lparr>g_redirects := [p]\<rparr>)"

inductive gate_reachable :: "gate_state \<Rightarrow> bool" where
  start: "gate_reachable gate_start"
| step: "gate_reachable g \<Longrightarrow> gate_step g h \<Longrightarrow> gate_reachable h"

inductive_cases gate_step_cases: "gate_step g h"

text \<open>The status is asked for, and a redirect made, only for a visitor whose session request
  has settled without a user.\<close>

definition gate_inv :: "gate_state \<Rightarrow> bool" where
  "gate_inv g \<longleftrightarrow>
     (g_asking g \<or> g_status g \<noteq> None \<or> g_redirects g \<noteq> [] \<longrightarrow>
        \<not> a_isAuthLoading (g_auth g) \<and> \<not> isAuthenticated (g_auth g)) \<and>
     (g_redirects g \<noteq> [] \<longrightarrow>
        g_status g \<noteq> None \<and>
        (\<exists>p. g_redirects g = [p] \<and> p \<in> {SIGNUP_PATH, LOGIN_PATH}))"

lemma gate_inv_start: "gate_inv gate_start"
  by (simp add: gate_inv_def gate_start_def)

lemma gate_inv_step: "gate_step g h \<Longrightarrow> gate_inv g \<Longrightarrow> gate_inv h"
  by (induction rule: gate_step.induct)
    (auto simp: gate_inv_def gate_defs settle_status_def isAuthenticated_def cleared_def
      split: if_splits option.splits sum.splits)

lemma gate_reachable_inv: "gate_reachable g \<Longrightarrow> gate_inv g"
  by (induction rule: gate_reachable.induct) (auto intro: gate_inv_start gate_inv_step)

lemma gate_progress_step:
  assumes "\<not> isAuthenticated (g_auth g)" "g_redirects g = []"
  shows "\<exists>h. gate_step g h"
proof (cases "a_isAuthLoading (g_auth g)")
  case True
  then show ?thesis by (blast intro: gate_step.session_none)
next
  case False
  show ?thesis
  proof (cases "g_status g")
    case None
    then show ?thesis
      using assms(1) False
      using gate_step.ask [of g] gate_step.settle [of g]
      by (cases "g_asking g") (auto simp: protected_asks_def)
  next
    case (Some st)
    then show ?thesis
      using assms False gate_step.redirect [of g "if bs_needsSetup st then SIGNUP_PATH else LOGIN_PATH"]
      by (auto simp: protected_redirect_def)
  qed
qed

section \<open>Properties\<close>

text \<open>A protected page shows its content exactly to an authenticated visitor whose session
  request has settled, an admin page only to a super admin whose profile has settled, and no
  state of the store shows both a protected page and a public-only page.\<close>

theorem gates_guard_content:
  "(protected_render a st = ShowChildren \<longleftrightarrow> \<not> a_isAuthLoading a \<and> isAuthenticated a) \<and>
   (admin_render a = ShowChildren \<longleftrightarrow>
      \<not> a_isAuthLoading a \<and> isAuthenticated a \<and> a_isRoleLoaded a \<and>
      map_option u_role (a_profile a) = Some RoleSuperAdmin) \<and>
   \<not> (protected_render a st = ShowChildren \<and> public_render l a st' = ShowChildren) \<and>
   \<not> (public_render True a st' = ShowChildren \<and> public_render False a st' = ShowChildren)"
  by (auto simp: gate_defs isSuperAdmin_def userRole_def split: option.splits)

text \<open>Every gate either shows something or is sending the visitor elsewhere: it renders
  nothing exactly when it issues a redirect, so no settled state leaves a blank page.\<close>

theorem gates_never_blank:
  "(protected_render a st = ShowNothing \<longleftrightarrow> protected_redirect a st \<noteq> None) \<and>
   (public_render l a st = ShowNothing \<longleftrightarrow> public_redirect l a st \<noteq> None) \<and>
   (admin_render a = ShowNothing \<longleftrightarrow> admin_redirect locale a \<noteq> None)"
  by (auto simp: gate_defs split: option.splits)

text \<open>In every reachable state of a protected page a redirect was made at most once, only
  after the bootstrap status was known, only to the sign-up or the login page, and never for an
  authenticated visitor; and until it is made a visitor without a session is never stuck.\<close>

theorem protected_page_redirects:
  assumes "gate_reachable g"
  shows "length (g_redirects g) \<le> 1 \<and>
    (g_redirects g \<noteq> [] \<longrightarrow>
       \<not> isAuthenticated (g_auth g) \<and> g_status g \<noteq> None \<and> set (g_redirects g) \<subseteq> {''/signup'', ''/login''}) \<and>
    (\<not> isAuthenticated (g_auth g) \<and> g_redirects g = [] \<longrightarrow> (\<exists>h. gate_step g h))"
proof -
  from assms have "gate_inv g" by (rule gate_reachable_inv)
  then show ?thesis
    using gate_progress_step [of g] by (auto simp: gate_inv_def path_defs)
qed

definition gate_after_session :: gate_state where
  "gate_after_session = gate_start\<lparr>g_auth := (cleared (g_auth gate_start))\<lparr>a_isAuthLoading := False\<rparr>\<rparr>"

lemma gate_example_reachable:
  "gate_reachable (gate_after_session\<lparr>g_asking := False,
     g_status := Some (settle_status (Inl Primitive)), g_redirects := [''/login'']\<rparr>)"
proof -
  let ?g1 = gate_after_session
  let ?g2 = "?g1\<lparr>g_asking := True\<rparr>"
  let ?g3 = "?g2\<lparr>g_asking := False, g_status := Some (settle_status (Inl Primitive))\<rparr>"
  have "gate_reachable ?g1"
    unfolding gate_after_session_def
    by (rule gate_reachable.step [OF gate_reachable.start], rule gate_step.session_none)
      (simp add: gate_start_def)
  then have "gate_reachable ?g2"
    by (rule gate_reachable.step) (rule gate_step.ask,
      simp_all add: gate_after_session_def gate_start_def protected_asks_def isAuthenticated_def)
  then have "gate_reachable ?g3"
    by (rule gate_reachable.step) (rule gate_step.settle, simp)
  then have "gate_reachable (?g3\<lparr>g_redirects := [''/login'']\<rparr>)"
    by (rule gate_reachable.step) (rule gate_step.redirect,
      simp_all add: gate_after_session_def gate_start_def protected_redirect_def isAuthenticated_def
        settle_status_def path_defs)
  then show ?thesis by simp
qed

theorem protected_page_redirects_witness:
  "length (g_redirects (gate_after_session\<lparr>g_asking := False,
     g_status := Some (settle_status (Inl Primitive)), g_redirects := [''/login'']\<rparr>)) \<le> 1"
  using protected_page_redirects [OF gate_example_reachable] by blast

text \<open>The admin gate names the locale in its redirect and \<open>redirectTo\<close> adds the locale
  again: a user without the role on an English page is sent to \<open>/en/en/no-access\<close>, which is no
  route of the site; with a Spanish page it is \<open>/es/es/no-access\<close>.\<close>

theorem admin_redirect_doubles_locale:
  "map_option (redirect_url (''/'' @ language_str loc @ ''/admin/'') lang) (admin_redirect loc a) =
     (if a_isAuthLoading a \<or> \<not> isAuthenticated a \<or> \<not> a_isRoleLoaded a \<or> isSuperAdmin (userRole a) then None
      else Some (''/'' @ language_str loc @ ''/'' @ language_str loc @ ''/no-access''))"
  by (cases loc)
    (simp_all add: admin_redirect_def redirect_url_def redirect_lang_def first_segment_def supported_langs_def)

text \<open>The password gate opens on a settled profile that asks for a change, and on the
  middleware's 403 even though no profile could be read then.\<close>

theorem password_gate_signals:
  "password_gate_open (w_auth (snd (fetchProfile out w))) \<longleftrightarrow>
     (case out of
        Inl _ \<Rightarrow> map_option u_must_change_password (a_profile (w_auth w)) = Some True
      | Inr r \<Rightarrow> must_change_password_error (fr_error r) \<or>
          map_option u_must_change_password
            (case Option.bind (fr_data r) env_data of None \<Rightarrow> a_profile (w_auth w) | Some u \<Rightarrow> Some u) = Some True)"
proof (cases out)
  case (Inl e)
  then show ?thesis by (simp add: fetchProfile_def io_simps service_defs password_gate_open_def)
next
  case (Inr r)
  then show ?thesis
    by (cases "must_change_password_error (fr_error r)"; cases "Option.bind (fr_data r) env_data")
      (simp_all add: fetchProfile_def io_simps service_defs password_gate_open_def)
qed

end
