(* ===== verification/DeviceService.thy ===== *)
theory DeviceService
  imports ApiErrors
begin

text \<open>
  The devices hook (\<open>lib/api/services/deviceService.ts\<close>): the cached list, the single
  device and the operations on them. A React handler sees the state of the render it was
  created in; where the code reads \<open>devices\<close> or \<open>device\<close> directly (and not through a
  functional update) that captured value is an argument of the operation.
\<close>

record device_service = world +
  dsv_isLoading :: bool
  dsv_error :: "api_error option"
  dsv_devices :: "device_with_access list"
  dsv_device :: "device_detail option"

type_synonym 'a device_act = "(device_service, thrown, 'a) io"

definition set_dsv_loading :: "bool \<Rightarrow> device_service \<Rightarrow> device_service" where
  "set_dsv_loading b s = s\<lparr>dsv_isLoading := b\<rparr>"

interpretation dsv_loading: flag_field dsv_isLoading set_dsv_loading
  by unfold_locales (simp_all add: set_dsv_loading_def)

definition dsv_setIsLoading :: "bool \<Rightarrow> unit device_act" where
  "dsv_setIsLoading b = io_modify (set_dsv_loading b)"

definition dsv_resetState :: "unit device_act" where
  "dsv_resetState = io_modify (\<lambda>s. s\<lparr>dsv_isLoading := False, dsv_error := None\<rparr>)"

definition setDevices :: "(device_with_access list \<Rightarrow> device_with_access list) \<Rightarrow> unit device_act" where
  "setDevices f = io_modify (\<lambda>s. s\<lparr>dsv_devices := f (dsv_devices s)\<rparr>)"

definition setDevice :: "device_detail option \<Rightarrow> unit device_act" where
  "setDevice d = io_modify (\<lambda>s. s\<lparr>dsv_device := d\<rparr>)"

lemmas device_state_defs [service_defs] =
  dsv_setIsLoading_def dsv_resetState_def setDevices_def setDevice_def

text \<open>\<open>{ ...d, ...p }\<close>: every field of a device is taken from \<open>p\<close>, the others are kept.\<close>

definition merge_device :: "'z device_scheme \<Rightarrow> device \<Rightarrow> 'z device_scheme" where
  "merge_device d p = device.extend p (device.more d)"

lemma merge_device_simps [simp]:
  "d_id (merge_device d p) = d_id p" "d_name (merge_device d p) = d_name p"
  "d_uuid_firmware (merge_device d p) = d_uuid_firmware p"
  "d_vehicle_type (merge_device d p) = d_vehicle_type p"
  "device.more (merge_device d p) = device.more d" "device.truncate (merge_device d p) = p"
  by (simp_all add: merge_device_def device.defs)

lemma access_role_merge [simp]: "da_access_role (merge_device d p) = da_access_role (d :: 'z device_with_access_scheme)"
  by (cases d) (simp add: merge_device_def device.defs)

lemma users_merge [simp]: "dd_users (merge_device d p) = dd_users (d :: device_detail)"
  by (cases d) (simp add: merge_device_def device.defs)

definition with_owner :: "device \<Rightarrow> device_with_access" where
  "with_owner d = device.extend d \<lparr>da_access_role = Owner\<rparr>"

lemma with_owner_simps [simp]:
  "d_id (with_owner d) = d_id d" "da_access_role (with_owner d) = Owner"
  "device.truncate (with_owner d) = d"
  by (simp_all add: with_owner_def device.defs)

section \<open>The operations\<close>

definition device_path :: "string \<Rightarrow> string" where
  "device_path i = ''/devices/'' @ i"

definition null_response :: "string \<Rightarrow> 'a device_act" where
  "null_response msg = io_then (service_error_toast msg) (handleApiError (JsError msg))"

definition getAllDevices ::
  "int \<Rightarrow> int \<Rightarrow> (thrown + device_list_response envelope fetch_result) \<Rightarrow> unit device_act" where
  "getAllDevices page pageSize out =
     io_then dsv_resetState (io_then (dsv_setIsLoading True) (io_then (setDevices (\<lambda>_. []))
     (io_finally
       (io_bind (withApiErrorToast (await_call
          ((mk_request ApiClient GET ''/devices'')
             \<lparr>rq_query := [(''page'', JNumber (Fin (of_int page))), (''page_size'', JNumber (Fin (of_int pageSize)))]\<rparr>)
          out) True) (\<lambda>r.
          case fr_data r of
            None \<Rightarrow> null_response ''get all devices returned a null response''
          | Some response \<Rightarrow>
              (case env_data response of
                 None \<Rightarrow> io_throw null_property_error
               | Some d \<Rightarrow> setDevices (\<lambda>_. dlr_items d))))
       (dsv_setIsLoading False))))"

definition getDeviceById ::
  "string \<Rightarrow> (thrown + device_detail envelope fetch_result) \<Rightarrow> unit device_act" where
  "getDeviceById i out =
     io_then dsv_resetState (io_then (dsv_setIsLoading True) (io_then (setDevice None)
     (io_finally
       (io_bind (withApiErrorToast (await_call (mk_request ApiClient GET (device_path i)) out) True) (\<lambda>r.
          case fr_data r of
            None \<Rightarrow> handleApiError (JsError ''get device returned a null response'')
          | Some response \<Rightarrow>
              io_then (if env_status_code response \<noteq> 200
                       then io_then (service_error_toast (env_message response))
                              (handleApiError (ApiObj (mk_api_error (env_status_code response) (env_message response))))
                       else io_return ())
              (setDevice (env_data response))))
       (dsv_setIsLoading False))))"

definition createDevice ::
  "create_device_dto \<Rightarrow> device_with_access list \<Rightarrow> (thrown + device envelope fetch_result) \<Rightarrow> unit device_act" where
  "createDevice payload captured out =
     io_then dsv_resetState (io_then (dsv_setIsLoading True)
     (io_finally
       (io_bind (withApiErrorToast (await_call
          ((mk_request ApiClient POST ''/devices'')
             \<lparr>rq_body := Some (JObject [(''uuid_firmware'', JString (cdd_uuid_firmware payload)),
                                        (''name'', JString (cdd_name payload)),
                                        (''vehicle_type'', JString (vehicle_type_str (cdd_vehicle_type payload)))])\<rparr>)
          out) True) (\<lambda>r.
          case Option.bind (fr_data r) env_data of
            None \<Rightarrow> null_response ''create device returned a null response''
          | Some d \<Rightarrow> setDevices (\<lambda>_. with_owner d # captured)))
       (dsv_setIsLoading False)))"

definition updateDevice ::
  "string \<Rightarrow> update_device_dto \<Rightarrow> device_detail option \<Rightarrow> (thrown + device envelope fetch_result)
   \<Rightarrow> unit device_act" where
  "updateDevice i payload captured out =
     io_then dsv_resetState (io_then (dsv_setIsLoading True)
     (io_finally
       (io_bind (withApiErrorToast (await_call
          ((mk_request ApiClient PUT (device_path i))
             \<lparr>rq_body := Some (JObject ((''name'', JString (udd_name payload)) #
                (case udd_vehicle_type payload of None \<Rightarrow> []
                 | Some v \<Rightarrow> [(''vehicle_type'', JString (vehicle_type_str v))])))\<rparr>)
          out) True) (\<lambda>r.
          case Option.bind (fr_data r) env_data of
            None \<Rightarrow> null_response ''update device returned a null response''
          | Some p \<Rightarrow>
              io_then (setDevices (update_key d_id i (\<lambda>d. merge_device d p)))
              (case captured of
                 Some d \<Rightarrow> if d_id d = i then setDevice (Some (merge_device d p)) else io_return ()
               | None \<Rightarrow> io_return ())))
       (dsv_setIsLoading False)))"

definition deleteDevice ::
  "string \<Rightarrow> device_detail option \<Rightarrow> (thrown + 'b fetch_result) \<Rightarrow> unit device_act" where
  "deleteDevice i captured out =
     io_then dsv_resetState (io_then (dsv_setIsLoading True)
     (io_finally
       (io_bind (withApiErrorToast (await_call (mk_request ApiClient DELETE (device_path i)) out) True) (\<lambda>_.
          io_then (setDevices (drop_key d_id i))
          (case captured of
             Some d \<Rightarrow> if d_id d = i then setDevice None else io_return ()
           | None \<Rightarrow> io_return ())))
       (dsv_setIsLoading False)))"

definition grant_request :: "string \<Rightarrow> string \<Rightarrow> request" where
  "grant_request deviceId userId = (mk_request ApiClient POST (device_path deviceId @ ''/access''))
     \<lparr>rq_body := Some (JObject [(''user_id'', JString userId)])\<rparr>"

definition grantAccess ::
  "string \<Rightarrow> string \<Rightarrow> (thrown + 'b fetch_result) \<Rightarrow> (thrown + device_detail envelope fetch_result)
   \<Rightarrow> unit device_act" where
  "grantAccess deviceId userId out out_detail =
     io_then (dsv_setIsLoading True)
     (io_finally
       (io_bind (withApiErrorToast (await_call (grant_request deviceId userId) out) True) (\<lambda>_.
          getDeviceById deviceId out_detail))
       (dsv_setIsLoading False))"

definition revoke_request :: "string \<Rightarrow> string \<Rightarrow> request" where
  "revoke_request deviceId userId =
     mk_request ApiClient DELETE (device_path deviceId @ ''/access/'' @ userId)"

definition revokeAccess ::
  "string \<Rightarrow> string \<Rightarrow> (thrown + 'b fetch_result) \<Rightarrow> (thrown + device_detail envelope fetch_result)
   \<Rightarrow> unit device_act" where
  "revokeAccess deviceId userId out out_detail =
     io_then (dsv_setIsLoading True)
     (io_finally
       (io_bind (withApiErrorToast (await_call (revoke_request deviceId userId) out) True) (\<lambda>_.
          getDeviceById deviceId out_detail))
       (dsv_setIsLoading False))"

lemmas device_op_defs =
  getAllDevices_def getDeviceById_def createDevice_def updateDevice_def deleteDevice_def
  grantAccess_def revokeAccess_def

section \<open>Lemmas\<close>

lemma null_response_eq [io_simps]:
  "null_response msg s = (Inl (ApiObj (mk_api_error 0 msg)), pushed (mk_toast ToastError ''Error'' msg) s)"
  by (simp add: null_response_def io_simps)

lemma dsv_pushed [simp]:
  "dsv_devices (pushed b s) = dsv_devices s" "dsv_device (pushed b s) = dsv_device s"
  "dsv_isLoading (pushed b s) = dsv_isLoading s" "dsv_error (pushed b s) = dsv_error s"
  by (simp_all add: pushed_def)

lemma dsv_sent [simp]:
  "dsv_devices (sent rq s) = dsv_devices s" "dsv_device (sent rq s) = dsv_device s"
  "dsv_isLoading (sent rq s) = dsv_isLoading s" "dsv_error (sent rq s) = dsv_error s"
  by (simp_all add: sent_def)

lemma dsv_set_loading [simp]:
  "dsv_devices (set_dsv_loading b s) = dsv_devices s" "dsv_device (set_dsv_loading b s) = dsv_device s"
  "dsv_isLoading (set_dsv_loading b s) = b" "dsv_error (set_dsv_loading b s) = dsv_error s"
  "w_sent (set_dsv_loading b s) = w_sent s" "w_toasts (set_dsv_loading b s) = w_toasts s"
  "w_counter (set_dsv_loading b s) = w_counter s" "w_now (set_dsv_loading b s) = w_now s"
  by (simp_all add: set_dsv_loading_def)

text \<open>An operation of the hook: preparation, then a body whose finalizer resets the flag.\<close>

lemma ends_idle: "\<not> dsv_isLoading (snd (io_finally m (dsv_setIsLoading False) s))"
  unfolding dsv_setIsLoading_def using dsv_loading.finally_flag [of m False s] by simp

lemma then_ends_idle:
  "(\<And>t. \<not> dsv_isLoading (snd (m t))) \<Longrightarrow> \<not> dsv_isLoading (snd (io_then (io_modify f) m s))"
  by (simp add: io_simps)

lemma getDeviceById_idle: "\<not> dsv_isLoading (snd (getDeviceById i out s))"
  unfolding getDeviceById_def service_defs
  by (intro then_ends_idle) (simp add: ends_idle [unfolded service_defs])

end
