(* ===== verification/DeviceProps.thy ===== *)
theory DeviceProps
  imports DeviceService
begin

text \<open>What the devices hook guarantees.\<close>

text \<open>The body of a response that carries data.\<close>

definition body_of :: "(thrown + 'a envelope fetch_result) \<Rightarrow> 'a option" where
  "body_of out = (case out of Inl _ \<Rightarrow> None | Inr r \<Rightarrow> Option.bind (fr_data r) env_data)"

lemma body_of_Some: "body_of out = Some d \<longleftrightarrow> (\<exists>r. out = Inr r \<and> Option.bind (fr_data r) env_data = Some d)"
  by (cases out) (simp_all add: body_of_def)

definition failed :: "(thrown + 'a) \<times> 's \<Rightarrow> bool" where
  "failed r \<longleftrightarrow> (case fst r of Inl _ \<Rightarrow> True | Inr _ \<Rightarrow> False)"

definition sample_device :: "string \<Rightarrow> string \<Rightarrow> device" where
  "sample_device i n = \<lparr>d_id = i, d_uuid_firmware = ''u'', d_name = n, d_vehicle_type = Car,
     d_created_at = ''2026-01-01T00:00:00Z'', d_last_contact_at = None\<rparr>"

definition sample_state :: "device_with_access list \<Rightarrow> device_service" where
  "sample_state ds = world.extend initial_world
     \<lparr>dsv_isLoading = False, dsv_error = None, dsv_devices = ds, dsv_device = None\<rparr>"

definition device_envelope :: "device \<Rightarrow> thrown + device envelope fetch_result" where
  "device_envelope d = fetched \<lparr>env_status_code = 200, env_message = ''ok'', env_data = Some d\<rparr>"

lemma body_of_device_envelope [simp]: "body_of (device_envelope d) = Some d"
  by (simp add: body_of_def device_envelope_def fetched_def)

definition sample_create :: create_device_dto where
  "sample_create = \<lparr>cdd_uuid_firmware = ''u'', cdd_name = ''x'', cdd_vehicle_type = Car\<rparr>"

definition sample_update :: update_device_dto where
  "sample_update = \<lparr>udd_name = ''new'', udd_vehicle_type = None\<rparr>"

lemma sample_state_simps [simp]:
  "dsv_devices (sample_state ds) = ds" "dsv_device (sample_state ds) = None"
  "w_sent (sample_state ds) = []"
  by (simp_all add: sample_state_def initial_world_def world.defs)

text \<open>Every operation of the devices hook leaves the loading flag off, whatever its
  requests return or throw.\<close>

theorem device_ops_end_idle:
  "\<not> dsv_isLoading (snd (getAllDevices p n out1 s)) \<and>
   \<not> dsv_isLoading (snd (getDeviceById i out2 s)) \<and>
   \<not> dsv_isLoading (snd (createDevice c cap out3 s)) \<and>
   \<not> dsv_isLoading (snd (updateDevice i u cap' out3 s)) \<and>
   \<not> dsv_isLoading (snd (deleteDevice i cap' out4 s)) \<and>
   \<not> dsv_isLoading (snd (grantAccess i usr out4 out2 s)) \<and>
   \<not> dsv_isLoading (snd (revokeAccess i usr out4 out2 s))"
  unfolding device_op_defs service_defs
  by (intro conjI then_ends_idle) (simp_all add: ends_idle [unfolded service_defs])

text \<open>Creating a device puts the device the backend returned at the head of the list the
  handler saw, with the creator as its owner; with no body, or on a throw, it throws an error,
  pushes a toast and leaves the list unchanged.\<close>

theorem createDevice_effect:
  "(case body_of out of
      Some d \<Rightarrow> fst (createDevice c cap out s) = Inr () \<and>
        dsv_devices (snd (createDevice c cap out s)) = with_owner d # cap \<and>
        w_toasts (snd (createDevice c cap out s)) = w_toasts s
    | None \<Rightarrow> failed (createDevice c cap out s) \<and>
        dsv_devices (snd (createDevice c cap out s)) = dsv_devices s \<and>
        t_variant (last (w_toasts (snd (createDevice c cap out s)))) = ToastError)"
proof (cases out)
  case (Inl e)
  then show ?thesis
    by (simp add: body_of_def createDevice_def io_simps service_defs failed_def error_toast_def mk_toast_def
        toasts_pushed)
next
  case (Inr r)
  then show ?thesis
    by (cases "Option.bind (fr_data r) env_data")
      (simp_all add: body_of_def createDevice_def io_simps service_defs failed_def mk_toast_def toasts_pushed)
qed

text \<open>The list update of a creation is not functional: it is built from the list of the
  render the handler was created in. A device that another operation added in between is
  dropped from the cache, although both creations succeeded.\<close>

theorem createDevice_loses_concurrent_creation:
  assumes "body_of out1 = Some d1" "body_of out2 = Some d2"
  shows "let cap = dsv_devices s;
             s1 = snd (createDevice c1 cap out1 s);
             s2 = snd (createDevice c2 cap out2 s1)
         in dsv_devices s2 = with_owner d2 # dsv_devices s"
  using createDevice_effect [where out = out2 and c = c2 and cap = "dsv_devices s"] assms
  by (simp add: Let_def)

theorem createDevice_loses_concurrent_creation_witness:
  "map d_id (dsv_devices (snd (createDevice sample_create [] (device_envelope (sample_device ''b'' ''y''))
     (snd (createDevice sample_create [] (device_envelope (sample_device ''a'' ''x'')) (sample_state [])))))) = [''b'']"
  using createDevice_loses_concurrent_creation [of "device_envelope (sample_device ''a'' ''x'')"
      "sample_device ''a'' ''x''" "device_envelope (sample_device ''b'' ''y'')" "sample_device ''b'' ''y''"
      "sample_state []" sample_create sample_create]
  by (simp add: Let_def sample_device_def)

text \<open>An update whose response carries the device's own id changes exactly the entries of
  that id: the ids, the order and the access roles of the list are kept, the other entries are
  untouched, and the entry's device fields are those of the response. The detail view of the
  same device follows and keeps its user list; that of another device is left alone.\<close>

theorem updateDevice_effect:
  assumes "body_of out = Some p" "d_id p = i"
  shows "let s' = snd (updateDevice i u cap out s) in
     fst (updateDevice i u cap out s) = Inr () \<and>
     map d_id (dsv_devices s') = map d_id (dsv_devices s) \<and>
     map da_access_role (dsv_devices s') = map da_access_role (dsv_devices s) \<and>
     (\<forall>k < length (dsv_devices s).
        (d_id (dsv_devices s ! k) \<noteq> i \<longrightarrow> dsv_devices s' ! k = dsv_devices s ! k) \<and>
        (d_id (dsv_devices s ! k) = i \<longrightarrow> device.truncate (dsv_devices s' ! k) = p)) \<and>
     dsv_device s' = (case cap of
        Some d \<Rightarrow> if d_id d = i then Some (merge_device d p) else dsv_device s
      | None \<Rightarrow> dsv_device s)"
proof -
  obtain r where r: "out = Inr r" "Option.bind (fr_data r) env_data = Some p"
    using assms(1) by (auto simp: body_of_Some)
  let ?f = "\<lambda>d :: device_with_access. merge_device d p"
  have devs: "dsv_devices (snd (updateDevice i u cap out s)) = update_key d_id i ?f (dsv_devices s)"
    and dev: "dsv_device (snd (updateDevice i u cap out s)) =
      (case cap of Some d \<Rightarrow> if d_id d = i then Some (merge_device d p) else dsv_device s | None \<Rightarrow> dsv_device s)"
    and ok: "fst (updateDevice i u cap out s) = Inr ()"
    using r by (simp_all add: updateDevice_def io_simps service_defs split: option.split)
  have "map da_access_role (update_key d_id i ?f xs) = map da_access_role xs" for xs
    by (simp add: update_key_def)
  moreover have "map d_id (update_key d_id i ?f xs) = map d_id xs" for xs
    by (rule update_key_keys) (simp add: assms(2))
  ultimately show ?thesis
    by (simp add: Let_def devs dev ok update_key_nth)
qed

theorem updateDevice_effect_witness:
  "map d_id (dsv_devices (snd (updateDevice ''a'' sample_update None (device_envelope (sample_device ''a'' ''new''))
     (sample_state [with_owner (sample_device ''a'' ''old''), with_owner (sample_device ''b'' ''x'')])))) = [''a'', ''b'']"
  using updateDevice_effect [of "device_envelope (sample_device ''a'' ''new'')" "sample_device ''a'' ''new''" "''a''" sample_update None
      "sample_state [with_owner (sample_device ''a'' ''old''), with_owner (sample_device ''b'' ''x'')]"]
  by (simp add: Let_def sample_device_def)

text \<open>A deletion removes exactly the entries of the deleted id and keeps the others in
  order; the detail view is emptied if it showed that device. A failed deletion changes neither.\<close>

theorem deleteDevice_effect:
  "(case out of
      Inr _ \<Rightarrow> dsv_devices (snd (deleteDevice i cap out s)) = filter (\<lambda>d. d_id d \<noteq> i) (dsv_devices s) \<and>
        dsv_device (snd (deleteDevice i cap out s)) =
          (if map_option d_id cap = Some i then None else dsv_device s) \<and>
        fst (deleteDevice i cap out s) = Inr ()
    | Inl e \<Rightarrow> dsv_devices (snd (deleteDevice i cap out s)) = dsv_devices s \<and>
        dsv_device (snd (deleteDevice i cap out s)) = dsv_device s \<and>
        fst (deleteDevice i cap out s) = Inl (ApiObj (toError e)))"
  by (cases out; cases cap) (simp_all add: deleteDevice_def io_simps service_defs drop_key_def)

text \<open>Reading one device whose envelope carries an error status shows the backend's message
  in a toast but throws a network error: the status and the message of the answer do not reach
  the caller.\<close>

theorem getDeviceById_loses_status:
  assumes "out = fetched env" "env_status_code env \<noteq> 200"
  shows "fst (getDeviceById i out s) = Inl (ApiObj (mk_api_error 0 ''Network error'')) \<and>
     t_message (last (w_toasts (snd (getDeviceById i out s)))) = Some (env_message env) \<and>
     dsv_device (snd (getDeviceById i out s)) = None"
  using assms by (simp add: getDeviceById_def fetched_def io_simps service_defs mk_toast_def toasts_pushed)

theorem getDeviceById_loses_status_witness:
  "fst (getDeviceById ''d'' (fetched \<lparr>env_status_code = 404, env_message = ''gone'', env_data = None\<rparr>) (sample_state [])) =
     Inl (ApiObj (mk_api_error 0 ''Network error''))"
  using getDeviceById_loses_status [of _ "\<lparr>env_status_code = 404, env_message = ''gone'', env_data = None\<rparr>" "''d''" "sample_state []"]
  by simp

lemma getDeviceById_sent [simp]:
  "w_sent (snd (getDeviceById i out2 t)) = w_sent t @ [mk_request ApiClient GET (device_path i)]"
  by (cases out2) (simp_all add: getDeviceById_def io_simps service_defs split: option.split)

lemma grantAccess_split:
  "snd (grantAccess i usr (Inl e) out2 s) =
     set_dsv_loading False (pushed (error_toast (toError e)) (sent (grant_request i usr) (set_dsv_loading True s)))"
  "snd (grantAccess i usr (Inr x) out2 s) =
     set_dsv_loading False (snd (getDeviceById i out2 (sent (grant_request i usr) (set_dsv_loading True s))))"
  by (simp_all add: grantAccess_def service_defs io_finally_modify io_then_def io_bind_def io_modify_def
      wrapped_call_simps)

lemma revokeAccess_split:
  "snd (revokeAccess i usr (Inl e) out2 s) =
     set_dsv_loading False (pushed (error_toast (toError e)) (sent (revoke_request i usr) (set_dsv_loading True s)))"
  "snd (revokeAccess i usr (Inr x) out2 s) =
     set_dsv_loading False (snd (getDeviceById i out2 (sent (revoke_request i usr) (set_dsv_loading True s))))"
  by (simp_all add: revokeAccess_def service_defs io_finally_modify io_then_def io_bind_def io_modify_def
      wrapped_call_simps)

text \<open>Granting and revoking access send the change first and read the device again only
  after it succeeded; when the change fails nothing more is sent and the device shown is kept.\<close>

theorem access_changes_then_refresh:
  "w_sent (snd (grantAccess i usr out out2 s)) =
     w_sent s @ (case out of Inl _ \<Rightarrow> [grant_request i usr]
                 | Inr _ \<Rightarrow> [grant_request i usr, mk_request ApiClient GET (device_path i)]) \<and>
   w_sent (snd (revokeAccess i usr out out2 s)) =
     w_sent s @ (case out of Inl _ \<Rightarrow> [revoke_request i usr]
                 | Inr _ \<Rightarrow> [revoke_request i usr, mk_request ApiClient GET (device_path i)]) \<and>
   (\<forall>e. out = Inl e \<longrightarrow> dsv_device (snd (grantAccess i usr out out2 s)) = dsv_device s \<and>
        dsv_device (snd (revokeAccess i usr out out2 s)) = dsv_device s)"
  by (cases out) (simp_all add: grantAccess_split revokeAccess_split)

theorem access_changes_then_refresh_witness:
  "dsv_device (snd (grantAccess ''d'' ''u'' (Inl Primitive :: thrown + unit fetch_result) (Inl Primitive)
     (sample_state []))) = None"
  using access_changes_then_refresh [of "''d''" "''u''" "Inl Primitive :: thrown + unit fetch_result"
      "Inl Primitive" "sample_state []"]
  by simp

end
