(* ===== verification/LocationService.thy ===== *)
theory LocationService
  imports ApiErrors
begin

text \<open>
  The locations hook (\<open>lib/api/services/locationService.ts\<close>). Its requests overlap: a
  request is a start step and, when its promise settles, a settle step, and the steps of
  several requests interleave. A history or route request carries the number it was given
  at its start, and only the latest one may change what is shown.

  The shape of a response is checked at run time, so an outcome is a thrown value or the
  untyped result of the client; \<open>dec\<close> is the unchecked cast of the payload to its type.
\<close>

section \<open>State\<close>

record location_service = world +
  lsv_latestLoading :: bool
  lsv_historyLoading :: bool
  lsv_routeLoading :: bool
  lsv_latestError :: "api_error option"
  lsv_historyError :: "api_error option"
  lsv_routeError :: "api_error option"
  lsv_latest :: "location_point option"
  lsv_history :: "location_point list"
  lsv_historyPagination :: "pagination_meta option"
  lsv_route :: "location_route_response option"
  lsv_historyRequestId :: nat
  lsv_routeRequestId :: nat

type_synonym 'a location_act = "(location_service, thrown, 'a) io"

definition LIVE_ROUTE_MAX_POINTS :: int where "LIVE_ROUTE_MAX_POINTS = 1000"
definition LOCATION_HISTORY_PAGE_SIZE :: int where "LOCATION_HISTORY_PAGE_SIZE = 20"

section \<open>runLocationRequest\<close>

text \<open>Statuses are whole numbers on the wire.\<close>

fun status_int :: "number \<Rightarrow> int" where
  "status_int (Fin r) = \<lfloor>r\<rfloor>"
| "status_int _ = 0"

fun number_of :: "json \<Rightarrow> number" where
  "number_of (JNumber n) = n"
| "number_of _ = NaN"

fun text_of :: "json \<Rightarrow> string" where
  "text_of (JString s) = s"
| "text_of _ = []"

text \<open>The options of one request; \<open>onStatus\<close> handles a status and says whether it did, and \<open>onSuccess\<close> gets the payload
  as it came: \<open>None\<close> for a \<open>null\<close> where the type has none.\<close>

record 'a location_options =
  lo_setLoading :: "bool \<Rightarrow> unit location_act"
  lo_setError :: "api_error option \<Rightarrow> unit location_act"
  lo_onSuccess :: "'a option \<Rightarrow> unit location_act"
  lo_notify :: bool
  lo_onStatus :: "int \<Rightarrow> bool location_act"

definition begin_request :: "'a location_options \<Rightarrow> request \<Rightarrow> unit location_act" where
  "begin_request opts rq =
     io_then (lo_setLoading opts True) (io_then (lo_setError opts None) (io_modify (sent rq)))"

definition payload_cast :: "(json \<Rightarrow> 'a) \<Rightarrow> json \<Rightarrow> 'a option" where
  "payload_cast dec v = (if v = JNull \<or> v = JUndefined then None else Some (dec v))"

definition settle_request ::
  "(json \<Rightarrow> 'a) \<Rightarrow> 'a location_options \<Rightarrow> (location_service \<Rightarrow> bool) \<Rightarrow> (thrown + json) \<Rightarrow> unit location_act" where
  "settle_request dec opts isCurrent out =
     io_finally
       (io_catch
         (io_bind (withApiErrorToast (case out of Inl e \<Rightarrow> io_throw e | Inr v \<Rightarrow> io_return v) (lo_notify opts)) (\<lambda>result.
          let response = (if is_record result \<and> has_prop ''data'' result then prop_of ''data'' result else JNull)
          in io_bind (io_gets isCurrent) (\<lambda>cur.
             if \<not> cur then io_return ()
             else if \<not> isEnvelope response then
               lo_setError opts (Some (toApiError (JsError ''empty response'')))
             else if number_of (prop_of ''status_code'' response) \<noteq> Fin 200 then
               (let st = status_int (number_of (prop_of ''status_code'' response));
                    msg = text_of (prop_of ''message'' response)
                in io_bind (lo_onStatus opts st) (\<lambda>handled.
                   if handled then io_return ()
                   else io_then (lo_setError opts (Some (mk_api_error st msg)))
                          (io_when (lo_notify opts) (service_error_toast msg))))
             else lo_onSuccess opts (payload_cast dec (prop_of ''data'' response)))))
         (\<lambda>e. io_bind (io_gets isCurrent) (\<lambda>cur.
            io_when cur (lo_setError opts (Some (if isApiError e then the_api_error e else toApiError e))))))
       (io_bind (io_gets isCurrent) (\<lambda>cur. io_when cur (lo_setLoading opts False)))"

section \<open>The three requests\<close>

definition latest_options :: "bool \<Rightarrow> location_point location_options" where
  "latest_options silent =
     \<lparr>lo_setLoading = (\<lambda>b. io_modify (\<lambda>s. s\<lparr>lsv_latestLoading := b\<rparr>)),
      lo_setError = (\<lambda>e. io_modify (\<lambda>s. s\<lparr>lsv_latestError := e\<rparr>)),
      lo_onSuccess = (\<lambda>d. io_modify (\<lambda>s. s\<lparr>lsv_latest := d\<rparr>)),
      lo_notify = (\<not> silent),
      lo_onStatus = (\<lambda>st. if st \<noteq> 404 then io_return False
                         else io_then (io_modify (\<lambda>s. s\<lparr>lsv_latest := None\<rparr>)) (io_return True))\<rparr>"

definition history_options :: "nat \<Rightarrow> location_history_response location_options" where
  "history_options requestId =
     \<lparr>lo_setLoading = (\<lambda>b. io_modify (\<lambda>s. s\<lparr>lsv_historyLoading := b\<rparr>)),
      lo_setError = (\<lambda>e. io_modify (\<lambda>s. s\<lparr>lsv_historyError := e\<rparr>)),
      lo_onSuccess = (\<lambda>d. io_bind (io_gets lsv_historyRequestId) (\<lambda>c.
         if requestId \<noteq> c then io_return ()
         else (case d of
                 None \<Rightarrow> io_throw null_property_error
               | Some r \<Rightarrow> io_modify (\<lambda>s. s\<lparr>lsv_history := lh_items r, lsv_historyPagination := Some (lh_pagination r)\<rparr>)))),
      lo_notify = True,
      lo_onStatus = (\<lambda>_. io_return False)\<rparr>"

definition route_options :: "nat \<Rightarrow> location_route_response location_options" where
  "route_options requestId =
     \<lparr>lo_setLoading = (\<lambda>b. io_modify (\<lambda>s. s\<lparr>lsv_routeLoading := b\<rparr>)),
      lo_setError = (\<lambda>e. io_modify (\<lambda>s. s\<lparr>lsv_routeError := e\<rparr>)),
      lo_onSuccess = (\<lambda>d. io_bind (io_gets lsv_routeRequestId) (\<lambda>c.
         if requestId = c then io_modify (\<lambda>s. s\<lparr>lsv_route := d\<rparr>) else io_return ())),
      lo_notify = True,
      lo_onStatus = (\<lambda>_. io_return False)\<rparr>"

definition locations_path :: "string \<Rightarrow> string \<Rightarrow> string" where
  "locations_path deviceId suffix = ''/devices/'' @ deviceId @ ''/locations'' @ suffix"

definition range_query :: "string \<Rightarrow> string \<Rightarrow> string \<Rightarrow> (string \<times> json) list" where
  "range_query frm t timeZone = [(''from'', JString frm), (''to'', JString t), (''time-zone'', JString timeZone)]"

definition getLatestLocation_start :: "string \<Rightarrow> bool \<Rightarrow> unit location_act" where
  "getLatestLocation_start deviceId silent =
     begin_request (latest_options silent) (mk_request ApiClient GET (locations_path deviceId ''/latest''))"

definition getLatestLocation_settle ::
  "(json \<Rightarrow> location_point) \<Rightarrow> bool \<Rightarrow> (thrown + json) \<Rightarrow> unit location_act" where
  "getLatestLocation_settle dec silent out = settle_request dec (latest_options silent) (\<lambda>_. True) out"

definition getLocationHistory_start ::
  "string \<Rightarrow> string \<Rightarrow> string \<Rightarrow> string \<Rightarrow> int \<Rightarrow> int \<Rightarrow> unit location_act" where
  "getLocationHistory_start deviceId frm t timeZone page pageSize =
     io_then (io_modify (\<lambda>s. s\<lparr>lsv_historyRequestId := lsv_historyRequestId s + 1\<rparr>))
     (io_then (io_modify (\<lambda>s. s\<lparr>lsv_history := []\<rparr>))
     (io_then (io_modify (\<lambda>s. s\<lparr>lsv_historyPagination := None\<rparr>))
     (begin_request (history_options 0)
        ((mk_request ApiClient GET (locations_path deviceId []))
           \<lparr>rq_query := range_query frm t timeZone @
              [(''page'', JNumber (Fin (of_int page))), (''page_size'', JNumber (Fin (of_int pageSize)))]\<rparr>))))"

definition getLocationHistory_settle ::
  "(json \<Rightarrow> location_history_response) \<Rightarrow> nat \<Rightarrow> (thrown + json) \<Rightarrow> unit location_act" where
  "getLocationHistory_settle dec requestId out =
     settle_request dec (history_options requestId) (\<lambda>s. requestId = lsv_historyRequestId s) out"

definition getLocationRoute_start ::
  "string \<Rightarrow> string \<Rightarrow> string \<Rightarrow> string \<Rightarrow> int \<Rightarrow> unit location_act" where
  "getLocationRoute_start deviceId frm t timeZone maxPoints =
     io_then (io_modify (\<lambda>s. s\<lparr>lsv_routeRequestId := lsv_routeRequestId s + 1\<rparr>))
     (io_then (io_modify (\<lambda>s. s\<lparr>lsv_route := None\<rparr>))
     (begin_request (route_options 0)
        ((mk_request ApiClient GET (locations_path deviceId ''/route''))
           \<lparr>rq_query := range_query frm t timeZone @ [(''max_points'', JNumber (Fin (of_int maxPoints)))]\<rparr>)))"

definition getLocationRoute_settle ::
  "(json \<Rightarrow> location_route_response) \<Rightarrow> nat \<Rightarrow> (thrown + json) \<Rightarrow> unit location_act" where
  "getLocationRoute_settle dec requestId out =
     settle_request dec (route_options requestId) (\<lambda>s. requestId = lsv_routeRequestId s) out"

lemmas location_option_defs =
  latest_options_def history_options_def route_options_def

section \<open>Interleavings\<close>

datatype location_event =
    StartLatest string bool
  | SettleLatest bool "thrown + json"
  | StartHistory string string string string int int
  | SettleHistory nat "thrown + json"
  | StartRoute string string string string int
  | SettleRoute nat "thrown + json"

record location_casts =
  cast_point :: "json \<Rightarrow> location_point"
  cast_history :: "json \<Rightarrow> location_history_response"
  cast_route :: "json \<Rightarrow> location_route_response"

fun location_step :: "location_casts \<Rightarrow> location_event \<Rightarrow> location_service \<Rightarrow> location_service" where
  "location_step c (StartLatest d silent) s = snd (getLatestLocation_start d silent s)"
| "location_step c (SettleLatest silent out) s = snd (getLatestLocation_settle (cast_point c) silent out s)"
| "location_step c (StartHistory d f t z p n) s = snd (getLocationHistory_start d f t z p n s)"
| "location_step c (SettleHistory k out) s = snd (getLocationHistory_settle (cast_history c) k out s)"
| "location_step c (StartRoute d f t z m) s = snd (getLocationRoute_start d f t z m s)"
| "location_step c (SettleRoute k out) s = snd (getLocationRoute_settle (cast_route c) k out s)"

definition location_run :: "location_casts \<Rightarrow> location_event list \<Rightarrow> location_service \<Rightarrow> location_service" where
  "location_run c es s = fold (location_step c) es s"

lemma location_run_append [simp]:
  "location_run c (es @ fs) s = location_run c fs (location_run c es s)"
  by (simp add: location_run_def)

lemma location_run_Cons [simp]:
  "location_run c (e # es) s = location_run c es (location_step c e s)"
  by (simp add: location_run_def)

lemma location_run_Nil [simp]: "location_run c [] s = s"
  by (simp add: location_run_def)

section \<open>Only the latest request shows\<close>

text \<open>
  The contract of a numbered request: a start gives the next number and empties the view;
  settling an old number leaves the view alone; settling the current one on an empty view
  shows its result; every other step leaves view and number alone.
\<close>

datatype 'o numbered_event = NStart | NSettle nat 'o | NOther

locale latest_wins =
  fixes classify :: "'e \<Rightarrow> 'o numbered_event"
    and step :: "'e \<Rightarrow> 's \<Rightarrow> 's"
    and view :: "'s \<Rightarrow> 'v"
    and current :: "'s \<Rightarrow> nat"
    and pending :: 'v
    and result :: "'o \<Rightarrow> 'v"
  assumes start_view: "classify e = NStart \<Longrightarrow> view (step e s) = pending"
    and start_current: "classify e = NStart \<Longrightarrow> current (step e s) = current s + 1"
    and stale_view: "classify e = NSettle k out \<Longrightarrow> k \<noteq> current s \<Longrightarrow> view (step e s) = view s"
    and settle_view: "classify e = NSettle (current s) out \<Longrightarrow> view s = pending \<Longrightarrow>
          view (step e s) = result out"
    and settle_current: "classify e = NSettle k out \<Longrightarrow> current (step e s) = current s"
    and other_view: "classify e = NOther \<Longrightarrow> view (step e s) = view s"
    and other_current: "classify e = NOther \<Longrightarrow> current (step e s) = current s"
begin

definition settled :: "nat \<Rightarrow> 'e list \<Rightarrow> 'o list" where
  "settled n es = concat (map (\<lambda>e. case classify e of NSettle k out \<Rightarrow> if k = n then [out] else [] | _ \<Rightarrow> []) es)"

definition starts :: "'e list \<Rightarrow> nat" where
  "starts es = length (filter (\<lambda>e. classify e = NStart) es)"

lemma settled_simps [simp]:
  "settled n [] = []"
  "settled n (e # es) = (case classify e of NSettle k out \<Rightarrow> if k = n then [out] else [] | _ \<Rightarrow> []) @ settled n es"
  by (simp_all add: settled_def)

lemma current_fold: "current (fold step es s) = current s + starts es"
proof (induction es arbitrary: s)
  case (Cons e es)
  then show ?case
    by (cases "classify e") (simp_all add: starts_def start_current settle_current other_current)
qed (simp add: starts_def)

lemma view_after_settle:
  assumes "starts es = 0" "settled (current s) es = []"
  shows "view (fold step es s) = view s"
  using assms
proof (induction es arbitrary: s)
  case (Cons e es)
  show ?case
  proof (cases "classify e")
    case NStart
    with Cons.prems show ?thesis by (simp add: starts_def)
  next
    case (NSettle k out)
    with Cons show ?thesis
      by (auto simp: starts_def stale_view settle_current split: if_splits)
  next
    case NOther
    with Cons show ?thesis by (simp add: starts_def other_view other_current)
  qed
qed simp

lemma view_of_current:
  assumes "starts es = 0" "length (settled (current s) es) \<le> 1" "view s = pending"
  shows "view (fold step es s) =
    (case settled (current s) es of [] \<Rightarrow> pending | out # _ \<Rightarrow> result out)"
  using assms
proof (induction es arbitrary: s)
  case (Cons e es)
  show ?case
  proof (cases "classify e")
    case NStart
    with Cons.prems show ?thesis by (simp add: starts_def)
  next
    case (NSettle k out)
    show ?thesis
    proof (cases "k = current s")
      case True
      with NSettle Cons.prems have "settled (current s) es = []" "starts es = 0"
        by (simp_all add: starts_def)
      with NSettle True Cons.prems(3) show ?thesis
        by (simp add: view_after_settle settle_current settle_view)
    next
      case False
      with NSettle Cons show ?thesis
        by (simp add: starts_def settle_current stale_view)
    qed
  next
    case NOther
    with Cons show ?thesis by (simp add: starts_def other_view other_current)
  qed
qed simp

theorem latest_shows:
  assumes "classify e = NStart" "starts post = 0"
    and "length (settled (current s + starts pre + 1) post) \<le> 1"
  shows "view (fold step (pre @ e # post) s) =
    (case settled (current s + starts pre + 1) post of [] \<Rightarrow> pending | out # _ \<Rightarrow> result out)"
proof -
  let ?t = "step e (fold step pre s)"
  have "current ?t = current s + starts pre + 1"
    by (simp add: start_current [OF assms(1)] current_fold)
  with view_of_current [of post ?t] assms start_view [OF assms(1)] show ?thesis by simp
qed

end

end
