(* ===== verification/LocationProps.thy ===== *)
theory LocationProps
  imports LocationService
begin

text \<open>
  What the locations hook guarantees: the outcome of one request, and that overlapping
  requests show the result of the latest one only.
\<close>

section \<open>One request\<close>

text \<open>What a response means for the view: an error, a payload, or (for a status other than 200)
  something the caller may handle.\<close>

definition response_of :: "json \<Rightarrow> json" where
  "response_of v = (if is_record v \<and> has_prop ''data'' v then prop_of ''data'' v else JNull)"

definition response_status :: "json \<Rightarrow> number" where
  "response_status v = number_of (prop_of ''status_code'' (response_of v))"

definition response_error :: "json \<Rightarrow> api_error option" where
  "response_error v =
     (if \<not> isEnvelope (response_of v) then Some (mk_api_error 0 ''empty response'')
      else if response_status v \<noteq> Fin 200
      then Some (mk_api_error (status_int (response_status v)) (text_of (prop_of ''message'' (response_of v))))
      else None)"

definition outcome_error :: "thrown + json \<Rightarrow> api_error option" where
  "outcome_error out = (case out of Inl e \<Rightarrow> Some (toError e) | Inr v \<Rightarrow> response_error v)"

definition payload_of :: "thrown + json \<Rightarrow> json" where
  "payload_of out = (case out of Inl _ \<Rightarrow> JNull | Inr v \<Rightarrow> prop_of ''data'' (response_of v))"

lemma isEnvelope_JNull [simp]: "\<not> isEnvelope JNull"
  by (simp add: isEnvelope_def)

lemma sent_updates [simp]:
  "lsv_latestLoading (sent rq s) = lsv_latestLoading s" "lsv_historyLoading (sent rq s) = lsv_historyLoading s"
  "lsv_routeLoading (sent rq s) = lsv_routeLoading s" "lsv_latestError (sent rq s) = lsv_latestError s"
  "lsv_historyError (sent rq s) = lsv_historyError s" "lsv_routeError (sent rq s) = lsv_routeError s"
  "lsv_latest (sent rq s) = lsv_latest s" "lsv_history (sent rq s) = lsv_history s"
  "lsv_historyPagination (sent rq s) = lsv_historyPagination s" "lsv_route (sent rq s) = lsv_route s"
  "lsv_historyRequestId (sent rq s) = lsv_historyRequestId s" "lsv_routeRequestId (sent rq s) = lsv_routeRequestId s"
  by (simp_all add: sent_def)

lemma pushed_updates [simp]:
  "lsv_latestLoading (pushed b s) = lsv_latestLoading s" "lsv_historyLoading (pushed b s) = lsv_historyLoading s"
  "lsv_routeLoading (pushed b s) = lsv_routeLoading s" "lsv_latestError (pushed b s) = lsv_latestError s"
  "lsv_historyError (pushed b s) = lsv_historyError s" "lsv_routeError (pushed b s) = lsv_routeError s"
  "lsv_latest (pushed b s) = lsv_latest s" "lsv_history (pushed b s) = lsv_history s"
  "lsv_historyPagination (pushed b s) = lsv_historyPagination s" "lsv_route (pushed b s) = lsv_route s"
  "lsv_historyRequestId (pushed b s) = lsv_historyRequestId s" "lsv_routeRequestId (pushed b s) = lsv_routeRequestId s"
  by (simp_all add: pushed_def)

lemma wrapped_simps [io_simps]:
  "withApiErrorToast (io_throw e) b s =
     (Inl (ApiObj (toError e)), (if b then pushed (error_toast (toError e)) s else s))"
  "withApiErrorToast (io_return v) b s = (Inr v, s)"
  by (simp_all add: withApiErrorToast_throw withApiErrorToast_ok io_simps)

text \<open>A settling step of an outdated request only reports its error.\<close>

lemma stale_settle:
  assumes "\<not> isCurrent s" "\<And>b t. isCurrent (pushed b t) = isCurrent t"
  shows "snd (settle_request dec opts isCurrent out s) =
    (case out of Inl e \<Rightarrow> (if lo_notify opts then pushed (error_toast (toError e)) s else s) | Inr _ \<Rightarrow> s)"
  using assms
  by (cases out) (simp_all add: settle_request_def io_simps Let_def)

definition history_view ::
  "location_service \<Rightarrow> bool \<times> api_error option \<times> location_point list \<times> pagination_meta option" where
  "history_view s = (lsv_historyLoading s, lsv_historyError s, lsv_history s, lsv_historyPagination s)"

definition history_result ::
  "location_casts \<Rightarrow> thrown + json \<Rightarrow> bool \<times> api_error option \<times> location_point list \<times> pagination_meta option" where
  "history_result c out =
     (case outcome_error out of
        Some e \<Rightarrow> (False, Some e, [], None)
      | None \<Rightarrow>
          (case payload_cast (cast_history c) (payload_of out) of
             None \<Rightarrow> (False, Some (toError null_property_error), [], None)
           | Some r \<Rightarrow> (False, None, lh_items r, Some (lh_pagination r))))"

definition route_view ::
  "location_service \<Rightarrow> bool \<times> api_error option \<times> location_route_response option" where
  "route_view s = (lsv_routeLoading s, lsv_routeError s, lsv_route s)"

definition route_result ::
  "location_casts \<Rightarrow> thrown + json \<Rightarrow> bool \<times> api_error option \<times> location_route_response option" where
  "route_result c out =
     (case outcome_error out of
        Some e \<Rightarrow> (False, Some e, None)
      | None \<Rightarrow> (False, None, payload_cast (cast_route c) (payload_of out)))"

lemmas settle_unfold =
  settle_request_def io_simps location_option_defs Let_def outcome_error_def response_error_def
  response_status_def payload_of_def response_of_def

lemma history_settle_current:
  assumes "history_view s = (True, None, [], None)"
  shows "history_view (snd (getLocationHistory_settle (cast_history c) (lsv_historyRequestId s) out s))
    = history_result c out"
proof (cases out)
  case (Inr v)
  then show ?thesis
    using assms unfolding getLocationHistory_settle_def history_view_def history_result_def
    by (cases "payload_cast (cast_history c) (prop_of ''data'' (response_of v))")
      (auto simp: settle_unfold null_property_error_def split: if_splits)
qed (use assms in \<open>auto simp: getLocationHistory_settle_def history_view_def history_result_def settle_unfold\<close>)

lemma route_settle_current:
  assumes "route_view s = (True, None, None)"
  shows "route_view (snd (getLocationRoute_settle (cast_route c) (lsv_routeRequestId s) out s))
    = route_result c out"
  using assms unfolding getLocationRoute_settle_def route_view_def route_result_def
  by (cases out) (auto simp: settle_unfold split: if_splits)


section \<open>Overlapping requests\<close>

fun history_event :: "location_event \<Rightarrow> (thrown + json) numbered_event" where
  "history_event (StartHistory _ _ _ _ _ _) = NStart"
| "history_event (SettleHistory k out) = NSettle k out"
| "history_event e = NOther"

fun route_event :: "location_event \<Rightarrow> (thrown + json) numbered_event" where
  "route_event (StartRoute _ _ _ _ _) = NStart"
| "route_event (SettleRoute k out) = NSettle k out"
| "route_event e = NOther"

lemma latest_settle_frame:
  "history_view (snd (getLatestLocation_settle dec b out s)) = history_view s"
  "lsv_historyRequestId (snd (getLatestLocation_settle dec b out s)) = lsv_historyRequestId s"
  "route_view (snd (getLatestLocation_settle dec b out s)) = route_view s"
  "lsv_routeRequestId (snd (getLatestLocation_settle dec b out s)) = lsv_routeRequestId s"
  unfolding getLatestLocation_settle_def history_view_def route_view_def
  by (cases out; auto simp: settle_unfold)+

lemma history_settle_frame:
  "lsv_historyRequestId (snd (getLocationHistory_settle dec k out s)) = lsv_historyRequestId s"
  "route_view (snd (getLocationHistory_settle dec k out s)) = route_view s"
  "lsv_routeRequestId (snd (getLocationHistory_settle dec k out s)) = lsv_routeRequestId s"
proof -
  let ?s' = "snd (getLocationHistory_settle dec k out s)"
  have "lsv_historyRequestId ?s' = lsv_historyRequestId s \<and> route_view ?s' = route_view s \<and>
      lsv_routeRequestId ?s' = lsv_routeRequestId s"
  proof (cases out)
    case (Inr v)
    then show ?thesis
      unfolding getLocationHistory_settle_def route_view_def
      by (cases "payload_cast dec (prop_of ''data'' (response_of v))") (auto simp: settle_unfold null_property_error_def)
  qed (auto simp: getLocationHistory_settle_def route_view_def settle_unfold)
  then show "lsv_historyRequestId ?s' = lsv_historyRequestId s" "route_view ?s' = route_view s"
    "lsv_routeRequestId ?s' = lsv_routeRequestId s" by blast+
qed

lemma route_settle_frame:
  "lsv_routeRequestId (snd (getLocationRoute_settle dec k out s)) = lsv_routeRequestId s"
  "history_view (snd (getLocationRoute_settle dec k out s)) = history_view s"
  "lsv_historyRequestId (snd (getLocationRoute_settle dec k out s)) = lsv_historyRequestId s"
  unfolding getLocationRoute_settle_def history_view_def
  by (cases out; auto simp: settle_unfold)+

lemma history_settle_stale:
  "k \<noteq> lsv_historyRequestId s \<Longrightarrow> history_view (snd (getLocationHistory_settle dec k out s)) = history_view s"
  unfolding getLocationHistory_settle_def
  by (subst stale_settle) (auto simp: history_view_def history_options_def split: sum.split)

lemma route_settle_stale:
  "k \<noteq> lsv_routeRequestId s \<Longrightarrow> route_view (snd (getLocationRoute_settle dec k out s)) = route_view s"
  unfolding getLocationRoute_settle_def
  by (subst stale_settle) (auto simp: route_view_def route_options_def split: sum.split)

lemmas start_unfold =
  getLatestLocation_start_def getLocationHistory_start_def getLocationRoute_start_def begin_request_def
  io_simps location_option_defs history_view_def route_view_def

interpretation history: latest_wins history_event "location_step c" history_view lsv_historyRequestId
    "(True, None, [], None)" "history_result c" for c
proof (unfold_locales, goal_cases)
  case (4 e s out)
  then show ?case by (cases e) (auto simp: history_settle_current)
next
  case (6 e s)
  then show ?case
    by (cases e) (simp_all add: latest_settle_frame route_settle_frame, simp_all add: start_unfold)
next
  case (7 e s)
  then show ?case
    by (cases e) (simp_all add: latest_settle_frame route_settle_frame, simp_all add: start_unfold)
next
  case (1 e s)
  then show ?case by (cases e) (simp_all add: start_unfold)
next
  case (2 e s)
  then show ?case by (cases e) (simp_all add: start_unfold)
next
  case (3 e k out s)
  then show ?case by (cases e) (auto simp: history_settle_stale)
next
  case (5 e k out s)
  then show ?case by (cases e) (auto simp: history_settle_frame)
qed

interpretation route: latest_wins route_event "location_step c" route_view lsv_routeRequestId
    "(True, None, None)" "route_result c" for c
proof (unfold_locales, goal_cases)
  case (4 e s out)
  then show ?case by (cases e) (auto simp: route_settle_current)
next
  case (6 e s)
  then show ?case
    by (cases e) (simp_all add: latest_settle_frame history_settle_frame, simp_all add: start_unfold)
next
  case (7 e s)
  then show ?case
    by (cases e) (simp_all add: latest_settle_frame history_settle_frame, simp_all add: start_unfold)
next
  case (1 e s)
  then show ?case by (cases e) (simp_all add: start_unfold)
next
  case (2 e s)
  then show ?case by (cases e) (simp_all add: start_unfold)
next
  case (3 e k out s)
  then show ?case by (cases e) (auto simp: route_settle_stale)
next
  case (5 e k out s)
  then show ?case by (cases e) (auto simp: route_settle_frame)
qed


text \<open>C3: However history, route and latest-location requests interleave, after the last start of
  a history request the view is the loading one until that request settles and then shows its
  result and nothing else: its page of points, or its error (that of a page without content too) with an empty list, with the loading
  flag off. Settlements of earlier requests, in any order, change nothing of it.\<close>

theorem latest_history_wins:
  assumes "\<forall>e \<in> set post. \<not> (\<exists>d f t z p n. e = StartHistory d f t z p n)"
    and "n = lsv_historyRequestId s + length (filter (\<lambda>e. history_event e = NStart) pre) + 1"
    and "settlements = concat (map (\<lambda>e. case e of SettleHistory k out \<Rightarrow> if k = n then [out] else [] | _ \<Rightarrow> []) post)"
    and "length settlements \<le> 1"
  shows "history_view (location_run c (pre @ StartHistory d f t z p m # post) s) =
    (case settlements of [] \<Rightarrow> (True, None, [], None) | out # _ \<Rightarrow> history_result c out)"
proof -
  have no_start: "history_event e \<noteq> NStart" if "e \<in> set post" for e
    using assms(1) that by (cases e) auto
  then have "history.starts post = 0"
    by (simp add: history.starts_def filter_empty_conv)
  moreover have "history.settled n post = settlements"
    unfolding assms(3) history.settled_def
    by (rule arg_cong [where f = concat], rule map_cong [OF refl]) (auto split: location_event.split)
  ultimately show ?thesis
    using history.latest_shows [of "StartHistory d f t z p m" post s pre c] assms(2,4)
    by (simp add: location_run_def history.starts_def)
qed

definition no_point :: location_point where
  "no_point = \<lparr>lp_device_id = [], lp_recorded_at = [], lp_latitude = Fin 0, lp_longitude = Fin 0,
     lp_altitude = None, lp_speed = None, lp_accuracy = None, lp_battery_voltage = None, lp_signal_strength = None\<rparr>"

definition point_at :: "string \<Rightarrow> location_point" where
  "point_at r = no_point\<lparr>lp_recorded_at := r\<rparr>"

text \<open>Casts for the examples: a payload that is a string stands for a point recorded then.\<close>

definition sample_casts :: location_casts where
  "sample_casts = \<lparr>cast_point = (\<lambda>v. point_at (text_of v)),
     cast_history = (\<lambda>v. \<lparr>lh_items = [point_at (text_of v)],
        lh_pagination = \<lparr>pm_page = 1, pm_page_size = 20, pm_total = 1, pm_total_pages = 1\<rparr>\<rparr>),
     cast_route = (\<lambda>v. \<lparr>lr_items = [point_at (text_of v)], lr_total_points = 1, lr_returned = 1, lr_sampled = False\<rparr>)\<rparr>"

definition location_initial :: location_service where
  "location_initial = world.extend initial_world
     \<lparr>lsv_latestLoading = False, lsv_historyLoading = False, lsv_routeLoading = False,
      lsv_latestError = None, lsv_historyError = None, lsv_routeError = None,
      lsv_latest = None, lsv_history = [], lsv_historyPagination = None, lsv_route = None,
      lsv_historyRequestId = 0, lsv_routeRequestId = 0\<rparr>"

definition reply :: "int \<Rightarrow> json \<Rightarrow> thrown + json" where
  "reply st d = Inr (JObject [(''data'', JObject [(''status_code'', JNumber (Fin (of_int st))),
     (''message'', JString ''m''), (''data'', d)]), (''error'', JNull)])"

lemma location_initial_simps [simp]:
  "lsv_historyRequestId location_initial = 0" "lsv_routeRequestId location_initial = 0"
  "lsv_latest location_initial = None"
  by (simp_all add: location_initial_def world.defs)

lemma reply_simps [simp]:
  "outcome_error (reply 200 d) = None" "payload_of (reply 200 d) = d"
  by (simp_all add: reply_def outcome_error_def response_error_def response_of_def response_status_def
      payload_of_def isEnvelope_def)

theorem latest_history_wins_witness:
  "history_view (location_run sample_casts
      ([StartHistory ''d'' ''a'' ''b'' ''UTC'' 1 20] @ StartHistory ''d'' ''a'' ''b'' ''UTC'' 2 20 #
       [SettleHistory 2 (reply 200 (JString ''new'')), SettleHistory 1 (reply 200 (JString ''old''))]) location_initial)
   = (False, None, [point_at ''new''],
      Some \<lparr>pm_page = 1, pm_page_size = 20, pm_total = 1, pm_total_pages = 1\<rparr>)"
  by (subst latest_history_wins [where n = 2 and settlements = "[reply 200 (JString ''new'')]"])
    (simp_all add: history_result_def sample_casts_def payload_cast_def)

text \<open>The same for routes: the route shown is that of the latest route request, or none.\<close>

theorem latest_route_wins:
  assumes "\<forall>e \<in> set post. \<not> (\<exists>d f t z m. e = StartRoute d f t z m)"
    and "n = lsv_routeRequestId s + length (filter (\<lambda>e. route_event e = NStart) pre) + 1"
    and "settlements = concat (map (\<lambda>e. case e of SettleRoute k out \<Rightarrow> if k = n then [out] else [] | _ \<Rightarrow> []) post)"
    and "length settlements \<le> 1"
  shows "route_view (location_run c (pre @ StartRoute d f t z m # post) s) =
    (case settlements of [] \<Rightarrow> (True, None, None) | out # _ \<Rightarrow> route_result c out)"
proof -
  have no_start: "route_event e \<noteq> NStart" if "e \<in> set post" for e
    using assms(1) that by (cases e) auto
  then have "route.starts post = 0"
    by (simp add: route.starts_def filter_empty_conv)
  moreover have "route.settled n post = settlements"
    unfolding assms(3) route.settled_def
    by (rule arg_cong [where f = concat], rule map_cong [OF refl]) (auto split: location_event.split)
  ultimately show ?thesis
    using route.latest_shows [of "StartRoute d f t z m" post s pre c] assms(2,4)
    by (simp add: location_run_def route.starts_def)
qed


theorem latest_route_wins_witness:
  "route_view (location_run sample_casts
      ([StartRoute ''d'' ''a'' ''b'' ''UTC'' 5] @ StartRoute ''d'' ''a'' ''b'' ''UTC'' 5 #
       [SettleRoute 1 (Inl Primitive)]) location_initial) = (True, None, None)"
  by (subst latest_route_wins [where n = 2 and settlements = "[]"]) simp_all

text \<open>An outdated request that fails changes neither the view of the history nor any other
  field of the hook, but its error is still pushed as a toast; an outdated response pushes none.\<close>

theorem outdated_failure_still_toasts:
  assumes "k \<noteq> lsv_historyRequestId s"
  shows "snd (getLocationHistory_settle dec k out s) =
    (case out of Inl e \<Rightarrow> pushed (error_toast (toError e)) s | Inr _ \<Rightarrow> s)"
  using assms unfolding getLocationHistory_settle_def
  by (subst stale_settle) (auto simp: history_options_def pushed_def split: sum.split)

theorem outdated_failure_still_toasts_witness:
  "map t_title (w_toasts (snd (getLocationHistory_settle (cast_history sample_casts) 7 (Inl Primitive)
     location_initial))) = [''Network error'']"
proof -
  have ne: "7 \<noteq> lsv_historyRequestId location_initial" by simp
  show ?thesis
    by (subst outdated_failure_still_toasts [OF ne])
      (simp add: toasts_pushed location_initial_def world.defs initial_world_def error_toast_def
        mk_toast_def titleForStatus_def trim_stack_def TOAST_STACK_MAX_def)
qed

text \<open>Settling the request for the latest location: a 404 envelope means the device has never
  reported, so it clears the point without an error and without a toast; a 200 shows its point, or none when it has none;
  anything else keeps the shown point and sets the error. The loading flag always ends off. There
  is no request number here: whichever response settles last is shown.\<close>

theorem latest_location_outcomes:
  "let s' = snd (getLatestLocation_settle dec silent out s) in
     \<not> lsv_latestLoading s' \<and>
     (case outcome_error out of
        None \<Rightarrow> lsv_latest s' = payload_cast dec (payload_of out) \<and> lsv_latestError s' = lsv_latestError s \<and>
          w_toasts s' = w_toasts s
      | Some e \<Rightarrow>
          if (\<exists>v. out = Inr v \<and> isEnvelope (response_of v)) \<and> err_status e = 404
          then lsv_latest s' = None \<and> lsv_latestError s' = lsv_latestError s \<and> w_toasts s' = w_toasts s
          else lsv_latest s' = lsv_latest s \<and> lsv_latestError s' = Some e)"
proof (cases out)
  case (Inl e)
  then show ?thesis by (simp add: getLatestLocation_settle_def settle_unfold)
next
  case (Inr v)
  then show ?thesis by (auto simp: getLatestLocation_settle_def settle_unfold)
qed

end
