(* ===== verification/LiveLocation.thy ===== *)
theory LiveLocation
  imports ApiTypes
begin

text \<open>
  The live view of one device (\<open>lib/live-location.ts\<close>): the guards on a message from the
  stream and the reducer that merges a snapshot into what is shown. \<open>ns\<close> is \<open>String(x)\<close> on
  numbers and \<open>collate\<close> is \<open>a.localeCompare(b)\<close>, whose order the language leaves to the
  implementation.
\<close>

section \<open>The guards\<close>

definition isLocation :: "json \<Rightarrow> bool" where
  "isLocation v =
     (is_record v \<and>
      typeof_string (prop_of ''device_id'' v) \<and> typeof_string (prop_of ''recorded_at'' v) \<and>
      typeof_number (prop_of ''latitude'' v) \<and> typeof_number (prop_of ''longitude'' v))"

text \<open>\<open>None\<close> is the \<open>TypeError\<close> that \<open>String(state)\<close> raises on an object with a \<open>toString\<close> of its own.\<close>

definition isLiveSnapshot :: "(number \<Rightarrow> string) \<Rightarrow> json \<Rightarrow> bool option" where
  "isLiveSnapshot ns v =
     (if \<not> is_record v then Some False
      else if \<not> typeof_string (prop_of ''device_id'' v) \<or> \<not> typeof_string (prop_of ''server_time'' v) then Some False
      else if \<not> is_record (prop_of ''presence'' v) then Some False
      else map_option
             (\<lambda>s. s \<in> set presence_state_strs \<and>
                  (prop_of ''location'' v = JNull \<or> isLocation (prop_of ''location'' v)))
             (string_of ns (prop_of ''state'' (prop_of ''presence'' v))))"

text \<open>What an accepted message provides: the fields the view reads first.\<close>

lemma isLocation_fields:
  "isLocation v \<Longrightarrow> \<exists>d r la lo. prop_of ''device_id'' v = JString d \<and> prop_of ''recorded_at'' v = JString r \<and>
     prop_of ''latitude'' v = JNumber la \<and> prop_of ''longitude'' v = JNumber lo"
  by (auto simp: isLocation_def typeof_iffs)

lemma isLiveSnapshot_fields:
  assumes "isLiveSnapshot ns v = Some True"
  shows "\<exists>d t s. prop_of ''device_id'' v = JString d \<and> prop_of ''server_time'' v = JString t \<and>
     string_of ns (prop_of ''state'' (prop_of ''presence'' v)) = Some s \<and> presence_of_str s \<noteq> None \<and>
     (prop_of ''location'' v = JNull \<or> isLocation (prop_of ''location'' v))"
  using assms unfolding isLiveSnapshot_def presence_of_str_iff
  by (auto simp: typeof_iffs split: if_splits)

section \<open>The reducer\<close>

definition EMPTY_LIVE_LOCATION_STATE :: live_location_state where
  "EMPTY_LIVE_LOCATION_STATE = \<lparr>ll_snapshot = None, ll_route = []\<rparr>"

definition current_location :: "live_location_state \<Rightarrow> location_point option" where
  "current_location st = Option.bind (ll_snapshot st) ls_location"

definition newest_location ::
  "location_point option \<Rightarrow> location_point option \<Rightarrow> location_point option" where
  "newest_location cur nxt =
     (case nxt of None \<Rightarrow> cur
      | Some n \<Rightarrow> (case cur of None \<Rightarrow> Some n
         | Some c \<Rightarrow> if lp_recorded_at n < lp_recorded_at c then Some c else Some n))"

definition extend_route ::
  "(string \<Rightarrow> string \<Rightarrow> int) \<Rightarrow> location_point option \<Rightarrow> location_point list \<Rightarrow> location_point list" where
  "extend_route collate nxt route =
     (case nxt of None \<Rightarrow> route
      | Some n \<Rightarrow>
          if list_ex (\<lambda>p. lp_recorded_at p = lp_recorded_at n) route then route
          else js_sort (\<lambda>a b. collate (lp_recorded_at a) (lp_recorded_at b)) (route @ [n]))"

definition reduceLiveLocation ::
  "(string \<Rightarrow> string \<Rightarrow> int) \<Rightarrow> live_location_state \<Rightarrow> live_location_snapshot \<Rightarrow> int \<Rightarrow> live_location_state" where
  "reduceLiveLocation collate current nxt maxPoints =
     (if (case ll_snapshot current of None \<Rightarrow> False | Some s \<Rightarrow> ls_device_id s \<noteq> ls_device_id nxt) then current
      else \<lparr>ll_snapshot = Some (nxt\<lparr>ls_location := newest_location (current_location current) (ls_location nxt)\<rparr>),
            ll_route = slice_neg maxPoints (extend_route collate (ls_location nxt) (ll_route current))\<rparr>)"

section \<open>A stream of snapshots\<close>

definition live_run ::
  "(string \<Rightarrow> string \<Rightarrow> int) \<Rightarrow> int \<Rightarrow> live_location_snapshot list \<Rightarrow> live_location_state" where
  "live_run collate maxPoints snaps =
     foldl (\<lambda>st n. reduceLiveLocation collate st n maxPoints) EMPTY_LIVE_LOCATION_STATE snaps"

definition snapshot_points :: "live_location_snapshot list \<Rightarrow> location_point list" where
  "snapshot_points snaps = List.map_filter ls_location snaps"

definition snapshot_times :: "live_location_snapshot list \<Rightarrow> string set" where
  "snapshot_times snaps = lp_recorded_at ` set (snapshot_points snaps)"

lemma live_run_snoc [simp]:
  "live_run c m [] = EMPTY_LIVE_LOCATION_STATE"
  "live_run c m (snaps @ [n]) = reduceLiveLocation c (live_run c m snaps) n m"
  by (simp_all add: live_run_def)

lemma snapshot_points_snoc [simp]:
  "snapshot_points [] = []"
  "snapshot_points (snaps @ [n]) =
     snapshot_points snaps @ (case ls_location n of None \<Rightarrow> [] | Some p \<Rightarrow> [p])"
  by (simp_all add: snapshot_points_def map_filter_def split: option.split)

interpretation by_time: key_comparator "\<lambda>a b. code_unit_cmp (lp_recorded_at a) (lp_recorded_at b)" lp_recorded_at
  by unfold_locales auto

text \<open>Keeping the largest \<open>k\<close> of a sorted list commutes with inserting one more element.\<close>

lemma insort_below:
  "(\<And>y. y \<in> set zs \<Longrightarrow> t \<le> y) \<Longrightarrow> insort t (ys @ zs) = insort t ys @ zs"
  by (induction ys) (cases zs; auto)+

lemma insort_above:
  fixes t :: "'a :: linorder"
  assumes "\<And>y. y \<in> set ys \<Longrightarrow> y < t"
  shows "insort t (ys @ zs) = ys @ insort t zs"
  using assms
proof (induction ys)
  case (Cons y ys)
  then have "y < t" by simp
  then have "\<not> t \<le> y" by simp
  with Cons show ?case by simp
qed simp

lemma slice_neg_append: "0 < k \<Longrightarrow> k \<le> int (length zs) \<Longrightarrow> slice_neg k (ys @ zs) = slice_neg k zs"
  by (simp add: slice_neg_def)

lemma slice_neg_full: "int (length zs) = k \<Longrightarrow> 0 < k \<Longrightarrow> slice_neg k (ys @ zs) = zs"
  by (simp add: slice_neg_append slice_neg_short)

lemma slice_neg_split:
  assumes "0 < k" "xs \<noteq> slice_neg k xs"
  shows "\<exists>us u. xs = us @ [u] @ slice_neg k xs \<and> int (length (slice_neg k xs)) = k"
proof -
  obtain ys where xs: "xs = ys @ slice_neg k xs" using slice_neg_suffix by blast
  with assms(2) obtain us u where ys: "ys = us @ [u]" by (cases ys rule: rev_cases) auto
  then have "length (slice_neg k xs) < length xs" by (subst (2) xs) simp
  then have "int (length (slice_neg k xs)) = k" using assms(1) by (simp add: length_slice_neg)
  with xs ys show ?thesis by (metis append_assoc)
qed

lemma slice_insort:
  fixes xs :: "'a :: linorder list"
  assumes k: "0 < k" and s: "sorted xs"
  shows "slice_neg k (insort t (slice_neg k xs)) = slice_neg k (insort t xs)"
proof (cases "xs = slice_neg k xs")
  case False
  define zs where "zs = slice_neg k xs"
  from slice_neg_split [OF k False] obtain us u
    where xs: "xs = (us @ [u]) @ zs" and len: "int (length zs) = k" unfolding zs_def by auto
  show ?thesis unfolding zs_def [symmetric]
  proof (cases "t \<le> u")
    case True
    then have le: "\<And>z. z \<in> set zs \<Longrightarrow> t \<le> z"
      using s unfolding xs sorted_append by (auto intro: order_trans)
    have "insort t zs = [t] @ zs" using insort_below [OF le, where ys = "[]"] by simp
    moreover have "insort t xs = insort t (us @ [u]) @ zs" unfolding xs by (rule insort_below [OF le])
    ultimately show "slice_neg k (insort t zs) = slice_neg k (insort t xs)"
      using slice_neg_full [OF len k] by metis
  next
    case False
    then have "y < t" if "y \<in> set (us @ [u])" for y
      using s that unfolding xs sorted_append by (auto intro: le_less_trans)
    then have "insort t xs = (us @ [u]) @ insort t zs" unfolding xs by (rule insort_above)
    then show "slice_neg k (insort t zs) = slice_neg k (insort t xs)"
      using len k slice_neg_append [of k "insort t zs" "us @ [u]"] by simp
  qed
qed simp

lemma slice_insort_old:
  fixes xs :: "'a :: linorder list"
  assumes k: "0 < k" and s: "sorted xs" and t: "t \<in> set xs" "t \<notin> set (slice_neg k xs)"
  shows "slice_neg k (insort t (slice_neg k xs)) = slice_neg k xs"
proof -
  define zs where "zs = slice_neg k xs"
  have "xs \<noteq> slice_neg k xs" using t by auto
  from slice_neg_split [OF k this] obtain us u
    where xs: "xs = (us @ [u]) @ zs" and len: "int (length zs) = k" unfolding zs_def by auto
  have "t \<notin> set zs" using t(2) by (simp add: zs_def)
  then have "t \<in> set (us @ [u])" using t(1) unfolding xs by simp
  then have le: "\<And>z. z \<in> set zs \<Longrightarrow> t \<le> z" using s unfolding xs sorted_append by auto
  have "insort t zs = [t] @ zs" using insort_below [OF le, where ys = "[]"] by simp
  then show ?thesis using slice_neg_full [OF len k, of "[t]"] by (simp flip: zs_def)
qed

text \<open>The invariant of the view after the snapshots of one device.\<close>

definition live_inv :: "int \<Rightarrow> live_location_snapshot list \<Rightarrow> live_location_state \<Rightarrow> bool" where
  "live_inv m snaps st \<longleftrightarrow>
     map lp_recorded_at (ll_route st) = slice_neg m (sorted_list_of_set (snapshot_times snaps)) \<and>
     set (ll_route st) \<subseteq> set (snapshot_points snaps) \<and>
     (case ll_snapshot st of
        None \<Rightarrow> snaps = []
      | Some s \<Rightarrow> snaps \<noteq> [] \<and> s = (last snaps)\<lparr>ls_location := ls_location s\<rparr> \<and>
          (case ls_location s of
             None \<Rightarrow> snapshot_points snaps = []
           | Some p \<Rightarrow> p \<in> set (snapshot_points snaps) \<and> (\<forall>q \<in> set (snapshot_points snaps). lp_recorded_at q \<le> lp_recorded_at p)))"

lemma finite_snapshot_times [simp]: "finite (snapshot_times snaps)"
  by (simp add: snapshot_times_def)

lemma sorted_distinct_times:
  "sorted xs \<Longrightarrow> distinct xs \<Longrightarrow> sorted_list_of_set (set xs) = xs"
  by (simp add: sorted_list_of_set.idem_if_sorted_distinct)

lemma sort_by_time:
  assumes agree: "\<And>a b. a \<in> lp_recorded_at ` set ps \<Longrightarrow> b \<in> lp_recorded_at ` set ps \<Longrightarrow> (collate a b \<le> 0) = (a \<le> b)"
    and d: "distinct (map lp_recorded_at ps)"
  shows "map lp_recorded_at (js_sort (\<lambda>a b. collate (lp_recorded_at a) (lp_recorded_at b)) ps)
    = sorted_list_of_set (lp_recorded_at ` set ps)"
proof -
  let ?cmp = "\<lambda>a b. code_unit_cmp (lp_recorded_at a) (lp_recorded_at b)"
  have "js_sort (\<lambda>a b. collate (lp_recorded_at a) (lp_recorded_at b)) ps = js_sort ?cmp ps"
    by (rule js_sort_cong) (simp add: agree)
  moreover have "sorted (map lp_recorded_at (js_sort ?cmp ps))"
    by (rule by_time.sort_keys_sorted)
  moreover have "distinct (map lp_recorded_at (js_sort ?cmp ps))"
    using d by (simp add: distinct_map_js_sort)
  ultimately show ?thesis using sorted_distinct_times by fastforce
qed

text \<open>One more point: the kept times are still the largest ones.\<close>

lemma extend_route_times:
  assumes m: "0 < m"
    and agree: "\<forall>a \<in> insert (lp_recorded_at n) T. \<forall>b \<in> insert (lp_recorded_at n) T. (collate a b \<le> 0) = (a \<le> b)"
    and fin: "finite T"
    and r: "map lp_recorded_at route = slice_neg m (sorted_list_of_set T)"
  shows "map lp_recorded_at (slice_neg m (extend_route collate (Some n) route))
    = slice_neg m (sorted_list_of_set (insert (lp_recorded_at n) T))"
proof -
  let ?t = "lp_recorded_at n" and ?K = "slice_neg m (sorted_list_of_set T)"
  have sub: "set ?K \<subseteq> T" using set_slice_neg [of m "sorted_list_of_set T"] fin by simp
  have keys: "lp_recorded_at ` set route = set ?K" using arg_cong [OF r, of set] by simp
  have ex: "list_ex (\<lambda>p. lp_recorded_at p = ?t) route \<longleftrightarrow> ?t \<in> set ?K"
    unfolding keys [symmetric] list_ex_iff image_iff by metis
  have map_slice: "map lp_recorded_at (slice_neg m xs) = slice_neg m (map lp_recorded_at xs)" for xs
    by (simp add: slice_neg_def drop_map)
  have K: "sorted ?K" "distinct ?K"
    using sorted_wrt_slice_neg [of "(\<le>)" "sorted_list_of_set T" m]
      distinct_map_slice_neg [of id "sorted_list_of_set T" m] by simp_all
  have "int (length ?K) \<le> m" using m by (simp add: length_slice_neg)
  then have K_K: "slice_neg m ?K = ?K" by (rule slice_neg_short)
  show ?thesis
  proof (cases "?t \<in> set ?K")
    case True
    then have "list_ex (\<lambda>p. lp_recorded_at p = ?t) route" by (simp add: ex)
    moreover have "insert ?t T = T" using True sub by blast
    ultimately show ?thesis using K_K by (simp add: extend_route_def map_slice r)
  next
    case False
    then have new: "\<not> list_ex (\<lambda>p. lp_recorded_at p = ?t) route" by (simp add: ex)
    have d: "distinct (map lp_recorded_at (route @ [n]))"
      using False keys K(2) r by auto
    have in_T: "lp_recorded_at ` set (route @ [n]) \<subseteq> insert ?t T" using keys sub by auto
    have "extend_route collate (Some n) route
        = js_sort (\<lambda>a b. collate (lp_recorded_at a) (lp_recorded_at b)) (route @ [n])"
      using new by (simp add: extend_route_def)
    moreover have "(collate a b \<le> 0) = (a \<le> b)"
      if "a \<in> lp_recorded_at ` set (route @ [n])" "b \<in> lp_recorded_at ` set (route @ [n])" for a b
      using agree in_T that by blast
    ultimately have "map lp_recorded_at (extend_route collate (Some n) route)
        = sorted_list_of_set (lp_recorded_at ` set (route @ [n]))"
      using sort_by_time [OF _ d, of collate] by simp
    also have "\<dots> = insort ?t ?K"
      using False K keys by (simp add: sorted_distinct_times)
    finally have "map lp_recorded_at (slice_neg m (extend_route collate (Some n) route)) = slice_neg m (insort ?t ?K)"
      by (simp add: map_slice)
    also have "\<dots> = slice_neg m (sorted_list_of_set (insert ?t T))"
    proof (cases "?t \<in> T")
      case True
      have "slice_neg m (insort ?t ?K) = ?K"
        using True False slice_insort_old [OF m, of "sorted_list_of_set T" ?t] fin by simp
      with True show ?thesis by (simp add: insert_absorb)
    next
      case False': False
      then show ?thesis using slice_insort [OF m, of "sorted_list_of_set T" ?t] fin by simp
    qed
    finally show ?thesis .
  qed
qed

lemma set_extend_route:
  "set (extend_route collate nxt route) \<subseteq> set route \<union> set_option nxt"
  by (auto simp: extend_route_def split: option.splits if_splits)

lemma newest_location_newest:
  assumes "case cur of None \<Rightarrow> P = {} | Some p \<Rightarrow> p \<in> P \<and> (\<forall>q \<in> P. lp_recorded_at q \<le> lp_recorded_at p)"
  shows "case newest_location cur nxt of None \<Rightarrow> P \<union> set_option nxt = {}
    | Some p \<Rightarrow> p \<in> P \<union> set_option nxt \<and> (\<forall>q \<in> P \<union> set_option nxt. lp_recorded_at q \<le> lp_recorded_at p)"
  using assms by (cases nxt; cases cur) (auto simp: newest_location_def)

lemma live_inv_step:
  assumes m: "0 < m"
    and agree: "\<forall>a \<in> snapshot_times (snaps @ [n]). \<forall>b \<in> snapshot_times (snaps @ [n]). (collate a b \<le> 0) = (a \<le> b)"
    and dev: "\<forall>s \<in> set (snaps @ [n]). ls_device_id s = d"
    and inv: "live_inv m snaps st"
  shows "live_inv m (snaps @ [n]) (reduceLiveLocation collate st n m)"
proof -
  let ?st = "reduceLiveLocation collate st n m"
  have same: "\<not> (case ll_snapshot st of None \<Rightarrow> False | Some s \<Rightarrow> ls_device_id s \<noteq> ls_device_id n)"
  proof (cases "ll_snapshot st")
    case (Some s)
    with inv have "snaps \<noteq> []" "s = (last snaps)\<lparr>ls_location := ls_location s\<rparr>" by (auto simp: live_inv_def)
    then have "ls_device_id s = ls_device_id (last snaps)" "last snaps \<in> set snaps"
      by (cases s, cases "last snaps", simp) (rule last_in_set, fact)
    with Some dev show ?thesis by simp
  qed simp
  have st: "?st = \<lparr>ll_snapshot = Some (n\<lparr>ls_location := newest_location (current_location st) (ls_location n)\<rparr>),
      ll_route = slice_neg m (extend_route collate (ls_location n) (ll_route st))\<rparr>"
    unfolding reduceLiveLocation_def using same by simp
  have pts: "set (snapshot_points (snaps @ [n])) = set (snapshot_points snaps) \<union> set_option (ls_location n)"
    by (cases "ls_location n") simp_all
  have route: "map lp_recorded_at (ll_route st) = slice_neg m (sorted_list_of_set (snapshot_times snaps))"
    using inv by (simp add: live_inv_def)
  have "map lp_recorded_at (ll_route ?st) = slice_neg m (sorted_list_of_set (snapshot_times (snaps @ [n])))"
  proof (cases "ls_location n")
    case None
    have "int (length (ll_route st)) \<le> m" using arg_cong [OF route, of length] m by (simp add: length_slice_neg)
    then show ?thesis using route None by (simp add: st extend_route_def slice_neg_short snapshot_times_def)
  next
    case (Some p)
    have T: "snapshot_times (snaps @ [n]) = insert (lp_recorded_at p) (snapshot_times snaps)"
      using Some by (simp add: snapshot_times_def)
    show ?thesis
      using extend_route_times [OF m agree [unfolded T] _ route] by (simp add: st Some T)
  qed
  moreover have "set (ll_route ?st) \<subseteq> set (snapshot_points (snaps @ [n]))"
    using inv set_slice_neg [of m "extend_route collate (ls_location n) (ll_route st)"]
      set_extend_route [of collate "ls_location n" "ll_route st"]
    unfolding pts live_inv_def st by auto
  moreover have "case newest_location (current_location st) (ls_location n) of
      None \<Rightarrow> set (snapshot_points (snaps @ [n])) = {}
    | Some p \<Rightarrow> p \<in> set (snapshot_points (snaps @ [n])) \<and>
        (\<forall>q \<in> set (snapshot_points (snaps @ [n])). lp_recorded_at q \<le> lp_recorded_at p)"
    unfolding pts
    by (rule newest_location_newest)
      (use inv in \<open>auto simp: live_inv_def current_location_def split: option.splits\<close>)
  ultimately show ?thesis
    unfolding live_inv_def
    by (cases "ls_location n"; cases "newest_location (current_location st) (ls_location n)") (auto simp: st)
qed

lemma live_inv_run:
  assumes "0 < m"
    and "\<forall>a \<in> snapshot_times snaps. \<forall>b \<in> snapshot_times snaps. (collate a b \<le> 0) = (a \<le> b)"
    and "\<forall>s \<in> set snaps. ls_device_id s = d"
  shows "live_inv m snaps (live_run collate m snaps)"
  using assms(2,3)
proof (induction snaps rule: rev_induct)
  case Nil
  then show ?case by (simp add: live_inv_def EMPTY_LIVE_LOCATION_STATE_def snapshot_times_def slice_neg_def)
next
  case (snoc n snaps)
  have sub: "snapshot_times snaps \<subseteq> snapshot_times (snaps @ [n])"
    by (auto simp: snapshot_times_def)
  have "live_inv m snaps (live_run collate m snaps)"
    by (rule snoc.IH) (use snoc.prems sub in \<open>auto dest: subsetD\<close>)
  then show ?case using live_inv_step [OF assms(1) snoc.prems] by simp
qed

text \<open>C2: After any sequence of snapshots of one device, the route shown is exactly the newest
  \<open>maxPoints\<close> of the reported times, each once and in order, whatever order they arrived in; its
  points are points that were reported; and the position shown is one with the latest reported
  time (none only if none was reported). The order of the strings that \<open>localeCompare\<close> sorts by is
  assumed to be that of their characters on the times received, which are of one format.\<close>

theorem live_view_newest:
  assumes "0 < m"
    and "\<forall>a \<in> snapshot_times snaps. \<forall>b \<in> snapshot_times snaps. (collate a b \<le> 0) = (a \<le> b)"
    and "\<forall>s \<in> set snaps. ls_device_id s = d"
  shows "map lp_recorded_at (ll_route (live_run collate m snaps)) =
      slice_neg m (sorted_list_of_set (snapshot_times snaps)) \<and>
    set (ll_route (live_run collate m snaps)) \<subseteq> set (snapshot_points snaps) \<and>
    (case current_location (live_run collate m snaps) of
       None \<Rightarrow> snapshot_points snaps = []
     | Some p \<Rightarrow> p \<in> set (snapshot_points snaps) \<and>
         (\<forall>q \<in> set (snapshot_points snaps). lp_recorded_at q \<le> lp_recorded_at p))"
  using live_inv_run [OF assms] unfolding live_inv_def current_location_def
  by (auto split: option.splits)

definition sample_point :: "string \<Rightarrow> location_point" where
  "sample_point r = \<lparr>lp_device_id = ''d'', lp_recorded_at = r, lp_latitude = Fin 0, lp_longitude = Fin 0,
     lp_altitude = None, lp_speed = None, lp_accuracy = None, lp_battery_voltage = None, lp_signal_strength = None\<rparr>"

definition sample_snapshot :: "string \<Rightarrow> location_point option \<Rightarrow> live_location_snapshot" where
  "sample_snapshot d p = \<lparr>ls_device_id = d, ls_location = p,
     ls_presence = \<lparr>dp_state = Offline, dp_last_contact_at = None, dp_expires_at = None\<rparr>, ls_server_time = ''t''\<rparr>"

definition sample_stream :: "live_location_snapshot list" where
  "sample_stream = map (\<lambda>r. sample_snapshot ''d'' (Some (sample_point r))) [''2'', ''3'', ''1'', ''3'']"

theorem live_view_newest_witness:
  "map lp_recorded_at (ll_route (live_run code_unit_cmp 2 sample_stream)) =
     slice_neg 2 (sorted_list_of_set (snapshot_times sample_stream)) \<and>
   snapshot_times sample_stream = {''1'', ''2'', ''3''}"
proof -
  have t: "snapshot_times sample_stream = {''1'', ''2'', ''3''}"
    by (auto simp: snapshot_times_def snapshot_points_def sample_stream_def sample_snapshot_def
        map_filter_def sample_point_def)
  have "map lp_recorded_at (ll_route (live_run code_unit_cmp 2 sample_stream)) =
     slice_neg 2 (sorted_list_of_set (snapshot_times sample_stream))"
    using live_view_newest [of 2 sample_stream code_unit_cmp "''d''"]
    by (simp add: sample_stream_def sample_snapshot_def)
  with t show ?thesis by simp
qed

section \<open>A gap of the guard\<close>

text \<open>An array of one state passes the guard, because \<open>String\<close> joins it to that state.\<close>

lemma guard_accepts_array_state:
  "isLiveSnapshot ns (JObject [(''device_id'', JString d), (''server_time'', JString t),
     (''presence'', JObject [(''state'', JArray [JString ''offline''])]), (''location'', JNull)]) = Some True"
  by (simp add: isLiveSnapshot_def presence_state_strs_def)

end
