(* ===== verification/DeviceStream.thy ===== *)
theory DeviceStream
  imports LiveLocation ApiErrors LocationService
begin

text \<open>
  The live stream hook (\<open>hooks/useDeviceLocationStream.ts\<close>): an event source with
  reconnection, a fallback poll, and refreshes by request. The model keeps the hook's
  \<open>useState\<close> fields, the local variables of the running effect, and the devices of the refresh
  requests in flight. An event is something the browser delivers: it is delivered only when
  the object it belongs to (source, timer, request) exists.
\<close>

section \<open>State\<close>

record stream_env =
  se_number_str :: "number \<Rightarrow> string"
  se_collate :: "string \<Rightarrow> string \<Rightarrow> int"
  se_cast :: "json \<Rightarrow> live_location_snapshot"

record stream_effect =
  ef_device :: string
  ef_source :: bool
  ef_retryTimer :: "nat option"
  ef_fallbackTimer :: bool
  ef_attempt :: nat
  ef_stopped :: bool

record stream =
  st_deviceId :: "string option"
  st_live :: live_location_state
  st_connection :: live_stream_connection_state
  st_error :: "api_error option"
  st_effect :: "stream_effect option"
  st_refreshing :: "string list"

definition API_RETRY_DELAYS :: "nat list" where
  "API_RETRY_DELAYS = [1000, 2000, 4000, 8000, 15000]"

definition initial_stream :: stream where
  "initial_stream = \<lparr>st_deviceId = None, st_live = EMPTY_LIVE_LOCATION_STATE, st_connection = Connecting,
     st_error = None, st_effect = None, st_refreshing = []\<rparr>"

text \<open>\<open>!deviceId\<close>: the empty id counts as none.\<close>

definition no_id :: "string option \<Rightarrow> bool" where
  "no_id d \<longleftrightarrow> d = None \<or> d = Some []"

section \<open>Messages\<close>

definition primitive_error :: thrown where
  "primitive_error = JsError ''Cannot convert object to primitive value''"

text \<open>A value checked by the guard: the snapshot it is used as, or what is thrown.\<close>

definition read_snapshot :: "stream_env \<Rightarrow> string \<Rightarrow> json \<Rightarrow> thrown + live_location_snapshot" where
  "read_snapshot env invalid v =
     (case isLiveSnapshot (se_number_str env) v of
        None \<Rightarrow> Inl primitive_error
      | Some False \<Rightarrow> Inl (JsError invalid)
      | Some True \<Rightarrow> Inr (se_cast env v))"

definition accept_snapshot :: "stream_env \<Rightarrow> live_location_snapshot \<Rightarrow> stream \<Rightarrow> stream" where
  "accept_snapshot env n s =
     s\<lparr>st_live := reduceLiveLocation (se_collate env) (st_live s) n LIVE_ROUTE_MAX_POINTS, st_error := None\<rparr>"

definition reject_snapshot :: "thrown \<Rightarrow> stream \<Rightarrow> stream" where
  "reject_snapshot e s = s\<lparr>st_error := Some (toApiError e)\<rparr>"

subsection \<open>refresh\<close>

definition refresh :: "string option \<Rightarrow> stream \<Rightarrow> stream" where
  "refresh d s = (if no_id d then s else s\<lparr>st_refreshing := st_refreshing s @ [the d]\<rparr>)"

text \<open>The snapshot in the result of the request: \<open>result.data?.data\<close>, checked.\<close>

definition refresh_result :: "stream_env \<Rightarrow> (thrown + json) \<Rightarrow> thrown + live_location_snapshot" where
  "refresh_result env out =
     (case out of Inl e \<Rightarrow> Inl e
      | Inr r \<Rightarrow> if r = JNull \<or> r = JUndefined then Inl null_property_error
                else read_snapshot env ''Invalid live location response'' (prop_of ''data'' (prop_of ''data'' r)))"

definition settle_refresh :: "stream_env \<Rightarrow> (thrown + json) \<Rightarrow> stream \<Rightarrow> stream" where
  "settle_refresh env out s =
     (case refresh_result env out of Inl e \<Rightarrow> reject_snapshot e s | Inr n \<Rightarrow> accept_snapshot env n s)"

section \<open>The effect\<close>

text \<open>\<open>connect\<close>, called with the effect's own variables.\<close>

definition connect :: "stream_effect \<Rightarrow> stream \<Rightarrow> stream" where
  "connect e s =
     (if ef_stopped e then s\<lparr>st_effect := Some e\<rparr>
      else s\<lparr>st_connection := (if ef_attempt e \<noteq> 0 then Reconnecting else Connecting),
             st_effect := Some (e\<lparr>ef_source := True\<rparr>)\<rparr>)"

definition handle :: "stream_env \<Rightarrow> stream_effect \<Rightarrow> (string + json) \<Rightarrow> stream \<Rightarrow> stream" where
  "handle env e parsed s =
     (case (case parsed of Inl msg \<Rightarrow> Inl (JsError msg) | Inr v \<Rightarrow> read_snapshot env ''Invalid live stream event'' v) of
        Inl err \<Rightarrow> refresh (Some (ef_device e)) (reject_snapshot err s)
      | Inr n \<Rightarrow> accept_snapshot env n s)"

definition onopen :: "stream_effect \<Rightarrow> stream \<Rightarrow> stream" where
  "onopen e s =
     s\<lparr>st_connection := Live, st_effect := Some (e\<lparr>ef_attempt := 0, ef_fallbackTimer := False\<rparr>)\<rparr>"

definition retry_delay :: "nat \<Rightarrow> nat" where
  "retry_delay attempt =
     (let i = min attempt (length API_RETRY_DELAYS - 1)
      in if i < length API_RETRY_DELAYS then API_RETRY_DELAYS ! i else 15000)"

definition onerror :: "stream_effect \<Rightarrow> stream \<Rightarrow> stream" where
  "onerror e s =
     (let delay = retry_delay (ef_attempt e); attempt = ef_attempt e + 1
      in s\<lparr>st_connection := (if 3 \<le> attempt then Fallback else Reconnecting),
           st_effect := Some (e\<lparr>ef_source := False, ef_attempt := attempt,
              ef_fallbackTimer := (if 3 \<le> attempt then True else ef_fallbackTimer e),
              ef_retryTimer := Some delay\<rparr>)\<rparr>)"

definition cleanup :: "stream_effect \<Rightarrow> stream_effect" where
  "cleanup e = e\<lparr>ef_stopped := True, ef_source := False, ef_retryTimer := None, ef_fallbackTimer := False\<rparr>"

definition start_effect :: "string option \<Rightarrow> stream \<Rightarrow> stream" where
  "start_effect d s0 =
     (let s = s0\<lparr>st_deviceId := d, st_live := EMPTY_LIVE_LOCATION_STATE\<rparr>
      in if no_id d then s
         else connect \<lparr>ef_device = the d, ef_source = False, ef_retryTimer = None, ef_fallbackTimer = False,
                ef_attempt = 0, ef_stopped = False\<rparr> (refresh d s))"

section \<open>Events\<close>

datatype stream_event =
    ChangeDevice "string option"
  | Opened
  | Message "string + json"
  | ConnectionError
  | RetryFires
  | FallbackFires
  | CallRefresh
  | RefreshSettles string "thrown + json"

definition with_effect ::
  "(stream_effect \<Rightarrow> bool) \<Rightarrow> (stream_effect \<Rightarrow> stream \<Rightarrow> stream) \<Rightarrow> stream \<Rightarrow> stream" where
  "with_effect enabled f s =
     (case st_effect s of None \<Rightarrow> s | Some e \<Rightarrow> if enabled e then f e s else s)"

fun stream_step :: "stream_env \<Rightarrow> stream_event \<Rightarrow> stream \<Rightarrow> stream" where
  "stream_step env (ChangeDevice d) s =
     (if d = st_deviceId s then s
      else start_effect d (s\<lparr>st_effect := map_option cleanup (st_effect s)\<rparr>))"
| "stream_step env Opened s = with_effect ef_source onopen s"
| "stream_step env (Message m) s = with_effect ef_source (\<lambda>e. handle env e m) s"
| "stream_step env ConnectionError s = with_effect ef_source onerror s"
| "stream_step env RetryFires s =
     with_effect (\<lambda>e. ef_retryTimer e \<noteq> None) (\<lambda>e. connect (e\<lparr>ef_retryTimer := None\<rparr>)) s"
| "stream_step env FallbackFires s = with_effect ef_fallbackTimer (\<lambda>e. refresh (Some (ef_device e))) s"
| "stream_step env CallRefresh s = refresh (st_deviceId s) s"
| "stream_step env (RefreshSettles d out) s =
     (if d \<in> set (st_refreshing s)
      then settle_refresh env out (s\<lparr>st_refreshing := remove1 d (st_refreshing s)\<rparr>) else s)"

definition stream_run :: "stream_env \<Rightarrow> stream_event list \<Rightarrow> stream \<Rightarrow> stream" where
  "stream_run env es s = fold (stream_step env) es s"

inductive stream_reachable :: "stream_env \<Rightarrow> stream \<Rightarrow> bool" for env where
  initial: "stream_reachable env initial_stream"
| event: "stream_reachable env s \<Longrightarrow> stream_reachable env (stream_step env ev s)"

lemma stream_reachable_run: "stream_reachable env s \<Longrightarrow> stream_reachable env (stream_run env es s)"
  unfolding stream_run_def by (induction es arbitrary: s) (simp_all add: stream_reachable.event)

lemmas stream_defs =
  with_effect_def connect_def handle_def onopen_def onerror_def cleanup_def start_effect_def refresh_def
  settle_refresh_def accept_snapshot_def reject_snapshot_def no_id_def

section \<open>The connection\<close>

text \<open>
  What holds of the effect's variables: a stopped effect holds nothing; a running one has
  either an open source or an armed retry timer, never both and never none.
\<close>

definition effect_inv :: "stream_effect \<Rightarrow> live_stream_connection_state \<Rightarrow> bool" where
  "effect_inv e c \<longleftrightarrow>
     ef_device e \<noteq> [] \<and>
     (if ef_stopped e then \<not> ef_source e \<and> ef_retryTimer e = None \<and> \<not> ef_fallbackTimer e
      else (ef_source e \<longleftrightarrow> ef_retryTimer e = None) \<and>
           (ef_fallbackTimer e \<longleftrightarrow> 3 \<le> ef_attempt e) \<and>
           (ef_retryTimer e \<noteq> None \<longrightarrow> 0 < ef_attempt e \<and> ef_retryTimer e = Some (retry_delay (ef_attempt e - 1))) \<and>
           (\<not> ef_source e \<longrightarrow> c = (if 3 \<le> ef_attempt e then Fallback else Reconnecting)) \<and>
           (ef_source e \<and> ef_attempt e \<noteq> 0 \<longrightarrow> c = Reconnecting) \<and>
           (ef_source e \<and> ef_attempt e = 0 \<longrightarrow> c = Live \<or> c = Connecting))"

definition stream_inv :: "stream \<Rightarrow> bool" where
  "stream_inv s \<longleftrightarrow>
     (case st_effect s of
        None \<Rightarrow> no_id (st_deviceId s)
      | Some e \<Rightarrow> effect_inv e (st_connection s) \<and>
          (if ef_stopped e then no_id (st_deviceId s) else st_deviceId s = Some (ef_device e)))"

lemma message_frame [simp]:
  "st_effect (accept_snapshot env n s) = st_effect s" "st_connection (accept_snapshot env n s) = st_connection s"
  "st_deviceId (accept_snapshot env n s) = st_deviceId s"
  "st_effect (reject_snapshot err s) = st_effect s" "st_connection (reject_snapshot err s) = st_connection s"
  "st_deviceId (reject_snapshot err s) = st_deviceId s"
  "st_effect (refresh d s) = st_effect s" "st_connection (refresh d s) = st_connection s"
  "st_deviceId (refresh d s) = st_deviceId s" "st_live (refresh d s) = st_live s"
  "st_live (reject_snapshot err s) = st_live s"
  by (simp_all add: accept_snapshot_def reject_snapshot_def refresh_def)

lemma handle_frame [simp]:
  "st_effect (handle env e m s) = st_effect s" "st_connection (handle env e m s) = st_connection s"
  "st_deviceId (handle env e m s) = st_deviceId s"
  by (simp_all add: handle_def split: sum.split)

lemma settle_refresh_frame [simp]:
  "st_effect (settle_refresh env out s) = st_effect s" "st_connection (settle_refresh env out s) = st_connection s"
  "st_deviceId (settle_refresh env out s) = st_deviceId s"
  by (simp_all add: settle_refresh_def split: sum.split)

lemma stream_inv_cong:
  "st_effect s' = st_effect s \<Longrightarrow> st_connection s' = st_connection s \<Longrightarrow> st_deviceId s' = st_deviceId s \<Longrightarrow>
   stream_inv s' = stream_inv s"
  by (simp only: stream_inv_def)

lemma stream_inv_onerror:
  "stream_inv s \<Longrightarrow> stream_inv (with_effect ef_source onerror s)"
  by (cases "st_effect s") (auto simp: stream_inv_def effect_inv_def with_effect_def onerror_def Let_def)

lemma stream_inv_onopen:
  "stream_inv s \<Longrightarrow> stream_inv (with_effect ef_source onopen s)"
  by (cases "st_effect s") (auto simp: stream_inv_def effect_inv_def with_effect_def onopen_def)

lemma stream_inv_step: "stream_inv s \<Longrightarrow> stream_inv (stream_step env ev s)"
proof (cases ev)
  case (ChangeDevice d)
  assume "stream_inv s"
  then show ?thesis
    unfolding ChangeDevice
    by (cases "st_effect s"; cases d)
      (auto simp: stream_inv_def effect_inv_def stream_defs Let_def)
next
  case RetryFires
  assume "stream_inv s"
  then show ?thesis unfolding RetryFires
    by (cases "st_effect s") (auto simp: stream_inv_def effect_inv_def stream_defs split: if_splits)
next
  case (RefreshSettles d out)
  assume inv: "stream_inv s"
  show ?thesis
    unfolding RefreshSettles by (rule stream_inv_cong [THEN iffD2, OF _ _ _ inv]) simp_all
next
  case (Message m)
  assume inv: "stream_inv s"
  show ?thesis
    unfolding Message
    by (rule stream_inv_cong [THEN iffD2, OF _ _ _ inv]) (simp_all add: with_effect_def split: option.split)
next
  case FallbackFires
  assume inv: "stream_inv s"
  show ?thesis
    unfolding FallbackFires
    by (rule stream_inv_cong [THEN iffD2, OF _ _ _ inv]) (simp_all add: with_effect_def split: option.split)
next
  case CallRefresh
  assume inv: "stream_inv s"
  show ?thesis unfolding CallRefresh by (rule stream_inv_cong [THEN iffD2, OF _ _ _ inv]) simp_all
qed (simp_all add: stream_inv_onerror stream_inv_onopen)

lemma stream_inv_reachable: "stream_reachable env s \<Longrightarrow> stream_inv s"
proof (induction rule: stream_reachable.induct)
  case initial
  then show ?case by (simp add: stream_inv_def initial_stream_def no_id_def)
qed (rule stream_inv_step)

text \<open>Any run from the start is reachable.\<close>

lemma run_reachable: "stream_reachable env (stream_run env es initial_stream)"
  by (rule stream_reachable_run) (rule stream_reachable.initial)

text \<open>C1: The stream never gives up and never doubles. In every reachable state with a device, the
  running effect is that device's; it has either an open source or one armed retry timer, not
  both; the timer's delay is the one the schedule has for the number of failures since the last
  opening, so it is at most 15 seconds; the poll every minute runs exactly from the third failure
  on until a connection opens; and \<open>live\<close> is shown only with an open source.\<close>

theorem stream_connection:
  assumes "stream_reachable env s" and "st_deviceId s = Some d" and "d \<noteq> []"
  shows "\<exists>e. st_effect s = Some e \<and> ef_device e = d \<and> \<not> ef_stopped e \<and>
    (ef_source e \<longleftrightarrow> ef_retryTimer e = None) \<and>
    (ef_fallbackTimer e \<longleftrightarrow> 3 \<le> ef_attempt e) \<and>
    (\<forall>ms. ef_retryTimer e = Some ms \<longrightarrow>
       ms = API_RETRY_DELAYS ! min (ef_attempt e - 1) 4 \<and> ms \<le> 15000 \<and>
       st_connection s = (if 3 \<le> ef_attempt e then Fallback else Reconnecting)) \<and>
    (st_connection s = Live \<longrightarrow> ef_source e \<and> ef_attempt e = 0)"
proof -
  from stream_inv_reachable [OF assms(1)] assms(2,3)
  obtain e where e: "st_effect s = Some e" and i: "effect_inv e (st_connection s)"
    and ns: "\<not> ef_stopped e" "ef_device e = d"
    by (auto simp: stream_inv_def no_id_def split: option.splits if_splits)
  have delay: "retry_delay k = API_RETRY_DELAYS ! min k 4 \<and> retry_delay k \<le> 15000" for k
  proof -
    have "min k 4 \<in> {0, 1, 2, 3, 4}" by auto
    moreover have "length API_RETRY_DELAYS = 5" by (simp add: API_RETRY_DELAYS_def)
    then have "retry_delay k = API_RETRY_DELAYS ! min k 4"
      by (simp add: retry_delay_def Let_def min_def)
    ultimately show ?thesis by (auto simp: API_RETRY_DELAYS_def)
  qed
  have sched: "ms = API_RETRY_DELAYS ! min (ef_attempt e - 1) 4 \<and> ms \<le> 15000 \<and>
      st_connection s = (if 3 \<le> ef_attempt e then Fallback else Reconnecting)"
    if "ef_retryTimer e = Some ms" for ms
    using i ns that delay [of "ef_attempt e - 1"] by (auto simp: effect_inv_def split: if_splits)
  have live: "ef_source e \<and> ef_attempt e = 0" if "st_connection s = Live"
    using i ns that by (auto simp: effect_inv_def split: if_splits)
  have base: "ef_source e \<longleftrightarrow> ef_retryTimer e = None" "ef_fallbackTimer e \<longleftrightarrow> 3 \<le> ef_attempt e"
    using i ns by (simp_all add: effect_inv_def)
  show ?thesis
    by (rule exI [of _ e], intro conjI allI impI)
      (fact e | fact ns | fact base | erule sched [THEN conjunct1] | erule sched [THEN conjunct2, THEN conjunct1]
        | erule sched [THEN conjunct2, THEN conjunct2] | erule live [THEN conjunct1] | erule live [THEN conjunct2])+
qed

definition plain_env :: stream_env where
  "plain_env = \<lparr>se_number_str = (\<lambda>_. []), se_collate = code_unit_cmp,
     se_cast = (\<lambda>v. sample_snapshot (text_of (prop_of ''device_id'' v)) None)\<rparr>"

theorem stream_connection_witness:
  "\<exists>e. st_effect (stream_run plain_env [ChangeDevice (Some ''A''), ConnectionError, RetryFires, ConnectionError]
      initial_stream) = Some e \<and> ef_device e = ''A'' \<and> ef_retryTimer e \<noteq> None \<and> \<not> ef_source e"
proof -
  let ?s = "stream_run plain_env [ChangeDevice (Some ''A''), ConnectionError, RetryFires, ConnectionError] initial_stream"
  have d: "st_deviceId ?s = Some ''A''" "map_option ef_retryTimer (st_effect ?s) = Some (Some 2000)"
    by (simp_all add: stream_run_def initial_stream_def stream_defs onerror_def Let_def retry_delay_def API_RETRY_DELAYS_def)
  show ?thesis
    using stream_connection [OF run_reachable d(1)] d(2) by auto
qed

section \<open>The view\<close>

text \<open>The snapshot an event delivers, if it is delivered and passes the guard.\<close>

fun delivered :: "stream_env \<Rightarrow> stream_event \<Rightarrow> stream \<Rightarrow> live_location_snapshot option" where
  "delivered env (Message m) s =
     (case (m, st_effect s) of
        (Inr v, Some e) \<Rightarrow>
          if ef_source e then
            (case read_snapshot env ''Invalid live stream event'' v of Inl _ \<Rightarrow> None | Inr n \<Rightarrow> Some n)
          else None
      | _ \<Rightarrow> None)"
| "delivered env (RefreshSettles d out) s =
     (if d \<in> set (st_refreshing s) then (case refresh_result env out of Inl _ \<Rightarrow> None | Inr n \<Rightarrow> Some n) else None)"
| "delivered env _ s = None"

fun changes_device :: "stream_event \<Rightarrow> bool" where
  "changes_device (ChangeDevice _) = True"
| "changes_device _ = False"

lemma live_step:
  "\<not> changes_device ev \<Longrightarrow> st_live (stream_step env ev s) =
     (case delivered env ev s of None \<Rightarrow> st_live s
      | Some n \<Rightarrow> reduceLiveLocation (se_collate env) (st_live s) n LIVE_ROUTE_MAX_POINTS)"
  by (cases ev)
    (auto simp: with_effect_def handle_def settle_refresh_def onopen_def onerror_def connect_def Let_def
        accept_snapshot_def reject_snapshot_def refresh_def split: option.splits sum.splits)

definition route_inv :: "live_location_state \<Rightarrow> bool" where
  "route_inv st \<longleftrightarrow>
     length (ll_route st) \<le> 1000 \<and> distinct (map lp_recorded_at (ll_route st)) \<and>
     (ll_snapshot st = None \<longrightarrow> ll_route st = [])"

lemma distinct_extend_route:
  "distinct (map lp_recorded_at r) \<Longrightarrow> distinct (map lp_recorded_at (extend_route c nxt r))"
  by (cases nxt) (auto simp: extend_route_def distinct_map_js_sort list_ex_iff)

lemma route_inv_reduce: "route_inv st \<Longrightarrow> route_inv (reduceLiveLocation c st n LIVE_ROUTE_MAX_POINTS)"
  by (auto simp: route_inv_def reduceLiveLocation_def LIVE_ROUTE_MAX_POINTS_def length_slice_neg
      distinct_map_slice_neg distinct_extend_route split: option.split)

lemma route_inv_step: "route_inv (st_live s) \<Longrightarrow> route_inv (st_live (stream_step env ev s))"
proof (cases "changes_device ev")
  case True
  assume "route_inv (st_live s)"
  moreover from True obtain d where "ev = ChangeDevice d" by (cases ev) auto
  ultimately show ?thesis
    by (auto simp: start_effect_def connect_def refresh_def Let_def route_inv_def EMPTY_LIVE_LOCATION_STATE_def)
next
  case False
  assume "route_inv (st_live s)"
  then show ?thesis using live_step [OF False, of env s] by (simp add: route_inv_reduce split: option.split)
qed

text \<open>In every reachable state the route shown has at most 1000 points and no two with the same
  time, whatever messages the server sends and whatever order they are sorted in.\<close>

theorem stream_route_bounded:
  assumes "stream_reachable env s"
  shows "length (ll_route (st_live s)) \<le> 1000 \<and> distinct (map lp_recorded_at (ll_route (st_live s)))"
proof -
  from assms have "route_inv (st_live s)"
    by (induction rule: stream_reachable.induct)
      (simp_all add: route_inv_step, simp add: route_inv_def initial_stream_def EMPTY_LIVE_LOCATION_STATE_def)
  then show ?thesis by (simp add: route_inv_def)
qed

theorem stream_route_bounded_witness:
  "length (ll_route (st_live (stream_run plain_env [ChangeDevice (Some ''A''), Opened] initial_stream))) \<le> 1000"
  using stream_route_bounded [OF run_reachable] by blast

subsection \<open>A refresh that arrives after the device has changed\<close>

lemma shown_device_step:
  assumes "\<not> changes_device ev" "ll_snapshot (st_live s) = Some sn"
    and "\<forall>n. delivered env ev s = Some n \<longrightarrow> ls_device_id n \<noteq> ls_device_id sn"
  shows "st_live (stream_step env ev s) = st_live s"
  using live_step [OF assms(1), of env s] assms(2,3)
  by (cases "delivered env ev s") (auto simp: reduceLiveLocation_def)

fun all_delivered :: "(live_location_snapshot \<Rightarrow> bool) \<Rightarrow> stream_env \<Rightarrow> stream_event list \<Rightarrow> stream \<Rightarrow> bool" where
  "all_delivered P env [] s = True"
| "all_delivered P env (ev # es) s =
     ((case delivered env ev s of None \<Rightarrow> True | Some n \<Rightarrow> P n) \<and> all_delivered P env es (stream_step env ev s))"

lemma wedged_run:
  assumes "ll_snapshot (st_live s) = Some sn" "list_all (\<lambda>ev. \<not> changes_device ev) es"
    and "all_delivered (\<lambda>n. ls_device_id n \<noteq> ls_device_id sn) env es s"
  shows "st_live (stream_run env es s) = st_live s"
  using assms unfolding stream_run_def
proof (induction es arbitrary: s)
  case (Cons ev es)
  have "st_live (stream_step env ev s) = st_live s"
    by (rule shown_device_step [OF _ Cons.prems(1)]) (use Cons.prems in auto)
  with Cons show ?case by simp
qed simp

text \<open>C13: A refresh is not tied to the effect that asked for it. If the hook moves from one device to
  another while a refresh of the first is in flight, and that refresh settles before anything of
  the second device arrives, its snapshot is shown; and from then on every snapshot of the second
  device is ignored, so the view stays on the old device until the device changes again.\<close>

theorem late_refresh_wedges_view:
  assumes "st_live s = EMPTY_LIVE_LOCATION_STATE" and "a \<in> set (st_refreshing s)"
    and "refresh_result env out = Inr old"
    and "list_all (\<lambda>ev. \<not> changes_device ev) es"
    and "all_delivered (\<lambda>n. ls_device_id n \<noteq> ls_device_id old) env es (stream_step env (RefreshSettles a out) s)"
  shows "ll_snapshot (st_live (stream_run env (RefreshSettles a out # es) s)) = Some old"
proof -
  let ?s = "stream_step env (RefreshSettles a out) s"
  have "ll_snapshot (st_live ?s) = Some old"
    using assms(1-3) live_step [of "RefreshSettles a out" env s]
    by (simp del: stream_step.simps add: reduceLiveLocation_def EMPTY_LIVE_LOCATION_STATE_def newest_location_def
        current_location_def split: option.split)
  with wedged_run [OF this assms(4,5)] show ?thesis by (simp add: stream_run_def)
qed

definition live_message :: "string \<Rightarrow> json" where
  "live_message d = JObject [(''device_id'', JString d), (''server_time'', JString ''t''),
     (''presence'', JObject [(''state'', JString ''offline'')]), (''location'', JNull)]"

definition live_reply :: "string \<Rightarrow> thrown + json" where
  "live_reply d = Inr (JObject [(''data'', JObject [(''data'', live_message d)])])"

lemma live_message_read [simp]:
  "read_snapshot plain_env x (live_message d) = Inr (sample_snapshot d None)"
  by (simp add: read_snapshot_def isLiveSnapshot_def live_message_def presence_state_strs_def plain_env_def)

lemma live_reply_read [simp]: "refresh_result plain_env (live_reply d) = Inr (sample_snapshot d None)"
  by (simp add: refresh_result_def live_reply_def)

theorem late_refresh_wedges_view_witness:
  "map_option ls_device_id (ll_snapshot (st_live (stream_run plain_env
     (RefreshSettles ''A'' (live_reply ''A'') # [Opened, Message (Inr (live_message ''B''))])
     (stream_run plain_env [ChangeDevice (Some ''A''), ChangeDevice (Some ''B'')] initial_stream)))) = Some ''A''"
proof -
  let ?s = "stream_run plain_env [ChangeDevice (Some ''A''), ChangeDevice (Some ''B'')] initial_stream"
  have s: "st_live ?s = EMPTY_LIVE_LOCATION_STATE" "''A'' \<in> set (st_refreshing ?s)"
    by (simp_all add: stream_run_def initial_stream_def stream_defs)
  have "ll_snapshot (st_live (stream_run plain_env
     (RefreshSettles ''A'' (live_reply ''A'') # [Opened, Message (Inr (live_message ''B''))]) ?s))
     = Some (sample_snapshot ''A'' None)"
    by (rule late_refresh_wedges_view [OF s])
      (simp_all add: sample_snapshot_def split: option.split)
  then show ?thesis by (simp add: sample_snapshot_def)
qed

end
