(* ===== verification/UserService.thy ===== *)
theory UserService
  imports ApiErrors
begin

text \<open>
  The users hook (\<open>lib/api/services/userService.ts\<close>). The list is typed \<open>User[]\<close>, but a
  creation appends the whole response, temporary password included, so an entry of the list
  carries that field as an option.
\<close>

record user_row = user +
  ur_temporary_password :: "string option"

record user_service = world +
  usv_isLoading :: bool
  usv_error :: "api_error option"
  usv_users :: "user_row list"
  usv_user :: "user_with_devices option"

type_synonym 'a user_act = "(user_service, thrown, 'a) io"

definition set_usv_loading :: "bool \<Rightarrow> user_service \<Rightarrow> user_service" where
  "set_usv_loading b s = s\<lparr>usv_isLoading := b\<rparr>"

interpretation usv_loading: flag_field usv_isLoading set_usv_loading
  by unfold_locales (simp_all add: set_usv_loading_def)

definition usv_setIsLoading :: "bool \<Rightarrow> unit user_act" where
  "usv_setIsLoading b = io_modify (set_usv_loading b)"

definition usv_setError :: "api_error option \<Rightarrow> unit user_act" where
  "usv_setError e = io_modify (\<lambda>s. s\<lparr>usv_error := e\<rparr>)"

definition usv_resetState :: "unit user_act" where
  "usv_resetState = io_then (usv_setIsLoading False) (usv_setError None)"

definition setUsers :: "(user_row list \<Rightarrow> user_row list) \<Rightarrow> unit user_act" where
  "setUsers f = io_modify (\<lambda>s. s\<lparr>usv_users := f (usv_users s)\<rparr>)"

definition usv_setUser :: "(user_with_devices option \<Rightarrow> user_with_devices option) \<Rightarrow> unit user_act" where
  "usv_setUser f = io_modify (\<lambda>s. s\<lparr>usv_user := f (usv_user s)\<rparr>)"

lemmas user_state_defs [service_defs] =
  usv_setIsLoading_def usv_setError_def usv_resetState_def setUsers_def usv_setUser_def

definition plain_row :: "user \<Rightarrow> user_row" where
  "plain_row u = user.extend u \<lparr>ur_temporary_password = None\<rparr>"

definition created_row :: "created_user \<Rightarrow> user_row" where
  "created_row u = user.extend (user.truncate u) \<lparr>ur_temporary_password = Some (cu_temporary_password u)\<rparr>"

text \<open>\<open>{ ...prev, ...updated }\<close>\<close>

definition merge_user :: "'z user_scheme \<Rightarrow> user \<Rightarrow> 'z user_scheme" where
  "merge_user prev updated = user.extend updated (user.more prev)"

definition user_null_response :: "string \<Rightarrow> 'a user_act" where
  "user_null_response msg = io_then (service_error_toast msg) (handleApiError (JsError msg))"

definition users_path :: "string \<Rightarrow> string" where
  "users_path i = ''/users/'' @ i"

section \<open>The operations\<close>

definition getAllUsers :: "(thrown + user list envelope fetch_result) \<Rightarrow> unit user_act" where
  "getAllUsers out =
     io_then usv_resetState (io_then (usv_setIsLoading True) (io_then (setUsers (\<lambda>_. []))
     (io_finally
       (io_bind (withApiErrorToast (await_call (mk_request ApiClient GET ''/users'') out) True) (\<lambda>r.
          case fr_data r of
            None \<Rightarrow> user_null_response ''get all users returned a null response''
          | Some response \<Rightarrow>
              (case env_data response of
                 None \<Rightarrow> io_throw null_property_error
               | Some us \<Rightarrow> setUsers (\<lambda>_. map plain_row us))))
       (usv_setIsLoading False))))"

definition getUserByID ::
  "string \<Rightarrow> int \<Rightarrow> int \<Rightarrow> (thrown + user_with_devices envelope fetch_result) \<Rightarrow> unit user_act" where
  "getUserByID i page pageSize out =
     io_then (usv_setError None) (io_then (usv_setIsLoading True) (io_then (usv_setUser (\<lambda>_. None))
     (io_finally
       (io_catch
         (io_bind (withApiErrorToast (await_call
            ((mk_request ApiClient GET (users_path i))
               \<lparr>rq_query := [(''page'', JNumber (Fin (of_int page))), (''page_size'', JNumber (Fin (of_int pageSize)))]\<rparr>)
            out) True) (\<lambda>r.
            case fr_data r of
              None \<Rightarrow> user_null_response ''get user returned a null response''
            | Some response \<Rightarrow> usv_setUser (\<lambda>_. env_data response)))
         (\<lambda>caught. let apiError = (if isApiError caught then the_api_error caught else toApiError caught)
                   in io_then (usv_setError (Some apiError)) (io_throw (ApiObj apiError))))
       (usv_setIsLoading False))))"

definition create_user_body :: "create_user_dto \<Rightarrow> json" where
  "create_user_body p = JObject ([(''email'', JString (cud_email p)), (''name'', JString (cud_name p))] @
     (case cud_lastname p of None \<Rightarrow> [] | Some l \<Rightarrow> [(''lastname'', JString l)]))"

definition createUser ::
  "create_user_dto \<Rightarrow> (thrown + created_user envelope fetch_result) \<Rightarrow> created_user user_act" where
  "createUser payload out =
     io_then usv_resetState (io_then (usv_setIsLoading True)
     (io_finally
       (io_bind (withApiErrorToast (await_call
          ((mk_request ApiClient POST ''/users'')\<lparr>rq_body := Some (create_user_body payload)\<rparr>) out) True) (\<lambda>r.
          case fr_data r of
            None \<Rightarrow> user_null_response ''create user returned an invalid response''
          | Some response \<Rightarrow>
              (if env_status_code response \<noteq> 201 then user_null_response ''create user returned an invalid response''
               else case env_data response of
                 None \<Rightarrow> user_null_response ''create user returned an invalid response''
               | Some u \<Rightarrow> io_then (setUsers (\<lambda>prev. prev @ [created_row u])) (io_return u))))
       (usv_setIsLoading False)))"

definition update_user_body :: "update_user_dto \<Rightarrow> json" where
  "update_user_body p = JObject
     ((case uud_name p of None \<Rightarrow> [] | Some n \<Rightarrow> [(''name'', JString n)]) @
      (case uud_lastname p of None \<Rightarrow> [] | Some l \<Rightarrow> [(''lastname'', JString l)]))"

definition updateUser ::
  "string \<Rightarrow> update_user_dto \<Rightarrow> (thrown + user envelope fetch_result) \<Rightarrow> unit user_act" where
  "updateUser i payload out =
     io_then usv_resetState (io_then (usv_setIsLoading True)
     (io_finally
       (io_bind (withApiErrorToast (await_call
          ((mk_request ApiClient PUT (users_path i))\<lparr>rq_body := Some (update_user_body payload)\<rparr>) out) True) (\<lambda>r.
          case Option.bind (fr_data r) env_data of
            None \<Rightarrow> user_null_response ''update user returned a null response''
          | Some updated \<Rightarrow>
              io_then (setUsers (update_key u_id i (\<lambda>_. plain_row updated)))
              (usv_setUser (\<lambda>prev. case prev of None \<Rightarrow> None
                 | Some u \<Rightarrow> if u_id u = i then Some (merge_user u updated) else prev))))
       (usv_setIsLoading False)))"

definition deleteUser :: "string \<Rightarrow> (thrown + 'b fetch_result) \<Rightarrow> unit user_act" where
  "deleteUser i out =
     io_then usv_resetState (io_then (usv_setIsLoading True)
     (io_finally
       (io_bind (withApiErrorToast (await_call (mk_request ApiClient DELETE (users_path i)) out) True) (\<lambda>_.
          setUsers (drop_key u_id i)))
       (usv_setIsLoading False)))"

section \<open>Lemmas\<close>

lemma user_null_response_eq [io_simps]:
  "user_null_response msg s = (Inl (ApiObj (mk_api_error 0 msg)), pushed (mk_toast ToastError ''Error'' msg) s)"
  by (simp add: user_null_response_def io_simps)

lemma usv_pushed [simp]:
  "usv_users (pushed b s) = usv_users s" "usv_user (pushed b s) = usv_user s"
  "usv_isLoading (pushed b s) = usv_isLoading s" "usv_error (pushed b s) = usv_error s"
  by (simp_all add: pushed_def)

lemma usv_sent [simp]:
  "usv_users (sent rq s) = usv_users s" "usv_user (sent rq s) = usv_user s"
  "usv_isLoading (sent rq s) = usv_isLoading s" "usv_error (sent rq s) = usv_error s"
  by (simp_all add: sent_def)

lemma usv_set_loading [simp]:
  "usv_users (set_usv_loading b s) = usv_users s" "usv_user (set_usv_loading b s) = usv_user s"
  "usv_isLoading (set_usv_loading b s) = b" "usv_error (set_usv_loading b s) = usv_error s"
  by (simp_all add: set_usv_loading_def)

lemma row_simps [simp]:
  "u_id (plain_row u) = u_id u" "ur_temporary_password (plain_row u) = None"
  "u_id (created_row c) = u_id c" "ur_temporary_password (created_row c) = Some (cu_temporary_password c)"
  "u_id (merge_user p u) = u_id u"
  by (simp_all add: plain_row_def created_row_def merge_user_def user.defs)

section \<open>Properties\<close>

text \<open>Creating a user succeeds exactly on a 201 envelope with data; it then returns the
  created user and appends the user to the cached list, one entry with the temporary password in
  it. In every other case it throws, the list is unchanged, and the loading flag is off in all.\<close>

theorem createUser_effect:
  "(\<exists>u. fst (createUser p out s) = Inr u \<and>
      (\<exists>r env. out = Inr r \<and> fr_data r = Some env \<and> env_status_code env = 201 \<and> env_data env = Some u) \<and>
      usv_users (snd (createUser p out s)) = usv_users s @ [created_row u])
   \<or> ((\<exists>e. fst (createUser p out s) = Inl (ApiObj e)) \<and>
      \<not> (\<exists>r env. out = Inr r \<and> fr_data r = Some env \<and> env_status_code env = 201 \<and> env_data env \<noteq> None) \<and>
      usv_users (snd (createUser p out s)) = usv_users s)"
proof (cases out)
  case (Inl e)
  then show ?thesis by (simp add: createUser_def io_simps service_defs)
next
  case (Inr r)
  show ?thesis
  proof (cases "fr_data r")
    case None
    with Inr show ?thesis by (simp add: createUser_def io_simps service_defs)
  next
    case (Some env)
    with Inr show ?thesis
      by (cases "env_status_code env = 201"; cases "env_data env")
        (simp_all add: createUser_def io_simps service_defs)
  qed
qed

text \<open>An update whose response carries the user's own id keeps the ids and the order of the
  list, replaces exactly the entries of that user, and merges the new fields into the detail view
  of the same user, whose devices it keeps; a deletion removes exactly the entries of the id.\<close>

theorem updateUser_deleteUser_effect:
  assumes "out = fetched env" "env_data env = Some upd" "u_id upd = i"
  shows "let s' = snd (updateUser i p out s) in
     fst (updateUser i p out s) = Inr () \<and>
     map u_id (usv_users s') = map u_id (usv_users s) \<and>
     (\<forall>k < length (usv_users s).
        usv_users s' ! k = (if u_id (usv_users s ! k) = i then plain_row upd else usv_users s ! k)) \<and>
     map_option u_id (usv_user s') = map_option u_id (usv_user s) \<and>
     map_option uwd_devices (usv_user s') = map_option uwd_devices (usv_user s) \<and>
     usv_users (snd (deleteUser i (Inr r) s)) = filter (\<lambda>u. u_id u \<noteq> i) (usv_users s)"
proof -
  have d: "uwd_devices (merge_user u upd) = uwd_devices u" for u :: user_with_devices
    by (cases u) (simp add: merge_user_def user.defs)
  have keys: "map u_id (update_key u_id i (\<lambda>_. plain_row upd) xs) = map u_id xs" for xs
    by (rule update_key_keys) (simp add: assms(3))
  show ?thesis
    using assms
    by (simp add: Let_def updateUser_def deleteUser_def fetched_def io_simps service_defs keys
        update_key_nth d drop_key_def split: option.split)
qed

definition sample_user :: "string \<Rightarrow> string \<Rightarrow> user" where
  "sample_user i n = \<lparr>u_id = i, u_email = ''e'', u_email_verified = True, u_image = None, u_name = n,
     u_lastname = ''l'', u_role = RoleUser, u_must_change_password = False, u_created_at = ''2026-01-01T00:00:00Z''\<rparr>"

definition users_state :: "user_row list \<Rightarrow> user_service" where
  "users_state us = world.extend initial_world
     \<lparr>usv_isLoading = False, usv_error = None, usv_users = us, usv_user = None\<rparr>"

lemma users_state_simps [simp]: "usv_users (users_state us) = us" "usv_user (users_state us) = None"
  by (simp_all add: users_state_def world.defs)

theorem updateUser_deleteUser_effect_witness:
  "map u_id (usv_users (snd (updateUser ''a'' \<lparr>uud_name = Some ''new'', uud_lastname = None\<rparr>
     (fetched \<lparr>env_status_code = 200, env_message = [], env_data = Some (sample_user ''a'' ''new'')\<rparr>)
     (users_state [plain_row (sample_user ''a'' ''old''), plain_row (sample_user ''b'' ''x'')])))) = [''a'', ''b'']"
  using updateUser_deleteUser_effect [OF refl, where upd = "sample_user ''a'' ''new''" and i = "''a''"
      and env = "\<lparr>env_status_code = 200, env_message = [], env_data = Some (sample_user ''a'' ''new'')\<rparr>"
      and p = "\<lparr>uud_name = Some ''new'', uud_lastname = None\<rparr>"
      and s = "users_state [plain_row (sample_user ''a'' ''old''), plain_row (sample_user ''b'' ''x'')]"
      and r = "\<lparr>fr_data = Some (), fr_error = None\<rparr>"]
  by (simp add: Let_def sample_user_def)

end
