(* ===== verification/SmallServices.thy ===== *)
theory SmallServices
  imports ApiErrors
begin

text \<open>
  The remaining services: profile, welcome email, bootstrap status, share links and reports
  (\<open>lib/api/services/*.ts\<close>, \<open>lib/api/shareLinkService.ts\<close>), and the run-time guard on guest
  snapshots.
\<close>

section \<open>Profile\<close>

record profile_service = world +
  psv_isLoading :: bool
  psv_error :: "api_error option"
  psv_profile :: "user option"
  psv_deviceCount :: "int option"

type_synonym 'a profile_act = "(profile_service, thrown, 'a) io"

definition set_psv_loading :: "bool \<Rightarrow> profile_service \<Rightarrow> profile_service" where
  "set_psv_loading b s = s\<lparr>psv_isLoading := b\<rparr>"

interpretation psv_loading: flag_field psv_isLoading set_psv_loading
  by unfold_locales (simp_all add: set_psv_loading_def)

text \<open>
  \<open>Promise.all\<close> of two calls, both sent first: it rejects with the rejection that comes
  first in time; \<open>second_first\<close> says whether the second call settles before the first.
\<close>

definition promise_all2 ::
  "bool \<Rightarrow> request \<Rightarrow> (thrown + 'a) \<Rightarrow> request \<Rightarrow> (thrown + 'b) \<Rightarrow> ('z, 'a \<times> 'b) act" where
  "promise_all2 second_first rq1 out1 rq2 out2 =
     io_then (io_modify (sent rq1)) (io_then (io_modify (sent rq2))
     (case (out1, out2) of
        (Inr a, Inr b) \<Rightarrow> io_return (a, b)
      | (Inl e, Inr _) \<Rightarrow> io_throw e
      | (Inr _, Inl e) \<Rightarrow> io_throw e
      | (Inl e1, Inl e2) \<Rightarrow> io_throw (if second_first then e2 else e1)))"

definition profile_refresh ::
  "bool \<Rightarrow> (thrown + user envelope fetch_result) \<Rightarrow> (thrown + device_count_response envelope fetch_result)
   \<Rightarrow> unit profile_act" where
  "profile_refresh second_first out1 out2 =
     io_then (io_modify (set_psv_loading True)) (io_then (io_modify (\<lambda>s. s\<lparr>psv_error := None\<rparr>))
     (io_finally
       (io_catch
         (io_bind (promise_all2 second_first
             (mk_request ApiClient GET ''/users/me'') out1 (mk_request ApiClient GET ''/devices/count'') out2) (\<lambda>(profileRes, countRes).
            io_then (case Option.bind (fr_data profileRes) env_data of
                       None \<Rightarrow> io_return () | Some u \<Rightarrow> io_modify (\<lambda>s. s\<lparr>psv_profile := Some u\<rparr>))
            (case Option.bind (fr_data countRes) env_data of
               None \<Rightarrow> io_return () | Some c \<Rightarrow> io_modify (\<lambda>s. s\<lparr>psv_deviceCount := Some (dcr_total c)\<rparr>))))
         (\<lambda>error. io_modify (\<lambda>s. s\<lparr>psv_error := Some (if isApiError error then the_api_error error else toApiError error)\<rparr>)))
       (io_modify (set_psv_loading False))))"

lemma psv_frame [simp]:
  "psv_profile (sent rq s) = psv_profile s" "psv_deviceCount (sent rq s) = psv_deviceCount s"
  "psv_error (sent rq s) = psv_error s" "psv_isLoading (sent rq s) = psv_isLoading s"
  "psv_profile (set_psv_loading b s) = psv_profile s" "psv_deviceCount (set_psv_loading b s) = psv_deviceCount s"
  "psv_error (set_psv_loading b s) = psv_error s" "psv_isLoading (set_psv_loading b s) = b"
  by (simp_all add: sent_def set_psv_loading_def)

text \<open>Refreshing the profile never throws and always ends with the flag off. When both
  requests resolve, the error is cleared and each part that carries data replaces the stored one
  while a part without data keeps it; when one of them rejects, both parts are kept and the error
  is set.\<close>

theorem profile_refresh_effect:
  "fst (profile_refresh b out1 out2 s) = Inr () \<and>
   (let s' = snd (profile_refresh b out1 out2 s) in
      \<not> psv_isLoading s' \<and>
      (case (out1, out2) of
         (Inr r1, Inr r2) \<Rightarrow> psv_error s' = None \<and>
           psv_profile s' = (case Option.bind (fr_data r1) env_data of None \<Rightarrow> psv_profile s | Some u \<Rightarrow> Some u) \<and>
           psv_deviceCount s' = (case Option.bind (fr_data r2) env_data of
              None \<Rightarrow> psv_deviceCount s | Some c \<Rightarrow> Some (dcr_total c))
       | _ \<Rightarrow> psv_error s' \<noteq> None \<and> psv_profile s' = psv_profile s \<and> psv_deviceCount s' = psv_deviceCount s))"
  by (cases out1; cases out2)
    (simp_all add: profile_refresh_def promise_all2_def io_simps split: option.split)

section \<open>Welcome email\<close>

record email_service = world +
  esv_isLoading :: bool
  esv_error :: "api_error option"
  esv_messageId :: "string option"

type_synonym 'a email_act = "(email_service, thrown, 'a) io"

definition set_esv_loading :: "bool \<Rightarrow> email_service \<Rightarrow> email_service" where
  "set_esv_loading b s = s\<lparr>esv_isLoading := b\<rparr>"

interpretation esv_loading: flag_field esv_isLoading set_esv_loading
  by unfold_locales (simp_all add: set_esv_loading_def)

definition esv_resetState :: "unit email_act" where
  "esv_resetState = io_modify (\<lambda>s. s\<lparr>esv_isLoading := False, esv_error := None, esv_messageId := None\<rparr>)"

definition welcome_email_body :: "welcome_email_request \<Rightarrow> json" where
  "welcome_email_body q = JObject
     [(''subject'', JString (we_subject q)), (''first_name'', JString (we_first_name q)),
      (''temporary_password'', JString (we_temporary_password q)), (''email'', JString (we_email q)),
      (''locale'', JString (language_str (we_locale q)))]"

text \<open>The payload of the answer is the message id.\<close>

definition sendWelcomeEmail ::
  "welcome_email_request \<Rightarrow> (thrown + string envelope fetch_result) \<Rightarrow> bool email_act" where
  "sendWelcomeEmail q out =
     io_then esv_resetState (io_then (io_modify (set_esv_loading True))
     (io_finally
       (io_bind (withApiErrorToast (await_call
          ((mk_request ApiClient POST ''/email/welcome'')\<lparr>rq_body := Some (welcome_email_body q)\<rparr>) out) True) (\<lambda>r.
          let ok = (map_option env_status_code (fr_data r) = Some 202)
          in io_then (case Option.bind (fr_data r) env_data of
                 None \<Rightarrow> io_return ()
               | Some i \<Rightarrow> io_when ok (io_modify (\<lambda>s. s\<lparr>esv_messageId := Some i\<rparr>)))
             (io_return ok)))
       (io_modify (set_esv_loading False))))"

text \<open>A welcome email resolves to whether the API answered 202 and records the message id in
  that case only; a rejected request is shown as a toast and thrown on to the caller. The flag
  always ends off.\<close>

theorem sendWelcomeEmail_outcomes:
  "fst (sendWelcomeEmail q out s) =
     (case out of Inl e \<Rightarrow> Inl (ApiObj (toError e))
      | Inr r \<Rightarrow> Inr (map_option env_status_code (fr_data r) = Some 202)) \<and>
   esv_messageId (snd (sendWelcomeEmail q out s)) =
     (case out of Inl e \<Rightarrow> None
      | Inr r \<Rightarrow> if map_option env_status_code (fr_data r) = Some 202 then Option.bind (fr_data r) env_data else None) \<and>
   \<not> esv_isLoading (snd (sendWelcomeEmail q out s))"
proof (cases out)
  case (Inl e)
  then show ?thesis
    by (simp add: sendWelcomeEmail_def esv_resetState_def io_simps set_esv_loading_def pushed_def sent_def)
next
  case (Inr r)
  then show ?thesis
    by (cases "fr_data r")
      (auto simp: sendWelcomeEmail_def esv_resetState_def io_simps set_esv_loading_def sent_def Let_def
        split: option.split)
qed

section \<open>Bootstrap\<close>

text \<open>\<open>needsSetup: envelope.data\<close>; a response without a body raises inside the \<open>try\<close>.\<close>

definition getStatus :: "(thrown + bool envelope fetch_result) \<Rightarrow> ('z, bootstrap_status) act" where
  "getStatus out =
     io_catch
       (io_bind (await_call (mk_request ApiClient GET ''/system/bootstrap'') out) (\<lambda>r.
          case fr_data r of
            None \<Rightarrow> io_throw null_property_error
          | Some env \<Rightarrow> io_return \<lparr>bs_needsSetup = (env_data env = Some True)\<rparr>))
       handleApiError"

section \<open>Share links\<close>

definition share_path :: "string \<Rightarrow> string" where
  "share_path deviceId = ''/devices/'' @ deviceId @ ''/share-links''"

definition require_data :: "string \<Rightarrow> 'a envelope fetch_result \<Rightarrow> ('z, 'a) act" where
  "require_data msg r =
     (case Option.bind (fr_data r) env_data of None \<Rightarrow> io_throw (JsError msg) | Some d \<Rightarrow> io_return d)"

definition createDeviceShareLink ::
  "string \<Rightarrow> int \<Rightarrow> (thrown + created_device_share_link envelope fetch_result) \<Rightarrow> ('z, created_device_share_link) act" where
  "createDeviceShareLink deviceId durationHours out =
     io_bind (await_call ((mk_request ApiClient POST (share_path deviceId))
        \<lparr>rq_body := Some (JObject [(''duration_hours'', JNumber (Fin (of_int durationHours)))])\<rparr>) out)
     (require_data ''Empty share link response'')"

definition listDeviceShareLinks ::
  "string \<Rightarrow> (thrown + device_share_link list envelope fetch_result) \<Rightarrow> ('z, device_share_link list) act" where
  "listDeviceShareLinks deviceId out =
     io_bind (await_call (mk_request ApiClient GET (share_path deviceId)) out)
     (require_data ''Empty share link list response'')"

definition revokeDeviceShareLink :: "string \<Rightarrow> string \<Rightarrow> (thrown + 'b fetch_result) \<Rightarrow> ('z, unit) act" where
  "revokeDeviceShareLink deviceId linkId out =
     io_then (await_call (mk_request ApiClient DELETE (share_path deviceId @ ''/'' @ linkId)) out) (io_return ())"

definition consumeGuestShareLink :: "string \<Rightarrow> (thrown + 'b fetch_result) \<Rightarrow> ('z, unit) act" where
  "consumeGuestShareLink token out =
     io_then (await_call ((mk_request ApiClient POST ''/guest/share-links/consume'')
        \<lparr>rq_body := Some (JObject [(''token'', JString token)])\<rparr>) out) (io_return ())"

definition getGuestLiveSnapshot :: "(thrown + json envelope fetch_result) \<Rightarrow> ('z, json) act" where
  "getGuestLiveSnapshot out =
     io_bind (await_call (mk_request ApiClient GET ''/guest/device/live'') out)
     (require_data ''Empty guest snapshot response'')"

definition num_in_range :: "real \<Rightarrow> real \<Rightarrow> json \<Rightarrow> bool" where
  "num_in_range lo hi v =
     (case v of JNumber n \<Rightarrow> is_finite n \<and> num_leq (Fin lo) n \<and> num_leq n (Fin hi) | _ \<Rightarrow> False)"

definition isGuestLiveSnapshot :: "json \<Rightarrow> bool" where
  "isGuestLiveSnapshot v =
     (if \<not> is_record v then False
      else if \<not> typeof_string (prop_of ''device_name'' v) \<or> \<not> typeof_string (prop_of ''server_time'' v) \<or>
         \<not> is_record (prop_of ''presence'' v) \<or> \<not> typeof_string (prop_of ''state'' (prop_of ''presence'' v)) \<or>
         prop_of ''state'' (prop_of ''presence'' v) \<notin> JString ` set presence_state_strs
      then False
      else if prop_of ''location'' v = JNull then True
      else if \<not> is_record (prop_of ''location'' v) then False
      else typeof_string (prop_of ''recorded_at'' (prop_of ''location'' v)) \<and>
           num_in_range (- 90) 90 (prop_of ''latitude'' (prop_of ''location'' v)) \<and>
           num_in_range (- 180) 180 (prop_of ''longitude'' (prop_of ''location'' v)))"

text \<open>The typed reading of a guest snapshot, where it has one.\<close>

definition guest_location_of :: "json \<Rightarrow> guest_location option" where
  "guest_location_of v =
     (case (prop_of ''recorded_at'' v, prop_of ''latitude'' v, prop_of ''longitude'' v) of
        (JString r, JNumber la, JNumber lo) \<Rightarrow> Some \<lparr>gl_recorded_at = r, gl_latitude = la, gl_longitude = lo\<rparr>
      | _ \<Rightarrow> None)"

definition guest_snapshot_of :: "json \<Rightarrow> guest_live_snapshot option" where
  "guest_snapshot_of v =
     (case (prop_of ''device_name'' v, prop_of ''server_time'' v, prop_of ''state'' (prop_of ''presence'' v)) of
        (JString n, JString t, JString st) \<Rightarrow>
          (case presence_of_str st of
             None \<Rightarrow> None
           | Some p \<Rightarrow>
              (if prop_of ''location'' v = JNull
               then Some \<lparr>gs_device_name = n, gs_location = None, gs_presence_state = p, gs_server_time = t\<rparr>
               else map_option (\<lambda>l. \<lparr>gs_device_name = n, gs_location = Some l, gs_presence_state = p, gs_server_time = t\<rparr>)
                      (guest_location_of (prop_of ''location'' v))))
      | _ \<Rightarrow> None)"

lemma num_in_range_iff:
  "num_in_range lo hi v \<longleftrightarrow> (\<exists>r. v = JNumber (Fin r) \<and> lo \<le> r \<and> r \<le> hi)"
proof (cases v)
  case (JNumber n)
  then show ?thesis by (cases n) (simp_all add: num_in_range_def)
qed (simp_all add: num_in_range_def)

lemma guest_guard_reads:
  assumes "isGuestLiveSnapshot v"
  shows "\<exists>g. guest_snapshot_of v = Some g \<and>
    (case gs_location g of None \<Rightarrow> prop_of ''location'' v = JNull
     | Some l \<Rightarrow> (\<exists>la lo. gl_latitude l = Fin la \<and> gl_longitude l = Fin lo \<and>
         - 90 \<le> la \<and> la \<le> 90 \<and> - 180 \<le> lo \<and> lo \<le> 180))"
proof -
  from assms obtain n t st where
      base: "prop_of ''device_name'' v = JString n" "prop_of ''server_time'' v = JString t"
        "prop_of ''state'' (prop_of ''presence'' v) = JString st" "st \<in> set presence_state_strs"
    unfolding isGuestLiveSnapshot_def by (auto simp: typeof_string_iff split: if_splits)
  from base(4) obtain p where p: "presence_of_str st = Some p"
    using presence_of_str_iff by blast
  show ?thesis
  proof (cases "prop_of ''location'' v = JNull")
    case True
    with base p show ?thesis by (simp add: guest_snapshot_of_def)
  next
    case False
    with assms obtain r la lo where
      "prop_of ''recorded_at'' (prop_of ''location'' v) = JString r"
      "prop_of ''latitude'' (prop_of ''location'' v) = JNumber (Fin la)" "- 90 \<le> la" "la \<le> 90"
      "prop_of ''longitude'' (prop_of ''location'' v) = JNumber (Fin lo)" "- 180 \<le> lo" "lo \<le> 180"
      unfolding isGuestLiveSnapshot_def
      by (auto simp: typeof_string_iff num_in_range_iff split: if_splits)
    with base p False show ?thesis by (simp add: guest_snapshot_of_def guest_location_of_def)
  qed
qed

text \<open>A value that passes the guest guard really is a guest snapshot: it has a typed reading,
  and the location it shows, if any, has finite coordinates on the globe.\<close>

theorem guest_guard_sound:
  assumes "isGuestLiveSnapshot v"
  shows "\<exists>g. guest_snapshot_of v = Some g \<and>
    (case gs_location g of None \<Rightarrow> prop_of ''location'' v = JNull
     | Some l \<Rightarrow> (\<exists>la lo. gl_latitude l = Fin la \<and> gl_longitude l = Fin lo \<and>
         - 90 \<le> la \<and> la \<le> 90 \<and> - 180 \<le> lo \<and> lo \<le> 180))"
  using assms by (rule guest_guard_reads)

definition sample_guest :: json where
  "sample_guest = JObject [(''device_name'', JString ''Van''), (''server_time'', JString ''t''),
     (''presence'', JObject [(''state'', JString ''offline'')]),
     (''location'', JObject [(''recorded_at'', JString ''r''), (''latitude'', JNumber (Fin 19)),
        (''longitude'', JNumber (Fin (- 99)))])]"

theorem guest_guard_sound_witness:
  "isGuestLiveSnapshot sample_guest \<and> (\<exists>g. guest_snapshot_of sample_guest = Some g)"
proof -
  have g: "isGuestLiveSnapshot sample_guest"
    by (simp add: sample_guest_def isGuestLiveSnapshot_def num_in_range_def presence_state_strs_def)
  then show ?thesis using guest_guard_sound [OF g] by blast
qed

section \<open>Reports\<close>

definition buildQuery :: "report_filter \<Rightarrow> (string \<times> string) list" where
  "buildQuery f =
     [(''from'', rf_from f), (''to'', rf_to f), (''time-zone'', rf_timeZone f)] @
     (if 0 < length (rf_deviceIds f) then [(''device_ids'', join_with '','' (rf_deviceIds f))] else []) @
     (case rf_vehicleType f of None \<Rightarrow> [] | Some v \<Rightarrow> [(''vehicle_type'', vehicle_type_str v)])"

definition report_request ::
  "string \<Rightarrow> report_filter \<Rightarrow> (thrown + 'a envelope fetch_result) \<Rightarrow> ('z, 'a option) act" where
  "report_request path f out =
     io_bind (await_call ((mk_request ApiClient GET path)
        \<lparr>rq_query := map (\<lambda>(k, v). (k, JString v)) (buildQuery f)\<rparr>) out) (\<lambda>r.
       case fr_data r of
         None \<Rightarrow> io_throw (JsError ''Report request failed'')
       | Some env \<Rightarrow> if env_status_code env < 200 \<or> 300 \<le> env_status_code env
                     then io_throw (JsError (env_message env))
                     else io_return (env_data env))"

definition report_overview_path :: string where "report_overview_path = ''/reports/overview''"
definition report_routes_path :: string where "report_routes_path = ''/reports/routes''"
definition report_health_path :: string where "report_health_path = ''/reports/health''"
definition report_quality_path :: string where "report_quality_path = ''/reports/data-quality''"

datatype export_format = Csv | Gpx

fun export_format_str :: "export_format \<Rightarrow> string" where
  "export_format_str Csv = ''csv''"
| "export_format_str Gpx = ''gpx''"

text \<open>\<open>URLSearchParams\<close>: \<open>set\<close> replaces a key in place or appends it; the string is the encoded
  pairs joined by \<open>&\<close>. \<open>enc\<close> is the form encoding of one name or value.\<close>

fun params_set :: "string \<Rightarrow> string \<Rightarrow> (string \<times> string) list \<Rightarrow> (string \<times> string) list" where
  "params_set k v [] = [(k, v)]"
| "params_set k v ((k', v') # ps) =
     (if k' = k then (k, v) # filter (\<lambda>p. fst p \<noteq> k) ps else (k', v') # params_set k v ps)"

definition params_str :: "(string \<Rightarrow> string) \<Rightarrow> (string \<times> string) list \<Rightarrow> string" where
  "params_str enc ps = join_with ''&'' (map (\<lambda>(k, v). enc k @ ''='' @ enc v) ps)"

definition exportUrl :: "(string \<Rightarrow> string) \<Rightarrow> string \<Rightarrow> report_filter \<Rightarrow> export_format \<Rightarrow> string" where
  "exportUrl enc apiOrigin f fmt =
     apiOrigin @ ''/api/v1/reports/export?'' @
     params_str enc (params_set ''format'' (export_format_str fmt) (buildQuery f))"

lemma params_set_absent: "k \<notin> fst ` set ps \<Longrightarrow> params_set k v ps = ps @ [(k, v)]"
  by (induction ps) auto

lemma buildQuery_keys:
  "fst ` set (buildQuery f) \<subseteq> {''from'', ''to'', ''time-zone'', ''device_ids'', ''vehicle_type''}"
  by (auto simp: buildQuery_def split: option.splits if_splits)

text \<open>The export link asks for the very query the report requests send, followed by the
  format: a report and its export cannot disagree on the filter.\<close>

theorem export_matches_report_query:
  "exportUrl enc origin f fmt =
     origin @ ''/api/v1/reports/export?'' @ params_str enc (buildQuery f @ [(''format'', export_format_str fmt)]) \<and>
   rq_query (last (w_sent (snd (report_request path f out w)))) = map (\<lambda>(k, v). (k, JString v)) (buildQuery f)"
proof -
  have "''format'' \<notin> fst ` set (buildQuery f)"
    using buildQuery_keys [of f] by auto
  then have "params_set ''format'' (export_format_str fmt) (buildQuery f) =
      buildQuery f @ [(''format'', export_format_str fmt)]"
    by (rule params_set_absent)
  moreover have "rq_query (last (w_sent (snd (report_request path f out w)))) =
      map (\<lambda>(k, v). (k, JString v)) (buildQuery f)"
    by (cases out) (simp_all add: report_request_def io_simps split: option.split)
  ultimately show ?thesis by (simp add: exportUrl_def)
qed

end
