(* ===== verification/ApiKeyService.thy ===== *)
theory ApiKeyService
  imports ApiErrors
begin

text \<open>The device API keys hook (\<open>lib/api/services/apiKeyService.ts\<close>).\<close>

record key_service = world +
  ksv_isLoading :: bool
  ksv_error :: "api_error option"
  ksv_apiKeys :: "api_key list"
  ksv_rows :: "api_key_row list"

type_synonym 'a key_act = "(key_service, thrown, 'a) io"

definition set_ksv_loading :: "bool \<Rightarrow> key_service \<Rightarrow> key_service" where
  "set_ksv_loading b s = s\<lparr>ksv_isLoading := b\<rparr>"

interpretation ksv_loading: flag_field ksv_isLoading set_ksv_loading
  by unfold_locales (simp_all add: set_ksv_loading_def)

definition ksv_setIsLoading :: "bool \<Rightarrow> unit key_act" where
  "ksv_setIsLoading b = io_modify (set_ksv_loading b)"

definition clearError :: "unit key_act" where
  "clearError = io_modify (\<lambda>s. s\<lparr>ksv_error := None\<rparr>)"

definition setApiKeys :: "(api_key list \<Rightarrow> api_key list) \<Rightarrow> unit key_act" where
  "setApiKeys f = io_modify (\<lambda>s. s\<lparr>ksv_apiKeys := f (ksv_apiKeys s)\<rparr>)"

definition setRows :: "(api_key_row list \<Rightarrow> api_key_row list) \<Rightarrow> unit key_act" where
  "setRows f = io_modify (\<lambda>s. s\<lparr>ksv_rows := f (ksv_rows s)\<rparr>)"

lemmas key_state_defs [service_defs] =
  ksv_setIsLoading_def clearError_def setApiKeys_def setRows_def

definition key_null_response :: "string \<Rightarrow> 'a key_act" where
  "key_null_response msg = io_then (service_error_toast msg) (handleApiError (JsError msg))"

definition keys_path :: "string \<Rightarrow> string" where
  "keys_path deviceId = ''/devices/'' @ deviceId @ ''/api-keys''"

section \<open>The operations\<close>

text \<open>The per-device list stores \<open>response.data\<close> as it is; the only caller-visible difference of a
  missing list is that the state then holds \<open>null\<close>, kept here as the empty list.\<close>

definition getApiKeys :: "string \<Rightarrow> (thrown + api_key list envelope fetch_result) \<Rightarrow> unit key_act" where
  "getApiKeys deviceId out =
     io_then clearError (io_then (ksv_setIsLoading True) (io_then (setApiKeys (\<lambda>_. []))
     (io_finally
       (io_bind (withApiErrorToast (await_call (mk_request ApiClient GET (keys_path deviceId)) out) True) (\<lambda>r.
          case fr_data r of
            None \<Rightarrow> key_null_response ''list api keys returned a null response''
          | Some response \<Rightarrow> setApiKeys (\<lambda>_. nullish (env_data response) [])))
       (ksv_setIsLoading False))))"

definition getAllApiKeys :: "(thrown + api_key_row list envelope fetch_result) \<Rightarrow> unit key_act" where
  "getAllApiKeys out =
     io_then clearError (io_then (ksv_setIsLoading True) (io_then (setRows (\<lambda>_. []))
     (io_finally
       (io_bind (withApiErrorToast (await_call (mk_request ApiClient GET ''/api-keys'') out) True) (\<lambda>r.
          case Option.bind (fr_data r) env_data of
            None \<Rightarrow> key_null_response ''list api keys returned a null response''
          | Some rows \<Rightarrow> setRows (\<lambda>_. rows)))
       (ksv_setIsLoading False))))"

definition key_metadata :: "create_api_key_response \<Rightarrow> api_key" where
  "key_metadata c = \<lparr>k_id = ck_id c, k_created_at = ck_created_at c, k_last_used_at = None, k_expires_at = None\<rparr>"

definition save_key_toast :: toast_body where
  "save_key_toast = mk_toast ToastWarning ''Save this key now''
     ''The API key is shown only once. Copy it and flash it onto the device firmware -- it cannot be retrieved later.''"

definition conflict_toast :: toast_body where
  "conflict_toast = mk_toast ToastError ''Device already has a key''
     ''This device already has an active API key. Revoke the existing one before issuing a new key.''"

definition issueApiKey ::
  "string \<Rightarrow> (thrown + create_api_key_response envelope fetch_result) \<Rightarrow> create_api_key_response option key_act" where
  "issueApiKey deviceId out =
     io_then (ksv_setIsLoading True) (io_then clearError
     (io_finally
       (io_catch
         (io_bind (withApiErrorToast (await_call (mk_request ApiClient POST (keys_path deviceId)) out) True) (\<lambda>r.
            case Option.bind (fr_data r) env_data of
              None \<Rightarrow> key_null_response ''issue api key returned a null response''
            | Some created \<Rightarrow>
                io_then (setApiKeys (\<lambda>prev. key_metadata created # prev))
                (io_bind (toast_push save_key_toast) (\<lambda>_. io_return (Some created)))))
         (\<lambda>err. if isApiError err \<and> err_status (the_api_error err) = 409
                then io_bind (toast_push conflict_toast) (\<lambda>_. io_return None)
                else io_throw err))
       (ksv_setIsLoading False)))"

definition revokeApiKey :: "string \<Rightarrow> string \<Rightarrow> (thrown + 'b fetch_result) \<Rightarrow> unit key_act" where
  "revokeApiKey deviceId keyId out =
     io_then (ksv_setIsLoading True) (io_then clearError
     (io_finally
       (io_bind (withApiErrorToast
          (await_call (mk_request ApiClient DELETE (keys_path deviceId @ ''/'' @ keyId)) out) True) (\<lambda>_.
          io_then (setApiKeys (drop_key k_id keyId)) (setRows (drop_key kr_id keyId))))
       (ksv_setIsLoading False)))"

section \<open>Lemmas\<close>

lemma key_null_response_eq [io_simps]:
  "key_null_response msg s = (Inl (ApiObj (mk_api_error 0 msg)), pushed (mk_toast ToastError ''Error'' msg) s)"
  by (simp add: key_null_response_def io_simps)

lemma ksv_pushed [simp]:
  "ksv_apiKeys (pushed b s) = ksv_apiKeys s" "ksv_rows (pushed b s) = ksv_rows s"
  "ksv_isLoading (pushed b s) = ksv_isLoading s" "ksv_error (pushed b s) = ksv_error s"
  by (simp_all add: pushed_def)

lemma ksv_sent [simp]:
  "ksv_apiKeys (sent rq s) = ksv_apiKeys s" "ksv_rows (sent rq s) = ksv_rows s"
  "ksv_isLoading (sent rq s) = ksv_isLoading s" "ksv_error (sent rq s) = ksv_error s"
  by (simp_all add: sent_def)

lemma ksv_set_loading [simp]:
  "ksv_apiKeys (set_ksv_loading b s) = ksv_apiKeys s" "ksv_rows (set_ksv_loading b s) = ksv_rows s"
  "ksv_isLoading (set_ksv_loading b s) = b" "ksv_error (set_ksv_loading b s) = ksv_error s"
  "w_toasts (set_ksv_loading b s) = w_toasts s"
  by (simp_all add: set_ksv_loading_def)

section \<open>Properties\<close>

text \<open>The plain key never enters the state: two responses that differ only in the secret lead
  to the same state, toasts and requests included; only the returned value tells them apart.\<close>

theorem plain_key_not_stored:
  assumes "ck_id c = ck_id c'" "ck_created_at c = ck_created_at c'"
    and "env_data env = Some c" "env_data env' = Some c'"
  shows "snd (issueApiKey d (fetched env) s) = snd (issueApiKey d (fetched env') s) \<and>
    fst (issueApiKey d (fetched env) s) = Inr (Some c) \<and>
    ksv_apiKeys (snd (issueApiKey d (fetched env) s)) = key_metadata c # ksv_apiKeys s"
  using assms by (simp add: issueApiKey_def fetched_def io_simps service_defs key_metadata_def)

definition sample_key :: "string \<Rightarrow> create_api_key_response" where
  "sample_key plain = \<lparr>ck_id = ''k1'', ck_created_at = ''2026-01-01T00:00:00Z'', ck_plain_key = plain\<rparr>"

definition keys_state :: "api_key list \<Rightarrow> api_key_row list \<Rightarrow> key_service" where
  "keys_state ks rs = world.extend initial_world
     \<lparr>ksv_isLoading = False, ksv_error = None, ksv_apiKeys = ks, ksv_rows = rs\<rparr>"

definition key_envelope :: "create_api_key_response \<Rightarrow> create_api_key_response envelope" where
  "key_envelope c = \<lparr>env_status_code = 201, env_message = ''created'', env_data = Some c\<rparr>"

theorem plain_key_not_stored_witness:
  "snd (issueApiKey ''d'' (fetched (key_envelope (sample_key ''secret''))) (keys_state [] [])) =
   snd (issueApiKey ''d'' (fetched (key_envelope (sample_key ''other''))) (keys_state [] []))"
  using plain_key_not_stored [of "sample_key ''secret''" "sample_key ''other''"
      "key_envelope (sample_key ''secret'')" "key_envelope (sample_key ''other'')" "''d''" "keys_state [] []"]
  by (simp add: sample_key_def key_envelope_def)

text \<open>Issuing a key for a device that already has one (an error of status 409) resolves to
  \<open>null\<close> with a dedicated toast after the generic one; every other failure is thrown. Neither
  changes the cached keys, and the loading flag ends off.\<close>

theorem issueApiKey_failures:
  "let r = issueApiKey d (Inl e) s in
     fst r = (if err_status (toError e) = 409 then Inr None else Inl (ApiObj (toError e))) \<and>
     ksv_apiKeys (snd r) = ksv_apiKeys s \<and> \<not> ksv_isLoading (snd r) \<and>
     t_title (last (w_toasts (snd r))) =
       (if err_status (toError e) = 409 then ''Device already has a key'' else titleForStatus (err_status (toError e)))"
  by (simp add: Let_def issueApiKey_def io_simps service_defs conflict_toast_def error_toast_def mk_toast_def
      toasts_pushed)

text \<open>Revoking a key drops it from both cached lists and nothing else from either; doing it
  twice is the same as doing it once. A failed revocation changes neither list.\<close>

theorem revokeApiKey_effect:
  "let s1 = snd (revokeApiKey d k (Inr r) s); s2 = snd (revokeApiKey d k (Inr r') s1);
       f = snd (revokeApiKey d k (Inl e) s) in
     ksv_apiKeys s1 = filter (\<lambda>x. k_id x \<noteq> k) (ksv_apiKeys s) \<and>
     ksv_rows s1 = filter (\<lambda>x. kr_id x \<noteq> k) (ksv_rows s) \<and>
     ksv_apiKeys s2 = ksv_apiKeys s1 \<and> ksv_rows s2 = ksv_rows s1 \<and>
     ksv_apiKeys f = ksv_apiKeys s \<and> ksv_rows f = ksv_rows s \<and>
     \<not> ksv_isLoading s1 \<and> \<not> ksv_isLoading f"
  by (simp add: Let_def revokeApiKey_def io_simps service_defs drop_key_def)

end
