(* ===== verification/Routes.thy ===== *)
theory Routes
  imports JsTime ApiTypes "HOL-Library.Sublist"
begin

text \<open>
  Routes on the map (\<open>lib/location-utils.ts\<close>, \<open>lib/map-utils.ts\<close>): splitting a route where
  the device missed reports, thinning a segment before it is drawn, the key that decides
  whether the drawn line is rebuilt, and the projection of the static map.
\<close>

definition LIVE_ROUTE_GAP_THRESHOLD_MS :: number where
  "LIVE_ROUTE_GAP_THRESHOLD_MS = Fin (5 * 60 * 1000)"

definition MAP_MAX_ACCURACY_M :: number where "MAP_MAX_ACCURACY_M = Fin 20"
definition MAP_MIN_DELTA_DEG :: number where "MAP_MIN_DELTA_DEG = Fin (9 / 1000000)"
definition MAP_PROJECTION_LAT_MIN :: real where "MAP_PROJECTION_LAT_MIN = - 60"
definition MAP_PROJECTION_LAT_MAX :: real where "MAP_PROJECTION_LAT_MAX = 75"
definition MAP_PROJECTION_LONGITUDE_OFFSET :: real where "MAP_PROJECTION_LONGITUDE_OFFSET = 180"
definition MAP_PROJECTION_LONGITUDE_RANGE :: real where "MAP_PROJECTION_LONGITUDE_RANGE = 360"
definition MAP_PROJECTION_GRID_SIZE :: real where "MAP_PROJECTION_GRID_SIZE = 100"
definition MAP_COORDINATE_DECIMALS :: nat where "MAP_COORDINATE_DECIMALS = 4"

lemmas map_constants =
  MAP_PROJECTION_LAT_MIN_def MAP_PROJECTION_LAT_MAX_def MAP_PROJECTION_LONGITUDE_OFFSET_def
  MAP_PROJECTION_LONGITUDE_RANGE_def MAP_PROJECTION_GRID_SIZE_def MAP_COORDINATE_DECIMALS_def

section \<open>splitLocationRoute\<close>

definition long_gap :: "(string \<Rightarrow> number) \<Rightarrow> number \<Rightarrow> location_point \<Rightarrow> location_point \<Rightarrow> bool" where
  "long_gap getTime gapThresholdMs prev cur \<longleftrightarrow>
     num_leq gapThresholdMs (num_sub (getTime (lp_recorded_at cur)) (getTime (lp_recorded_at prev)))"

definition push_last :: "'a list list \<Rightarrow> 'a \<Rightarrow> 'a list list" where
  "push_last segs x = butlast segs @ [last segs @ [x]]"

fun split_loop ::
  "(string \<Rightarrow> number) \<Rightarrow> number \<Rightarrow> location_point \<Rightarrow> location_point list \<Rightarrow> location_point list list \<Rightarrow>
   location_point list list" where
  "split_loop getTime thr prev [] segs = segs"
| "split_loop getTime thr prev (c # cs) segs =
     split_loop getTime thr c cs (push_last (if long_gap getTime thr prev c then segs @ [[]] else segs) c)"

definition splitLocationRoute ::
  "(string \<Rightarrow> number) \<Rightarrow> location_point list \<Rightarrow> number \<Rightarrow> location_point list list" where
  "splitLocationRoute getTime points gapThresholdMs =
     (case js_sort (by_time getTime lp_recorded_at) points of
        [] \<Rightarrow> []
      | p # ps \<Rightarrow> filter (\<lambda>seg. 1 < length seg) (split_loop getTime gapThresholdMs p ps [[p]]))"

text \<open>A list cut at the gaps: no gap inside a part, a gap between any two neighbours.\<close>

definition cut_at :: "('a \<Rightarrow> 'a \<Rightarrow> bool) \<Rightarrow> 'a list list \<Rightarrow> bool" where
  "cut_at gap segs \<longleftrightarrow>
     (\<forall>s \<in> set segs. s \<noteq> [] \<and> successively (\<lambda>a b. \<not> gap a b) s) \<and>
     successively (\<lambda>s t. gap (last s) (hd t)) segs"

lemma cut_at_new_part:
  "cut_at gap (us @ [u]) \<Longrightarrow> gap (last u) c \<Longrightarrow> cut_at gap (us @ [u, [c]])"
  by (auto simp: cut_at_def successively_append_iff)

lemma cut_at_same_part:
  "cut_at gap (us @ [u]) \<Longrightarrow> \<not> gap (last u) c \<Longrightarrow> cut_at gap (us @ [u @ [c]])"
  by (auto simp: cut_at_def successively_append_iff)

lemma split_loop_cut:
  assumes "cut_at (long_gap getTime thr) (us @ [u])" "last u = prev"
  shows "cut_at (long_gap getTime thr) (split_loop getTime thr prev cs (us @ [u])) \<and>
    concat (split_loop getTime thr prev cs (us @ [u])) = concat (us @ [u]) @ cs"
  using assms
proof (induction cs arbitrary: prev us u)
  case (Cons c cs)
  show ?case
  proof (cases "long_gap getTime thr prev c")
    case True
    with Cons.prems have "cut_at (long_gap getTime thr) ((us @ [u]) @ [[c]])"
      using cut_at_new_part [of "long_gap getTime thr" us u c] by simp
    from Cons.IH [OF this] True show ?thesis by (simp add: push_last_def butlast_append)
  next
    case False
    with Cons.prems have "cut_at (long_gap getTime thr) (us @ [u @ [c]])"
      using cut_at_same_part [of "long_gap getTime thr" us u c] by simp
    from Cons.IH [OF this] False show ?thesis by (simp add: push_last_def)
  qed
qed simp

lemma split_segments:
  "\<exists>segs. splitLocationRoute getTime points thr = filter (\<lambda>seg. 1 < length seg) segs \<and>
     concat segs = js_sort (by_time getTime lp_recorded_at) points \<and> cut_at (long_gap getTime thr) segs"
proof (cases "js_sort (by_time getTime lp_recorded_at) points")
  case Nil
  then show ?thesis by (intro exI [of _ "[]"]) (simp add: splitLocationRoute_def cut_at_def)
next
  case (Cons p ps)
  have "cut_at (long_gap getTime thr) ([] @ [[p]])" by (simp add: cut_at_def)
  from split_loop_cut [OF this, of p ps] Cons show ?thesis
    by (intro exI [of _ "split_loop getTime thr p ps [[p]]"]) (simp add: splitLocationRoute_def)
qed

text \<open>C12: Splitting a route whose times can be read: the points are put in time order (a
  permutation of the input), cut exactly where two neighbours are at least the threshold apart,
  and the parts of two or more points are returned, in order; no other point is lost.\<close>

theorem splitLocationRoute_cuts:
  assumes "\<forall>p \<in> set points. is_finite (getTime (lp_recorded_at p))"
  shows "\<exists>segs. splitLocationRoute getTime points (Fin thr) = filter (\<lambda>seg. 1 < length seg) segs \<and>
    mset (concat segs) = mset points \<and>
    sorted (map (\<lambda>p. real_part (getTime (lp_recorded_at p))) (concat segs)) \<and>
    (\<forall>s \<in> set segs. s \<noteq> [] \<and>
       successively (\<lambda>a b. real_part (getTime (lp_recorded_at b)) - real_part (getTime (lp_recorded_at a)) < thr) s) \<and>
    successively (\<lambda>s t. thr \<le> real_part (getTime (lp_recorded_at (hd t))) - real_part (getTime (lp_recorded_at (last s)))) segs"
proof -
  let ?t = "\<lambda>p. real_part (getTime (lp_recorded_at p))"
  from split_segments obtain segs where
      s: "splitLocationRoute getTime points (Fin thr) = filter (\<lambda>seg. 1 < length seg) segs"
        "concat segs = js_sort (by_time getTime lp_recorded_at) points" "cut_at (long_gap getTime (Fin thr)) segs"
    by blast
  have sub: "set (concat segs) \<subseteq> set points" using s(2) by simp
  have gap: "long_gap getTime (Fin thr) a b \<longleftrightarrow> thr \<le> ?t b - ?t a" if "a \<in> set (concat segs)" "b \<in> set (concat segs)" for a b
    using that assms sub by (cases "getTime (lp_recorded_at a)"; cases "getTime (lp_recorded_at b)")
      (force simp: long_gap_def num_sub_def)+
  have inside: "s \<noteq> [] \<and> successively (\<lambda>a b. ?t b - ?t a < thr) s" if "s \<in> set segs" for s
  proof -
    from s(3) that have "s \<noteq> []" "successively (\<lambda>a b. \<not> long_gap getTime (Fin thr) a b) s"
      by (auto simp: cut_at_def)
    moreover have "\<And>a. a \<in> set s \<Longrightarrow> a \<in> set (concat segs)" using that by auto
    ultimately show ?thesis by (auto simp: gap not_le elim!: successively_mono)
  qed
  have "successively (\<lambda>a b. thr \<le> ?t (hd b) - ?t (last a)) segs"
  proof (rule successively_mono)
    show "successively (\<lambda>s t. long_gap getTime (Fin thr) (last s) (hd t)) segs"
      using s(3) by (simp add: cut_at_def)
  next
    fix a b assume ab: "a \<in> set segs" "b \<in> set segs" "long_gap getTime (Fin thr) (last a) (hd b)"
    then have "last a \<in> set a" "hd b \<in> set b" using inside by auto
    then have "last a \<in> set (concat segs)" "hd b \<in> set (concat segs)" using ab by auto
    with ab(3) gap show "thr \<le> ?t (hd b) - ?t (last a)" by blast
  qed
  moreover have "mset (concat segs) = mset points" using s(2) by simp
  moreover have "sorted (map ?t (concat segs))"
    unfolding s(2) using sort_by_time_sorted [of points getTime lp_recorded_at] assms by simp
  ultimately show ?thesis using s(1) inside by blast
qed

definition minute :: "string \<Rightarrow> number" where
  "minute s = Fin (60000 * real (str_nat s))"

definition at_minute :: "string \<Rightarrow> location_point" where
  "at_minute r = \<lparr>lp_device_id = ''d'', lp_recorded_at = r, lp_latitude = Fin 0, lp_longitude = Fin 0,
     lp_altitude = None, lp_speed = None, lp_accuracy = None, lp_battery_voltage = None, lp_signal_strength = None\<rparr>"

theorem splitLocationRoute_cuts_witness:
  "\<exists>segs. splitLocationRoute minute (map at_minute [''9'', ''1'', ''2'']) (Fin 300000) = filter (\<lambda>seg. 1 < length seg) segs \<and>
    mset (concat segs) = mset (map at_minute [''9'', ''1'', ''2''])"
proof -
  have f: "\<forall>p \<in> set (map at_minute [''9'', ''1'', ''2'']). is_finite (minute (lp_recorded_at p))"
    by (simp add: minute_def)
  show ?thesis using splitLocationRoute_cuts [OF f, of 300000] by blast
qed

section \<open>processSegment\<close>

type_synonym lng_lat = "number \<times> number"

definition getDeltaDistance :: "lng_lat \<Rightarrow> lng_lat \<Rightarrow> number" where
  "getDeltaDistance a b =
     (let dLng = num_sub (fst a) (fst b); dLat = num_sub (snd a) (snd b)
      in num_sqrt (num_add (num_mul dLng dLng) (num_mul dLat dLat)))"

definition bad_accuracy :: "location_point \<Rightarrow> bool" where
  "bad_accuracy p = (case lp_accuracy p of None \<Rightarrow> False | Some a \<Rightarrow> num_less MAP_MAX_ACCURACY_M a)"

definition coord_of :: "location_point \<Rightarrow> lng_lat" where
  "coord_of p = (lp_longitude p, lp_latitude p)"

definition too_close :: "lng_lat \<Rightarrow> lng_lat \<Rightarrow> bool" where
  "too_close a b \<longleftrightarrow> num_less (getDeltaDistance a b) MAP_MIN_DELTA_DEG"

fun process_loop :: "lng_lat option \<Rightarrow> location_point list \<Rightarrow> lng_lat list" where
  "process_loop prev [] = []"
| "process_loop prev (p # ps) =
     (if bad_accuracy p then process_loop prev ps
      else if (case prev of None \<Rightarrow> False | Some l \<Rightarrow> too_close l (coord_of p)) then process_loop prev ps
      else coord_of p # process_loop (Some (coord_of p)) ps)"

definition processSegment :: "location_point list \<Rightarrow> lng_lat list option" where
  "processSegment segment =
     (let coords = process_loop None segment in if 2 \<le> length coords then Some coords else None)"

lemma process_loop_subseq:
  "subseq (process_loop prev ps) (map coord_of (filter (\<lambda>p. \<not> bad_accuracy p) ps))"
  by (induction prev ps rule: process_loop.induct) auto

lemma process_loop_spaced:
  "successively (\<lambda>a b. \<not> too_close a b) (process_loop prev ps) \<and>
   (case prev of None \<Rightarrow> True | Some l \<Rightarrow> (\<forall>c cs. process_loop prev ps = c # cs \<longrightarrow> \<not> too_close l c))"
proof (induction prev ps rule: process_loop.induct)
  case (2 prev p ps)
  show ?case
  proof (cases "bad_accuracy p \<or> (case prev of None \<Rightarrow> False | Some l \<Rightarrow> too_close l (coord_of p))")
    case True
    with 2 show ?thesis by (cases prev) auto
  next
    case False
    with 2(3) show ?thesis
      by (cases prev; cases "process_loop (Some (coord_of p)) ps") auto
  qed
qed (simp split: option.split)

lemma process_loop_covers:
  "p \<in> set ps \<Longrightarrow> \<not> bad_accuracy p \<Longrightarrow>
   \<exists>c \<in> set_option prev \<union> set (process_loop prev ps). c = coord_of p \<or> too_close c (coord_of p)"
proof (induction prev ps rule: process_loop.induct)
  case (2 prev q qs)
  show ?case
  proof (cases "bad_accuracy q \<or> (case prev of None \<Rightarrow> False | Some l \<Rightarrow> too_close l (coord_of q))")
    case True
    with 2 show ?thesis by (cases "p = q"; cases prev) auto
  next
    case False
    with 2 show ?thesis by (cases "p = q"; cases prev) auto
  qed
qed simp

text \<open>The two tests in plain numbers: an accuracy of at most 20 metres, or none reported; two coordinates on the map less
  than nine millionths of a degree (a metre) apart.\<close>

definition usable_fix :: "location_point \<Rightarrow> bool" where
  "usable_fix p = (case lp_accuracy p of Some (Fin a) \<Rightarrow> a \<le> 20 | Some PosInf \<Rightarrow> False | _ \<Rightarrow> True)"

definition within_metre :: "lng_lat \<Rightarrow> lng_lat \<Rightarrow> bool" where
  "within_metre a b =
     (case (a, b) of
        ((Fin x, Fin y), (Fin x', Fin y')) \<Rightarrow> sqrt ((x - x')\<^sup>2 + (y - y')\<^sup>2) < 9 / 1000000
      | _ \<Rightarrow> False)"

lemma bad_accuracy_usable: "bad_accuracy p \<longleftrightarrow> \<not> usable_fix p"
  by (auto simp: bad_accuracy_def usable_fix_def MAP_MAX_ACCURACY_M_def split: option.split number.split)

lemma coord_of_pair: "coord_of = (\<lambda>p. (lp_longitude p, lp_latitude p))"
  by (simp add: coord_of_def fun_eq_iff)

lemma too_close_within: "too_close a b \<longleftrightarrow> within_metre a b"
proof -
  obtain x y x' y' where "a = (x, y)" "b = (x', y')" by fastforce
  moreover have "\<not> u * u + v * v < 0" for u v :: real by (simp add: not_less)
  ultimately show ?thesis
    by (cases x; cases x'; cases y; cases y')
      (simp_all add: too_close_def within_metre_def getDeltaDistance_def MAP_MIN_DELTA_DEG_def num_sub_def Let_def power2_eq_square)
qed

text \<open>C18: What is drawn of a segment: a subsequence, in order, of the longitude and latitude of its points with a
  usable accuracy (20 m or better, or not reported), in which two neighbours are never closer than
  the minimum distance (nine millionths of a degree); every usable point is one of them or lies within that distance of one; and
  nothing is drawn exactly when fewer than two are left.\<close>

theorem processSegment_thins:
  "\<exists>kept. processSegment segment = (if 2 \<le> length kept then Some kept else None) \<and>
     subseq kept (map (\<lambda>p. (lp_longitude p, lp_latitude p)) (filter usable_fix segment)) \<and>
     successively (\<lambda>a b. \<not> within_metre a b) kept \<and>
     list_all (\<lambda>p. list_ex (\<lambda>c. c = (lp_longitude p, lp_latitude p) \<or> within_metre c (lp_longitude p, lp_latitude p)) kept)
       (filter usable_fix segment)"
  using process_loop_subseq [of None segment] process_loop_spaced [of None segment]
    process_loop_covers [of _ segment None]
  by (intro exI [of _ "process_loop None segment"])
    (auto simp: processSegment_def Let_def list_all_iff list_ex_iff bad_accuracy_usable too_close_within coord_of_pair)

section \<open>buildRouteKey\<close>

definition segment_key :: "location_point list \<Rightarrow> string" where
  "segment_key s =
     (case s of [] \<Rightarrow> [] | p # _ \<Rightarrow> lp_recorded_at p) @ ''~'' @ (case s of [] \<Rightarrow> [] | _ # _ \<Rightarrow> lp_recorded_at (last s))"

definition buildRouteKey :: "location_point list list \<Rightarrow> string" where
  "buildRouteKey segments = join_with ''|'' (map segment_key segments)"

definition end_times :: "location_point list \<Rightarrow> string \<times> string" where
  "end_times s = (lp_recorded_at (hd s), lp_recorded_at (last s))"

definition plain_times :: "location_point list \<Rightarrow> bool" where
  "plain_times s \<longleftrightarrow> s \<noteq> [] \<and> (\<forall>p \<in> set s. CHR ''~'' \<notin> set (lp_recorded_at p) \<and> CHR ''|'' \<notin> set (lp_recorded_at p))"

lemma segment_key_ends: "plain_times s \<Longrightarrow> segment_key s = fst (end_times s) @ ''~'' @ snd (end_times s)"
  by (cases s) (auto simp: segment_key_def end_times_def plain_times_def)

lemma end_times_plain:
  "plain_times s \<Longrightarrow> CHR ''~'' \<notin> set (fst (end_times s)) \<and> CHR ''|'' \<notin> set (fst (end_times s)) \<and>
     CHR ''~'' \<notin> set (snd (end_times s)) \<and> CHR ''|'' \<notin> set (snd (end_times s))"
  by (auto simp: plain_times_def end_times_def)

lemma segment_key_inject:
  assumes "plain_times s" "plain_times t" "segment_key s = segment_key t"
  shows "end_times s = end_times t"
proof -
  have "split_char (CHR ''~'') (segment_key u) = [fst (end_times u), snd (end_times u)]" if "plain_times u" for u
    using end_times_plain [OF that] by (simp add: segment_key_ends [OF that] split_char_append split_char_single)
  from this [OF assms(1)] this [OF assms(2)] assms(3) show ?thesis by (simp add: prod_eq_iff)
qed

text \<open>The key of a drawn route tells two routes with readable times apart exactly by the first and
  last time of each segment: a change of those rebuilds the line, a change of a middle point does
  not.\<close>

theorem buildRouteKey_endpoints:
  assumes "\<forall>s \<in> set xs \<union> set ys. plain_times s" and "xs \<noteq> []" and "ys \<noteq> []"
  shows "buildRouteKey xs = buildRouteKey ys \<longleftrightarrow> map end_times xs = map end_times ys"
proof
  assume eq: "buildRouteKey xs = buildRouteKey ys"
  have split: "split_char (CHR ''|'') (buildRouteKey zs) = map segment_key zs"
    if "zs \<noteq> []" "\<forall>s \<in> set zs. plain_times s" for zs
    unfolding buildRouteKey_def using that end_times_plain
    by (intro split_join_char) (auto simp: segment_key_ends)
  have keys: "map segment_key xs = map segment_key ys"
    using split [of xs] split [of ys] assms eq by auto
  then show "map end_times xs = map end_times ys"
    using assms(1) segment_key_inject by (intro nth_equalityI) (auto simp: list_eq_iff_nth_eq)
next
  assume eq: "map end_times xs = map end_times ys"
  have "map segment_key xs = map segment_key ys"
    using eq assms(1) by (auto simp: list_eq_iff_nth_eq segment_key_ends)
  then show "buildRouteKey xs = buildRouteKey ys" by (simp add: buildRouteKey_def)
qed

theorem buildRouteKey_endpoints_witness:
  "buildRouteKey [map at_minute [''1'', ''2'', ''4'']] = buildRouteKey [map at_minute [''1'', ''3'', ''4'']]"
  by (subst buildRouteKey_endpoints) (simp_all add: plain_times_def at_minute_def end_times_def)

section \<open>The static map\<close>

record coordinate =
  co_x :: number
  co_y :: number

definition to_grid :: "number \<Rightarrow> number" where
  "to_grid x = num_max (Fin 0) (num_min (Fin MAP_PROJECTION_GRID_SIZE) x)"

definition projectCoordinate :: "number \<Rightarrow> number \<Rightarrow> coordinate" where
  "projectCoordinate lat lng =
     \<lparr>co_x = to_grid (num_mul (num_div_const (num_add lng (Fin MAP_PROJECTION_LONGITUDE_OFFSET))
                 MAP_PROJECTION_LONGITUDE_RANGE) (Fin MAP_PROJECTION_GRID_SIZE)),
      co_y = to_grid (num_mul (num_div_const (num_sub (Fin MAP_PROJECTION_LAT_MAX) lat)
                 (MAP_PROJECTION_LAT_MAX - MAP_PROJECTION_LAT_MIN)) (Fin MAP_PROJECTION_GRID_SIZE))\<rparr>"

definition degree_sign :: string where "degree_sign = [CHR 0xB0]"

definition formatCoords :: "(number \<Rightarrow> string) \<Rightarrow> number \<Rightarrow> number \<Rightarrow> string" where
  "formatCoords ns lat lng =
     to_fixed ns MAP_COORDINATE_DECIMALS (num_abs lat) @ degree_sign @ '' '' @ (if num_leq (Fin 0) lat then ''N'' else ''S'') @
     '', '' @
     to_fixed ns MAP_COORDINATE_DECIMALS (num_abs lng) @ degree_sign @ '' '' @ (if num_leq (Fin 0) lng then ''E'' else ''W'')"

record route_point =
  rp_lat :: number
  rp_lng :: number

definition path_step :: "(number \<Rightarrow> string) \<Rightarrow> nat \<Rightarrow> route_point \<Rightarrow> string" where
  "path_step ns i p =
     (let c = projectCoordinate (rp_lat p) (rp_lng p)
      in (if i = 0 then ''M'' else ''L'') @ to_fixed ns 2 (co_x c) @ '','' @ to_fixed ns 2 (co_y c))"

definition getPathFromRoute :: "(number \<Rightarrow> string) \<Rightarrow> route_point list \<Rightarrow> string" where
  "getPathFromRoute ns route =
     (if length route = 0 then []
      else join_with '' '' (map (\<lambda>(i, p). path_step ns i p) (enumerate 0 route)))"

lemma to_grid_range: "x \<noteq> NaN \<Longrightarrow> \<exists>r. to_grid x = Fin r \<and> 0 \<le> r \<and> r \<le> 100"
  using num_clamp_range [of "Fin 0" "Fin 100" x]
  by (cases "num_max (Fin 0) (num_min (Fin 100) x)") (auto simp: to_grid_def map_constants)

text \<open>A position that is a number (infinite or off the map included) is projected into the 100 by
  100 grid; the whole longitude range maps to the width linearly, latitudes between 60 south and 75
  north map to the height linearly with north on top, and latitudes beyond are drawn at the edge.\<close>

theorem projectCoordinate_in_grid:
  assumes "lat \<noteq> NaN" and "lng \<noteq> NaN"
  shows "\<exists>x y. projectCoordinate lat lng = \<lparr>co_x = Fin x, co_y = Fin y\<rparr> \<and> 0 \<le> x \<and> x \<le> 100 \<and> 0 \<le> y \<and> y \<le> 100 \<and>
    (\<forall>a. lng = Fin a \<and> - 180 \<le> a \<and> a \<le> 180 \<longrightarrow> x = (a + 180) / 360 * 100) \<and>
    (\<forall>a. lat = Fin a \<longrightarrow> y = (if a > 75 then 0 else if a < - 60 then 100 else (75 - a) / 135 * 100))"
proof -
  have "num_mul (num_div_const (num_add lng (Fin 180)) 360) (Fin 100) \<noteq> NaN"
    using assms by (cases lng) (simp_all add: num_div_const_def signed_inf_def)
  from to_grid_range [OF this] obtain x where
    x: "to_grid (num_mul (num_div_const (num_add lng (Fin 180)) 360) (Fin 100)) = Fin x" "0 \<le> x" "x \<le> 100" by blast
  have "num_mul (num_div_const (num_sub (Fin 75) lat) 135) (Fin 100) \<noteq> NaN"
    using assms by (cases lat) (simp_all add: num_div_const_def num_sub_def signed_inf_def)
  from to_grid_range [OF this] obtain y where
    y: "to_grid (num_mul (num_div_const (num_sub (Fin 75) lat) 135) (Fin 100)) = Fin y" "0 \<le> y" "y \<le> 100" by blast
  have "x = (a + 180) / 360 * 100" if "lng = Fin a" "- 180 \<le> a" "a \<le> 180" for a
    using x that by (auto simp: to_grid_def num_max_def num_min_def num_div_const_def map_constants split: if_splits)
  moreover have "y = (if a > 75 then 0 else if a < - 60 then 100 else (75 - a) / 135 * 100)" if "lat = Fin a" for a
    using y that by (auto simp: to_grid_def num_max_def num_min_def num_div_const_def num_sub_def map_constants split: if_splits)
  ultimately show ?thesis using x y
    by (intro exI [of _ x] exI [of _ y]) (simp add: projectCoordinate_def map_constants)
qed

theorem projectCoordinate_in_grid_witness:
  "projectCoordinate (Fin 75) (Fin 0) = \<lparr>co_x = Fin 50, co_y = Fin 0\<rparr>"
  using projectCoordinate_in_grid [of "Fin 75" "Fin 0"] by auto

end
