(* ===== verification/Settings.thy ===== *)
theory Settings
  imports JsValues
begin

text \<open>
  Browser-local preferences: the types (\<open>types/settings.ts\<close>), the sanitizer and the storage
  functions (\<open>lib/settings.ts\<close>) and the store (\<open>lib/stores/settings.ts\<close>). What the browser
  decides is the record \<open>browser\<close>: the window, the media query, \<open>Intl\<close>, the storage and
  \<open>JSON\<close>.
\<close>

section \<open>Types\<close>

datatype sidebar_initial_state = Expanded | Collapsed
datatype history_range = Range1h | Range6h | Range24h | Range7d
datatype landing_page = LandingDashboard | LandingDevices
datatype table_density = Comfortable | Compact
datatype unit_system = Metric | Imperial
datatype time_format = Format12h | Format24h

record local_settings =
  pref_sidebarInitialState :: sidebar_initial_state
  pref_reduceMotion :: bool
  pref_defaultHistoryRange :: history_range
  pref_landingPage :: landing_page
  pref_tableDensity :: table_density
  pref_timeZone :: string
  pref_unitSystem :: unit_system
  pref_timeFormat :: time_format

definition SIDEBAR_VALUES :: "(string \<times> sidebar_initial_state) list" where
  "SIDEBAR_VALUES = [(''collapsed'', Collapsed), (''expanded'', Expanded)]"

definition SETTINGS_HISTORY_RANGES :: "(string \<times> history_range) list" where
  "SETTINGS_HISTORY_RANGES = [(''1h'', Range1h), (''6h'', Range6h), (''24h'', Range24h), (''7d'', Range7d)]"

definition SETTINGS_LANDING_PAGES :: "(string \<times> landing_page) list" where
  "SETTINGS_LANDING_PAGES = [(''dashboard'', LandingDashboard), (''devices'', LandingDevices)]"

definition DENSITY_VALUES :: "(string \<times> table_density) list" where
  "DENSITY_VALUES = [(''comfortable'', Comfortable), (''compact'', Compact)]"

definition UNIT_VALUES :: "(string \<times> unit_system) list" where
  "UNIT_VALUES = [(''metric'', Metric), (''imperial'', Imperial)]"

definition TIME_FORMAT_VALUES :: "(string \<times> time_format) list" where
  "TIME_FORMAT_VALUES = [(''12h'', Format12h), (''24h'', Format24h)]"

lemmas settings_values =
  SIDEBAR_VALUES_def SETTINGS_HISTORY_RANGES_def SETTINGS_LANDING_PAGES_def DENSITY_VALUES_def
  UNIT_VALUES_def TIME_FORMAT_VALUES_def

text \<open>The string a value of a union is.\<close>

definition name_in :: "(string \<times> 'a) list \<Rightarrow> 'a \<Rightarrow> string" where
  "name_in vs x = (case find (\<lambda>p. snd p = x) vs of None \<Rightarrow> [] | Some p \<Rightarrow> fst p)"

definition settings_json :: "local_settings \<Rightarrow> json" where
  "settings_json s = JObject
     [(''sidebarInitialState'', JString (name_in SIDEBAR_VALUES (pref_sidebarInitialState s))),
      (''reduceMotion'', JBool (pref_reduceMotion s)),
      (''defaultHistoryRange'', JString (name_in SETTINGS_HISTORY_RANGES (pref_defaultHistoryRange s))),
      (''landingPage'', JString (name_in SETTINGS_LANDING_PAGES (pref_landingPage s))),
      (''tableDensity'', JString (name_in DENSITY_VALUES (pref_tableDensity s))),
      (''timeZone'', JString (pref_timeZone s)),
      (''unitSystem'', JString (name_in UNIT_VALUES (pref_unitSystem s))),
      (''timeFormat'', JString (name_in TIME_FORMAT_VALUES (pref_timeFormat s)))]"

section \<open>The browser\<close>

text \<open>
  \<open>b_innerWidth\<close> is missing without a window, \<open>b_reducedMotion\<close> without \<open>matchMedia\<close>;
  \<open>b_zone\<close> is the resolved time zone, missing when \<open>Intl\<close> throws; \<open>b_zoneAccepted\<close> says which
  zone names \<open>Intl\<close> takes; \<open>b_storage\<close> says whether the storage exists, and whether reading and
  writing it throws.
\<close>

record storage_access =
  sa_readThrows :: bool
  sa_writeThrows :: bool

record browser =
  b_innerWidth :: "real option"
  b_reducedMotion :: "bool option"
  b_zone :: "string option"
  b_zoneAccepted :: "string \<Rightarrow> bool"
  b_storage :: "storage_access option"
  b_parse :: "string \<Rightarrow> json option"
  b_stringify :: "json \<Rightarrow> string"

definition MOBILE_BREAKPOINT :: real where "MOBILE_BREAKPOINT = 920"

definition getBrowserTimeZone :: "browser \<Rightarrow> string" where
  "getBrowserTimeZone b =
     (case b_zone b of None \<Rightarrow> ''UTC'' | Some z \<Rightarrow> if z = [] then ''UTC'' else z)"

fun isValidTimeZone :: "browser \<Rightarrow> json \<Rightarrow> bool" where
  "isValidTimeZone b (JString z) = (if length z = 0 then False else b_zoneAccepted b z)"
| "isValidTimeZone b _ = False"

definition getDefaultSettings :: "browser \<Rightarrow> local_settings" where
  "getDefaultSettings b =
     (let isMobile = (case b_innerWidth b of None \<Rightarrow> False | Some w \<Rightarrow> w < MOBILE_BREAKPOINT);
          prefersReducedMotion = (b_innerWidth b \<noteq> None \<and> nullish (b_reducedMotion b) False)
      in \<lparr>pref_sidebarInitialState = (if isMobile then Collapsed else Expanded),
          pref_reduceMotion = prefersReducedMotion,
          pref_defaultHistoryRange = Range24h,
          pref_landingPage = LandingDashboard,
          pref_tableDensity = Comfortable,
          pref_timeZone = getBrowserTimeZone b,
          pref_unitSystem = Metric,
          pref_timeFormat = Format24h\<rparr>)"

section \<open>The sanitizer\<close>

definition isSettingValue :: "string \<Rightarrow> string list \<Rightarrow> bool" where
  "isSettingValue v allowedValues = list_ex (\<lambda>a. a = v) allowedValues"

text \<open>One field of a union: the value if it is one of the union's strings, else the default.\<close>

fun one_of :: "(string \<times> 'a) list \<Rightarrow> 'a \<Rightarrow> json \<Rightarrow> 'a" where
  "one_of vs d (JString s) = nullish (map_of vs s) d"
| "one_of vs d _ = d"

definition sanitizeSettings :: "browser \<Rightarrow> json \<Rightarrow> local_settings" where
  "sanitizeSettings b v =
     (let d = getDefaultSettings b
      in if \<not> is_record v then d
         else \<lparr>pref_sidebarInitialState = one_of SIDEBAR_VALUES (pref_sidebarInitialState d) (prop_of ''sidebarInitialState'' v),
               pref_reduceMotion = (case prop_of ''reduceMotion'' v of JBool x \<Rightarrow> x | _ \<Rightarrow> pref_reduceMotion d),
               pref_defaultHistoryRange = one_of SETTINGS_HISTORY_RANGES (pref_defaultHistoryRange d) (prop_of ''defaultHistoryRange'' v),
               pref_landingPage = one_of SETTINGS_LANDING_PAGES (pref_landingPage d) (prop_of ''landingPage'' v),
               pref_tableDensity = one_of DENSITY_VALUES (pref_tableDensity d) (prop_of ''tableDensity'' v),
               pref_timeZone = (if isValidTimeZone b (prop_of ''timeZone'' v) then
                  (case prop_of ''timeZone'' v of JString z \<Rightarrow> z | _ \<Rightarrow> pref_timeZone d) else pref_timeZone d),
               pref_unitSystem = one_of UNIT_VALUES (pref_unitSystem d) (prop_of ''unitSystem'' v),
               pref_timeFormat = one_of TIME_FORMAT_VALUES (pref_timeFormat d) (prop_of ''timeFormat'' v)\<rparr>)"

section \<open>Storage\<close>

text \<open>The stored text, as a state; what a function leaves of it and what it returns.\<close>

definition saveSettingsPreferences :: "browser \<Rightarrow> local_settings \<Rightarrow> string option \<Rightarrow> string option" where
  "saveSettingsPreferences b s stored =
     (case b_storage b of None \<Rightarrow> stored
      | Some a \<Rightarrow> if sa_writeThrows a then stored else Some (b_stringify b (settings_json s)))"

definition readSettingsPreferences :: "browser \<Rightarrow> string option \<Rightarrow> local_settings \<times> string option" where
  "readSettingsPreferences b stored =
     (let defaults = getDefaultSettings b
      in case b_storage b of None \<Rightarrow> (defaults, stored)
         | Some a \<Rightarrow>
             if sa_readThrows a then (defaults, saveSettingsPreferences b defaults stored)
             else (case stored of None \<Rightarrow> (defaults, stored)
               | Some raw \<Rightarrow>
                   (case b_parse b raw of
                      None \<Rightarrow> (defaults, saveSettingsPreferences b defaults stored)
                    | Some v \<Rightarrow>
                        let sanitized = sanitizeSettings b v
                        in (sanitized,
                            if b_stringify b (settings_json sanitized) \<noteq> raw
                            then saveSettingsPreferences b sanitized stored else stored))))"

section \<open>The store\<close>

record settings_store =
  sg_localSettings :: local_settings
  sg_stored :: "string option"

definition load_store :: "browser \<Rightarrow> string option \<Rightarrow> settings_store" where
  "load_store b stored =
     (let r = readSettingsPreferences b stored in \<lparr>sg_localSettings = fst r, sg_stored = snd r\<rparr>)"

datatype setting =
    SidebarInitialState sidebar_initial_state
  | ReduceMotion bool
  | DefaultHistoryRange history_range
  | LandingPage landing_page
  | TableDensity table_density
  | TimeZone string
  | UnitSystem unit_system
  | TimeFormat time_format

text \<open>\<open>{ ...settings, [key]: value }\<close>\<close>

fun with_setting :: "setting \<Rightarrow> local_settings \<Rightarrow> local_settings" where
  "with_setting (SidebarInitialState v) s = s\<lparr>pref_sidebarInitialState := v\<rparr>"
| "with_setting (ReduceMotion v) s = s\<lparr>pref_reduceMotion := v\<rparr>"
| "with_setting (DefaultHistoryRange v) s = s\<lparr>pref_defaultHistoryRange := v\<rparr>"
| "with_setting (LandingPage v) s = s\<lparr>pref_landingPage := v\<rparr>"
| "with_setting (TableDensity v) s = s\<lparr>pref_tableDensity := v\<rparr>"
| "with_setting (TimeZone v) s = s\<lparr>pref_timeZone := v\<rparr>"
| "with_setting (UnitSystem v) s = s\<lparr>pref_unitSystem := v\<rparr>"
| "with_setting (TimeFormat v) s = s\<lparr>pref_timeFormat := v\<rparr>"

definition updateLocalSetting :: "browser \<Rightarrow> setting \<Rightarrow> settings_store \<Rightarrow> settings_store" where
  "updateLocalSetting b kv st =
     (let nxt = sanitizeSettings b (settings_json (with_setting kv (sg_localSettings st)))
      in \<lparr>sg_localSettings = nxt, sg_stored = saveSettingsPreferences b nxt (sg_stored st)\<rparr>)"

definition resetLocalSettings :: "browser \<Rightarrow> settings_store \<Rightarrow> settings_store" where
  "resetLocalSettings b st =
     (let reset = getDefaultSettings b
      in \<lparr>sg_localSettings = reset, sg_stored = saveSettingsPreferences b reset (sg_stored st)\<rparr>)"

section \<open>What holds\<close>

definition zone_ok :: "browser \<Rightarrow> string \<Rightarrow> bool" where
  "zone_ok b z \<longleftrightarrow> isValidTimeZone b (JString z)"

lemma setting_names [simp]:
  "map_of SIDEBAR_VALUES (name_in SIDEBAR_VALUES x1) = Some x1 \<and>
   map_of SETTINGS_HISTORY_RANGES (name_in SETTINGS_HISTORY_RANGES x2) = Some x2 \<and>
   map_of SETTINGS_LANDING_PAGES (name_in SETTINGS_LANDING_PAGES x3) = Some x3 \<and>
   map_of DENSITY_VALUES (name_in DENSITY_VALUES x4) = Some x4 \<and>
   map_of UNIT_VALUES (name_in UNIT_VALUES x5) = Some x5 \<and>
   map_of TIME_FORMAT_VALUES (name_in TIME_FORMAT_VALUES x6) = Some x6"
  by (intro conjI, (cases x1; simp add: settings_values name_in_def),
      (cases x2; simp add: settings_values name_in_def),
      (cases x3; simp add: settings_values name_in_def),
      (cases x4; simp add: settings_values name_in_def),
      (cases x5; simp add: settings_values name_in_def),
      (cases x6; simp add: settings_values name_in_def))

text \<open>Settings whose time zone is not accepted get the default zone; the other fields stay.\<close>

lemma sanitize_settings_json:
  "sanitizeSettings b (settings_json s) =
     (if zone_ok b (pref_timeZone s) then s else s\<lparr>pref_timeZone := getBrowserTimeZone b\<rparr>)"
proof -
  have tz: "pref_timeZone (getDefaultSettings b) = getBrowserTimeZone b"
    by (simp add: getDefaultSettings_def Let_def)
  show ?thesis
    by (cases s) (simp add: sanitizeSettings_def settings_json_def zone_ok_def Let_def tz)
qed

lemma sanitize_zone:
  "zone_ok b (getBrowserTimeZone b) \<Longrightarrow> zone_ok b (pref_timeZone (sanitizeSettings b v))"
  by (auto simp: sanitizeSettings_def getDefaultSettings_def Let_def zone_ok_def split: json.split)

lemma default_zone [simp]: "pref_timeZone (getDefaultSettings b) = getBrowserTimeZone b"
  by (simp add: getDefaultSettings_def Let_def)

text \<open>\<open>JSON\<close> reads back the settings objects it wrote.\<close>

definition json_ok :: "browser \<Rightarrow> bool" where
  "json_ok b \<longleftrightarrow> (\<forall>s. b_parse b (b_stringify b (settings_json s)) = Some (settings_json s))"

lemma read_zone:
  assumes "zone_ok b (getBrowserTimeZone b)"
  shows "zone_ok b (pref_timeZone (fst (readSettingsPreferences b stored)))"
  using assms sanitize_zone [OF assms]
  by (auto simp: readSettingsPreferences_def Let_def split: option.split)

lemma read_written:
  assumes "json_ok b" "zone_ok b (pref_timeZone s)" "b_storage b = Some a" "\<not> sa_readThrows a"
  shows "readSettingsPreferences b (Some (b_stringify b (settings_json s))) = (s, Some (b_stringify b (settings_json s)))"
  using assms by (simp add: readSettingsPreferences_def json_ok_def Let_def sanitize_settings_json)

text \<open>Reading again what a reading left stored gives the same.\<close>

lemma reread:
  assumes "json_ok b" "zone_ok b (pref_timeZone s)" and read: "readSettingsPreferences b stored = (s, stored')"
  shows "readSettingsPreferences b stored' = (s, stored')"
proof (cases "stored' = stored")
  case True
  with read show ?thesis by simp
next
  case False
  with read obtain a where a: "b_storage b = Some a" "\<not> sa_writeThrows a"
      "stored' = Some (b_stringify b (settings_json s))"
    by (auto simp: readSettingsPreferences_def saveSettingsPreferences_def Let_def
        split: option.splits if_splits)
  show ?thesis
  proof (cases "sa_readThrows a")
    case True
    with a read show ?thesis
      by (auto simp: readSettingsPreferences_def saveSettingsPreferences_def Let_def)
  next
    case False
    with a assms(1,2) show ?thesis by (simp add: read_written)
  qed
qed

text \<open>C11: Whatever text is stored (none, damaged, from another version), reading the preferences
  yields settings with a time zone the browser accepts, and reading them a second time, from what
  the first reading left stored, yields the same settings and leaves the storage as it is. This
  holds whether the storage is missing, throws on reading or on writing, or works.\<close>

theorem reading_settings_repairs:
  assumes "json_ok b" and "zone_ok b (getBrowserTimeZone b)"
    and "readSettingsPreferences b stored = (s, stored')"
  shows "zone_ok b (pref_timeZone s) \<and> readSettingsPreferences b stored' = (s, stored')"
proof
  show z: "zone_ok b (pref_timeZone s)" using read_zone [OF assms(2), of stored] assms(3) by simp
  show "readSettingsPreferences b stored' = (s, stored')" by (rule reread [OF assms(1) z assms(3)])
qed

text \<open>A storage format for the examples: seven fields and the time zone, separated by bars.\<close>

fun field_text :: "json \<Rightarrow> string" where
  "field_text (JString s) = s"
| "field_text (JBool b) = (if b then ''t'' else ''f'')"
| "field_text _ = []"

definition sample_stringify :: "json \<Rightarrow> string" where
  "sample_stringify v =
     concat (map (\<lambda>k. field_text (prop_of k v) @ ''|'')
       [''sidebarInitialState'', ''reduceMotion'', ''defaultHistoryRange'', ''landingPage'', ''tableDensity'',
        ''unitSystem'', ''timeFormat'']) @ field_text (prop_of ''timeZone'' v)"

definition sample_parse :: "string \<Rightarrow> json option" where
  "sample_parse raw =
     (case split_char (CHR ''|'') raw of
        a # b # c # d # e # f # g # zone \<Rightarrow> Some (JObject
          [(''sidebarInitialState'', JString a), (''reduceMotion'', JBool (b = ''t'')), (''defaultHistoryRange'', JString c),
           (''landingPage'', JString d), (''tableDensity'', JString e), (''timeZone'', JString (join_with ''|'' zone)),
           (''unitSystem'', JString f), (''timeFormat'', JString g)])
      | _ \<Rightarrow> None)"

definition sample_browser :: browser where
  "sample_browser = \<lparr>b_innerWidth = Some 1200, b_reducedMotion = Some False, b_zone = Some ''Europe/Madrid'',
     b_zoneAccepted = (\<lambda>z. z = ''Europe/Madrid''),
     b_storage = Some \<lparr>sa_readThrows = False, sa_writeThrows = False\<rparr>,
     b_parse = sample_parse, b_stringify = sample_stringify\<rparr>"

lemma name_no_bar:
  "CHR ''|'' \<notin> set (name_in SIDEBAR_VALUES x1) \<and> CHR ''|'' \<notin> set (name_in SETTINGS_HISTORY_RANGES x2) \<and>
   CHR ''|'' \<notin> set (name_in SETTINGS_LANDING_PAGES x3) \<and> CHR ''|'' \<notin> set (name_in DENSITY_VALUES x4) \<and>
   CHR ''|'' \<notin> set (name_in UNIT_VALUES x5) \<and> CHR ''|'' \<notin> set (name_in TIME_FORMAT_VALUES x6)"
  by (intro conjI, (cases x1; simp add: settings_values name_in_def), (cases x2; simp add: settings_values name_in_def),
      (cases x3; simp add: settings_values name_in_def), (cases x4; simp add: settings_values name_in_def),
      (cases x5; simp add: settings_values name_in_def), (cases x6; simp add: settings_values name_in_def))

lemma sample_json_ok: "json_ok sample_browser"
  unfolding json_ok_def
proof
  fix s
  have "split_char (CHR ''|'') (sample_stringify (settings_json s)) =
      [name_in SIDEBAR_VALUES (pref_sidebarInitialState s), (if pref_reduceMotion s then ''t'' else ''f''),
       name_in SETTINGS_HISTORY_RANGES (pref_defaultHistoryRange s), name_in SETTINGS_LANDING_PAGES (pref_landingPage s),
       name_in DENSITY_VALUES (pref_tableDensity s), name_in UNIT_VALUES (pref_unitSystem s),
       name_in TIME_FORMAT_VALUES (pref_timeFormat s)] @ split_char (CHR ''|'') (pref_timeZone s)"
    by (simp add: sample_stringify_def settings_json_def split_char_append name_no_bar)
  then show "b_parse sample_browser (b_stringify sample_browser (settings_json s)) = Some (settings_json s)"
    by (simp add: sample_browser_def sample_parse_def settings_json_def join_split_char)
qed

lemma sample_zone: "getBrowserTimeZone sample_browser = ''Europe/Madrid''" "zone_ok sample_browser ''Europe/Madrid''"
  by (simp_all add: getBrowserTimeZone_def zone_ok_def sample_browser_def)

theorem reading_settings_repairs_witness:
  "zone_ok sample_browser (pref_timeZone (fst (readSettingsPreferences sample_browser (Some ''damaged''))))"
  using reading_settings_repairs [OF sample_json_ok, of "Some ''damaged''"
      "fst (readSettingsPreferences sample_browser (Some ''damaged''))"
      "snd (readSettingsPreferences sample_browser (Some ''damaged''))"]
  by (simp add: sample_zone)

text \<open>Changing one preference changes that one and no other (a time zone the browser does not
  accept becomes the browser's own), and stores the result when the storage can be written; a page
  loaded later shows exactly these settings. When it cannot be written, the change still shows and
  what was stored stays.\<close>

theorem updateLocalSetting_persists:
  assumes "json_ok b" and "zone_ok b (getBrowserTimeZone b)" and "zone_ok b (pref_timeZone (sg_localSettings st))"
  shows "sg_localSettings (updateLocalSetting b kv st) =
      (case kv of TimeZone z \<Rightarrow> (sg_localSettings st)\<lparr>pref_timeZone := (if zone_ok b z then z else getBrowserTimeZone b)\<rparr>
       | _ \<Rightarrow> with_setting kv (sg_localSettings st)) \<and>
    (case b_storage b of
       Some a \<Rightarrow>
         if sa_writeThrows a then sg_stored (updateLocalSetting b kv st) = sg_stored st
         else \<not> sa_readThrows a \<longrightarrow> load_store b (sg_stored (updateLocalSetting b kv st)) = updateLocalSetting b kv st
     | None \<Rightarrow> sg_stored (updateLocalSetting b kv st) = sg_stored st)"
proof -
  let ?n = "sanitizeSettings b (settings_json (with_setting kv (sg_localSettings st)))"
  have z: "zone_ok b (pref_timeZone ?n)" by (rule sanitize_zone [OF assms(2)])
  have "?n = (case kv of TimeZone z \<Rightarrow> (sg_localSettings st)\<lparr>pref_timeZone := (if zone_ok b z then z else getBrowserTimeZone b)\<rparr>
       | _ \<Rightarrow> with_setting kv (sg_localSettings st))"
    using assms(3) by (cases kv) (simp_all add: sanitize_settings_json)
  moreover have "load_store b (Some (b_stringify b (settings_json ?n))) = \<lparr>sg_localSettings = ?n, sg_stored = Some (b_stringify b (settings_json ?n))\<rparr>"
    if "b_storage b = Some a" "\<not> sa_readThrows a" for a
    using read_written [OF assms(1) z that] by (simp add: load_store_def)
  ultimately show ?thesis
    by (cases "b_storage b") (simp_all add: updateLocalSetting_def Let_def saveSettingsPreferences_def)
qed

theorem updateLocalSetting_persists_witness:
  "sg_localSettings (updateLocalSetting sample_browser (TimeZone ''Mars'') (load_store sample_browser None)) =
     sg_localSettings (load_store sample_browser None)"
proof -
  have z: "zone_ok sample_browser (pref_timeZone (sg_localSettings (load_store sample_browser None)))"
    using read_zone [of sample_browser None] by (simp add: sample_zone load_store_def Let_def)
  have d: "sg_localSettings (load_store sample_browser None) = getDefaultSettings sample_browser"
    by (simp add: load_store_def readSettingsPreferences_def sample_browser_def)
  have m: "\<not> zone_ok sample_browser ''Mars''" by (simp add: zone_ok_def sample_browser_def)
  show ?thesis
    using updateLocalSetting_persists [OF sample_json_ok _ z, of "TimeZone ''Mars''"] m
    by (simp add: sample_zone d)
qed

end
