(* ===== verification/Tables.thy ===== *)
theory Tables
  imports JsTime ApiTypes
begin

text \<open>
  The lists of the admin pages: users (\<open>lib/user-utils.ts\<close>), devices (the filter, sort and
  counts of \<open>DevicesPage.tsx\<close> and \<open>lib/device-utils.ts\<close>) and access keys (\<open>AccessPage.tsx\<close>,
  \<open>lib/api-keys-utils.ts\<close>). \<open>getTime\<close> is \<open>new Date(s).getTime()\<close>, \<open>now\<close> is \<open>Date.now()\<close> and
  \<open>collate\<close> is \<open>a.localeCompare(b)\<close>.
\<close>

section \<open>Filter, then sort\<close>

definition filter_sort :: "('a \<Rightarrow> bool) \<Rightarrow> ('a \<Rightarrow> 'a \<Rightarrow> int) \<Rightarrow> 'a list \<Rightarrow> 'a list" where
  "filter_sort matches cmp xs = js_sort cmp (filter matches xs)"

lemma mset_filter_sort: "mset (filter_sort matches cmp xs) = filter_mset matches (mset xs)"
  by (simp add: filter_sort_def)

lemma set_filter_sort: "set (filter_sort matches cmp xs) = {x \<in> set xs. matches x}"
  by (simp add: filter_sort_def)

lemma length_filter_sort: "length (filter_sort matches cmp xs) = length (filter matches xs)"
  by (simp add: filter_sort_def)

context comparator begin

lemma filter_sort_sorted: "sorted_wrt (\<lambda>a b. cmp a b \<le> 0) (filter_sort matches cmp xs)"
  by (simp add: filter_sort_def sort_sorted)

lemma filter_sort_stable: "filter (equiv k) (filter_sort matches cmp xs) = filter (\<lambda>x. matches x \<and> equiv k x) xs"
  by (simp add: filter_sort_def sort_stable conj_commute)

end

section \<open>Names\<close>

text \<open>\<open>parts.length >= 2 && parts[0] && parts[last]\<close>: a part can be empty only when the trimmed name is.\<close>

definition getInitials :: "string \<Rightarrow> string" where
  "getInitials name =
     (let parts = split_space (trim name)
      in if 2 \<le> length parts \<and> hd parts \<noteq> [] \<and> last parts \<noteq> []
         then to_upper [hd (hd parts), hd (last parts)]
         else to_upper (take 2 (hd parts)))"

definition getFirstNameWithInitial :: "string \<Rightarrow> string" where
  "getFirstNameWithInitial name =
     (case filter (\<lambda>p. p \<noteq> []) (split_space (trim name)) of
        [] \<Rightarrow> []
      | [firstName] \<Rightarrow> firstName
      | firstName # secondName # _ \<Rightarrow> firstName @ '' '' @ to_upper (take 1 secondName) @ ''.'')"

section \<open>Users\<close>

definition user_matches :: "string \<Rightarrow> user_email_filter \<Rightarrow> 'z user_scheme \<Rightarrow> bool" where
  "user_matches query emailFilter u =
     (let q = to_lower (trim query)
      in if q \<noteq> [] \<and> \<not> includes_str (to_lower (u_name u @ '' '' @ u_lastname u @ '' '' @ u_email u)) q then False
         else if emailFilter = EmailVerified \<and> \<not> u_email_verified u then False
         else if emailFilter = EmailUnverified \<and> u_email_verified u then False
         else True)"

definition full_name :: "'z user_scheme \<Rightarrow> string" where
  "full_name u = u_name u @ '' '' @ u_lastname u"

fun user_compare ::
  "(string \<Rightarrow> number) \<Rightarrow> (string \<Rightarrow> string \<Rightarrow> int) \<Rightarrow> user_sort_key \<Rightarrow> 'z user_scheme \<Rightarrow> 'z user_scheme \<Rightarrow> int" where
  "user_compare getTime collate CreatedDesc a b = by_time getTime u_created_at b a"
| "user_compare getTime collate CreatedAsc a b = by_time getTime u_created_at a b"
| "user_compare getTime collate NameAsc a b = collate (full_name a) (full_name b)"

lemma user_compare_eqs:
  "user_compare getTime collate CreatedDesc = (\<lambda>a b. by_time getTime u_created_at b a)"
  "user_compare getTime collate CreatedAsc = by_time getTime u_created_at"
  "user_compare getTime collate NameAsc = (\<lambda>a b. collate (full_name a) (full_name b))"
  by (simp_all add: fun_eq_iff)

definition filterAndSortUsers ::
  "(string \<Rightarrow> number) \<Rightarrow> (string \<Rightarrow> string \<Rightarrow> int) \<Rightarrow> 'z user_scheme list \<Rightarrow> string \<Rightarrow> user_email_filter \<Rightarrow>
   user_sort_key \<Rightarrow> 'z user_scheme list" where
  "filterAndSortUsers getTime collate users query emailFilter sortBy =
     filter_sort (user_matches query emailFilter) (user_compare getTime collate sortBy) users"

fun count_users :: "'z user_scheme list \<Rightarrow> int \<times> int \<Rightarrow> int \<times> int" where
  "count_users [] (verified, admin) = (verified, admin)"
| "count_users (u # us) (verified, admin) =
     count_users us ((if u_email_verified u then verified + 1 else verified),
                     (if u_role u = RoleSuperAdmin then admin + 1 else admin))"

definition computeFilterCounts :: "'z user_scheme list \<Rightarrow> user_filter_counts" where
  "computeFilterCounts users =
     (case count_users users (0, 0) of (verified, admin) \<Rightarrow>
        \<lparr>ufc_all = int (length users), ufc_admin = admin, ufc_user = int (length users) - admin,
         ufc_verified = verified, ufc_unverified = int (length users) - verified\<rparr>)"

lemma count_users_eq:
  "count_users us (v, a) =
     (v + int (length (filter u_email_verified us)), a + int (length (filter (\<lambda>u. u_role u = RoleSuperAdmin) us)))"
  by (induction us arbitrary: v a) auto

lemma filter_complement: "int (length (filter P xs)) + int (length (filter (\<lambda>x. \<not> P x) xs)) = int (length xs)"
  by (metis of_nat_add sum_length_filter_compl)

lemma user_matches_no_query:
  "user_matches [] EmailAll = (\<lambda>_. True)" "user_matches [] EmailVerified = u_email_verified"
  "user_matches [] EmailUnverified = (\<lambda>u. \<not> u_email_verified u)"
  by (simp_all add: fun_eq_iff user_matches_def trim_def to_lower_def)

text \<open>The badges of the user filter count what the filters show: with an empty query, selecting
  a filter lists exactly as many users as its badge says, and verified and unverified users, as
  administrators and others, add up to all.\<close>

theorem user_badges_match_filters:
  "ufc_all (computeFilterCounts users) = int (length (filterAndSortUsers getTime collate users [] EmailAll sortBy)) \<and>
   ufc_verified (computeFilterCounts users) = int (length (filterAndSortUsers getTime collate users [] EmailVerified sortBy)) \<and>
   ufc_unverified (computeFilterCounts users) = int (length (filterAndSortUsers getTime collate users [] EmailUnverified sortBy)) \<and>
   ufc_verified (computeFilterCounts users) + ufc_unverified (computeFilterCounts users) = ufc_all (computeFilterCounts users) \<and>
   ufc_admin (computeFilterCounts users) = int (length (filter (\<lambda>u. u_role u = RoleSuperAdmin) users)) \<and>
   ufc_user (computeFilterCounts users) = int (length (filter (\<lambda>u. u_role u = RoleUser) users))"
proof -
  have role: "(u_role u \<noteq> RoleSuperAdmin) = (u_role u = RoleUser)" for u :: "'z user_scheme"
    by (cases "u_role u") auto
  show ?thesis
    using filter_complement [of u_email_verified users]
      filter_complement [of "\<lambda>u. u_role u = RoleSuperAdmin" users]
    by (simp add: computeFilterCounts_def count_users_eq filterAndSortUsers_def length_filter_sort
        user_matches_no_query role)
qed

text \<open>The list of users is, for every query and filter, a permutation of the users that match; it is
  in the chosen order (created time newest or oldest first, or the collation of the full names); and
  users the order does not tell apart stay in the order the server sent. Created times are
  readable and the collation is a total order up to ties.\<close>

theorem user_list_filtered_sorted:
  assumes "\<forall>u \<in> set users. is_finite (getTime (u_created_at u))"
    and "comparator collate"
  shows "mset (filterAndSortUsers getTime collate users query ef sortBy) = filter_mset (user_matches query ef) (mset users) \<and>
    (case sortBy of
       CreatedDesc \<Rightarrow> sorted_wrt (\<lambda>a b. real_part (getTime (u_created_at b)) \<le> real_part (getTime (u_created_at a)))
         (filterAndSortUsers getTime collate users query ef sortBy)
     | CreatedAsc \<Rightarrow> sorted_wrt (\<lambda>a b. real_part (getTime (u_created_at a)) \<le> real_part (getTime (u_created_at b)))
         (filterAndSortUsers getTime collate users query ef sortBy)
     | NameAsc \<Rightarrow> sorted_wrt (\<lambda>a b. collate (full_name a) (full_name b) \<le> 0)
         (filterAndSortUsers getTime collate users query ef sortBy) \<and>
         filter (\<lambda>u. full_name u = n) (filterAndSortUsers getTime collate users query ef sortBy) =
         filter (\<lambda>u. user_matches query ef u \<and> full_name u = n) users)"
proof -
  have fin: "\<forall>u \<in> set (filter (user_matches query ef) users). is_finite (getTime (u_created_at u))"
    using assms(1) by auto
  have names: "comparator (\<lambda>a b. collate (full_name a) (full_name b))"
    using assms(2) by (simp add: comparator_def)
  have refl: "collate x x \<le> 0" for x using comparator.cmp_total [OF assms(2), of x x] by simp
  have stable: "filter (\<lambda>u. full_name u = n) (js_sort (\<lambda>a b. collate (full_name a) (full_name b)) xs) =
      filter (\<lambda>u. full_name u = n) xs" for xs :: "'a user_scheme list"
    by (rule filter_js_sort) (auto simp: refl)
  show ?thesis
    using sort_by_time_sorted [of "filter (user_matches query ef) users" getTime u_created_at, OF fin]
      sort_by_time_desc_sorted [of "filter (user_matches query ef) users" getTime u_created_at, OF fin]
      comparator.filter_sort_sorted [OF names, of "user_matches query ef" users]
    by (cases sortBy)
      (simp_all add: filterAndSortUsers_def mset_filter_sort filter_sort_def sorted_wrt_map stable conj_commute user_compare_eqs)
qed

interpretation code_units: comparator code_unit_cmp
  by unfold_locales auto

definition sample_person :: "string \<Rightarrow> string \<Rightarrow> bool \<Rightarrow> user" where
  "sample_person name created verified = \<lparr>u_id = name, u_email = name @ ''@x'', u_email_verified = verified,
     u_image = None, u_name = name, u_lastname = [], u_role = RoleUser, u_must_change_password = False, u_created_at = created\<rparr>"

definition sample_clock :: "string \<Rightarrow> number" where
  "sample_clock s = Fin (real (str_nat s))"

theorem user_list_filtered_sorted_witness:
  "sorted_wrt (\<lambda>a b. real_part (sample_clock (u_created_at b)) \<le> real_part (sample_clock (u_created_at a)))
     (filterAndSortUsers sample_clock code_unit_cmp [sample_person ''Ana'' ''3'' True, sample_person ''Bo'' ''7'' False]
        '' a'' EmailAll CreatedDesc)"
proof -
  have f: "\<forall>u \<in> set [sample_person ''Ana'' ''3'' True, sample_person ''Bo'' ''7'' False]. is_finite (sample_clock (u_created_at u))"
    by (simp add: sample_clock_def)
  show ?thesis
    using user_list_filtered_sorted [OF f code_units.comparator_axioms, of "'' a''" EmailAll CreatedDesc] by simp
qed

section \<open>Device status\<close>

record device_strings =
  ds_online :: string
  ds_offline :: string
  ds_neverSeen :: string
  ds_unknown :: string
  ds_stale :: "string option"
  ds_onlineStationary :: "string option"
  ds_vehicleTypes :: "vehicle_type \<Rightarrow> string"

datatype device_status_key = StOnline | StStale | StOffline | StNeverSeen
datatype status_dot = DotNever | DotSuccess | DotWarning | DotDanger

record device_status =
  dst_key :: device_status_key
  dst_label :: string
  dst_dot :: status_dot

definition DEVICE_ONLINE_THRESHOLD_MIN :: real where "DEVICE_ONLINE_THRESHOLD_MIN = 5"
definition DEVICE_OFFLINE_THRESHOLD_MIN :: real where "DEVICE_OFFLINE_THRESHOLD_MIN = 60"

definition deriveDeviceStatus ::
  "(string \<Rightarrow> number) \<Rightarrow> number \<Rightarrow> string option \<Rightarrow> device_strings \<Rightarrow> device_status" where
  "deriveDeviceStatus getTime now lastSeenIso strings =
     (if lastSeenIso = None \<or> lastSeenIso = Some [] then
        \<lparr>dst_key = StNeverSeen, dst_label = ds_neverSeen strings, dst_dot = DotNever\<rparr>
      else
        let ageMin = num_div_const (num_sub now (getTime (the lastSeenIso))) 60000
        in if num_less ageMin (Fin DEVICE_ONLINE_THRESHOLD_MIN) then
             \<lparr>dst_key = StOnline, dst_label = ds_online strings, dst_dot = DotSuccess\<rparr>
           else if num_less ageMin (Fin DEVICE_OFFLINE_THRESHOLD_MIN) then
             \<lparr>dst_key = StStale, dst_label = nullish (ds_stale strings) (ds_offline strings), dst_dot = DotWarning\<rparr>
           else \<lparr>dst_key = StOffline, dst_label = ds_offline strings, dst_dot = DotDanger\<rparr>)"

definition deviceStatusFromPresence :: "presence_state \<Rightarrow> device_strings \<Rightarrow> device_status" where
  "deviceStatusFromPresence state strings =
     (if state = NeverSeen then \<lparr>dst_key = StNeverSeen, dst_label = ds_neverSeen strings, dst_dot = DotNever\<rparr>
      else if state = Offline then \<lparr>dst_key = StOffline, dst_label = ds_offline strings, dst_dot = DotDanger\<rparr>
      else \<lparr>dst_key = StOnline,
             dst_label = (if state = OnlineMoving then ds_online strings
                          else nullish (ds_onlineStationary strings) (ds_online strings)),
             dst_dot = DotSuccess\<rparr>)"

text \<open>How far a status has aged.\<close>

fun staleness :: "device_status_key \<Rightarrow> nat" where
  "staleness StOnline = 0"
| "staleness StStale = 1"
| "staleness StOffline = 2"
| "staleness StNeverSeen = 3"

lemmas status_defs =
  deriveDeviceStatus_def DEVICE_ONLINE_THRESHOLD_MIN_def DEVICE_OFFLINE_THRESHOLD_MIN_def Let_def

text \<open>The status of a device is decided by the age of its last contact alone: below 5 minutes
  online (a contact in the future included), below 60 stale, else offline, and a device without a
  contact is never-seen; so while no new contact arrives the status only gets older, from online to
  stale to offline, and a newer contact never gives an older status.\<close>

theorem device_status_ages:
  assumes "now \<le> later" and "getTime t = Fin c" and "getTime t' = Fin c'" and "c' \<le> c" and "t \<noteq> []" and "t' \<noteq> []"
  shows "staleness (dst_key (deriveDeviceStatus getTime (Fin now) (Some t) s)) \<le>
      staleness (dst_key (deriveDeviceStatus getTime (Fin later) (Some t') s)) \<and>
    dst_key (deriveDeviceStatus getTime (Fin now) (Some t) s) =
      (if now - c < 5 * 60000 then StOnline else if now - c < 60 * 60000 then StStale else StOffline) \<and>
    dst_key (deriveDeviceStatus getTime (Fin now) None s) = StNeverSeen"
proof -
  have key: "dst_key (deriveDeviceStatus getTime (Fin n) (Some u) s) =
      (if n - x < 5 * 60000 then StOnline else if n - x < 60 * 60000 then StStale else StOffline)"
    if "getTime u = Fin x" "u \<noteq> []" for n u x
    using that by (simp add: status_defs num_sub_def num_div_const_def)
  show ?thesis
    using assms(1,4) unfolding key [OF assms(2,5)] key [OF assms(3,6)] by (auto simp: status_defs)
qed

definition sample_strings :: device_strings where
  "sample_strings = \<lparr>ds_online = ''Online'', ds_offline = ''Offline'', ds_neverSeen = ''Never seen'',
     ds_unknown = ''Unknown'', ds_stale = Some ''Stale'', ds_onlineStationary = None, ds_vehicleTypes = vehicle_type_str\<rparr>"

theorem device_status_ages_witness:
  "staleness (dst_key (deriveDeviceStatus sample_clock (Fin 400000) (Some ''100000'') sample_strings)) \<le>
   staleness (dst_key (deriveDeviceStatus sample_clock (Fin 500000) (Some ''100000'') sample_strings))"
proof -
  have "sample_clock ''100000'' = Fin 100000"
    by (simp add: sample_clock_def str_nat_def digit_val_def)
  then have "staleness (dst_key (deriveDeviceStatus sample_clock (Fin 400000) (Some ''100000'') sample_strings)) \<le>
      staleness (dst_key (deriveDeviceStatus sample_clock (Fin 500000) (Some ''100000'') sample_strings)) \<and>
    dst_key (deriveDeviceStatus sample_clock (Fin 400000) (Some ''100000'') sample_strings) =
      (if 400000 - 100000 < (5 * 60000 :: real) then StOnline else if 400000 - 100000 < (60 * 60000 :: real) then StStale else StOffline) \<and>
    dst_key (deriveDeviceStatus sample_clock (Fin 400000) None sample_strings) = StNeverSeen"
    by (intro device_status_ages [where c = 100000 and c' = 100000]) simp_all
  then show ?thesis by (rule conjunct1)
qed

section \<open>The devices page\<close>

datatype device_sort_key = DevNameAsc | DevNameDesc | Recent | Oldest

text \<open>\<open>statusFilter\<close> and \<open>vehicleFilter\<close>: \<open>None\<close> is \<open>all\<close>.\<close>

definition device_matches ::
  "(string \<Rightarrow> number) \<Rightarrow> number \<Rightarrow> device_strings \<Rightarrow> string \<Rightarrow> device_status_key option \<Rightarrow> vehicle_type option \<Rightarrow>
   device_with_access \<Rightarrow> bool" where
  "device_matches getTime now t query statusFilter vehicleFilter d =
     (let q = to_lower (trim query)
      in if q \<noteq> [] \<and> \<not> includes_str (to_lower (d_name d @ '' '' @ d_uuid_firmware d @ '' '' @ d_id d @ '' '' @
              ds_vehicleTypes t (d_vehicle_type d))) q then False
         else if vehicleFilter \<noteq> None \<and> Some (d_vehicle_type d) \<noteq> vehicleFilter then False
         else if statusFilter \<noteq> None \<and>
              Some (dst_key (deriveDeviceStatus getTime now (d_last_contact_at d) t)) \<noteq> statusFilter then False
         else True)"

text \<open>\<open>new Date(x ?? 0).getTime()\<close>\<close>

definition contact_time :: "(string \<Rightarrow> number) \<Rightarrow> string option \<Rightarrow> number" where
  "contact_time getTime x = (case x of None \<Rightarrow> Fin 0 | Some s \<Rightarrow> getTime s)"

fun device_compare ::
  "(string \<Rightarrow> number) \<Rightarrow> (string \<Rightarrow> string \<Rightarrow> int) \<Rightarrow> device_sort_key \<Rightarrow> device_with_access \<Rightarrow> device_with_access \<Rightarrow> int" where
  "device_compare getTime collate DevNameAsc a b = collate (d_name a) (d_name b)"
| "device_compare getTime collate DevNameDesc a b = collate (d_name b) (d_name a)"
| "device_compare getTime collate Recent a b = by_time (contact_time getTime) d_last_contact_at b a"
| "device_compare getTime collate Oldest a b = by_time (contact_time getTime) d_last_contact_at a b"

lemma device_compare_recent:
  "device_compare getTime collate Recent = (\<lambda>a b. by_time (contact_time getTime) d_last_contact_at b a)"
  by (simp add: fun_eq_iff)

definition filtered_devices ::
  "(string \<Rightarrow> number) \<Rightarrow> number \<Rightarrow> (string \<Rightarrow> string \<Rightarrow> int) \<Rightarrow> device_strings \<Rightarrow> string \<Rightarrow> device_status_key option \<Rightarrow>
   vehicle_type option \<Rightarrow> device_sort_key \<Rightarrow> device_with_access list \<Rightarrow> device_with_access list" where
  "filtered_devices getTime now collate t query statusFilter vehicleFilter sortBy devices =
     filter_sort (device_matches getTime now t query statusFilter vehicleFilter) (device_compare getTime collate sortBy) devices"

record device_counts =
  dc_online :: int
  dc_stale :: int
  dc_offline :: int
  dc_neverSeen :: int
  dc_total :: int

fun count_key :: "device_status_key \<Rightarrow> device_counts \<Rightarrow> device_counts" where
  "count_key StOnline c = c\<lparr>dc_online := dc_online c + 1\<rparr>"
| "count_key StStale c = c\<lparr>dc_stale := dc_stale c + 1\<rparr>"
| "count_key StOffline c = c\<lparr>dc_offline := dc_offline c + 1\<rparr>"
| "count_key StNeverSeen c = c\<lparr>dc_neverSeen := dc_neverSeen c + 1\<rparr>"

definition device_page_counts ::
  "(string \<Rightarrow> number) \<Rightarrow> number \<Rightarrow> device_strings \<Rightarrow> device_with_access list \<Rightarrow> device_counts" where
  "device_page_counts getTime now t devices =
     foldl (\<lambda>c d. count_key (dst_key (deriveDeviceStatus getTime now (d_last_contact_at d) t)) c)
       \<lparr>dc_online = 0, dc_stale = 0, dc_offline = 0, dc_neverSeen = 0, dc_total = int (length devices)\<rparr> devices"

fun count_of :: "device_status_key \<Rightarrow> device_counts \<Rightarrow> int" where
  "count_of StOnline c = dc_online c"
| "count_of StStale c = dc_stale c"
| "count_of StOffline c = dc_offline c"
| "count_of StNeverSeen c = dc_neverSeen c"

lemma count_of_count_key: "count_of k (count_key j c) = count_of k c + (if j = k then 1 else 0)"
  by (cases k; cases j) simp_all

lemma count_fold:
  "count_of k (foldl (\<lambda>c d. count_key (f d) c) c0 ds) = count_of k c0 + int (length (filter (\<lambda>d. f d = k) ds)) \<and>
   dc_total (foldl (\<lambda>c d. count_key (f d) c) c0 ds) = dc_total c0"
proof (induction ds arbitrary: c0)
  case (Cons d ds)
  have "dc_total (count_key (f d) c0) = dc_total c0" by (cases "f d") simp_all
  with Cons show ?case by (simp add: count_of_count_key)
qed simp

lemma device_matches_status:
  "device_matches getTime now t [] (Some k) None =
     (\<lambda>d. dst_key (deriveDeviceStatus getTime now (d_last_contact_at d) t) = k)"
  by (simp add: fun_eq_iff device_matches_def trim_def to_lower_def)

lemma filter_four_ways:
  "int (length (filter (\<lambda>d. f d = StOnline) ds)) + int (length (filter (\<lambda>d. f d = StStale) ds)) +
   int (length (filter (\<lambda>d. f d = StOffline) ds)) + int (length (filter (\<lambda>d. f d = StNeverSeen) ds)) = int (length ds)"
proof (induction ds)
  case (Cons d ds)
  then show ?case by (cases "f d") simp_all
qed simp

text \<open>The numbers in the header of the devices page: each status counts exactly the devices that
  filtering by that status lists, and the four add up to all devices.\<close>

theorem device_counts_match_filter:
  "count_of k (device_page_counts getTime now t devices) =
     int (length (filtered_devices getTime now collate t [] (Some k) None sortBy devices)) \<and>
   dc_online (device_page_counts getTime now t devices) + dc_stale (device_page_counts getTime now t devices) +
   dc_offline (device_page_counts getTime now t devices) + dc_neverSeen (device_page_counts getTime now t devices) =
     dc_total (device_page_counts getTime now t devices) \<and>
   dc_total (device_page_counts getTime now t devices) = int (length devices)"
proof -
  let ?f = "\<lambda>d. dst_key (deriveDeviceStatus getTime now (d_last_contact_at d) t)"
  let ?c0 = "\<lparr>dc_online = 0, dc_stale = 0, dc_offline = 0, dc_neverSeen = 0, dc_total = int (length devices)\<rparr>"
  have count: "count_of j (device_page_counts getTime now t devices) = int (length (filter (\<lambda>d. ?f d = j) devices))" for j
    using count_fold [of j ?f ?c0 devices] by (cases j) (simp_all add: device_page_counts_def)
  have total: "dc_total (device_page_counts getTime now t devices) = int (length devices)"
    using count_fold [of k ?f ?c0 devices] by (simp add: device_page_counts_def)
  have "count_of k (device_page_counts getTime now t devices) =
     int (length (filtered_devices getTime now collate t [] (Some k) None sortBy devices))"
    by (simp add: count filtered_devices_def length_filter_sort device_matches_status)
  moreover have "dc_online (device_page_counts getTime now t devices) + dc_stale (device_page_counts getTime now t devices) +
     dc_offline (device_page_counts getTime now t devices) + dc_neverSeen (device_page_counts getTime now t devices) = int (length devices)"
    using filter_four_ways [of ?f devices] count [of StOnline] count [of StStale] count [of StOffline] count [of StNeverSeen]
    by simp
  ultimately show ?thesis using total by simp
qed

section \<open>The access page\<close>

datatype api_key_sort_key = KeyCreatedDesc | KeyCreatedAsc | KeyDeviceAsc

definition API_KEY_SORT_OPTIONS :: "string list" where
  "API_KEY_SORT_OPTIONS = [''created-desc'', ''created-asc'', ''device-asc'']"

definition isApiKeySortKey :: "string \<Rightarrow> bool" where
  "isApiKeySortKey v = list_ex (\<lambda>option. option = v) API_KEY_SORT_OPTIONS"

definition truncateId :: "string \<Rightarrow> string" where
  "truncateId i = (if length i \<le> 8 then i else take 8 i @ ellipsis)"

definition key_matches :: "string \<Rightarrow> api_key_row \<Rightarrow> bool" where
  "key_matches query r =
     (let q = to_lower (trim query)
      in if q = [] then True
         else includes_str (to_lower (kr_device_name r)) q \<or> includes_str (to_lower (kr_id r)) q \<or>
              includes_str (to_lower (kr_device_id r)) q)"

fun key_compare ::
  "(string \<Rightarrow> number) \<Rightarrow> (string \<Rightarrow> string \<Rightarrow> int) \<Rightarrow> api_key_sort_key \<Rightarrow> api_key_row \<Rightarrow> api_key_row \<Rightarrow> int" where
  "key_compare getTime collate KeyCreatedDesc a b = by_time getTime kr_created_at b a"
| "key_compare getTime collate KeyCreatedAsc a b = by_time getTime kr_created_at a b"
| "key_compare getTime collate KeyDeviceAsc a b = collate (kr_device_name a) (kr_device_name b)"

lemma key_compare_newest:
  "key_compare getTime collate KeyCreatedDesc = (\<lambda>a b. by_time getTime kr_created_at b a)"
  by (simp add: fun_eq_iff)

definition filtered_keys ::
  "(string \<Rightarrow> number) \<Rightarrow> (string \<Rightarrow> string \<Rightarrow> int) \<Rightarrow> string \<Rightarrow> api_key_sort_key \<Rightarrow> api_key_row list \<Rightarrow> api_key_row list" where
  "filtered_keys getTime collate query sortBy rows =
     filter_sort (key_matches query) (key_compare getTime collate sortBy) rows"

definition total_key_devices :: "api_key_row list \<Rightarrow> nat" where
  "total_key_devices rows = length (remdups (map kr_device_id rows))"

text \<open>The devices list and the access list are permutations of the entries that match; a query of
  white space alone matches every entry; and with readable times the newest come first when that
  order is chosen.\<close>

theorem device_and_key_lists:
  assumes "\<forall>d \<in> set devices. is_finite (contact_time getTime (d_last_contact_at d))"
    and "\<forall>r \<in> set rows. is_finite (getTime (kr_created_at r))"
  shows "mset (filtered_devices getTime now collate t query sf vf ds devices) =
      filter_mset (device_matches getTime now t query sf vf) (mset devices) \<and>
    mset (filtered_keys getTime collate query ks rows) = filter_mset (key_matches query) (mset rows) \<and>
    (trim query = [] \<longrightarrow> mset (filtered_devices getTime now collate t query None None ds devices) = mset devices \<and>
       mset (filtered_keys getTime collate query ks rows) = mset rows) \<and>
    sorted_wrt (\<lambda>a b. real_part (contact_time getTime (d_last_contact_at b)) \<le> real_part (contact_time getTime (d_last_contact_at a)))
      (filtered_devices getTime now collate t query sf vf Recent devices) \<and>
    sorted_wrt (\<lambda>a b. real_part (getTime (kr_created_at b)) \<le> real_part (getTime (kr_created_at a)))
      (filtered_keys getTime collate query KeyCreatedDesc rows)"
proof -
  have d: "\<forall>d \<in> set (filter P devices). is_finite (contact_time getTime (d_last_contact_at d))" for P
    using assms(1) by simp
  have r: "\<forall>r \<in> set (filter P rows). is_finite (getTime (kr_created_at r))" for P
    using assms(2) by simp
  have empty: "device_matches getTime now t query None None d" "key_matches query r" if "trim query = []" for d r
    using that by (simp_all add: device_matches_def key_matches_def to_lower_def)
  show ?thesis
    using sort_by_time_desc_sorted [of "filter (device_matches getTime now t query sf vf) devices" "contact_time getTime" d_last_contact_at, OF d]
      sort_by_time_desc_sorted [of "filter (key_matches query) rows" getTime kr_created_at, OF r] empty
    by (simp add: filtered_devices_def filtered_keys_def filter_sort_def sorted_wrt_map device_compare_recent key_compare_newest)
qed

definition sample_row :: "string \<Rightarrow> api_key_row" where
  "sample_row created = \<lparr>kr_id = ''k'', kr_name = ''n'', kr_device_name = ''Van'', kr_device_id = ''d'', kr_created_at = created\<rparr>"

theorem device_and_key_lists_witness:
  "sorted_wrt (\<lambda>a b. real_part (sample_clock (kr_created_at b)) \<le> real_part (sample_clock (kr_created_at a)))
     (filtered_keys sample_clock code_unit_cmp '' van '' KeyCreatedDesc [sample_row ''3'', sample_row ''8''])"
proof -
  have d: "\<forall>d \<in> set ([] :: device_with_access list). is_finite (contact_time sample_clock (d_last_contact_at d))" by simp
  have r: "\<forall>r \<in> set [sample_row ''3'', sample_row ''8'']. is_finite (sample_clock (kr_created_at r))"
    by (simp add: sample_clock_def)
  show ?thesis using device_and_key_lists [OF d r, where query = "'' van ''" and collate = code_unit_cmp] by blast
qed

end
