(* ===== verification/Dates.thy ===== *)
theory Dates
  imports JsValues ApiTypes
begin

text \<open>
  Dates (\<open>lib/date-utils.ts\<close>, the date functions of \<open>lib/reports-utils.ts\<close>). Parsing a
  string is the argument \<open>getTime\<close>; the calendar of UTC is that of the language, computed here;
  the local time zone is the environment's, so the local parts of a time and the start of
  its local day are arguments (\<open>local_zone\<close>).
\<close>

definition num_floor :: "number \<Rightarrow> int" where
  "num_floor x = (case x of Fin r \<Rightarrow> \<lfloor>r\<rfloor> | _ \<Rightarrow> 0)"

text \<open>\<open>Math.round(x)\<close>: halves go up.\<close>

definition math_round :: "real \<Rightarrow> int" where
  "math_round x = \<lfloor>x + 1 / 2\<rfloor>"

section \<open>The UTC calendar\<close>

record civil =
  cv_year :: int
  cv_month :: int
  cv_day :: int

text \<open>
  The date of a day number (day 0 is 1 January 1970), in the Gregorian calendar extended
  both ways as the language has it. Years are counted from March in eras of 400 years.
\<close>

definition civil_of_day :: "int \<Rightarrow> civil" where
  "civil_of_day d =
     (let z = d + 719468;
          r400 = z mod 146097; n100 = min 3 (r400 div 36524);
          r100 = r400 - n100 * 36524; n4 = r100 div 1461;
          r4 = r100 mod 1461; n1 = min 3 (r4 div 365);
          doy = r4 - n1 * 365;
          mp = (5 * doy + 2) div 153;
          m = (if mp < 10 then mp + 2 else mp - 10)
      in \<lparr>cv_year = 400 * (z div 146097) + 100 * n100 + 4 * n4 + n1 + (if m \<le> 1 then 1 else 0), cv_month = m,
          cv_day = doy - (153 * mp + 2) div 5 + 1\<rparr>)"

text \<open>\<open>getUTCFullYear\<close>, \<open>getUTCMonth\<close> (from 0) and \<open>getUTCDate\<close> of a time in milliseconds.\<close>

definition utc_date :: "real \<Rightarrow> civil" where
  "utc_date ms = civil_of_day (\<lfloor>ms\<rfloor> div 86400000)"

lemma month_bounds:
  fixes doy :: int
  assumes "0 \<le> doy" "doy \<le> 365"
  shows "0 \<le> (5 * doy + 2) div 153 \<and> (5 * doy + 2) div 153 \<le> 11 \<and>
    0 \<le> doy - (153 * ((5 * doy + 2) div 153) + 2) div 5 \<and> doy - (153 * ((5 * doy + 2) div 153) + 2) div 5 \<le> 30"
proof -
  obtain mp where mp: "mp = (5 * doy + 2) div 153" by blast
  then have b: "153 * mp \<le> 5 * doy + 2" "5 * doy + 2 < 153 * mp + 153" by presburger+
  with assms have "0 \<le> mp" "mp \<le> 11" by linarith+
  moreover have "0 \<le> doy - (153 * mp + 2) div 5 \<and> doy - (153 * mp + 2) div 5 \<le> 30"
  proof -
    obtain k where k: "k = (153 * mp + 2) div 5" by blast
    then have "5 * k \<le> 153 * mp + 2" "153 * mp + 2 < 5 * k + 5" by presburger+
    with b have "5 * k \<le> 5 * doy + 4" "5 * doy \<le> 5 * k + 152" by linarith+
    then have "k \<le> doy" "doy \<le> k + 30" by presburger+
    then show ?thesis by (simp add: k)
  qed
  ultimately show ?thesis by (simp add: mp)
qed

lemma civil_of_day_range:
  "0 \<le> cv_month (civil_of_day d) \<and> cv_month (civil_of_day d) \<le> 11 \<and>
   1 \<le> cv_day (civil_of_day d) \<and> cv_day (civil_of_day d) \<le> 31"
proof -
  define r400 where "r400 = (d + 719468) mod 146097"
  define r4 where "r4 = (r400 - min 3 (r400 div 36524) * 36524) mod 1461"
  define doy where "doy = r4 - min 3 (r4 div 365) * 365"
  have "0 \<le> r4" "r4 < 1461" by (simp_all add: r4_def)
  then have "0 \<le> doy" "doy \<le> 365" unfolding doy_def by (auto simp: min_def)
  from month_bounds [OF this] show ?thesis
    unfolding civil_of_day_def Let_def r400_def [symmetric] r4_def [symmetric] doy_def [symmetric]
    by auto
qed

lemma civil_examples:
  "map (\<lambda>d. let c = civil_of_day d in (cv_year c, cv_month c, cv_day c)) [0, - 1, 19782, 47540, 47541] =
     [(1970, 0, 1), (1969, 11, 31), (2024, 1, 29), (2100, 1, 28), (2100, 2, 1)]"
  by code_simp

section \<open>Absolute dates\<close>

fun DATE_FORMAT_MONTHS :: "language \<Rightarrow> string list" where
  "DATE_FORMAT_MONTHS En = [''January'', ''February'', ''March'', ''April'', ''May'', ''June'', ''July'', ''August'',
     ''September'', ''October'', ''November'', ''December'']"
| "DATE_FORMAT_MONTHS Es = [''Enero'', ''Febrero'', ''Marzo'', ''Abril'', ''Mayo'', ''Junio'', ''Julio'', ''Agosto'',
     ''Septiembre'', ''Octubre'', ''Noviembre'', ''Diciembre'']"

text \<open>A missing or empty string, or one that is not a date, gives a dash. A time that is a number is finite.\<close>

definition formatDate :: "(string \<Rightarrow> number) \<Rightarrow> language \<Rightarrow> string option \<Rightarrow> string" where
  "formatDate getTime lang isoDate =
     (if isoDate = None \<or> isoDate = Some [] then em_dash
      else (case getTime (the isoDate) of
          Fin ms \<Rightarrow>
            let date = utc_date ms; months = DATE_FORMAT_MONTHS lang
            in int_str (cv_day date) @ '' '' @ months ! nat (cv_month date) @ '' '' @ int_str (cv_year date)
        | _ \<Rightarrow> em_dash))"

definition formatDateTime :: "(string \<Rightarrow> number) \<Rightarrow> (language \<Rightarrow> real \<Rightarrow> string) \<Rightarrow> string option \<Rightarrow> language \<Rightarrow> string" where
  "formatDateTime getTime intlMedium isoDate lang =
     (if isoDate = None \<or> isoDate = Some [] then em_dash
      else (case getTime (the isoDate) of Fin ms \<Rightarrow> intlMedium lang ms | _ \<Rightarrow> em_dash))"

definition formatHistoryTime :: "(string \<Rightarrow> number) \<Rightarrow> (language \<Rightarrow> real \<Rightarrow> string) \<Rightarrow> string \<Rightarrow> language \<Rightarrow> string" where
  "formatHistoryTime getTime intlShort isoDate lang =
     (case getTime isoDate of Fin ms \<Rightarrow> intlShort lang ms | _ \<Rightarrow> em_dash)"

definition formatDateMetric :: "(number \<Rightarrow> string) \<Rightarrow> number option \<Rightarrow> string \<Rightarrow> nat \<Rightarrow> string" where
  "formatDateMetric ns value unit decimals =
     (case value of None \<Rightarrow> em_dash | Some v \<Rightarrow> to_fixed ns decimals v @ '' '' @ unit)"

section \<open>Relative times\<close>

record relative_strings =
  rl_justNow :: string
  rl_minutesAgo :: string
  rl_hoursAgo :: string
  rl_daysAgo :: string

definition with_count :: "string \<Rightarrow> int \<Rightarrow> string" where
  "with_count template n = replace_first ''{count}'' (int_str \<bar>n\<bar>) template"

definition relative_label ::
  "relative_strings \<Rightarrow> string \<Rightarrow> int \<Rightarrow> string" where
  "relative_label t absolute_date seconds =
     (if \<bar>seconds\<bar> < 60 then rl_justNow t
      else let minutes = math_round (of_int seconds / 60) in
        if \<bar>minutes\<bar> < 60 then with_count (rl_minutesAgo t) minutes
        else let hours = math_round (of_int minutes / 60) in
          if \<bar>hours\<bar> < 24 then with_count (rl_hoursAgo t) hours
          else let days = math_round (of_int hours / 24) in
            if \<bar>days\<bar> < 30 then with_count (rl_daysAgo t) days
            else absolute_date)"

definition formatRelativeTime ::
  "(string \<Rightarrow> number) \<Rightarrow> real \<Rightarrow> string option \<Rightarrow> language \<Rightarrow> relative_strings \<Rightarrow> string" where
  "formatRelativeTime getTime now isoDate lang t =
     (if isoDate = None \<or> isoDate = Some [] then em_dash
      else (case getTime (the isoDate) of
          Fin ms \<Rightarrow> relative_label t (formatDate getTime lang isoDate) (math_round ((ms - now) / 1000))
        | _ \<Rightarrow> em_dash))"

lemma math_round_of_int [simp]: "math_round (of_int k) = k"
  unfolding math_round_def by (rule floor_unique) simp_all

lemma math_round_close: "\<bar>of_int (math_round x) - x\<bar> \<le> 1 / 2"
  unfolding math_round_def using floor_correct [of "x + 1 / 2"] by linarith

lemma math_round_ge: "of_int k \<le> x + 1 / 2 \<Longrightarrow> k \<le> math_round x"
  by (simp add: math_round_def le_floor_iff)

lemma math_round_abs_ge:
  assumes "1 \<le> \<bar>x\<bar>"
  shows "1 \<le> \<bar>math_round x\<bar>"
  using math_round_close [of x] assms by linarith

text \<open>The relative label of a readable time is one of five: now, or a count of minutes from 1 to 59,
  of hours from 1 to 23, of days from 1 to 29 (rounded step by step), or the date; a time that
  cannot be read gives a dash.\<close>

theorem formatRelativeTime_forms:
  "\<exists>n. formatRelativeTime getTime now isoDate lang t \<in>
      {em_dash, rl_justNow t, formatDate getTime lang isoDate} \<union>
      (if 1 \<le> n \<and> n < 60 then {with_count (rl_minutesAgo t) n} else {}) \<union>
      (if 1 \<le> n \<and> n < 24 then {with_count (rl_hoursAgo t) n} else {}) \<union>
      (if 1 \<le> n \<and> n < 30 then {with_count (rl_daysAgo t) n} else {})"
proof -
  have abs_count: "with_count s k = with_count s \<bar>k\<bar>" for s k by (simp add: with_count_def)
  have form: "\<exists>n. relative_label t d secs \<in>
      {em_dash, rl_justNow t, d} \<union> (if 1 \<le> n \<and> n < 60 then {with_count (rl_minutesAgo t) n} else {}) \<union>
      (if 1 \<le> n \<and> n < 24 then {with_count (rl_hoursAgo t) n} else {}) \<union>
      (if 1 \<le> n \<and> n < 30 then {with_count (rl_daysAgo t) n} else {})" for d secs
  proof (cases "\<bar>secs\<bar> < 60")
    case True
    then show ?thesis by (simp add: relative_label_def)
  next
    case s: False
    define m where "m = math_round (of_int secs / 60)"
    define h where "h = math_round (of_int m / 60)"
    define dd where "dd = math_round (of_int h / 24)"
    have m1: "1 \<le> \<bar>m\<bar>" using s unfolding m_def by (intro math_round_abs_ge) auto
    have h1: "1 \<le> \<bar>h\<bar>" if "\<not> \<bar>m\<bar> < 60" using that unfolding h_def by (intro math_round_abs_ge) auto
    have d1: "1 \<le> \<bar>dd\<bar>" if "\<not> \<bar>h\<bar> < 24" using that unfolding dd_def by (intro math_round_abs_ge) auto
    show ?thesis
      using s m1 h1 d1
      by (intro exI [of _ "if \<bar>m\<bar> < 60 then \<bar>m\<bar> else if \<bar>h\<bar> < 24 then \<bar>h\<bar> else \<bar>dd\<bar>"])
        (simp add: relative_label_def Let_def m_def [symmetric] h_def [symmetric] dd_def [symmetric]
          abs_count [of _ m] abs_count [of _ h] abs_count [of _ dd])
  qed
  show ?thesis
  proof (cases "isoDate = None \<or> isoDate = Some []")
    case True
    then show ?thesis by (auto simp: formatRelativeTime_def)
  next
    case False
    then show ?thesis
      using form [of "formatDate getTime lang isoDate"]
      by (cases "getTime (the isoDate)") (auto simp: formatRelativeTime_def)
  qed
qed

text \<open>A time \<open>k\<close> whole minutes ahead is labelled like one \<open>k\<close> whole minutes past: the labels say
  ago for both.\<close>

theorem future_labelled_as_past:
  assumes "1 \<le> k" and "k < 60" and "getTime past = Fin (now - of_int (k * 60000))"
    and "getTime future = Fin (now + of_int (k * 60000))" and "past \<noteq> []" and "future \<noteq> []"
  shows "formatRelativeTime getTime now (Some past) lang t = with_count (rl_minutesAgo t) k \<and>
    formatRelativeTime getTime now (Some future) lang t = with_count (rl_minutesAgo t) k"
proof -
  have sec: "math_round ((now + of_int j * 60000 - now) / 1000) = j * 60" for j :: int
    using math_round_of_int [of "j * 60"] by (simp add: mult.commute)
  have min: "math_round (of_int (j * 60) / 60) = j" for j :: int
    using math_round_of_int [of j] by simp
  have "relative_label t d (j * 60) = with_count (rl_minutesAgo t) j" if "1 \<le> \<bar>j\<bar>" "\<bar>j\<bar> < 60" for d j
    using that min [of j] by (auto simp: relative_label_def Let_def abs_mult)
  from this [of k] this [of "- k"] show ?thesis
    using assms sec [of k] sec [of "- k"] by (simp add: formatRelativeTime_def with_count_def)
qed

theorem future_labelled_as_past_witness:
  "formatRelativeTime (\<lambda>s. if s = ''p'' then Fin (0 - 300000) else Fin (0 + 300000)) 0 (Some ''f'') En
     \<lparr>rl_justNow = ''now'', rl_minutesAgo = ''{count}m ago'', rl_hoursAgo = [], rl_daysAgo = []\<rparr> = ''5m ago''"
proof -
  let ?g = "\<lambda>s. if s = ''p'' then Fin (0 - 300000) else Fin (0 + 300000 :: real)"
  let ?t = "\<lparr>rl_justNow = ''now'', rl_minutesAgo = ''{count}m ago'', rl_hoursAgo = [], rl_daysAgo = []\<rparr>"
  have "formatRelativeTime ?g 0 (Some ''p'') En ?t = with_count (rl_minutesAgo ?t) 5 \<and>
      formatRelativeTime ?g 0 (Some ''f'') En ?t = with_count (rl_minutesAgo ?t) 5"
    by (rule future_labelled_as_past) simp_all
  moreover have "with_count ''{count}m ago'' 5 = ''5m ago''"
    by code_simp
  ultimately show ?thesis by simp
qed

section \<open>Local times\<close>

text \<open>The parts of a local time, and a time zone: its parts of a time, and the start of its day.\<close>

record local_parts =
  lt_year :: int
  lt_month :: int
  lt_day :: int
  lt_hours :: int
  lt_minutes :: int

record local_zone =
  lz_parts :: "real \<Rightarrow> local_parts"
  lz_midnight :: "real \<Rightarrow> real"

definition pad :: "int \<Rightarrow> string" where
  "pad value = pad_start 2 (CHR ''0'') (int_str value)"

definition toLocalInputValue :: "local_zone \<Rightarrow> real \<Rightarrow> string" where
  "toLocalInputValue z ms =
     (let d = lz_parts z ms
      in int_str (lt_year d) @ ''-'' @ pad (lt_month d + 1) @ ''-'' @ pad (lt_day d) @ ''T'' @ pad (lt_hours d) @ '':'' @
         pad (lt_minutes d))"

datatype range_kind = RangeToday | Range24Hours | Range7Days

record date_range =
  dr_from :: string
  dr_to :: string

definition getDateRange :: "local_zone \<Rightarrow> real \<Rightarrow> range_kind \<Rightarrow> date_range" where
  "getDateRange z now kind =
     (let frm = (if kind = RangeToday then lz_midnight z now
                 else now - (if kind = Range24Hours then 24 else 24 * 7) * 60 * 60 * 1000)
      in \<lparr>dr_from = toLocalInputValue z frm, dr_to = toLocalInputValue z now\<rparr>)"

definition toApiDate :: "string \<Rightarrow> string" where
  "toApiDate value = (if length value = 16 then value @ '':00'' else value)"

subsection \<open>The copies in the reports module\<close>

definition padDatePart :: "int \<Rightarrow> string" where
  "padDatePart value = pad_start 2 (CHR ''0'') (int_str value)"

definition formatDateTimeInput :: "local_zone \<Rightarrow> real \<Rightarrow> string" where
  "formatDateTimeInput z ms =
     (let d = lz_parts z ms
      in join_with [] [int_str (lt_year d), ''-'', padDatePart (lt_month d + 1), ''-'', padDatePart (lt_day d), ''T'',
           padDatePart (lt_hours d), '':'', padDatePart (lt_minutes d)])"

definition getInitialReportRange :: "local_zone \<Rightarrow> real \<Rightarrow> date_range" where
  "getInitialReportRange z now =
     \<lparr>dr_from = formatDateTimeInput z (now - 6 * 60 * 60 * 1000), dr_to = formatDateTimeInput z now\<rparr>"

definition formatReportDateForApi :: "string \<Rightarrow> string" where
  "formatReportDateForApi value = (if length value = 16 then value @ '':00'' else value)"

definition parts_ok :: "local_parts \<Rightarrow> bool" where
  "parts_ok d \<longleftrightarrow> 1000 \<le> lt_year d \<and> lt_year d \<le> 9999 \<and> 0 \<le> lt_month d \<and> lt_month d \<le> 11 \<and>
     1 \<le> lt_day d \<and> lt_day d \<le> 31 \<and> 0 \<le> lt_hours d \<and> lt_hours d \<le> 23 \<and> 0 \<le> lt_minutes d \<and> lt_minutes d \<le> 59"

lemma length_pad: "0 \<le> v \<Longrightarrow> v < 100 \<Longrightarrow> length (pad v) = 2"
  using length_nat_str_two [of "nat v"] by (simp add: pad_def length_pad_start int_str_def)

lemma length_nat_str_step:
  "10 \<le> n \<Longrightarrow> length (nat_str n) = Suc (length (nat_str (n div 10)))"
  "n < 10 \<Longrightarrow> length (nat_str n) = 1"
  by (simp_all add: nat_str.simps [of n])

lemma length_year: "1000 \<le> y \<Longrightarrow> y \<le> 9999 \<Longrightarrow> length (int_str y) = 4"
proof -
  assume y: "1000 \<le> y" "y \<le> 9999"
  obtain n where n: "n = nat y" by blast
  with y have b: "1000 \<le> n" "n \<le> 9999" by simp_all
  have div10: "10 * m \<le> k \<Longrightarrow> m \<le> k div 10" "k < 10 * m \<Longrightarrow> k div 10 < m" for k m :: nat
    by presburger+
  obtain n1 n2 n3 where d: "n1 = n div 10" "n2 = n1 div 10" "n3 = n2 div 10" by blast
  have "100 \<le> n1" "n1 < 1000" using b by (simp_all add: d(1) div10)
  then have n2: "10 \<le> n2" "n2 < 100" by (simp_all add: d(2) div10)
  then have "n3 < 10" by (simp add: d(3) div10)
  then have "length (nat_str n3) = 1" by (rule length_nat_str_step(2))
  moreover have "length (nat_str n2) = Suc (length (nat_str n3))" "length (nat_str n1) = Suc (length (nat_str n2))"
      "length (nat_str n) = Suc (length (nat_str n1))"
    using length_nat_str_step(1) [of n2] length_nat_str_step(1) [of n1] length_nat_str_step(1) [of n]
      n2 \<open>100 \<le> n1\<close> b by (simp_all add: d)
  ultimately have "length (nat_str n) = 4" by simp
  with y n show ?thesis by (simp add: int_str_def)
qed

text \<open>The dates of the history view and of the reports page are written by two copies of the same
  code, which agree; and a time in the years 1000 to 9999 is written with 16 characters, so the form
  sent to the server always has its seconds, and adding them twice adds them once.\<close>

theorem api_dates_well_formed:
  assumes "parts_ok (lz_parts z ms)"
  shows "formatDateTimeInput z ms = toLocalInputValue z ms \<and>
    formatReportDateForApi (formatDateTimeInput z ms) = toApiDate (toLocalInputValue z ms) \<and>
    length (toLocalInputValue z ms) = 16 \<and>
    toApiDate (toLocalInputValue z ms) = toLocalInputValue z ms @ '':00'' \<and>
    toApiDate (toApiDate (toLocalInputValue z ms)) = toApiDate (toLocalInputValue z ms)"
proof -
  have same: "formatDateTimeInput z ms = toLocalInputValue z ms"
    by (simp add: formatDateTimeInput_def toLocalInputValue_def Let_def padDatePart_def pad_def)
  have len: "length (toLocalInputValue z ms) = 16"
    using assms by (simp add: toLocalInputValue_def Let_def parts_ok_def length_pad length_year)
  show ?thesis using same len by (simp add: toApiDate_def formatReportDateForApi_def)
qed

theorem api_dates_well_formed_witness:
  "toApiDate (toLocalInputValue \<lparr>lz_parts = (\<lambda>_. \<lparr>lt_year = 2026, lt_month = 0, lt_day = 9, lt_hours = 7, lt_minutes = 5\<rparr>),
     lz_midnight = id\<rparr> 0) = ''2026-01-09T07:05:00''"
proof -
  let ?z = "\<lparr>lz_parts = (\<lambda>_. \<lparr>lt_year = 2026, lt_month = 0, lt_day = 9, lt_hours = 7, lt_minutes = 5\<rparr>), lz_midnight = id\<rparr>"
  have "parts_ok (lz_parts ?z 0)" by (simp add: parts_ok_def)
  from api_dates_well_formed [OF this]
  have "toApiDate (toLocalInputValue ?z 0) = toLocalInputValue ?z 0 @ '':00''" by blast
  moreover have "toLocalInputValue ?z 0 = ''2026-01-09T07:05''"
    unfolding toLocalInputValue_def by code_simp
  ultimately show ?thesis by simp
qed

end
