(* ===== verification/TextUtils.thy ===== *)
theory TextUtils
  imports JsValues ApiTypes
begin

text \<open>
  The small functions on texts and numbers: templates (\<open>lib/index.ts\<close>), \<open>lib/email-utils.ts\<close>,
  \<open>lib/number-utils.ts\<close>, \<open>lib/features/vehicle-utils.ts\<close>, \<open>lib/http-utils.ts\<close>, the CSV export
  (\<open>lib/files-utils.ts\<close>), the clipboard helper (\<open>lib/copy-to-clipboard.ts\<close>), the theme and layout
  stores (\<open>lib/stores\<close>) and the password meter (\<open>PasswordStrength.tsx\<close>).
\<close>

section \<open>Templates\<close>

text \<open>\<open>\w\<close>\<close>

definition is_word :: "char \<Rightarrow> bool" where
  "is_word c \<longleftrightarrow>
     (let n = (of_char c :: nat)
      in (48 \<le> n \<and> n \<le> 57) \<or> (65 \<le> n \<and> n \<le> 90) \<or> n = 95 \<or> (97 \<le> n \<and> n \<le> 122))"

text \<open>
  \<open>template.replace(/\{(\w+)\}/g, f)\<close>: a brace, the longest run of word characters (at least
  one), a closing brace; anything else is copied. \<open>vars\<close> holds the values as texts.
\<close>

function interpolateTemplate :: "(string \<Rightarrow> string option) \<Rightarrow> string \<Rightarrow> string" where
  "interpolateTemplate vars [] = []"
| "interpolateTemplate vars (c # cs) =
     (let key = takeWhile is_word cs; rest = dropWhile is_word cs
      in if c = CHR ''{'' \<and> key \<noteq> [] \<and> rest \<noteq> [] \<and> hd rest = CHR ''}''
         then (case vars key of None \<Rightarrow> ''{'' @ key @ ''}'' | Some v \<Rightarrow> v) @ interpolateTemplate vars (tl rest)
         else c # interpolateTemplate vars cs)"
  by pat_completeness auto
termination
proof (relation "measure (\<lambda>p. length (snd p))", goal_cases)
  case (2 vars c cs key rest)
  have "length rest \<le> length cs" using length_dropWhile_le [of is_word cs] 2(2) by simp
  then show ?case using length_tl [of rest] by simp
qed simp_all

lemma interpolate_plain:
  "CHR ''{'' \<notin> set a \<Longrightarrow> interpolateTemplate vars (a @ b) = a @ interpolateTemplate vars b"
  by (induction a) (auto simp: Let_def)

lemma interpolate_key:
  assumes "key \<noteq> []" "list_all is_word key"
  shows "interpolateTemplate vars (''{'' @ key @ ''}'' @ b) =
    (case vars key of None \<Rightarrow> ''{'' @ key @ ''}'' | Some v \<Rightarrow> v) @ interpolateTemplate vars b"
proof -
  have nw: "\<not> is_word (CHR ''}'')" by (simp add: is_word_def)
  have "takeWhile is_word (key @ CHR ''}'' # b) = key" "dropWhile is_word (key @ CHR ''}'' # b) = CHR ''}'' # b"
    using assms(2) nw by (simp_all add: list_all_iff takeWhile_append2 dropWhile_append2)
  then show ?thesis using assms(1) by (simp add: Let_def)
qed

text \<open>Filling a template puts the value of each known key in place of its braces and leaves an
  unknown key and any other text as it is; a value is not searched for keys again, so text from a
  user, a name with braces for instance, is shown as it is.\<close>

theorem interpolation_is_single_pass:
  assumes "CHR ''{'' \<notin> set a" and "key \<noteq> []" and "list_all is_word key"
  shows "interpolateTemplate vars (a @ ''{'' @ key @ ''}'' @ b) =
    a @ (case vars key of None \<Rightarrow> ''{'' @ key @ ''}'' | Some v \<Rightarrow> v) @ interpolateTemplate vars b"
  using interpolate_plain [OF assms(1)] interpolate_key [OF assms(2,3)] by simp

theorem interpolation_is_single_pass_witness:
  "interpolateTemplate (map_of [(''name'', ''{other}''), (''other'', ''x'')]) ''Hi {name}!'' = ''Hi {other}!''"
proof -
  have "interpolateTemplate (map_of [(''name'', ''{other}''), (''other'', ''x'')]) (''Hi '' @ ''{'' @ ''name'' @ ''}'' @ ''!'') =
      ''Hi '' @ (case map_of [(''name'', ''{other}''), (''other'', ''x'')] ''name'' of None \<Rightarrow> ''{'' @ ''name'' @ ''}'' | Some v \<Rightarrow> v) @
      interpolateTemplate (map_of [(''name'', ''{other}''), (''other'', ''x'')]) ''!''"
    by (rule interpolation_is_single_pass) (simp_all add: is_word_def)
  then show ?thesis by simp
qed

section \<open>Emails, numbers, vehicles\<close>

definition maskEmail :: "string \<Rightarrow> string" where
  "maskEmail email =
     (let i = index_of_char (CHR ''@'') email
      in if i \<le> 0 then email
         else let loc = take (nat i) email; domain = drop (nat i) email
              in take 2 loc @ bullets @ domain)"

text \<open>A masked address shows at most two characters of the part before the at sign, the same three
  bullets whatever its length, and the domain unchanged; so two addresses with the same domain whose
  local parts begin alike are masked alike. A text without a local part is left as it is.\<close>

theorem maskEmail_hides_local_part:
  assumes "CHR ''@'' \<notin> set loc" and "loc \<noteq> []"
  shows "maskEmail (loc @ ''@'' @ domain) = take 2 loc @ bullets @ ''@'' @ domain \<and>
    maskEmail (''@'' @ domain) = ''@'' @ domain \<and> maskEmail loc = loc"
proof -
  have t: "takeWhile (\<lambda>d. d \<noteq> CHR ''@'') (loc @ ''@'' @ domain) = loc"
    using assms(1) by (subst takeWhile_append2) auto
  have "index_of_char (CHR ''@'') (loc @ ''@'' @ domain) = int (length loc)"
    using t by (simp add: index_of_char_def)
  then show ?thesis using assms by (simp add: maskEmail_def Let_def index_of_char_def)
qed

theorem maskEmail_hides_local_part_witness:
  "maskEmail (''alex'' @ ''@'' @ ''open-gps.local'') = ''al'' @ bullets @ ''@open-gps.local''"
  using maskEmail_hides_local_part [of "''alex''" "''open-gps.local''"] by simp

definition renderNumberWithUnit :: "(number \<Rightarrow> string) \<Rightarrow> number option \<Rightarrow> string \<Rightarrow> nat \<Rightarrow> string" where
  "renderNumberWithUnit ns value unit digits =
     (case value of None \<Rightarrow> em_dash | Some v \<Rightarrow> to_fixed ns digits v @ '' '' @ unit)"

definition clampValue :: "number \<Rightarrow> number \<Rightarrow> number \<Rightarrow> number" where
  "clampValue value lo hi = num_min hi (num_max lo value)"

lemma clampValue_finite:
  "lo \<le> hi \<Longrightarrow> clampValue (Fin v) (Fin lo) (Fin hi) = Fin (max lo (min hi v))"
  by (auto simp: clampValue_def num_min_def num_max_def)

lemma clampValue_range:
  "num_leq lo hi \<Longrightarrow> v \<noteq> NaN \<Longrightarrow> num_leq lo (clampValue v lo hi) \<and> num_leq (clampValue v lo hi) hi"
  unfolding clampValue_def num_min_def num_max_def by (cases lo; cases hi; cases v) auto

datatype metric_tone = ToneOk | ToneWarn | ToneBad | ToneNone

definition getVehicleBatteryMetricTone :: "number option \<Rightarrow> metric_tone" where
  "getVehicleBatteryMetricTone percent =
     (case percent of None \<Rightarrow> ToneNone
      | Some p \<Rightarrow> if num_less p (Fin 20) then ToneBad else if num_less p (Fin 50) then ToneWarn else ToneOk)"

text \<open>\<open>URLSearchParams.get('id')\<close> is the argument.\<close>

definition readDeviceIdFromUrl :: "string option \<Rightarrow> string option" where
  "readDeviceIdFromUrl i = (case i of None \<Rightarrow> None | Some s \<Rightarrow> if 0 < length s then Some s else None)"

section \<open>CSV export\<close>

definition dquote :: char where "dquote = CHR 0x22"
definition newline :: char where "newline = CHR 0x0A"

definition csv_field :: "string \<Rightarrow> string" where
  "csv_field value = [dquote] @ replace_all_char dquote [dquote, dquote] value @ [dquote]"

definition csv_row :: "string list \<Rightarrow> string" where
  "csv_row row = join_with '','' (map csv_field row)"

definition csv_text :: "string list list \<Rightarrow> string" where
  "csv_text rows = join_with [newline] (map csv_row rows)"

record csv_labels =
  cl_recorded :: string
  cl_coordinates :: string
  cl_speed :: string
  cl_altitude :: string
  cl_accuracy :: string
  cl_source :: string
  cl_cellular :: string

definition optional_number :: "(number \<Rightarrow> string) \<Rightarrow> number option \<Rightarrow> string" where
  "optional_number ns x = (case x of None \<Rightarrow> [] | Some v \<Rightarrow> ns v)"

definition point_row :: "(number \<Rightarrow> string) \<Rightarrow> csv_labels \<Rightarrow> location_point \<Rightarrow> string list" where
  "point_row ns labels p =
     [lp_recorded_at p, ns (lp_latitude p) @ '', '' @ ns (lp_longitude p), optional_number ns (lp_speed p),
      optional_number ns (lp_altitude p), optional_number ns (lp_accuracy p), cl_cellular labels]"

definition csv_of_points :: "(number \<Rightarrow> string) \<Rightarrow> location_point list \<Rightarrow> csv_labels \<Rightarrow> string" where
  "csv_of_points ns points labels =
     csv_text ([cl_recorded labels, cl_coordinates labels, cl_speed labels, cl_altitude labels, cl_accuracy labels,
                cl_source labels] # map (point_row ns labels) points)"

text \<open>\<open>name.replace(/[^a-z0-9]+/gi, '-').toLowerCase() + '-locations.csv'\<close>\<close>

definition is_alnum :: "char \<Rightarrow> bool" where
  "is_alnum c \<longleftrightarrow> is_word c \<and> c \<noteq> CHR ''_''"

function dash_runs :: "string \<Rightarrow> string" where
  "dash_runs [] = []"
| "dash_runs (c # cs) =
     (if is_alnum c then c # dash_runs cs else CHR ''-'' # dash_runs (dropWhile (\<lambda>d. \<not> is_alnum d) cs))"
  by pat_completeness auto
termination
  by (relation "measure length") (auto simp: less_Suc_eq_le length_dropWhile_le)

definition csv_file_name :: "string \<Rightarrow> string" where
  "csv_file_name name = to_lower (dash_runs name) @ ''-locations.csv''"

record download =
  dl_name :: string
  dl_text :: string

definition downloadCsv ::
  "(number \<Rightarrow> string) \<Rightarrow> 'z device_scheme \<Rightarrow> location_point list \<Rightarrow> csv_labels \<Rightarrow> download" where
  "downloadCsv ns device points labels =
     \<lparr>dl_name = csv_file_name (d_name device), dl_text = csv_of_points ns points labels\<rparr>"

subsection \<open>Reading it back\<close>

text \<open>A reader of the format: the rows of quoted fields of a text.\<close>

fun read_quoted :: "string \<Rightarrow> string \<times> string" where
  "read_quoted [] = ([], [])"
| "read_quoted [c] = (if c = dquote then ([], []) else ([c], []))"
| "read_quoted (c # d # cs) =
     (if c = dquote then
        (if d = dquote then (let r = read_quoted cs in (dquote # fst r, snd r)) else ([], d # cs))
      else (let r = read_quoted (d # cs) in (c # fst r, snd r)))"

lemma read_quoted_field:
  "rest = [] \<or> hd rest \<noteq> dquote \<Longrightarrow>
   read_quoted (replace_all_char dquote [dquote, dquote] v @ dquote # rest) = (v, rest)"
proof (induction v)
  case Nil
  then show ?case by (cases rest) (auto simp: replace_all_char_def)
next
  case (Cons c v)
  have step: "replace_all_char dquote [dquote, dquote] (c # v) =
      (if c = dquote then [dquote, dquote] else [c]) @ replace_all_char dquote [dquote, dquote] v"
    by (simp add: replace_all_char_def)
  show ?case
  proof (cases "c = dquote")
    case True
    with Cons step show ?thesis by simp
  next
    case False
    obtain x xs where x: "replace_all_char dquote [dquote, dquote] v @ dquote # rest = x # xs"
      by (cases "replace_all_char dquote [dquote, dquote] v") auto
    with False step Cons show ?thesis by simp
  qed
qed

lemma read_quoted_shorter: "length (snd (read_quoted s)) \<le> length s"
  by (induction s rule: read_quoted.induct) (auto simp: Let_def)

function read_csv :: "string \<Rightarrow> string list list" where
  "read_csv [] = []"
| "read_csv (c # cs) =
     (let r = read_quoted cs; rest = snd r
      in case rest of
           [] \<Rightarrow> [[fst r]]
         | d # ds \<Rightarrow>
             if d = CHR '','' then (case read_csv ds of [] \<Rightarrow> [[fst r]] | row # rows \<Rightarrow> (fst r # row) # rows)
             else [fst r] # read_csv ds)"
  by pat_completeness auto

termination
proof (relation "measure length", goal_cases)
  case (2 c cs r rest d ds)
  have "length rest \<le> length cs" using read_quoted_shorter [of cs] 2(1,2) by simp
  then show ?case using 2(3) by simp
next
  case (3 c cs r rest d ds)
  have "length rest \<le> length cs" using read_quoted_shorter [of cs] 3(1,2) by simp
  then show ?case using 3(3) by simp
qed simp

lemma csv_row_Cons: "csv_row (v # w # ws) = csv_field v @ '','' @ csv_row (w # ws)"
  by (simp add: csv_row_def)

lemma read_csv_row:
  "row \<noteq> [] \<Longrightarrow> read_csv (csv_row row) = [row] \<and>
   read_csv (csv_row row @ newline # tail_text) = row # read_csv tail_text"
proof (induction row)
  case (Cons v row)
  have comma: "hd (CHR '','' # xs) \<noteq> dquote" "hd (newline # xs) \<noteq> dquote" "newline \<noteq> CHR '',''" for xs
    by (simp_all add: dquote_def newline_def)
  show ?case
  proof (cases row)
    case Nil
    then show ?thesis
      using read_quoted_field [of "[]" v] read_quoted_field [of "newline # tail_text" v] comma
      by (simp add: csv_row_def csv_field_def)
  next
    case (Cons w ws)
    from Cons Cons.IH have "read_csv (csv_row (w # ws)) = [w # ws]"
        "read_csv (csv_row (w # ws) @ newline # tail_text) = (w # ws) # read_csv tail_text" by simp_all
    then show ?thesis
      using read_quoted_field [of "CHR '','' # csv_row (w # ws)" v] comma
        read_quoted_field [of "CHR '','' # csv_row (w # ws) @ newline # tail_text" v]
      unfolding Cons csv_row_Cons by (simp add: csv_field_def)
  qed
qed simp

lemma read_csv_text: "\<forall>r \<in> set rows. r \<noteq> [] \<Longrightarrow> rows \<noteq> [] \<Longrightarrow> read_csv (csv_text rows) = rows"
proof (induction rows)
  case (Cons r rows)
  then show ?case
    by (cases rows) (simp_all add: csv_text_def read_csv_row)
qed simp

text \<open>The characters of a file name: the letters and digits of ASCII, and those of them in lower case.\<close>

definition name_chars :: string where
  "name_chars = ''ABCDEFGHIJKLMNOPQRSTUVWXYZabcdefghijklmnopqrstuvwxyz0123456789''"

definition stem_chars :: string where
  "stem_chars = ''abcdefghijklmnopqrstuvwxyz0123456789''"

lemma name_codes: "map (of_char :: char \<Rightarrow> nat) name_chars = [65..<91] @ [97..<123] @ [48..<58]"
  by code_simp

lemma is_alnum_iff: "is_alnum c \<longleftrightarrow> c \<in> set name_chars"
proof -
  have "inj (of_char :: char \<Rightarrow> nat)" by (rule inj_of_char)
  then have "c \<in> set name_chars \<longleftrightarrow> (of_char c :: nat) \<in> set (map of_char name_chars)" by (auto dest: injD)
  also have "\<dots> \<longleftrightarrow> (of_char c :: nat) \<in> {48..<58} \<union> {65..<91} \<union> {97..<123}"
    unfolding name_codes set_append set_upt by blast
  also have "\<dots> \<longleftrightarrow> is_word c \<and> (of_char c :: nat) \<noteq> 95" by (auto simp: is_word_def Let_def)
  also have "(of_char c :: nat) \<noteq> 95 \<longleftrightarrow> c \<noteq> CHR ''_''"
    using inj_eq [OF \<open>inj (of_char :: char \<Rightarrow> nat)\<close>, of c "CHR ''_''"] by simp
  finally show ?thesis by (simp add: is_alnum_def)
qed

lemma lower_alnum: "is_alnum c \<Longrightarrow> lower_char c \<in> set stem_chars"
proof -
  have "list_all (\<lambda>c. lower_char c \<in> set stem_chars) name_chars" by code_simp
  then show "is_alnum c \<Longrightarrow> lower_char c \<in> set stem_chars" by (simp add: list_all_iff is_alnum_iff)
qed

lemma stem_no_dash: "CHR ''-'' \<notin> set stem_chars" "lower_char (CHR ''-'') = CHR ''-''" "\<not> is_alnum (CHR ''-'')"
  by code_simp+

lemma dash_runs_chars: "set (to_lower (dash_runs n)) \<subseteq> insert (CHR ''-'') (set stem_chars)"
  by (induction n rule: dash_runs.induct) (auto simp: to_lower_def lower_alnum stem_no_dash)

lemma dash_runs_single: "successively (\<lambda>a b. a \<noteq> CHR ''-'' \<or> b \<noteq> CHR ''-'') (to_lower (dash_runs n))"
proof (induction n rule: dash_runs.induct)
  case (2 c cs)
  have head: "x \<noteq> CHR ''-''" if "to_lower (dash_runs (dropWhile (\<lambda>d. \<not> is_alnum d) cs)) = x # ys" for x ys
  proof (cases "dropWhile (\<lambda>d. \<not> is_alnum d) cs")
    case (Cons d ds)
    then have "is_alnum d" by (auto simp: dropWhile_eq_Cons_conv)
    then show ?thesis using that Cons lower_alnum [of d] stem_no_dash by (auto simp: to_lower_def)
  next
    case Nil
    from that [unfolded Nil] show ?thesis by (simp add: to_lower_def)
  qed
  show ?case
  proof (cases "is_alnum c")
    case True
    then have "lower_char c \<noteq> CHR ''-''" using lower_alnum [of c] stem_no_dash by auto
    then show ?thesis using True 2(1) by (cases "to_lower (dash_runs cs)") (auto simp: to_lower_def)
  next
    case False
    then show ?thesis using 2(2) head
      by (cases "to_lower (dash_runs (dropWhile (\<lambda>d. \<not> is_alnum d) cs))") (auto simp: to_lower_def stem_no_dash)
  qed
qed (simp add: to_lower_def)

text \<open>A letter or digit stands for itself in lower case, a stretch of other characters for a dash.\<close>

abbreviation stands_for :: "string \<Rightarrow> char \<Rightarrow> bool" where
  "stands_for g s \<equiv> (\<exists>c. g = [c] \<and> c \<in> set name_chars \<and> s = lower_char c) \<or> (g \<noteq> [] \<and> set g \<inter> set name_chars = {} \<and> s = CHR ''-'')"

lemma dash_runs_groups: "\<exists>gs. concat gs = n \<and> list_all2 stands_for gs (to_lower (dash_runs n))"
proof (induction n rule: dash_runs.induct)
  case (2 c cs)
  show ?case
  proof (cases "is_alnum c")
    case True
    then obtain gs where "concat gs = cs" "list_all2 stands_for gs (to_lower (dash_runs cs))" using 2(1) by blast
    then show ?thesis using True by (intro exI [of _ "[c] # gs"]) (simp add: to_lower_def is_alnum_iff)
  next
    case False
    then obtain gs where gs: "concat gs = dropWhile (\<lambda>d. \<not> is_alnum d) cs"
      "list_all2 stands_for gs (to_lower (dash_runs (dropWhile (\<lambda>d. \<not> is_alnum d) cs)))" using 2(2) by blast
    have "set (takeWhile (\<lambda>d. \<not> is_alnum d) cs) \<inter> set name_chars = {}" using set_takeWhileD by (fastforce simp: is_alnum_iff)
    then show ?thesis using False gs
      by (intro exI [of _ "(c # takeWhile (\<lambda>d. \<not> is_alnum d) cs) # gs"]) (simp add: to_lower_def is_alnum_iff stem_no_dash)
  qed
qed (simp add: to_lower_def)

text \<open>C25: The exported file holds what was on screen: a CSV reader that undoes the quoting gets back the
  header and one row per point, in order, with every field as it was, whatever quotes, commas or
  line breaks the fields contain. The file is named after the device: before the ending, each letter or digit of its
  name stands in lower case and one dash for each whole stretch of other characters, in order and with nothing else.\<close>

theorem csv_export_reads_back:
  "read_csv (dl_text (downloadCsv ns device points labels)) =
     [cl_recorded labels, cl_coordinates labels, cl_speed labels, cl_altitude labels, cl_accuracy labels, cl_source labels]
     # map (\<lambda>p. [lp_recorded_at p, ns (lp_latitude p) @ '', '' @ ns (lp_longitude p),
         (case lp_speed p of None \<Rightarrow> [] | Some v \<Rightarrow> ns v), (case lp_altitude p of None \<Rightarrow> [] | Some v \<Rightarrow> ns v),
         (case lp_accuracy p of None \<Rightarrow> [] | Some v \<Rightarrow> ns v), cl_cellular labels]) points \<and>
   (\<exists>stem gs. dl_name (downloadCsv ns device points labels) = stem @ ''-locations.csv'' \<and>
      concat gs = d_name device \<and>
      list_all2 (\<lambda>g s. (\<exists>c. g = [c] \<and> c \<in> set name_chars \<and> s = lower_char c) \<or>
        (g \<noteq> [] \<and> set g \<inter> set name_chars = {} \<and> s = CHR ''-'')) gs stem \<and>
      set stem \<subseteq> insert (CHR ''-'') (set stem_chars) \<and>
      successively (\<lambda>a b. {a, b} \<noteq> {CHR ''-''}) stem)"
proof -
  have rows: "read_csv (csv_text (hdr # map (point_row ns labels) points)) = hdr # map (point_row ns labels) points"
    if "hdr \<noteq> []" for hdr
    by (rule read_csv_text) (use that in \<open>auto simp: point_row_def\<close>)
  have name: "\<exists>stem gs. dl_name (downloadCsv ns device points labels) = stem @ ''-locations.csv'' \<and> concat gs = d_name device \<and>
      list_all2 stands_for gs stem \<and> set stem \<subseteq> insert (CHR ''-'') (set stem_chars) \<and>
      successively (\<lambda>a b. {a, b} \<noteq> {CHR ''-''}) stem"
  proof -
    have "successively (\<lambda>a b. {a, b} \<noteq> {CHR ''-''}) (to_lower (dash_runs (d_name device)))"
      by (rule successively_mono [OF dash_runs_single]) auto
    then show ?thesis using dash_runs_groups [of "d_name device"] dash_runs_chars [of "d_name device"]
      by (auto simp: downloadCsv_def csv_file_name_def)
  qed
  show ?thesis
    by (rule conjI [OF _ name]) (auto simp: downloadCsv_def csv_of_points_def rows point_row_def optional_number_def)
qed

section \<open>The clipboard\<close>

text \<open>The asynchronous interface (absent, or whether its write resolves), the document, and what
  \<open>execCommand\<close> returns (or throws); the state is the number of helper elements in the body.\<close>

record clipboard_env =
  ce_write :: "bool option"
  ce_document :: bool
  ce_exec :: "bool option"

definition legacyCopy :: "clipboard_env \<Rightarrow> string \<Rightarrow> nat \<Rightarrow> bool \<times> nat" where
  "legacyCopy env txt body =
     (if \<not> ce_document env then (False, body)
      else let appended = body + 1; ok = nullish (ce_exec env) False in (ok, appended - 1))"

definition copyToClipboard :: "clipboard_env \<Rightarrow> string \<Rightarrow> nat \<Rightarrow> bool \<times> nat" where
  "copyToClipboard env txt body =
     (if txt = [] then (False, body)
      else let copyOk = (ce_write env = Some True)
           in if copyOk then (True, body) else legacyCopy env txt body)"

lemma copyToClipboard_result:
  "copyToClipboard env txt body =
     (txt \<noteq> [] \<and> (ce_write env = Some True \<or> ce_document env \<and> ce_exec env = Some True), body)"
  by (cases "ce_exec env") (auto simp: copyToClipboard_def legacyCopy_def Let_def)

section \<open>Theme and sidebar\<close>

datatype theme = Light | Dark

fun theme_str :: "theme \<Rightarrow> string" where
  "theme_str Light = ''light''"
| "theme_str Dark = ''dark''"

definition isTheme :: "string \<Rightarrow> bool" where
  "isTheme v \<longleftrightarrow> v = ''light'' \<or> v = ''dark''"

text \<open>\<open>th_attr\<close> is the document's attribute (\<open>None\<close>: no document), \<open>th_writable\<close> whether the storage
  takes writes.\<close>

record theme_state =
  th_theme :: theme
  th_attr :: "string option"
  th_stored :: "string option"
  th_writable :: bool

definition readInitialTheme :: "string option \<Rightarrow> theme" where
  "readInitialTheme attr = (case attr of None \<Rightarrow> Light | Some a \<Rightarrow> if a = ''dark'' then Dark else Light)"

definition setTheme :: "theme \<Rightarrow> theme_state \<Rightarrow> theme_state" where
  "setTheme t s =
     s\<lparr>th_theme := t,
       th_attr := (if th_attr s \<noteq> None then Some (theme_str t) else None),
       th_stored := (if th_writable s then Some (theme_str t) else th_stored s)\<rparr>"

definition toggleTheme :: "theme_state \<Rightarrow> theme_state" where
  "toggleTheme s = setTheme (if th_theme s = Dark then Light else Dark) s"

lemma toggleTheme_twice: "th_theme (toggleTheme (toggleTheme s)) = th_theme s"
  by (cases "th_theme s") (simp_all add: toggleTheme_def setTheme_def)

lemma readInitialTheme_setTheme:
  "th_attr s \<noteq> None \<Longrightarrow> readInitialTheme (th_attr (setTheme t s)) = t"
  by (cases t) (simp_all add: readInitialTheme_def setTheme_def)

definition openSidebar :: "bool \<Rightarrow> bool" where "openSidebar was_open = True"
definition closeSidebar :: "bool \<Rightarrow> bool" where "closeSidebar was_open = False"
definition toggleSidebar :: "bool \<Rightarrow> bool" where "toggleSidebar was_open = (\<not> was_open)"

section \<open>Password strength\<close>

definition has_upper :: "string \<Rightarrow> bool" where
  "has_upper pw = list_ex (\<lambda>c. 65 \<le> (of_char c :: nat) \<and> (of_char c :: nat) \<le> 90) pw"

definition has_lower :: "string \<Rightarrow> bool" where
  "has_lower pw = list_ex (\<lambda>c. 97 \<le> (of_char c :: nat) \<and> (of_char c :: nat) \<le> 122) pw"

definition has_digit :: "string \<Rightarrow> bool" where "has_digit pw = list_ex is_digit pw"
definition has_symbol :: "string \<Rightarrow> bool" where "has_symbol pw = list_ex (\<lambda>c. \<not> is_word c) pw"

definition strengthScore :: "string \<Rightarrow> nat" where
  "strengthScore pw =
     (if pw = [] then 0
      else min ((if 8 \<le> length pw then 1 else 0) + (if has_upper pw \<and> has_lower pw then 1 else 0) +
                (if has_digit pw \<and> has_symbol pw then 1 else 0) + (if 12 \<le> length pw then 1 else 0)) 4)"

lemmas strength_defs = strengthScore_def has_upper_def has_lower_def has_digit_def has_symbol_def

text \<open>The password score is at most 4, so it always has a label; it is 4 exactly for passwords of 12
  characters or more with both cases, a digit and a symbol; and typing more characters never lowers
  it.\<close>

theorem strengthScore_bounded_monotone:
  "strengthScore pw \<le> 4 \<and> strengthScore pw \<le> strengthScore (pw @ s) \<and>
   (strengthScore pw = 4 \<longleftrightarrow> 12 \<le> length pw \<and> has_upper pw \<and> has_lower pw \<and> has_digit pw \<and> has_symbol pw)"
  by (auto simp: strength_defs)

lemma short_password_accepted: "strengthScore ''Aa1!'' = 2"
  by code_simp

end
