(* ===== verification/ToastTimers.thy ===== *)
theory ToastTimers
  imports Toasts
begin

text \<open>
  The provider of the toast stack (\<open>components/react/ui/ToastProvider.tsx\<close>): after every
  change of the stack its effect drops the timers it had and arms one for each toast that
  does not stay. The state is the shared one with the armed timers (id, due time).
\<close>

definition TOAST_DEFAULT_DURATION_MS :: int where "TOAST_DEFAULT_DURATION_MS = 5000"
definition TOAST_ERROR_DURATION_MS :: int where "TOAST_ERROR_DURATION_MS = 8000"

definition resolveDuration :: "toast_item \<Rightarrow> int" where
  "resolveDuration t =
     (case t_duration t of Some d \<Rightarrow> d
      | None \<Rightarrow> if t_variant t = ToastError then TOAST_ERROR_DURATION_MS else TOAST_DEFAULT_DURATION_MS)"

record toast_provider = world +
  tp_timers :: "(string \<times> nat) list"

definition arm_timers :: "toast_provider \<Rightarrow> toast_provider" where
  "arm_timers p =
     p\<lparr>tp_timers := map (\<lambda>t. (t_id t, w_now p + nat (resolveDuration t)))
        (filter (\<lambda>t. \<not> resolveDuration t \<le> 0) (w_toasts p))\<rparr>"

datatype provider_event =
    PushToast toast_body
  | DismissToast string
  | ClearToasts
  | TimePasses nat
  | TimerFires string

text \<open>A timer is taken to fire on time: time passes only up to the next due timer, and goes on when that has fired.\<close>

fun provider_step :: "provider_event \<Rightarrow> toast_provider \<Rightarrow> toast_provider" where
  "provider_step (PushToast b) p = arm_timers (snd (toast_push b p))"
| "provider_step (DismissToast i) p = arm_timers (snd (toast_dismiss i p))"
| "provider_step ClearToasts p = arm_timers (snd (toast_clear p))"
| "provider_step (TimePasses ms) p =
     (if list_all (\<lambda>t. w_now p + ms \<le> snd t) (tp_timers p) then p\<lparr>w_now := w_now p + ms\<rparr> else p)"
| "provider_step (TimerFires i) p =
     (if list_ex (\<lambda>t. fst t = i \<and> snd t \<le> w_now p) (tp_timers p)
      then arm_timers (snd (toast_dismiss i p)) else p)"

definition provider_run :: "provider_event list \<Rightarrow> toast_provider \<Rightarrow> toast_provider" where
  "provider_run es p = fold provider_step es p"

definition initial_provider :: toast_provider where
  "initial_provider = world.extend initial_world \<lparr>tp_timers = []\<rparr>"

text \<open>The timers are those armed at the last change of the stack, and none is overdue.\<close>

definition provider_inv :: "toast_provider \<Rightarrow> bool" where
  "provider_inv p \<longleftrightarrow>
     toast_inv p \<and>
     (\<exists>changed \<le> w_now p. tp_timers p = map (\<lambda>t. (t_id t, changed + nat (resolveDuration t)))
        (filter (\<lambda>t. \<not> resolveDuration t \<le> 0) (w_toasts p))) \<and>
     list_all (\<lambda>t. w_now p \<le> snd t) (tp_timers p)"

lemma arm_timers_frame [simp]:
  "w_toasts (arm_timers p) = w_toasts p" "w_counter (arm_timers p) = w_counter p" "w_now (arm_timers p) = w_now p"
  by (simp_all add: arm_timers_def)

lemma arm_timers_inv: "toast_inv p \<Longrightarrow> provider_inv (arm_timers p)"
proof -
  assume "toast_inv p"
  then have "toast_inv (arm_timers p)" by (subst toast_inv_cong [of _ p]) simp_all
  then show ?thesis
    unfolding provider_inv_def
    by (auto simp: arm_timers_def list_all_iff intro!: exI [of _ "w_now p"])
qed

lemma provider_inv_step: "provider_inv p \<Longrightarrow> provider_inv (provider_step e p)"
proof (cases e)
  case (TimePasses ms)
  assume inv: "provider_inv p"
  show ?thesis
  proof (cases "list_all (\<lambda>t. w_now p + ms \<le> snd t) (tp_timers p)")
    case True
    have "toast_inv (p\<lparr>w_now := w_now p + ms\<rparr>)"
      using inv by (subst toast_inv_cong [of _ p]) (simp_all add: provider_inv_def)
    with True inv show ?thesis
      unfolding TimePasses provider_inv_def by (auto intro: trans_le_add1)
  next
    case False
    with inv show ?thesis unfolding TimePasses by simp
  qed
qed (auto simp: provider_inv_def [of p] toast_push_eq intro!: arm_timers_inv toast_inv_pushed toast_inv_dismiss toast_inv_clear)

lemma provider_inv_run: "provider_inv (provider_run es initial_provider)"
proof -
  have "provider_inv p \<Longrightarrow> provider_inv (provider_run es p)" for p
    unfolding provider_run_def by (induction es arbitrary: p) (simp_all add: provider_inv_step)
  moreover have "provider_inv initial_provider"
    by (simp add: provider_inv_def toast_inv_def initial_provider_def world.defs initial_world_def)
  ultimately show ?thesis by blast
qed

text \<open>C22: Whatever is pushed, dismissed, cleared and expires, at most five toasts are shown, no two with
  the same id; there is exactly one timer for each shown toast that does not stay, in the order
  shown, and none for any other; all run from one moment, the last change of the stack; and, timers
  being taken to fire on time, none is overdue.\<close>

theorem toast_stack_and_timers:
  "let p = provider_run es initial_provider in
     length (w_toasts p) \<le> 5 \<and> distinct (map t_id (w_toasts p)) \<and>
     (\<exists>changed \<le> w_now p. tp_timers p =
        map (\<lambda>t. (t_id t, changed + nat (resolveDuration t))) (filter (\<lambda>t. 0 < resolveDuration t) (w_toasts p))) \<and>
     list_all (\<lambda>t. w_now p \<le> snd t) (tp_timers p)"
  using provider_inv_run [of es]
  by (simp add: provider_inv_def toast_inv_def TOAST_STACK_MAX_def not_le)

text \<open>Pushing a toast keeps the newest four, appends the new one with a fresh id, and restarts the
  clock of every toast that stays shown: each that does not stay is due its whole duration from the
  push, however long it has been shown.\<close>

theorem push_restarts_clocks:
  assumes "p = provider_run es initial_provider"
  shows "(\<exists>t. w_toasts (provider_step (PushToast b) p) = slice_neg 4 (w_toasts p) @ [t] \<and>
       t_title t = t_title b \<and> t_id t \<notin> t_id ` set (w_toasts p)) \<and>
    list_all (\<lambda>t. 0 < resolveDuration t \<longrightarrow>
       map_of (tp_timers (provider_step (PushToast b) p)) (t_id t) = Some (w_now p + nat (resolveDuration t)))
      (w_toasts (provider_step (PushToast b) p))"
proof -
  let ?q = "provider_step (PushToast b) p"
  have inv: "provider_inv p" unfolding assms by (rule provider_inv_run)
  then have five: "length (w_toasts p) \<le> 5" and ti: "toast_inv p"
    by (simp_all add: provider_inv_def toast_inv_def TOAST_STACK_MAX_def)
  have toasts: "w_toasts ?q = slice_neg 4 (w_toasts p) @ [with_id (toast_id (w_now p) (w_counter p + 1)) b]"
    by (simp add: toast_push_eq toasts_pushed trim_stack_last [OF five])
  have fresh: "toast_id (w_now p) (w_counter p + 1) \<notin> t_id ` set (w_toasts p)"
    using fresh_toast_id [OF ti] by (metis image_iff)
  have "provider_inv ?q" by (rule provider_inv_step [OF inv])
  then have d: "distinct (map t_id (w_toasts ?q))" by (simp add: provider_inv_def toast_inv_def)
  have timers: "tp_timers ?q = map (\<lambda>t. (t_id t, w_now p + nat (resolveDuration t)))
      (filter (\<lambda>t. \<not> resolveDuration t \<le> 0) (w_toasts ?q))"
    by (simp add: arm_timers_def toast_push_eq)
  have lookup: "map_of (map (\<lambda>t. (t_id t, f t)) (filter P ts)) (t_id x) = Some (f x)"
    if "x \<in> set ts" "P x" "distinct (map t_id ts)" for ts and x :: toast_item and f :: "toast_item \<Rightarrow> nat" and P
    using that by (intro map_of_is_SomeI) (auto simp: distinct_map_filter comp_def)
  have "list_all (\<lambda>t. 0 < resolveDuration t \<longrightarrow>
       map_of (tp_timers ?q) (t_id t) = Some (w_now p + nat (resolveDuration t))) (w_toasts ?q)"
    unfolding list_all_iff timers using lookup [OF _ _ d] by auto
  moreover have "\<exists>t. w_toasts ?q = slice_neg 4 (w_toasts p) @ [t] \<and> t_title t = t_title b \<and> t_id t \<notin> t_id ` set (w_toasts p)"
    using toasts fresh by (intro exI [of _ "with_id (toast_id (w_now p) (w_counter p + 1)) b"]) simp
  ultimately show ?thesis by blast
qed

theorem push_restarts_clocks_witness:
  "list_all (\<lambda>t. 0 < resolveDuration t \<longrightarrow>
       map_of (tp_timers (provider_run [PushToast (mk_toast ToastInfo ''a'' ''x''), TimePasses 4999, PushToast (mk_toast ToastInfo ''b'' ''y'')]
          initial_provider)) (t_id t) = Some (4999 + nat (resolveDuration t)))
     (w_toasts (provider_run [PushToast (mk_toast ToastInfo ''a'' ''x''), TimePasses 4999, PushToast (mk_toast ToastInfo ''b'' ''y'')]
        initial_provider))"
proof -
  let ?es = "[PushToast (mk_toast ToastInfo ''a'' ''x''), TimePasses 4999]"
  let ?p = "provider_run ?es initial_provider"
  have "provider_run (?es @ [PushToast b]) initial_provider = provider_step (PushToast b) ?p" for b
    by (simp add: provider_run_def)
  moreover have "w_now ?p = 4999"
    by (simp add: provider_run_def toast_push_eq arm_timers_def initial_provider_def initial_world_def world.defs
        pushed_def trim_stack_def TOAST_STACK_MAX_def resolveDuration_def TOAST_DEFAULT_DURATION_MS_def mk_toast_def
        with_id_def toast_body.defs)
  ultimately show ?thesis
    using push_restarts_clocks [of ?p ?es "mk_toast ToastInfo ''b'' ''y''"] by simp
qed

end
