(* ===== verification/Reports.thy ===== *)
theory Reports
  imports Dates World
begin

text \<open>
  The reports page (\<open>components/react/features/reports/ReportsPage.tsx\<close>, \<open>ReportsFilters.tsx\<close>,
  \<open>lib/reports-utils.ts\<close>): its filter fields, the loads its effect starts whenever the filter or
  the refresh key changes, and the four sections that are filled as requests settle. Requests
  of several loads overlap; they are numbered here so that an event can say which one settles.
\<close>

section \<open>Types\<close>

datatype period = LastHour | LastSixHours | LastDay | LastWeek | Custom

fun period_str :: "period \<Rightarrow> string" where
  "period_str LastHour = ''lastHour''"
| "period_str LastSixHours = ''lastSixHours''"
| "period_str LastDay = ''lastDay''"
| "period_str LastWeek = ''lastWeek''"
| "period_str Custom = ''custom''"

definition REPORT_PERIODS :: "period list" where
  "REPORT_PERIODS = [LastHour, LastSixHours, LastDay, LastWeek, Custom]"

definition REPORT_VEHICLE_TYPES :: "vehicle_type list" where
  "REPORT_VEHICLE_TYPES = [Bicycle, Motorcycle, Car, Truck, Van, OtherVehicle]"

definition isReportPeriod :: "string \<Rightarrow> bool" where
  "isReportPeriod v \<longleftrightarrow>
     v = ''lastHour'' \<or> v = ''lastSixHours'' \<or> v = ''lastDay'' \<or> v = ''lastWeek'' \<or> v = ''custom''"

definition isReportVehicleType :: "string \<Rightarrow> bool" where
  "isReportVehicleType v \<longleftrightarrow>
     v = ''bicycle'' \<or> v = ''motorcycle'' \<or> v = ''car'' \<or> v = ''truck'' \<or> v = ''van'' \<or> v = ''other''"

lemma isReportPeriod_iff: "isReportPeriod v \<longleftrightarrow> v \<in> period_str ` set REPORT_PERIODS"
  by (auto simp: isReportPeriod_def REPORT_PERIODS_def)

lemma isReportVehicleType_iff: "isReportVehicleType v \<longleftrightarrow> v \<in> vehicle_type_str ` set REPORT_VEHICLE_TYPES"
  by (auto simp: isReportVehicleType_def REPORT_VEHICLE_TYPES_def)

fun REPORT_PERIOD_HOURS :: "period \<Rightarrow> real" where
  "REPORT_PERIOD_HOURS LastHour = 1"
| "REPORT_PERIOD_HOURS LastSixHours = 6"
| "REPORT_PERIOD_HOURS LastDay = 24"
| "REPORT_PERIOD_HOURS LastWeek = 168"
| "REPORT_PERIOD_HOURS Custom = 0"

record section_state =
  ss_data :: "json option"
  ss_loading :: bool
  ss_error :: "string option"

definition createReportSectionState :: section_state where
  "createReportSectionState = \<lparr>ss_data = None, ss_loading = True, ss_error = None\<rparr>"

datatype report_kind = OverviewReport | RoutesReport | HealthReport | QualityReport

definition report_kinds :: "report_kind list" where
  "report_kinds = [OverviewReport, RoutesReport, HealthReport, QualityReport]"

record report_env =
  re_timeZone :: string
  re_zone :: local_zone
  re_getTime :: "string \<Rightarrow> number"
  re_loadError :: string
  re_invalidDate :: string

record report_load =
  rl_id :: nat
  rl_kind :: report_kind
  rl_filter :: report_filter

record reports_page =
  rp_period :: period
  rp_from :: string
  rp_to :: string
  rp_deviceIds :: "string list"
  rp_vehicleType :: "vehicle_type option"
  rp_validationError :: "string option"
  rp_refreshKey :: nat
  rp_sections :: "report_kind \<Rightarrow> section_state"
  rp_inFlight :: "report_load list"
  rp_loads :: "report_filter list"

section \<open>Loading\<close>

definition current_filter :: "report_env \<Rightarrow> reports_page \<Rightarrow> report_filter" where
  "current_filter env p =
     \<lparr>rf_from = formatReportDateForApi (rp_from p), rf_to = formatReportDateForApi (rp_to p),
      rf_timeZone = re_timeZone env, rf_deviceIds = rp_deviceIds p, rf_vehicleType = rp_vehicleType p\<rparr>"

text \<open>\<open>loadReports\<close>: the four sections go to loading and four requests start. The number of a
  request is given by how many loads came before it.\<close>

definition loadReports :: "report_filter \<Rightarrow> reports_page \<Rightarrow> reports_page" where
  "loadReports f p =
     p\<lparr>rp_sections := (\<lambda>_. createReportSectionState),
       rp_inFlight := rp_inFlight p @
         map (\<lambda>(i, k). \<lparr>rl_id = 4 * length (rp_loads p) + i, rl_kind = k, rl_filter = f\<rparr>) (enumerate 0 report_kinds),
       rp_loads := rp_loads p @ [f]\<rparr>"

text \<open>\<open>error instanceof Error ? error.message : t.loadError\<close>\<close>

fun load_error_message :: "report_env \<Rightarrow> thrown \<Rightarrow> string" where
  "load_error_message env (BetterFetchError _ msg _) = msg"
| "load_error_message env (JsError msg) = msg"
| "load_error_message env _ = re_loadError env"

definition loadSection :: "report_env \<Rightarrow> (thrown + json) \<Rightarrow> section_state" where
  "loadSection env out =
     (case out of
        Inr d \<Rightarrow> \<lparr>ss_data = Some d, ss_loading = False, ss_error = None\<rparr>
      | Inl e \<Rightarrow> \<lparr>ss_data = None, ss_loading = False, ss_error = Some (load_error_message env e)\<rparr>)"

text \<open>The effect on \<open>[filter, loadReports, refreshKey]\<close> after a change of the page.\<close>

definition after_change :: "report_env \<Rightarrow> reports_page \<Rightarrow> reports_page \<Rightarrow> reports_page" where
  "after_change env old p =
     (if current_filter env p \<noteq> current_filter env old \<or> rp_refreshKey p \<noteq> rp_refreshKey old
      then loadReports (current_filter env p) p else p)"

section \<open>Handlers\<close>

definition applyPeriod :: "report_env \<Rightarrow> real \<Rightarrow> period \<Rightarrow> reports_page \<Rightarrow> reports_page" where
  "applyPeriod env now v p =
     (let p' = p\<lparr>rp_period := v\<rparr>
      in if v = Custom then p'
         else p'\<lparr>rp_from := formatDateTimeInput (re_zone env) (now - REPORT_PERIOD_HOURS v * 60 * 60 * 1000),
                 rp_to := formatDateTimeInput (re_zone env) now\<rparr>)"

definition invalid_range :: "report_env \<Rightarrow> reports_page \<Rightarrow> bool" where
  "invalid_range env p \<longleftrightarrow> num_leq (re_getTime env (rp_to p)) (re_getTime env (rp_from p))"

definition refreshReports :: "report_env \<Rightarrow> reports_page \<Rightarrow> reports_page" where
  "refreshReports env p =
     (if invalid_range env p then p\<lparr>rp_validationError := Some (re_invalidDate env)\<rparr>
      else p\<lparr>rp_validationError := None, rp_refreshKey := rp_refreshKey p + 1\<rparr>)"

definition toggleDevice :: "string \<Rightarrow> reports_page \<Rightarrow> reports_page" where
  "toggleDevice i p =
     p\<lparr>rp_deviceIds := (if i \<in> set (rp_deviceIds p) then filter (\<lambda>v. v \<noteq> i) (rp_deviceIds p) else rp_deviceIds p @ [i])\<rparr>"

definition fromChange :: "string \<Rightarrow> reports_page \<Rightarrow> reports_page" where
  "fromChange v p = p\<lparr>rp_period := Custom, rp_from := v\<rparr>"

definition toChange :: "string \<Rightarrow> reports_page \<Rightarrow> reports_page" where
  "toChange v p = p\<lparr>rp_period := Custom, rp_to := v\<rparr>"

definition vehicleTypeChange :: "string \<Rightarrow> reports_page \<Rightarrow> reports_page" where
  "vehicleTypeChange v p =
     p\<lparr>rp_vehicleType := (if isReportVehicleType v then find (\<lambda>t. vehicle_type_str t = v) REPORT_VEHICLE_TYPES else None)\<rparr>"

definition retryReports :: "reports_page \<Rightarrow> reports_page" where
  "retryReports p = p\<lparr>rp_refreshKey := rp_refreshKey p + 1\<rparr>"

definition settle_load :: "report_env \<Rightarrow> nat \<Rightarrow> (thrown + json) \<Rightarrow> reports_page \<Rightarrow> reports_page" where
  "settle_load env k out p =
     (case find (\<lambda>r. rl_id r = k) (rp_inFlight p) of
        None \<Rightarrow> p
      | Some r \<Rightarrow> p\<lparr>rp_inFlight := remove1 r (rp_inFlight p),
                    rp_sections := (rp_sections p)(rl_kind r := loadSection env out)\<rparr>)"

datatype report_event =
    ApplyPeriod real period
  | FromChange string
  | ToChange string
  | VehicleTypeChange string
  | DeviceToggle string
  | RefreshReports
  | RetryReports
  | LoadSettles nat "thrown + json"

fun report_handler :: "report_env \<Rightarrow> report_event \<Rightarrow> reports_page \<Rightarrow> reports_page" where
  "report_handler env (ApplyPeriod now v) p = applyPeriod env now v p"
| "report_handler env (FromChange v) p = fromChange v p"
| "report_handler env (ToChange v) p = toChange v p"
| "report_handler env (VehicleTypeChange v) p = vehicleTypeChange v p"
| "report_handler env (DeviceToggle i) p = toggleDevice i p"
| "report_handler env RefreshReports p = refreshReports env p"
| "report_handler env RetryReports p = retryReports p"
| "report_handler env (LoadSettles k out) p = settle_load env k out p"

definition report_step :: "report_env \<Rightarrow> report_event \<Rightarrow> reports_page \<Rightarrow> reports_page" where
  "report_step env e p = after_change env p (report_handler env e p)"

definition reports_start :: "report_env \<Rightarrow> real \<Rightarrow> reports_page" where
  "reports_start env now =
     (let r = getInitialReportRange (re_zone env) now;
          p = \<lparr>rp_period = LastSixHours, rp_from = dr_from r, rp_to = dr_to r, rp_deviceIds = [], rp_vehicleType = None,
               rp_validationError = None, rp_refreshKey = 0, rp_sections = (\<lambda>_. createReportSectionState),
               rp_inFlight = [], rp_loads = []\<rparr>
      in loadReports (current_filter env p) p)"

definition report_run :: "report_env \<Rightarrow> report_event list \<Rightarrow> reports_page \<Rightarrow> reports_page" where
  "report_run env es p = fold (report_step env) es p"

section \<open>What holds\<close>

lemmas handler_defs =
  applyPeriod_def refreshReports_def toggleDevice_def fromChange_def toChange_def vehicleTypeChange_def retryReports_def

lemma filter_frame [simp]:
  "current_filter env (p\<lparr>rp_sections := s\<rparr>) = current_filter env p"
  "current_filter env (p\<lparr>rp_inFlight := fl\<rparr>) = current_filter env p"
  "current_filter env (p\<lparr>rp_loads := ls\<rparr>) = current_filter env p"
  "current_filter env (p\<lparr>rp_validationError := v\<rparr>) = current_filter env p"
  "current_filter env (p\<lparr>rp_refreshKey := n\<rparr>) = current_filter env p"
  "current_filter env (p\<lparr>rp_period := q\<rparr>) = current_filter env p"
  by (simp_all add: current_filter_def)

lemma loadReports_frame [simp]:
  "current_filter env (loadReports f p) = current_filter env p" "rp_loads (loadReports f p) = rp_loads p @ [f]"
  "rp_refreshKey (loadReports f p) = rp_refreshKey p" "rp_validationError (loadReports f p) = rp_validationError p"
  "rp_deviceIds (loadReports f p) = rp_deviceIds p" "rp_from (loadReports f p) = rp_from p" "rp_to (loadReports f p) = rp_to p"
  by (simp_all add: loadReports_def current_filter_def)

lemma settle_load_frame [simp]:
  "current_filter env (settle_load env k out p) = current_filter env p"
  "rp_refreshKey (settle_load env k out p) = rp_refreshKey p" "rp_loads (settle_load env k out p) = rp_loads p"
  by (simp_all add: settle_load_def split: option.split)

lemma handler_loads: "rp_loads (report_handler env e p) = rp_loads p" "rp_inFlight (report_handler env e p) =
    (case e of LoadSettles k out \<Rightarrow> rp_inFlight (settle_load env k out p) | _ \<Rightarrow> rp_inFlight p)"
  by (cases e; simp add: handler_defs Let_def)+

text \<open>The requests in flight have different numbers, all given out by the loads so far; the last load is
  for the filter shown.\<close>

definition reports_inv :: "report_env \<Rightarrow> reports_page \<Rightarrow> bool" where
  "reports_inv env p \<longleftrightarrow>
     rp_loads p \<noteq> [] \<and> last (rp_loads p) = current_filter env p \<and>
     distinct (map rl_id (rp_inFlight p)) \<and> (\<forall>r \<in> set (rp_inFlight p). rl_id r < 4 * length (rp_loads p)) \<and>
     distinct (rp_deviceIds p)"

lemma loadReports_ids:
  assumes "distinct (map rl_id (rp_inFlight p))" "\<forall>r \<in> set (rp_inFlight p). rl_id r < 4 * length (rp_loads p)"
  shows "distinct (map rl_id (rp_inFlight (loadReports f p))) \<and>
    (\<forall>r \<in> set (rp_inFlight (loadReports f p)). rl_id r < 4 * length (rp_loads (loadReports f p)))"
  using assms by (auto simp: loadReports_def report_kinds_def enumerate_eq_zip)

lemma settle_load_ids:
  "distinct (map rl_id (rp_inFlight p)) \<Longrightarrow> distinct (map rl_id (rp_inFlight (settle_load env k out p)))"
  "set (rp_inFlight (settle_load env k out p)) \<subseteq> set (rp_inFlight p)"
  by (auto simp: settle_load_def distinct_map inj_on_def split: option.split dest: notin_set_remove1 set_remove1_subset [THEN subsetD])

lemma handler_devices: "distinct (rp_deviceIds p) \<Longrightarrow> distinct (rp_deviceIds (report_handler env e p))"
  by (cases e) (auto simp: handler_defs Let_def settle_load_def split: option.split)

lemma handler_ids:
  assumes "reports_inv env p"
  shows "distinct (map rl_id (rp_inFlight (report_handler env e p)))"
    and "\<forall>r \<in> set (rp_inFlight (report_handler env e p)). rl_id r < 4 * length (rp_loads p)"
proof -
  have "distinct (map rl_id (rp_inFlight p))" "\<forall>r \<in> set (rp_inFlight p). rl_id r < 4 * length (rp_loads p)"
    using assms by (simp_all add: reports_inv_def)
  then show "distinct (map rl_id (rp_inFlight (report_handler env e p)))"
      "\<forall>r \<in> set (rp_inFlight (report_handler env e p)). rl_id r < 4 * length (rp_loads p)"
    unfolding handler_loads using settle_load_ids(1) [of p env] settle_load_ids(2) [of env _ _ p]
    by (simp_all split: report_event.split) blast
qed

lemma reports_inv_step:
  assumes "reports_inv env p"
  shows "reports_inv env (report_step env e p)"
proof -
  let ?h = "report_handler env e p"
  note ids = handler_ids [OF assms, of e]
  have dev: "distinct (rp_deviceIds ?h)" using assms by (intro handler_devices) (simp add: reports_inv_def)
  show ?thesis
  proof (cases "current_filter env ?h \<noteq> current_filter env p \<or> rp_refreshKey ?h \<noteq> rp_refreshKey p")
    case True
    then have "report_step env e p = loadReports (current_filter env ?h) ?h"
      by (simp add: report_step_def after_change_def)
    with loadReports_ids [of ?h "current_filter env ?h"] ids dev show ?thesis
      by (simp add: reports_inv_def handler_loads(1))
  next
    case False
    then have "report_step env e p = ?h" by (simp add: report_step_def after_change_def)
    with False ids dev assms show ?thesis by (simp add: reports_inv_def handler_loads(1))
  qed
qed

lemma reports_inv_run: "reports_inv env (report_run env es (reports_start env now))"
proof -
  have "reports_inv env p \<Longrightarrow> reports_inv env (report_run env es p)" for p
    unfolding report_run_def by (induction es arbitrary: p) (simp_all add: reports_inv_step)
  moreover have "reports_inv env (reports_start env now)"
    by (auto simp: reports_start_def Let_def reports_inv_def loadReports_def report_kinds_def enumerate_eq_zip current_filter_def)
  ultimately show ?thesis by blast
qed

text \<open>Whatever the user does on the reports page, the last reports it has asked for are those of the
  filter it shows, a device is selected at most once, and selecting a device twice leaves the
  selection as it was, up to order.\<close>

theorem reports_asked_for_shown_filter:
  "let p = report_run env es (reports_start env now) in
     last (rp_loads p) = current_filter env p \<and> distinct (rp_deviceIds p) \<and>
     mset (rp_deviceIds (report_step env (DeviceToggle i) (report_step env (DeviceToggle i) p))) = mset (rp_deviceIds p)"
proof -
  let ?p = "report_run env es (reports_start env now)"
  have inv: "reports_inv env ?p" by (rule reports_inv_run)
  have ids: "rp_deviceIds (report_step env e q) = rp_deviceIds (report_handler env e q)" for e q
    by (simp add: report_step_def after_change_def)
  have self: "filter (\<lambda>v. v \<noteq> i) xs = xs" if "i \<notin> set xs" for xs
    using that by (induction xs) auto
  have readd: "add_mset i (mset (filter (\<lambda>v. v \<noteq> i) xs)) = mset xs" if "i \<in> set xs" "distinct xs" for xs
    using that by (induction xs) (auto simp: self simp del: mset_filter)
  have "mset (rp_deviceIds (toggleDevice i (toggleDevice i q))) = mset (rp_deviceIds q)" if "distinct (rp_deviceIds q)" for q
    using that readd [of "rp_deviceIds q"] by (auto simp: toggleDevice_def self simp del: mset_filter)
  moreover have "rp_deviceIds (toggleDevice i (report_step env (DeviceToggle i) ?p)) = rp_deviceIds (toggleDevice i (toggleDevice i ?p))"
    using ids [of "DeviceToggle i" ?p] by (simp add: toggleDevice_def)
  ultimately show ?thesis
    using inv by (simp add: Let_def reports_inv_def ids)
qed

lemma find_by_id:
  "distinct (map rl_id rs) \<Longrightarrow> r \<in> set rs \<Longrightarrow> find (\<lambda>x. rl_id x = rl_id r) rs = Some r"
  by (induction rs) auto

lemma settle_step:
  assumes "distinct (map rl_id (rp_inFlight p))" "r \<in> set (rp_inFlight p)"
  shows "report_step env (LoadSettles (rl_id r) out) p =
    p\<lparr>rp_inFlight := remove1 r (rp_inFlight p), rp_sections := (rp_sections p)(rl_kind r := loadSection env out)\<rparr>"
  using find_by_id [OF assms] by (simp add: report_step_def after_change_def settle_load_def)

text \<open>A section shows the response that arrived last, not the one for the filter shown: when two
  loads of a section overlap and the older one settles after the newer one, the older result (or
  error) replaces the newer, and the section stays on it. There is no request number here, unlike
  in the locations hook.\<close>

theorem late_report_replaces_newer:
  assumes "p = report_run env es (reports_start env now)"
    and "older \<in> set (rp_inFlight p)" and "newer \<in> set (rp_inFlight p)"
    and "rl_kind older = rl_kind newer" and "rl_id older \<noteq> rl_id newer"
  shows "rp_sections (report_run env [LoadSettles (rl_id newer) out2, LoadSettles (rl_id older) out1] p) (rl_kind older) =
    loadSection env out1"
proof -
  have d: "distinct (map rl_id (rp_inFlight p))"
    using reports_inv_run [of env es now] by (simp add: assms(1) reports_inv_def)
  let ?q = "report_step env (LoadSettles (rl_id newer) out2) p"
  have "rp_inFlight ?q = remove1 newer (rp_inFlight p)" using settle_step [OF d assms(3)] by simp
  moreover have "older \<in> set (remove1 newer (rp_inFlight p))" using assms(2,5) by (metis in_set_remove1)
  moreover have "distinct (map rl_id (remove1 newer (rp_inFlight p)))"
    using d by (auto simp: distinct_map inj_on_def dest: notin_set_remove1 set_remove1_subset [THEN subsetD])
  ultimately show ?thesis using settle_step [of ?q older env out1] by (simp add: report_run_def)
qed

definition sample_report_env :: report_env where
  "sample_report_env = \<lparr>re_timeZone = ''UTC'',
     re_zone = \<lparr>lz_parts = (\<lambda>_. \<lparr>lt_year = 2026, lt_month = 0, lt_day = 1, lt_hours = 0, lt_minutes = 0\<rparr>), lz_midnight = id\<rparr>,
     re_getTime = (\<lambda>s. Fin (real (length s))), re_loadError = ''error'', re_invalidDate = ''invalid''\<rparr>"

theorem late_report_replaces_newer_witness:
  "rp_sections (report_run sample_report_env
       [FromChange ''x'', LoadSettles 4 (Inr (JString ''new'')), LoadSettles 0 (Inr (JString ''old''))]
       (reports_start sample_report_env 0)) OverviewReport = \<lparr>ss_data = Some (JString ''old''), ss_loading = False, ss_error = None\<rparr>"
proof -
  let ?p = "report_run sample_report_env [FromChange ''x''] (reports_start sample_report_env 0)"
  let ?old = "\<lparr>rl_id = 0, rl_kind = OverviewReport, rl_filter = hd (rp_loads ?p)\<rparr>"
  let ?new = "\<lparr>rl_id = 4, rl_kind = OverviewReport, rl_filter = last (rp_loads ?p)\<rparr>"
  have changed: "formatReportDateForApi ''x'' \<noteq> formatReportDateForApi (dr_from (getInitialReportRange (re_zone sample_report_env) 0))"
    by (simp add: formatReportDateForApi_def getInitialReportRange_def formatDateTimeInput_def Let_def sample_report_env_def)
  have m: "?old \<in> set (rp_inFlight ?p)" "?new \<in> set (rp_inFlight ?p)"
    using changed by (simp_all add: report_run_def report_step_def after_change_def fromChange_def reports_start_def Let_def
        loadReports_def current_filter_def report_kinds_def enumerate_eq_zip)
  have "rp_sections (report_run sample_report_env [LoadSettles (rl_id ?new) (Inr (JString ''new'')),
      LoadSettles (rl_id ?old) (Inr (JString ''old''))] ?p) (rl_kind ?old) = loadSection sample_report_env (Inr (JString ''old''))"
    by (rule late_report_replaces_newer [OF refl m]) simp_all
  then show ?thesis by (simp add: report_run_def loadSection_def)
qed

text \<open>The check of the range guards the refresh button only. With the start not before the end, the
  button reports the invalid range and loads nothing; but the edit that made the range invalid has
  already asked the server for it.\<close>

theorem invalid_range_already_requested:
  assumes "invalid_range env (fromChange v p)" and "current_filter env (fromChange v p) \<noteq> current_filter env p"
  shows "last (rp_loads (report_step env (FromChange v) p)) = current_filter env (fromChange v p) \<and>
    rp_loads (report_step env (FromChange v) p) \<noteq> rp_loads p \<and>
    rp_validationError (report_step env RefreshReports (report_step env (FromChange v) p)) = Some (re_invalidDate env) \<and>
    rp_loads (report_step env RefreshReports (report_step env (FromChange v) p)) = rp_loads (report_step env (FromChange v) p)"
proof -
  let ?q = "loadReports (current_filter env (fromChange v p)) (fromChange v p)"
  have q: "report_step env (FromChange v) p = ?q" using assms(2) by (simp add: report_step_def after_change_def)
  have inv: "invalid_range env ?q" using assms(1) by (simp add: invalid_range_def)
  have "rp_loads (fromChange v p) = rp_loads p" by (simp add: fromChange_def)
  then show ?thesis unfolding q using inv
    by (simp add: report_step_def after_change_def refreshReports_def)
qed

theorem invalid_range_already_requested_witness:
  "rp_validationError (report_step sample_report_env RefreshReports
     (report_step sample_report_env (FromChange ''a long later date, not a date'') (reports_start sample_report_env 0))) = Some ''invalid''"
proof -
  let ?p = "reports_start sample_report_env 0" and ?v = "''a long later date, not a date''"
  have f: "rp_from ?p = toLocalInputValue (re_zone sample_report_env) (0 - 6 * 60 * 60 * 1000)"
      "rp_to ?p = toLocalInputValue (re_zone sample_report_env) 0"
    by (simp_all add: reports_start_def Let_def getInitialReportRange_def formatDateTimeInput_def toLocalInputValue_def
        padDatePart_def pad_def)
  have len: "length (toLocalInputValue (re_zone sample_report_env) t) = 16" for t
    using api_dates_well_formed [of "re_zone sample_report_env" t] by (simp add: parts_ok_def sample_report_env_def)
  have inv: "invalid_range sample_report_env (fromChange ?v ?p)"
    using len by (simp add: invalid_range_def fromChange_def f) (simp add: sample_report_env_def)
  have "length (rf_from (current_filter sample_report_env (fromChange ?v ?p))) \<noteq> length (rf_from (current_filter sample_report_env ?p))"
    using len by (simp add: current_filter_def fromChange_def formatReportDateForApi_def f)
  then have "current_filter sample_report_env (fromChange ?v ?p) \<noteq> current_filter sample_report_env ?p" by auto
  from invalid_range_already_requested [OF inv this] show ?thesis by (simp add: sample_report_env_def)
qed

end
