(* ===== verification/History.thy ===== *)
theory History
  imports Dates Routes LocationProps
begin

text \<open>
  The history view of a device (\<open>components/react/features/devices/history/DeviceHistoryView.tsx\<close>):
  its date window, the detective mode and the route style, the location requests its handlers
  start (as events of the locations hook) and the route it hands to the map; and the map card
  (\<open>components/react/features/devices/location/MapCard.tsx\<close>), which draws that route and aims
  the camera.
\<close>

section \<open>The history view\<close>

datatype route_style = LineStyle | DotStyle

record history_page =
  hp_deviceId :: string
  hp_timeZone :: string
  hp_range :: date_range
  hp_detectiveMode :: bool
  hp_routeStyle :: route_style

definition history_request :: "history_page \<Rightarrow> date_range \<Rightarrow> int \<Rightarrow> location_event" where
  "history_request p r page =
     StartHistory (hp_deviceId p) (toApiDate (dr_from r)) (toApiDate (dr_to r)) (hp_timeZone p) page LOCATION_HISTORY_PAGE_SIZE"

definition route_request :: "history_page \<Rightarrow> date_range \<Rightarrow> location_event" where
  "route_request p r =
     StartRoute (hp_deviceId p) (toApiDate (dr_from r)) (toApiDate (dr_to r)) (hp_timeZone p) LIVE_ROUTE_MAX_POINTS"

text \<open>A handler gives the page it leaves and the requests it starts.\<close>

definition openHistory :: "local_zone \<Rightarrow> real \<Rightarrow> string \<Rightarrow> history_page \<Rightarrow> history_page \<times> location_event list" where
  "openHistory z now deviceId p =
     (let initialRange = getDateRange z now RangeToday; p' = p\<lparr>hp_deviceId := deviceId, hp_range := initialRange\<rparr>
      in (p', [history_request p' initialRange 1]))"

definition loadHistory :: "date_range \<Rightarrow> int \<Rightarrow> history_page \<Rightarrow> history_page \<times> location_event list" where
  "loadHistory nextRange page p =
     (let rangeChanged = (dr_from nextRange \<noteq> dr_from (hp_range p) \<or> dr_to nextRange \<noteq> dr_to (hp_range p))
      in (p\<lparr>hp_range := nextRange\<rparr>,
          history_request p nextRange page #
          (if hp_detectiveMode p \<and> (page = 1 \<or> rangeChanged) then [route_request p nextRange] else [])))"

definition handleHistorySubmit :: "history_page \<Rightarrow> history_page \<times> location_event list" where
  "handleHistorySubmit p = loadHistory (hp_range p) 1 p"

definition handleDetectiveToggle :: "history_page \<Rightarrow> history_page \<times> location_event list" where
  "handleDetectiveToggle p =
     (let nextValue = (\<not> hp_detectiveMode p); p' = p\<lparr>hp_detectiveMode := nextValue\<rparr>
      in if \<not> nextValue then (p', []) else (p', [route_request p (hp_range p)]))"

definition retryLocations :: "bool \<Rightarrow> bool \<Rightarrow> history_page \<Rightarrow> history_page \<times> location_event list" where
  "retryLocations historyError routeError p =
     (let (p1, es) = (if historyError then loadHistory (hp_range p) 1 p else (p, []))
      in (p1, es @ (if routeError \<and> hp_detectiveMode p then [route_request p (hp_range p)] else [])))"

datatype history_event =
    OpenHistory real string
  | EditFrom string
  | EditTo string
  | SubmitWindow
  | PickRange real range_kind
  | GoToPage int
  | ToggleDetective
  | SetStyle route_style
  | RetryLocations bool bool

fun history_step :: "local_zone \<Rightarrow> history_event \<Rightarrow> history_page \<Rightarrow> history_page \<times> location_event list" where
  "history_step z (OpenHistory now d) p = openHistory z now d p"
| "history_step z (EditFrom v) p = (p\<lparr>hp_range := (hp_range p)\<lparr>dr_from := v\<rparr>\<rparr>, [])"
| "history_step z (EditTo v) p = (p\<lparr>hp_range := (hp_range p)\<lparr>dr_to := v\<rparr>\<rparr>, [])"
| "history_step z SubmitWindow p = handleHistorySubmit p"
| "history_step z (PickRange now kind) p = loadHistory (getDateRange z now kind) 1 p"
| "history_step z (GoToPage n) p = loadHistory (hp_range p) n p"
| "history_step z ToggleDetective p = handleDetectiveToggle p"
| "history_step z (SetStyle st) p = (p\<lparr>hp_routeStyle := st\<rparr>, [])"
| "history_step z (RetryLocations h r) p = retryLocations h r p"

subsection \<open>The route handed to the map\<close>

definition latest_in_range :: "(string \<Rightarrow> number) \<Rightarrow> real \<Rightarrow> date_range \<Rightarrow> location_point option \<Rightarrow> bool" where
  "latest_in_range getTime now r latest =
     (let rangeTo = getTime (dr_to r);
          latestTime = (case latest of None \<Rightarrow> NaN | Some l \<Rightarrow> getTime (lp_recorded_at l))
      in num_leq (Fin now) (num_add rangeTo (Fin 60000)) \<and> is_finite latestTime \<and>
         num_leq (getTime (dr_from r)) latestTime \<and> num_leq latestTime (num_add rangeTo (Fin 60000)))"

definition routePath ::
  "(string \<Rightarrow> number) \<Rightarrow> real \<Rightarrow> history_page \<Rightarrow> location_point option \<Rightarrow> location_point list \<Rightarrow>
   location_route_response option \<Rightarrow> location_point list \<Rightarrow> location_point list" where
  "routePath getTime now p latest liveRoutePoints route history =
     (if \<not> hp_detectiveMode p then []
      else
        let frm = getTime (dr_from (hp_range p)); t = getTime (dr_to (hp_range p));
            inRangeLivePoints =
              (if latest_in_range getTime now (hp_range p) latest
               then filter (\<lambda>q. num_leq frm (getTime (lp_recorded_at q)) \<and> num_leq (getTime (lp_recorded_at q)) t) liveRoutePoints
               else []);
            routePoints = (case route of None \<Rightarrow> history | Some r \<Rightarrow> lr_items r)
        in routePoints @ inRangeLivePoints)"

definition routeSegments ::
  "(string \<Rightarrow> number) \<Rightarrow> route_style \<Rightarrow> location_point list \<Rightarrow> location_point list list" where
  "routeSegments getTime style path =
     (if style = DotStyle then (if 0 < length path then [path] else [])
      else splitLocationRoute getTime path LIVE_ROUTE_GAP_THRESHOLD_MS)"

text \<open>Outside the detective mode nothing is drawn. In it, every point of every segment handed to the
  map is a point of the loaded route (or of the loaded history page while there is no route) or a
  live point whose time lies inside the window shown; and as dots, all of them are handed over.\<close>

theorem history_route_points:
  "(if hp_detectiveMode p
    then list_all (\<lambda>q. q \<in> set (case route of None \<Rightarrow> history | Some r \<Rightarrow> lr_items r) \<or>
         q \<in> set live \<and> num_leq (getTime (dr_from (hp_range p))) (getTime (lp_recorded_at q)) \<and>
         num_leq (getTime (lp_recorded_at q)) (getTime (dr_to (hp_range p))))
       (concat (routeSegments getTime style (routePath getTime now p latest live route history)))
    else routeSegments getTime style (routePath getTime now p latest live route history) = []) \<and>
   concat (routeSegments getTime DotStyle (routePath getTime now p latest live route history)) =
     routePath getTime now p latest live route history"
proof -
  let ?path = "routePath getTime now p latest live route history"
  have path: "q \<in> set (case route of None \<Rightarrow> history | Some r \<Rightarrow> lr_items r) \<or>
       q \<in> set live \<and> num_leq (getTime (dr_from (hp_range p))) (getTime (lp_recorded_at q)) \<and>
       num_leq (getTime (lp_recorded_at q)) (getTime (dr_to (hp_range p)))" if "q \<in> set ?path" for q
    using that by (auto simp: routePath_def Let_def split: if_splits)
  have sub: "set (concat (routeSegments getTime style ps)) \<subseteq> set ps" for ps
  proof -
    obtain segs where s: "splitLocationRoute getTime ps LIVE_ROUTE_GAP_THRESHOLD_MS = filter (\<lambda>seg. 1 < length seg) segs"
        "concat segs = js_sort (by_time getTime lp_recorded_at) ps"
      using split_segments by blast
    have "set (concat segs) = set ps" using arg_cong [OF s(2), of set] by simp
    then show ?thesis by (auto simp: routeSegments_def s(1))
  qed
  have "?path = []" if "\<not> hp_detectiveMode p" using that by (simp add: routePath_def)
  moreover have "routeSegments getTime style [] = []" by (simp add: routeSegments_def splitLocationRoute_def)
  moreover have "concat (routeSegments getTime DotStyle ps) = ps" for ps by (simp add: routeSegments_def)
  ultimately show ?thesis using path sub [of ?path] by (auto simp: list_all_iff)
qed

text \<open>Moving to another page asks for the history of the window in the date fields and, from page two
  on, never for its route: after the dates are edited without being applied, the table shows the
  edited window and the map still the route of the old one. Applying the window asks for both, for
  the same window.\<close>

theorem page_change_leaves_route_behind:
  assumes "n \<noteq> 1"
  shows "snd (history_step z (GoToPage n) (fst (history_step z (EditFrom v) p))) =
      [history_request p ((hp_range p)\<lparr>dr_from := v\<rparr>) n] \<and>
    snd (history_step z SubmitWindow (fst (history_step z (EditFrom v) p))) =
      history_request p ((hp_range p)\<lparr>dr_from := v\<rparr>) 1 #
      (if hp_detectiveMode p then [route_request p ((hp_range p)\<lparr>dr_from := v\<rparr>)] else [])"
  using assms
  by (simp add: loadHistory_def handleHistorySubmit_def history_request_def route_request_def Let_def)

definition sample_history_page :: history_page where
  "sample_history_page = \<lparr>hp_deviceId = ''d'', hp_timeZone = ''UTC'', hp_range = \<lparr>dr_from = ''a'', dr_to = ''b''\<rparr>,
     hp_detectiveMode = True, hp_routeStyle = LineStyle\<rparr>"

theorem page_change_leaves_route_behind_witness:
  "snd (history_step \<lparr>lz_parts = (\<lambda>_. \<lparr>lt_year = 0, lt_month = 0, lt_day = 0, lt_hours = 0, lt_minutes = 0\<rparr>), lz_midnight = id\<rparr>
     (GoToPage 2) (fst (history_step \<lparr>lz_parts = (\<lambda>_. \<lparr>lt_year = 0, lt_month = 0, lt_day = 0, lt_hours = 0, lt_minutes = 0\<rparr>),
       lz_midnight = id\<rparr> (EditFrom ''c'') sample_history_page))) =
   [StartHistory ''d'' ''c'' ''b'' ''UTC'' 2 20]"
  by (subst page_change_leaves_route_behind [THEN conjunct1])
    (simp_all add: sample_history_page_def history_request_def toApiDate_def LOCATION_HISTORY_PAGE_SIZE_def)

section \<open>The map card\<close>

record map_box =
  mb_minLng :: number
  mb_minLat :: number
  mb_maxLng :: number
  mb_maxLat :: number

datatype camera =
    FitBounds map_box
  | EaseTo number number
  | StayPut

definition processed_segments :: "location_point list list \<Rightarrow> lng_lat list list" where
  "processed_segments segs = map the (filter (\<lambda>s. s \<noteq> None) (map processSegment segs))"

definition grow_box :: "map_box \<Rightarrow> lng_lat \<Rightarrow> map_box" where
  "grow_box b c =
     \<lparr>mb_minLng = (if num_less (fst c) (mb_minLng b) then fst c else mb_minLng b),
      mb_minLat = (if num_less (snd c) (mb_minLat b) then snd c else mb_minLat b),
      mb_maxLng = (if num_less (mb_maxLng b) (fst c) then fst c else mb_maxLng b),
      mb_maxLat = (if num_less (mb_maxLat b) (snd c) then snd c else mb_maxLat b)\<rparr>"

definition bounds_of :: "lng_lat \<Rightarrow> lng_lat list \<Rightarrow> map_box" where
  "bounds_of p ps =
     foldl grow_box \<lparr>mb_minLng = fst p, mb_minLat = snd p, mb_maxLng = fst p, mb_maxLat = snd p\<rparr> ps"

definition camera_move :: "location_point list list \<Rightarrow> location_point option \<Rightarrow> camera" where
  "camera_move segs location =
     (case concat (processed_segments segs) of
        p # q # ps \<Rightarrow> FitBounds (bounds_of p (q # ps))
      | _ \<Rightarrow> (case location of None \<Rightarrow> StayPut | Some l \<Rightarrow> EaseTo (lp_longitude l) (lp_latitude l)))"

definition in_box :: "lng_lat \<Rightarrow> map_box \<Rightarrow> bool" where
  "in_box c b \<longleftrightarrow> num_leq (mb_minLng b) (fst c) \<and> num_leq (fst c) (mb_maxLng b) \<and>
     num_leq (mb_minLat b) (snd c) \<and> num_leq (snd c) (mb_maxLat b)"

definition real_coord :: "lng_lat \<Rightarrow> bool" where
  "real_coord c \<longleftrightarrow> is_finite (fst c) \<and> is_finite (snd c)"

definition box_corner_in :: "lng_lat list \<Rightarrow> map_box \<Rightarrow> bool" where
  "box_corner_in cs b \<longleftrightarrow> mb_minLng b \<in> fst ` set cs \<and> mb_maxLng b \<in> fst ` set cs \<and>
     mb_minLat b \<in> snd ` set cs \<and> mb_maxLat b \<in> snd ` set cs"

text \<open>A box around points of a list: every seen point is inside, every side passes through one.\<close>

definition box_around :: "lng_lat list \<Rightarrow> map_box \<Rightarrow> bool" where
  "box_around cs b \<longleftrightarrow> list_all (\<lambda>c. in_box c b) cs \<and> box_corner_in cs b"

lemma box_around_start: "real_coord p \<Longrightarrow>
    box_around [p] \<lparr>mb_minLng = fst p, mb_minLat = snd p, mb_maxLng = fst p, mb_maxLat = snd p\<rparr>"
  by (cases p; cases "fst p"; cases "snd p") (auto simp: box_around_def in_box_def box_corner_in_def real_coord_def)

lemma lower_side: "num_leq m y \<Longrightarrow> num_leq (if num_less x m then x else m) y"
  by (cases x; cases m; cases y) auto

lemma upper_side: "num_leq y m \<Longrightarrow> num_leq y (if num_less m x then x else m)"
  by (cases x; cases m; cases y) auto

lemma new_lower_side: "is_finite x \<Longrightarrow> is_finite m \<Longrightarrow> num_leq (if num_less x m then x else m) x"
  by (cases x; cases m) auto

lemma new_upper_side: "is_finite x \<Longrightarrow> is_finite m \<Longrightarrow> num_leq x (if num_less m x then x else m)"
  by (cases x; cases m) auto

lemma in_box_grow: "in_box d b \<Longrightarrow> in_box d (grow_box b c)"
  by (simp add: in_box_def grow_box_def lower_side upper_side del: if_split)

lemma in_box_new:
  assumes "real_coord c" "is_finite (mb_minLng b)" "is_finite (mb_minLat b)" "is_finite (mb_maxLng b)" "is_finite (mb_maxLat b)"
  shows "in_box c (grow_box b c)"
  using assms by (simp add: in_box_def grow_box_def real_coord_def new_lower_side new_upper_side del: if_split)

lemma box_around_grow:
  assumes "box_around cs b" "list_all real_coord (c # cs)"
  shows "box_around (cs @ [c]) (grow_box b c)"
proof -
  have corner: "box_corner_in cs b" and inside: "list_all (\<lambda>c. in_box c b) cs"
    using assms(1) by (simp_all add: box_around_def)
  have fin: "is_finite (mb_minLng b)" "is_finite (mb_minLat b)" "is_finite (mb_maxLng b)" "is_finite (mb_maxLat b)"
    using corner assms(2) by (auto simp: box_corner_in_def list_all_iff real_coord_def)
  have "in_box c (grow_box b c)" using in_box_new fin assms(2) by simp
  moreover have "list_all (\<lambda>d. in_box d (grow_box b c)) cs"
    using inside in_box_grow by (auto simp: list_all_iff)
  moreover have "box_corner_in (cs @ [c]) (grow_box b c)"
    using corner by (auto simp: box_corner_in_def grow_box_def)
  ultimately show ?thesis by (simp add: box_around_def)
qed

lemma box_around_foldl:
  "box_around cs b \<Longrightarrow> list_all real_coord (cs @ ps) \<Longrightarrow> box_around (cs @ ps) (foldl grow_box b ps)"
proof (induction ps arbitrary: cs b)
  case (Cons q qs)
  then have "box_around (cs @ [q]) (grow_box b q)" by (intro box_around_grow) auto
  then show ?case using Cons.IH [of "cs @ [q]"] Cons.prems by simp
qed simp

lemma process_loop_coords: "set (process_loop prev seg) \<subseteq> coord_of ` set seg"
  by (induction prev seg rule: process_loop.induct) auto

lemma processed_coords: "c \<in> set (concat (processed_segments segs)) \<Longrightarrow> c \<in> coord_of ` set (concat segs)"
proof -
  assume "c \<in> set (concat (processed_segments segs))"
  then obtain seg where "seg \<in> set segs" "c \<in> set (process_loop None seg)"
    by (auto simp: processed_segments_def processSegment_def Let_def split: if_splits)
  then show ?thesis using process_loop_coords by fastforce
qed

text \<open>Aiming the camera. With two drawn points or more the map is fitted to a box that contains every
  drawn point and each of whose sides passes through one, so it is the smallest; with fewer it eases
  to the device, and without a known location it stays where it is.\<close>

theorem camera_fits_route:
  assumes "list_all (\<lambda>p. real_coord (coord_of p)) (concat segs)"
  shows "if 1 < length (concat (processed_segments segs))
    then \<exists>b. camera_move segs location = FitBounds b \<and> list_all (\<lambda>c. in_box c b) (concat (processed_segments segs)) \<and>
           box_corner_in (concat (processed_segments segs)) b
    else camera_move segs location = (case location of None \<Rightarrow> StayPut | Some l \<Rightarrow> EaseTo (lp_longitude l) (lp_latitude l))"
proof -
  have real: "list_all real_coord (concat (processed_segments segs))"
    unfolding list_all_iff using assms processed_coords [of _ segs] by (fastforce simp only: list_all_iff)
  obtain cs where cs: "concat (processed_segments segs) = cs" by simp
  show ?thesis
  proof (cases cs rule: remdups_adj.cases)
    case (3 p q ps)
    then have "list_all real_coord ([p] @ q # ps)" using real cs by simp
    then have "box_around ([p] @ q # ps) (bounds_of p (q # ps))"
      unfolding bounds_of_def by (intro box_around_foldl box_around_start) auto
    then show ?thesis using 3 by (simp add: cs camera_move_def box_around_def)
  qed (simp_all add: cs camera_move_def)
qed

definition sample_segment :: "location_point list" where
  "sample_segment = [at_minute ''1'', at_minute ''2''\<lparr>lp_longitude := Fin 3\<rparr>]"

lemma sample_segment_drawn: "concat (processed_segments [sample_segment]) = [(Fin 0, Fin 0), (Fin 3, Fin 0)]"
proof -
  have "sqrt 9 = (3 :: real)" by (rule real_sqrt_unique) auto
  then show ?thesis
    by (simp add: processed_segments_def processSegment_def sample_segment_def at_minute_def bad_accuracy_def
        coord_of_def too_close_def getDeltaDistance_def MAP_MIN_DELTA_DEG_def num_sub_def Let_def)
qed

theorem camera_fits_route_witness:
  "\<exists>b. camera_move [sample_segment] None = FitBounds b \<and> list_all (\<lambda>c. in_box c b) [(Fin 0, Fin 0), (Fin 3, Fin 0)]"
proof -
  have "list_all (\<lambda>p. real_coord (coord_of p)) (concat [sample_segment])"
    by (simp add: sample_segment_def at_minute_def coord_of_def real_coord_def)
  from camera_fits_route [OF this, of None] show ?thesis by (auto simp: sample_segment_drawn)
qed

end
