(* ===== verification/Forms.thy ===== *)
theory Forms
  imports AuthService TextUtils
begin

text \<open>
  The account forms (\<open>components/react/form\<close>): sign-in, sign-up, the password reset, the password
  change and the password recovery with its resend cooldown. A submit handler is one operation on
  the page's state: the guards in their order, the call to the auth service, and what the outcome
  leaves in the form. A form's fields extend the state of the auth service.
\<close>

text \<open>\<open>isApiError(error) ? error.message : fallback\<close>\<close>

definition form_message :: "string \<Rightarrow> thrown \<Rightarrow> string" where
  "form_message fallback e = (if isApiError e then err_message (the_api_error e) else fallback)"

section \<open>Sign-in\<close>

record login_form = auth_service +
  lf_email :: string
  lf_password :: string
  lf_err :: "string option"

record login_strings =
  ls_emailPasswordRequired :: string
  ls_loginFailed :: string

definition handleSubmit ::
  "login_strings \<Rightarrow> (thrown + auth_session fetch_result) \<Rightarrow> ('z login_form_scheme, thrown, unit) io" where
  "handleSubmit t out =
     io_then (io_modify (\<lambda>w. w\<lparr>lf_err := None\<rparr>))
     (io_bind (io_gets (\<lambda>w. (lf_email w, lf_password w))) (\<lambda>(email, password).
       if email = [] \<or> password = []
       then io_modify (\<lambda>w. w\<lparr>lf_err := Some (ls_emailPasswordRequired t)\<rparr>)
       else io_catch (signIn \<lparr>si_email = trim email, si_password = password\<rparr> out)
              (\<lambda>e. io_modify (\<lambda>w. w\<lparr>lf_err := Some (form_message (ls_loginFailed t) e)\<rparr>))))"

text \<open>What the sign-in and sign-up calls throw, if anything.\<close>

definition session_failure :: "string \<Rightarrow> (thrown + auth_session fetch_result) \<Rightarrow> api_error option" where
  "session_failure empty_message out =
     (case out of Inl e \<Rightarrow> Some (toError e)
                | Inr r \<Rightarrow> (case fr_data r of None \<Rightarrow> Some (mk_api_error 0 empty_message) | Some _ \<Rightarrow> None))"

lemmas form_defs = form_message_def sent_def pushed_def navigated_def set_asv_loading_def set_auth_loading_def
  on_auth_def auth_store_defs

text \<open>Submitting the sign-in form never throws and never leaves the form loading. Without an
  address or without a password it sends nothing and says so. Otherwise it sends one sign-in request
  with the trimmed address; a session ends without an error text, and every failure with the text of
  the API's error: the form's own fallback text is never shown.\<close>

theorem login_submit:
  "\<exists>w'. handleSubmit t out w = (Inr (), w') \<and>
     (if lf_email w = [] \<or> lf_password w = []
      then w_sent w' = w_sent w \<and> lf_err w' = Some (ls_emailPasswordRequired t) \<and> w_auth w' = w_auth w
      else w_sent w' = w_sent w @ [signIn_request \<lparr>si_email = trim (lf_email w), si_password = lf_password w\<rparr>] \<and>
           \<not> asv_isLoading w' \<and>
           lf_err w' = map_option err_message (session_failure ''sign-in returned an empty response'' out) \<and>
           (lf_err w' \<noteq> None \<longrightarrow> a_user (w_auth w') = a_user (w_auth w)))"
proof (cases "lf_email w = [] \<or> lf_password w = []")
  case True
  then show ?thesis by (auto simp: handleSubmit_def io_simps)
next
  case False
  show ?thesis
  proof (cases out)
    case (Inl e)
    then show ?thesis using False
      by (simp add: handleSubmit_def signIn_def io_simps form_defs session_failure_def)
  next
    case (Inr r)
    then show ?thesis using False
      by (cases "fr_data r") (simp_all add: handleSubmit_def signIn_def io_simps form_defs session_failure_def)
  qed
qed

section \<open>Sign-up\<close>

record signup_form = auth_service +
  sf_name :: string
  sf_email :: string
  sf_pw :: string
  sf_pw2 :: string
  sf_terms :: bool
  sf_err :: "string option"

record signup_strings =
  ss_emailPasswordRequired :: string
  ss_passwordsDoNotMatch :: string
  ss_acceptTerms :: string
  ss_pickStrongerPassword :: string
  ss_signupFailed :: string

text \<open>\<open>!!confirm && password !== confirm\<close>, as all the forms with a confirmation compute it\<close>

definition mismatch :: "string \<Rightarrow> string \<Rightarrow> bool" where
  "mismatch password confirm \<longleftrightarrow> confirm \<noteq> [] \<and> password \<noteq> confirm"

definition submit_signup ::
  "signup_strings \<Rightarrow> (thrown + auth_session fetch_result) \<Rightarrow> ('z signup_form_scheme, thrown, unit) io" where
  "submit_signup t out =
     io_then (io_modify (\<lambda>w. w\<lparr>sf_err := None\<rparr>))
     (io_bind (io_gets (\<lambda>w. (sf_name w, sf_email w, sf_pw w, sf_pw2 w, sf_terms w))) (\<lambda>(name, email, pw, pw2, terms).
       let setErr = (\<lambda>m. io_modify (\<lambda>w. w\<lparr>sf_err := Some m\<rparr>))
       in if email = [] \<or> pw = [] then setErr (ss_emailPasswordRequired t)
          else if mismatch pw pw2 then setErr (ss_passwordsDoNotMatch t)
          else if \<not> terms then setErr (ss_acceptTerms t)
          else if strengthScore pw < 2 then setErr (ss_pickStrongerPassword t)
          else io_catch (signUp \<lparr>su_email = trim email, su_password = pw, su_name = trim name\<rparr> out)
                 (\<lambda>e. setErr (form_message (ss_signupFailed t) e))))"

text \<open>The sign-up form sends a request exactly when there are an address and a password, the
  confirmation is empty or equal to the password, the terms are accepted and the password scores at
  least 2; otherwise nothing is sent and one of the form's texts says why. The request carries the
  password and the trimmed address and name. So an account is created with a confirmation left
  empty, which the reset and change forms refuse.\<close>

theorem signup_submit:
  "\<exists>w'. submit_signup t out w = (Inr (), w') \<and>
     (if sf_email w \<noteq> [] \<and> sf_pw w \<noteq> [] \<and> (sf_pw2 w = [] \<or> sf_pw2 w = sf_pw w) \<and> sf_terms w \<and> 2 \<le> strengthScore (sf_pw w)
      then w_sent w' = w_sent w @ [signUp_request \<lparr>su_email = trim (sf_email w), su_password = sf_pw w, su_name = trim (sf_name w)\<rparr>] \<and>
           sf_err w' = map_option err_message (session_failure ''sign-up returned an empty response'' out) \<and>
           \<not> a_isAuthLoading (w_auth w')
      else w_sent w' = w_sent w \<and> w_auth w' = w_auth w \<and>
           sf_err w' \<in> {Some (ss_emailPasswordRequired t), Some (ss_passwordsDoNotMatch t), Some (ss_acceptTerms t),
                        Some (ss_pickStrongerPassword t)})"
proof (cases "sf_email w \<noteq> [] \<and> sf_pw w \<noteq> [] \<and> (sf_pw2 w = [] \<or> sf_pw2 w = sf_pw w) \<and> sf_terms w \<and> 2 \<le> strengthScore (sf_pw w)")
  case False
  then show ?thesis by (auto simp: submit_signup_def io_simps mismatch_def Let_def)
next
  case True
  then have guards: "sf_email w \<noteq> []" "sf_pw w \<noteq> []" "\<not> mismatch (sf_pw w) (sf_pw2 w)" "sf_terms w" "\<not> strengthScore (sf_pw w) < 2"
    by (auto simp: mismatch_def)
  show ?thesis
  proof (cases out)
    case (Inl e)
    then show ?thesis using True guards
      by (simp add: submit_signup_def signUp_def io_simps form_defs session_failure_def)
  next
    case (Inr r)
    then show ?thesis using True guards
      by (cases "fr_data r") (simp_all add: submit_signup_def signUp_def io_simps form_defs session_failure_def)
  qed
qed

section \<open>The password reset\<close>

datatype reset_error = ErrMissing | ErrInvalid | ErrGeneric | ErrRequired | ErrMismatch | ErrWeak

record reset_form = auth_service +
  rf_token :: string
  rf_tokenReady :: bool
  rf_password :: string
  rf_confirm :: string
  rf_loading :: bool
  rf_error :: "reset_error option"
  rf_success :: bool

text \<open>The effect that reads \<open>?token=\<close>; its value is the argument.\<close>

definition read_token :: "string option \<Rightarrow> 'z reset_form_scheme \<Rightarrow> 'z reset_form_scheme" where
  "read_token tok w = w\<lparr>rf_token := nullish tok [], rf_tokenReady := True\<rparr>"

definition submit_reset ::
  "(thrown + bool envelope fetch_result) \<Rightarrow> ('z reset_form_scheme, thrown, unit) io" where
  "submit_reset out =
     io_then (io_modify (\<lambda>w. w\<lparr>rf_error := None\<rparr>))
     (io_bind (io_gets (\<lambda>w. (rf_token w, rf_password w, rf_confirm w))) (\<lambda>(token, password, confirm).
       let setError = (\<lambda>e. io_modify (\<lambda>w. w\<lparr>rf_error := Some e\<rparr>))
       in if token = [] then setError ErrMissing
          else if password = [] \<or> confirm = [] then setError ErrRequired
          else if mismatch password confirm then setError ErrMismatch
          else if strengthScore password < 2 then setError ErrWeak
          else io_then (io_modify (\<lambda>w. w\<lparr>rf_loading := True\<rparr>))
            (io_finally
              (io_catch
                (io_then (consumePasswordRecovery \<lparr>cpr_token = token, cpr_new_password = password\<rparr> out)
                  (io_modify (\<lambda>w. w\<lparr>rf_success := True\<rparr>)))
                (\<lambda>caught. setError (if isApiError caught \<and> err_status (the_api_error caught) \<noteq> 400
                                    then ErrGeneric else ErrInvalid)))
              (io_modify (\<lambda>w. w\<lparr>rf_loading := False\<rparr>)))))"

text \<open>The timer of the success view: three seconds after it appears it leaves for the sign-in page.\<close>

definition RESET_REDIRECT_MS :: nat where "RESET_REDIRECT_MS = 3000"

definition reset_timer :: "string \<Rightarrow> nat \<Rightarrow> 'z reset_form_scheme \<Rightarrow> 'z reset_form_scheme" where
  "reset_timer loc waited w =
     (if rf_success w \<and> waited = RESET_REDIRECT_MS then w\<lparr>w_nav := w_nav w @ [''/'' @ loc @ ''/login'']\<rparr> else w)"

datatype reset_view = ResetDone | ResetNoToken | ResetFields

definition reset_render :: "'z reset_form_scheme \<Rightarrow> reset_view" where
  "reset_render w =
     (if rf_success w then ResetDone else if rf_tokenReady w \<and> rf_token w = [] then ResetNoToken else ResetFields)"

definition reset_ready :: "'z reset_form_scheme \<Rightarrow> bool" where
  "reset_ready w \<longleftrightarrow> rf_token w \<noteq> [] \<and> rf_password w \<noteq> [] \<and> rf_confirm w = rf_password w \<and>
     2 \<le> strengthScore (rf_password w)"

definition consume_request :: "string \<Rightarrow> string \<Rightarrow> request" where
  "consume_request token password = (mk_request ApiClient POST ''/auth/consume-pwd-recovery-token'')
     \<lparr>rq_body := Some (JObject [(''token'', JString token), (''new_password'', JString password)])\<rparr>"

text \<open>The reset form sends its token with the new password exactly when the link had a token, both
  fields hold the same password and it scores at least 2. A response of the backend shows the success
  view; a failure with status 400 says the link is invalid, any other one shows the generic error, and
  both leave the fields on screen. It never throws and never stays loading.\<close>

theorem reset_submit:
  assumes "\<not> rf_success w" "\<not> rf_loading w"
  shows "\<exists>w'. submit_reset out w = (Inr (), w') \<and> \<not> rf_loading w' \<and>
     (if reset_ready w
      then w_sent w' = w_sent w @ [consume_request (rf_token w) (rf_password w)] \<and>
           (case out of
              Inr _ \<Rightarrow> reset_render w' = ResetDone \<and> rf_error w' = None
            | Inl e \<Rightarrow> reset_render w' = ResetFields \<and>
                rf_error w' = Some (if err_status (toError e) = 400 then ErrInvalid else ErrGeneric))
      else w_sent w' = w_sent w \<and> \<not> rf_success w' \<and>
           rf_error w' \<in> {Some ErrMissing, Some ErrRequired, Some ErrMismatch, Some ErrWeak})"
proof (cases "reset_ready w")
  case False
  then show ?thesis using assms by (auto simp: submit_reset_def io_simps mismatch_def reset_ready_def Let_def)
next
  case True
  then have guards: "rf_token w \<noteq> []" "rf_password w \<noteq> []" "rf_confirm w \<noteq> []" "\<not> mismatch (rf_password w) (rf_confirm w)"
    "\<not> strengthScore (rf_password w) < 2"
    by (auto simp: reset_ready_def mismatch_def)
  show ?thesis
    by (cases out)
      (use True guards assms in \<open>simp_all add: submit_reset_def consumePasswordRecovery_def consume_request_def io_simps
        form_defs reset_render_def\<close>)
qed

definition sample_reset :: "reset_form" where
  "sample_reset = \<lparr>w_toasts = [], w_counter = 0, w_now = 0, w_auth = initial_auth, w_nav = [], w_pathname = ''/en/reset'',
     w_language = ''en'', w_sent = [], asv_isLoading = False, rf_token = ''tok'', rf_tokenReady = True, rf_password = ''Aa1!'',
     rf_confirm = ''Aa1!'', rf_loading = False, rf_error = None, rf_success = False\<rparr>"

theorem reset_submit_witness:
  "\<exists>w'. submit_reset (Inl (ApiObj (mk_api_error 400 ''expired''))) sample_reset = (Inr (), w') \<and>
     w_sent w' = [consume_request ''tok'' ''Aa1!''] \<and> rf_error w' = Some ErrInvalid"
proof -
  have "reset_ready sample_reset"
    by (simp add: reset_ready_def sample_reset_def strengthScore_def has_upper_def has_lower_def has_digit_def has_symbol_def
        is_digit_def is_word_def)
  then show ?thesis
    using reset_submit [of sample_reset "Inl (ApiObj (mk_api_error 400 ''expired''))"]
    by (auto simp: sample_reset_def)
qed

section \<open>The password change\<close>

record change_form = auth_service +
  cf_current :: string
  cf_next :: string
  cf_confirm :: string
  cf_loading :: bool
  cf_err :: "string option"
  cf_closed :: bool

record change_strings =
  cs_passwordRequired :: string
  cs_passwordsDoNotMatch :: string
  cs_pickStrongerPassword :: string
  cs_errorGeneric :: string

text \<open>\<open>onSuccess\<close> closes the dialog: \<open>cf_closed\<close>.\<close>

definition submit_change ::
  "change_strings \<Rightarrow> (thrown + bool envelope fetch_result) \<Rightarrow> (thrown + user envelope fetch_result) \<Rightarrow>
   ('z change_form_scheme, thrown, unit) io" where
  "submit_change t out out_profile =
     io_then (io_modify (\<lambda>w. w\<lparr>cf_err := None\<rparr>))
     (io_bind (io_gets (\<lambda>w. (cf_current w, cf_next w, cf_confirm w))) (\<lambda>(current, nxt, confirm).
       let setErr = (\<lambda>m. io_modify (\<lambda>w. w\<lparr>cf_err := Some m\<rparr>))
       in if current = [] \<or> nxt = [] \<or> confirm = [] then setErr (cs_passwordRequired t)
          else if mismatch nxt confirm then setErr (cs_passwordsDoNotMatch t)
          else if strengthScore nxt < 2 then setErr (cs_pickStrongerPassword t)
          else io_then (io_modify (\<lambda>w. w\<lparr>cf_loading := True\<rparr>))
            (io_finally
              (io_catch
                (io_then (changePassword \<lparr>cp_old_password = current, cp_new_password = nxt\<rparr> out out_profile)
                  (io_modify (\<lambda>w. w\<lparr>cf_closed := True\<rparr>)))
                (\<lambda>e. setErr (form_message (cs_errorGeneric t) e)))
              (io_modify (\<lambda>w. w\<lparr>cf_loading := False\<rparr>)))))"

definition change_ready :: "'z change_form_scheme \<Rightarrow> bool" where
  "change_ready w \<longleftrightarrow> cf_current w \<noteq> [] \<and> cf_next w \<noteq> [] \<and> cf_confirm w = cf_next w \<and> 2 \<le> strengthScore (cf_next w)"

text \<open>Changing the password. Without the current password, or without a confirmed new one that scores
  at least 2, nothing is sent. A refusal by the backend shows its text, keeps the dialog and does not
  read the profile again. A success closes the dialog after the profile has been read again, which
  lifts the forced change unless the backend still answers with the middleware's 403; a profile
  request that fails does not undo the success.\<close>

theorem change_submit:
  assumes "\<not> cf_closed w" "\<not> cf_loading w"
  shows "\<exists>w'. submit_change t out out_profile w = (Inr (), w') \<and> \<not> cf_loading w' \<and>
     (if \<not> change_ready w then w_sent w' = w_sent w \<and> \<not> cf_closed w' \<and> cf_err w' \<noteq> None
      else case out of
        Inl e \<Rightarrow> \<not> cf_closed w' \<and> cf_err w' = Some (err_message (toError e)) \<and> length (w_sent w') = length (w_sent w) + 1 \<and>
                 w_auth w' = w_auth w
      | Inr _ \<Rightarrow> cf_closed w' \<and> cf_err w' = None \<and> length (w_sent w') = length (w_sent w) + 2 \<and>
                 last (w_sent w') = mk_request ApiClient GET ''/users/me'' \<and>
                 (a_mustChangePassword (w_auth w') \<longleftrightarrow>
                    (case out_profile of Inl _ \<Rightarrow> False | Inr r \<Rightarrow> must_change_password_error (fr_error r))))"
proof (cases "change_ready w")
  case False
  then show ?thesis using assms by (auto simp: submit_change_def io_simps mismatch_def change_ready_def Let_def)
next
  case True
  then have guards: "cf_current w \<noteq> []" "cf_next w \<noteq> []" "cf_confirm w \<noteq> []" "\<not> mismatch (cf_next w) (cf_confirm w)"
    "\<not> strengthScore (cf_next w) < 2"
    by (auto simp: change_ready_def mismatch_def)
  show ?thesis
  proof (cases out)
    case (Inl e)
    then show ?thesis using True guards assms
      by (simp add: submit_change_def changePassword_def io_simps form_defs)
  next
    case (Inr r)
    show ?thesis
    proof (cases out_profile)
      case (Inl e)
      then show ?thesis using \<open>out = Inr r\<close> True guards assms
        by (simp add: submit_change_def changePassword_def fetchProfile_def io_simps form_defs set_role_loaded_def)
    next
      case (Inr q)
      then show ?thesis using \<open>out = Inr r\<close> True guards assms
        by (cases "must_change_password_error (fr_error q)"; cases "Option.bind (fr_data q) env_data")
          (simp_all add: submit_change_def changePassword_def fetchProfile_def io_simps form_defs set_role_loaded_def)
    qed
  qed
qed

definition sample_change :: "change_form" where
  "sample_change = \<lparr>w_toasts = [], w_counter = 0, w_now = 0, w_auth = initial_auth, w_nav = [], w_pathname = ''/en'',
     w_language = ''en'', w_sent = [], asv_isLoading = False, cf_current = ''old'', cf_next = ''Aa1!'',
     cf_confirm = ''Aa1!'', cf_loading = False, cf_err = None, cf_closed = False\<rparr>"

theorem change_submit_witness:
  "\<exists>w'. submit_change \<lparr>cs_passwordRequired = ''r'', cs_passwordsDoNotMatch = ''m'', cs_pickStrongerPassword = ''s'', cs_errorGeneric = ''g''\<rparr>
      (Inl (ApiObj (mk_api_error 400 ''wrong password''))) (Inl Primitive) sample_change = (Inr (), w') \<and>
     \<not> cf_closed w' \<and> cf_err w' = Some ''wrong password''"
proof -
  have "change_ready sample_change"
    by (simp add: change_ready_def sample_change_def strengthScore_def has_upper_def has_lower_def has_digit_def has_symbol_def
        is_digit_def is_word_def)
  then show ?thesis
    using change_submit [of sample_change _ "Inl (ApiObj (mk_api_error 400 ''wrong password''))" "Inl Primitive"]
    by (fastforce simp: sample_change_def)
qed

section \<open>The password recovery\<close>

text \<open>\<open>/^[^\s@]+@[^\s@]+\.[^\s@]+$/\<close>\<close>

definition EMAIL_REGEX :: "string \<Rightarrow> bool" where
  "EMAIL_REGEX s =
     (list_all (\<lambda>c. \<not> is_space c) s \<and>
      (case split_char CHR ''@'' s of
         [local_part, domain] \<Rightarrow> local_part \<noteq> [] \<and> list_ex (\<lambda>c. c = CHR ''.'') (butlast (tl domain))
       | _ \<Rightarrow> False))"

definition PASSWORD_RECOVERY_RESEND_COOLDOWN_SECONDS :: int where
  "PASSWORD_RECOVERY_RESEND_COOLDOWN_SECONDS = 60"

datatype recovery_phase = RequestPhase | SentPhase

record forgot_form = auth_service +
  ff_phase :: recovery_phase
  ff_email :: string
  ff_err :: "string option"
  ff_loading :: bool
  ff_cooldown :: int
  ff_resent :: bool
  ff_copied :: bool

record forgot_props =
  fp_emailRequired :: string
  fp_emailInvalid :: string
  fp_requestFailed :: string
  fp_locale :: language
  fp_resetPasswordUrlPrefix :: string

type_synonym ('z, 'a) forgot_act = "('z forgot_form_scheme, thrown, 'a) io"

definition recovery_dto :: "forgot_props \<Rightarrow> string \<Rightarrow> request_password_recovery_dto" where
  "recovery_dto t email = \<lparr>rpr_email = email, rpr_locale = fp_locale t, rpr_reset_password_url = fp_resetPasswordUrlPrefix t\<rparr>"

text \<open>The request with its failure text and its loading flag, as both handlers make it.\<close>

definition ask_recovery ::
  "forgot_props \<Rightarrow> string \<Rightarrow> (thrown + string envelope fetch_result) \<Rightarrow> ('z forgot_form_scheme \<Rightarrow> 'z forgot_form_scheme) \<Rightarrow>
   ('z, unit) forgot_act" where
  "ask_recovery t email out done =
     io_then (io_modify (\<lambda>w. w\<lparr>ff_loading := True\<rparr>))
     (io_finally
       (io_catch
         (io_then (requestPasswordRecovery (recovery_dto t email) out) (io_modify done))
         (\<lambda>e. io_modify (\<lambda>w. w\<lparr>ff_err := Some (form_message (fp_requestFailed t) e)\<rparr>)))
       (io_modify (\<lambda>w. w\<lparr>ff_loading := False\<rparr>)))"

definition submit_forgot :: "forgot_props \<Rightarrow> (thrown + string envelope fetch_result) \<Rightarrow> ('z, unit) forgot_act" where
  "submit_forgot t out =
     io_then (io_modify (\<lambda>w. w\<lparr>ff_err := None\<rparr>))
     (io_bind (io_gets (\<lambda>w. trim (ff_email w))) (\<lambda>trimmed.
       if trimmed = [] then io_modify (\<lambda>w. w\<lparr>ff_err := Some (fp_emailRequired t)\<rparr>)
       else if \<not> EMAIL_REGEX trimmed then io_modify (\<lambda>w. w\<lparr>ff_err := Some (fp_emailInvalid t)\<rparr>)
       else ask_recovery t trimmed out
         (\<lambda>w. w\<lparr>ff_email := trimmed, ff_resent := False, ff_cooldown := PASSWORD_RECOVERY_RESEND_COOLDOWN_SECONDS,
                ff_phase := SentPhase\<rparr>)))"

definition resend :: "forgot_props \<Rightarrow> (thrown + string envelope fetch_result) \<Rightarrow> ('z, unit) forgot_act" where
  "resend t out =
     io_bind (io_gets (\<lambda>w. (ff_cooldown w, ff_email w))) (\<lambda>(cooldown, email).
       if 0 < cooldown then io_return ()
       else io_then (io_modify (\<lambda>w. w\<lparr>ff_err := None\<rparr>))
         (ask_recovery t email out
           (\<lambda>w. w\<lparr>ff_resent := True, ff_cooldown := PASSWORD_RECOVERY_RESEND_COOLDOWN_SECONDS\<rparr>)))"

text \<open>The interval of the cooldown effect runs only while the cooldown is positive.\<close>

definition cooldown_tick :: "'z forgot_form_scheme \<Rightarrow> 'z forgot_form_scheme" where
  "cooldown_tick w = (if ff_cooldown w \<le> 0 then w else w\<lparr>ff_cooldown := max 0 (ff_cooldown w - 1)\<rparr>)"

definition edit_email :: "'z forgot_form_scheme \<Rightarrow> 'z forgot_form_scheme" where
  "edit_email w = w\<lparr>ff_phase := RequestPhase, ff_err := None\<rparr>"

definition handleCopy :: "bool \<Rightarrow> 'z forgot_form_scheme \<Rightarrow> 'z forgot_form_scheme" where
  "handleCopy copy_ok w = (if copy_ok then w\<lparr>ff_copied := True\<rparr> else w)"

datatype forgot_event =
    TypeEmail string
  | SubmitForgot "thrown + string envelope fetch_result"
  | Resend "thrown + string envelope fetch_result"
  | CooldownTick
  | EditEmail
  | CopyEmail bool
  | CopyTimeout

text \<open>The address field and its button are on screen in the request phase, the resend, edit and copy
  controls in the other; a timer runs in both.\<close>

fun forgot_step :: "forgot_props \<Rightarrow> forgot_event \<Rightarrow> 'z forgot_form_scheme \<Rightarrow> 'z forgot_form_scheme" where
  "forgot_step t (TypeEmail v) w = (if ff_phase w = RequestPhase then w\<lparr>ff_email := v\<rparr> else w)"
| "forgot_step t (SubmitForgot out) w = (if ff_phase w = RequestPhase then snd (submit_forgot t out w) else w)"
| "forgot_step t (Resend out) w = (if ff_phase w = SentPhase then snd (resend t out w) else w)"
| "forgot_step t CooldownTick w = cooldown_tick w"
| "forgot_step t EditEmail w = (if ff_phase w = SentPhase then edit_email w else w)"
| "forgot_step t (CopyEmail copy_ok) w = (if ff_phase w = SentPhase then handleCopy copy_ok w else w)"
| "forgot_step t CopyTimeout w = w\<lparr>ff_copied := False\<rparr>"

definition forgot_run :: "forgot_props \<Rightarrow> forgot_event list \<Rightarrow> 'z forgot_form_scheme \<Rightarrow> 'z forgot_form_scheme" where
  "forgot_run t es w = foldl (\<lambda>w e. forgot_step t e w) w es"

definition recovery_request :: "forgot_props \<Rightarrow> string \<Rightarrow> request" where
  "recovery_request t email = (mk_request ApiClient POST ''/auth/generate-pwd-recovery-token'')
     \<lparr>rq_body := Some (JObject [(''email'', JString email), (''locale'', JString (language_str (fp_locale t))),
                                (''reset_password_url'', JString (fp_resetPasswordUrlPrefix t))])\<rparr>"

lemma ask_recovery_ok:
  "ask_recovery t email (Inr r) done w =
     (Inr (), (done (sent (recovery_request t email) (w\<lparr>ff_loading := True\<rparr>)))\<lparr>ff_loading := False\<rparr>)"
  by (simp add: ask_recovery_def requestPasswordRecovery_def recovery_dto_def recovery_request_def io_simps)

lemma ask_recovery_failed:
  "ask_recovery t email (Inl e) done w =
     (Inr (), (pushed (error_toast (toError e)) (sent (recovery_request t email) (w\<lparr>ff_loading := True\<rparr>)))
        \<lparr>ff_err := Some (err_message (toError e)), ff_loading := False\<rparr>)"
  by (simp add: ask_recovery_def requestPasswordRecovery_def recovery_dto_def recovery_request_def form_message_def io_simps)

lemmas recovery_simps = ask_recovery_ok ask_recovery_failed io_simps form_defs
  PASSWORD_RECOVERY_RESEND_COOLDOWN_SECONDS_def

text \<open>Asking for the reset email. A blank address, and a trimmed one that is not of the form
  \<open>a@b.c\<close>, are refused on the page. Any other is asked for, trimmed: accepted, the page shows the
  confirmation for the trimmed address with the full cooldown; refused, it stays on the request with
  the backend's text.\<close>

theorem forgot_submit:
  "\<exists>w'. submit_forgot t out w = (Inr (), w') \<and>
     (if trim (ff_email w) = [] \<or> \<not> EMAIL_REGEX (trim (ff_email w))
      then w_sent w' = w_sent w \<and> ff_phase w' = ff_phase w \<and>
           ff_err w' = Some (if trim (ff_email w) = [] then fp_emailRequired t else fp_emailInvalid t)
      else w_sent w' = w_sent w @ [recovery_request t (trim (ff_email w))] \<and> \<not> ff_loading w' \<and>
           (case out of
              Inr _ \<Rightarrow> ff_phase w' = SentPhase \<and> ff_email w' = trim (ff_email w) \<and> ff_cooldown w' = 60 \<and> ff_err w' = None
            | Inl e \<Rightarrow> ff_phase w' = ff_phase w \<and> ff_email w' = ff_email w \<and> ff_cooldown w' = ff_cooldown w \<and>
                ff_err w' = Some (err_message (toError e))))"
  by (cases out) (simp_all add: submit_forgot_def recovery_simps)

text \<open>The cooldown and the log of requests over one event.\<close>

definition cooldown_ok :: "'z forgot_form_scheme \<Rightarrow> bool" where
  "cooldown_ok w \<longleftrightarrow> 0 \<le> ff_cooldown w \<and> ff_cooldown w \<le> 60"

lemma cooldown_ok_step: "cooldown_ok w \<Longrightarrow> cooldown_ok (forgot_step t e w)"
proof (cases e)
  case (SubmitForgot out)
  then show "cooldown_ok w \<Longrightarrow> ?thesis"
    by (cases out) (simp_all add: submit_forgot_def recovery_simps cooldown_ok_def)
next
  case (Resend out)
  then show "cooldown_ok w \<Longrightarrow> ?thesis"
    by (cases out) (simp_all add: resend_def recovery_simps cooldown_ok_def)
qed (simp_all add: cooldown_ok_def cooldown_tick_def edit_email_def handleCopy_def)

fun resend_only :: "forgot_event \<Rightarrow> bool" where
  "resend_only (SubmitForgot out) = False"
| "resend_only (Resend (Inl e)) = False"
| "resend_only _ = True"

lemma resend_budget:
  assumes "resend_only e" "cooldown_ok w"
  shows "60 * int (length (w_sent (forgot_step t e w))) - ff_cooldown (forgot_step t e w) \<le>
     60 * int (length (w_sent w)) - ff_cooldown w + (if e = CooldownTick then 1 else 0)"
proof (cases e)
  case (Resend out)
  then obtain r where "out = Inr r" using assms(1) by (cases out) auto
  with Resend assms(2) show ?thesis by (simp add: resend_def recovery_simps cooldown_ok_def)
qed (use assms in \<open>simp_all add: cooldown_tick_def edit_email_def handleCopy_def cooldown_ok_def\<close>)

lemma resend_budget_run:
  "list_all resend_only es \<Longrightarrow> cooldown_ok w \<Longrightarrow>
   60 * int (length (w_sent (forgot_run t es w))) - ff_cooldown (forgot_run t es w) \<le>
     60 * int (length (w_sent w)) - ff_cooldown w + int (count_list es CooldownTick) \<and>
   cooldown_ok (forgot_run t es w)"
proof (induction es arbitrary: w)
  case (Cons e es)
  have e: "resend_only e" "list_all resend_only es" using Cons.prems(1) by simp_all
  have run: "forgot_run t (e # es) w = forgot_run t es (forgot_step t e w)" by (simp add: forgot_run_def)
  note step = resend_budget [OF e(1) Cons.prems(2), of t]
  note rest = Cons.IH [OF e(2) cooldown_ok_step [OF Cons.prems(2), of t e]]
  have "int (count_list (e # es) CooldownTick) = (if e = CooldownTick then 1 else 0) + int (count_list es CooldownTick)"
    by simp
  with step rest show ?case unfolding run by linarith
qed (simp add: forgot_run_def)

text \<open>C21: The resend button is throttled: while no request fails and the address is not submitted again, every
  request sent after the first waits for a full cooldown of 60 ticks, however often the button, the
  copy button and the edit link are used.\<close>

theorem resend_throttled:
  assumes "list_all resend_only es" "0 \<le> ff_cooldown w" "ff_cooldown w \<le> 60"
  shows "60 * (length (w_sent (forgot_run t es w)) - length (w_sent w)) \<le> count_list es CooldownTick + 60 - nat (ff_cooldown w)"
proof -
  have "cooldown_ok w" using assms by (simp add: cooldown_ok_def)
  with resend_budget_run [OF assms(1), of w t] show ?thesis
    unfolding cooldown_ok_def by linarith
qed

text \<open>The throttle holds for that button only: going back to edit the address and submitting it again asks
  for another email at once, whatever is left of the cooldown.\<close>

theorem editing_skips_cooldown:
  assumes "ff_phase w = SentPhase" "trim (ff_email w) \<noteq> []" "EMAIL_REGEX (trim (ff_email w))"
  shows "w_sent (forgot_run t [EditEmail, SubmitForgot out] w) = w_sent w @ [recovery_request t (trim (ff_email w))] \<and>
    (0 < ff_cooldown w \<longrightarrow> forgot_run t [Resend out] w = w)"
  using assms
  by (cases out) (simp_all add: forgot_run_def submit_forgot_def resend_def edit_email_def recovery_simps)

definition sample_forgot :: "forgot_form" where
  "sample_forgot = \<lparr>w_toasts = [], w_counter = 0, w_now = 0, w_auth = initial_auth, w_nav = [], w_pathname = ''/en'',
     w_language = ''en'', w_sent = [], asv_isLoading = False, ff_phase = SentPhase, ff_email = ''a@b.co'', ff_err = None,
     ff_loading = False, ff_cooldown = 60, ff_resent = False, ff_copied = False\<rparr>"

definition sample_props :: forgot_props where
  "sample_props = \<lparr>fp_emailRequired = ''r'', fp_emailInvalid = ''i'', fp_requestFailed = ''f'', fp_locale = En,
     fp_resetPasswordUrlPrefix = ''/reset''\<rparr>"

theorem editing_skips_cooldown_witness:
  "w_sent (forgot_run sample_props [EditEmail, SubmitForgot (Inl Primitive)] sample_forgot) =
     [recovery_request sample_props ''a@b.co'']"
proof -
  have t: "trim (ff_email sample_forgot) = ''a@b.co''" by (simp add: sample_forgot_def trim_def is_space_def)
  have e: "EMAIL_REGEX ''a@b.co''" by (simp add: EMAIL_REGEX_def is_space_def)
  have p: "ff_phase sample_forgot = SentPhase" "w_sent sample_forgot = []" by (simp_all add: sample_forgot_def)
  show ?thesis
    using editing_skips_cooldown [of sample_forgot sample_props "Inl Primitive"] by (simp add: t e p)
qed

theorem resend_throttled_witness:
  "60 * (length (w_sent (forgot_run sample_props [Resend (fetched \<lparr>env_status_code = 200, env_message = [], env_data = None\<rparr>),
      CooldownTick] sample_forgot)) - length (w_sent sample_forgot)) \<le> 1"
  using resend_throttled [of "[Resend (fetched \<lparr>env_status_code = 200, env_message = [], env_data = None\<rparr>), CooldownTick]" sample_forgot sample_props]
  by (simp add: sample_forgot_def fetched_def)

end
