(* ===== verification/AdminPages.thy ===== *)
theory AdminPages
  imports UserService DeviceService ApiKeyService SmallServices TextUtils
begin

text \<open>
  The handlers of the admin pages: users (\<open>components/react/features/users/UsersPage.tsx\<close>),
  devices (\<open>features/devices/DevicesPage.tsx\<close>), access keys (\<open>access/AccessPage.tsx\<close>) and the
  profile (\<open>features/profile/ProfilePage.tsx\<close>). A page extends the state of its service hook
  with its dialogs; an operation of a hook runs on the hook's part of the page. A handler that
  rejects is the \<open>Inl\<close> result: the dialog that called it decides what to do with it.
\<close>

section \<open>Hooks on a page\<close>

definition on_part :: "('p \<Rightarrow> 's) \<Rightarrow> ('s \<Rightarrow> 'p \<Rightarrow> 'p) \<Rightarrow> ('s, 'e, 'a) io \<Rightarrow> ('p, 'e, 'a) io" where
  "on_part part put m p = (case m (part p) of (r, s) \<Rightarrow> (r, put s p))"

text \<open>The part of a hook is a lens on the page, so what holds of an operation alone holds of it on the
  page, and the rest of the page is not touched.\<close>

locale page_part =
  fixes part :: "'p \<Rightarrow> 's"
    and put :: "'s \<Rightarrow> 'p \<Rightarrow> 'p"
    and rest :: "'p \<Rightarrow> 'r"
  assumes part_put: "part (put s p) = s"
    and put_part: "put (part p) p = p"
    and put_put: "put s (put s' p) = put s p"
    and rest_put: "rest (put s p) = rest p"
begin

lemma on_part_result: "fst (on_part part put m p) = fst (m (part p))"
  by (simp add: on_part_def split: prod.split)

lemma on_part_state: "part (snd (on_part part put m p)) = snd (m (part p))"
  by (simp add: on_part_def part_put split: prod.split)

lemma on_part_rest: "rest (snd (on_part part put m p)) = rest p"
  by (simp add: on_part_def rest_put split: prod.split)

lemma on_part_pair: "on_part part put m p = (fst (m (part p)), put (snd (m (part p))) p)"
  by (simp add: on_part_def split: prod.split)

lemma on_part_return: "on_part part put (io_return x) p = io_return x p"
  by (simp add: on_part_def io_return_def put_part)

lemma on_part_bind:
  "on_part part put (io_bind m f) p = io_bind (on_part part put m) (\<lambda>x. on_part part put (f x)) p"
  by (simp add: on_part_def io_simps part_put put_put split: prod.split sum.split)

end

section \<open>The users page\<close>

record users_page = user_service +
  up_email_isLoading :: bool
  up_email_error :: "api_error option"
  up_email_messageId :: "string option"
  up_addOpen :: bool
  up_createLoading :: bool
  up_createdUser :: "created_user option"
  up_deleteTarget :: "user option"
  up_deleteLoading :: bool
  up_unhandled :: "thrown list"

definition users_hook :: "users_page \<Rightarrow> user_service" where
  "users_hook p = user_service.truncate p"

definition put_users_hook :: "user_service \<Rightarrow> users_page \<Rightarrow> users_page" where
  "put_users_hook s p = p
     \<lparr>w_toasts := w_toasts s, w_counter := w_counter s, w_now := w_now s, w_auth := w_auth s, w_nav := w_nav s,
      w_pathname := w_pathname s, w_language := w_language s, w_sent := w_sent s,
      usv_isLoading := usv_isLoading s, usv_error := usv_error s, usv_users := usv_users s, usv_user := usv_user s\<rparr>"

definition email_hook :: "users_page \<Rightarrow> email_service" where
  "email_hook p = world.extend (world.truncate p)
     \<lparr>esv_isLoading = up_email_isLoading p, esv_error = up_email_error p, esv_messageId = up_email_messageId p\<rparr>"

definition put_email_hook :: "email_service \<Rightarrow> users_page \<Rightarrow> users_page" where
  "put_email_hook s p = p
     \<lparr>w_toasts := w_toasts s, w_counter := w_counter s, w_now := w_now s, w_auth := w_auth s, w_nav := w_nav s,
      w_pathname := w_pathname s, w_language := w_language s, w_sent := w_sent s,
      up_email_isLoading := esv_isLoading s, up_email_error := esv_error s, up_email_messageId := esv_messageId s\<rparr>"

lemmas hook_defs = users_hook_def put_users_hook_def user_service.defs email_hook_def put_email_hook_def world.defs

definition users_dialogs where
  "users_dialogs p = (up_addOpen p, up_createLoading p, up_createdUser p, up_deleteTarget p, up_deleteLoading p, up_unhandled p)"

interpretation users_hook: page_part users_hook put_users_hook users_dialogs
  by unfold_locales (simp_all add: hook_defs users_dialogs_def)

interpretation email_hook: page_part email_hook put_email_hook "\<lambda>p. (usv_users p, usv_user p, users_dialogs p)"
  by unfold_locales (simp_all add: hook_defs users_dialogs_def)

record text_pair =
  tx_title :: string
  tx_message :: string

record users_strings =
  us_emailSubject :: string
  us_emailSent :: text_pair
  us_userCreated :: text_pair
  us_userDeleted :: text_pair
  us_locale :: language

text \<open>A success toast about a person, and \<open>`${name} ${lastname}`.trim()\<close>\<close>

definition person_name :: "'z user_scheme \<Rightarrow> string" where
  "person_name u = trim (u_name u @ '' '' @ u_lastname u)"

definition person_toast :: "text_pair \<Rightarrow> 'z user_scheme \<Rightarrow> toast_body" where
  "person_toast x u = mk_toast ToastSuccess (tx_title x) (interpolateTemplate [''name'' \<mapsto> person_name u] (tx_message x))"

definition push_toast :: "toast_body \<Rightarrow> ('z, unit) act" where
  "push_toast b = io_bind (toast_push b) (\<lambda>_. io_return ())"

lemma push_toast_eq [io_simps]: "push_toast b w = (Inr (), pushed b w)"
  by (simp add: push_toast_def io_simps)

definition welcome_request :: "users_strings \<Rightarrow> created_user \<Rightarrow> welcome_email_request" where
  "welcome_request t u = \<lparr>we_subject = us_emailSubject t, we_first_name = u_name u,
     we_temporary_password = cu_temporary_password u, we_email = u_email u, we_locale = us_locale t\<rparr>"

definition handleSendEmail ::
  "users_strings \<Rightarrow> created_user \<Rightarrow> (thrown + string envelope fetch_result) \<Rightarrow> (users_page, thrown, unit) io" where
  "handleSendEmail t u out =
     io_bind (on_part email_hook put_email_hook (sendWelcomeEmail (welcome_request t u) out)) (\<lambda>ok.
       if ok then push_toast (person_toast (us_emailSent t) u)
       else io_modify (\<lambda>p. p\<lparr>up_createdUser := Some u\<rparr>))"

text \<open>\<open>handleSendEmail(created)\<close> is neither awaited nor caught: what it throws is an unhandled
  rejection, logged in \<open>up_unhandled\<close>. It touches none of what the handler does after it, so the
  model runs it to its end where the handler starts it.\<close>

definition detached :: "(users_page, thrown, unit) io \<Rightarrow> (users_page, thrown, unit) io" where
  "detached m = io_catch m (\<lambda>e. io_modify (\<lambda>p. p\<lparr>up_unhandled := up_unhandled p @ [e]\<rparr>))"

definition handleCreate ::
  "users_strings \<Rightarrow> create_user_dto \<Rightarrow> (thrown + created_user envelope fetch_result) \<Rightarrow>
   (thrown + string envelope fetch_result) \<Rightarrow> (users_page, thrown, unit) io" where
  "handleCreate t payload out out_email =
     io_then (io_modify (\<lambda>p. p\<lparr>up_createLoading := True\<rparr>))
     (io_finally
       (io_catch
         (io_bind (on_part users_hook put_users_hook (createUser payload out)) (\<lambda>created.
            io_then (io_modify (\<lambda>p. p\<lparr>up_addOpen := False\<rparr>))
            (io_then (push_toast (person_toast (us_userCreated t) created))
              (detached (handleSendEmail t created out_email)))))
         (\<lambda>_. io_return ()))
       (io_modify (\<lambda>p. p\<lparr>up_createLoading := False\<rparr>)))"

definition handleDelete_user :: "users_strings \<Rightarrow> (thrown + 'b fetch_result) \<Rightarrow> (users_page, thrown, unit) io" where
  "handleDelete_user t out =
     io_bind (io_gets up_deleteTarget) (\<lambda>target.
       case target of
         None \<Rightarrow> io_return ()
       | Some removed \<Rightarrow>
           io_then (io_modify (\<lambda>p. p\<lparr>up_deleteLoading := True\<rparr>))
           (io_finally
             (io_catch
               (io_then (on_part users_hook put_users_hook (deleteUser (u_id removed) out))
                 (io_then (io_modify (\<lambda>p. p\<lparr>up_deleteTarget := None\<rparr>))
                   (push_toast (person_toast (us_userDeleted t) removed))))
               (\<lambda>_. io_return ()))
             (io_modify (\<lambda>p. p\<lparr>up_deleteLoading := False\<rparr>))))"

text \<open>What the pages need of the hooks' operations.\<close>

definition email_accepted :: "string envelope fetch_result \<Rightarrow> bool" where
  "email_accepted r \<longleftrightarrow> map_option env_status_code (fr_data r) = Some 202"

lemma createUser_adds:
  "fst (createUser payload out s) = Inr u \<Longrightarrow> usv_users (snd (createUser payload out s)) = usv_users s @ [created_row u]"
  using createUser_effect [of payload out s] by auto

lemma sendWelcomeEmail_result:
  "fst (sendWelcomeEmail q out s) =
     (case out of Inl e \<Rightarrow> Inl (ApiObj (toError e)) | Inr r \<Rightarrow> Inr (email_accepted r))"
  by (cases out) (auto simp: sendWelcomeEmail_def esv_resetState_def io_simps Let_def email_accepted_def split: option.split)

lemma users_hook_field [simp]: "usv_users (users_hook p) = usv_users p"
  by (simp add: hook_defs)

lemma put_users_fields [simp]:
  "usv_users (put_users_hook s p) = usv_users s" "up_addOpen (put_users_hook s p) = up_addOpen p"
  "up_createLoading (put_users_hook s p) = up_createLoading p" "up_createdUser (put_users_hook s p) = up_createdUser p"
  "up_deleteTarget (put_users_hook s p) = up_deleteTarget p" "up_deleteLoading (put_users_hook s p) = up_deleteLoading p"
  "up_unhandled (put_users_hook s p) = up_unhandled p" "w_toasts (put_users_hook s p) = w_toasts s"
  by (simp_all add: put_users_hook_def)

lemma put_email_fields [simp]:
  "usv_users (put_email_hook s p) = usv_users p" "up_addOpen (put_email_hook s p) = up_addOpen p"
  "up_createLoading (put_email_hook s p) = up_createLoading p" "up_createdUser (put_email_hook s p) = up_createdUser p"
  "up_deleteTarget (put_email_hook s p) = up_deleteTarget p" "up_deleteLoading (put_email_hook s p) = up_deleteLoading p"
  "up_unhandled (put_email_hook s p) = up_unhandled p"
  by (simp_all add: put_email_hook_def)

lemma page_pushed [simp]:
  "usv_users (pushed b (p :: users_page)) = usv_users p" "up_addOpen (pushed b p) = up_addOpen p"
  "up_createLoading (pushed b p) = up_createLoading p" "up_createdUser (pushed b p) = up_createdUser p"
  "up_deleteTarget (pushed b p) = up_deleteTarget p" "up_deleteLoading (pushed b p) = up_deleteLoading p"
  "up_unhandled (pushed b p) = up_unhandled p"
  by (simp_all add: pushed_def)

lemma detached_send:
  "\<exists>p'. detached (handleSendEmail t u out) p = (Inr (), p') \<and> up_addOpen p' = up_addOpen p \<and> usv_users p' = usv_users p \<and>
     (case out of
        Inr r \<Rightarrow> up_unhandled p' = up_unhandled p \<and>
          up_createdUser p' = (if email_accepted r then up_createdUser p else Some u)
      | Inl e \<Rightarrow> up_unhandled p' = up_unhandled p @ [ApiObj (toError e)] \<and> up_createdUser p' = up_createdUser p)"
proof -
  obtain r s where rs: "sendWelcomeEmail (welcome_request t u) out (email_hook p) = (r, s)" by fastforce
  have r: "r = (case out of Inl e \<Rightarrow> Inl (ApiObj (toError e)) | Inr r \<Rightarrow> Inr (email_accepted r))"
    using sendWelcomeEmail_result [of "welcome_request t u" out "email_hook p"] rs by simp
  show ?thesis
    by (cases out) (use r rs in \<open>simp_all add: detached_def handleSendEmail_def on_part_def io_simps\<close>)
qed

text \<open>C24: Creating a user on the users page. When the creation fails the dialog stays as it was for another try.
  When it succeeds the dialog closes, and what happens to the temporary password depends on the
  welcome email: with an answer of 202 nothing more is shown, with any other answer the page shows
  the password to the administrator. But when the email request itself fails, the rejection is
  handled by nobody and the password is not shown.\<close>

theorem create_user_password_shown:
  "\<exists>p'. handleCreate t payload out out_email p = (Inr (), p') \<and> \<not> up_createLoading p' \<and>
     (case fst (createUser payload out (users_hook (p\<lparr>up_createLoading := True\<rparr>))) of
        Inl e \<Rightarrow> up_addOpen p' = up_addOpen p \<and> up_createdUser p' = up_createdUser p \<and> up_unhandled p' = up_unhandled p
      | Inr u \<Rightarrow> \<not> up_addOpen p' \<and> usv_users p' = usv_users p @ [created_row u] \<and>
          (case out_email of
             Inr r \<Rightarrow> up_unhandled p' = up_unhandled p \<and>
                up_createdUser p' = (if email_accepted r then up_createdUser p else Some u)
           | Inl e \<Rightarrow> up_unhandled p' = up_unhandled p @ [ApiObj (toError e)] \<and> up_createdUser p' = up_createdUser p))"
proof -
  let ?p0 = "p\<lparr>up_createLoading := True\<rparr>"
  obtain r s where rs: "createUser payload out (users_hook ?p0) = (r, s)" by fastforce
  show ?thesis
  proof (cases r)
    case (Inl e)
    then show ?thesis using rs by (simp add: handleCreate_def on_part_def io_simps)
  next
    case (Inr u)
    let ?p1 = "(put_users_hook s ?p0)\<lparr>up_addOpen := False\<rparr>"
    have users: "usv_users s = usv_users p @ [created_row u]"
      using createUser_adds [of payload out "users_hook ?p0" u] rs Inr by simp
    obtain p' where p': "detached (handleSendEmail t u out_email) (pushed (person_toast (us_userCreated t) u) ?p1) = (Inr (), p')"
        "up_addOpen p' = False" "usv_users p' = usv_users s"
        "case out_email of
           Inr r \<Rightarrow> up_unhandled p' = up_unhandled p \<and>
             up_createdUser p' = (if email_accepted r then up_createdUser p else Some u)
         | Inl e \<Rightarrow> up_unhandled p' = up_unhandled p @ [ApiObj (toError e)] \<and> up_createdUser p' = up_createdUser p"
      using detached_send [of t u out_email "pushed (person_toast (us_userCreated t) u) ?p1"]
      by (force split: sum.splits)
    have "handleCreate t payload out out_email p = (Inr (), p'\<lparr>up_createLoading := False\<rparr>)"
      using rs Inr p'(1) by (simp add: handleCreate_def on_part_def io_simps)
    then show ?thesis using Inr rs p' users by (simp split: sum.splits)
  qed
qed

lemma deleteUser_eq:
  "usv_users (snd (deleteUser i out s)) = (case out of Inl e \<Rightarrow> usv_users s | Inr _ \<Rightarrow> drop_key u_id i (usv_users s))"
  "fst (deleteUser i out s) = (case out of Inl e \<Rightarrow> Inl (ApiObj (toError e)) | Inr _ \<Rightarrow> Inr ())"
  by (cases out; simp add: deleteUser_def io_simps service_defs)+

text \<open>Confirming a deletion on the users page never rejects and never stays loading. Accepted, it closes the
  dialog and drops exactly the user it was open for from the list, with one toast that names that
  user; refused, list and dialog stay for another try. Without an open dialog nothing happens.\<close>

theorem delete_user_confirmed:
  "\<exists>p'. handleDelete_user t out p = (Inr (), p') \<and>
     (case up_deleteTarget p of
        None \<Rightarrow> p' = p
      | Some u \<Rightarrow> \<not> up_deleteLoading p' \<and>
          (case out of
             Inr _ \<Rightarrow> up_deleteTarget p' = None \<and> usv_users p' = filter (\<lambda>x. u_id x \<noteq> u_id u) (usv_users p) \<and>
               t_message (last (w_toasts p')) = Some (interpolateTemplate [''name'' \<mapsto> person_name u] (tx_message (us_userDeleted t)))
           | Inl _ \<Rightarrow> up_deleteTarget p' = Some u \<and> usv_users p' = usv_users p))"
proof (cases "up_deleteTarget p")
  case None
  then show ?thesis by (simp add: handleDelete_user_def io_simps)
next
  case (Some u)
  let ?p0 = "p\<lparr>up_deleteLoading := True\<rparr>"
  obtain r s where rs: "deleteUser (u_id u) out (users_hook ?p0) = (r, s)" by fastforce
  show ?thesis
  proof (cases out)
    case (Inl e)
    then have "r = Inl (ApiObj (toError e))" "usv_users s = usv_users p"
      using rs deleteUser_eq [of "u_id u" out "users_hook ?p0"] by simp_all
    then show ?thesis using Some rs Inl by (simp add: handleDelete_user_def on_part_def io_simps)
  next
    case (Inr q)
    then have "r = Inr ()" "usv_users s = drop_key u_id (u_id u) (usv_users p)"
      using rs deleteUser_eq [of "u_id u" out "users_hook ?p0"] by simp_all
    then show ?thesis using Some rs Inr
      by (simp add: handleDelete_user_def on_part_def io_simps drop_key_def person_toast_def mk_toast_def)
  qed
qed

section \<open>The devices page\<close>

record devices_page = device_service +
  dp_addOpen :: bool
  dp_editTarget :: "device_with_access option"
  dp_deleteTarget :: "device_with_access option"

definition devices_hook :: "devices_page \<Rightarrow> device_service" where
  "devices_hook p = device_service.truncate p"

definition put_devices_hook :: "device_service \<Rightarrow> devices_page \<Rightarrow> devices_page" where
  "put_devices_hook s p = p
     \<lparr>w_toasts := w_toasts s, w_counter := w_counter s, w_now := w_now s, w_auth := w_auth s, w_nav := w_nav s,
      w_pathname := w_pathname s, w_language := w_language s, w_sent := w_sent s,
      dsv_isLoading := dsv_isLoading s, dsv_error := dsv_error s, dsv_devices := dsv_devices s, dsv_device := dsv_device s\<rparr>"

definition devices_dialogs where
  "devices_dialogs p = (dp_addOpen p, dp_editTarget p, dp_deleteTarget p)"

interpretation devices_hook: page_part devices_hook put_devices_hook devices_dialogs
  by unfold_locales (simp_all add: devices_hook_def put_devices_hook_def devices_dialogs_def device_service.defs)

text \<open>\<open>captured\<close> and \<open>shown\<close> are the list and the device of the render the handler belongs to.\<close>

definition handleCreate_device ::
  "create_device_dto \<Rightarrow> device_with_access list \<Rightarrow> (thrown + device envelope fetch_result) \<Rightarrow> (devices_page, thrown, unit) io" where
  "handleCreate_device data captured out =
     io_then (on_part devices_hook put_devices_hook (createDevice data captured out))
       (io_modify (\<lambda>p. p\<lparr>dp_addOpen := False\<rparr>))"

definition handleSave_device ::
  "string \<Rightarrow> update_device_dto \<Rightarrow> device_detail option \<Rightarrow> (thrown + device envelope fetch_result) \<Rightarrow> (devices_page, thrown, unit) io" where
  "handleSave_device i data shown out =
     io_then (on_part devices_hook put_devices_hook (updateDevice i data shown out))
       (io_modify (\<lambda>p. p\<lparr>dp_editTarget := None\<rparr>))"

definition handleDelete_device ::
  "device_detail option \<Rightarrow> (thrown + 'b fetch_result) \<Rightarrow> (devices_page, thrown, unit) io" where
  "handleDelete_device shown out =
     io_bind (io_gets dp_deleteTarget) (\<lambda>target.
       case target of
         None \<Rightarrow> io_return ()
       | Some d \<Rightarrow> io_then (on_part devices_hook put_devices_hook (deleteDevice (d_id d) shown out))
                    (io_modify (\<lambda>p. p\<lparr>dp_deleteTarget := None\<rparr>)))"

lemma put_devices_fields [simp]:
  "dsv_devices (put_devices_hook s p) = dsv_devices s" "dsv_devices (devices_hook p) = dsv_devices p"
  "dsv_isLoading (put_devices_hook s p) = dsv_isLoading s"
  "dp_addOpen (put_devices_hook s p) = dp_addOpen p" "dp_editTarget (put_devices_hook s p) = dp_editTarget p"
  "dp_deleteTarget (put_devices_hook s p) = dp_deleteTarget p"
  by (simp_all add: put_devices_hook_def devices_hook_def device_service.defs)

lemma deleteDevice_eq:
  "dsv_devices (snd (deleteDevice i shown out s)) = (case out of Inl e \<Rightarrow> dsv_devices s | Inr _ \<Rightarrow> drop_key d_id i (dsv_devices s))"
  "fst (deleteDevice i shown out s) = (case out of Inl e \<Rightarrow> Inl (ApiObj (toError e)) | Inr _ \<Rightarrow> Inr ())"
  by (cases out; cases shown; simp add: deleteDevice_def io_simps service_defs)+

lemma createDevice_eq:
  "fst (createDevice data captured out s) =
     (case out of
        Inl e \<Rightarrow> Inl (ApiObj (toError e))
      | Inr r \<Rightarrow> (case Option.bind (fr_data r) env_data of
          None \<Rightarrow> Inl (ApiObj (mk_api_error 0 ''create device returned a null response'')) | Some d \<Rightarrow> Inr ()))"
  by (cases out) (simp_all add: createDevice_def io_simps service_defs split: option.split)

text \<open>The dialogs of the devices page close only on success. A refused creation or deletion is passed on to
  the dialog, which stays open over an unchanged list; an accepted deletion drops exactly the device
  the dialog was open for.\<close>

theorem device_dialogs_close_on_success:
  "(case out of
      Inl e \<Rightarrow> fst (handleCreate_device data captured (Inl e) p) = Inl (ApiObj (toError e)) \<and>
        dp_addOpen (snd (handleCreate_device data captured (Inl e) p)) = dp_addOpen p
    | Inr r \<Rightarrow> dp_addOpen (snd (handleCreate_device data captured (Inr r) p)) =
        (dp_addOpen p \<and> Option.bind (fr_data r) env_data = None)) \<and>
   (case dp_deleteTarget p of
      None \<Rightarrow> handleDelete_device shown del p = (Inr (), p)
    | Some d \<Rightarrow> (case del of
        Inl e \<Rightarrow> fst (handleDelete_device shown del p) = Inl (ApiObj (toError e)) \<and>
          dp_deleteTarget (snd (handleDelete_device shown del p)) = Some d \<and>
          dsv_devices (snd (handleDelete_device shown del p)) = dsv_devices p
      | Inr _ \<Rightarrow> dp_deleteTarget (snd (handleDelete_device shown del p)) = None \<and>
          dsv_devices (snd (handleDelete_device shown del p)) = filter (\<lambda>x. d_id x \<noteq> d_id d) (dsv_devices p)))"
proof (intro conjI)
  obtain r s where rs: "createDevice data captured out (devices_hook p) = (r, s)" by fastforce
  show "case out of
      Inl e \<Rightarrow> fst (handleCreate_device data captured (Inl e) p) = Inl (ApiObj (toError e)) \<and>
        dp_addOpen (snd (handleCreate_device data captured (Inl e) p)) = dp_addOpen p
    | Inr r \<Rightarrow> dp_addOpen (snd (handleCreate_device data captured (Inr r) p)) =
        (dp_addOpen p \<and> Option.bind (fr_data r) env_data = None)"
    using rs createDevice_eq [of data captured out "devices_hook p"]
    by (cases out) (auto simp: handleCreate_device_def on_part_def io_simps split: option.splits)
  show "case dp_deleteTarget p of
      None \<Rightarrow> handleDelete_device shown del p = (Inr (), p)
    | Some d \<Rightarrow> (case del of
        Inl e \<Rightarrow> fst (handleDelete_device shown del p) = Inl (ApiObj (toError e)) \<and>
          dp_deleteTarget (snd (handleDelete_device shown del p)) = Some d \<and>
          dsv_devices (snd (handleDelete_device shown del p)) = dsv_devices p
      | Inr _ \<Rightarrow> dp_deleteTarget (snd (handleDelete_device shown del p)) = None \<and>
          dsv_devices (snd (handleDelete_device shown del p)) = filter (\<lambda>x. d_id x \<noteq> d_id d) (dsv_devices p))"
  proof (cases "dp_deleteTarget p")
    case (Some d)
    obtain r' s' where rs': "deleteDevice (d_id d) shown del (devices_hook p) = (r', s')" by fastforce
    show ?thesis
    proof (cases del)
      case (Inl e)
      then have "r' = Inl (ApiObj (toError e))" "dsv_devices s' = dsv_devices p"
        using rs' deleteDevice_eq [of "d_id d" shown del "devices_hook p"] by simp_all
      then show ?thesis using Some rs' Inl by (simp add: handleDelete_device_def on_part_def io_simps)
    next
      case (Inr q)
      then have "r' = Inr ()" "dsv_devices s' = drop_key d_id (d_id d) (dsv_devices p)"
        using rs' deleteDevice_eq [of "d_id d" shown del "devices_hook p"] by simp_all
      then show ?thesis using Some rs' Inr by (simp add: handleDelete_device_def on_part_def io_simps drop_key_def)
    qed
  qed (simp add: handleDelete_device_def io_simps)
qed

section \<open>The access page\<close>

record access_page = key_service +
  ap_devices :: "device_with_access list"
  ap_addOpen :: bool
  ap_deleteTarget :: "api_key_row option"
  ap_revokeLoading :: bool
  ap_unhandled :: "thrown list"

definition keys_hook :: "access_page \<Rightarrow> key_service" where
  "keys_hook p = key_service.truncate p"

definition put_keys_hook :: "key_service \<Rightarrow> access_page \<Rightarrow> access_page" where
  "put_keys_hook s p = p
     \<lparr>w_toasts := w_toasts s, w_counter := w_counter s, w_now := w_now s, w_auth := w_auth s, w_nav := w_nav s,
      w_pathname := w_pathname s, w_language := w_language s, w_sent := w_sent s,
      ksv_isLoading := ksv_isLoading s, ksv_error := ksv_error s, ksv_apiKeys := ksv_apiKeys s, ksv_rows := ksv_rows s\<rparr>"

definition access_dialogs where
  "access_dialogs p = (ap_devices p, ap_addOpen p, ap_deleteTarget p, ap_revokeLoading p, ap_unhandled p)"

interpretation keys_hook: page_part keys_hook put_keys_hook access_dialogs
  by unfold_locales (simp_all add: keys_hook_def put_keys_hook_def access_dialogs_def key_service.defs)

record access_strings =
  as_addKey :: string
  as_issuedToast :: string
  as_revokedToast :: string
  as_revokeTitle :: string
  as_revokeFailed :: string

record reveal_payload =
  rp_deviceName :: string
  rp_plainKey :: string

definition issued_name :: "access_page \<Rightarrow> string \<Rightarrow> create_api_key_response \<Rightarrow> string" where
  "issued_name p deviceId c = (case find (\<lambda>d. d_id d = deviceId) (ap_devices p) of None \<Rightarrow> ck_id c | Some d \<Rightarrow> d_name d)"

definition issued_toast :: "access_strings \<Rightarrow> string \<Rightarrow> toast_body" where
  "issued_toast t device = mk_toast ToastSuccess (as_addKey t) (interpolateTemplate [''device'' \<mapsto> device] (as_issuedToast t))"

text \<open>The refresh of the list is started and not awaited; the model runs it after the toast, and what it
  rejects with goes to \<open>ap_unhandled\<close>.\<close>

definition handleIssue ::
  "access_strings \<Rightarrow> string \<Rightarrow> (thrown + create_api_key_response envelope fetch_result) \<Rightarrow>
   (thrown + api_key_row list envelope fetch_result) \<Rightarrow> (access_page, thrown, reveal_payload option) io" where
  "handleIssue t deviceId out out_list =
     io_bind (io_gets (\<lambda>p. p)) (\<lambda>shown.
     io_bind (on_part keys_hook put_keys_hook (issueApiKey deviceId out)) (\<lambda>result.
       case result of
         None \<Rightarrow> io_return None
       | Some c \<Rightarrow>
           io_then (push_toast (issued_toast t (issued_name shown deviceId c)))
           (io_then
             (io_catch (on_part keys_hook put_keys_hook (getAllApiKeys out_list))
               (\<lambda>e. io_modify (\<lambda>p. p\<lparr>ap_unhandled := ap_unhandled p @ [e]\<rparr>)))
             (io_return (Some \<lparr>rp_deviceName = issued_name shown deviceId c, rp_plainKey = ck_plain_key c\<rparr>)))))"

definition revoked_toast :: "access_strings \<Rightarrow> api_key_row \<Rightarrow> toast_body" where
  "revoked_toast t row = mk_toast ToastSuccess (hd (split_char dquote (as_revokedToast t)))
     (interpolateTemplate [''device'' \<mapsto> kr_device_name row] (as_revokedToast t))"

definition handleRevoke_key :: "access_strings \<Rightarrow> (thrown + 'b fetch_result) \<Rightarrow> (access_page, thrown, unit) io" where
  "handleRevoke_key t out =
     io_bind (io_gets ap_deleteTarget) (\<lambda>target.
       case target of
         None \<Rightarrow> io_return ()
       | Some row \<Rightarrow>
           io_then (io_modify (\<lambda>p. p\<lparr>ap_revokeLoading := True\<rparr>))
           (io_finally
             (io_catch
               (io_then (on_part keys_hook put_keys_hook (revokeApiKey (kr_device_id row) (kr_id row) out))
               (io_then (push_toast (revoked_toast t row))
                 (io_modify (\<lambda>p. p\<lparr>ap_deleteTarget := None\<rparr>))))
               (\<lambda>_. push_toast (mk_toast ToastError (as_revokeTitle t) (as_revokeFailed t))))
             (io_modify (\<lambda>p. p\<lparr>ap_revokeLoading := False\<rparr>))))"

lemma put_keys_fields [simp]:
  "ksv_rows (put_keys_hook s p) = ksv_rows s" "ksv_rows (keys_hook p) = ksv_rows p" "w_toasts (put_keys_hook s p) = w_toasts s"
  "w_toasts (keys_hook p) = w_toasts p" "w_now (put_keys_hook s p) = w_now s" "w_counter (put_keys_hook s p) = w_counter s"
  "ap_devices (put_keys_hook s p) = ap_devices p" "ap_addOpen (put_keys_hook s p) = ap_addOpen p"
  "ap_deleteTarget (put_keys_hook s p) = ap_deleteTarget p" "ap_revokeLoading (put_keys_hook s p) = ap_revokeLoading p"
  "ap_unhandled (put_keys_hook s p) = ap_unhandled p"
  by (simp_all add: put_keys_hook_def keys_hook_def key_service.defs)

lemma access_pushed [simp]:
  "ksv_rows (pushed b (p :: access_page)) = ksv_rows p" "ap_deleteTarget (pushed b p) = ap_deleteTarget p"
  "ap_revokeLoading (pushed b p) = ap_revokeLoading p" "ap_unhandled (pushed b p) = ap_unhandled p"
  by (simp_all add: pushed_def)

lemma revokeApiKey_eq:
  "ksv_rows (snd (revokeApiKey d k out s)) = (case out of Inl e \<Rightarrow> ksv_rows s | Inr _ \<Rightarrow> drop_key kr_id k (ksv_rows s))"
  "fst (revokeApiKey d k out s) = (case out of Inl e \<Rightarrow> Inl (ApiObj (toError e)) | Inr _ \<Rightarrow> Inr ())"
  "w_toasts (snd (revokeApiKey d k out s)) = (case out of Inl e \<Rightarrow> w_toasts (pushed (error_toast (toError e)) s) | Inr _ \<Rightarrow> w_toasts s)"
  by (cases out; simp add: revokeApiKey_def io_simps service_defs toasts_pushed set_ksv_loading_def)+

text \<open>Confirming a revocation on the access page never rejects and never stays loading. Accepted, it closes the
  dialog and drops exactly the key it was open for. Refused, key and dialog stay, and the
  administrator gets two error toasts for the one failure: the service's, then the page's.\<close>

theorem revoke_key_confirmed:
  "\<exists>p'. handleRevoke_key t out p = (Inr (), p') \<and>
     (case ap_deleteTarget p of
        None \<Rightarrow> p' = p
      | Some row \<Rightarrow> \<not> ap_revokeLoading p' \<and>
          (case out of
             Inr _ \<Rightarrow> ap_deleteTarget p' = None \<and> ksv_rows p' = filter (\<lambda>r. kr_id r \<noteq> kr_id row) (ksv_rows p) \<and>
               t_variant (last (w_toasts p')) = ToastSuccess
           | Inl e \<Rightarrow> ap_deleteTarget p' = Some row \<and> ksv_rows p' = ksv_rows p \<and>
               map t_title (drop (length (w_toasts p') - 2) (w_toasts p')) =
                 [titleForStatus (err_status (toError e)), as_revokeTitle t]))"
proof (cases "ap_deleteTarget p")
  case None
  then show ?thesis by (simp add: handleRevoke_key_def io_simps)
next
  case (Some row)
  let ?p0 = "p\<lparr>ap_revokeLoading := True\<rparr>"
  obtain r s where rs: "revokeApiKey (kr_device_id row) (kr_id row) out (keys_hook ?p0) = (r, s)" by fastforce
  note eqs = revokeApiKey_eq [of "kr_device_id row" "kr_id row" out "keys_hook ?p0"]
  show ?thesis
  proof (cases out)
    case (Inl e)
    let ?b = "mk_toast ToastError (as_revokeTitle t) (as_revokeFailed t)"
    have r: "r = Inl (ApiObj (toError e))" "ksv_rows s = ksv_rows p"
      using rs eqs Inl by simp_all
    have "\<exists>xs x. w_toasts s = xs @ [x] \<and> t_title x = titleForStatus (err_status (toError e)) \<and> length xs < 5"
      using rs eqs(3) Inl length_trim_stack [of "w_toasts p"]
      by (simp add: toasts_pushed error_toast_def mk_toast_def)
    then obtain xs x where x: "w_toasts s = xs @ [x]" "t_title x = titleForStatus (err_status (toError e))" by blast
    have "\<exists>ys. trim_stack (xs @ [x]) = ys @ [x]"
      by (simp add: trim_stack_def TOAST_STACK_MAX_def)
    then obtain ys where "trim_stack (w_toasts s) = ys @ [x]" using x by auto
    then have "map t_title (drop (length (w_toasts (pushed ?b (put_keys_hook s ?p0))) - 2) (w_toasts (pushed ?b (put_keys_hook s ?p0)))) =
        [titleForStatus (err_status (toError e)), as_revokeTitle t]"
      using x by (simp add: toasts_pushed mk_toast_def)
    then show ?thesis using Some rs r Inl by (simp add: handleRevoke_key_def on_part_def io_simps)
  next
    case (Inr q)
    then have "r = Inr ()" "ksv_rows s = drop_key kr_id (kr_id row) (ksv_rows p)" using rs eqs by simp_all
    then show ?thesis using Some rs Inr
      by (simp add: handleRevoke_key_def on_part_def io_simps drop_key_def revoked_toast_def mk_toast_def toasts_pushed)
  qed
qed

lemma issueApiKey_result:
  "fst (issueApiKey d out s) =
     (case out of
        Inl e \<Rightarrow> if err_status (toError e) = 409 then Inr None else Inl (ApiObj (toError e))
      | Inr r \<Rightarrow> (case Option.bind (fr_data r) env_data of
          None \<Rightarrow> Inl (ApiObj (mk_api_error 0 ''issue api key returned a null response'')) | Some c \<Rightarrow> Inr (Some c)))"
  by (cases out) (simp_all add: issueApiKey_def io_simps service_defs split: option.split)

text \<open>Issuing a key from the page. The dialog is given the plain key and the name of the device it was issued
  for (the key's id when the device is not loaded), whatever becomes of the list refresh that
  follows. A device that already has a key gives the dialog nothing to reveal; every other failure,
  and an answer without a key, rejects.\<close>

theorem issue_key_reveals:
  "fst (handleIssue t d out out_list p) =
     (case out of
        Inl e \<Rightarrow> if err_status (toError e) = 409 then Inr None else Inl (ApiObj (toError e))
      | Inr r \<Rightarrow> (case Option.bind (fr_data r) env_data of
          None \<Rightarrow> Inl (ApiObj (mk_api_error 0 ''issue api key returned a null response''))
        | Some c \<Rightarrow> Inr (Some \<lparr>rp_deviceName = (case find (\<lambda>x. d_id x = d) (ap_devices p) of None \<Rightarrow> ck_id c | Some x \<Rightarrow> d_name x),
                               rp_plainKey = ck_plain_key c\<rparr>)))"
proof -
  obtain r s where rs: "issueApiKey d out (keys_hook p) = (r, s)" by fastforce
  show ?thesis
    using issueApiKey_result [of d out "keys_hook p"] rs
    by (auto simp: handleIssue_def on_part_def io_simps issued_name_def split: sum.splits option.splits prod.splits)
qed

section \<open>The profile page\<close>

record profile_page = user_service +
  pp_editOpen :: bool

definition profile_hook :: "profile_page \<Rightarrow> user_service" where
  "profile_hook p = user_service.truncate p"

definition put_profile_hook :: "user_service \<Rightarrow> profile_page \<Rightarrow> profile_page" where
  "put_profile_hook s p = p
     \<lparr>w_toasts := w_toasts s, w_counter := w_counter s, w_now := w_now s, w_auth := w_auth s, w_nav := w_nav s,
      w_pathname := w_pathname s, w_language := w_language s, w_sent := w_sent s,
      usv_isLoading := usv_isLoading s, usv_error := usv_error s, usv_users := usv_users s, usv_user := usv_user s\<rparr>"

interpretation profile_hook: page_part profile_hook put_profile_hook pp_editOpen
  by unfold_locales (simp_all add: profile_hook_def put_profile_hook_def user_service.defs)

text \<open>\<open>reload\<close>, and the effect that runs on the signed-in user's id: the default page of the API.\<close>

definition reload_profile ::
  "(thrown + user_with_devices envelope fetch_result) \<Rightarrow> (profile_page, thrown, unit) io" where
  "reload_profile out =
     io_bind (io_gets (\<lambda>p. map_option au_id (a_user (w_auth p)))) (\<lambda>me.
       case me of
         None \<Rightarrow> io_return ()
       | Some i \<Rightarrow> if i = [] then io_return ()
                   else io_catch (on_part profile_hook put_profile_hook (getUserByID i 1 10 out)) (\<lambda>_. io_return ()))"

definition saveProfile ::
  "text_pair \<Rightarrow> update_user_dto \<Rightarrow> (thrown + user envelope fetch_result) \<Rightarrow> (profile_page, thrown, unit) io" where
  "saveProfile t payload out =
     io_bind (io_gets usv_user) (\<lambda>shown.
       case shown of
         None \<Rightarrow> io_return ()
       | Some u \<Rightarrow>
           io_then (on_part profile_hook put_profile_hook (updateUser (u_id u) payload out))
           (io_then (io_modify (\<lambda>p. p\<lparr>pp_editOpen := False\<rparr>))
             (push_toast (mk_toast ToastSuccess (tx_title t) (tx_message t)))))"

lemma updateUser_result:
  "fst (updateUser i payload out s) =
     (case out of
        Inl e \<Rightarrow> Inl (ApiObj (toError e))
      | Inr r \<Rightarrow> (case Option.bind (fr_data r) env_data of
          None \<Rightarrow> Inl (ApiObj (mk_api_error 0 ''update user returned a null response'')) | Some u \<Rightarrow> Inr ()))"
  by (cases out) (simp_all add: updateUser_def io_simps service_defs split: option.split)

lemma updateUser_shown:
  "usv_user (snd (updateUser i payload out s)) =
     (case out of
        Inl e \<Rightarrow> usv_user s
      | Inr r \<Rightarrow> (case Option.bind (fr_data r) env_data of
          None \<Rightarrow> usv_user s
        | Some upd \<Rightarrow> map_option (\<lambda>u. if u_id u = i then merge_user u upd else u) (usv_user s)))"
proof (cases out)
  case (Inr r)
  then show ?thesis
    by (cases "Option.bind (fr_data r) env_data"; cases "usv_user s") (simp_all add: updateUser_def io_simps service_defs)
qed (simp add: updateUser_def io_simps service_defs)

lemma put_profile_fields [simp]:
  "usv_user (put_profile_hook s p) = usv_user s" "usv_user (profile_hook p) = usv_user p"
  "pp_editOpen (put_profile_hook s p) = pp_editOpen p"
  by (simp_all add: put_profile_hook_def profile_hook_def user_service.defs)

lemma profile_pushed [simp]:
  "usv_user (pushed b (p :: profile_page)) = usv_user p" "pp_editOpen (pushed b p) = pp_editOpen p"
  by (simp_all add: pushed_def)

text \<open>Saving the profile. An accepted update closes the dialog, confirms it, and shows the new fields over the
  devices already loaded. A refused one, or an answer without the user, is passed on to the dialog,
  which stays open over the unchanged profile. Without a loaded profile nothing is sent.\<close>

theorem profile_saved:
  "(case usv_user p of
      None \<Rightarrow> saveProfile t payload out p = (Inr (), p)
    | Some u \<Rightarrow>
        (case (case out of Inl e \<Rightarrow> None | Inr r \<Rightarrow> Option.bind (fr_data r) env_data) of
           Some upd \<Rightarrow> fst (saveProfile t payload out p) = Inr () \<and>
             \<not> pp_editOpen (snd (saveProfile t payload out p)) \<and>
             usv_user (snd (saveProfile t payload out p)) = Some (merge_user u upd) \<and>
             t_message (last (w_toasts (snd (saveProfile t payload out p)))) = Some (tx_message t)
         | None \<Rightarrow> (\<exists>e. fst (saveProfile t payload out p) = Inl (ApiObj e)) \<and>
             pp_editOpen (snd (saveProfile t payload out p)) = pp_editOpen p \<and>
             usv_user (snd (saveProfile t payload out p)) = Some u))"
proof (cases "usv_user p")
  case None
  then show ?thesis by (simp add: saveProfile_def io_simps)
next
  case (Some u)
  obtain r s where rs: "updateUser (u_id u) payload out (profile_hook p) = (r, s)" by fastforce
  note res = updateUser_result [of "u_id u" payload out "profile_hook p"]
    and shown = updateUser_shown [of "u_id u" payload out "profile_hook p"]
  show ?thesis
  proof (cases "case out of Inl e \<Rightarrow> None | Inr r \<Rightarrow> Option.bind (fr_data r) env_data")
    case None
    then have "\<exists>e. r = Inl (ApiObj e)" "usv_user s = Some u"
      using rs res shown Some by (auto split: sum.splits)
    then show ?thesis using Some rs None by (auto simp: saveProfile_def on_part_def io_simps)
  next
    case (Some upd)
    then have "r = Inr ()" "usv_user s = Some (merge_user u upd)"
      using rs res shown \<open>usv_user p = Some u\<close> by (auto split: sum.splits)
    then show ?thesis using Some rs \<open>usv_user p = Some u\<close>
      by (simp add: saveProfile_def on_part_def io_simps mk_toast_def)
  qed
qed

end
