(* ===== verification/DetailPage.thy ===== *)
theory DetailPage
  imports AdminPages Navigation
begin

text \<open>
  The device page (\<open>components/react/features/devices/detail/DeviceDetailPage.tsx\<close>): the device and
  the view it reads from the URL, the switch between the two views with the browser's history
  entries, what is rendered, and the handlers of its dialogs. The history entries of the tab are
  kept as the query parameters of the entries behind and ahead of the current one.
\<close>

type_synonym params = "(string \<times> string) list"

definition params_get :: "string \<Rightarrow> params \<Rightarrow> string option" where
  "params_get k ps = map_of ps k"

definition params_delete :: "string \<Rightarrow> params \<Rightarrow> params" where
  "params_delete k ps = filter (\<lambda>p. fst p \<noteq> k) ps"

datatype detail_view = Overview | HistoryView

record detail_page = device_service +
  dt_deviceId :: "string option"
  dt_activeView :: detail_view
  dt_historyOpened :: bool
  dt_url :: params
  dt_past :: "params list"
  dt_future :: "params list"
  dt_inviteOpen :: bool
  dt_editOpen :: bool
  dt_revokeTarget :: "device_access_list_item option"

section \<open>The view and the URL\<close>

definition url_view :: "params \<Rightarrow> detail_view" where
  "url_view ps = (if params_get ''view'' ps = Some ''history'' then HistoryView else Overview)"

definition syncFromUrl :: "detail_page \<Rightarrow> detail_page" where
  "syncFromUrl p =
     (let nextView = url_view (dt_url p);
          p' = p\<lparr>dt_deviceId := Some (nullish (readDeviceIdFromUrl (params_get ''id'' (dt_url p))) []), dt_activeView := nextView\<rparr>
      in if nextView = HistoryView then p'\<lparr>dt_historyOpened := True\<rparr> else p')"

definition push_state :: "params \<Rightarrow> detail_page \<Rightarrow> detail_page" where
  "push_state u p = p\<lparr>dt_past := dt_url p # dt_past p, dt_url := u, dt_future := []\<rparr>"

definition handleViewChange :: "detail_view \<Rightarrow> detail_page \<Rightarrow> detail_page" where
  "handleViewChange view p =
     (if view = dt_activeView p then p
      else
        let (params, p1) = (if view = HistoryView then (params_set ''view'' ''history'' (dt_url p), p\<lparr>dt_historyOpened := True\<rparr>)
                            else (params_delete ''view'' (dt_url p), p))
        in (push_state params p1)\<lparr>dt_activeView := view\<rparr>)"

datatype detail_event = SwitchView detail_view | BrowserBack | BrowserForward

text \<open>Going back or forward changes the entry and fires \<open>popstate\<close>, whose listener is \<open>syncFromUrl\<close>; at
  an end of the tab's entries nothing happens on this page.\<close>

fun detail_step :: "detail_event \<Rightarrow> detail_page \<Rightarrow> detail_page" where
  "detail_step (SwitchView v) p = handleViewChange v p"
| "detail_step BrowserBack p =
     (case dt_past p of [] \<Rightarrow> p
      | u # us \<Rightarrow> syncFromUrl (p\<lparr>dt_past := us, dt_url := u, dt_future := dt_url p # dt_future p\<rparr>))"
| "detail_step BrowserForward p =
     (case dt_future p of [] \<Rightarrow> p
      | u # us \<Rightarrow> syncFromUrl (p\<lparr>dt_future := us, dt_url := u, dt_past := dt_url p # dt_past p\<rparr>))"

definition mount_detail :: "params \<Rightarrow> world \<Rightarrow> detail_page" where
  "mount_detail u w = syncFromUrl (world.extend w
     \<lparr>dsv_isLoading = False, dsv_error = None, dsv_devices = [], dsv_device = None, dt_deviceId = None,
      dt_activeView = Overview, dt_historyOpened = False, dt_url = u, dt_past = [], dt_future = [],
      dt_inviteOpen = False, dt_editOpen = False, dt_revokeTarget = None\<rparr>)"

inductive detail_reachable :: "params \<Rightarrow> world \<Rightarrow> detail_page \<Rightarrow> bool" for u w where
  mounted: "detail_reachable u w (mount_detail u w)"
| stepped: "detail_reachable u w p \<Longrightarrow> detail_reachable u w (detail_step e p)"

inductive_cases detail_reachable_cases: "detail_reachable u w p"

lemma params_set_get: "params_get k (params_set k v ps) = Some v"
  by (induction k v ps rule: params_set.induct) (auto simp: params_get_def)

lemma params_set_others: "params_delete k (params_set k v ps) = params_delete k ps"
  by (induction k v ps rule: params_set.induct) (auto simp: params_delete_def)

lemma params_delete_get: "params_get k (params_delete k ps) = None"
  by (auto simp: params_get_def params_delete_def map_of_eq_None_iff)

lemma params_delete_twice: "params_delete k (params_delete k ps) = params_delete k ps"
  by (simp add: params_delete_def)

lemma params_get_other: "k \<noteq> k' \<Longrightarrow> params_get k (params_delete k' ps) = params_get k ps"
  by (induction ps) (auto simp: params_get_def params_delete_def)

text \<open>What is kept between the page and the tab's entries, \<open>u\<close> the parameters it was opened with.\<close>

definition detail_inv :: "params \<Rightarrow> detail_page \<Rightarrow> bool" where
  "detail_inv u p \<longleftrightarrow>
     dt_activeView p = url_view (dt_url p) \<and>
     (dt_activeView p = HistoryView \<longrightarrow> dt_historyOpened p) \<and>
     dt_deviceId p = Some (nullish (readDeviceIdFromUrl (params_get ''id'' u)) []) \<and>
     list_all (\<lambda>e. params_delete ''view'' e = params_delete ''view'' u) (dt_url p # dt_past p @ dt_future p)"

lemma same_id: "params_delete ''view'' e = params_delete ''view'' u \<Longrightarrow> params_get ''id'' e = params_get ''id'' u"
proof -
  assume e: "params_delete ''view'' e = params_delete ''view'' u"
  have "params_get ''id'' (params_delete ''view'' x) = params_get ''id'' x" for x
    by (rule params_get_other) simp
  from this [of e] this [of u] show ?thesis by (simp add: e)
qed

text \<open>All the entries of the tab carry the other parameters of \<open>u\<close>.\<close>

definition entries_ok :: "params \<Rightarrow> detail_page \<Rightarrow> bool" where
  "entries_ok u p \<longleftrightarrow> list_all (\<lambda>e. params_delete ''view'' e = params_delete ''view'' u) (dt_url p # dt_past p @ dt_future p)"

lemma sync_inv: "entries_ok u p \<Longrightarrow> detail_inv u (syncFromUrl p)"
  using same_id [of "dt_url p" u] by (simp add: entries_ok_def detail_inv_def syncFromUrl_def Let_def)

lemma detail_inv_entries: "detail_inv u p \<Longrightarrow> entries_ok u p"
  by (simp add: detail_inv_def entries_ok_def)

lemma detail_inv_step: "detail_inv u p \<Longrightarrow> detail_inv u (detail_step e p)"
proof (cases e)
  case (SwitchView v)
  assume "detail_inv u p"
  then show ?thesis
    by (cases v)
      (auto simp: SwitchView detail_inv_def handleViewChange_def push_state_def url_view_def params_set_get params_set_others
        params_delete_get params_delete_twice)
next
  case BrowserBack
  assume inv: "detail_inv u p"
  show ?thesis
  proof (cases "dt_past p")
    case (Cons e es)
    then have "entries_ok u (p\<lparr>dt_past := es, dt_url := e, dt_future := dt_url p # dt_future p\<rparr>)"
      using detail_inv_entries [OF inv] by (simp add: entries_ok_def)
    then show ?thesis using BrowserBack Cons by (simp add: sync_inv)
  qed (use BrowserBack inv in simp)
next
  case BrowserForward
  assume inv: "detail_inv u p"
  show ?thesis
  proof (cases "dt_future p")
    case (Cons e es)
    then have "entries_ok u (p\<lparr>dt_future := es, dt_url := e, dt_past := dt_url p # dt_past p\<rparr>)"
      using detail_inv_entries [OF inv] by (simp add: entries_ok_def)
    then show ?thesis using BrowserForward Cons by (simp add: sync_inv)
  qed (use BrowserForward inv in simp)
qed

lemma detail_inv_reachable: "detail_reachable u w p \<Longrightarrow> detail_inv u p"
proof (induction rule: detail_reachable.induct)
  case mounted
  then show ?case unfolding mount_detail_def by (rule sync_inv) (simp add: entries_ok_def world.defs)
qed (rule detail_inv_step)

text \<open>C20: However the view is switched and the browser's buttons are used, the view on screen is the one the URL
  names, the history panel has been opened whenever it is shown, the device stays the one of the URL
  the page was opened with, and no entry of the tab loses another parameter.\<close>

theorem detail_view_follows_url:
  assumes "detail_reachable u w p"
  shows "dt_activeView p = url_view (dt_url p) \<and> (dt_activeView p = HistoryView \<longrightarrow> dt_historyOpened p) \<and>
    dt_deviceId p = Some (nullish (readDeviceIdFromUrl (params_get ''id'' u)) []) \<and>
    list_all (\<lambda>e. params_delete ''view'' e = params_delete ''view'' u) (dt_url p # dt_past p @ dt_future p)"
  using detail_inv_reachable [OF assms] by (simp add: detail_inv_def)

theorem detail_view_follows_url_witness:
  "url_view (dt_url (detail_step BrowserBack (detail_step (SwitchView HistoryView) (mount_detail [(''id'', ''7'')] initial_world)))) =
   dt_activeView (detail_step BrowserBack (detail_step (SwitchView HistoryView) (mount_detail [(''id'', ''7'')] initial_world)))"
  by (rule detail_view_follows_url [of "[(''id'', ''7'')]" initial_world, THEN conjunct1, symmetric])
    (intro detail_reachable.intros)

text \<open>The back button undoes a switch of the view: the URL, the view and the entries behind are those from
  before it; and the forward button redoes it.\<close>

theorem back_undoes_switch:
  assumes "detail_reachable u w p" "v \<noteq> dt_activeView p"
  shows "let q = detail_step (SwitchView v) p; r = detail_step BrowserBack q; f = detail_step BrowserForward r in
     dt_url r = dt_url p \<and> dt_activeView r = dt_activeView p \<and> dt_past r = dt_past p \<and>
     dt_url f = dt_url q \<and> dt_activeView f = v \<and> dt_past f = dt_past q"
proof -
  have inv: "dt_activeView p = url_view (dt_url p)" using detail_inv_reachable [OF assms(1)] by (simp add: detail_inv_def)
  have "detail_reachable u w (detail_step (SwitchView v) p)" by (rule stepped) (rule assms(1))
  from detail_inv_reachable [OF this]
  have "dt_activeView (detail_step (SwitchView v) p) = url_view (dt_url (detail_step (SwitchView v) p))"
    by (simp add: detail_inv_def)
  then show ?thesis
    using assms(2) inv by (auto simp: Let_def handleViewChange_def push_state_def syncFromUrl_def split: if_splits)
qed

theorem back_undoes_switch_witness:
  "dt_url (detail_step BrowserBack (detail_step (SwitchView HistoryView) (mount_detail [(''id'', ''7'')] initial_world))) = [(''id'', ''7'')]"
proof -
  have m: "dt_activeView (mount_detail [(''id'', ''7'')] initial_world) = Overview"
    "dt_url (mount_detail [(''id'', ''7'')] initial_world) = [(''id'', ''7'')]"
    by (simp_all add: mount_detail_def syncFromUrl_def url_view_def params_get_def world.defs)
  then show ?thesis
    using back_undoes_switch [OF mounted, of HistoryView "[(''id'', ''7'')]" initial_world] by (simp add: Let_def)
qed

section \<open>What is rendered\<close>

text \<open>\<open>error?.message ?? failedToLoad\<close> is the text of the error view. The status, non-null exactly with a
  device, adds no case.\<close>

datatype detail_screen =
    ScreenLoading
  | ScreenMissing
  | ScreenError string
  | ScreenDevice device_detail

definition detail_render :: "string \<Rightarrow> detail_page \<Rightarrow> detail_screen" where
  "detail_render failedToLoad p =
     (if dt_deviceId p = None \<or> dsv_isLoading p then ScreenLoading
      else if dt_deviceId p = Some [] then ScreenMissing
      else case dsv_device p of
        None \<Rightarrow> ScreenError (case dsv_error p of None \<Rightarrow> failedToLoad | Some e \<Rightarrow> err_message e)
      | Some d \<Rightarrow> ScreenDevice d)"

section \<open>The handlers\<close>

definition detail_hook :: "detail_page \<Rightarrow> device_service" where
  "detail_hook p = device_service.truncate p"

definition put_detail_hook :: "device_service \<Rightarrow> detail_page \<Rightarrow> detail_page" where
  "put_detail_hook s p = p
     \<lparr>w_toasts := w_toasts s, w_counter := w_counter s, w_now := w_now s, w_auth := w_auth s, w_nav := w_nav s,
      w_pathname := w_pathname s, w_language := w_language s, w_sent := w_sent s,
      dsv_isLoading := dsv_isLoading s, dsv_error := dsv_error s, dsv_devices := dsv_devices s, dsv_device := dsv_device s\<rparr>"

definition detail_rest where
  "detail_rest p = (dt_deviceId p, dt_activeView p, dt_historyOpened p, dt_url p, dt_past p, dt_future p,
     dt_inviteOpen p, dt_editOpen p, dt_revokeTarget p)"

interpretation detail_hook: page_part detail_hook put_detail_hook detail_rest
  by unfold_locales (simp_all add: detail_hook_def put_detail_hook_def detail_rest_def device_service.defs)

type_synonym 'a detail_act = "(detail_page, thrown, 'a) io"

text \<open>The effect on the device id.\<close>

definition load_device :: "(thrown + device_detail envelope fetch_result) \<Rightarrow> unit detail_act" where
  "load_device out =
     io_bind (io_gets dt_deviceId) (\<lambda>i.
       case i of
         None \<Rightarrow> io_return ()
       | Some d \<Rightarrow> if d = [] then io_return () else on_part detail_hook put_detail_hook (getDeviceById d out))"

definition handleInvite ::
  "string \<Rightarrow> (thrown + 'b fetch_result) \<Rightarrow> (thrown + device_detail envelope fetch_result) \<Rightarrow> unit detail_act" where
  "handleInvite userId out out_detail =
     io_bind (io_gets dsv_device) (\<lambda>shown.
       case shown of
         None \<Rightarrow> io_return ()
       | Some d \<Rightarrow> io_then (on_part detail_hook put_detail_hook (grantAccess (d_id d) userId out out_detail))
                    (io_modify (\<lambda>p. p\<lparr>dt_inviteOpen := False\<rparr>)))"

definition handleRevoke ::
  "(thrown + 'b fetch_result) \<Rightarrow> (thrown + device_detail envelope fetch_result) \<Rightarrow> unit detail_act" where
  "handleRevoke out out_detail =
     io_bind (io_gets (\<lambda>p. (dsv_device p, dt_revokeTarget p))) (\<lambda>st.
       case st of
         (Some d, Some u) \<Rightarrow>
           io_then (on_part detail_hook put_detail_hook (revokeAccess (d_id d) (dal_user_id u) out out_detail))
             (io_modify (\<lambda>p. p\<lparr>dt_revokeTarget := None\<rparr>))
       | _ \<Rightarrow> io_return ())"

definition handleEdit :: "string \<Rightarrow> update_device_dto \<Rightarrow> (thrown + device envelope fetch_result) \<Rightarrow> unit detail_act" where
  "handleEdit i data out =
     io_bind (io_gets dsv_device) (\<lambda>shown.
       io_then (on_part detail_hook put_detail_hook (updateDevice i data shown out))
         (io_modify (\<lambda>p. p\<lparr>dt_editOpen := False\<rparr>)))"

definition goBack :: "unit detail_act" where
  "goBack = redirectTo ''/devices/''"

definition handleDelete :: "(thrown + 'b fetch_result) \<Rightarrow> unit detail_act" where
  "handleDelete out =
     io_bind (io_gets dsv_device) (\<lambda>shown.
       case shown of
         None \<Rightarrow> io_return ()
       | Some d \<Rightarrow> io_then (on_part detail_hook put_detail_hook (deleteDevice (d_id d) (Some d) out)) goBack)"

lemma put_detail_fields [simp]:
  "dsv_device (put_detail_hook s p) = dsv_device s" "dsv_device (detail_hook p) = dsv_device p"
  "dsv_error (put_detail_hook s p) = dsv_error s" "dsv_error (detail_hook p) = dsv_error p"
  "dsv_isLoading (put_detail_hook s p) = dsv_isLoading s" "w_nav (put_detail_hook s p) = w_nav s"
  "w_pathname (put_detail_hook s p) = w_pathname s" "w_language (put_detail_hook s p) = w_language s"
  "dt_deviceId (put_detail_hook s p) = dt_deviceId p" "dt_inviteOpen (put_detail_hook s p) = dt_inviteOpen p"
  "dt_revokeTarget (put_detail_hook s p) = dt_revokeTarget p" "dt_editOpen (put_detail_hook s p) = dt_editOpen p"
  by (simp_all add: put_detail_hook_def detail_hook_def device_service.defs)

text \<open>How reading the device and granting access end.\<close>

definition loaded_device :: "(thrown + device_detail envelope fetch_result) \<Rightarrow> device_detail option" where
  "loaded_device out =
     (case out of Inl e \<Rightarrow> None
      | Inr r \<Rightarrow> (case fr_data r of None \<Rightarrow> None | Some env \<Rightarrow> if env_status_code env = 200 then env_data env else None))"

definition load_rejects :: "(thrown + device_detail envelope fetch_result) \<Rightarrow> bool" where
  "load_rejects out \<longleftrightarrow>
     (case out of Inl e \<Rightarrow> True | Inr r \<Rightarrow> (case fr_data r of None \<Rightarrow> True | Some env \<Rightarrow> env_status_code env \<noteq> 200))"

lemma getDeviceById_end:
  "dsv_device (snd (getDeviceById i out s)) = loaded_device out"
  "(\<exists>e. fst (getDeviceById i out s) = Inl e) = load_rejects out"
  "dsv_error (snd (getDeviceById i out s)) = None"
  "\<not> dsv_isLoading (snd (getDeviceById i out s))"
proof -
  show "\<not> dsv_isLoading (snd (getDeviceById i out s))" by (rule getDeviceById_idle)
  show "dsv_device (snd (getDeviceById i out s)) = loaded_device out"
    "(\<exists>e. fst (getDeviceById i out s) = Inl e) = load_rejects out"
    "dsv_error (snd (getDeviceById i out s)) = None"
    by (cases out; simp add: getDeviceById_def io_simps service_defs loaded_device_def load_rejects_def split: option.split)+
qed

lemma grantAccess_end:
  "fst (grantAccess i u out out_detail s) = (case out of Inl e \<Rightarrow> Inl (ApiObj (toError e))
     | Inr _ \<Rightarrow> fst (getDeviceById i out_detail (sent (grant_request i u) (set_dsv_loading True s))))"
  "dsv_device (snd (grantAccess i u out out_detail s)) = (case out of Inl e \<Rightarrow> dsv_device s | Inr _ \<Rightarrow> loaded_device out_detail)"
  "\<not> dsv_isLoading (snd (grantAccess i u out out_detail s))"
proof -
  let ?s = "sent (grant_request i u) (set_dsv_loading True s)"
  obtain r q where rq: "getDeviceById i out_detail ?s = (r, q)" by fastforce
  have q: "dsv_device q = loaded_device out_detail" using getDeviceById_end(1) [of i out_detail ?s] rq by simp
  have run: "grantAccess i u out out_detail s =
      (case out of Inl e \<Rightarrow> (Inl (ApiObj (toError e)), set_dsv_loading False (pushed (error_toast (toError e)) ?s))
                 | Inr _ \<Rightarrow> (r, set_dsv_loading False q))"
    by (cases out) (simp_all add: grantAccess_def io_simps service_defs rq)
  show "fst (grantAccess i u out out_detail s) =
      (case out of Inl e \<Rightarrow> Inl (ApiObj (toError e)) | Inr _ \<Rightarrow> fst (getDeviceById i out_detail ?s))"
    unfolding run by (cases out) (simp_all add: rq)
  show "dsv_device (snd (grantAccess i u out out_detail s)) = (case out of Inl e \<Rightarrow> dsv_device s | Inr _ \<Rightarrow> loaded_device out_detail)"
    unfolding run by (cases out) (simp_all add: q)
  show "\<not> dsv_isLoading (snd (grantAccess i u out out_detail s))"
    unfolding run by (cases out) simp_all
qed

text \<open>Inviting a user from the device page. While the request runs the page shows nothing but its loading
  view. A refused invitation keeps device and dialog; an accepted one with a good reload closes the
  dialog over the reloaded device. But when the invitation is accepted and only the reload fails, the
  handler rejects, the dialog stays open and the page drops the device for its error view, although
  the access was granted.\<close>

theorem invite_outcomes:
  assumes "dsv_device p = Some d" "dt_deviceId p = Some (d_id d)" "d_id d \<noteq> []"
  shows "let p' = snd (handleInvite userId out out_detail p) in
    detail_render t (p\<lparr>dsv_isLoading := True\<rparr>) = ScreenLoading \<and>
    (case out of
       Inl e \<Rightarrow> fst (handleInvite userId out out_detail p) = Inl (ApiObj (toError e)) \<and> dt_inviteOpen p' = dt_inviteOpen p \<and>
         detail_render t p' = ScreenDevice d
     | Inr _ \<Rightarrow>
         (if load_rejects out_detail
          then (\<exists>e. fst (handleInvite userId out out_detail p) = Inl e) \<and> dt_inviteOpen p' = dt_inviteOpen p \<and>
               dsv_device p' = None
          else fst (handleInvite userId out out_detail p) = Inr () \<and> \<not> dt_inviteOpen p' \<and> dsv_device p' = loaded_device out_detail))"
proof -
  obtain r s where rs: "grantAccess (d_id d) userId out out_detail (detail_hook p) = (r, s)" by fastforce
  note e = grantAccess_end [of "d_id d" userId out out_detail "detail_hook p"]
  have idle: "\<not> dsv_isLoading s" using e(3) rs by simp
  have loading: "detail_render t (p\<lparr>dsv_isLoading := True\<rparr>) = ScreenLoading" by (simp add: detail_render_def)
  show ?thesis
  proof (cases out)
    case (Inl x)
    then have "r = Inl (ApiObj (toError x))" "dsv_device s = Some d" using e(1,2) rs assms(1) by simp_all
    then show ?thesis using assms rs Inl idle loading
      by (simp add: Let_def handleInvite_def on_part_def io_simps detail_render_def)
  next
    case (Inr x)
    then have r: "r = fst (getDeviceById (d_id d) out_detail (sent (grant_request (d_id d) userId) (set_dsv_loading True (detail_hook p))))"
      and dev: "dsv_device s = loaded_device out_detail"
      using e(1,2) rs by simp_all
    have "(\<exists>e. r = Inl e) = load_rejects out_detail" unfolding r by (rule getDeviceById_end)
    moreover have "load_rejects out_detail \<Longrightarrow> loaded_device out_detail = None"
      by (auto simp: load_rejects_def loaded_device_def split: sum.splits option.splits if_splits)
    ultimately show ?thesis using assms rs Inr dev loading
      by (cases r) (auto simp: Let_def handleInvite_def on_part_def io_simps)
  qed
qed

definition sample_van :: device_detail where
  "sample_van = \<lparr>d_id = ''7'', d_uuid_firmware = ''u'', d_name = ''van'', d_vehicle_type = Van, d_created_at = ''t'',
     d_last_contact_at = None, da_access_role = Owner, dd_users = []\<rparr>"

definition sample_detail :: "detail_page" where
  "sample_detail = (mount_detail [(''id'', ''7'')] initial_world)\<lparr>dsv_device := Some sample_van, dt_inviteOpen := True\<rparr>"

lemma sample_detail_simps:
  "dsv_device sample_detail = Some sample_van" "dt_deviceId sample_detail = Some ''7''" "dt_inviteOpen sample_detail"
  "d_id sample_van = ''7''"
  by (simp_all add: sample_detail_def sample_van_def mount_detail_def syncFromUrl_def url_view_def params_get_def world.defs
      readDeviceIdFromUrl_def nullish_def Let_def)

theorem invite_outcomes_witness:
  "dsv_device (snd (handleInvite ''u1'' (Inr \<lparr>fr_data = Some (), fr_error = None\<rparr>) (Inl Primitive) sample_detail)) = None \<and>
   dt_inviteOpen (snd (handleInvite ''u1'' (Inr \<lparr>fr_data = Some (), fr_error = None\<rparr>) (Inl Primitive) sample_detail))"
  using invite_outcomes [of sample_detail sample_van "''u1''" "Inr \<lparr>fr_data = Some (), fr_error = None\<rparr>" "Inl Primitive" "''t''"]
  by (simp add: sample_detail_simps Let_def load_rejects_def)

text \<open>When the device cannot be read, for whatever reason, the hook's \<open>error\<close> stays \<open>null\<close>, so the page
  shows its own generic text and never the backend's.\<close>

theorem load_failure_text_is_generic:
  assumes "dt_deviceId p = Some d" "d \<noteq> []" "loaded_device out = None"
  shows "detail_render t (snd (load_device out p)) = ScreenError t"
proof -
  obtain r s where rs: "getDeviceById d out (detail_hook p) = (r, s)" by fastforce
  note e = getDeviceById_end [of d out "detail_hook p"]
  have "dsv_device s = None" "dsv_error s = None" "\<not> dsv_isLoading s" using e(1,3,4) rs assms(3) by simp_all
  then show ?thesis using assms(1,2) rs
    by (cases r) (simp_all add: load_device_def on_part_def io_simps detail_render_def)
qed

theorem load_failure_text_is_generic_witness:
  "detail_render ''Could not load'' (snd (load_device (Inl (ApiObj (mk_api_error 403 ''You have no access''))) sample_detail)) =
     ScreenError ''Could not load''"
  using load_failure_text_is_generic [of sample_detail "''7''" "Inl (ApiObj (mk_api_error 403 ''You have no access''))"]
  by (simp add: sample_detail_simps loaded_device_def)

text \<open>Deleting the device from its page: accepted, the page leaves for the list of devices; refused, it stays on the device.\<close>

theorem delete_leaves_page:
  assumes "dsv_device p = Some d"
  shows "(case del of
      Inr _ \<Rightarrow> fst (handleDelete del p) = Inr () \<and> dsv_device (snd (handleDelete del p)) = None \<and>
        w_nav (snd (handleDelete del p)) = w_nav p @ [redirect_url (w_pathname p) (w_language p) ''/devices/'']
    | Inl e \<Rightarrow> fst (handleDelete del p) = Inl (ApiObj (toError e)) \<and> dsv_device (snd (handleDelete del p)) = Some d \<and>
        w_nav (snd (handleDelete del p)) = w_nav p)"
proof -
  have frame: "w_nav (detail_hook p) = w_nav p" "w_pathname (detail_hook p) = w_pathname p" "w_language (detail_hook p) = w_language p"
    by (simp_all add: detail_hook_def device_service.defs)
  have dev: "dsv_device (put_detail_hook s p) = dsv_device s" "dsv_device (navigated x q) = dsv_device (q :: detail_page)" for s x q
    by (simp_all add: navigated_def)
  show ?thesis
    by (cases del)
      (use assms in \<open>simp_all add: handleDelete_def goBack_def deleteDevice_def on_part_def io_simps service_defs frame dev set_dsv_loading_def\<close>)
qed

theorem delete_leaves_page_witness:
  "w_nav (snd (handleDelete (Inr \<lparr>fr_data = Some (), fr_error = None\<rparr>) sample_detail)) = w_nav sample_detail @ [redirect_url (w_pathname sample_detail) (w_language sample_detail) ''/devices/'']"
  using delete_leaves_page [of sample_detail sample_van "Inr \<lparr>fr_data = Some (), fr_error = None\<rparr>"]
  by (simp add: sample_detail_simps)

end
