(* ===== verification/Startup.thy ===== *)
theory Startup
  imports RouteGates
begin

text \<open>
  The start of a protected page: the session provider (\<open>components/react/auth/AuthProvider.tsx\<close>,
  the once-only effect of \<open>lib/hooks/useHydrateOnce.ts\<close>) and the protected gate over one auth store.
  The two hydrate as separate islands, so their effects and the answers to their requests come in any
  order: a run is a list of events, and an event that cannot happen changes nothing. The store starts
  as \<open>lib/stores/auth.ts\<close> creates it, with nobody signed in and nothing loading.
\<close>

text \<open>The guard of the effect: whether it calls the refresh, and the flag it leaves.\<close>

definition hydrate_once :: "bool \<Rightarrow> bool \<times> bool" where
  "hydrate_once hydrated = (if hydrated then (False, hydrated) else (True, True))"

record boot =
  bt_world :: world
  bt_hydrated :: bool
  bt_session :: bool
  bt_profile :: bool
  bt_status :: "bootstrap_status option"
  bt_asking :: bool
  bt_redirects :: "string list"

definition boot_start :: "world \<Rightarrow> boot" where
  "boot_start w = \<lparr>bt_world = w\<lparr>w_auth := initial_auth\<rparr>, bt_hydrated = False, bt_session = False, bt_profile = False,
     bt_status = None, bt_asking = False, bt_redirects = []\<rparr>"

datatype boot_event =
    ProviderEffect
  | SessionSettles bool "thrown + auth_session fetch_result"
  | ProfileSettles "thrown + user envelope fetch_result"
  | GateAsks
  | StatusSettles "thrown + bootstrap_status"
  | GateRedirects

abbreviation boot_auth :: "boot \<Rightarrow> auth_atoms" where
  "boot_auth b \<equiv> w_auth (bt_world b)"

definition provider_effect :: "boot \<Rightarrow> boot" where
  "provider_effect b =
     (case hydrate_once (bt_hydrated b) of
        (refresh, flag) \<Rightarrow>
          (let b' = b\<lparr>bt_hydrated := flag\<rparr>
           in if refresh then b'\<lparr>bt_session := True, bt_world := snd (setAuthLoading True (bt_world b))\<rparr> else b'))"

fun boot_step :: "boot_event \<Rightarrow> boot \<Rightarrow> boot" where
  "boot_step ProviderEffect b = provider_effect b"
| "boot_step (SessionSettles showToast out) b =
     (if bt_session b then
        (case getSession showToast out (bt_world b) of
           (r, w) \<Rightarrow> b\<lparr>bt_session := False, bt_world := w,
                      bt_profile := (case r of Inr (Some u) \<Rightarrow> True | _ \<Rightarrow> False)\<rparr>)
      else b)"
| "boot_step (ProfileSettles out) b =
     (if bt_profile b then b\<lparr>bt_profile := False, bt_world := snd (fetchProfile out (bt_world b))\<rparr> else b)"
| "boot_step GateAsks b =
     (if protected_asks (boot_auth b) (bt_status b) \<and> \<not> bt_asking b then b\<lparr>bt_asking := True\<rparr> else b)"
| "boot_step (StatusSettles out) b =
     (if bt_asking b then b\<lparr>bt_asking := False, bt_status := Some (settle_status out)\<rparr> else b)"
| "boot_step GateRedirects b =
     (case protected_redirect (boot_auth b) (bt_status b) of
        None \<Rightarrow> b | Some p \<Rightarrow> b\<lparr>bt_redirects := bt_redirects b @ [p]\<rparr>)"

definition boot_run :: "boot_event list \<Rightarrow> boot \<Rightarrow> boot" where
  "boot_run es b = foldl (\<lambda>b e. boot_step e b) b es"

lemma boot_run_simps [simp]:
  "boot_run [] b = b" "boot_run (e # es) b = boot_run es (boot_step e b)"
  by (simp_all add: boot_run_def)

section \<open>One session request\<close>

definition me_requests :: "world \<Rightarrow> nat" where
  "me_requests w = length (filter (\<lambda>r. rq_path r = ''/me'') (w_sent w))"

lemma getSession_requests: "me_requests (snd (getSession b out w)) = me_requests w + 1"
  by (cases out)
    (simp_all add: getSession_def fetchMe_def me_requests_def mk_request_def io_simps service_defs split: option.split)

lemma fetchProfile_requests: "me_requests (snd (fetchProfile out w)) = me_requests w"
proof (cases out)
  case (Inl e)
  then show ?thesis by (simp add: fetchProfile_def me_requests_def mk_request_def io_simps service_defs)
next
  case (Inr r)
  then show ?thesis
    by (cases "must_change_password_error (fr_error r)"; cases "Option.bind (fr_data r) env_data")
      (simp_all add: fetchProfile_def me_requests_def mk_request_def io_simps service_defs)
qed

text \<open>A session request is possible once: before the effect, in flight, or done.\<close>

definition boot_budget :: "boot \<Rightarrow> nat" where
  "boot_budget b = me_requests (bt_world b) + (if bt_session b then 1 else 0) + (if bt_hydrated b then 0 else 1)"

lemma me_requests_setAuthLoading [simp]: "me_requests (snd (setAuthLoading b w)) = me_requests w"
  by (simp add: me_requests_def setAuthLoading_def io_simps)

lemma boot_budget_step: "boot_budget (boot_step e b) \<le> boot_budget b"
proof (cases e)
  case ProviderEffect
  then show ?thesis by (simp add: provider_effect_def hydrate_once_def boot_budget_def Let_def)
next
  case (SessionSettles t out)
  then show ?thesis
    using getSession_requests [of t out "bt_world b"]
    by (cases "getSession t out (bt_world b)") (simp add: boot_budget_def)
next
  case (ProfileSettles out)
  then show ?thesis by (simp add: boot_budget_def fetchProfile_requests)
next
  case (GateRedirects)
  then show ?thesis by (simp add: boot_budget_def split: option.split)
qed (simp_all add: boot_budget_def)

lemma boot_budget_run: "boot_budget (boot_run es b) \<le> boot_budget b"
  by (induction es arbitrary: b) (auto intro: order_trans [OF _ boot_budget_step])

section \<open>A page whose provider runs first\<close>

text \<open>While the request is in flight the store is loading; once it settled with a user it is
  authenticated: in neither case does the gate ask or redirect.\<close>

fun names_user :: "boot_event \<Rightarrow> bool" where
  "names_user (SessionSettles t out) = (me_of out \<noteq> None)"
| "names_user _ = True"

definition boot_inv :: "boot \<Rightarrow> bool" where
  "boot_inv b \<longleftrightarrow> bt_hydrated b \<and> bt_redirects b = [] \<and>
     (if bt_session b then a_isAuthLoading (boot_auth b)
      else isAuthenticated (boot_auth b) \<and> \<not> a_isAuthLoading (boot_auth b))"

lemma getSession_user:
  assumes "me_of out = Some u"
  shows "fst (getSession t out w) = Inr (Some u)"
    and "isAuthenticated (w_auth (snd (getSession t out w)))"
    and "\<not> a_isAuthLoading (w_auth (snd (getSession t out w)))"
proof -
  obtain w' where "fetchMe t out (set_auth_loading True w) = (Inr (Some u), w')"
    using fetchMe_pair [of t out "set_auth_loading True w"] assms by metis
  then show "fst (getSession t out w) = Inr (Some u)"
    "isAuthenticated (w_auth (snd (getSession t out w)))"
    "\<not> a_isAuthLoading (w_auth (snd (getSession t out w)))"
    by (simp_all add: getSession_def io_simps setAuthLoading_def setUser_def isAuthenticated_def)
qed

lemma fetchProfile_keeps:
  "a_user (w_auth (snd (fetchProfile out w))) = a_user (w_auth w)"
  "a_isAuthLoading (w_auth (snd (fetchProfile out w))) = a_isAuthLoading (w_auth w)"
proof -
  have "a_user (w_auth (snd (fetchProfile out w))) = a_user (w_auth w) \<and>
    a_isAuthLoading (w_auth (snd (fetchProfile out w))) = a_isAuthLoading (w_auth w)"
  proof (cases out)
    case (Inl e)
    then show ?thesis by (simp add: fetchProfile_def mk_request_def io_simps service_defs)
  next
    case (Inr r)
    then show ?thesis
      by (cases "must_change_password_error (fr_error r)"; cases "Option.bind (fr_data r) env_data")
        (simp_all add: fetchProfile_def mk_request_def io_simps service_defs)
  qed
  then show "a_user (w_auth (snd (fetchProfile out w))) = a_user (w_auth w)"
    "a_isAuthLoading (w_auth (snd (fetchProfile out w))) = a_isAuthLoading (w_auth w)" by simp_all
qed

lemma boot_inv_step: "boot_inv b \<Longrightarrow> names_user e \<Longrightarrow> boot_inv (boot_step e b)"
proof (cases e)
  case ProviderEffect
  assume "boot_inv b"
  then show ?thesis using ProviderEffect
    by (simp add: provider_effect_def hydrate_once_def boot_inv_def)
next
  case (SessionSettles t out)
  assume "boot_inv b" "names_user e"
  then obtain u where u: "me_of out = Some u" using SessionSettles by auto
  obtain w where w: "getSession t out (bt_world b) = (Inr (Some u), w)"
    using getSession_user(1) [OF u] by (metis prod.collapse)
  show ?thesis
    using \<open>boot_inv b\<close> SessionSettles w getSession_user(2,3) [OF u, of t "bt_world b"]
    by (simp add: boot_inv_def)
next
  case (ProfileSettles out)
  assume "boot_inv b"
  then show ?thesis using ProfileSettles
    by (simp add: boot_inv_def fetchProfile_keeps isAuthenticated_def split: if_splits)
next
  case (GateRedirects)
  assume "boot_inv b"
  then show ?thesis using GateRedirects
    by (simp add: boot_inv_def protected_redirect_def split: if_splits)
qed (simp_all add: boot_inv_def)

lemma boot_inv_run: "boot_inv b \<Longrightarrow> list_all names_user es \<Longrightarrow> boot_inv (boot_run es b)"
  by (induction es arbitrary: b) (simp_all add: boot_inv_step)

lemma boot_inv_provider: "boot_inv (boot_step ProviderEffect (boot_start w))"
  by (simp add: boot_start_def provider_effect_def hydrate_once_def boot_inv_def setAuthLoading_def io_simps Let_def)

section \<open>The gate alone always comes to an end\<close>

text \<open>What a run of the gate can still do: the session request, the question for the status, its
  answer and the redirect, each once.\<close>

definition gate_left :: "gate_state \<Rightarrow> nat" where
  "gate_left g = (if a_isAuthLoading (g_auth g) then 1 else 0)
     + (if g_status g = None then (if g_asking g then 1 else 2) else 0)
     + (if g_asking g \<and> g_status g \<noteq> None then 1 else 0)
     + (if g_redirects g = [] then 1 else 0)"

lemma gate_left_step: "gate_step g h \<Longrightarrow> gate_left h < gate_left g"
  by (induction rule: gate_step.induct)
    (auto simp: gate_left_def protected_asks_def cleared_def split: if_splits)

inductive gate_path :: "gate_state \<Rightarrow> nat \<Rightarrow> gate_state \<Rightarrow> bool" where
  path_nil: "gate_path g 0 g"
| path_step: "gate_path g n h \<Longrightarrow> gate_step h k \<Longrightarrow> gate_path g (Suc n) k"

lemma gate_path_left: "gate_path g n h \<Longrightarrow> n + gate_left h \<le> gate_left g"
proof (induction rule: gate_path.induct)
  case (path_step g n h k)
  then show ?case using gate_left_step [of h k] by linarith
qed simp

lemma gate_path_reachable: "gate_path g n h \<Longrightarrow> gate_reachable g \<Longrightarrow> gate_reachable h"
  by (induction rule: gate_path.induct) (auto intro: gate_reachable.step)

section \<open>Properties\<close>

text \<open>C23: However the effects and the answers interleave, a page sends at most one session request:
  the flag of the provider absorbs every further run of its effect.\<close>

theorem one_session_request:
  "me_requests (bt_world (boot_run es (boot_start w))) \<le> me_requests w + 1"
proof -
  have "boot_budget (boot_run es (boot_start w)) \<le> boot_budget (boot_start w)" by (rule boot_budget_run)
  then show ?thesis by (simp add: boot_budget_def boot_start_def me_requests_def split: if_splits)
qed

text \<open>When the provider's effect is the first to run and the session request is answered with a
  user, no later interleaving of the gate's effects, the bootstrap request and the profile request
  ever redirects the visitor.\<close>

theorem session_first_no_redirect:
  assumes "list_all names_user es"
  shows "bt_redirects (boot_run (ProviderEffect # es) (boot_start w)) = []"
  using boot_inv_run [OF boot_inv_provider assms] by (simp add: boot_inv_def)

definition sample_session :: auth_session where
  "sample_session = \<lparr>as_user = \<lparr>au_id = ''u1'', au_email = ''ana@x.org'', au_name = ''Ana''\<rparr>\<rparr>"

theorem session_first_no_redirect_witness:
  "bt_redirects (boot_run [ProviderEffect, GateAsks, SessionSettles True (fetched sample_session), GateRedirects]
     (boot_start initial_world)) = []"
  by (rule session_first_no_redirect) (simp add: fetched_def)

text \<open>The store starts with no request in flight, so the gate relies on the provider's effect running
  first. Were the gate's effect and its bootstrap request to settle before it, the visitor would be sent to the
  login page, whatever session the provider's request would have found.\<close>

theorem gate_first_redirects:
  "bt_redirects (boot_run [GateAsks, StatusSettles (Inr st), GateRedirects, ProviderEffect, SessionSettles t out]
     (boot_start w)) = [if bs_needsSetup st then ''/signup'' else ''/login'']"
proof -
  let ?p = "if bs_needsSetup st then ''/signup'' else ''/login''"
  let ?b = "(boot_start w)\<lparr>bt_status := Some st, bt_redirects := [?p]\<rparr>"
  have "boot_run [GateAsks, StatusSettles (Inr st), GateRedirects] (boot_start w) = ?b"
    by (simp add: boot_start_def initial_auth_def protected_asks_def protected_redirect_def isAuthenticated_def
      settle_status_def path_defs)
  then have "boot_run [GateAsks, StatusSettles (Inr st), GateRedirects, ProviderEffect, SessionSettles t out] (boot_start w)
      = boot_run [ProviderEffect, SessionSettles t out] ?b"
    by (simp only: boot_run_simps)
  moreover have "bt_redirects (boot_run [ProviderEffect, SessionSettles t out] ?b) = [?p]"
    by (simp add: provider_effect_def hydrate_once_def Let_def split: prod.split)
  ultimately show ?thesis by simp
qed

text \<open>Termination of the protected page: from any state a run of the gate has at most four steps,
  and a run from the start that can go no further has settled the session and either admits the visitor
  or has made exactly one redirect.\<close>

theorem gate_terminates:
  assumes "gate_path gate_start n g"
  shows "n \<le> 4 \<and>
    ((\<nexists>h. gate_step g h) \<longrightarrow> \<not> a_isAuthLoading (g_auth g) \<and>
       (protected_render (g_auth g) (g_status g) = ShowChildren \<or> length (g_redirects g) = 1))"
proof (intro conjI impI)
  show "n \<le> 4" using gate_path_left [OF assms] by (simp add: gate_left_def gate_start_def)
next
  assume stuck: "\<nexists>h. gate_step g h"
  then show "\<not> a_isAuthLoading (g_auth g)" using gate_step.session_none by blast
  moreover have "gate_reachable g" using gate_path_reachable [OF assms gate_reachable.start] .
  ultimately show "protected_render (g_auth g) (g_status g) = ShowChildren \<or> length (g_redirects g) = 1"
    using stuck gate_progress_step [of g] gate_reachable_inv [of g]
    by (auto simp: protected_render_def gate_inv_def)
qed

text \<open>The longest run there is: no session, the question for the status, its answer, the redirect.\<close>

definition longest_run_end :: gate_state where
  "longest_run_end = \<lparr>g_auth = (cleared (initial_auth\<lparr>a_isAuthLoading := True\<rparr>))\<lparr>a_isAuthLoading := False\<rparr>,
     g_status = Some (settle_status (Inl Primitive)), g_asking = False,
     g_redirects = [the (protected_redirect (initial_auth) (Some (settle_status (Inl Primitive))))]\<rparr>"

lemma longest_run: "gate_path gate_start 4 longest_run_end"
proof -
  let ?a = "(cleared (initial_auth\<lparr>a_isAuthLoading := True\<rparr>))\<lparr>a_isAuthLoading := False\<rparr>"
  let ?st = "settle_status (Inl Primitive)"
  have a: "?a = initial_auth" by (simp add: cleared_def initial_auth_def)
  have 1: "gate_step gate_start (gate_start\<lparr>g_auth := ?a\<rparr>)"
    using gate_step.session_none [of gate_start] by (simp add: gate_start_def)
  have 2: "gate_step (gate_start\<lparr>g_auth := ?a\<rparr>) (gate_start\<lparr>g_auth := ?a, g_asking := True\<rparr>)"
    using gate_step.ask [of "gate_start\<lparr>g_auth := ?a\<rparr>"] by (simp add: gate_start_def protected_asks_def a initial_auth_def isAuthenticated_def)
  have 3: "gate_step (gate_start\<lparr>g_auth := ?a, g_asking := True\<rparr>) (gate_start\<lparr>g_auth := ?a, g_asking := False, g_status := Some ?st\<rparr>)"
    using gate_step.settle [of "gate_start\<lparr>g_auth := ?a, g_asking := True\<rparr>" "Inl Primitive"] by (simp add: gate_start_def)
  have "protected_redirect initial_auth (Some ?st) \<noteq> None"
    by (simp add: protected_redirect_def initial_auth_def isAuthenticated_def)
  then obtain p where p: "protected_redirect initial_auth (Some ?st) = Some p" by blast
  have 4: "gate_step (gate_start\<lparr>g_auth := ?a, g_asking := False, g_status := Some ?st\<rparr>) longest_run_end"
    using gate_step.redirect [of "gate_start\<lparr>g_auth := ?a, g_asking := False, g_status := Some ?st\<rparr>" p]
    unfolding longest_run_end_def by (simp add: gate_start_def a p)
  show ?thesis
    using path_step [OF path_step [OF path_step [OF path_step [OF path_nil 1] 2] 3] 4] by (simp add: numeral_eq_Suc)
qed

theorem gate_terminates_witness:
  "gate_path gate_start 4 longest_run_end \<and> (4::nat) \<le> 4 \<and> \<not> a_isAuthLoading (g_auth longest_run_end) \<and>
   (protected_render (g_auth longest_run_end) (g_status longest_run_end) = ShowChildren \<or> length (g_redirects longest_run_end) = 1)"
proof -
  have "gate_left longest_run_end = 0" by (simp add: longest_run_end_def gate_left_def)
  then have "\<nexists>h. gate_step longest_run_end h" using gate_left_step [of longest_run_end] by auto
  then show ?thesis using longest_run gate_terminates [OF longest_run] by blast
qed

end
