(* ===== verification/Modals.thy ===== *)
theory Modals
  imports AdminPages
begin

text \<open>
  The dialogs of \<open>components/react/modal\<close>: typing a phrase to confirm a deletion, the forms that create
  or edit a device, a user or a profile, the dialog that issues an access key and reveals it once, and
  the scroll lock of \<open>components/react/ui/Modal.tsx\<close> they all share. A dialog's state is a record
  and each handler or effect a function on it; what the page's handler answers is an argument.
\<close>

section \<open>Typing to confirm\<close>

record delete_modal =
  dm_open :: bool
  dm_typed :: string
  dm_calls :: nat

definition dm_can_confirm :: "string \<Rightarrow> string \<Rightarrow> bool" where
  "dm_can_confirm confirmValue typed \<longleftrightarrow> to_lower (trim typed) = to_lower (trim confirmValue)"

definition dm_mismatch :: "string \<Rightarrow> string \<Rightarrow> bool" where
  "dm_mismatch confirmValue typed \<longleftrightarrow> typed \<noteq> [] \<and> \<not> dm_can_confirm confirmValue typed"

text \<open>The events: the page opens or closes the dialog, the visitor types, or clicks the destructive
  button, which a button with \<open>disabled\<close> or \<open>loading\<close> does not report.\<close>

datatype delete_event = DmShow | DmHide | DmType string | DmClick bool

fun dm_step :: "string \<Rightarrow> delete_event \<Rightarrow> delete_modal \<Rightarrow> delete_modal" where
  "dm_step v DmShow m = (if dm_open m then m else m\<lparr>dm_open := True, dm_typed := []\<rparr>)"
| "dm_step v DmHide m = m\<lparr>dm_open := False\<rparr>"
| "dm_step v (DmType s) m = (if dm_open m then m\<lparr>dm_typed := s\<rparr> else m)"
| "dm_step v (DmClick loading) m =
     (if dm_open m \<and> dm_can_confirm v (dm_typed m) \<and> \<not> loading then m\<lparr>dm_calls := dm_calls m + 1\<rparr> else m)"

definition dm_run :: "string \<Rightarrow> delete_event list \<Rightarrow> delete_modal \<Rightarrow> delete_modal" where
  "dm_run v es m = foldl (\<lambda>m e. dm_step v e m) m es"

lemma dm_run_simps [simp]: "dm_run v [] m = m" "dm_run v (e # es) m = dm_run v es (dm_step v e m)"
  by (simp_all add: dm_run_def)

text \<open>What each of the four wrappers asks for.\<close>

definition delete_device_phrase :: "'z device_scheme \<Rightarrow> string" where
  "delete_device_phrase d = d_name d"

definition delete_key_phrase :: "api_key_row \<Rightarrow> string" where
  "delete_key_phrase row = kr_device_name row"

definition DELETE_USER_CONFIRM_PHRASE :: "language \<Rightarrow> string" where
  "DELETE_USER_CONFIRM_PHRASE l = (case l of En \<Rightarrow> ''confirm'' | Es \<Rightarrow> ''confirmar'')"

definition dm_armed :: "string \<Rightarrow> delete_modal \<Rightarrow> bool" where
  "dm_armed v m \<longleftrightarrow> dm_open m \<and> dm_can_confirm v (dm_typed m)"

lemma blank_unconfirmed: "trim v \<noteq> [] \<Longrightarrow> \<not> dm_can_confirm v []"
  by (simp add: dm_can_confirm_def trim_def to_lower_def)

lemma dm_unarmed_run:
  assumes "trim v \<noteq> []" "\<forall>t. DmType t \<in> set es \<longrightarrow> \<not> dm_can_confirm v t" "\<not> dm_armed v m"
  shows "dm_calls (dm_run v es m) = dm_calls m \<and> \<not> dm_armed v (dm_run v es m)"
  using assms(2,3)
proof (induction es arbitrary: m)
  case (Cons e es)
  have "\<not> dm_armed v (dm_step v e m) \<and> dm_calls (dm_step v e m) = dm_calls m"
    using Cons.prems blank_unconfirmed [OF assms(1)] by (cases e) (auto simp: dm_armed_def)
  then show ?case using Cons.IH [of "dm_step v e m"] Cons.prems by simp
qed simp

text \<open>C28: A deletion is confirmed only by typing. However a dialog is opened, closed, typed into and clicked,
  as long as no typed text equals the phrase up to case and surrounding blanks the handler is never
  called, whatever was typed the last time the dialog was open; and typing the phrase and
  clicking calls it once.\<close>

theorem delete_needs_typing:
  assumes "trim v \<noteq> []" "\<not> dm_open m"
  shows "((\<forall>t. DmType t \<in> set es \<longrightarrow> to_lower (trim t) \<noteq> to_lower (trim v)) \<longrightarrow>
            dm_calls (dm_run v es m) = dm_calls m) \<and>
         (to_lower (trim t) = to_lower (trim v) \<longrightarrow>
            dm_calls (dm_run v [DmShow, DmType t, DmClick False] m) = dm_calls m + 1)"
  using dm_unarmed_run [OF assms(1), of es m] assms(2) by (simp add: dm_armed_def dm_can_confirm_def)

definition closed_delete_modal :: delete_modal where
  "closed_delete_modal = \<lparr>dm_open = False, dm_typed = ''confirm'', dm_calls = 0\<rparr>"

theorem delete_needs_typing_witness:
  "dm_calls (dm_run (DELETE_USER_CONFIRM_PHRASE En) [DmShow, DmType '' CONFIRM '', DmClick False] closed_delete_modal)
     = dm_calls closed_delete_modal + 1 \<and>
   dm_calls (dm_run (DELETE_USER_CONFIRM_PHRASE En) [DmShow, DmType ''delete'', DmClick False] closed_delete_modal)
     = dm_calls closed_delete_modal"
proof -
  have "trim (DELETE_USER_CONFIRM_PHRASE En) \<noteq> []" by code_simp
  moreover have "\<not> dm_open closed_delete_modal" by (simp add: closed_delete_modal_def)
  moreover have "to_lower (trim '' CONFIRM '') = to_lower (trim (DELETE_USER_CONFIRM_PHRASE En))" by code_simp
  moreover have "to_lower (trim ''delete'') \<noteq> to_lower (trim (DELETE_USER_CONFIRM_PHRASE En))" by code_simp
  then have "\<forall>t. DmType t \<in> set [DmShow, DmType ''delete'', DmClick False] \<longrightarrow>
      to_lower (trim t) \<noteq> to_lower (trim (DELETE_USER_CONFIRM_PHRASE En))" by simp
  ultimately show ?thesis using delete_needs_typing [of "DELETE_USER_CONFIRM_PHRASE En" closed_delete_modal] by blast
qed

section \<open>The scroll lock\<close>

text \<open>
  An open \<open>Modal\<close> hides the overflow of the page's body and keeps the value it found; closing writes
  that value back. Modals are told apart by a number.
\<close>

record body_lock =
  bl_overflow :: string
  bl_previous :: "(nat \<times> string) list"

datatype lock_event = ModalOpens nat | ModalCloses nat

fun lock_step :: "lock_event \<Rightarrow> body_lock \<Rightarrow> body_lock" where
  "lock_step (ModalOpens i) b =
     b\<lparr>bl_previous := (i, bl_overflow b) # bl_previous b, bl_overflow := ''hidden''\<rparr>"
| "lock_step (ModalCloses i) b =
     (case map_of (bl_previous b) i of
        None \<Rightarrow> b
      | Some previousOverflow \<Rightarrow>
          b\<lparr>bl_overflow := previousOverflow, bl_previous := filter (\<lambda>p. fst p \<noteq> i) (bl_previous b)\<rparr>)"

definition lock_run :: "lock_event list \<Rightarrow> body_lock \<Rightarrow> body_lock" where
  "lock_run es b = foldl (\<lambda>b e. lock_step e b) b es"

lemma lock_run_simps [simp]:
  "lock_run [] b = b" "lock_run (e # es) b = lock_run es (lock_step e b)"
  "lock_run (es @ es') b = lock_run es' (lock_run es b)"
  by (simp_all add: lock_run_def)

text \<open>Dialogs that close in the reverse order of their opening, each with a number not in use.\<close>

inductive well_nested :: "nat set \<Rightarrow> lock_event list \<Rightarrow> bool" where
  nested_nil: "well_nested U []"
| nested_cons: "i \<notin> U \<Longrightarrow> well_nested (insert i U) es \<Longrightarrow> well_nested U es' \<Longrightarrow>
     well_nested U (ModalOpens i # es @ ModalCloses i # es')"

lemma nested_restores:
  "well_nested U es \<Longrightarrow> fst ` set (bl_previous b) \<subseteq> U \<Longrightarrow> lock_run es b = b"
proof (induction arbitrary: b rule: well_nested.induct)
  case (nested_cons i U es es')
  let ?b = "b\<lparr>bl_previous := (i, bl_overflow b) # bl_previous b, bl_overflow := ''hidden''\<rparr>"
  have "filter (\<lambda>p. fst p \<noteq> i) (bl_previous b) = bl_previous b"
    using nested_cons.hyps(1) nested_cons.prems by (auto simp: filter_id_conv)
  moreover have "lock_run es ?b = ?b" using nested_cons.IH(1) [of ?b] nested_cons.prems by auto
  ultimately show ?case using nested_cons.IH(2) [of b] nested_cons.prems by simp
qed simp

text \<open>Dialogs that close in the reverse order of their opening leave the page as they found it, however
  many there are and however they nest; while any is open the page does not scroll. Two that
  close in the order of their opening leave a page that can no longer be scrolled.\<close>

theorem scroll_lock_restored:
  assumes "well_nested {} es" "bl_previous b = []"
  shows "lock_run es b = b \<and> bl_overflow (lock_run (es @ [ModalOpens i]) b) = ''hidden'' \<and>
    bl_overflow (lock_run (es @ [ModalOpens 0, ModalOpens 1, ModalCloses 0, ModalCloses 1]) b) = ''hidden''"
  using nested_restores [OF assms(1), of b] assms(2) by simp

theorem scroll_lock_restored_witness:
  "lock_run [ModalOpens 1, ModalOpens 2, ModalCloses 2, ModalCloses 1] \<lparr>bl_overflow = ''auto'', bl_previous = []\<rparr>
   = \<lparr>bl_overflow = ''auto'', bl_previous = []\<rparr>"
proof -
  have "well_nested {1} [ModalOpens 2, ModalCloses 2]"
    using nested_cons [of 2 "{1}" "[]" "[]"] by (simp add: nested_nil)
  then have "well_nested {} [ModalOpens 1, ModalOpens 2, ModalCloses 2, ModalCloses 1]"
    using nested_cons [of 1 "{}" "[ModalOpens 2, ModalCloses 2]" "[]"] by (simp add: nested_nil)
  then show ?thesis using scroll_lock_restored by simp
qed

section \<open>The device and user forms\<close>

text \<open>An error of a field is there exactly when its key was set on the object the handler fills.\<close>

record add_device_form =
  adf_uuid_firmware :: string
  adf_name :: string
  adf_vehicle_type :: vehicle_type
  adf_access_role :: access_role

record device_errors =
  de_name :: "string option"
  de_uuid_firmware :: "string option"

definition add_device_blank :: add_device_form where
  "add_device_blank = \<lparr>adf_uuid_firmware = [], adf_name = [], adf_vehicle_type = Car, adf_access_role = Owner\<rparr>"

definition required_error :: "string \<Rightarrow> string \<Rightarrow> string option" where
  "required_error required field = (if trim field = [] then Some required else None)"

text \<open>The errors the handler stores, and what it hands to \<open>onCreate\<close>: the form as it is.\<close>

definition add_device_submit :: "string \<Rightarrow> add_device_form \<Rightarrow> device_errors \<times> add_device_form option" where
  "add_device_submit required form =
     (let e = \<lparr>de_name = required_error required (adf_name form),
               de_uuid_firmware = required_error required (adf_uuid_firmware form)\<rparr>
      in (e, if de_name e \<noteq> None \<or> de_uuid_firmware e \<noteq> None then None else Some form))"

definition add_device_generate :: "string \<Rightarrow> add_device_form \<Rightarrow> add_device_form" where
  "add_device_generate randomUUID f = f\<lparr>adf_uuid_firmware := randomUUID\<rparr>"

definition create_dto_of :: "add_device_form \<Rightarrow> create_device_dto" where
  "create_dto_of f = \<lparr>cdd_uuid_firmware = adf_uuid_firmware f, cdd_name = adf_name f, cdd_vehicle_type = adf_vehicle_type f\<rparr>"

record edit_device_form =
  edf_name :: string
  edf_vehicle_type :: vehicle_type
  edf_access_role :: access_role

text \<open>The effect on \<open>[open, device]\<close>.\<close>

definition edit_device_effect ::
  "bool \<Rightarrow> device_with_access option \<Rightarrow> edit_device_form option \<times> string option \<Rightarrow> edit_device_form option \<times> string option" where
  "edit_device_effect opened device st =
     (let st1 = (case (opened, device) of
                   (True, Some d) \<Rightarrow> (Some \<lparr>edf_name = d_name d, edf_vehicle_type = d_vehicle_type d,
                                            edf_access_role = da_access_role d\<rparr>, None)
                 | _ \<Rightarrow> st)
      in if \<not> opened then (None, snd st1) else st1)"

definition edit_device_submit ::
  "string \<Rightarrow> device_with_access \<Rightarrow> edit_device_form option \<Rightarrow> string option \<Rightarrow> string option \<times> (string \<times> edit_device_form) option" where
  "edit_device_submit required device form error =
     (case form of
        None \<Rightarrow> (error, None)
      | Some f \<Rightarrow>
          let e = required_error required (edf_name f)
          in (e, if e \<noteq> None then None else Some (d_id device, f)))"

record user_form =
  uf_email :: string
  uf_name :: string
  uf_lastname :: string

record user_errors =
  ue_email :: "string option"
  ue_name :: "string option"

definition user_form_blank :: user_form where
  "user_form_blank = \<lparr>uf_email = [], uf_name = [], uf_lastname = []\<rparr>"

definition add_user_submit :: "string \<Rightarrow> string \<Rightarrow> user_form \<Rightarrow> user_errors \<times> create_user_dto option" where
  "add_user_submit emailRequired nameRequired form =
     (let e = \<lparr>ue_email = required_error emailRequired (uf_email form), ue_name = required_error nameRequired (uf_name form)\<rparr>
      in (e, if ue_email e \<noteq> None \<or> ue_name e \<noteq> None then None
             else Some \<lparr>cud_email = trim (uf_email form), cud_name = trim (uf_name form),
                        cud_lastname = (if trim (uf_lastname form) \<noteq> [] then Some (trim (uf_lastname form)) else None)\<rparr>))"

definition grant_submit :: "string \<Rightarrow> string \<Rightarrow> string \<Rightarrow> string \<times> string option" where
  "grant_submit userIdRequired userId error =
     (let value = trim userId in if value = [] then (userIdRequired, None) else ([], Some value))"

text \<open>The three forms that create something pass their data on exactly when every required field holds more
  than blanks, and otherwise set an error at exactly the blank fields. A user or a grant is passed on without
  surrounding blanks and without an empty last name; a device keeps the blanks that were typed.\<close>

theorem forms_submit_when_complete:
  "(snd (add_device_submit required f) \<noteq> None \<longleftrightarrow> trim (adf_name f) \<noteq> [] \<and> trim (adf_uuid_firmware f) \<noteq> []) \<and>
   (de_name (fst (add_device_submit required f)) \<noteq> None \<longleftrightarrow> trim (adf_name f) = []) \<and>
   (de_uuid_firmware (fst (add_device_submit required f)) \<noteq> None \<longleftrightarrow> trim (adf_uuid_firmware f) = []) \<and>
   snd (add_device_submit required (add_device_generate rnd f)) =
     (if trim (adf_name f) = [] \<or> trim rnd = [] then None else Some (f\<lparr>adf_uuid_firmware := rnd\<rparr>)) \<and>
   (case snd (add_user_submit er nr u) of
      None \<Rightarrow> ue_email (fst (add_user_submit er nr u)) \<noteq> None \<or> ue_name (fst (add_user_submit er nr u)) \<noteq> None
    | Some p \<Rightarrow> fst (add_user_submit er nr u) = \<lparr>ue_email = None, ue_name = None\<rparr> \<and>
        trim (cud_email p) = cud_email p \<and> cud_email p \<noteq> [] \<and> trim (cud_name p) = cud_name p \<and> cud_name p \<noteq> [] \<and>
        cud_lastname p \<noteq> Some [] \<and> map_option trim (cud_lastname p) = cud_lastname p) \<and>
   (case snd (grant_submit ur i err) of
      None \<Rightarrow> trim i = [] \<and> fst (grant_submit ur i err) = ur
    | Some v \<Rightarrow> v = trim i \<and> trim v = v \<and> v \<noteq> [] \<and> fst (grant_submit ur i err) = [])"
  by (intro conjI)
    (simp_all add: add_device_submit_def add_device_generate_def add_user_submit_def grant_submit_def required_error_def Let_def)

text \<open>Opening the edit dialog of a device and saving without a change hands its own id, name, type and role to
  the page; an edit to a blank name hands over nothing; and reopening the dialog drops what was typed.\<close>

theorem edit_device_roundtrip:
  "let st = edit_device_effect True (Some d) st0 in
     edit_device_submit required d (fst st) (snd st) =
       (if trim (d_name d) = [] then (Some required, None)
        else (None, Some (d_id d, \<lparr>edf_name = d_name d, edf_vehicle_type = d_vehicle_type d, edf_access_role = da_access_role d\<rparr>))) \<and>
     snd (edit_device_submit required d (map_option (edf_name_update (\<lambda>_. n)) (fst st)) err) =
       (if trim n = [] then None
        else Some (d_id d, \<lparr>edf_name = n, edf_vehicle_type = d_vehicle_type d, edf_access_role = da_access_role d\<rparr>)) \<and>
     edit_device_effect True (Some d) (edit_device_effect False dev (map_option (edf_name_update (\<lambda>_. n)) (fst st), err)) = st"
  by (simp add: Let_def edit_device_effect_def edit_device_submit_def required_error_def)

section \<open>The profile form\<close>

text \<open>
  Submitting is asynchronous: the handler of the page is started with the payload and answers later, so
  a save can be in flight while the dialog goes on. \<open>pd_calls\<close> lists the payloads handed over, \<open>pd_pending\<close> counts
  the saves not answered yet. The save button and the dialog's close are disabled while saving; the Enter key
  in a field submits the form at any time.
\<close>

record profile_dialog =
  pd_open :: bool
  pd_name :: string
  pd_lastname :: string
  pd_error_name :: "string option"
  pd_error_lastname :: "string option"
  pd_submitError :: "string option"
  pd_saving :: bool
  pd_calls :: "update_user_dto list"
  pd_pending :: nat

record profile_texts =
  pt_required :: string
  pt_updateFailed :: string

definition profile_open :: "'z user_scheme \<Rightarrow> profile_dialog \<Rightarrow> profile_dialog" where
  "profile_open u d = d\<lparr>pd_open := True, pd_name := u_name u, pd_lastname := u_lastname u, pd_error_name := None,
     pd_error_lastname := None, pd_submitError := None\<rparr>"

definition profile_close :: "profile_dialog \<Rightarrow> profile_dialog" where
  "profile_close d = (if \<not> pd_saving d then d\<lparr>pd_open := False\<rparr> else d)"

definition profile_submit :: "profile_texts \<Rightarrow> profile_dialog \<Rightarrow> profile_dialog" where
  "profile_submit t d =
     (let d1 = d\<lparr>pd_error_name := required_error (pt_required t) (pd_name d),
                 pd_error_lastname := required_error (pt_required t) (pd_lastname d), pd_submitError := None\<rparr>
      in if pd_error_name d1 \<noteq> None \<or> pd_error_lastname d1 \<noteq> None then d1
         else d1\<lparr>pd_saving := True, pd_pending := pd_pending d1 + 1,
                 pd_calls := pd_calls d1 @ [\<lparr>uud_name = Some (trim (pd_name d)), uud_lastname = Some (trim (pd_lastname d))\<rparr>]\<rparr>)"

text \<open>The \<open>catch\<close> and the \<open>finally\<close> after the awaited save.\<close>

definition profile_settled :: "profile_texts \<Rightarrow> (thrown + unit) \<Rightarrow> profile_dialog \<Rightarrow> profile_dialog" where
  "profile_settled t out d =
     (if pd_pending d = 0 then d
      else (case out of Inl e \<Rightarrow> d\<lparr>pd_submitError := Some (pt_updateFailed t)\<rparr> | Inr _ \<Rightarrow> d)
             \<lparr>pd_saving := False, pd_pending := pd_pending d - 1\<rparr>)"

text \<open>The page's handler closes the dialog before it resolves. \<open>PdShows u\<close> is the effect on the open flag and the user while
  the dialog is open: the page opens it again, or hands it another user.\<close>

datatype profile_event =
    PdShows user | PdName string | PdLastname string | PdSaveButton | PdEnterKey | PdCloses | PdSettles "thrown + unit"

fun profile_step :: "profile_texts \<Rightarrow> profile_event \<Rightarrow> profile_dialog \<Rightarrow> profile_dialog" where
  "profile_step t (PdShows u) d = profile_open u d"
| "profile_step t (PdName s) d = (if pd_open d then d\<lparr>pd_name := s\<rparr> else d)"
| "profile_step t (PdLastname s) d = (if pd_open d then d\<lparr>pd_lastname := s\<rparr> else d)"
| "profile_step t PdSaveButton d = (if pd_open d \<and> \<not> pd_saving d then profile_submit t d else d)"
| "profile_step t PdEnterKey d = (if pd_open d then profile_submit t d else d)"
| "profile_step t PdCloses d = (if pd_open d then profile_close d else d)"
| "profile_step t (PdSettles out) d =
     profile_settled t out (case out of Inl e \<Rightarrow> d | Inr _ \<Rightarrow> if pd_pending d = 0 then d else d\<lparr>pd_open := False\<rparr>)"

definition profile_run :: "profile_texts \<Rightarrow> profile_event list \<Rightarrow> profile_dialog \<Rightarrow> profile_dialog" where
  "profile_run t es d = foldl (\<lambda>d e. profile_step t e d) d es"

lemma profile_run_simps [simp]:
  "profile_run t [] d = d" "profile_run t (e # es) d = profile_run t es (profile_step t e d)"
  by (simp_all add: profile_run_def)

definition payload_clean :: "update_user_dto \<Rightarrow> bool" where
  "payload_clean p \<longleftrightarrow> (\<exists>n l. p = \<lparr>uud_name = Some n, uud_lastname = Some l\<rparr> \<and> n \<noteq> [] \<and> l \<noteq> [] \<and> trim n = n \<and> trim l = l)"

definition profile_inv :: "profile_dialog \<Rightarrow> bool" where
  "profile_inv d \<longleftrightarrow> list_all payload_clean (pd_calls d) \<and> (pd_saving d \<longrightarrow> 0 < pd_pending d \<and> pd_open d)"

lemma profile_submit_inv: "profile_inv d \<Longrightarrow> pd_open d \<Longrightarrow> profile_inv (profile_submit t d)"
  by (auto simp: profile_inv_def profile_submit_def required_error_def Let_def payload_clean_def)

lemma profile_step_inv: "profile_inv d \<Longrightarrow> profile_inv (profile_step t e d)"
proof (cases e)
  case (PdSettles out)
  assume "profile_inv d"
  then show ?thesis using PdSettles by (cases out) (auto simp: profile_inv_def profile_settled_def)
next
  case PdSaveButton
  assume "profile_inv d"
  then show ?thesis using PdSaveButton by (simp add: profile_submit_inv)
next
  case PdEnterKey
  assume "profile_inv d"
  then show ?thesis using PdEnterKey by (simp add: profile_submit_inv)
qed (auto simp: profile_inv_def profile_close_def profile_open_def)

lemma profile_run_inv: "profile_inv d \<Longrightarrow> profile_inv (profile_run t es d)"
  by (induction es arbitrary: d) (simp_all add: profile_step_inv)

definition profile_dialog_start :: profile_dialog where
  "profile_dialog_start = \<lparr>pd_open = False, pd_name = [], pd_lastname = [], pd_error_name = None, pd_error_lastname = None,
     pd_submitError = None, pd_saving = False, pd_calls = [], pd_pending = 0\<rparr>"

text \<open>C31: In every run of the profile dialog, reopened and handed other users at any time, each payload handed to the page has a non-blank first and last
  name without surrounding blanks; while it shows that it is saving a save is in flight and the dialog is still
  open. Used with its button only, a complete form is saved once however often the button is pressed; a
  failed save leaves the dialog open with the error and ready for another try.\<close>

theorem profile_dialog_saves:
  "let d = profile_run t es (profile_open u profile_dialog_start) in
     (\<forall>p. p \<in> set (pd_calls d) \<longrightarrow> payload_clean p) \<and> (pd_saving d \<longrightarrow> 0 < pd_pending d \<and> pd_open d) \<and>
     (trim (pd_name d) \<noteq> [] \<and> trim (pd_lastname d) \<noteq> [] \<and> pd_open d \<and> \<not> pd_saving d \<longrightarrow>
        pd_calls (profile_run t [PdSaveButton, PdSaveButton, PdCloses] d) =
          pd_calls d @ [\<lparr>uud_name = Some (trim (pd_name d)), uud_lastname = Some (trim (pd_lastname d))\<rparr>] \<and>
        pd_open (profile_run t [PdSaveButton, PdCloses] d) \<and>
        (let f = profile_run t [PdSaveButton, PdSettles (Inl e)] d in
           pd_open f \<and> \<not> pd_saving f \<and> pd_submitError f = Some (pt_updateFailed t)))"
proof -
  let ?d = "profile_run t es (profile_open u profile_dialog_start)"
  have "profile_inv (profile_open u profile_dialog_start)"
    by (simp add: profile_inv_def profile_open_def profile_dialog_start_def)
  then have "profile_inv ?d" by (rule profile_run_inv)
  then have inv: "\<forall>p. p \<in> set (pd_calls ?d) \<longrightarrow> payload_clean p" "pd_saving ?d \<longrightarrow> 0 < pd_pending ?d \<and> pd_open ?d"
    by (simp_all add: profile_inv_def list_all_iff)
  have once: "trim (pd_name d) \<noteq> [] \<and> trim (pd_lastname d) \<noteq> [] \<and> pd_open d \<and> \<not> pd_saving d \<longrightarrow>
        pd_calls (profile_run t [PdSaveButton, PdSaveButton, PdCloses] d) =
          pd_calls d @ [\<lparr>uud_name = Some (trim (pd_name d)), uud_lastname = Some (trim (pd_lastname d))\<rparr>] \<and>
        pd_open (profile_run t [PdSaveButton, PdCloses] d) \<and>
        (let f = profile_run t [PdSaveButton, PdSettles (Inl e)] d in
           pd_open f \<and> \<not> pd_saving f \<and> pd_submitError f = Some (pt_updateFailed t))" for d
    by (simp add: profile_submit_def required_error_def profile_close_def profile_settled_def Let_def)
  show ?thesis
    unfolding Let_def by (rule conjI [OF inv(1) conjI [OF inv(2) once [of ?d, unfolded Let_def]]])
qed

definition en_profile_texts :: profile_texts where
  "en_profile_texts = \<lparr>pt_required = ''Required'', pt_updateFailed = ''Could not save''\<rparr>"

definition profile_example :: user where
  "profile_example = \<lparr>u_id = ''u1'', u_email = ''ana@x'', u_email_verified = True, u_image = None, u_name = ''Ana'',
     u_lastname = [], u_role = RoleUser, u_must_change_password = False, u_created_at = ''2025-01-01''\<rparr>"

theorem profile_dialog_saves_witness:
  "payload_clean (hd (pd_calls (profile_run en_profile_texts [PdName '' Ana '', PdLastname ''Ruiz'', PdSaveButton]
      (profile_open (profile_example) profile_dialog_start))))"
proof -
  let ?d = "profile_run en_profile_texts [PdName '' Ana '', PdLastname ''Ruiz'', PdSaveButton]
      (profile_open (profile_example) profile_dialog_start)"
  have "pd_calls ?d \<noteq> []"
    by (simp add: profile_open_def profile_dialog_start_def profile_submit_def required_error_def trim_def is_space_def Let_def)
  then have "hd (pd_calls ?d) \<in> set (pd_calls ?d)" by (rule hd_in_set)
  then show ?thesis
    using profile_dialog_saves [of en_profile_texts "[PdName '' Ana '', PdLastname ''Ruiz'', PdSaveButton]" "profile_example"]
    by (simp only: Let_def)
qed

text \<open>The Enter key in a field has no such guard: pressed twice it hands the same payload over twice. The
  answer to the first save closes the dialog and shows it as idle while the second is still in
  flight, and the failure of the second is an error message in a closed dialog.\<close>

theorem enter_key_saves_twice:
  assumes "pd_open d" "trim (pd_name d) \<noteq> []" "trim (pd_lastname d) \<noteq> []"
  shows "let f = profile_run t [PdEnterKey, PdEnterKey, PdSettles (Inr ())] d in
    (\<exists>p. pd_calls f = pd_calls d @ [p, p]) \<and> \<not> pd_saving f \<and> 0 < pd_pending f \<and> \<not> pd_open f \<and>
    pd_submitError (profile_step t (PdSettles (Inl e)) f) = Some (pt_updateFailed t) \<and>
    \<not> pd_open (profile_step t (PdSettles (Inl e)) f)"
  using assms by (simp add: profile_submit_def required_error_def profile_settled_def profile_close_def Let_def)

theorem enter_key_saves_twice_witness:
  "let f = profile_run en_profile_texts [PdEnterKey, PdEnterKey, PdSettles (Inr ())]
      (profile_dialog_start\<lparr>pd_open := True, pd_name := ''Ana'', pd_lastname := ''Ruiz''\<rparr>) in
    (\<exists>p. pd_calls f = pd_calls (profile_dialog_start\<lparr>pd_open := True, pd_name := ''Ana'', pd_lastname := ''Ruiz''\<rparr>) @ [p, p]) \<and>
    \<not> pd_saving f \<and> 0 < pd_pending f \<and> \<not> pd_open f \<and>
    pd_submitError (profile_step en_profile_texts (PdSettles (Inl Primitive)) f) = Some (pt_updateFailed en_profile_texts) \<and>
    \<not> pd_open (profile_step en_profile_texts (PdSettles (Inl Primitive)) f)"
  by (rule enter_key_saves_twice) (simp_all add: trim_def is_space_def)

end
