(* ===== verification/FormCode.thy ===== *)
theory FormCode
  imports TextUtils
begin

text \<open>
  The form encoding of the URL standard, which \<open>URLSearchParams\<close> writes and reads (\<open>modal/GuestShareModal.tsx\<close>,
  \<open>guest/GuestDevicePage.tsx\<close>, \<open>detail/DeviceDetailPage.tsx\<close>): letters, digits and four signs as they are, a space as a plus sign, anything
  else as its bytes in UTF-8, each as percent and two hexadecimal digits.
\<close>

section \<open>Code points and UTF-8\<close>

text \<open>The code point a character of the model stands for (Windows-1252), and the character of a code point. What none
  stands for is read as a question mark, and so is each byte of a sequence of four or of one that is no UTF-8.\<close>

definition upper_points :: "nat list" where
  "upper_points =
     [0x20AC, 0x81, 0x201A, 0x192, 0x201E, 0x2026, 0x2020, 0x2021, 0x2C6, 0x2030, 0x160, 0x2039, 0x152, 0x8D, 0x17D, 0x8F,
      0x90, 0x2018, 0x2019, 0x201C, 0x201D, 0x2022, 0x2013, 0x2014, 0x2DC, 0x2122, 0x161, 0x203A, 0x153, 0x9D, 0x17E, 0x178]"

definition code_point :: "char \<Rightarrow> nat" where
  "code_point c = (let n = (of_char c :: nat) in if 128 \<le> n \<and> n < 160 then upper_points ! (n - 128) else n)"

definition point_char :: "nat \<Rightarrow> char" where
  "point_char p =
     (if p < 128 \<or> 160 \<le> p \<and> p < 256 then char_of p
      else (case map_of (zip upper_points [128..<160]) p of Some n \<Rightarrow> char_of n | None \<Rightarrow> CHR ''?''))"

definition utf8 :: "nat \<Rightarrow> nat list" where
  "utf8 p =
     (if p < 128 then [p]
      else if p < 2048 then [192 + p div 64, 128 + p mod 64]
      else [224 + p div 4096, 128 + p div 64 mod 64, 128 + p mod 64])"

definition continuation :: "nat \<Rightarrow> bool" where
  "continuation b \<longleftrightarrow> 128 \<le> b \<and> b < 192"

fun utf8_decode :: "nat list \<Rightarrow> string" where
  "utf8_decode [] = []"
| "utf8_decode (b # bs) =
     (if b < 128 then char_of b # utf8_decode bs
      else case bs of
             [] \<Rightarrow> ''?''
           | c # r \<Rightarrow>
               if 194 \<le> b \<and> b < 224 \<and> continuation c then point_char ((b - 192) * 64 + (c - 128)) # utf8_decode r
               else case r of
                      [] \<Rightarrow> CHR ''?'' # utf8_decode bs
                    | d # q \<Rightarrow>
                        if 224 \<le> b \<and> b < 240 \<and> continuation c \<and> (b = 224 \<longrightarrow> 160 \<le> c) \<and> (b = 237 \<longrightarrow> c < 160) \<and> continuation d
                        then point_char ((b - 224) * 4096 + (c - 128) * 64 + (d - 128)) # utf8_decode q
                        else CHR ''?'' # utf8_decode bs)"

text \<open>Every character of the model has two or three bytes at most, and is read back from them.\<close>

definition point_in_order :: "nat \<Rightarrow> bool" where
  "point_in_order p \<longleftrightarrow> p < 2048 \<or> 4096 \<le> p \<and> p < 53248"

lemma upper_points_order: "distinct upper_points" "length upper_points = 32"
  "list_all (\<lambda>p. point_in_order p \<and> 128 \<le> p \<and> (p < 160 \<or> 256 \<le> p)) upper_points"
  by (simp_all add: upper_points_def point_in_order_def)

lemma code_point_char: "point_char (code_point c) = c" "point_in_order (code_point c)"
proof -
  define n where "n = (of_char c :: nat)"
  have c: "c = char_of n" by (simp add: n_def)
  have "point_char (code_point c) = c \<and> point_in_order (code_point c)"
  proof (cases "128 \<le> n \<and> n < 160")
    case True
    define p where "p = upper_points ! (n - 128)"
    have i: "n - 128 < length upper_points" using True unfolding upper_points_order by linarith
    then have p: "point_in_order p" "128 \<le> p" "p < 160 \<or> 256 \<le> p"
      using upper_points_order(3) unfolding list_all_length p_def by blast+
    have "map_of (zip upper_points [128..<160]) p = Some ([128..<160] ! (n - 128))"
      unfolding p_def using i by (intro map_of_zip_nth) (simp_all add: upper_points_order)
    also have "[128..<160] ! (n - 128) = n" using True by (subst nth_upt) simp_all
    finally have "point_char p = char_of n" using p(2,3) unfolding point_char_def by (simp only: option.case) auto
    moreover have "code_point c = p" using True by (simp add: code_point_def Let_def p_def n_def)
    ultimately show ?thesis using p(1) c by simp
  next
    case False
    have "n < 256" unfolding n_def by (rule nat_of_char_less_256)
    moreover have "code_point c = n" by (simp only: code_point_def Let_def n_def [symmetric] False if_False)
    ultimately show ?thesis using False c by (simp add: point_char_def point_in_order_def) linarith
  qed
  then show "point_char (code_point c) = c" "point_in_order (code_point c)" by blast+
qed

lemma decode_two:
  "2 \<le> q \<Longrightarrow> q < 32 \<Longrightarrow> r < 64 \<Longrightarrow> utf8_decode ([192 + q, 128 + r] @ bs) = point_char (q * 64 + r) # utf8_decode bs"
  by (simp add: continuation_def)

lemma decode_three:
  "1 \<le> q \<Longrightarrow> q < 13 \<Longrightarrow> r < 64 \<Longrightarrow> t < 64 \<Longrightarrow>
   utf8_decode ([224 + q, 128 + r, 128 + t] @ bs) = point_char (q * 4096 + r * 64 + t) # utf8_decode bs"
  by (simp add: continuation_def)

lemma utf8_decode_utf8:
  assumes "point_in_order p"
  shows "utf8_decode (utf8 p @ bs) = point_char p # utf8_decode bs"
proof -
  consider "p < 128" | "128 \<le> p" "p < 2048" | "4096 \<le> p" "p < 53248"
    using assms unfolding point_in_order_def by linarith
  then show ?thesis
  proof cases
    case 1
    then show ?thesis by (simp add: utf8_def point_char_def)
  next
    case 2
    then have "2 \<le> p div 64" "p div 64 < 32" using div_le_mono [of 128 p 64] less_mult_imp_div_less [of p 32 64] by simp_all
    from decode_two [OF this, of "p mod 64" bs] show ?thesis using 2 by (simp add: utf8_def del: utf8_decode.simps)
  next
    case 3
    then have q: "1 \<le> p div 4096" "p div 4096 < 13"
      using div_le_mono [of 4096 p 4096] less_mult_imp_div_less [of p 13 4096] by simp_all
    have "p div 4096 = p div 64 div 64" by (simp add: div_mult2_eq [symmetric])
    then have "p div 4096 * 64 + p div 64 mod 64 = p div 64" by simp
    then have "p div 4096 * 4096 + p div 64 mod 64 * 64 + p mod 64 = p" using div_mult_mod_eq [of p 64] by linarith
    then show ?thesis using decode_three [OF q, of "p div 64 mod 64" "p mod 64" bs] 3
      by (simp add: utf8_def del: utf8_decode.simps)
  qed
qed

lemma utf8_bytes: "point_in_order p \<Longrightarrow> b \<in> set (utf8 p) \<Longrightarrow> b < 256"
proof -
  assume "point_in_order p" "b \<in> set (utf8 p)"
  moreover have "p < 53248 \<Longrightarrow> p div 4096 < 13" "p < 2048 \<Longrightarrow> p div 64 < 32" "p mod 64 < 64" "p div 64 mod 64 < 64" by simp_all
  ultimately show "b < 256" by (auto simp: point_in_order_def utf8_def split: if_splits)
qed

section \<open>The encoding\<close>

definition form_safe :: "char \<Rightarrow> bool" where
  "form_safe c \<longleftrightarrow> is_alnum c \<or> c \<in> set ''*-._''"

definition hex_digit :: "nat \<Rightarrow> char" where
  "hex_digit n = (if n < 10 then char_of (48 + n) else char_of (55 + n))"

definition hex_val :: "char \<Rightarrow> nat option" where
  "hex_val c = (let n = (of_char c :: nat) in
     if 48 \<le> n \<and> n \<le> 57 then Some (n - 48)
     else if 65 \<le> n \<and> n \<le> 70 then Some (n - 55)
     else if 97 \<le> n \<and> n \<le> 102 then Some (n - 87) else None)"

definition percent_byte :: "nat \<Rightarrow> string" where
  "percent_byte b = [CHR ''%'', hex_digit (b div 16), hex_digit (b mod 16)]"

definition form_char :: "char \<Rightarrow> string" where
  "form_char c =
     (if form_safe c then [c] else if c = CHR '' '' then ''+''
      else concat (map percent_byte (utf8 (code_point c))))"

definition form_encode :: "string \<Rightarrow> string" where
  "form_encode s = concat (map form_char s)"

fun form_bytes :: "string \<Rightarrow> nat list" where
  "form_bytes [] = []"
| "form_bytes (c # s) =
     (if c = CHR ''+'' then 32 # form_bytes s
      else if c = CHR ''%'' then
        (case s of
           h # l # r \<Rightarrow> (case (hex_val h, hex_val l) of
                         (Some a, Some b) \<Rightarrow> (16 * a + b) # form_bytes r
                       | _ \<Rightarrow> 37 # form_bytes s)
         | _ \<Rightarrow> 37 # form_bytes s)
      else utf8 (code_point c) @ form_bytes s)"

definition form_decode :: "string \<Rightarrow> string" where
  "form_decode s = utf8_decode (form_bytes s)"

text \<open>\<open>new URLSearchParams(s).get(key)\<close>: the value of the first pair with the key.\<close>

definition form_pair :: "string \<Rightarrow> string \<times> string" where
  "form_pair p = (let k = takeWhile (\<lambda>c. c \<noteq> CHR ''='') p in (form_decode k, form_decode (drop (length k + 1) p)))"

definition search_param :: "string \<Rightarrow> string \<Rightarrow> string option" where
  "search_param key s = map_of (map form_pair (filter (\<lambda>p. p \<noteq> []) (split_char (CHR ''&'') s))) key"

section \<open>Reading back\<close>

lemma hex_val_digit: "n < 16 \<Longrightarrow> hex_val (hex_digit n) = Some n"
  by (simp add: hex_val_def hex_digit_def)

lemma form_unsafe:
  "\<not> form_safe (CHR ''%'')" "\<not> form_safe (CHR ''+'')" "\<not> form_safe (CHR ''&'')" "\<not> form_safe (CHR ''='')" "\<not> form_safe (CHR ''#'')"
  by code_simp+

lemma form_bytes_percent:
  "list_all (\<lambda>b. b < 256) bs \<Longrightarrow> form_bytes (concat (map percent_byte bs) @ s) = bs @ form_bytes s"
  by (induction bs) (simp_all add: percent_byte_def hex_val_digit less_mult_imp_div_less)

lemma form_bytes_char: "form_bytes (form_char c @ s) = utf8 (code_point c) @ form_bytes s"
proof -
  consider "form_safe c" | "\<not> form_safe c" "c = CHR '' ''" | "\<not> form_safe c" "c \<noteq> CHR '' ''" by blast
  then show ?thesis
  proof cases
    case 1
    then have "c \<noteq> CHR ''+''" "c \<noteq> CHR ''%''" using form_unsafe by auto
    then show ?thesis using 1 by (simp add: form_char_def)
  next
    case 2
    then show ?thesis by (simp add: form_char_def code_point_def utf8_def)
  next
    case 3
    have "list_all (\<lambda>b. b < 256) (utf8 (code_point c))"
      using utf8_bytes [OF code_point_char(2)] by (auto simp: list_all_iff)
    then show ?thesis using 3 by (simp add: form_char_def form_bytes_percent)
  qed
qed

lemma form_decode_encode: "form_decode (form_encode s) = s"
proof -
  have "form_bytes (form_encode s) = concat (map (\<lambda>c. utf8 (code_point c)) s)"
    by (induction s) (simp_all add: form_encode_def form_bytes_char)
  moreover have "utf8_decode (concat (map (\<lambda>c. utf8 (code_point c)) s)) = s"
    by (induction s) (simp_all add: utf8_decode_utf8 code_point_char)
  ultimately show ?thesis by (simp add: form_decode_def)
qed

text \<open>No delimiter of a query or a fragment is left in an encoded value.\<close>

lemma hex_digit_range:
  "n < 16 \<Longrightarrow> 48 \<le> (of_char (hex_digit n) :: nat) \<and> (of_char (hex_digit n) :: nat) \<le> 70 \<and> (of_char (hex_digit n) :: nat) \<noteq> 61"
  by (auto simp: hex_digit_def)

lemma percent_clean: "b < 256 \<Longrightarrow> x \<in> set (percent_byte b) \<Longrightarrow> x \<notin> {CHR ''&'', CHR ''='', CHR ''#''}"
  using hex_digit_range [of "b div 16"] hex_digit_range [of "b mod 16"] less_mult_imp_div_less [of b 16 16]
  by (auto simp: percent_byte_def)

lemma form_char_clean: "x \<in> set (form_char c) \<Longrightarrow> x \<notin> {CHR ''&'', CHR ''='', CHR ''#''}"
proof -
  assume x: "x \<in> set (form_char c)"
  consider "form_safe c" | "\<not> form_safe c" "c = CHR '' ''" | "\<not> form_safe c" "c \<noteq> CHR '' ''" by blast
  then show ?thesis
  proof cases
    case 3
    then obtain b where "b \<in> set (utf8 (code_point c))" "x \<in> set (percent_byte b)" using x by (auto simp: form_char_def)
    then show ?thesis using percent_clean utf8_bytes [OF code_point_char(2)] by blast
  qed (use x form_unsafe in \<open>auto simp: form_char_def\<close>)
qed

lemma form_encode_clean: "x \<in> set (form_encode s) \<Longrightarrow> x \<notin> {CHR ''&'', CHR ''='', CHR ''#''}"
  using form_char_clean by (auto simp: form_encode_def)

lemma form_pair_encode: "form_pair (form_encode k @ ''='' @ form_encode v) = (k, v)"
proof -
  have "takeWhile (\<lambda>c. c \<noteq> CHR ''='') (form_encode k @ ''='' @ form_encode v) = form_encode k"
    using form_encode_clean by (subst takeWhile_append2) auto
  then show ?thesis by (simp add: form_pair_def Let_def form_decode_encode)
qed

lemma encode_token_name: "form_encode ''token'' = ''token''"
  by code_simp

end
