(* ===== verification/ShareDialogs.thy ===== *)
theory ShareDialogs
  imports Modals FormCode
begin

text \<open>
  The dialogs that hand out a secret: \<open>modal/AddAccessKeyModal.tsx\<close>, which issues a key through the
  access page's handler and shows it once, \<open>modal/TempPasswordModal.tsx\<close> and \<open>ui/button/CopyButton.tsx\<close>,
  which copy, and \<open>modal/GuestShareModal.tsx\<close>, which makes, lists and revokes guest links. What a
  dialog waits for is answered by an event of its own, so answers can come late or out of order; its request is on record from
  the moment it is sent.
\<close>

section \<open>Issuing a key\<close>

record key_dialog =
  kd_open :: bool
  kd_revealMode :: bool
  kd_deviceId :: string
  kd_error :: string
  kd_submitting :: bool
  kd_reveal :: "reveal_payload option"
  kd_copied :: bool

definition key_dialog_closed :: key_dialog where
  "key_dialog_closed = \<lparr>kd_open = False, kd_revealMode = False, kd_deviceId = [], kd_error = [], kd_submitting = False,
     kd_reveal = None, kd_copied = False\<rparr>"

definition available_devices :: "device_with_access list \<Rightarrow> api_key_row list \<Rightarrow> device_with_access list" where
  "available_devices devices rows =
     (let takenDeviceIds = set (map kr_device_id rows) in filter (\<lambda>d. d_id d \<notin> takenDeviceIds) devices)"

text \<open>The effect on \<open>open\<close>.\<close>

definition kd_opened :: "key_dialog \<Rightarrow> key_dialog" where
  "kd_opened d = d\<lparr>kd_open := True, kd_revealMode := False, kd_deviceId := [], kd_error := [], kd_submitting := False,
     kd_reveal := None, kd_copied := False\<rparr>"

definition kd_closed :: "key_dialog \<Rightarrow> key_dialog" where
  "kd_closed d = d\<lparr>kd_open := False\<rparr>"

definition kd_pick :: "string \<Rightarrow> key_dialog \<Rightarrow> key_dialog" where
  "kd_pick v d = (let d1 = d\<lparr>kd_deviceId := v\<rparr> in if kd_error d \<noteq> [] then d1\<lparr>kd_error := []\<rparr> else d1)"

text \<open>\<open>submit\<close> up to the awaited \<open>onIssue\<close>, with the id it is called with, and what follows its answer: a
  rejection leaves the function before any of it.\<close>

definition kd_submit ::
  "string \<Rightarrow> device_with_access list \<Rightarrow> api_key_row list \<Rightarrow> key_dialog \<Rightarrow> key_dialog \<times> string option" where
  "kd_submit deviceRequired devices rows d =
     (let d0 = d\<lparr>kd_error := []\<rparr>
      in if kd_deviceId d0 = [] then (d0\<lparr>kd_error := deviceRequired\<rparr>, None)
         else (case find (\<lambda>x. d_id x = kd_deviceId d0) (available_devices devices rows) of
                 None \<Rightarrow> (d0\<lparr>kd_error := deviceRequired\<rparr>, None)
               | Some selected \<Rightarrow> (d0\<lparr>kd_submitting := True\<rparr>, Some (d_id selected))))"

definition kd_settled :: "(thrown + reveal_payload option) \<Rightarrow> key_dialog \<Rightarrow> key_dialog" where
  "kd_settled out d =
     (case out of
        Inl e \<Rightarrow> d
      | Inr None \<Rightarrow> d\<lparr>kd_submitting := False\<rparr>
      | Inr (Some r) \<Rightarrow> d\<lparr>kd_submitting := False, kd_reveal := Some r, kd_revealMode := True\<rparr>)"

text \<open>A copy that succeeds marks the button for a while; the timer takes the mark away.\<close>

definition copy_value :: "clipboard_env \<Rightarrow> string \<Rightarrow> bool \<Rightarrow> bool" where
  "copy_value env value copied = (if fst (copyToClipboard env value 0) then True else copied)"

definition copy_timeout :: "bool \<Rightarrow> bool" where
  "copy_timeout copied = False"

definition kd_copyKey :: "clipboard_env \<Rightarrow> key_dialog \<Rightarrow> key_dialog" where
  "kd_copyKey env d =
     (case kd_reveal d of None \<Rightarrow> d | Some r \<Rightarrow> d\<lparr>kd_copied := copy_value env (rp_plainKey r) (kd_copied d)\<rparr>)"

definition temp_password_copy :: "clipboard_env \<Rightarrow> created_user \<Rightarrow> bool \<Rightarrow> bool" where
  "temp_password_copy env u copied =
     (let tempPassword = cu_temporary_password u in if tempPassword = [] then copied else copy_value env tempPassword copied)"

text \<open>The key on the screen, and whether the buttons of the form react.\<close>

definition kd_shown_key :: "key_dialog \<Rightarrow> string option" where
  "kd_shown_key d = (if kd_open d \<and> kd_revealMode d then map_option rp_plainKey (kd_reveal d) else None)"

definition kd_buttons :: "key_dialog \<Rightarrow> bool" where
  "kd_buttons d \<longleftrightarrow> kd_open d \<and> \<not> kd_submitting d"

text \<open>The dialog on the access page: its \<open>onIssue\<close> is the page's handler.\<close>

definition issue_from_dialog ::
  "access_strings \<Rightarrow> string \<Rightarrow> (thrown + create_api_key_response envelope fetch_result) \<Rightarrow>
   (thrown + api_key_row list envelope fetch_result) \<Rightarrow> access_page \<times> key_dialog \<Rightarrow> access_page \<times> key_dialog" where
  "issue_from_dialog t deviceRequired out out_list pd =
     (let (p, d) = pd; (d1, request) = kd_submit deviceRequired (ap_devices p) (ksv_rows p) d
      in case request of
           None \<Rightarrow> (p, d1)
         | Some deviceId \<Rightarrow> (case handleIssue t deviceId out out_list p of (r, p') \<Rightarrow> (p', kd_settled r d1)))"

lemma kd_submit_ok:
  assumes "d' \<in> set devices" "d_id d' \<notin> kr_device_id ` set rows" "kd_deviceId d = d_id d'" "d_id d' \<noteq> []"
  shows "kd_submit msg devices rows d = (d\<lparr>kd_error := [], kd_submitting := True\<rparr>, Some (d_id d'))"
proof -
  have "d' \<in> set (available_devices devices rows)"
    using assms(1,2) by (simp add: available_devices_def)
  then obtain x where "find (\<lambda>x. d_id x = d_id d') (available_devices devices rows) = Some x" "d_id x = d_id d'"
    by (metis (mono_tags, lifting) find_None_iff find_Some_iff not_None_eq)
  then show ?thesis using assms(3,4) by (simp add: kd_submit_def)
qed

text \<open>The key dialog asks for a key only for a device of the page that has no active key; without such a
  choice it asks nothing and says that a device is required.\<close>

theorem key_dialog_asks_available:
  "case snd (kd_submit msg devices rows d) of
     None \<Rightarrow> kd_error (fst (kd_submit msg devices rows d)) = msg \<and>
       kd_submitting (fst (kd_submit msg devices rows d)) = kd_submitting d \<and>
       (kd_deviceId d = [] \<or> kd_deviceId d \<notin> d_id ` set devices \<or> kd_deviceId d \<in> kr_device_id ` set rows)
   | Some i \<Rightarrow> i = kd_deviceId d \<and> i \<in> d_id ` set devices \<and> i \<notin> kr_device_id ` set rows \<and>
       kd_submitting (fst (kd_submit msg devices rows d))"
proof (cases "kd_deviceId d = []")
  case False
  show ?thesis
  proof (cases "find (\<lambda>x. d_id x = kd_deviceId d) (available_devices devices rows)")
    case None
    then have "kd_submit msg devices rows d = (d\<lparr>kd_error := msg\<rparr>, None)"
      using False by (simp add: kd_submit_def)
    moreover have "kd_deviceId d \<notin> d_id ` set devices \<or> kd_deviceId d \<in> kr_device_id ` set rows"
      using None by (auto simp: find_None_iff available_devices_def)
    ultimately show ?thesis by simp
  next
    case (Some x)
    then have "kd_submit msg devices rows d = (d\<lparr>kd_error := [], kd_submitting := True\<rparr>, Some (d_id x))"
      using False by (simp add: kd_submit_def)
    moreover have "x \<in> set (available_devices devices rows)" "d_id x = kd_deviceId d"
      using Some by (auto simp: find_Some_iff)
    then have "kd_deviceId d \<in> d_id ` set devices" "kd_deviceId d \<notin> kr_device_id ` set rows" "d_id x = kd_deviceId d"
      by (auto simp: available_devices_def intro: image_eqI [OF sym])
    ultimately show ?thesis by simp
  qed
qed (simp add: kd_submit_def)

lemma kd_late:
  "kd_shown_key (kd_settled r (kd_closed x)) = None" "kd_shown_key (kd_opened y) = None"
  "kd_buttons (kd_opened y)"
  "kd_shown_key (kd_settled r (kd_opened y)) = (case r of Inr (Some p) \<Rightarrow> Some (rp_plainKey p) | _ \<Rightarrow> None)"
  by (simp_all add: kd_settled_def kd_closed_def kd_opened_def kd_shown_key_def kd_buttons_def split: sum.split option.split)

text \<open>C29: Issuing a key from the dialog, through the access page's handler. An issued key is on the screen; for a
  device that already has one the form is ready again. But any other failure leaves both buttons of
  the dialog disabled, for the handler rejects where the dialog expects \<open>null\<close>. Closing the dialog
  while the request is in flight has two ends. If the answer comes while it is closed, the key is lost: neither the closed dialog nor the
  one opened later shows it. If the dialog was opened again before the answer, its form is ready for another request,
  and the answer still turns it into the screen with the key of the first one.\<close>

theorem key_dialog_outcomes:
  assumes "dev \<in> set (ap_devices p)" "d_id dev \<notin> kr_device_id ` set (ksv_rows p)" "d_id dev \<noteq> []"
    and "d = kd_pick (d_id dev) (kd_opened d0)"
  shows "let r = issue_from_dialog t msg out out_list (p, d) in
    (case out of
       Inl e \<Rightarrow> kd_shown_key (snd r) = None \<and> kd_buttons (snd r) = (err_status (toError e) = 409)
     | Inr a \<Rightarrow> kd_shown_key (snd r) = map_option ck_plain_key (Option.bind (fr_data a) env_data) \<and>
         (kd_buttons (snd r) \<longleftrightarrow> Option.bind (fr_data a) env_data \<noteq> None)) \<and>
    (let answer = kd_settled (fst (handleIssue t (d_id dev) out out_list p));
         closed = kd_closed (fst (kd_submit msg (ap_devices p) (ksv_rows p) d))
     in kd_shown_key (answer closed) = None \<and> kd_shown_key (kd_opened (answer closed)) = None \<and>
        kd_shown_key (kd_opened closed) = None \<and> kd_buttons (kd_opened closed) \<and>
        kd_shown_key (answer (kd_opened closed)) =
          (case out of Inl _ \<Rightarrow> None | Inr a \<Rightarrow> map_option ck_plain_key (Option.bind (fr_data a) env_data)))"
proof -
  have d: "kd_deviceId d = d_id dev" "kd_open d" "\<not> kd_submitting d" "kd_reveal d = None" "\<not> kd_revealMode d"
    using assms(4) by (simp_all add: kd_pick_def kd_opened_def)
  note sub = kd_submit_ok [of dev "ap_devices p" "ksv_rows p" d msg, OF assms(1,2) d(1) assms(3)]
  have run: "snd (issue_from_dialog t msg out out_list (p, d)) =
      kd_settled (fst (handleIssue t (d_id dev) out out_list p)) (d\<lparr>kd_error := [], kd_submitting := True\<rparr>)"
    using sub by (simp add: issue_from_dialog_def split: prod.split)
  have shown: "case out of
       Inl e \<Rightarrow> kd_shown_key (snd (issue_from_dialog t msg out out_list (p, d))) = None \<and>
         kd_buttons (snd (issue_from_dialog t msg out out_list (p, d))) = (err_status (toError e) = 409)
     | Inr a \<Rightarrow> kd_shown_key (snd (issue_from_dialog t msg out out_list (p, d))) =
           map_option ck_plain_key (Option.bind (fr_data a) env_data) \<and>
         (kd_buttons (snd (issue_from_dialog t msg out out_list (p, d))) \<longleftrightarrow> Option.bind (fr_data a) env_data \<noteq> None)"
    unfolding run issue_key_reveals
    by (cases out) (simp_all add: kd_settled_def kd_shown_key_def kd_buttons_def d split: option.split)
  have late: "kd_shown_key (kd_settled (fst (handleIssue t (d_id dev) out out_list p)) (kd_opened y)) =
      (case out of Inl _ \<Rightarrow> None | Inr a \<Rightarrow> map_option ck_plain_key (Option.bind (fr_data a) env_data))" for y
    unfolding kd_late issue_key_reveals by (cases out) (simp_all split: option.split)
  show ?thesis
    unfolding Let_def late using shown kd_late by blast
qed

definition van :: device_with_access where
  "van = \<lparr>d_id = ''d1'', d_uuid_firmware = ''fw'', d_name = ''Van'', d_vehicle_type = Van, d_created_at = ''c'',
     d_last_contact_at = None, da_access_role = Owner\<rparr>"

definition access_example :: access_page where
  "access_example = world.extend initial_world
     \<lparr>ksv_isLoading = False, ksv_error = None, ksv_apiKeys = [], ksv_rows = [],
      ap_devices = [van],
      ap_addOpen = True, ap_deleteTarget = None, ap_revokeLoading = False, ap_unhandled = []\<rparr>"

definition example_texts :: access_strings where
  "example_texts = \<lparr>as_addKey = ''Add'', as_issuedToast = ''Issued {device}'', as_revokedToast = ''Revoked'', as_revokeTitle = ''Revoke'',
     as_revokeFailed = ''Failed''\<rparr>"

theorem key_dialog_outcomes_witness:
  "let out = fetched (key_envelope (sample_key ''secret'')); d = kd_pick (d_id van) (kd_opened key_dialog_closed);
       r = issue_from_dialog example_texts ''Required'' out (Inl Primitive) (access_example, d) in
    (case out of
       Inl e \<Rightarrow> kd_shown_key (snd r) = None \<and> kd_buttons (snd r) = (err_status (toError e) = 409)
     | Inr a \<Rightarrow> kd_shown_key (snd r) = map_option ck_plain_key (Option.bind (fr_data a) env_data) \<and>
         (kd_buttons (snd r) \<longleftrightarrow> Option.bind (fr_data a) env_data \<noteq> None)) \<and>
    (let answer = kd_settled (fst (handleIssue example_texts (d_id van) out (Inl Primitive) access_example));
         closed = kd_closed (fst (kd_submit ''Required'' (ap_devices access_example) (ksv_rows access_example) d))
     in kd_shown_key (answer closed) = None \<and> kd_shown_key (kd_opened (answer closed)) = None \<and>
        kd_shown_key (kd_opened closed) = None \<and> kd_buttons (kd_opened closed) \<and>
        kd_shown_key (answer (kd_opened closed)) =
          (case out of Inl _ \<Rightarrow> None | Inr a \<Rightarrow> map_option ck_plain_key (Option.bind (fr_data a) env_data)))"
proof -
  have "van \<in> set (ap_devices access_example)" "d_id van \<notin> kr_device_id ` set (ksv_rows access_example)" "d_id van \<noteq> []"
    by (simp_all add: access_example_def van_def world.defs)
  then show ?thesis
    unfolding Let_def using key_dialog_outcomes [OF _ _ _ refl, unfolded Let_def] by blast
qed

section \<open>The link of a guest\<close>

text \<open>The URL of a link, the fragment a browser reports for it, and the token the guest page reads there.\<close>

definition guest_url :: "string \<Rightarrow> language \<Rightarrow> string \<Rightarrow> string" where
  "guest_url origin locale token =
     origin @ ''/'' @ language_str locale @ ''/devices/guest'' @ ''#'' @ ''token='' @ form_encode token"

definition location_hash :: "string \<Rightarrow> string" where
  "location_hash url = (let h = dropWhile (\<lambda>c. c \<noteq> CHR ''#'') url in if h = ''#'' then [] else h)"

definition read_token :: "string \<Rightarrow> string option" where
  "read_token hash = search_param ''token'' (drop 1 hash)"

lemma location_hash_guest:
  assumes "CHR ''#'' \<notin> set origin"
  shows "location_hash (guest_url origin locale token) = ''#token='' @ form_encode token"
proof -
  let ?pre = "origin @ ''/'' @ language_str locale @ ''/devices/guest''"
  have "\<And>c. c \<in> set (?pre) \<Longrightarrow> c \<noteq> CHR ''#''" using assms by (cases "locale") auto
  then have "dropWhile (\<lambda>c. c \<noteq> CHR ''#'') (?pre @ ''#token='' @ form_encode token) = ''#token='' @ form_encode token"
    by (subst dropWhile_append2) auto
  then show ?thesis by (simp add: location_hash_def guest_url_def Let_def)
qed

text \<open>What a page reads of a fragment that was made of pairs: the value of the first one with the name.\<close>

definition fragment_of :: "(string \<times> string) list \<Rightarrow> string" where
  "fragment_of ps = ''#'' @ join_with ''&'' (map (\<lambda>(k, v). form_encode k @ ''='' @ form_encode v) ps)"

lemma read_token_pairs: "read_token (fragment_of ps) = map_of ps ''token''"
proof -
  let ?q = "\<lambda>(k, v). form_encode k @ ''='' @ form_encode v"
  have pair: "form_pair (?q kv) = kv" for kv by (cases kv) (simp only: prod.case form_pair_encode)
  have clean: "CHR ''&'' \<notin> set (?q kv)" for kv using form_encode_clean by (cases kv) auto
  show ?thesis
  proof (cases ps)
    case (Cons p qs)
    then have "split_char (CHR ''&'') (join_with ''&'' (map ?q ps)) = map ?q ps"
      by (intro split_join_char) (use clean in auto)
    moreover have "filter (\<lambda>p. p \<noteq> []) (map ?q ps) = map ?q ps" by (auto simp: filter_id_conv)
    moreover have "map form_pair (map ?q ps) = ps" by (simp only: map_map comp_def pair map_ident)
    ultimately show ?thesis by (simp add: read_token_def fragment_of_def search_param_def)
  qed (simp add: read_token_def fragment_of_def search_param_def)
qed

lemma read_token_fragment: "read_token (''#token='' @ form_encode token) = Some token"
  using read_token_pairs [of "[(''token'', token)]"] by (simp add: fragment_of_def encode_token_name)

lemma location_hash_fragment:
  assumes "CHR ''#'' \<notin> set origin"
  shows "read_token (location_hash (origin @ fragment_of ps)) = map_of ps ''token''"
proof -
  have "dropWhile (\<lambda>c. c \<noteq> CHR ''#'') (origin @ fragment_of ps) = fragment_of ps"
    using assms by (subst dropWhile_append2) (auto simp: fragment_of_def)
  then have "location_hash (origin @ fragment_of ps) = (if fragment_of ps = ''#'' then [] else fragment_of ps)"
    by (simp only: location_hash_def Let_def)
  moreover have "read_token [] = read_token ''#''" by (simp add: read_token_def)
  ultimately show ?thesis using read_token_pairs [of ps] by (auto split: if_splits)
qed

text \<open>C26: Whatever characters a token has, the guest page reads from the link that was made for it exactly
  that token. A page opened without a fragment has none; of any other parameters, whatever their names and values, it
  reads the first one named \<open>token\<close>, so it has one exactly if there is such a parameter.\<close>

theorem guest_link_roundtrip:
  assumes "CHR ''#'' \<notin> set origin"
  shows "read_token (location_hash (guest_url origin locale token)) = Some token \<and>
    read_token (location_hash origin) = None \<and>
    read_token (location_hash (origin @ ''#'' @ join_with ''&'' (map (\<lambda>(k, v). form_encode k @ ''='' @ form_encode v) ps))) =
      map_of ps ''token''"
proof -
  have "dropWhile (\<lambda>c. c \<noteq> CHR ''#'') origin = []"
    using assms by (auto simp: dropWhile_eq_Nil_conv)
  then have "location_hash origin = []" by (simp only: location_hash_def Let_def) simp
  then have "read_token (location_hash origin) = None" by (simp only:) (simp add: read_token_def search_param_def)
  moreover have "read_token (location_hash (guest_url origin locale token)) = Some token"
    by (simp only: location_hash_guest [OF assms] read_token_fragment)
  ultimately show ?thesis using location_hash_fragment [OF assms, of ps] by (simp only: fragment_of_def)
qed

theorem guest_link_roundtrip_witness:
  "read_token (location_hash (guest_url ''https://gps.example'' Es (''a+b/c=&1 #'' @ [CHR 0x80, CHR 0xF1]))) =
     Some (''a+b/c=&1 #'' @ [CHR 0x80, CHR 0xF1]) \<and>
   read_token (location_hash ''https://gps.example'') = None \<and>
   read_token (location_hash (''https://gps.example'' @ ''#'' @ join_with ''&''
     (map (\<lambda>(k, v). form_encode k @ ''='' @ form_encode v) [(''x'', ''1''), (''token'', ''abc'')]))) =
     map_of [(''x'', ''1''), (''token'', ''abc'')] ''token''"
  by (rule guest_link_roundtrip) simp

section \<open>Guest links\<close>

text \<open>
  The dialog over the share services. Each run of its effect has a flag of its own (\<open>active\<close>), so an
  answer of the first list names its run; \<open>gs_active\<close> is the flag of the last run. \<open>gs_creating\<close> holds the
  hours of the creation in flight, \<open>gs_relisting\<close> counts the lists asked for after a creation, \<open>gs_revoking\<close>
  the revocations in flight.
\<close>

record share_texts =
  st_loadFailed :: string
  st_createFailed :: string
  st_copyFailed :: string

record share_dialog = world +
  gs_open :: bool
  gs_durationHours :: int
  gs_links :: "device_share_link list"
  gs_createdUrl :: string
  gs_loading :: bool
  gs_saving :: bool
  gs_copied :: bool
  gs_error :: string
  gs_run :: nat
  gs_active :: bool
  gs_creating :: "int option"
  gs_relisting :: nat
  gs_revoking :: "string list"

definition GUEST_SHARE_DURATIONS :: "int list" where
  "GUEST_SHARE_DURATIONS = [1, 2, 4, 8]"

definition share_start :: "world \<Rightarrow> share_dialog" where
  "share_start w = world.extend w
     \<lparr>gs_open = False, gs_durationHours = 1, gs_links = [], gs_createdUrl = [], gs_loading = False, gs_saving = False,
      gs_copied = False, gs_error = [], gs_run = 0, gs_active = False, gs_creating = None, gs_relisting = 0, gs_revoking = []\<rparr>"

text \<open>A request is recorded where it is sent; what the service makes of its answer is the first part of the service's result
  (the second is that record, see \<open>share_requests\<close>).\<close>

definition links_request :: "string \<Rightarrow> request" where
  "links_request deviceId = mk_request ApiClient GET (share_path deviceId)"

definition link_request :: "string \<Rightarrow> int \<Rightarrow> request" where
  "link_request deviceId hours =
     (mk_request ApiClient POST (share_path deviceId))\<lparr>rq_body := Some (JObject [(''duration_hours'', JNumber (Fin (of_int hours)))])\<rparr>"

definition unlink_request :: "string \<Rightarrow> string \<Rightarrow> request" where
  "unlink_request deviceId linkId = mk_request ApiClient DELETE (share_path deviceId @ ''/'' @ linkId)"

lemma share_requests:
  "snd (listDeviceShareLinks deviceId out1 (d :: share_dialog)) = sent (links_request deviceId) d"
  "snd (createDeviceShareLink deviceId hours out2 d) = sent (link_request deviceId hours) d"
  "snd (revokeDeviceShareLink deviceId linkId out3 d) = sent (unlink_request deviceId linkId) d"
proof -
  show "snd (listDeviceShareLinks deviceId out1 (d :: share_dialog)) = sent (links_request deviceId) d"
    by (cases out1) (simp_all add: listDeviceShareLinks_def require_data_def io_simps links_request_def split: option.split)
  show "snd (createDeviceShareLink deviceId hours out2 d) = sent (link_request deviceId hours) d"
    by (cases out2) (simp_all add: createDeviceShareLink_def require_data_def io_simps link_request_def split: option.split)
  show "snd (revokeDeviceShareLink deviceId linkId out3 d) = sent (unlink_request deviceId linkId) d"
    by (cases out3) (simp_all add: revokeDeviceShareLink_def io_simps unlink_request_def)
qed

definition share_effect :: "string \<Rightarrow> share_dialog \<Rightarrow> share_dialog" where
  "share_effect deviceId d = sent (links_request deviceId)
     (d\<lparr>gs_open := True, gs_run := gs_run d + 1, gs_active := True, gs_createdUrl := [], gs_copied := False,
        gs_error := [], gs_loading := True\<rparr>)"

definition share_listed ::
  "share_texts \<Rightarrow> string \<Rightarrow> nat \<Rightarrow> (thrown + device_share_link list envelope fetch_result) \<Rightarrow> share_dialog \<Rightarrow> share_dialog" where
  "share_listed t deviceId run out d =
     (if \<not> (gs_active d \<and> gs_run d = run) then d
      else (case fst (listDeviceShareLinks deviceId out d) of
              Inr items \<Rightarrow> d\<lparr>gs_links := items\<rparr>
            | Inl e \<Rightarrow> d\<lparr>gs_error := st_loadFailed t\<rparr>)\<lparr>gs_loading := False\<rparr>)"

text \<open>\<open>createLink\<close>: up to the first await, after it, and after the second.\<close>

definition create_link :: "string \<Rightarrow> share_dialog \<Rightarrow> share_dialog" where
  "create_link deviceId d = sent (link_request deviceId (gs_durationHours d))
     (d\<lparr>gs_saving := True, gs_error := [], gs_createdUrl := [], gs_copied := False, gs_creating := Some (gs_durationHours d)\<rparr>)"

definition link_created ::
  "share_texts \<Rightarrow> string \<Rightarrow> language \<Rightarrow> string \<Rightarrow> int \<Rightarrow> (thrown + created_device_share_link envelope fetch_result) \<Rightarrow>
   share_dialog \<Rightarrow> share_dialog" where
  "link_created t origin loc deviceId hours out d =
     (case fst (createDeviceShareLink deviceId hours out d) of
        Inr created \<Rightarrow> sent (links_request deviceId)
          (d\<lparr>gs_createdUrl := guest_url origin loc (sl_token created), gs_saving := False, gs_creating := None,
             gs_relisting := gs_relisting d + 1\<rparr>)
      | Inl e \<Rightarrow> d\<lparr>gs_error := st_createFailed t, gs_saving := False, gs_creating := None\<rparr>)"

definition relisted ::
  "share_texts \<Rightarrow> string \<Rightarrow> (thrown + device_share_link list envelope fetch_result) \<Rightarrow> share_dialog \<Rightarrow> share_dialog" where
  "relisted t deviceId out d =
     (case fst (listDeviceShareLinks deviceId out d) of
        Inr items \<Rightarrow> d\<lparr>gs_links := items, gs_relisting := gs_relisting d - 1\<rparr>
      | Inl e \<Rightarrow> d\<lparr>gs_error := st_loadFailed t, gs_relisting := gs_relisting d - 1\<rparr>)"

definition copy_link :: "share_texts \<Rightarrow> bool \<Rightarrow> share_dialog \<Rightarrow> share_dialog" where
  "copy_link t written d = (if written then d\<lparr>gs_copied := True, gs_error := []\<rparr> else d\<lparr>gs_error := st_copyFailed t\<rparr>)"

definition revoke_link :: "string \<Rightarrow> bool \<Rightarrow> string \<Rightarrow> share_dialog \<Rightarrow> share_dialog" where
  "revoke_link deviceId confirmed linkId d =
     (if \<not> confirmed then d
      else sent (unlink_request deviceId linkId) (d\<lparr>gs_error := [], gs_revoking := linkId # gs_revoking d\<rparr>))"

definition link_revoked :: "share_texts \<Rightarrow> string \<Rightarrow> string \<Rightarrow> (thrown + 'b fetch_result) \<Rightarrow> share_dialog \<Rightarrow> share_dialog" where
  "link_revoked t deviceId linkId out d =
     (case fst (revokeDeviceShareLink deviceId linkId out d) of
        Inr _ \<Rightarrow> d\<lparr>gs_links := filter (\<lambda>l. sl_id l \<noteq> linkId) (gs_links d), gs_revoking := remove1 linkId (gs_revoking d)\<rparr>
      | Inl e \<Rightarrow> d\<lparr>gs_error := st_loadFailed t, gs_revoking := remove1 linkId (gs_revoking d)\<rparr>)"

text \<open>\<open>close\<close>, with the page closing the dialog and the cleanup of the effect.\<close>

definition share_close :: "share_dialog \<Rightarrow> share_dialog" where
  "share_close d = (if gs_saving d then d else d\<lparr>gs_createdUrl := [], gs_copied := False, gs_open := False, gs_active := False\<rparr>)"

definition duration_label :: "string \<Rightarrow> string \<Rightarrow> string \<Rightarrow> string \<Rightarrow> int \<Rightarrow> string" where
  "duration_label oneHour twoHours fourHours eightHours hours =
     (if hours = 1 then oneHour else if hours = 2 then twoHours else if hours = 4 then fourHours else eightHours)"

datatype share_event =
    GsOpens
  | GsListed nat "thrown + device_share_link list envelope fetch_result"
  | GsDuration int
  | GsCreate
  | GsCreated "thrown + created_device_share_link envelope fetch_result"
  | GsRelisted "thrown + device_share_link list envelope fetch_result"
  | GsCopy bool
  | GsRevoke bool string
  | GsRevoked string "thrown + unit fetch_result"
  | GsCloses

fun share_step :: "share_texts \<Rightarrow> string \<Rightarrow> language \<Rightarrow> string \<Rightarrow> share_event \<Rightarrow> share_dialog \<Rightarrow> share_dialog" where
  "share_step t org loc dev GsOpens d = (if gs_open d then d else share_effect dev d)"
| "share_step t org loc dev (GsListed run out) d = (if 0 < run \<and> run \<le> gs_run d then share_listed t dev run out d else d)"
| "share_step t org loc dev (GsDuration h) d =
     (if gs_open d \<and> h \<in> set GUEST_SHARE_DURATIONS then d\<lparr>gs_durationHours := h\<rparr> else d)"
| "share_step t org loc dev GsCreate d = (if gs_open d \<and> \<not> gs_saving d then create_link dev d else d)"
| "share_step t org loc dev (GsCreated out) d =
     (case gs_creating d of None \<Rightarrow> d | Some hours \<Rightarrow> link_created t org loc dev hours out d)"
| "share_step t org loc dev (GsRelisted out) d = (if 0 < gs_relisting d then relisted t dev out d else d)"
| "share_step t org loc dev (GsCopy ok) d = (if gs_open d \<and> gs_createdUrl d \<noteq> [] then copy_link t ok d else d)"
| "share_step t org loc dev (GsRevoke ok i) d =
     (if gs_open d \<and> \<not> gs_loading d \<and> i \<in> sl_id ` set (gs_links d) then revoke_link dev ok i d else d)"
| "share_step t org loc dev (GsRevoked i out) d = (if i \<in> set (gs_revoking d) then link_revoked t dev i out d else d)"
| "share_step t org loc dev GsCloses d = (if gs_open d then share_close d else d)"

definition share_run :: "share_texts \<Rightarrow> string \<Rightarrow> language \<Rightarrow> string \<Rightarrow> share_event list \<Rightarrow> share_dialog \<Rightarrow> share_dialog" where
  "share_run t org loc dev es d = foldl (\<lambda>d e. share_step t org loc dev e d) d es"

lemma share_run_simps [simp]:
  "share_run t org loc dev [] d = d"
  "share_run t org loc dev (e # es) d = share_run t org loc dev es (share_step t org loc dev e d)"
  by (simp_all add: share_run_def)

lemmas share_service_defs =
  createDeviceShareLink_def listDeviceShareLinks_def revokeDeviceShareLink_def require_data_def

lemma sent_share [simp]:
  "gs_open (sent rq d) = gs_open d" "gs_durationHours (sent rq d) = gs_durationHours d" "gs_links (sent rq d) = gs_links d"
  "gs_createdUrl (sent rq d) = gs_createdUrl d" "gs_loading (sent rq d) = gs_loading d" "gs_saving (sent rq d) = gs_saving d"
  "gs_error (sent rq d) = gs_error d" "gs_run (sent rq d) = gs_run d" "gs_active (sent rq d) = gs_active d"
  "gs_creating (sent rq d) = gs_creating d" "gs_relisting (sent rq d) = gs_relisting d" "gs_revoking (sent rq d) = gs_revoking d"
  "w_sent (sent rq d) = w_sent d @ [rq]"
  by (simp_all add: sent_def)

lemma request_verbs [simp]: "rq_verb (links_request dev) = GET" "rq_verb (unlink_request dev i) = DELETE"
  by (simp_all add: links_request_def unlink_request_def mk_request_def)

text \<open>Whether an answer is that of a creation that went through, and its link.\<close>

definition created_link :: "(thrown + created_device_share_link envelope fetch_result) \<Rightarrow> created_device_share_link option" where
  "created_link out =
     (case out of Inl _ \<Rightarrow> None | Inr r \<Rightarrow> (case fr_data r of None \<Rightarrow> None | Some e \<Rightarrow> env_data e))"

lemma created_result:
  "fst (createDeviceShareLink dev h out (d :: share_dialog)) = Inr c \<Longrightarrow> created_link out = Some c"
  by (cases out) (auto simp: createDeviceShareLink_def require_data_def io_simps created_link_def bind_eq_Some_conv split: option.splits)

definition share_inv :: "string \<Rightarrow> share_dialog \<Rightarrow> bool" where
  "share_inv dev d \<longleftrightarrow>
     gs_saving d = (gs_creating d \<noteq> None) \<and> gs_active d = gs_open d \<and> (gs_saving d \<longrightarrow> gs_open d \<and> gs_createdUrl d = []) \<and>
     gs_durationHours d \<in> set GUEST_SHARE_DURATIONS \<and> (gs_createdUrl d \<noteq> [] \<longrightarrow> gs_open d) \<and>
     (\<forall>rq \<in> set (w_sent d). rq_verb rq = POST \<longrightarrow> rq \<in> link_request dev ` set GUEST_SHARE_DURATIONS)"

lemma share_inv_create:
  assumes "share_inv dev d" "gs_open d"
  shows "share_inv dev (create_link dev d)"
proof -
  have "link_request dev (gs_durationHours d) \<in> link_request dev ` set GUEST_SHARE_DURATIONS"
    using assms(1) by (intro imageI) (simp add: share_inv_def)
  moreover have "w_sent (create_link dev d) = w_sent d @ [link_request dev (gs_durationHours d)]"
    by (simp add: create_link_def)
  ultimately have "\<forall>rq \<in> set (w_sent (create_link dev d)). rq_verb rq = POST \<longrightarrow> rq \<in> link_request dev ` set GUEST_SHARE_DURATIONS"
    using assms(1) unfolding share_inv_def by (simp only: set_append list.set ball_Un) blast
  moreover have "gs_saving (create_link dev d)" "gs_creating (create_link dev d) \<noteq> None" "gs_active (create_link dev d) = gs_active d"
    "gs_open (create_link dev d) = gs_open d" "gs_createdUrl (create_link dev d) = []"
    "gs_durationHours (create_link dev d) = gs_durationHours d"
    by (simp_all add: create_link_def)
  ultimately show ?thesis using assms unfolding share_inv_def by metis
qed

lemma share_inv_step:
  assumes "share_inv dev d"
  shows "share_inv dev (share_step t org loc dev e d)"
proof (cases e)
  case GsOpens
  then show ?thesis using assms by (cases "gs_open d") (auto simp: share_inv_def share_effect_def)
next
  case (GsListed run out)
  then show ?thesis using assms by (auto simp: share_inv_def share_listed_def split: sum.split)
next
  case (GsDuration h)
  then show ?thesis using assms by (simp add: share_inv_def)
next
  case GsCreate
  then show ?thesis using assms share_inv_create [OF assms] by simp
next
  case (GsCreated out)
  then show ?thesis using assms by (cases "gs_creating d") (auto simp: share_inv_def link_created_def split: sum.split)
next
  case (GsRelisted out)
  then show ?thesis using assms by (auto simp: share_inv_def relisted_def split: sum.split)
next
  case (GsCopy ok)
  then show ?thesis using assms by (auto simp: share_inv_def copy_link_def)
next
  case (GsRevoke ok i)
  then show ?thesis using assms by (auto simp: share_inv_def revoke_link_def)
next
  case (GsRevoked i out)
  then show ?thesis using assms by (auto simp: share_inv_def link_revoked_def split: sum.split)
next
  case GsCloses
  then show ?thesis using assms by (auto simp: share_inv_def share_close_def)
qed

lemma share_inv_run: "share_inv dev d \<Longrightarrow> share_inv dev (share_run t org loc dev es d)"
  by (induction es arbitrary: d) (simp_all add: share_inv_step)

text \<open>The link on the screen changes only with the answer to a creation, and otherwise it goes.\<close>

lemma created_url_step:
  "gs_createdUrl (share_step t org loc dev e d) \<in> {[], gs_createdUrl d} \<or>
   (\<exists>out c. e = GsCreated out \<and> gs_creating d \<noteq> None \<and> created_link out = Some c \<and>
      gs_createdUrl (share_step t org loc dev e d) = guest_url org loc (sl_token c))"
proof (cases e)
  case (GsCreated out)
  show ?thesis
  proof (cases "gs_creating d")
    case (Some h)
    then show ?thesis
    proof (cases "fst (createDeviceShareLink dev h out d)")
      case (Inr c)
      then show ?thesis using GsCreated Some created_result [OF Inr] by (simp add: link_created_def)
    qed (simp add: GsCreated Some link_created_def)
  qed (simp add: GsCreated)
qed (simp_all add: share_effect_def share_listed_def create_link_def relisted_def copy_link_def revoke_link_def link_revoked_def
    share_close_def split: sum.split)

lemma share_run_snoc: "share_run t org loc dev (es @ [e]) d = share_step t org loc dev e (share_run t org loc dev es d)"
  by (simp add: share_run_def)

lemma created_url_source:
  assumes "gs_createdUrl (share_run t org loc dev es (share_start w)) \<noteq> []"
  shows "\<exists>es1 out es2 c. es = es1 @ GsCreated out # es2 \<and> gs_creating (share_run t org loc dev es1 (share_start w)) \<noteq> None \<and>
    created_link out = Some c \<and> gs_createdUrl (share_run t org loc dev es (share_start w)) = guest_url org loc (sl_token c)"
  using assms
proof (induction es rule: rev_induct)
  case (snoc e es)
  consider "gs_createdUrl (share_run t org loc dev (es @ [e]) (share_start w)) = gs_createdUrl (share_run t org loc dev es (share_start w))"
    | out c where "e = GsCreated out" "gs_creating (share_run t org loc dev es (share_start w)) \<noteq> None" "created_link out = Some c"
        "gs_createdUrl (share_run t org loc dev (es @ [e]) (share_start w)) = guest_url org loc (sl_token c)"
    using created_url_step [of t org loc dev e "share_run t org loc dev es (share_start w)"] snoc.prems
    unfolding share_run_snoc by auto
  then show ?case
  proof cases
    case 1
    then obtain es1 out es2 c where "es = es1 @ GsCreated out # es2" "gs_creating (share_run t org loc dev es1 (share_start w)) \<noteq> None"
        "created_link out = Some c" "gs_createdUrl (share_run t org loc dev es (share_start w)) = guest_url org loc (sl_token c)"
      using snoc by metis
    then show ?thesis using 1 by (intro exI [of _ es1] exI [of _ out] exI [of _ "es2 @ [e]"] exI [of _ c]) simp
  next
    case 2
    then show ?thesis by (intro exI [of _ es] exI [of _ out] exI [of _ "[]"] exI [of _ c]) simp
  qed
qed (simp add: share_start_def world.defs)

text \<open>C17: In every run of the guest-link dialog a link is asked for only for one, two, four or eight hours; a link
  on the screen is made of the origin, the language and the token of an answer to a creation of this dialog that was in
  flight, and is shown in an open dialog with no other creation in
  flight; and while one is in flight the dialog stays open. A list answer of an earlier opening
  changes nothing the dialog shows.\<close>

theorem share_dialog_invariant:
  assumes "w_sent w = []"
  shows "let d = share_run t org loc dev es (share_start w) in
    (\<forall>rq \<in> set (w_sent d). rq_verb rq = POST \<longrightarrow>
       (\<exists>h \<in> {1, 2, 4, 8}. rq_body rq = Some (JObject [(''duration_hours'', JNumber (Fin (of_int h)))]))) \<and>
    (gs_createdUrl d \<noteq> [] \<longrightarrow> gs_open d \<and> \<not> gs_saving d \<and>
       (\<exists>es1 r es2 envelope c. es = es1 @ GsCreated (Inr r) # es2 \<and> gs_saving (share_run t org loc dev es1 (share_start w)) \<and>
          fr_data r = Some envelope \<and> env_data envelope = Some c \<and> gs_createdUrl d = guest_url org loc (sl_token c))) \<and>
    (gs_saving d \<longrightarrow> gs_open (share_step t org loc dev GsCloses d)) \<and>
    (run \<noteq> gs_run d \<longrightarrow> (let d' = share_step t org loc dev (GsListed run out) d in
       gs_links d' = gs_links d \<and> gs_error d' = gs_error d \<and> gs_loading d' = gs_loading d))"
proof -
  let ?run = "\<lambda>es. share_run t org loc dev es (share_start w)"
  have "share_inv dev (share_start w)"
    using assms by (simp add: share_inv_def share_start_def world.defs GUEST_SHARE_DURATIONS_def)
  then have inv: "share_inv dev (?run es)" for es by (rule share_inv_run)
  have posts: "\<forall>rq \<in> set (w_sent (?run es)). rq_verb rq = POST \<longrightarrow>
      (\<exists>h \<in> {1, 2, 4, 8}. rq_body rq = Some (JObject [(''duration_hours'', JNumber (Fin (of_int h)))]))"
    using inv [of es] by (fastforce simp: share_inv_def link_request_def GUEST_SHARE_DURATIONS_def)
  have url: "gs_createdUrl (?run es) \<noteq> [] \<longrightarrow> gs_open (?run es) \<and> \<not> gs_saving (?run es) \<and>
      (\<exists>es1 r es2 envelope c. es = es1 @ GsCreated (Inr r) # es2 \<and> gs_saving (?run es1) \<and>
          fr_data r = Some envelope \<and> env_data envelope = Some c \<and> gs_createdUrl (?run es) = guest_url org loc (sl_token c))"
  proof
    assume shown: "gs_createdUrl (?run es) \<noteq> []"
    then obtain es1 out es2 c where "es = es1 @ GsCreated out # es2" "gs_creating (?run es1) \<noteq> None" "created_link out = Some c"
        "gs_createdUrl (?run es) = guest_url org loc (sl_token c)"
      using created_url_source by metis
    moreover from this(2) have "gs_saving (?run es1)" using inv [of es1] by (simp add: share_inv_def)
    moreover from \<open>created_link out = Some c\<close> obtain r envelope where "out = Inr r" "fr_data r = Some envelope" "env_data envelope = Some c"
      by (auto simp: created_link_def split: sum.splits option.splits)
    ultimately show "gs_open (?run es) \<and> \<not> gs_saving (?run es) \<and>
      (\<exists>es1 r es2 envelope c. es = es1 @ GsCreated (Inr r) # es2 \<and> gs_saving (?run es1) \<and>
          fr_data r = Some envelope \<and> env_data envelope = Some c \<and> gs_createdUrl (?run es) = guest_url org loc (sl_token c))"
      using shown inv [of es] unfolding share_inv_def by blast
  qed
  have saving: "gs_saving (?run es) \<longrightarrow> gs_open (share_step t org loc dev GsCloses (?run es))"
    using inv [of es] by (auto simp: share_inv_def share_close_def)
  have stale: "run \<noteq> gs_run (?run es) \<longrightarrow> (let d' = share_step t org loc dev (GsListed run out) (?run es) in
       gs_links d' = gs_links (?run es) \<and> gs_error d' = gs_error (?run es) \<and> gs_loading d' = gs_loading (?run es))"
    by (simp add: share_listed_def Let_def)
  show ?thesis
    unfolding Let_def by (intro conjI posts url saving stale [unfolded Let_def])
qed

definition sample_link :: created_device_share_link where
  "sample_link = \<lparr>sl_id = ''l1'', sl_created_at = ''c'', sl_expires_at = ''e'', sl_token = ''tok''\<rparr>"

definition ok_envelope :: "'a \<Rightarrow> 'a envelope" where
  "ok_envelope x = \<lparr>env_status_code = 200, env_message = ''ok'', env_data = Some x\<rparr>"

definition plain_link :: "string \<Rightarrow> device_share_link" where
  "plain_link i = \<lparr>sl_id = i, sl_created_at = ''c'', sl_expires_at = ''e''\<rparr>"

definition share_example_texts :: share_texts where
  "share_example_texts = \<lparr>st_loadFailed = ''Could not load'', st_createFailed = ''Could not create'', st_copyFailed = ''Could not copy''\<rparr>"

theorem share_dialog_invariant_witness:
  "let es = [GsOpens, GsCreate, GsCreated (fetched (ok_envelope sample_link))];
       d = share_run share_example_texts ''https://g'' En ''d'' es (share_start initial_world) in
   gs_createdUrl d \<noteq> [] \<and> gs_open d \<and>
   (\<exists>es1 r es2 envelope c. es = es1 @ GsCreated (Inr r) # es2 \<and> fr_data r = Some envelope \<and> env_data envelope = Some c \<and>
      gs_createdUrl d = guest_url ''https://g'' En (sl_token c))"
proof -
  let ?es = "[GsOpens, GsCreate, GsCreated (fetched (ok_envelope sample_link))]"
  let ?d = "share_run share_example_texts ''https://g'' En ''d'' ?es (share_start initial_world)"
  have "gs_createdUrl ?d \<noteq> []"
    by (simp add: share_start_def world.defs share_effect_def create_link_def link_created_def share_service_defs io_simps
        fetched_def ok_envelope_def guest_url_def)
  moreover have "w_sent initial_world = []" by (simp add: initial_world_def)
  ultimately show ?thesis
    using share_dialog_invariant [of initial_world share_example_texts "''https://g''" En "''d''" ?es]
    unfolding Let_def by blast
qed

text \<open>The lists of the dialog are not ordered. When the list asked for on opening is answered last, it replaces
  the one asked for after the creation, and the new link is missing; and a list asked for before a
  revocation and answered after it shows the revoked link again.\<close>

theorem share_lists_race:
  assumes "gs_open d" "\<not> gs_saving d" "gs_active d" "0 < gs_run d"
  shows "gs_links (share_run t org loc dev
      [GsCreate, GsCreated (fetched (ok_envelope c)), GsRelisted (fetched (ok_envelope new)),
       GsListed (gs_run d) (fetched (ok_envelope old))] d) = old \<and>
    (i \<in> set (gs_revoking d) \<and> 0 < gs_relisting d \<longrightarrow>
       gs_links (share_run t org loc dev [GsRevoked i (fetched ()), GsRelisted (fetched (ok_envelope old))] d) = old)"
  using assms
  by (simp add: create_link_def link_created_def relisted_def share_listed_def link_revoked_def share_service_defs
      io_simps sent_def fetched_def ok_envelope_def)

theorem share_lists_race_witness:
  "gs_links (share_run share_example_texts ''https://g'' En ''d''
      [GsCreate, GsCreated (fetched (ok_envelope sample_link)), GsRelisted (fetched (ok_envelope [plain_link ''l1''])),
       GsListed (gs_run (share_effect ''d'' (share_start initial_world))) (fetched (ok_envelope []))]
      (share_effect ''d'' (share_start initial_world))) = []"
proof -
  let ?d = "share_effect ''d'' (share_start initial_world)"
  have "gs_open ?d" "\<not> gs_saving ?d" "gs_active ?d" "0 < gs_run ?d"
    by (simp_all add: share_effect_def share_start_def world.defs)
  then show ?thesis by (rule share_lists_race [THEN conjunct1])
qed

end
