(* ===== verification/GuestView.thy ===== *)
theory GuestView
  imports ShareDialogs Tables
begin

text \<open>
  The page of a guest link (\<open>components/react/features/devices/guest/GuestDevicePage.tsx\<close>): it trades
  the token of the URL for a session, reads a first snapshot, then follows the event stream. The
  effect is a chain of awaits, so its progress is a phase; the stream's events, the answers to
  refreshes and the unmounting come in any order. An event that cannot happen changes nothing.
\<close>

datatype guest_connection = GcConnecting | GcLive | GcReconnecting

text \<open>Where \<open>connect\<close> is: not started, waiting for the token's answer, for the first snapshot, past its last
  await, or left by an exception.\<close>

datatype connect_phase = CpIdle | CpConsuming string | CpRefreshing | CpDone | CpFailed

datatype event_source = NoSource | SourceOpen | SourceClosed

record guest_page = world +
  gp_snapshot :: "json option"
  gp_connection :: guest_connection
  gp_error :: bool
  gp_active :: bool
  gp_hash :: string
  gp_phase :: connect_phase
  gp_source :: event_source
  gp_refreshing :: nat
  gp_manual :: nat

definition guest_mount :: "string \<Rightarrow> world \<Rightarrow> guest_page" where
  "guest_mount hash w = world.extend w
     \<lparr>gp_snapshot = None, gp_connection = GcConnecting, gp_error = False, gp_active = True, gp_hash = hash,
      gp_phase = CpIdle, gp_source = NoSource, gp_refreshing = 0, gp_manual = 0\<rparr>"

text \<open>The two requests, recorded where they are sent; what the service makes of the answer is the first part of its result (the
  second is that record, see \<open>guest_requests\<close>).\<close>

definition consume_request :: "string \<Rightarrow> request" where
  "consume_request token = (mk_request ApiClient POST ''/guest/share-links/consume'')\<lparr>rq_body := Some (JObject [(''token'', JString token)])\<rparr>"

definition live_request :: request where
  "live_request = mk_request ApiClient GET ''/guest/device/live''"

lemma guest_requests:
  "snd (consumeGuestShareLink token out1 (g :: guest_page)) = sent (consume_request token) g"
  "snd (getGuestLiveSnapshot out2 g) = sent live_request g"
proof -
  show "snd (consumeGuestShareLink token out1 g) = sent (consume_request token) g"
    by (cases out1) (simp_all add: consumeGuestShareLink_def io_simps consume_request_def)
  show "snd (getGuestLiveSnapshot out2 g) = sent live_request g"
    by (cases out2) (simp_all add: getGuestLiveSnapshot_def require_data_def io_simps live_request_def split: option.split)
qed

text \<open>A refresh: what \<open>refresh\<close> does with the answer, and what its caller does with a throw.\<close>

definition guest_refreshed :: "(thrown + json envelope fetch_result) \<Rightarrow> guest_page \<Rightarrow> guest_page" where
  "guest_refreshed out g =
     (case fst (getGuestLiveSnapshot out g) of
        Inr value \<Rightarrow> if gp_active g then g\<lparr>gp_snapshot := Some value\<rparr> else g
      | Inl e \<Rightarrow> if gp_active g then g\<lparr>gp_connection := GcReconnecting\<rparr> else g)"

text \<open>\<open>connect\<close>, await by await.\<close>

definition connect_start :: "guest_page \<Rightarrow> guest_page" where
  "connect_start g =
     (let token = nullish (read_token (gp_hash g)) []
      in if token \<noteq> [] then sent (consume_request token) (g\<lparr>gp_phase := CpConsuming token\<rparr>)
         else sent live_request (g\<lparr>gp_phase := CpRefreshing\<rparr>))"

definition connect_consumed :: "string \<Rightarrow> (thrown + unit fetch_result) \<Rightarrow> guest_page \<Rightarrow> guest_page" where
  "connect_consumed token out g =
     (case fst (consumeGuestShareLink token out g) of
        Inl e \<Rightarrow> (if gp_active g then g\<lparr>gp_error := True\<rparr> else g)\<lparr>gp_phase := CpFailed\<rparr>
      | Inr _ \<Rightarrow> sent live_request (g\<lparr>gp_hash := [], gp_phase := CpRefreshing\<rparr>))"

definition connect_refreshed :: "(thrown + json envelope fetch_result) \<Rightarrow> guest_page \<Rightarrow> guest_page" where
  "connect_refreshed out g =
     (let g1 = (guest_refreshed out g)\<lparr>gp_phase := CpDone\<rparr>
      in if \<not> gp_active g1 then g1 else g1\<lparr>gp_source := SourceOpen\<rparr>)"

text \<open>The listeners of the stream. \<open>None\<close> is data that does not parse.\<close>

definition guest_message :: "json option \<Rightarrow> guest_page \<Rightarrow> guest_page" where
  "guest_message data g =
     (case data of
        Some value \<Rightarrow> if isGuestLiveSnapshot value then g\<lparr>gp_snapshot := Some value, gp_error := False\<rparr>
                      else g\<lparr>gp_error := True, gp_source := SourceClosed\<rparr>
      | None \<Rightarrow> g\<lparr>gp_error := True, gp_source := SourceClosed\<rparr>)"

definition guest_onopen :: "guest_page \<Rightarrow> guest_page" where
  "guest_onopen g = g\<lparr>gp_connection := GcLive, gp_error := False\<rparr>"

definition guest_onerror :: "guest_page \<Rightarrow> guest_page" where
  "guest_onerror g = sent live_request (g\<lparr>gp_connection := GcReconnecting, gp_refreshing := gp_refreshing g + 1\<rparr>)"

text \<open>The refresh button of the map card, which is there when the page shows a snapshot, has no flag of
  its own.\<close>

definition manual_refresh :: "guest_page \<Rightarrow> guest_page" where
  "manual_refresh g = sent live_request (g\<lparr>gp_manual := gp_manual g + 1\<rparr>)"

definition manual_refreshed :: "(thrown + json envelope fetch_result) \<Rightarrow> guest_page \<Rightarrow> guest_page" where
  "manual_refreshed out g =
     (case fst (getGuestLiveSnapshot out g) of
        Inr value \<Rightarrow> g\<lparr>gp_snapshot := Some value\<rparr>
      | Inl e \<Rightarrow> g\<lparr>gp_connection := GcReconnecting\<rparr>)"

definition guest_unmount :: "guest_page \<Rightarrow> guest_page" where
  "guest_unmount g = g\<lparr>gp_active := False, gp_source := (if gp_source g = NoSource then NoSource else SourceClosed)\<rparr>"

datatype guest_event =
    GeMount
  | GeConsumed "thrown + unit fetch_result"
  | GeFirstSnapshot "thrown + json envelope fetch_result"
  | GeMessage "json option"
  | GeOpen
  | GeError
  | GeRefreshed "thrown + json envelope fetch_result"
  | GeManual
  | GeManualDone "thrown + json envelope fetch_result"
  | GeUnmount

fun guest_step :: "guest_event \<Rightarrow> guest_page \<Rightarrow> guest_page" where
  "guest_step GeMount g = (if gp_phase g = CpIdle then connect_start g else g)"
| "guest_step (GeConsumed out) g = (case gp_phase g of CpConsuming token \<Rightarrow> connect_consumed token out g | _ \<Rightarrow> g)"
| "guest_step (GeFirstSnapshot out) g = (if gp_phase g = CpRefreshing then connect_refreshed out g else g)"
| "guest_step (GeMessage data) g = (if gp_source g = SourceOpen then guest_message data g else g)"
| "guest_step GeOpen g = (if gp_source g = SourceOpen then guest_onopen g else g)"
| "guest_step GeError g = (if gp_source g = SourceOpen then guest_onerror g else g)"
| "guest_step (GeRefreshed out) g =
     (if 0 < gp_refreshing g then guest_refreshed out (g\<lparr>gp_refreshing := gp_refreshing g - 1\<rparr>) else g)"
| "guest_step GeManual g = (if gp_snapshot g \<noteq> None \<and> \<not> gp_error g then manual_refresh g else g)"
| "guest_step (GeManualDone out) g =
     (if 0 < gp_manual g then manual_refreshed out (g\<lparr>gp_manual := gp_manual g - 1\<rparr>) else g)"
| "guest_step GeUnmount g = guest_unmount g"

definition guest_run :: "guest_event list \<Rightarrow> guest_page \<Rightarrow> guest_page" where
  "guest_run es g = foldl (\<lambda>g e. guest_step e g) g es"

lemma guest_run_simps [simp]: "guest_run [] g = g" "guest_run (e # es) g = guest_run es (guest_step e g)"
  by (simp_all add: guest_run_def)

text \<open>What is rendered. A snapshot that a refresh delivered is taken as it is; when it has no typed reading
  the page depends on which part is missing, and the view says only that.\<close>

datatype guest_view =
    GuestUnavailable
  | GuestLoading
  | GuestShown string device_status guest_connection "guest_location option"
  | GuestUntyped

definition guest_render :: "device_strings \<Rightarrow> string \<Rightarrow> guest_page \<Rightarrow> guest_view" where
  "guest_render t pageTitle g =
     (if gp_error g then GuestUnavailable
      else case gp_snapshot g of
             None \<Rightarrow> GuestLoading
           | Some v \<Rightarrow> (case guest_snapshot_of v of
                 None \<Rightarrow> GuestUntyped
               | Some s \<Rightarrow> GuestShown (if gs_device_name s = [] then pageTitle else gs_device_name s)
                    (deviceStatusFromPresence (gs_presence_state s) t) (gp_connection g) (gs_location s)))"

section \<open>The invariant\<close>

lemma sent_guest [simp]:
  "gp_snapshot (sent rq g) = gp_snapshot g" "gp_connection (sent rq g) = gp_connection g" "gp_error (sent rq g) = gp_error g"
  "gp_active (sent rq g) = gp_active g" "gp_hash (sent rq g) = gp_hash g" "gp_phase (sent rq g) = gp_phase g"
  "gp_source (sent rq g) = gp_source g" "gp_refreshing (sent rq g) = gp_refreshing g" "gp_manual (sent rq g) = gp_manual g"
  "w_sent (sent rq g) = w_sent g @ [rq]"
  by (simp_all add: sent_def)

lemma consume_result: "fst (consumeGuestShareLink token out (g :: guest_page)) = (case out of Inl e \<Rightarrow> Inl e | Inr _ \<Rightarrow> Inr ())"
  by (cases out) (simp_all add: consumeGuestShareLink_def io_simps)

lemma snapshot_answer:
  "fst (getGuestLiveSnapshot out (g :: guest_page)) = Inr v \<Longrightarrow> \<exists>r. out = Inr r \<and> Option.bind (fr_data r) env_data = Some v"
  by (cases out) (auto simp: getGuestLiveSnapshot_def require_data_def io_simps split: option.splits)

text \<open>Before the token is answered nothing but its request was sent; afterwards the URL has lost the token and
  only snapshots are asked for. The stream is open on a mounted page only.\<close>

definition waiting_only :: "guest_page \<Rightarrow> bool" where
  "waiting_only g \<longleftrightarrow> gp_snapshot g = None \<and> gp_source g = NoSource \<and> gp_refreshing g = 0 \<and> gp_manual g = 0"

definition token_request :: "string \<Rightarrow> request list" where
  "token_request hash = (case read_token hash of None \<Rightarrow> [] | Some tok \<Rightarrow> if tok = [] then [] else [consume_request tok])"

definition sent_after_token :: "string \<Rightarrow> guest_page \<Rightarrow> bool" where
  "sent_after_token hash g \<longleftrightarrow>
     (\<exists>n. w_sent g = token_request hash @ replicate n live_request) \<and> (token_request hash \<noteq> [] \<longrightarrow> gp_hash g = [])"

fun guest_phase_inv :: "string \<Rightarrow> connect_phase \<Rightarrow> guest_page \<Rightarrow> bool" where
  "guest_phase_inv hash CpIdle g = (waiting_only g \<and> w_sent g = [] \<and> gp_hash g = hash)"
| "guest_phase_inv hash (CpConsuming tok) g =
     (waiting_only g \<and> w_sent g = token_request hash \<and> token_request hash = [consume_request tok])"
| "guest_phase_inv hash CpRefreshing g = (waiting_only g \<and> sent_after_token hash g)"
| "guest_phase_inv hash CpDone g = (sent_after_token hash g \<and> (gp_source g = SourceOpen \<longrightarrow> gp_active g))"
| "guest_phase_inv hash CpFailed g = (waiting_only g \<and> w_sent g = token_request hash \<and> token_request hash \<noteq> [] \<and> (gp_active g \<longrightarrow> gp_error g))"

abbreviation guest_inv :: "string \<Rightarrow> guest_page \<Rightarrow> bool" where
  "guest_inv hash g \<equiv> guest_phase_inv hash (gp_phase g) g"

lemma sent_one_more:
  "sent_after_token hash g \<Longrightarrow> w_sent g' = w_sent g @ [live_request] \<Longrightarrow> gp_hash g' = gp_hash g \<Longrightarrow> sent_after_token hash g'"
  unfolding sent_after_token_def by (metis append.assoc replicate_append_same replicate_Suc)

lemma sent_same:
  "sent_after_token hash g \<Longrightarrow> w_sent g' = w_sent g \<Longrightarrow> gp_hash g' = gp_hash g \<Longrightarrow> sent_after_token hash g'"
  by (simp add: sent_after_token_def)

lemma sent_first:
  "w_sent g = token_request hash @ [live_request] \<Longrightarrow> token_request hash \<noteq> [] \<longrightarrow> gp_hash g = [] \<Longrightarrow> sent_after_token hash g"
  by (auto simp: sent_after_token_def intro: exI [of _ "Suc 0"])

lemma guest_refreshed_frame:
  "w_sent (guest_refreshed out g) = w_sent g" "gp_hash (guest_refreshed out g) = gp_hash g"
  "gp_phase (guest_refreshed out g) = gp_phase g" "gp_source (guest_refreshed out g) = gp_source g"
  "gp_active (guest_refreshed out g) = gp_active g" "gp_error (guest_refreshed out g) = gp_error g"
  "gp_refreshing (guest_refreshed out g) = gp_refreshing g" "gp_manual (guest_refreshed out g) = gp_manual g"
  by (simp_all add: guest_refreshed_def split: sum.split)

lemma manual_refreshed_frame:
  "w_sent (manual_refreshed out g) = w_sent g" "gp_hash (manual_refreshed out g) = gp_hash g"
  "gp_phase (manual_refreshed out g) = gp_phase g" "gp_source (manual_refreshed out g) = gp_source g"
  "gp_active (manual_refreshed out g) = gp_active g" "gp_error (manual_refreshed out g) = gp_error g"
  by (simp_all add: manual_refreshed_def split: sum.split)

lemmas guest_frames = guest_refreshed_frame manual_refreshed_frame

text \<open>A step of the stream, of a refresh or of the button is possible only when \<open>connect\<close> is past its last await.\<close>

lemma guest_inv_start: "gp_phase g = CpIdle \<Longrightarrow> guest_inv hash g \<Longrightarrow> guest_inv hash (connect_start g)"
  by (cases "read_token hash") (auto simp: connect_start_def waiting_only_def token_request_def nullish_def Let_def intro: sent_first)

lemma guest_inv_consumed:
  assumes "gp_phase g = CpConsuming tok" "guest_inv hash g"
  shows "guest_inv hash (connect_consumed tok out g)"
proof (cases out)
  case (Inl e)
  then show ?thesis using assms by (simp add: connect_consumed_def consume_result waiting_only_def)
next
  case (Inr r)
  then show ?thesis using assms
    by (simp add: connect_consumed_def consume_result waiting_only_def) (rule sent_first, simp_all)
qed

lemma guest_inv_first:
  assumes "gp_phase g = CpRefreshing" "guest_inv hash g"
  shows "guest_inv hash (connect_refreshed out g)"
proof -
  have "sent_after_token hash (connect_refreshed out g)"
    by (rule sent_same [of hash g]) (use assms in \<open>simp_all add: connect_refreshed_def guest_frames Let_def\<close>)
  moreover have "gp_phase (connect_refreshed out g) = CpDone"
    "gp_source (connect_refreshed out g) = SourceOpen \<longrightarrow> gp_active (connect_refreshed out g)"
    using assms by (simp_all add: connect_refreshed_def guest_frames Let_def waiting_only_def)
  ultimately show ?thesis by simp
qed

lemma late_phase:
  assumes "guest_inv hash g" "0 < gp_refreshing g \<or> 0 < gp_manual g \<or> gp_source g = SourceOpen \<or> gp_snapshot g \<noteq> None"
  shows "gp_phase g = CpDone"
  using assms by (cases "gp_phase g") (simp_all add: waiting_only_def)

lemma guest_inv_step: "guest_inv hash g \<Longrightarrow> guest_inv hash (guest_step e g)"
proof (cases e)
  case GeMount
  assume "guest_inv hash g"
  then show ?thesis using GeMount guest_inv_start [of g hash] by (cases "gp_phase g = CpIdle") simp_all
next
  case (GeConsumed out)
  assume "guest_inv hash g"
  then show ?thesis using GeConsumed guest_inv_consumed [of g _ hash out] by (cases "gp_phase g") simp_all
next
  case (GeFirstSnapshot out)
  assume "guest_inv hash g"
  then show ?thesis using GeFirstSnapshot guest_inv_first [of g hash out] by (cases "gp_phase g = CpRefreshing") simp_all
next
  case (GeRefreshed out)
  assume inv: "guest_inv hash g"
  then show ?thesis using GeRefreshed late_phase [OF inv] by (auto simp: guest_frames sent_after_token_def)
next
  case (GeManualDone out)
  assume inv: "guest_inv hash g"
  then show ?thesis using GeManualDone late_phase [OF inv] by (auto simp: guest_frames sent_after_token_def)
next
  case (GeMessage data)
  assume inv: "guest_inv hash g"
  then show ?thesis using GeMessage late_phase [OF inv]
    by (cases data) (auto simp: guest_message_def sent_after_token_def)
next
  case GeOpen
  assume inv: "guest_inv hash g"
  then show ?thesis using GeOpen late_phase [OF inv] by (auto simp: guest_onopen_def sent_after_token_def)
next
  case GeError
  assume inv: "guest_inv hash g"
  have "sent_after_token hash g \<Longrightarrow> sent_after_token hash (guest_onerror g)"
    by (rule sent_one_more) (simp_all add: guest_onerror_def)
  then show ?thesis using GeError inv late_phase [OF inv] by (auto simp: guest_onerror_def)
next
  case GeManual
  assume inv: "guest_inv hash g"
  have "sent_after_token hash g \<Longrightarrow> sent_after_token hash (manual_refresh g)"
    by (rule sent_one_more) (simp_all add: manual_refresh_def)
  then show ?thesis using GeManual inv late_phase [OF inv] by (auto simp: manual_refresh_def)
next
  case GeUnmount
  assume inv: "guest_inv hash g"
  then show ?thesis using GeUnmount
    by (cases "gp_phase g") (auto simp: guest_unmount_def waiting_only_def sent_after_token_def)
qed

lemma guest_inv_run: "guest_inv hash g \<Longrightarrow> guest_inv hash (guest_run es g)"
  by (induction es arbitrary: g) (simp_all add: guest_inv_step)

lemma guest_inv_mount: "w_sent w = [] \<Longrightarrow> guest_inv hash (guest_mount hash w)"
  by (simp add: guest_mount_def waiting_only_def world.defs)

section \<open>The answer to the token\<close>

text \<open>The first answer to the token's request after the page was mounted.\<close>

fun token_answer :: "bool \<Rightarrow> guest_event list \<Rightarrow> (thrown + unit fetch_result) option" where
  "token_answer mounted [] = None"
| "token_answer mounted (GeMount # es) = token_answer True es"
| "token_answer mounted (GeConsumed out # es) = (if mounted then Some out else token_answer mounted es)"
| "token_answer mounted (_ # es) = token_answer mounted es"

lemma past_token: "gp_phase g \<in> {CpRefreshing, CpDone} \<Longrightarrow> gp_phase (guest_step e g) \<in> {CpRefreshing, CpDone}"
  by (cases e) (auto simp: guest_frames connect_refreshed_def guest_message_def guest_onopen_def guest_onerror_def manual_refresh_def
      guest_unmount_def Let_def split: option.split)

lemma past_token_run: "gp_phase g \<in> {CpRefreshing, CpDone} \<Longrightarrow> gp_phase (guest_run es g) \<in> {CpRefreshing, CpDone}"
  by (induction es arbitrary: g) (simp_all only: guest_run_simps past_token)

lemma token_failed: "guest_inv hash g \<Longrightarrow> gp_phase g = CpFailed \<Longrightarrow> gp_phase (guest_step e g) = CpFailed"
  by (cases e) (auto simp: waiting_only_def guest_unmount_def)

lemma token_failed_run: "guest_inv hash g \<Longrightarrow> gp_phase g = CpFailed \<Longrightarrow> gp_phase (guest_run es g) = CpFailed"
proof (induction es arbitrary: g)
  case (Cons e es)
  from Cons.IH [OF guest_inv_step [OF Cons.prems(1)] token_failed [OF Cons.prems], of e] show ?case by (simp only: guest_run_simps)
qed simp

lemma consuming_step:
  assumes "guest_inv hash g" "gp_phase g = CpConsuming tok"
  shows "gp_phase (guest_step e g) =
    (case e of GeConsumed (Inl _) \<Rightarrow> CpFailed | GeConsumed (Inr _) \<Rightarrow> CpRefreshing | _ \<Rightarrow> CpConsuming tok)"
  using assms
  by (cases e) (auto simp: waiting_only_def guest_unmount_def connect_consumed_def consume_result split: sum.split)

definition token_phases :: "(thrown + unit fetch_result) option \<Rightarrow> connect_phase \<Rightarrow> bool" where
  "token_phases answer ph =
     (case answer of
        None \<Rightarrow> ph \<noteq> CpRefreshing \<and> ph \<noteq> CpDone \<and> ph \<noteq> CpFailed
      | Some (Inl _) \<Rightarrow> ph = CpFailed
      | Some (Inr _) \<Rightarrow> ph \<in> {CpRefreshing, CpDone})"

lemma consuming_run:
  "guest_inv hash g \<Longrightarrow> gp_phase g = CpConsuming tok \<Longrightarrow> token_phases (token_answer True es) (gp_phase (guest_run es g))"
proof (induction es arbitrary: g)
  case (Cons e es)
  have inv: "guest_inv hash (guest_step e g)" using Cons.prems(1) by (rule guest_inv_step)
  note next_phase = consuming_step [OF Cons.prems, of e]
  show ?case
  proof (cases e)
    case (GeConsumed out)
    show ?thesis
    proof (cases out)
      case (Inl x)
      then show ?thesis using GeConsumed next_phase token_failed_run [OF inv] by (simp add: token_phases_def del: guest_step.simps)
    next
      case (Inr r)
      then show ?thesis using GeConsumed next_phase past_token_run [of "guest_step e g" es]
        by (simp add: token_phases_def del: guest_step.simps)
    qed
  qed (use next_phase Cons.IH [OF inv] in \<open>simp_all del: guest_step.simps\<close>)
qed (simp add: token_phases_def)

lemma idle_step:
  assumes "guest_inv hash g" "gp_phase g = CpIdle" "token_request hash \<noteq> []"
  shows "case e of GeMount \<Rightarrow> (\<exists>tok. gp_phase (guest_step e g) = CpConsuming tok) | _ \<Rightarrow> gp_phase (guest_step e g) = CpIdle"
  using assms
  by (cases e) (auto simp: waiting_only_def guest_unmount_def connect_start_def token_request_def nullish_def Let_def
      split: option.splits if_splits)

lemma idle_run:
  assumes "token_request hash \<noteq> []"
  shows "guest_inv hash g \<Longrightarrow> gp_phase g = CpIdle \<Longrightarrow> token_phases (token_answer False es) (gp_phase (guest_run es g))"
proof (induction es arbitrary: g)
  case (Cons e es)
  have inv: "guest_inv hash (guest_step e g)" using Cons.prems(1) by (rule guest_inv_step)
  show ?case
  proof (cases "e = GeMount")
    case True
    then obtain tok where "gp_phase (guest_step e g) = CpConsuming tok" using idle_step [OF Cons.prems assms, of e] by auto
    then show ?thesis using consuming_run [OF inv] True by (simp del: guest_step.simps)
  next
    case False
    then have "gp_phase (guest_step e g) = CpIdle" using idle_step [OF Cons.prems assms, of e] by (cases e) (simp_all del: guest_step.simps)
    then show ?thesis using Cons.IH [OF inv] False by (cases e) (simp_all del: guest_step.simps)
  qed
qed (simp add: token_phases_def)

section \<open>Properties\<close>

text \<open>C16: A guest page spends its token once and first. In every run of a page with a token its request
  is sent at most once and before any snapshot is asked for. Until the token is accepted no snapshot is asked for, none is
  shown and no stream is opened; when it is refused that stays so, and the page says so; once it is accepted, the token is no longer
  in the address bar. A page without a token asks for snapshots only. An event stream is open only while the page is mounted.\<close>

theorem guest_token_spent_once:
  assumes "w_sent w = []"
  shows "let g = guest_run es (guest_mount hash w) in
    (case read_token hash of
       None \<Rightarrow> (\<exists>n. w_sent g = replicate n live_request)
     | Some token \<Rightarrow>
         if token = [] then (\<exists>n. w_sent g = replicate n live_request)
         else (case token_answer False es of
                 None \<Rightarrow> w_sent g \<in> {[], [consume_request token]} \<and> gp_snapshot g = None \<and> gp_source g = NoSource
               | Some (Inl _) \<Rightarrow> w_sent g = [consume_request token] \<and> gp_snapshot g = None \<and> gp_source g = NoSource \<and>
                   (gp_active g \<longrightarrow> gp_error g)
               | Some (Inr _) \<Rightarrow> (\<exists>n. w_sent g = consume_request token # replicate n live_request) \<and> gp_hash g = [])) \<and>
    (gp_source g = SourceOpen \<longrightarrow> gp_active g) \<and>
    gp_source (guest_step GeUnmount g) \<noteq> SourceOpen"
proof -
  define g where "g = guest_run es (guest_mount hash w)"
  have start: "guest_inv hash (guest_mount hash w)" using assms by (rule guest_inv_mount)
  then have inv: "guest_inv hash g" unfolding g_def by (rule guest_inv_run)
  have open_active: "gp_source g = SourceOpen \<longrightarrow> gp_active g" "gp_source (guest_step GeUnmount g) \<noteq> SourceOpen"
    using inv by (cases "gp_phase g"; simp add: waiting_only_def guest_unmount_def)+
  have none: "\<exists>n. w_sent g = replicate n live_request" if "token_request hash = []"
    using inv that by (cases "gp_phase g") (auto simp: sent_after_token_def intro: exI [of _ 0])
  have phase: "token_phases (token_answer False es) (gp_phase g)" if "token_request hash \<noteq> []"
    unfolding g_def by (rule idle_run [OF that start]) (simp add: guest_mount_def world.defs)
  have some: "case token_answer False es of
       None \<Rightarrow> w_sent g \<in> {[], [consume_request token]} \<and> gp_snapshot g = None \<and> gp_source g = NoSource
     | Some (Inl _) \<Rightarrow> w_sent g = [consume_request token] \<and> gp_snapshot g = None \<and> gp_source g = NoSource \<and> (gp_active g \<longrightarrow> gp_error g)
     | Some (Inr _) \<Rightarrow> (\<exists>n. w_sent g = consume_request token # replicate n live_request) \<and> gp_hash g = []"
    if "token_request hash = [consume_request token]" for token
    using phase inv that
    by (cases "gp_phase g") (auto simp: token_phases_def waiting_only_def sent_after_token_def split: option.splits sum.splits)
  show ?thesis
    unfolding Let_def g_def [symmetric] using open_active none some
    by (auto simp: token_request_def split: option.split)
qed

theorem guest_token_spent_once_witness:
  "let g = guest_run [GeMount, GeConsumed (fetched ()), GeFirstSnapshot (Inl Primitive)] (guest_mount ''#token=abc'' initial_world) in
    (\<exists>n. w_sent g = consume_request ''abc'' # replicate n live_request) \<and> gp_hash g = [] \<and>
    gp_source (guest_step GeUnmount g) \<noteq> SourceOpen"
proof -
  have token: "read_token ''#token=abc'' = Some ''abc''" by code_simp
  have "w_sent initial_world = []" by (simp add: initial_world_def)
  then show ?thesis
    using guest_token_spent_once [of initial_world "[GeMount, GeConsumed (fetched ()), GeFirstSnapshot (Inl Primitive)]" "''#token=abc''"]
    by (simp add: Let_def token fetched_def del: guest_step.simps guest_run_simps)
qed

text \<open>A page whose stream was closed by the error is past \<open>connect\<close>, and nothing opens a stream again.\<close>

definition guest_dead :: "guest_page \<Rightarrow> bool" where
  "guest_dead g \<longleftrightarrow> gp_error g \<and> gp_source g \<noteq> SourceOpen \<and> gp_phase g \<in> {CpDone, CpFailed}"

lemma guest_dead_step: "guest_dead g \<Longrightarrow> guest_dead (guest_step e g)"
  by (cases e) (auto simp: guest_dead_def guest_frames guest_unmount_def split: connect_phase.split)

lemma guest_dead_run: "guest_dead g \<Longrightarrow> guest_dead (guest_run es g)"
  by (induction es arbitrary: g) (simp_all add: guest_dead_step)

text \<open>One event of the stream that is no snapshot ends the live view for good: the page closes the stream and
  shows that the device is unavailable, and no later event, refresh or answer, however good, brings
  the device back. A stream error alone does not: the page keeps the last snapshot and reconnects.\<close>

theorem guest_bad_event_is_final:
  assumes "w_sent w = []" "gp_source (guest_run es (guest_mount hash w)) = SourceOpen"
    and "\<not> (\<exists>v. data = Some v \<and> isGuestLiveSnapshot v)"
  shows "guest_render t title (guest_run (GeMessage data # es') (guest_run es (guest_mount hash w))) = GuestUnavailable \<and>
    gp_snapshot (guest_step GeError (guest_run es (guest_mount hash w))) = gp_snapshot (guest_run es (guest_mount hash w)) \<and>
    gp_source (guest_step GeError (guest_run es (guest_mount hash w))) = SourceOpen"
proof -
  let ?g = "guest_run es (guest_mount hash w)"
  have inv: "guest_inv hash ?g" using guest_inv_run [OF guest_inv_mount [OF assms(1)]] .
  then have "gp_phase ?g = CpDone" using assms(2) by (cases "gp_phase ?g") (simp_all add: waiting_only_def)
  then have "guest_dead (guest_step (GeMessage data) ?g)"
    using assms(2,3) by (cases data) (auto simp: guest_dead_def guest_message_def)
  then have "guest_dead (guest_run (GeMessage data # es') ?g)" by (simp add: guest_dead_run)
  then show ?thesis using assms(2) by (simp add: guest_render_def guest_dead_def guest_onerror_def)
qed

theorem guest_bad_event_is_final_witness:
  "guest_render (sample_strings) ''Device'' (guest_run [GeMessage None, GeMessage (Some sample_guest), GeOpen]
     (guest_run [GeMount, GeFirstSnapshot (fetched (ok_envelope sample_guest))] (guest_mount [] initial_world))) = GuestUnavailable"
proof -
  have "gp_source (guest_run [GeMount, GeFirstSnapshot (fetched (ok_envelope sample_guest))] (guest_mount [] initial_world)) = SourceOpen"
    by (simp add: guest_mount_def connect_start_def read_token_def search_param_def connect_refreshed_def guest_frames Let_def world.defs)
  then show ?thesis
    by (intro guest_bad_event_is_final [THEN conjunct1]) (simp_all add: initial_world_def)
qed

text \<open>An event whose answers are snapshots; messages need no such care, the guard is there for them.\<close>

fun typed_answer :: "guest_event \<Rightarrow> bool" where
  "typed_answer (GeFirstSnapshot (Inr r)) = (\<forall>v. Option.bind (fr_data r) env_data = Some v \<longrightarrow> isGuestLiveSnapshot v)"
| "typed_answer (GeRefreshed (Inr r)) = (\<forall>v. Option.bind (fr_data r) env_data = Some v \<longrightarrow> isGuestLiveSnapshot v)"
| "typed_answer (GeManualDone (Inr r)) = (\<forall>v. Option.bind (fr_data r) env_data = Some v \<longrightarrow> isGuestLiveSnapshot v)"
| "typed_answer _ = True"

text \<open>The value an event delivers.\<close>

fun delivery :: "guest_event \<Rightarrow> json option" where
  "delivery (GeMessage data) = data"
| "delivery (GeFirstSnapshot (Inr r)) = Option.bind (fr_data r) env_data"
| "delivery (GeRefreshed (Inr r)) = Option.bind (fr_data r) env_data"
| "delivery (GeManualDone (Inr r)) = Option.bind (fr_data r) env_data"
| "delivery _ = None"

definition typed_page :: "guest_page \<Rightarrow> bool" where
  "typed_page g \<longleftrightarrow> (\<forall>v. gp_snapshot g = Some v \<longrightarrow> isGuestLiveSnapshot v)"

lemma typed_refreshed:
  assumes "typed_page g" "\<And>r v. out = Inr r \<Longrightarrow> Option.bind (fr_data r) env_data = Some v \<Longrightarrow> isGuestLiveSnapshot v"
  shows "typed_page (guest_refreshed out g)" "typed_page (manual_refreshed out g)"
proof -
  have "fst (getGuestLiveSnapshot out g) = Inr v \<Longrightarrow> isGuestLiveSnapshot v" for v
    using snapshot_answer [of out g v] assms(2) by blast
  then show "typed_page (guest_refreshed out g)" "typed_page (manual_refreshed out g)"
    using assms(1) by (auto simp: typed_page_def guest_refreshed_def manual_refreshed_def split: sum.split)
qed

lemma typed_page_same: "gp_snapshot h = gp_snapshot g \<Longrightarrow> typed_page h = typed_page g"
  by (simp add: typed_page_def)

lemma typed_step: "typed_page g \<Longrightarrow> typed_answer e \<Longrightarrow> typed_page (guest_step e g)"
proof (cases e)
  case (GeFirstSnapshot out)
  assume g: "typed_page g" "typed_answer e"
  have "typed_page (guest_refreshed out g)" using g GeFirstSnapshot by (intro typed_refreshed) auto
  then show ?thesis using g GeFirstSnapshot by (simp add: connect_refreshed_def Let_def typed_page_def)
next
  case (GeRefreshed out)
  assume g: "typed_page g" "typed_answer e"
  have "typed_page (guest_refreshed out (g\<lparr>gp_refreshing := gp_refreshing g - 1\<rparr>))"
    by (rule typed_refreshed) (use g GeRefreshed in \<open>auto simp: typed_page_def\<close>)
  then show ?thesis using g GeRefreshed by simp
next
  case (GeManualDone out)
  assume g: "typed_page g" "typed_answer e"
  have "typed_page (manual_refreshed out (g\<lparr>gp_manual := gp_manual g - 1\<rparr>))"
    by (rule typed_refreshed) (use g GeManualDone in \<open>auto simp: typed_page_def\<close>)
  then show ?thesis using g GeManualDone by simp
next
  case (GeMessage data)
  assume "typed_page g"
  then show ?thesis using GeMessage by (cases data) (simp_all add: guest_message_def typed_page_def)
next
  case (GeConsumed out)
  assume "typed_page g"
  then show ?thesis using GeConsumed
    by (cases "gp_phase g"; cases out) (simp_all add: connect_consumed_def consume_result typed_page_def)
qed (simp_all add: typed_page_def connect_start_def guest_onopen_def guest_onerror_def manual_refresh_def guest_unmount_def Let_def split: option.split)

lemma typed_run: "typed_page g \<Longrightarrow> list_all typed_answer es \<Longrightarrow> typed_page (guest_run es g)"
  by (induction es arbitrary: g) (simp_all add: typed_step)

text \<open>A snapshot on the page is one that an answer or an event delivered.\<close>

lemma snapshot_step:
  "gp_snapshot (guest_step e g) = gp_snapshot g \<or> (\<exists>v. delivery e = Some v \<and> gp_snapshot (guest_step e g) = Some v)"
proof (cases e)
  case (GeFirstSnapshot out)
  then show ?thesis using snapshot_answer [of out g]
    by (cases out) (auto simp: connect_refreshed_def guest_refreshed_def Let_def split: sum.split)
next
  case (GeRefreshed out)
  then show ?thesis using snapshot_answer [of out "g\<lparr>gp_refreshing := gp_refreshing g - 1\<rparr>"]
    by (cases out) (auto simp: guest_refreshed_def split: sum.split)
next
  case (GeManualDone out)
  then show ?thesis using snapshot_answer [of out "g\<lparr>gp_manual := gp_manual g - 1\<rparr>"]
    by (cases out) (auto simp: manual_refreshed_def split: sum.split)
next
  case (GeMessage data)
  then show ?thesis by (cases data) (auto simp: guest_message_def)
next
  case (GeConsumed out)
  then show ?thesis by (cases "gp_phase g"; cases out) (simp_all add: connect_consumed_def consume_result)
qed (simp_all add: connect_start_def guest_onopen_def guest_onerror_def manual_refresh_def guest_unmount_def Let_def)

lemma snapshot_delivered:
  "gp_snapshot (guest_run es g) = Some v \<Longrightarrow> gp_snapshot g = Some v \<or> (\<exists>e \<in> set es. delivery e = Some v)"
proof (induction es arbitrary: g)
  case (Cons e es)
  then have "gp_snapshot (guest_step e g) = Some v \<or> (\<exists>e \<in> set es. delivery e = Some v)" by simp
  then show ?case using snapshot_step [of e g] by (auto simp del: guest_step.simps)
qed simp

lemma guest_reading:
  assumes "guest_snapshot_of v = Some s"
  shows "prop_of ''device_name'' v = JString (gs_device_name s)"
    "prop_of ''state'' (prop_of ''presence'' v) = JString (presence_state_str (gs_presence_state s))"
    "case gs_location s of
       None \<Rightarrow> prop_of ''location'' v = JNull
     | Some l \<Rightarrow> prop_of ''latitude'' (prop_of ''location'' v) = JNumber (gl_latitude l) \<and>
         prop_of ''longitude'' (prop_of ''location'' v) = JNumber (gl_longitude l)"
  using assms presence_of_str_Some
  by (auto simp: guest_snapshot_of_def guest_location_of_def split: json.splits option.splits if_splits)

text \<open>C27: When the API's answers to refreshes are snapshots, the guest page never shows a value it cannot read,
  whatever the stream delivers: it shows loading, the notice, or a device as one of the answers or events of the run described it, with its
  name (or the title of the page for an empty one), the status its presence stands for, and its position, which is on the globe, or none.\<close>

theorem guest_page_typed:
  assumes "list_all typed_answer es"
  shows "let g = guest_run es (guest_mount hash w) in
    case guest_render t title g of
     GuestUntyped \<Rightarrow> False
   | GuestShown name st conn loc \<Rightarrow>
       \<exists>e v n state. e \<in> set es \<and> delivery e = Some v \<and> gp_snapshot g = Some v \<and> conn = gp_connection g \<and>
         prop_of ''device_name'' v = JString n \<and> name = (if n = [] then title else n) \<and>
         prop_of ''state'' (prop_of ''presence'' v) = JString state \<and>
         (state, dst_key st, dst_label st) \<in>
           {(''never_seen'', StNeverSeen, ds_neverSeen t), (''offline'', StOffline, ds_offline t),
            (''online_moving'', StOnline, ds_online t),
            (''online_stationary'', StOnline, (case ds_onlineStationary t of None \<Rightarrow> ds_online t | Some x \<Rightarrow> x))} \<and>
         (case loc of
            None \<Rightarrow> prop_of ''location'' v = JNull
          | Some l \<Rightarrow> \<exists>la lo. gl_latitude l = Fin la \<and> gl_longitude l = Fin lo \<and> - 90 \<le> la \<and> la \<le> 90 \<and> - 180 \<le> lo \<and> lo \<le> 180 \<and>
              prop_of ''latitude'' (prop_of ''location'' v) = JNumber (Fin la) \<and>
              prop_of ''longitude'' (prop_of ''location'' v) = JNumber (Fin lo))
   | _ \<Rightarrow> True"
proof -
  define g where "g = guest_run es (guest_mount hash w)"
  have "typed_page (guest_mount hash w)" by (simp add: typed_page_def guest_mount_def world.defs)
  then have typed: "typed_page g" unfolding g_def using assms by (rule typed_run)
  show ?thesis
  proof (cases "guest_render t title g")
    case GuestUntyped
    then obtain v where v: "gp_snapshot g = Some v" "guest_snapshot_of v = None"
      by (auto simp: guest_render_def split: if_splits option.splits)
    then have False using typed guest_guard_reads [of v] by (auto simp: typed_page_def)
    then show ?thesis ..
  next
    case (GuestShown name st conn loc)
    then obtain v s where v: "gp_snapshot g = Some v" "guest_snapshot_of v = Some s"
      and view: "name = (if gs_device_name s = [] then title else gs_device_name s)" "conn = gp_connection g" "loc = gs_location s"
        "st = deviceStatusFromPresence (gs_presence_state s) t"
      by (auto simp: guest_render_def split: if_splits option.splits)
    obtain e where e: "e \<in> set es" "delivery e = Some v"
      using snapshot_delivered [of es "guest_mount hash w" v] v(1) by (auto simp: g_def guest_mount_def world.defs)
    have globe: "case gs_location s of None \<Rightarrow> True
        | Some l \<Rightarrow> \<exists>la lo. gl_latitude l = Fin la \<and> gl_longitude l = Fin lo \<and> - 90 \<le> la \<and> la \<le> 90 \<and> - 180 \<le> lo \<and> lo \<le> 180"
      using typed v guest_guard_reads [of v] by (auto simp: typed_page_def split: option.splits)
    note reading = guest_reading [OF v(2)]
    have "(presence_state_str (gs_presence_state s), dst_key st, dst_label st) \<in>
           {(''never_seen'', StNeverSeen, ds_neverSeen t), (''offline'', StOffline, ds_offline t),
            (''online_moving'', StOnline, ds_online t),
            (''online_stationary'', StOnline, (case ds_onlineStationary t of None \<Rightarrow> ds_online t | Some x \<Rightarrow> x))}"
      by (cases "gs_presence_state s") (simp_all add: view deviceStatusFromPresence_def nullish_def)
    moreover have "case loc of
            None \<Rightarrow> prop_of ''location'' v = JNull
          | Some l \<Rightarrow> \<exists>la lo. gl_latitude l = Fin la \<and> gl_longitude l = Fin lo \<and> - 90 \<le> la \<and> la \<le> 90 \<and> - 180 \<le> lo \<and> lo \<le> 180 \<and>
              prop_of ''latitude'' (prop_of ''location'' v) = JNumber (Fin la) \<and>
              prop_of ''longitude'' (prop_of ''location'' v) = JNumber (Fin lo)"
      using globe reading(3) by (auto simp: view split: option.splits)
    ultimately show ?thesis
      unfolding Let_def g_def [symmetric] GuestShown guest_view.case
      using e v(1) view(1,2) reading(1,2) by blast
  qed (simp_all add: Let_def flip: g_def)
qed

theorem guest_page_typed_witness:
  "guest_render sample_strings ''Device'' (guest_run [GeMount, GeFirstSnapshot (fetched (ok_envelope sample_guest))]
     (guest_mount [] initial_world)) \<noteq> GuestUntyped"
proof -
  have "isGuestLiveSnapshot sample_guest"
    by (simp add: sample_guest_def isGuestLiveSnapshot_def num_in_range_def presence_state_strs_def)
  then have "list_all typed_answer [GeMount, GeFirstSnapshot (fetched (ok_envelope sample_guest))]"
    by (simp add: fetched_def ok_envelope_def)
  from guest_page_typed [OF this, where t = sample_strings and title = "''Device''" and hash = "[]" and w = initial_world]
  show ?thesis unfolding Let_def by (auto split: guest_view.splits)
qed

end
