(* ===== verification/PageShell.thy ===== *)
theory PageShell
  imports Settings Navigation Tables TextUtils RouteGates Dates
begin

text \<open>
  What frames the pages: the settings page (\<open>components/react/features/settings/SettingsPage.tsx\<close>) over the
  settings and theme stores, the sidebar (\<open>layout/Sidebar.tsx\<close>, \<open>constants/layout.ts\<close>), the
  language toggle (\<open>ui/LanguageToggle.tsx\<close>), and the notice a denied visitor sees
  (\<open>features/no-access/NoAccessNotice.tsx\<close>) with the flag the admin gate leaves for it.
\<close>

section \<open>The settings page\<close>

record settings_page = world +
  sp_settings :: settings_store
  sp_theme :: theme_state
  sp_passwordOpen :: bool

definition SETTINGS_TIME_ZONES :: "string list" where
  "SETTINGS_TIME_ZONES = [''America/Mexico_City'', ''Europe/Madrid'', ''America/Bogota'']"

definition on_settings :: "(settings_store \<Rightarrow> settings_store) \<Rightarrow> settings_page \<Rightarrow> settings_page" where
  "on_settings f p = p\<lparr>sp_settings := f (sp_settings p)\<rparr>"

definition update_setting :: "browser \<Rightarrow> setting \<Rightarrow> settings_page \<Rightarrow> settings_page" where
  "update_setting b kv = on_settings (updateLocalSetting b kv)"

definition reset_settings :: "browser \<Rightarrow> settings_page \<Rightarrow> settings_page" where
  "reset_settings b p = (let p1 = on_settings (resetLocalSettings b) p in p1\<lparr>sp_theme := setTheme Light (sp_theme p1)\<rparr>)"

definition theme_of :: "string \<Rightarrow> theme" where
  "theme_of v = (if v = ''dark'' then Dark else Light)"

definition change_theme :: "string \<Rightarrow> settings_page \<Rightarrow> settings_page" where
  "change_theme v p = (if isTheme v then p\<lparr>sp_theme := setTheme (theme_of v) (sp_theme p)\<rparr> else p)"

definition change_locale :: "string \<Rightarrow> string \<Rightarrow> language \<Rightarrow> settings_page \<Rightarrow> settings_page" where
  "change_locale search hash nextLocale p =
     (case buildLocalizedUrl (w_pathname p) search hash nextLocale of
        None \<Rightarrow> p
      | Some localizedUrl \<Rightarrow> if localizedUrl = [] then p else p\<lparr>w_nav := w_nav p @ [localizedUrl]\<rparr>)"

definition settings_role :: "string \<Rightarrow> string \<Rightarrow> user option \<Rightarrow> string" where
  "settings_role superAdmin usr profile = (if map_option u_role profile = Some RoleSuperAdmin then superAdmin else usr)"

text \<open>The two selects whose values are checked before the update.\<close>

definition select_history :: "browser \<Rightarrow> string \<Rightarrow> settings_page \<Rightarrow> settings_page" where
  "select_history b v p =
     (if isSettingValue v (map fst SETTINGS_HISTORY_RANGES)
      then update_setting b (DefaultHistoryRange (nullish (map_of SETTINGS_HISTORY_RANGES v) Range24h)) p else p)"

definition select_landing :: "browser \<Rightarrow> string \<Rightarrow> settings_page \<Rightarrow> settings_page" where
  "select_landing b v p =
     (if isSettingValue v (map fst SETTINGS_LANDING_PAGES)
      then update_setting b (LandingPage (nullish (map_of SETTINGS_LANDING_PAGES v) LandingDashboard)) p else p)"

definition zone_options :: "settings_page \<Rightarrow> string list" where
  "zone_options p =
     (let z = pref_timeZone (sg_localSettings (sp_settings p))
      in (if \<not> isSettingValue z SETTINGS_TIME_ZONES then [z] else []) @ SETTINGS_TIME_ZONES)"

datatype settings_event =
    SpSidebar sidebar_initial_state
  | SpMotion bool
  | SpHistory string
  | SpLanding string
  | SpZone string
  | SpTime time_format
  | SpTheme string
  | SpReset
  | SpLocale string string language
  | SpProfile
  | SpPassword
  | SpPasswordClosed

fun settings_step :: "browser \<Rightarrow> settings_event \<Rightarrow> settings_page \<Rightarrow> settings_page" where
  "settings_step b (SpSidebar v) p = update_setting b (SidebarInitialState v) p"
| "settings_step b (SpMotion v) p = update_setting b (ReduceMotion v) p"
| "settings_step b (SpHistory v) p = select_history b v p"
| "settings_step b (SpLanding v) p = select_landing b v p"
| "settings_step b (SpZone v) p = (if v \<in> set (zone_options p) then update_setting b (TimeZone v) p else p)"
| "settings_step b (SpTime v) p = update_setting b (TimeFormat v) p"
| "settings_step b (SpTheme v) p = change_theme v p"
| "settings_step b SpReset p = reset_settings b p"
| "settings_step b (SpLocale search hash l) p = change_locale search hash l p"
| "settings_step b SpProfile p = navigated ''/profile'' p"
| "settings_step b SpPassword p = p\<lparr>sp_passwordOpen := True\<rparr>"
| "settings_step b SpPasswordClosed p = p\<lparr>sp_passwordOpen := False\<rparr>"

definition settings_run :: "browser \<Rightarrow> settings_event list \<Rightarrow> settings_page \<Rightarrow> settings_page" where
  "settings_run b es p = foldl (\<lambda>p e. settings_step b e p) p es"

lemma settings_run_simps [simp]:
  "settings_run b [] p = p" "settings_run b (e # es) p = settings_run b es (settings_step b e p)"
  by (simp_all add: settings_run_def)

text \<open>What the page promises: every choice changes its own preference, nothing else, and a reset gives the
  browser's defaults and the light theme; a zone that the browser refuses becomes the browser's own. No storage, no sanitizing.\<close>

record chosen =
  ch_settings :: local_settings
  ch_theme :: theme

fun chose :: "browser \<Rightarrow> settings_event \<Rightarrow> chosen \<Rightarrow> chosen" where
  "chose b (SpSidebar v) c = c\<lparr>ch_settings := (ch_settings c)\<lparr>pref_sidebarInitialState := v\<rparr>\<rparr>"
| "chose b (SpMotion v) c = c\<lparr>ch_settings := (ch_settings c)\<lparr>pref_reduceMotion := v\<rparr>\<rparr>"
| "chose b (SpHistory v) c =
     (case map_of SETTINGS_HISTORY_RANGES v of None \<Rightarrow> c | Some r \<Rightarrow> c\<lparr>ch_settings := (ch_settings c)\<lparr>pref_defaultHistoryRange := r\<rparr>\<rparr>)"
| "chose b (SpLanding v) c =
     (case map_of SETTINGS_LANDING_PAGES v of None \<Rightarrow> c | Some r \<Rightarrow> c\<lparr>ch_settings := (ch_settings c)\<lparr>pref_landingPage := r\<rparr>\<rparr>)"
| "chose b (SpZone v) c =
     (if v \<in> set SETTINGS_TIME_ZONES
      then c\<lparr>ch_settings := (ch_settings c)\<lparr>pref_timeZone := (if zone_ok b v then v else getBrowserTimeZone b)\<rparr>\<rparr> else c)"
| "chose b (SpTime v) c = c\<lparr>ch_settings := (ch_settings c)\<lparr>pref_timeFormat := v\<rparr>\<rparr>"
| "chose b (SpTheme v) c = (if v = ''light'' then c\<lparr>ch_theme := Light\<rparr> else if v = ''dark'' then c\<lparr>ch_theme := Dark\<rparr> else c)"
| "chose b SpReset c = \<lparr>ch_settings = getDefaultSettings b, ch_theme = Light\<rparr>"
| "chose b _ c = c"

definition chosen_of :: "settings_page \<Rightarrow> chosen" where
  "chosen_of p = \<lparr>ch_settings = sg_localSettings (sp_settings p), ch_theme = th_theme (sp_theme p)\<rparr>"

definition zones_accepted :: "browser \<Rightarrow> bool" where
  "zones_accepted b \<longleftrightarrow> zone_ok b (getBrowserTimeZone b) \<and> list_all (zone_ok b) SETTINGS_TIME_ZONES"

text \<open>A page that began with the text \<open>stored\<close>: its zone is accepted; while nothing can be written the text is still there, and
  otherwise, when it can be read, it reads back as what the page shows.\<close>

abbreviation page_zone_ok :: "browser \<Rightarrow> settings_page \<Rightarrow> bool" where
  "page_zone_ok b p \<equiv> zone_ok b (pref_timeZone (sg_localSettings (sp_settings p)))"

definition stored_from :: "browser \<Rightarrow> string option \<Rightarrow> settings_page \<Rightarrow> bool" where
  "stored_from b stored p \<longleftrightarrow>
     (case b_storage b of
        None \<Rightarrow> sg_stored (sp_settings p) = stored
      | Some a \<Rightarrow>
          if sa_writeThrows a then sg_stored (sp_settings p) = stored
          else sa_readThrows a \<or> load_store b (sg_stored (sp_settings p)) = sp_settings p)"

lemma stored_after_save:
  assumes "json_ok b" "zone_ok b (pref_timeZone s)" "stored_from b stored p"
    and "sp_settings q = \<lparr>sg_localSettings = s, sg_stored = saveSettingsPreferences b s (sg_stored (sp_settings p))\<rparr>"
  shows "stored_from b stored q"
  using assms(3) read_written [OF assms(1,2)]
  by (auto simp: stored_from_def assms(4) saveSettingsPreferences_def load_store_def Let_def split: option.splits)

lemma update_shows:
  fixes kv :: setting and p :: settings_page
  assumes "zone_ok b (getBrowserTimeZone b)"
  defines "s \<equiv> with_setting kv (sg_localSettings (sp_settings p))"
  shows "sg_localSettings (sp_settings (update_setting b kv p)) =
      (if zone_ok b (pref_timeZone s) then s else s\<lparr>pref_timeZone := getBrowserTimeZone b\<rparr>)"
    and "page_zone_ok b (update_setting b kv p)" and "sp_theme (update_setting b kv p) = sp_theme p"
  using assms(1)
  by (simp_all add: s_def update_setting_def on_settings_def updateLocalSetting_def Let_def sanitize_settings_json)

lemma update_stored:
  assumes "json_ok b" "zone_ok b (getBrowserTimeZone b)" "stored_from b stored p"
  shows "stored_from b stored (update_setting b kv p)"
  by (rule stored_after_save [OF assms(1) sanitize_zone [OF assms(2)] assms(3)])
    (simp add: update_setting_def on_settings_def updateLocalSetting_def Let_def)

lemma reset_shows:
  "sp_settings (reset_settings b p) =
     \<lparr>sg_localSettings = getDefaultSettings b, sg_stored = saveSettingsPreferences b (getDefaultSettings b) (sg_stored (sp_settings p))\<rparr>"
  "th_theme (sp_theme (reset_settings b p)) = Light"
  by (simp_all add: reset_settings_def on_settings_def resetLocalSettings_def Let_def setTheme_def)

lemma history_value: "isSettingValue v (map fst SETTINGS_HISTORY_RANGES) \<longleftrightarrow> map_of SETTINGS_HISTORY_RANGES v \<noteq> None"
  by (auto simp: isSettingValue_def SETTINGS_HISTORY_RANGES_def)

lemma landing_value: "isSettingValue v (map fst SETTINGS_LANDING_PAGES) \<longleftrightarrow> map_of SETTINGS_LANDING_PAGES v \<noteq> None"
  by (auto simp: isSettingValue_def SETTINGS_LANDING_PAGES_def)

lemma zone_options_set:
  "set (zone_options p) = insert (pref_timeZone (sg_localSettings (sp_settings p))) (set SETTINGS_TIME_ZONES)"
  by (auto simp: zone_options_def isSettingValue_def Let_def list_ex_iff)

text \<open>A step that touches neither store keeps the page in order and the choices as they are.\<close>

lemma stored_frame: "sp_settings q = sp_settings p \<Longrightarrow> stored_from b stored q = stored_from b stored p"
  by (cases "b_storage b") (simp_all add: stored_from_def)

lemma moved_frame:
  "sp_settings (change_locale search hash l p) = sp_settings p" "sp_theme (change_locale search hash l p) = sp_theme p"
  "sp_settings (navigated u p) = sp_settings p" "sp_theme (navigated u p) = sp_theme p"
  by (simp_all add: change_locale_def navigated_def split: option.split)

lemma settings_choice:
  assumes "zone_ok b (getBrowserTimeZone b)" "page_zone_ok b p"
  shows "chosen_of (settings_step b e p) = chose b e (chosen_of p) \<and> page_zone_ok b (settings_step b e p)"
proof -
  note upd = update_shows [OF assms(1)]
  have plain: "chosen_of (update_setting b kv p) = (chosen_of p)\<lparr>ch_settings := with_setting kv (ch_settings (chosen_of p))\<rparr>"
    if "zone_ok b (pref_timeZone (with_setting kv (sg_localSettings (sp_settings p))))" for kv
    using that by (simp add: chosen_of_def upd)
  show ?thesis
  proof (cases e)
    case (SpZone v)
    consider "v \<in> set SETTINGS_TIME_ZONES" | "v \<notin> set SETTINGS_TIME_ZONES" "v = pref_timeZone (sg_localSettings (sp_settings p))"
      | "v \<notin> set (zone_options p)" by (auto simp: zone_options_set)
    then show ?thesis
    proof cases
      case 2
      then have "(sg_localSettings (sp_settings p))\<lparr>pref_timeZone := v\<rparr> = sg_localSettings (sp_settings p)" by simp
      then show ?thesis using 2 SpZone assms(2) by (simp add: zone_options_set upd chosen_of_def)
    qed (use SpZone assms in \<open>simp_all add: zone_options_set upd chosen_of_def\<close>)
  next
    case (SpHistory v)
    then show ?thesis using assms(2) upd plain [of "DefaultHistoryRange r" for r]
      by (cases "map_of SETTINGS_HISTORY_RANGES v") (simp_all add: select_history_def history_value)
  next
    case (SpLanding v)
    then show ?thesis using assms(2) upd plain [of "LandingPage r" for r]
      by (cases "map_of SETTINGS_LANDING_PAGES v") (simp_all add: select_landing_def landing_value)
  next
    case (SpTheme v)
    then show ?thesis using assms(2)
      by (cases "v = ''light''"; cases "v = ''dark''") (simp_all add: change_theme_def isTheme_def theme_of_def setTheme_def chosen_of_def)
  qed (use assms upd plain in \<open>simp_all add: chosen_of_def reset_shows moved_frame\<close>)
qed

lemma settings_step_stored:
  assumes "json_ok b" "zone_ok b (getBrowserTimeZone b)" "stored_from b stored p"
  shows "stored_from b stored (settings_step b e p)"
proof (cases e)
  case SpReset
  have "zone_ok b (pref_timeZone (getDefaultSettings b))" using assms(2) by simp
  from stored_after_save [OF assms(1) this assms(3) reset_shows(1)] show ?thesis using SpReset by simp
next
  case (SpTheme v)
  have "sp_settings (change_theme v p) = sp_settings p" by (simp add: change_theme_def)
  then show ?thesis using SpTheme assms(3) stored_frame [of "change_theme v p" p] by simp
next
  case (SpLocale search hash l)
  then show ?thesis using assms(3) stored_frame [of "change_locale search hash l p" p] by (simp add: moved_frame)
next
  case SpProfile
  then show ?thesis using assms(3) stored_frame [of "navigated ''/profile'' p" p] by (simp add: moved_frame)
next
  case SpPassword
  then show ?thesis using assms(3) stored_frame [of "p\<lparr>sp_passwordOpen := True\<rparr>" p] by simp
next
  case SpPasswordClosed
  then show ?thesis using assms(3) stored_frame [of "p\<lparr>sp_passwordOpen := False\<rparr>" p] by simp
qed (use assms(3) update_stored [OF assms] in \<open>simp_all add: select_history_def select_landing_def\<close>)

text \<open>What a load leaves for the page.\<close>

lemma loaded_page:
  assumes "json_ok b" "zone_ok b (getBrowserTimeZone b)" "sp_settings p = load_store b stored"
  shows "page_zone_ok b p" "stored_from b stored p"
proof -
  show z: "page_zone_ok b p" using read_zone [OF assms(2), of stored] by (simp add: assms(3) load_store_def Let_def)
  show "stored_from b stored p"
  proof (cases "b_storage b")
    case (Some a)
    have "load_store b (sg_stored (load_store b stored)) = load_store b stored"
      using reread [OF assms(1), of "fst (readSettingsPreferences b stored)" stored "snd (readSettingsPreferences b stored)"] z
      by (simp add: assms(3) load_store_def Let_def)
    moreover have "sa_writeThrows a \<Longrightarrow> sg_stored (load_store b stored) = stored"
      using Some by (auto simp: load_store_def readSettingsPreferences_def saveSettingsPreferences_def Let_def split: option.split)
    ultimately show ?thesis by (simp add: stored_from_def Some assms(3))
  qed (simp add: stored_from_def assms(3) load_store_def readSettingsPreferences_def)
qed

text \<open>C15: The settings page implements its plain reading. A page loads from whatever is stored; after any sequence of
  choices its settings and its theme are those choices applied one after the other, with nothing else changed by the
  sanitizer (a listed zone that the browser refuses becomes the browser's own). What a page loaded later shows depends on the storage: with one that
  works, exactly the same settings; with none, or one that throws on writing, what this page showed before the choices;
  with one that can be written and not read, the defaults. The browser is taken to accept its own time zone and to read back the
  settings it wrote as JSON.\<close>

theorem settings_page_refines:
  assumes "json_ok b" "zone_ok b (getBrowserTimeZone b)" and "sp_settings p = load_store b stored"
  shows "let q = settings_run b es p; later = load_store b (sg_stored (sp_settings q)) in
    chosen_of q = foldl (\<lambda>c e. chose b e c) (chosen_of p) es \<and>
    (case b_storage b of
       None \<Rightarrow> later = sp_settings p
     | Some a \<Rightarrow>
         if sa_writeThrows a then later = sp_settings p
         else if sa_readThrows a then sg_localSettings later = getDefaultSettings b
         else later = sp_settings q)"
proof -
  have "chosen_of (settings_run b es q) = foldl (\<lambda>c e. chose b e c) (chosen_of q) es \<and> stored_from b stored (settings_run b es q)"
    if "page_zone_ok b q" "stored_from b stored q" for q
    using that
  proof (induction es arbitrary: q)
    case (Cons e es)
    show ?case
      using settings_choice [OF assms(2) Cons.prems(1), of e] settings_step_stored [OF assms(1,2) Cons.prems(2), of e]
        Cons.IH [of "settings_step b e q"] by simp
  qed simp
  from this [OF loaded_page [OF assms]]
  have run: "chosen_of (settings_run b es p) = foldl (\<lambda>c e. chose b e c) (chosen_of p) es" "stored_from b stored (settings_run b es p)"
    by blast+
  have unread: "sg_localSettings (load_store b raw) = getDefaultSettings b" if "b_storage b = Some a" "sa_readThrows a" for a raw
    using that by (simp add: load_store_def readSettingsPreferences_def Let_def)
  show ?thesis
    using run unread by (cases "b_storage b") (auto simp: Let_def stored_from_def assms(3) split: if_split_asm)
qed

definition zone_browser :: browser where
  "zone_browser = sample_browser\<lparr>b_zoneAccepted := (\<lambda>z. z \<in> set SETTINGS_TIME_ZONES)\<rparr>"

definition settings_example :: settings_page where
  "settings_example = world.extend initial_world
     \<lparr>sp_settings = load_store zone_browser None,
      sp_theme = \<lparr>th_theme = Dark, th_attr = Some ''dark'', th_stored = Some ''dark'', th_writable = True\<rparr>,
      sp_passwordOpen = False\<rparr>"

theorem settings_page_refines_witness:
  "let q = settings_run zone_browser [SpMotion True, SpZone ''America/Bogota'', SpZone ''Mars'', SpTheme ''light''] settings_example in
   chosen_of q = foldl (\<lambda>c e. chose zone_browser e c) (chosen_of settings_example)
     [SpMotion True, SpZone ''America/Bogota'', SpZone ''Mars'', SpTheme ''light''] \<and>
   load_store zone_browser (sg_stored (sp_settings q)) = sp_settings q"
proof -
  have json: "json_ok zone_browser" using sample_json_ok by (simp add: json_ok_def zone_browser_def)
  have zone: "zone_ok zone_browser (getBrowserTimeZone zone_browser)"
    by (simp add: zone_ok_def zone_browser_def sample_browser_def getBrowserTimeZone_def SETTINGS_TIME_ZONES_def)
  have loaded: "sp_settings settings_example = load_store zone_browser None"
    by (simp add: settings_example_def world.defs)
  have works: "b_storage zone_browser = Some \<lparr>sa_readThrows = False, sa_writeThrows = False\<rparr>"
    by (simp add: zone_browser_def sample_browser_def)
  show ?thesis
    using settings_page_refines [OF json zone loaded,
        of "[SpMotion True, SpZone ''America/Bogota'', SpZone ''Mars'', SpTheme ''light'']"]
    unfolding Let_def works option.case storage_access.select_convs if_False .
qed

section \<open>The language toggle\<close>

text \<open>\<open>pathname.replace(/^\/(en|es)/, `/${next}`)\<close>: no end of the segment is asked for.\<close>

definition replace_locale :: "language \<Rightarrow> string \<Rightarrow> string" where
  "replace_locale nxt pathname =
     (if is_prefix ''/en'' pathname \<or> is_prefix ''/es'' pathname then ''/'' @ language_str nxt @ drop 3 pathname else pathname)"

text \<open>The toggle's state and the page it leaves for; the query and the hash stay.\<close>

definition toggle_language :: "language \<Rightarrow> language \<Rightarrow> string \<times> string \<times> string \<Rightarrow> language \<times> (string \<times> string \<times> string) option" where
  "toggle_language nxt currentLocale url =
     (if nxt = currentLocale then (currentLocale, None)
      else case url of (pathname, search, hash) \<Rightarrow> (nxt, Some (replace_locale nxt pathname, search, hash)))"

text \<open>On every page of the site the toggle of the header and the language buttons of the settings lead to the
  same URL (up to the final slash of the bare locale), and toggling back leads back. On a path that only starts
  with the letters of a locale the header's toggle changes the path, the settings do nothing.\<close>

theorem language_switches_agree:
  "case match_locale pathname of
     Some rest \<Rightarrow> replace_locale l pathname @ (if rest = None then ''/'' else []) @ search @ hash =
         the (buildLocalizedUrl pathname search hash l) \<and>
       replace_locale l (replace_locale l' pathname) = replace_locale l pathname
   | None \<Rightarrow> buildLocalizedUrl pathname search hash l = None \<and>
       (replace_locale l pathname \<noteq> pathname \<longrightarrow> is_prefix ''/en'' pathname \<or> is_prefix ''/es'' pathname)"
proof (cases "match_locale pathname")
  case None
  then show ?thesis by (simp add: buildLocalizedUrl_def replace_locale_def)
next
  case (Some rest)
  then have pre: "is_prefix ''/en'' pathname \<or> is_prefix ''/es'' pathname"
    by (auto simp: match_locale_def split: if_splits)
  have rest: "nullish rest ''/'' = drop 3 pathname @ (if rest = None then ''/'' else [])"
    using Some by (auto simp: match_locale_def split: if_splits list.splits)
  have twice: "replace_locale l (''/'' @ language_str l' @ s) = ''/'' @ language_str l @ s" for s
    by (cases l') (simp_all add: replace_locale_def)
  show ?thesis using Some pre rest twice by (simp add: buildLocalizedUrl_def) (simp add: replace_locale_def)
qed

theorem language_switches_agree_witness:
  "replace_locale Es ''/en/devices'' @ [] @ ''?id=1'' @ [] = the (buildLocalizedUrl ''/en/devices'' ''?id=1'' [] Es) \<and>
   (replace_locale Es ''/english'' \<noteq> ''/english'' \<longrightarrow> is_prefix ''/en'' ''/english'' \<or> is_prefix ''/es'' ''/english'')"
proof -
  have "match_locale ''/en/devices'' = Some (Some ''/devices'')" "match_locale ''/english'' = None"
    by (simp_all add: match_locale_def is_line_end_def)
  then show ?thesis
    using language_switches_agree [where pathname = "''/en/devices''" and l = Es and search = "''?id=1''" and hash = "[]"]
      language_switches_agree [where pathname = "''/english''" and l = Es] by simp
qed

section \<open>The sidebar\<close>

record nav_item =
  ni_id :: string
  ni_href :: string
  ni_requiresRole :: bool

definition SHELL_NAV_ITEMS :: "nav_item list" where
  "SHELL_NAV_ITEMS =
     [\<lparr>ni_id = ''dashboard'', ni_href = ''/'', ni_requiresRole = False\<rparr>,
      \<lparr>ni_id = ''admin'', ni_href = ''/admin'', ni_requiresRole = True\<rparr>,
      \<lparr>ni_id = ''devices'', ni_href = ''/devices'', ni_requiresRole = False\<rparr>,
      \<lparr>ni_id = ''access'', ni_href = ''/access'', ni_requiresRole = False\<rparr>,
      \<lparr>ni_id = ''settings'', ni_href = ''/settings'', ni_requiresRole = False\<rparr>,
      \<lparr>ni_id = ''reports'', ni_href = ''/reports'', ni_requiresRole = False\<rparr>]"

definition visible_items :: "user_role option \<Rightarrow> nav_item list" where
  "visible_items role = filter (\<lambda>i. \<not> ni_requiresRole i \<or> isSuperAdmin role) SHELL_NAV_ITEMS"

definition item_href :: "language \<Rightarrow> nav_item \<Rightarrow> string" where
  "item_href loc i = ''/'' @ language_str loc @ ni_href i"

definition is_active :: "language \<Rightarrow> string \<Rightarrow> nav_item \<Rightarrow> bool" where
  "is_active loc pathname i \<longleftrightarrow>
     pathname = item_href loc i \<or>
     item_href loc i \<noteq> ''/'' @ language_str loc \<and> is_prefix (item_href loc i @ ''/'') pathname"

text \<open>\<open>applyInitialState\<close>, run on mounting, on a change of the setting and of the media query.\<close>

definition apply_initial_state :: "bool \<Rightarrow> sidebar_initial_state \<Rightarrow> bool \<Rightarrow> bool" where
  "apply_initial_state narrow initial isOpen =
     (if \<not> narrow then closeSidebar isOpen
      else if initial = Expanded then openSidebar isOpen else closeSidebar isOpen)"

record sidebar_user_texts =
  su_unknownInitials :: string
  su_unknownUser :: string
  su_unknownMail :: string

definition sidebar_user :: "sidebar_user_texts \<Rightarrow> auth_user option \<Rightarrow> string \<times> string \<times> string" where
  "sidebar_user t u =
     (case u of None \<Rightarrow> (su_unknownInitials t, su_unknownUser t, su_unknownMail t)
      | Some x \<Rightarrow> (getInitials (au_name x), au_name x, au_email x))"

datatype sidebar_event = SbToggle | SbLink | SbMedia bool | SbSetting sidebar_initial_state

record sidebar =
  sb_open :: bool
  sb_narrow :: bool
  sb_initial :: sidebar_initial_state

text \<open>The effect depends on the setting: writing the value it already has runs nothing.\<close>

fun sidebar_step :: "sidebar_event \<Rightarrow> sidebar \<Rightarrow> sidebar" where
  "sidebar_step SbToggle s = s\<lparr>sb_open := toggleSidebar (sb_open s)\<rparr>"
| "sidebar_step SbLink s = s\<lparr>sb_open := closeSidebar (sb_open s)\<rparr>"
| "sidebar_step (SbMedia narrow) s =
     (if narrow = sb_narrow s then s
      else s\<lparr>sb_narrow := narrow, sb_open := apply_initial_state narrow (sb_initial s) (sb_open s)\<rparr>)"
| "sidebar_step (SbSetting v) s =
     (if v = sb_initial s then s
      else s\<lparr>sb_initial := v, sb_open := apply_initial_state (sb_narrow s) v (sb_open s)\<rparr>)"

lemma item_hrefs:
  "i \<in> set SHELL_NAV_ITEMS \<Longrightarrow> \<exists>name. ni_href i = CHR ''/'' # name \<and> CHR ''/'' \<notin> set name"
  by (auto simp: SHELL_NAV_ITEMS_def)

lemma item_by_href: "i \<in> set SHELL_NAV_ITEMS \<Longrightarrow> j \<in> set SHELL_NAV_ITEMS \<Longrightarrow> ni_href i = ni_href j \<Longrightarrow> i = j"
  by (simp add: SHELL_NAV_ITEMS_def, elim disjE; simp)

text \<open>The section a path is in, by which an entry is the current one.\<close>

definition path_section :: "language \<Rightarrow> string \<Rightarrow> string" where
  "path_section loc pathname = takeWhile (\<lambda>c. c \<noteq> CHR ''/'') (drop 4 pathname)"

lemma active_section:
  assumes "i \<in> set SHELL_NAV_ITEMS" "is_active loc pathname i"
  shows "ni_href i = CHR ''/'' # path_section loc pathname"
proof -
  obtain name where name: "ni_href i = CHR ''/'' # name" "CHR ''/'' \<notin> set name" using item_hrefs [OF assms(1)] by blast
  have len: "length (language_str loc) = 2" by (cases loc) simp_all
  have clean: "\<And>c. c \<in> set name \<Longrightarrow> c \<noteq> CHR ''/''" using name(2) by auto
  from assms(2) obtain s where "pathname = item_href loc i @ s" "s = [] \<or> (\<exists>t. s = CHR ''/'' # t)"
    by (auto simp: is_active_def is_prefix_iff)
  then have "drop 4 pathname = name @ s" "s = [] \<or> (\<exists>t. s = CHR ''/'' # t)"
    by (simp_all add: item_href_def name(1) len)
  then show ?thesis using name(1) clean by (auto simp: path_section_def takeWhile_append2)
qed

text \<open>The sidebar shows the admin entry to a super admin only, and on every page marks at most one entry as
  the current one, the one whose section the page is in: on the page of an entry and on the pages
  below it that entry.\<close>

theorem sidebar_entries:
  "(\<exists>i \<in> set (visible_items role). ni_href i = ''/admin'') = isSuperAdmin role \<and>
   (i \<in> set (visible_items role) \<and> j \<in> set (visible_items role) \<and> is_active loc pathname i \<and> is_active loc pathname j \<longrightarrow> i = j) \<and>
   (i \<in> set SHELL_NAV_ITEMS \<and> ni_href i \<noteq> ''/'' \<longrightarrow> is_active loc (item_href loc i) i \<and> is_active loc (item_href loc i @ ''/'' @ s) i)"
proof -
  have "i = j" if "i \<in> set SHELL_NAV_ITEMS" "j \<in> set SHELL_NAV_ITEMS" "is_active loc pathname i" "is_active loc pathname j"
    by (rule item_by_href) (use that active_section [of i loc pathname] active_section [of j loc pathname] in simp_all)
  moreover have "(\<exists>i \<in> set (visible_items role). ni_href i = ''/admin'') = isSuperAdmin role"
    by (auto simp: visible_items_def SHELL_NAV_ITEMS_def)
  moreover have "is_active loc (item_href loc i) i \<and> is_active loc (item_href loc i @ ''/'' @ s) i" if "i \<in> set SHELL_NAV_ITEMS"
    using that item_hrefs [of i] by (auto simp: is_active_def is_prefix_iff item_href_def)
  ultimately show ?thesis by (simp add: visible_items_def)
qed

theorem sidebar_entries_witness:
  "is_active En ''/en/devices/detail'' (SHELL_NAV_ITEMS ! 2) \<and>
   (\<exists>i \<in> set (visible_items (Some RoleUser)). ni_href i = ''/admin'') = isSuperAdmin (Some RoleUser)"
proof -
  have "SHELL_NAV_ITEMS ! 2 \<in> set SHELL_NAV_ITEMS \<and> ni_href (SHELL_NAV_ITEMS ! 2) \<noteq> ''/''"
    by (simp add: SHELL_NAV_ITEMS_def)
  then have "is_active En (item_href En (SHELL_NAV_ITEMS ! 2) @ ''/'' @ ''detail'') (SHELL_NAV_ITEMS ! 2)"
    "(\<exists>i \<in> set (visible_items (Some RoleUser)). ni_href i = ''/admin'') = isSuperAdmin (Some RoleUser)"
    using sidebar_entries [where i = "SHELL_NAV_ITEMS ! 2" and loc = En and s = "''detail''" and role = "Some RoleUser"] by blast+
  then show ?thesis by (simp add: item_href_def SHELL_NAV_ITEMS_def)
qed

section \<open>The notice for a denied visitor\<close>

text \<open>The entry of \<open>sessionStorage\<close>, and which of its operations throw.\<close>

record session_flag =
  sf_value :: "string option"
  sf_getThrows :: bool
  sf_setThrows :: bool
  sf_removeThrows :: bool

text \<open>The effect of \<open>OnlyAdminRoute\<close>: the flag, then the redirect.\<close>

definition admin_denied :: "language \<Rightarrow> world \<times> session_flag \<Rightarrow> world \<times> session_flag" where
  "admin_denied loc ws =
     (case ws of (w, f) \<Rightarrow>
        (case admin_redirect loc (w_auth w) of
           None \<Rightarrow> (w, f)
         | Some p \<Rightarrow> (navigated p w, if sf_setThrows f then f else f\<lparr>sf_value := Some ''admin''\<rparr>)))"

definition no_access_effect :: "string \<Rightarrow> string \<Rightarrow> world \<times> session_flag \<Rightarrow> world \<times> session_flag" where
  "no_access_effect toastTitle toastMessage ws =
     (case ws of (w, f) \<Rightarrow>
        let flag = (if sf_getThrows f then None else sf_value f)
        in if flag \<noteq> Some ''admin'' then (w, f)
           else (pushed (mk_toast ToastWarning toastTitle toastMessage) w, if sf_removeThrows f then f else f\<lparr>sf_value := None\<rparr>))"

definition no_access_back :: "language \<Rightarrow> world \<Rightarrow> world" where
  "no_access_back loc w = navigated (''/'' @ language_str loc) w"

lemma redirect_on_locale:
  "redirect_url (''/'' @ language_str loc @ ''/'' @ s) lang p = ''/'' @ language_str loc @ p"
  by (cases loc) (simp_all add: redirect_url_def redirect_lang_def first_segment_def supported_langs_def split: list.split)

text \<open>The warning of the no-access page is shown once for each denial: the first visit after it shows one toast
  and takes the flag away, a visit without a denial shows none. But neither of the two redirects around it
  leads where it means to: the one to the notice and the one back to the dashboard name the locale, which
  \<open>redirectTo\<close> adds again.\<close>

theorem no_access_notice:
  assumes "admin_redirect loc (w_auth w) \<noteq> None" "w_pathname w = ''/'' @ language_str loc @ ''/'' @ page"
    and "\<not> sf_getThrows f" "\<not> sf_setThrows f" "\<not> sf_removeThrows f"
  shows "let denied = admin_denied loc (w, f); first = no_access_effect title msg denied; second = no_access_effect title msg first in
     w_toasts (fst first) = w_toasts (pushed (mk_toast ToastWarning title msg) (fst denied)) \<and>
     second = first \<and> sf_value (snd first) = None \<and>
     last (w_nav (fst denied)) = ''/'' @ language_str loc @ ''/'' @ language_str loc @ ''/no-access'' \<and>
     last (w_nav (no_access_back loc w)) = ''/'' @ language_str loc @ ''/'' @ language_str loc"
proof -
  have "admin_redirect loc (w_auth w) = Some (''/'' @ language_str loc @ ''/no-access'')"
    using assms(1) by (auto simp: admin_redirect_def split: if_splits)
  then show ?thesis
    using assms(2-5) redirect_on_locale [of loc page "w_language w"]
    by (simp add: admin_denied_def no_access_effect_def no_access_back_def Let_def)
qed

definition plain_user_world :: world where
  "plain_user_world = initial_world\<lparr>w_pathname := ''/en/admin'', w_auth :=
     \<lparr>a_user = Some \<lparr>au_id = ''u'', au_email = ''e'', au_name = ''n''\<rparr>, a_isAuthLoading = False, a_profile = None,
      a_isRoleLoaded = True, a_mustChangePassword = False\<rparr>\<rparr>"

definition empty_flag :: session_flag where
  "empty_flag = \<lparr>sf_value = None, sf_getThrows = False, sf_setThrows = False, sf_removeThrows = False\<rparr>"

theorem no_access_notice_witness:
  "last (w_nav (fst (admin_denied En (plain_user_world, empty_flag)))) = ''/en/en/no-access''"
  using no_access_notice [of En plain_user_world "''admin''" empty_flag]
  by (simp add: Let_def plain_user_world_def empty_flag_def admin_redirect_def isAuthenticated_def userRole_def isSuperAdmin_def)

end
