(* ===== verification/UiParts.thy ===== *)
theory UiParts
  imports JsStrings JsValues Dates
begin

text \<open>
  The parts of \<open>components/react/ui\<close> and \<open>components/react/form/ui\<close> that compute: the page buttons, the tag field,
  the battery and signal glyphs, the sparkline of a metric card, the group of avatars, and the listener for
  clicks outside an element (\<open>lib/layout-utils.ts\<close>).
\<close>

section \<open>Pagination\<close>

text \<open>\<open>go\<close>: the page handed to \<open>onChange\<close>, if any; and the clicks the buttons let through.\<close>

definition go :: "int \<Rightarrow> int \<Rightarrow> int option" where
  "go pages p = (if p < 1 \<or> pages < p then None else Some p)"

definition page_buttons :: "nat \<Rightarrow> int list" where
  "page_buttons pages = map (\<lambda>i. int i + 1) [0..<pages]"

datatype page_click = ClickPrevious | ClickPage nat | ClickNext

fun page_clicked :: "int \<Rightarrow> nat \<Rightarrow> page_click \<Rightarrow> int option" where
  "page_clicked current pages ClickPrevious = (if current = 1 then None else go (int pages) (current - 1))"
| "page_clicked current pages (ClickPage k) =
     (if k < length (page_buttons pages) then go (int pages) (page_buttons pages ! k) else None)"
| "page_clicked current pages ClickNext = (if current = int pages then None else go (int pages) (current + 1))"

definition paged :: "nat \<Rightarrow> page_click list \<Rightarrow> int \<Rightarrow> int" where
  "paged pages cs current = foldl (\<lambda>p c. case page_clicked p pages c of None \<Rightarrow> p | Some q \<Rightarrow> q) current cs"

lemma page_clicked_range: "page_clicked p pages c = Some q \<Longrightarrow> 1 \<le> q \<and> q \<le> int pages"
  by (cases c) (auto simp: go_def split: if_splits)

text \<open>However the buttons of a list are clicked, its page stays within the pages there are; every page can be
  reached by one click; and next undoes previous away from the first page.\<close>

theorem pagination_stays_in_range:
  assumes "1 \<le> current" "current \<le> int pages"
  shows "1 \<le> paged pages cs current \<and> paged pages cs current \<le> int pages \<and>
    (\<forall>q. 1 \<le> q \<and> q \<le> int pages \<longrightarrow> paged pages [ClickPage (nat (q - 1))] current = q) \<and>
    (1 < current \<longrightarrow> paged pages [ClickPrevious, ClickNext] current = current)"
proof -
  have "1 \<le> paged pages cs p \<and> paged pages cs p \<le> int pages" if "1 \<le> p" "p \<le> int pages" for p
    using that
  proof (induction cs arbitrary: p)
    case (Cons c cs)
    let ?q = "case page_clicked p pages c of None \<Rightarrow> p | Some q \<Rightarrow> q"
    have "1 \<le> ?q \<and> ?q \<le> int pages" using Cons.prems page_clicked_range [of p pages c] by (auto split: option.split)
    then show ?case using Cons.IH [of ?q] by (simp add: paged_def)
  qed (simp add: paged_def)
  moreover have "paged pages [ClickPage (nat (q - 1))] current = q" if "1 \<le> q" "q \<le> int pages" for q
    using that by (auto simp: paged_def page_buttons_def go_def)
  moreover have "1 < current \<longrightarrow> paged pages [ClickPrevious, ClickNext] current = current"
    using assms by (simp add: paged_def go_def)
  ultimately show ?thesis using assms by blast
qed

theorem pagination_stays_in_range_witness:
  "1 \<le> paged 3 [ClickNext, ClickNext, ClickNext, ClickPage 9] 1 \<and> paged 3 [ClickNext, ClickNext, ClickNext, ClickPage 9] 1 \<le> int 3"
  using pagination_stays_in_range [of 1 3 "[ClickNext, ClickNext, ClickNext, ClickPage 9]"] by simp

section \<open>Tags\<close>

record tag_input =
  ti_value :: "string list"
  ti_draft :: string

text \<open>\<open>value\<close> is the parent's; its \<open>onChange\<close> stores what it is given.\<close>

definition tag_commit :: "string \<Rightarrow> tag_input \<Rightarrow> tag_input" where
  "tag_commit raw s =
     (let t = trim raw in if t = [] then s else s\<lparr>ti_value := ti_value s @ [t], ti_draft := []\<rparr>)"

definition tag_remove :: "nat \<Rightarrow> tag_input \<Rightarrow> tag_input" where
  "tag_remove i s = s\<lparr>ti_value := map snd (filter (\<lambda>p. fst p \<noteq> i) (enumerate 0 (ti_value s)))\<rparr>"

datatype tag_event = TagType string | TagEnter | TagComma | TagBackspace | TagCross nat

definition tag_key_commit :: "tag_input \<Rightarrow> tag_input" where
  "tag_key_commit s = tag_commit (ti_draft s) s"

text \<open>The backspace that changes the draft is a \<open>TagType\<close>; on an empty draft it removes the last tag.\<close>

fun tag_step :: "tag_event \<Rightarrow> tag_input \<Rightarrow> tag_input" where
  "tag_step (TagType d) s = s\<lparr>ti_draft := d\<rparr>"
| "tag_step TagEnter s = tag_key_commit s"
| "tag_step TagComma s = tag_key_commit s"
| "tag_step TagBackspace s =
     (if ti_draft s = [] \<and> ti_value s \<noteq> [] then tag_remove (length (ti_value s) - 1) s else s)"
| "tag_step (TagCross i) s = (if i < length (ti_value s) then tag_remove i s else s)"

definition tag_run :: "tag_event list \<Rightarrow> tag_input \<Rightarrow> tag_input" where
  "tag_run es s = foldl (\<lambda>s e. tag_step e s) s es"

lemma tag_run_simps [simp]: "tag_run [] s = s" "tag_run (e # es) s = tag_run es (tag_step e s)"
  by (simp_all add: tag_run_def)

lemma filter_index:
  "i < length xs \<Longrightarrow> map snd (filter (\<lambda>p. fst p \<noteq> n + i) (enumerate n xs)) = take i xs @ drop (Suc i) xs"
proof (induction xs arbitrary: i n)
  case (Cons x xs)
  show ?case
  proof (cases i)
    case 0
    have "filter (\<lambda>p. fst p \<noteq> n) (enumerate (Suc n) xs) = enumerate (Suc n) xs"
      by (auto simp: filter_id_conv in_set_enumerate_eq)
    then show ?thesis using 0 by (simp add: map_snd_enumerate)
  next
    case (Suc k)
    then show ?thesis using Cons.IH [of k "Suc n"] Cons.prems by simp
  qed
qed simp

lemma tag_remove_eq: "i < length (ti_value s) \<Longrightarrow> tag_remove i s = s\<lparr>ti_value := take i (ti_value s) @ drop (Suc i) (ti_value s)\<rparr>"
  using filter_index [of i "ti_value s" 0] by (simp add: tag_remove_def)

definition tag_clean :: "string \<Rightarrow> bool" where
  "tag_clean t \<longleftrightarrow> t \<noteq> [] \<and> trim t = t"

lemma tag_step_clean: "list_all tag_clean (ti_value s) \<Longrightarrow> list_all tag_clean (ti_value (tag_step e s))"
  by (cases e) (auto simp: tag_key_commit_def tag_commit_def tag_clean_def Let_def tag_remove_eq list_all_iff
      dest: in_set_takeD in_set_dropD)

text \<open>Whatever is typed into a tag field, every tag in it is non-empty and without surrounding blanks. A tag typed
  and entered is removed again by backspace, which leaves the list as it was, and the cross of a tag removes that
  tag only, the others in their order, even when several have the same text.\<close>

theorem tags_clean:
  assumes "list_all tag_clean (ti_value s)"
  shows "list_all tag_clean (ti_value (tag_run es s)) \<and>
    (trim t \<noteq> [] \<longrightarrow> ti_value (tag_run [TagType t, TagEnter] s) = ti_value s @ [trim t] \<and>
       ti_value (tag_run [TagType t, TagEnter, TagBackspace] s) = ti_value s) \<and>
    (i < length (ti_value s) \<longrightarrow> ti_value (tag_run [TagCross i] s) = take i (ti_value s) @ drop (Suc i) (ti_value s))"
proof (intro conjI)
  show "list_all tag_clean (ti_value (tag_run es s))"
    using assms by (induction es arbitrary: s) (simp_all add: tag_step_clean)
qed (simp_all add: tag_key_commit_def tag_commit_def Let_def tag_remove_eq)

theorem tags_clean_witness:
  "list_all tag_clean (ti_value (tag_run [TagType '' fleet '', TagComma, TagType '' '', TagEnter]
      \<lparr>ti_value = [''a'', ''a''], ti_draft = []\<rparr>))"
proof -
  have "list_all tag_clean (ti_value \<lparr>ti_value = [''a'', ''a''], ti_draft = []\<rparr>)"
    by (simp add: tag_clean_def trim_def is_space_def)
  then show ?thesis by (rule tags_clean [THEN conjunct1])
qed

section \<open>Glyphs\<close>

definition filledCells :: "real \<Rightarrow> nat" where
  "filledCells pct = (if 80 \<le> pct then 4 else if 60 \<le> pct then 3 else if 40 \<le> pct then 2 else if 20 \<le> pct then 1 else 0)"

record battery_cell =
  bc_on :: bool
  bc_crit :: bool
  bc_warn :: bool

definition CELLS :: nat where "CELLS = 4"

definition battery_cells :: "real \<Rightarrow> battery_cell list" where
  "battery_cells pct =
     (let filled = filledCells pct
      in map (\<lambda>i. let isOn = (i < filled) in
           \<lparr>bc_on = isOn, bc_crit = (isOn \<and> pct < 15), bc_warn = (isOn \<and> pct < 30 \<and> 15 \<le> pct)\<rparr>) [0..<CELLS])"

definition levelFromDbm :: "real \<Rightarrow> nat" where
  "levelFromDbm dbm = (if - 65 \<le> dbm then 4 else if - 75 \<le> dbm then 3 else if - 85 \<le> dbm then 2 else 1)"

definition signal_bars :: "real \<Rightarrow> bool list" where
  "signal_bars dbm = map (\<lambda>n. n \<le> levelFromDbm dbm) [1, 2, 3, 4]"

text \<open>The battery glyph fills from the left with the charge, and the signal glyph with the signal, and neither ever
  gets shorter when its value rises. A battery between 20 and 30 percent shows in the warning colour; but no
  battery ever shows in the critical colour, for below 15 percent, where the code asks for it, no cell is lit.\<close>

theorem glyphs_follow_values:
  "filledCells p = length (takeWhile bc_on (battery_cells p)) \<and> filledCells p = length (filter bc_on (battery_cells p)) \<and>
   (p \<le> q \<longrightarrow> filledCells p \<le> filledCells q) \<and>
   ((\<exists>c \<in> set (battery_cells p). bc_warn c) \<longleftrightarrow> 20 \<le> p \<and> p < 30) \<and>
   \<not> (\<exists>c \<in> set (battery_cells p). bc_crit c) \<and>
   (d \<le> e \<longrightarrow> list_all2 (\<longrightarrow>) (signal_bars d) (signal_bars e)) \<and> hd (signal_bars d)"
proof -
  have cells: "[0..<CELLS] = [0, 1, 2, 3]" by (simp add: CELLS_def upt_rec)
  have "filledCells p = length (takeWhile bc_on (battery_cells p))" "filledCells p = length (filter bc_on (battery_cells p))"
    unfolding battery_cells_def cells by (simp_all add: filledCells_def)
  moreover have "p \<le> q \<longrightarrow> filledCells p \<le> filledCells q" by (simp add: filledCells_def)
  moreover have "(\<exists>c \<in> set (battery_cells p). bc_warn c) \<longleftrightarrow> 20 \<le> p \<and> p < 30" "\<not> (\<exists>c \<in> set (battery_cells p). bc_crit c)"
    unfolding battery_cells_def cells by (simp_all add: filledCells_def)
  moreover have "d \<le> e \<longrightarrow> list_all2 (\<longrightarrow>) (signal_bars d) (signal_bars e)" "hd (signal_bars d)"
    by (simp_all add: signal_bars_def levelFromDbm_def)
  ultimately show ?thesis by blast
qed

theorem glyphs_follow_values_witness:
  "filledCells 25 \<le> filledCells 90 \<and> (\<exists>c \<in> set (battery_cells 25). bc_warn c)"
proof -
  have "(25::real) \<le> 90" "20 \<le> (25::real) \<and> (25::real) < 30" by simp_all
  then show ?thesis using glyphs_follow_values [where p = 25 and q = 90] by blast
qed

section \<open>The sparkline of a metric card\<close>

text \<open>\<open>v / max\<close>, where the divisor can be zero; then \<open>Math.max(4, Math.round((v / max) * 20))\<close>.\<close>

definition num_quot :: "real \<Rightarrow> real \<Rightarrow> number" where
  "num_quot v m = (if m = 0 then (if v = 0 then NaN else signed_inf (0 < v)) else Fin (v / m))"

fun num_round :: "number \<Rightarrow> number" where
  "num_round (Fin x) = Fin (of_int (math_round x))"
| "num_round n = n"

definition spark_height :: "real list \<Rightarrow> real \<Rightarrow> number" where
  "spark_height spark v = num_max (Fin 4) (num_round (num_mul (num_quot v (Max (set spark))) (Fin 20)))"

definition spark_heights :: "real list \<Rightarrow> number list" where
  "spark_heights spark = map (spark_height spark) spark"

text \<open>The last bar is the one that is lit.\<close>

definition spark_on :: "real list \<Rightarrow> bool list" where
  "spark_on spark = map (\<lambda>i. i = length spark - 1) [0..<length spark]"

text \<open>The bars of a metric's sparkline are between 4 and 20 pixels high, the highest value's is 20, whenever the
  values are not negative and one is positive. For a metric that was zero throughout every height is
  \<open>NaN\<close> pixels.\<close>

theorem sparkline_heights:
  assumes "spark \<noteq> []" "list_all (\<lambda>v. 0 \<le> v) spark"
  shows "if Max (set spark) = 0 then spark_heights spark = replicate (length spark) NaN
    else list_all (\<lambda>h. \<exists>x. h = Fin x \<and> 4 \<le> x \<and> x \<le> 20) (spark_heights spark) \<and>
      spark_height spark (Max (set spark)) = Fin 20"
proof (cases "Max (set spark) = 0")
  case True
  have "v = 0" if "v \<in> set spark" for v
    using that assms(2) True Max_ge [of "set spark" v] by (force simp: list_all_iff)
  then have "map (spark_height spark) spark = map (\<lambda>_. NaN) spark"
    using True by (simp add: spark_height_def num_quot_def num_max_def)
  then show ?thesis using True by (simp add: spark_heights_def map_replicate_const)
next
  case False
  have "Max (set spark) \<in> set spark" using assms(1) by (intro Max_in) simp_all
  then have "0 \<le> Max (set spark)" using assms(2) unfolding list_all_iff by blast
  then have pos: "0 < Max (set spark)" using False by linarith
  have height: "\<exists>x. spark_height spark v = Fin x \<and> 4 \<le> x \<and> x \<le> 20" if v: "v \<in> set spark" for v
  proof -
    have "v / Max (set spark) \<le> 1" using pos v by simp
    then have "math_round (v / Max (set spark) * 20) \<le> 20" unfolding math_round_def by linarith
    then show ?thesis using False by (simp add: spark_height_def num_quot_def num_max_def)
  qed
  have "math_round 20 = 20" by (simp add: math_round_def)
  then have "spark_height spark (Max (set spark)) = Fin 20"
    using False by (simp add: spark_height_def num_quot_def num_max_def)
  then show ?thesis using False height by (simp add: spark_heights_def list_all_iff)
qed

theorem sparkline_heights_witness: "spark_heights [0, 0] = [NaN, NaN]"
  using sparkline_heights [of "[0, 0]"] by (simp add: numeral_eq_Suc)

section \<open>Avatars and outside clicks\<close>

definition avatar_group :: "int \<Rightarrow> 'a list \<Rightarrow> 'a list \<times> nat" where
  "avatar_group most people =
     (let shown = (if 0 \<le> most then take (nat most) people else take (length people - nat (- most)) people)
      in (shown, length people - length shown))"

text \<open>The palette has five colours, given out in turn.\<close>

definition avatar_colour :: "nat \<Rightarrow> nat" where
  "avatar_colour i = i mod 5"

lemma avatar_group_total: "length (fst (avatar_group m xs)) + snd (avatar_group m xs) = length xs"
  by (simp add: avatar_group_def Let_def)

datatype document_event = MouseDown string | KeyDown string

text \<open>The listeners: whether an event calls \<open>onClose\<close>; the element is the set of the nodes it contains, if it is
  mounted.\<close>

definition click_outside :: "string set option \<Rightarrow> document_event \<Rightarrow> bool" where
  "click_outside element e =
     (case e of
        MouseDown target \<Rightarrow> (case element of None \<Rightarrow> False | Some nodes \<Rightarrow> target \<notin> nodes)
      | KeyDown key \<Rightarrow> key = ''Escape'')"

end
