(* ===== verification/Dicts.thy ===== *)
theory Dicts
  imports TextUtils
begin

text \<open>
  Translations as data: the object literals of \<open>i18n/en.ts\<close> and \<open>i18n/es.ts\<close> are trees of keys and texts. When
  two of them agree, every text of one has a counterpart under the same keys in the other, with the same keys
  between braces for \<open>interpolateTemplate\<close> to fill. Characters are read as in \<open>JsStrings\<close>; the black circle
  of one text, which Windows-1252 does not have, takes the free code 0x81.
\<close>

datatype dict = Txt string | Obj "(string \<times> dict) list" | Arr "dict list"

section \<open>The keys of a template\<close>

definition open_brace :: "char \<Rightarrow> bool" where
  "open_brace c \<longleftrightarrow> c = CHR ''{''"

lemma open_brace_code [code]:
  "open_brace (Char b0 b1 b2 b3 b4 b5 b6 b7) = (\<not> b2 \<and> b0 \<and> b1 \<and> b3 \<and> b4 \<and> b5 \<and> b6 \<and> \<not> b7)"
  by (auto simp: open_brace_def)

function template_keys :: "string \<Rightarrow> string list" where
  "template_keys [] = []"
| "template_keys (c # cs) =
     (if open_brace c then
        (let key = takeWhile is_word cs; rest = dropWhile is_word cs
         in if key \<noteq> [] \<and> rest \<noteq> [] \<and> hd rest = CHR ''}'' then key # template_keys (tl rest) else template_keys cs)
      else template_keys cs)"
  by pat_completeness auto
termination
proof (relation "measure length", goal_cases)
  case (2 c cs key rest)
  have "length rest \<le> length cs" using length_dropWhile_le [of is_word cs] 2(3) by simp
  then show ?case using length_tl [of rest] by simp
qed simp_all

text \<open>A template is filled by the values of its keys and no others.\<close>

lemma interpolate_by_keys:
  "(\<And>k. k \<in> set (template_keys s) \<Longrightarrow> vars k = vars' k) \<Longrightarrow> interpolateTemplate vars s = interpolateTemplate vars' s"
proof (induction s rule: template_keys.induct)
  case (2 c cs)
  show ?case
  proof (cases "open_brace c")
    case True
    let ?key = "takeWhile is_word cs" and ?rest = "dropWhile is_word cs"
    show ?thesis
    proof (cases "?key \<noteq> [] \<and> ?rest \<noteq> [] \<and> hd ?rest = CHR ''}''")
      case filled: True
      then have keys: "template_keys (c # cs) = ?key # template_keys (tl ?rest)" using True by (simp add: Let_def)
      then have "interpolateTemplate vars (tl ?rest) = interpolateTemplate vars' (tl ?rest)"
        using "2.IH"(1) [OF True refl refl] filled "2.prems" by simp
      then show ?thesis using True filled keys "2.prems" by (simp add: Let_def open_brace_def)
    next
      case False
      then have "template_keys (c # cs) = template_keys cs" using True by (simp only: template_keys.simps Let_def if_False if_True)
      then have "interpolateTemplate vars cs = interpolateTemplate vars' cs"
        using "2.IH"(2) [OF True refl refl False] "2.prems" by simp
      moreover have "interpolateTemplate v (c # cs) = c # interpolateTemplate v cs" for v
        using True False by (simp only: interpolateTemplate.simps open_brace_def Let_def if_False simp_thms)
      ultimately show ?thesis by simp
    qed
  next
    case False
    then have "interpolateTemplate vars cs = interpolateTemplate vars' cs" using "2.IH"(3) "2.prems" by simp
    then show ?thesis using False by (simp add: Let_def open_brace_def)
  qed
qed simp

section \<open>Texts by their keys\<close>

text \<open>Reading \<open>t.a.b.c\<close>: \<open>None\<close> where the program would read \<open>undefined\<close>. The elements of an array go by their index.\<close>

fun child :: "string \<Rightarrow> dict \<Rightarrow> dict option" where
  "child k (Obj es) = map_of es k"
| "child k (Arr ds) = (let i = str_nat k in if nat_str i = k \<and> i < length ds then Some (ds ! i) else None)"
| "child k (Txt s) = None"

text \<open>For evaluation: a comparison of keys that stops at the first difference.\<close>

definition char_eq :: "char \<Rightarrow> char \<Rightarrow> bool" where
  "char_eq c d \<longleftrightarrow> c = d"

lemma char_eq_code [code]:
  "char_eq (Char a0 a1 a2 a3 a4 a5 a6 a7) (Char b0 b1 b2 b3 b4 b5 b6 b7) =
     (if a0 = b0 then if a1 = b1 then if a2 = b2 then if a3 = b3 then if a4 = b4 then if a5 = b5 then if a6 = b6
      then a7 = b7 else False else False else False else False else False else False else False)"
  by (simp add: char_eq_def)

fun key_eq :: "string \<Rightarrow> string \<Rightarrow> bool" where
  "key_eq [] [] = True"
| "key_eq (c # cs) (d # ds) = (if char_eq c d then key_eq cs ds else False)"
| "key_eq _ _ = False"

lemma key_eq_iff: "key_eq a b \<longleftrightarrow> a = b"
  by (induction a b rule: key_eq.induct) (simp_all add: char_eq_def)

fun entry_of :: "(string \<times> dict) list \<Rightarrow> string \<Rightarrow> dict option" where
  "entry_of [] k = None"
| "entry_of ((l, d) # es) k = (if key_eq l k then Some d else entry_of es k)"

lemma entry_of_eq: "entry_of es k = map_of es k"
  by (induction es) (auto simp: key_eq_iff)

lemma child_code [code]:
  "child k (Obj es) = entry_of es k"
  "child k (Arr ds) = (let i = str_nat k in if nat_str i = k \<and> i < length ds then Some (ds ! i) else None)"
  "child k (Txt s) = None"
  by (simp_all add: entry_of_eq)

fun sub_dict :: "string list \<Rightarrow> dict \<Rightarrow> dict option" where
  "sub_dict [] d = Some d"
| "sub_dict (k # ks) d = (case child k d of None \<Rightarrow> None | Some e \<Rightarrow> sub_dict ks e)"

definition text_at :: "string list \<Rightarrow> dict \<Rightarrow> string option" where
  "text_at ks d = (case sub_dict ks d of Some (Txt s) \<Rightarrow> Some s | _ \<Rightarrow> None)"

section \<open>Agreement\<close>

definition same_keys :: "string \<Rightarrow> string \<Rightarrow> bool" where
  "same_keys a b \<longleftrightarrow>
     (let ka = template_keys a; kb = template_keys b in list_all (\<lambda>k. k \<in> set kb) ka \<and> list_all (\<lambda>k. k \<in> set ka) kb)"

lemma same_keys_set: "same_keys a b \<longleftrightarrow> set (template_keys a) = set (template_keys b)"
  by (auto simp: same_keys_def list_all_iff Let_def)

fun agree :: "dict \<Rightarrow> dict \<Rightarrow> bool" and agree_entries :: "(string \<times> dict) list \<Rightarrow> (string \<times> dict) list \<Rightarrow> bool"
  and agree_items :: "dict list \<Rightarrow> dict list \<Rightarrow> bool" where
  "agree (Txt a) (Txt b) = same_keys a b"
| "agree (Obj es) (Obj fs) = agree_entries es fs"
| "agree (Arr ds) (Arr es) = agree_items ds es"
| "agree _ _ = False"
| "agree_entries [] [] = True"
| "agree_entries ((k, d) # es) ((l, e) # fs) = (k = l \<and> agree d e \<and> agree_entries es fs)"
| "agree_entries _ _ = False"
| "agree_items [] [] = True"
| "agree_items (d # ds) (e # es) = (agree d e \<and> agree_items ds es)"
| "agree_items _ _ = False"

lemma agree_entries_append:
  "agree_entries es fs \<Longrightarrow> agree_entries es' fs' \<Longrightarrow> agree_entries (es @ es') (fs @ fs')"
  by (induction es fs rule: agree_agree_entries_agree_items.induct(2) [of "\<lambda>_ _. True" _ "\<lambda>_ _. True"]) auto

lemma agree_entries_child:
  "agree_entries es fs \<Longrightarrow> (case map_of es k of None \<Rightarrow> map_of fs k = None | Some d \<Rightarrow> (\<exists>e. map_of fs k = Some e \<and> agree d e))"
  by (induction es fs rule: agree_agree_entries_agree_items.induct(2) [of "\<lambda>_ _. True" _ "\<lambda>_ _. True"])
    (auto split: option.splits)

lemma agree_items_list: "agree_items ds es \<longleftrightarrow> list_all2 agree ds es"
  by (induction ds es rule: agree_agree_entries_agree_items.induct(3) [of "\<lambda>_ _. True" "\<lambda>_ _. True"]) auto

lemma agree_child:
  "agree a b \<Longrightarrow> (case child k a of None \<Rightarrow> child k b = None | Some d \<Rightarrow> (\<exists>e. child k b = Some e \<and> agree d e))"
proof (cases a; cases b)
  fix ds es
  assume "agree a b" "a = Arr ds" "b = Arr es"
  then show ?thesis by (simp add: agree_items_list Let_def list_all2_conv_all_nth)
next
  fix es fs
  assume "agree a b" "a = Obj es" "b = Obj fs"
  then show ?thesis using agree_entries_child [of es fs k] by (simp split: option.splits)
qed auto

lemma agree_sub:
  "agree a b \<Longrightarrow> (case sub_dict ks a of None \<Rightarrow> sub_dict ks b = None | Some d \<Rightarrow> (\<exists>e. sub_dict ks b = Some e \<and> agree d e))"
proof (induction ks arbitrary: a b)
  case (Cons k ks)
  show ?case
  proof (cases "child k a")
    case None
    then show ?thesis using agree_child [OF Cons.prems, of k] by simp
  next
    case (Some d)
    then obtain e where "child k b = Some e" "agree d e" using agree_child [OF Cons.prems, of k] by auto
    then show ?thesis using Cons.IH [of d e] Some by (simp split: option.splits)
  qed
qed simp

lemma agree_text:
  assumes "agree a b"
  shows "case text_at ks a of None \<Rightarrow> text_at ks b = None
    | Some s \<Rightarrow> (\<exists>t. text_at ks b = Some t \<and> set (template_keys s) = set (template_keys t))"
proof (cases "sub_dict ks a")
  case None
  then show ?thesis using agree_sub [OF assms, of ks] by (simp add: text_at_def)
next
  case (Some d)
  then obtain e where "sub_dict ks b = Some e" "agree d e" using agree_sub [OF assms, of ks] by auto
  then show ?thesis using Some by (cases d; cases e) (simp_all add: text_at_def same_keys_set)
qed

end
