(* ===== verification/DictEn.thy ===== *)
theory DictEn
  imports Dicts
begin

text \<open>
  The English texts (\<open>i18n/en.ts\<close>), section by section in the order of the file; the parts of a long
  section are lists of entries.
\<close>

definition en_nav :: "dict" where
  "en_nav =
    Obj
    [(''dashboard'', Txt (''Dashboard'')),
     (''devices'', Txt (''Devices'')),
     (''admin'', Txt (''Admin'')),
     (''profile'', Txt (''Profile'')),
     (''usersRoles'', Txt (''Users & roles'')),
     (''settings'', Txt (''Settings'')),
     (''reports'', Txt (''Reports'')),
     (''access'', Txt (''Access''))]"

definition en_layout :: "dict" where
  "en_layout =
    Obj
    [(''appName'', Txt (''Open GPS'')),
     (''primaryNav'', Txt (''Primary'')),
     (''primaryNavMobile'', Txt (''Primary mobile'')),
     (''workspace'', Txt (''Workspace'')),
     (''version'', Txt (''self-hosted '' @ [CHR 0xB7] @ '' v2.1'')),
     (''searchPlaceholder'', Txt (''Search devices, drivers, IMEI'' @ [CHR 0x85])),
     (''notifications'', Txt (''Notifications'')),
     (''markAllRead'', Txt (''Mark all as read'')),
     (''viewAllActivity'', Txt (''View all activity'')),
     (''appearance'', Txt (''Appearance'')),
     (''themeLight'', Txt (''Light'')),
     (''themeDark'', Txt (''Dark'')),
     (''accountSettings'', Txt (''Account settings'')),
     (''notificationsMenu'', Txt (''Notifications'')),
     (''helpDocs'', Txt (''Help & docs'')),
     (''signOut'', Txt (''Sign out'')),
     (''openMenu'', Txt (''Open menu'')),
     (''switchToLight'', Txt (''Switch to light theme'')),
     (''switchToDark'', Txt (''Switch to dark theme'')),
     (''settingsLabel'', Txt (''Settings'')),
     (''profileMenu'', Txt (''Profile'')),
     (''superAdminOrg'', Txt (''Super admin '' @ [CHR 0xB7] @ '' Owner'')),
     (''unknownUser'', Txt (''Unknown user'')),
     (''unknownMail'', Txt ([CHR 0x97])),
     (''unknownInitials'', Txt (''?''))]"

definition en_admin :: "dict" where
  "en_admin =
    Obj
    [(''title'', Txt (''Admin'')),
     (''totalDevices'', Txt (''Total Devices'')),
     (''activeToday'', Txt (''Active Today'')),
     (''onlineNow'', Txt (''Online Now'')),
     (''alerts'', Txt (''Alerts'')),
     (''userTable'', Obj
       [(''name'', Txt (''Name'')),
        (''email'', Txt (''Email'')),
        (''role'', Txt (''Role'')),
        (''status'', Txt (''Status'')),
        (''created'', Txt (''Created'')),
        (''actions'', Txt (''Actions'')),
        (''devices'', Txt (''Devices'')),
        (''verified'', Txt (''Verified'')),
        (''unverified'', Txt (''Unverified'')),
        (''editUser'', Txt (''Edit'')),
        (''deleteUser'', Txt (''Delete'')),
        (''addUser'', Txt (''Add user'')),
        (''failedToLoad'', Txt (''Failed to load users'')),
        (''inlineEdit'', Obj
          [(''title'', Txt (''Edit user'')),
           (''nameLabel'', Txt (''Name'')),
           (''namePlaceholder'', Txt (''First name'')),
           (''lastnameLabel'', Txt (''Last name'')),
           (''lastnamePlaceholder'', Txt (''Last name'')),
           (''save'', Txt (''Save'')),
           (''saving'', Txt (''Saving...'')),
           (''cancel'', Txt (''Cancel'')),
           (''updateFailed'', Txt (''Could not update the user. Try again.''))]),
        (''deleteConfirm'', Obj
          [(''title'', Txt (''Delete user'')),
           (''warning'', Txt (''This will permanently delete the user '' @ [CHR 0x22] @ ''{name}'' @ [CHR 0x22] @ '' and any access they had to devices. This action cannot be undone.'')),
           (''typeNameLabel'', Txt (''Type the user name to confirm'')),
           (''typeNamePlaceholder'', Txt (''User name'')),
           (''confirm'', Txt (''Delete user'')),
           (''deleting'', Txt (''Deleting...'')),
           (''cancel'', Txt (''Cancel'')),
           (''mismatch'', Txt (''The name must match the user exactly.'')),
           (''deleteFailed'', Txt (''Could not delete the user. Try again.''))])]),
     (''createUser'', Obj
       [(''title'', Txt (''Create new user'')),
        (''email'', Txt (''Email address'')),
        (''emailPlaceholder'', Txt (''user@example.com'')),
        (''name'', Txt (''Name'')),
        (''namePlaceholder'', Txt (''User name'')),
        (''nameRequired'', Txt (''Name is required'')),
        (''lastname'', Txt (''Last name'')),
        (''lastnamePlaceholder'', Txt (''Optional'')),
        (''role'', Txt (''Role'')),
        (''roleUser'', Txt (''User'')),
        (''roleSuperAdmin'', Txt (''Super Admin'')),
        (''emailRequired'', Txt (''Email is required'')),
        (''emailInvalid'', Txt (''Invalid email format'')),
        (''roleRequired'', Txt (''Role is required'')),
        (''create'', Txt (''Create user'')),
        (''creating'', Txt (''Creating...'')),
        (''cancel'', Txt (''Cancel''))]),
     (''roles'', Obj
       [(''user'', Txt (''User'')),
        (''superAdmin'', Txt (''Super Admin''))])]"

definition en_section :: "dict" where
  "en_section =
    Obj
    [(''kpiBar'', Obj
       [(''title'', Txt (''Overview''))]),
     (''activityFeed'', Obj
       [(''title'', Txt (''Activity''))])]"

definition en_auth_part1 :: "(string \<times> dict) list" where
  "en_auth_part1 =
    [(''login'', Txt (''Log in'')),
     (''signup'', Txt (''Sign up'')),
     (''email'', Txt (''Email address'')),
     (''emailPlaceholder'', Txt (''you@example.com'')),
     (''password'', Txt (''Password'')),
     (''passwordPlaceholder'', Txt (''Enter your password'')),
     (''name'', Txt (''Name'')),
     (''namePlaceholder'', Txt (''Your name'')),
     (''loggingIn'', Txt (''Logging in...'')),
     (''signingUp'', Txt (''Creating account...'')),
     (''haveAccount'', Txt (''Already have an account?'')),
     (''emailRequired'', Txt (''Email is required'')),
     (''emailInvalid'', Txt (''Invalid email format'')),
     (''passwordRequired'', Txt (''Password is required'')),
     (''passwordMin'', Txt (''Password must be at least 8 characters'')),
     (''nameRequired'', Txt (''Name is required'')),
     (''loginTitle'', Txt (''Welcome back'')),
     (''loginSubtitle'', Txt (''Sign in to your Open GPS account'')),
     (''signupTitle'', Txt (''Create an account'')),
     (''signupSubtitle'', Txt (''Start tracking your devices in minutes'')),
     (''signInWithGoogle'', Txt (''Sign in with Google'')),
     (''orContinueWith'', Txt (''Or continue with email'')),
     (''appName'', Txt (''Open GPS'')),
     (''version'', Txt (''v0.15.0'')),
     (''tagline'', Txt (''Track every device in your fleet, '')),
     (''taglineAccent'', Txt (''in real time.'')),
     (''brandSubtitle'', Txt (''Self-hostable GPS tracking for delivery vans, rentals, and field teams '' @ [CHR 0x97] @ '' no SaaS lock-in, no data resale.'')),
     (''svgStatus'', Txt (''LIVE  '' @ [CHR 0x95] @ ''  5 stops  '' @ [CHR 0x95] @ ''  '' @ [CHR 0x81] @ '' en route'')),
     (''loading'', Txt (''Loading'' @ [CHR 0x85])),
     (''footerHost'', Txt (''auth.open-gps.local'')),
     (''footerTech'', Txt (''built with Go + Astro'')),
     (''metaDescription'', Txt (''Open GPS '' @ [CHR 0xB7] @ '' Auth'')),
     (''rememberDevice'', Txt (''Remember this device for 30 days'')),
     (''forgotPassword'', Txt (''Forgot password?'')),
     (''resetPassword'', Txt (''Reset password'')),
     (''noAccount'', Txt (''Don'' @ [CHR 0x27] @ ''t have an account?'')),
     (''createOne'', Txt (''Create one'')),
     (''firstAdminBadge'', Txt (''No accounts yet '' @ [CHR 0x97] @ '' first login becomes the super admin.'')),
     (''loginFailed'', Txt (''We couldn'' @ [CHR 0x27] @ ''t sign you in. Double-check your credentials and try again.'')),
     (''showPassword'', Txt (''Show password'')),
     (''hidePassword'', Txt (''Hide password'')),
     (''emailPasswordRequired'', Txt (''Email and password are required.'')),
     (''apiInspectorTitle'', Txt (''Live request preview'')),
     (''apiInspectorCookieNote'', Txt (''Sets cookie authula.session_token (HttpOnly, SameSite=lax).'')),
     (''strengthLabel'', Txt (''Strength'')),
     (''strengthTooShort'', Txt (''Too short'')),
     (''strengthWeak'', Txt (''Weak'')),
     (''strengthFair'', Txt (''Fair'')),
     (''strengthGood'', Txt (''Good'')),
     (''strengthStrong'', Txt (''Strong'')),
     (''nameHelp'', Txt (''Optional '' @ [CHR 0x97] @ '' only used in your profile.'')),
     (''passwordHelp'', Txt (''At least 8 characters with mixed case and a number or symbol.'')),
     (''confirmPassword'', Txt (''Confirm password'')),
     (''passwordsDoNotMatch'', Txt (''Passwords do not match.'')),
     (''termsAgree'', Txt (''I agree to the'')),
     (''termsLabel'', Txt (''Terms'')),
     (''privacyLabel'', Txt (''Privacy Policy'')),
     (''creatingAccount'', Txt (''Creating account'' @ [CHR 0x85])),
     (''orDivider'', Txt (''or'')),
     (''continueWithGoogle'', Txt (''Continue with Google'')),
     (''firstAdminWelcome'', Txt (''Welcome '' @ [CHR 0x97] @ '' you'' @ [CHR 0x27] @ ''ll be the first admin.'')),
     (''createAccountBadge'', Txt (''Create your account'')),
     (''acceptTerms'', Txt (''Please accept the terms to continue.'')),
     (''pickStrongerPassword'', Txt (''Pick a stronger password (mix case + numbers or symbols).'')),
     (''signupFailed'', Txt (''We couldn'' @ [CHR 0x27] @ ''t create your account right now. That email might already be registered.'')),
     (''autoSignInNote'', Txt (''Auto-signin: the response sets the session cookie and returns 200 with the user profile.'')),
     (''changePassword'', Obj
       [(''title'', Txt (''Set a new password'')),
        (''subtitle'', Txt (''You must change your password before continuing.'')),
        (''description'', Txt (''Your account was created with a temporary password. Choose a new one to finish signing in.'')),
        (''currentPassword'', Txt (''Current password'')),
        (''currentPlaceholder'', Txt (''Temporary password from your admin'')),
        (''newPlaceholder'', Txt (''Choose a new password'')),
        (''confirmPlaceholder'', Txt (''Type the new password again'')),
        (''submit'', Txt (''Update password'')),
        (''submitting'', Txt (''Updating'' @ [CHR 0x85])),
        (''errorWrongPassword'', Txt (''That password is incorrect.'')),
        (''errorWeakPassword'', Txt (''That password is too short or too weak. Use 8+ characters with mixed case and a number or symbol.'')),
        (''errorGeneric'', Txt (''We couldn'' @ [CHR 0x27] @ ''t update your password. Try again.''))])]"

definition en_auth_part2 :: "(string \<times> dict) list" where
  "en_auth_part2 =
    [(''passwordRecovery'', Obj
       [(''badge'', Txt (''Forgot password'')),
        (''title'', Txt (''Reset your password'')),
        (''sentTitle'', Txt (''Reset link sent'')),
        (''subtitle'', Txt (''Enter the email you signed up with. We'' @ [CHR 0x27] @ ''ll send a single-use link that'' @ [CHR 0x27] @ ''s valid for 15 minutes '' @ [CHR 0x97] @ '' no one else can use it.'')),
        (''sentSubtitle'', Txt (''If an account exists for that address, an email is on its way. Open it on this device to continue.'')),
        (''emailLabel'', Txt (''Account email'')),
        (''emailHelp'', Txt (''The link will be sent only to this address. We never confirm whether an account exists.'')),
        (''submit'', Txt (''Send reset link'')),
        (''submitting'', Txt (''Sending reset link'' @ [CHR 0x85])),
        (''backToLogin'', Txt (''Back to sign in'')),
        (''sentTitlePrefix'', Txt (''We sent a reset link to'')),
        (''copyEmail'', Txt (''Copy'')),
        (''copiedEmail'', Txt (''Copied'')),
        (''useDifferentEmail'', Txt (''Use a different email'')),
        (''expiresIn'', Txt (''Expires in'')),
        (''singleUseToken'', Txt (''Single-use token'')),
        (''resendPrompt'', Txt (''Didn'' @ [CHR 0x27] @ ''t get it? Check spam, then:'')),
        (''resendCta'', Txt (''Resend the email'')),
        (''resendResent'', Txt (''Resent '' @ [CHR 0xB7] @ '' check inbox'')),
        (''resendCooldown'', Txt (''Resend in'')),
        (''mailHelper'', Txt (''Open your mail app:'')),
        (''mailApple'', Txt (''Apple Mail'')),
        (''mailGmail'', Txt (''Gmail'')),
        (''mailOutlook'', Txt (''Outlook'')),
        (''identityFrom'', Txt (''From'')),
        (''identityFromValue'', Txt (''no-reply@open-gps.local'')),
        (''identityFromBadge'', Txt (''verified'')),
        (''identitySubject'', Txt (''Subject'')),
        (''identitySubjectValue'', Txt (''Reset your Open GPS password'')),
        (''identityReplyTo'', Txt (''Reply-to'')),
        (''identityReplyToValue'', Txt ([CHR 0x97] @ '' (monitored, do not reply)'')),
        (''emailRequired'', Txt (''Email is required'')),
        (''emailInvalid'', Txt (''That doesn'' @ [CHR 0x27] @ ''t look like an email.'')),
        (''requestFailed'', Txt (''We couldn'' @ [CHR 0x27] @ ''t send the reset link. Try again in a moment.'')),
        (''apiInspectorBody'', Obj
          [(''email'', Txt (''you@company.com'')),
           (''redirectPath'', Txt (''/reset-password?token=''))]),
        (''rateLimitNote'', Txt (''Sets a short-lived authula.rate_limit bucket (5 / hour) '' @ [CHR 0x97] @ '' same response whether or not the account exists.'')),
        (''reset'', Obj
          [(''badge'', Txt (''Choose a new password'')),
           (''title'', Txt (''Set a new password'')),
           (''subtitle'', Txt (''Use a strong password to protect your Open GPS account.'')),
           (''newPassword'', Txt (''New password'')),
           (''newPasswordPlaceholder'', Txt (''Choose a new password'')),
           (''confirmPassword'', Txt (''Confirm new password'')),
           (''confirmPasswordPlaceholder'', Txt (''Type the new password again'')),
           (''submit'', Txt (''Reset password'')),
           (''submitting'', Txt (''Resetting password'' @ [CHR 0x85])),
           (''successTitle'', Txt (''Password reset successful'')),
           (''successMessage'', Txt (''Your password has been updated. You will be redirected to the login page in 3 seconds.'')),
           (''missingTokenTitle'', Txt (''Oops, no reset link was found'')),
           (''missingTokenMessage'', Txt (''This page needs the reset link from your email. Request a new one to continue.'')),
           (''invalidTokenTitle'', Txt (''Oops, this reset link is no longer valid'')),
           (''invalidTokenMessage'', Txt (''The link may have expired or already been used. Request a new reset link to continue.'')),
           (''resetFailed'', Txt (''We couldn'' @ [CHR 0x27] @ ''t reset your password right now. Try again in a moment.'')),
           (''backToLogin'', Txt (''Back to sign in''))])]),
     (''recoveryBrand'', Obj
       [(''tagline'', Txt (''Recover access. '')),
        (''taglineAccent'', Txt (''Without losing trust.'')),
        (''subtitle'', Txt (''Self-hosted password resets are signed with a single-use token, audited in auth.events, and you control TTL and IP allow-lists.'')),
        (''svgStatus'', Txt (''RECOVERY  '' @ [CHR 0xB7] @ ''  4 hops  '' @ [CHR 0xB7] @ ''  '' @ [CHR 0x81] @ '' token in flight'')),
        (''svgTtl'', Txt (''ttl 15m'')),
        (''footerSection'', Txt (''account recovery'')),
        (''step1'', Txt (''Verify identity'')),
        (''step2'', Txt (''Reset password'')),
        (''step3'', Txt (''Sign in''))])]"

definition en_auth :: "dict" where
  "en_auth =
    Obj (en_auth_part1 @ en_auth_part2)"

definition en_profile :: "dict" where
  "en_profile =
    Obj
    [(''title'', Txt (''My profile'')),
     (''eyebrow'', Txt (''User'')),
     (''subtitle'', Txt (''View and update your account information and device access.'')),
     (''refresh'', Txt (''Refresh'')),
     (''editProfile'', Txt (''Edit profile'')),
     (''loading'', Txt (''Loading profile'' @ [CHR 0x85])),
     (''failedToLoad'', Txt (''Profile unavailable'')),
     (''failedToLoadDescription'', Txt (''Your profile could not be loaded. Please try again.'')),
     (''retry'', Txt (''Try again'')),
     (''joined'', Txt (''Joined'')),
     (''id'', Txt (''ID'')),
     (''roles'', Obj
       [(''user'', Txt (''User'')),
        (''superAdmin'', Txt (''Super admin''))]),
     (''account'', Obj
       [(''title'', Txt (''Account information'')),
        (''description'', Txt (''Identity and contact details for this account.'')),
        (''fullName'', Txt (''Full name'')),
        (''email'', Txt (''Email'')),
        (''verified'', Txt (''Verified'')),
        (''unverified'', Txt (''Unverified'')),
        (''role'', Txt (''Role'')),
        (''memberSince'', Txt (''Member since'')),
        (''userId'', Txt (''User ID'')),
        (''readOnlyNote'', Txt (''Email and role changes must be managed by an administrator.''))]),
     (''devices'', Obj
       [(''title'', Txt (''Device access'')),
        (''description'', Txt (''Devices available to this account.'')),
        (''empty'', Txt (''No devices are assigned to this account.'')),
        (''summary'', Txt (''Showing {shown} of {total} devices.''))]),
     (''edit'', Obj
       [(''title'', Txt (''Edit profile'')),
        (''subtitle'', Txt (''Update your name. Email and role are managed by your administrator.'')),
        (''firstName'', Txt (''First name'')),
        (''lastName'', Txt (''Last name'')),
        (''required'', Txt (''This field is required.'')),
        (''cancel'', Txt (''Cancel'')),
        (''save'', Txt (''Save changes'')),
        (''saving'', Txt (''Saving'' @ [CHR 0x85])),
        (''savedTitle'', Txt (''Profile updated'')),
        (''saved'', Txt (''Your profile was updated successfully.'')),
        (''updateFailed'', Txt (''Could not update your profile. Try again.''))])]"

definition en_settings :: "dict" where
  "en_settings =
    Obj
    [(''title'', Txt (''Settings'')),
     (''eyebrow'', Txt (''Personal preferences'')),
     (''intro'', Txt (''Customize how you view and use your tracking workspace.'')),
     (''saved'', Txt (''Changes saved'')),
     (''appearance'', Txt (''Appearance'')),
     (''appearanceSub'', Txt (''Control the appearance and navigation of the application.'')),
     (''theme'', Txt (''Theme'')),
     (''themeHint'', Txt (''Choose the theme that feels most comfortable.'')),
     (''light'', Txt (''Light'')),
     (''dark'', Txt (''Dark'')),
     (''language'', Txt (''Language'')),
     (''languageHint'', Txt (''Select the interface language.'')),
     (''languageEnglish'', Txt (''English'')),
     (''languageSpanish'', Txt (''Spanish'')),
     (''sidebarState'', Txt (''Sidebar initial state'')),
     (''sidebarHint'', Txt (''Choose whether the menu opens expanded when you enter the application.'')),
     (''expanded'', Txt (''Expanded'')),
     (''collapsed'', Txt (''Collapsed'')),
     (''motion'', Txt (''Reduce motion'')),
     (''motionHint'', Txt (''Reduce non-essential transitions and motion.'')),
     (''on'', Txt (''On'')),
     (''off'', Txt (''Off'')),
     (''display'', Txt (''Display'')),
     (''displaySub'', Txt (''Set the initial values for your tracking views.'')),
     (''history'', Txt (''Default time range'')),
     (''historyHint'', Txt (''Used when opening location history.'')),
     (''lastHour'', Txt (''Last hour'')),
     (''lastSixHours'', Txt (''Last 6 hours'')),
     (''lastDay'', Txt (''Last 24 hours'')),
     (''lastWeek'', Txt (''Last 7 days'')),
     (''landing'', Txt (''First page after signing in'')),
     (''landingHint'', Txt (''Choose the section you want to see first.'')),
     (''dashboard'', Txt (''Dashboard'')),
     (''devices'', Txt (''Devices'')),
     (''density'', Txt (''Information density'')),
     (''densityHint'', Txt (''Control how much content is shown in tables.'')),
     (''comfortable'', Txt (''Comfortable'')),
     (''compact'', Txt (''Compact'')),
     (''region'', Txt (''Region and units'')),
     (''regionSub'', Txt (''Adjust dates, times, and measurements to match your context.'')),
     (''timezone'', Txt (''Time zone'')),
     (''timezoneHint'', Txt (''Used to display dates and query location history.'')),
     (''units'', Txt (''Unit system'')),
     (''unitsHint'', Txt (''Choose how speed, distance, and altitude are displayed.'')),
     (''metric'', Txt (''Metric'')),
     (''imperial'', Txt (''Imperial'')),
     (''timeFormat'', Txt (''Time format'')),
     (''timeHint'', Txt (''Affects times shown in history and activity.'')),
     (''hours12'', Txt (''12 hours'')),
     (''hours24'', Txt (''24 hours'')),
     (''account'', Txt (''Account and security'')),
     (''accountSub'', Txt (''Manage your account details and credentials.'')),
     (''profileAction'', Txt (''Edit profile'')),
     (''profileHint'', Txt (''Update your identity and review personal information from Profile.'')),
     (''editProfile'', Txt (''Edit profile'')),
     (''changePassword'', Txt (''Change password'')),
     (''email'', Txt (''Email address'')),
     (''readOnly'', Txt (''Read only'')),
     (''accountSummary'', Txt (''Your account'')),
     (''accountSummaryText'', Txt (''Personal preferences for your tracking workspace.'')),
     (''role'', Txt (''Role'')),
     (''created'', Txt (''Created'')),
     (''user'', Txt (''User'')),
     (''superAdmin'', Txt (''Super admin'')),
     (''reset'', Txt (''Reset preferences'')),
     (''comingSoon'', Txt (''More preferences coming soon'')),
     (''comingSoonText'', Txt (''Alerts and advanced preferences will be available once these features are connected.'')),
     (''localNote'', Txt (''Preferences are stored in this browser.''))]"

definition en_page_part1 :: "(string \<times> dict) list" where
  "en_page_part1 =
    [(''home'', Obj
       [(''title'', Txt (''Home'')),
        (''eyebrow'', Txt (''Your tracking workspace'')),
        (''heading'', Txt (''Know where your devices are.'')),
        (''sub'', Txt (''Open GPS keeps live location, history, and access in one place, on infrastructure you control.'')),
        (''actions'', Obj
          [(''viewDevices'', Txt (''View devices''))]),
        (''live'', Obj
          [(''title'', Txt (''Live overview'')),
           (''sub'', Txt (''A quick read of your connected fleet.'')),
           (''status'', Txt (''Stream connected'')),
           (''sample'', Txt (''Sample data'')),
           (''mapAlt'', Txt (''Illustrated route map with three connected device positions'')),
           (''mapLabels'', Obj
             [(''northLoop'', Txt (''NORTH LOOP'')),
              (''eastDepot'', Txt (''EAST DEPOT'')),
              (''cityCentre'', Txt (''CITY CENTRE''))]),
           (''cardTitle'', Txt (''Van 04 '' @ [CHR 0xB7] @ '' Moving'')),
           (''cardMeta'', Txt (''Last update 12 sec ago'')),
           (''legendRoute'', Txt (''Recent route'')),
           (''legendNode'', Txt (''Online device'')),
           (''legendSse'', Txt (''SSE live updates''))]),
        (''features'', Obj
          [(''presence'', Obj
             [(''title'', Txt (''Real-time presence'')),
              (''desc'', Txt (''One SSE stream keeps moving, stationary, offline, and never-seen states current.'')),
              (''link'', Txt (''Open live tracking''))]),
           (''history'', Obj
             [(''title'', Txt (''History you can inspect'')),
              (''desc'', Txt (''Replay routes on an interactive map and export the exact trail as CSV.'')),
              (''link'', Txt (''Explore reports''))]),
           (''sharing'', Obj
             [(''title'', Txt (''Share without handing over access'')),
              (''desc'', Txt (''Create read-only live links that expire after 1, 2, 4, or 8 hours.'')),
              (''link'', Txt (''View sharing options''))])]),
        (''capabilities'', Obj
          [(''code'', Txt (''What you can do'')),
           (''heading'', Txt (''Built for the way tracking work actually happens.'')),
           (''desc'', Txt (''Start with the live map, then move from location to context, reports, and controlled access.'')),
           (''reports'', Obj
             [(''title'', Txt (''Reports with useful shape'')),
              (''desc'', Txt (''Overview, health, quality, and route sections with filters plus CSV and GPX export.'')),
              (''foot'', Txt (''overview '' @ [CHR 0xB7] @ '' health '' @ [CHR 0xB7] @ '' routes'')),
              (''link'', Txt (''Open reports''))]),
           (''access'', Obj
             [(''title'', Txt (''Access at device level'')),
              (''desc'', Txt (''Roles and per-device grants keep collaboration clear, while API keys handle ingestion.'')),
              (''foot'', Txt (''owner '' @ [CHR 0xB7] @ '' editor '' @ [CHR 0xB7] @ '' viewer'')),
              (''link'', Txt (''Manage access''))]),
           (''local'', Obj
             [(''title'', Txt (''Made to stay yours'')),
              (''desc'', Txt (''Open source, MIT licensed, and self-hosted with append-only location history.'')),
              (''foot'', Txt (''12-month retention'')),
              (''link'', Txt (''About Open GPS''))])]),
        (''ownership'', Obj
          [(''eyebrow'', Txt (''Your infrastructure'')),
           (''heading'', Txt (''Tracking that answers to your team.'')),
           (''desc'', Txt (''Keep location data on your server, choose who can see each device, and share only what a guest needs.'')),
           (''cta'', Txt (''Review workspace settings''))]),
        (''protocol'', Obj
          [(''title'', Txt (''At a glance'')),
           (''rows'', Arr
             [Obj
                [(''label'', Txt (''Languages'')),
                 (''value'', Txt (''EN / ES''))],
              Obj
                [(''label'', Txt (''Theme modes'')),
                 (''value'', Txt (''LIGHT / DARK''))],
              Obj
                [(''label'', Txt (''Ingestion'')),
                 (''value'', Txt (''DEVICE API KEYS''))],
              Obj
                [(''label'', Txt (''Auth'')),
                 (''value'', Txt (''PASSWORD / GOOGLE''))]])]),
        (''footer'', Obj
          [(''left'', Txt (''Open GPS '' @ [CHR 0xB7] @ '' self-hosted real-time tracking'')),
           (''right'', Txt (''Workspace / Home''))])]),
     (''devices'', Obj
       [(''title'', Txt (''Devices'')),
        (''subtitle'', Txt (''Manage your Open GPS devices''))]),
     (''deviceDetail'', Obj
       [(''title'', Txt (''Device'')),
        (''notFound'', Txt (''Device not found''))]),
     (''liveTracking'', Obj
       [(''title'', Txt (''Live tracking''))]),
     (''admin'', Obj
       [(''title'', Txt (''Admin Panel'')),
        (''subtitle'', Txt (''Manage users and system settings''))]),
     (''users'', Obj
       [(''title'', Txt (''Users & roles'')),
        (''subtitle'', Txt (''Manage user access, roles and onboarding for the Open GPS platform.''))]),
     (''access'', Obj
       [(''title'', Txt (''Access'')),
        (''subtitle'', Txt (''Issue and revoke API keys for your devices.''))])]"

definition en_page_reports_part1 :: "(string \<times> dict) list" where
  "en_page_reports_part1 =
    [(''title'', Txt (''Reports'')),
     (''subtitle'', Txt (''Understand device activity, routes, and data quality.'')),
     (''eyebrow'', Txt (''Device analysis'')),
     (''refresh'', Txt (''Refresh report'')),
     (''loading'', Txt (''Loading report data'' @ [CHR 0x85])),
     (''retry'', Txt (''Retry'')),
     (''noData'', Txt (''No data available'')),
     (''loadError'', Txt (''Unable to load this section'')),
     (''authorizedDevices'', Txt (''authorized devices'')),
     (''estimated'', Txt (''Estimated'')),
     (''longestGap'', Txt (''Longest reporting gap'')),
     (''display'', Txt (''display'')),
     (''changeFilters'', Txt (''Change filters'')),
     (''updated'', Txt (''Report updated'')),
     (''filters'', Obj
       [(''period'', Txt (''Period'')),
        (''timezone'', Txt (''Time zone'')),
        (''devices'', Txt (''Devices'')),
        (''vehicleType'', Txt (''Vehicle type'')),
        (''custom'', Txt (''Custom'')),
        (''lastHour'', Txt (''Last hour'')),
        (''lastSixHours'', Txt (''Last 6 hours'')),
        (''lastDay'', Txt (''Last 24 hours'')),
        (''lastWeek'', Txt (''Last 7 days'')),
        (''selectedDevices'', Txt (''2 devices selected'')),
        (''allDevices'', Txt (''All devices'')),
        (''allVehicleTypes'', Txt (''All vehicle types'')),
        (''timezoneHint'', Txt (''Dates are interpreted in this time zone.'')),
        (''deviceHint'', Txt (''Only devices you can access.'')),
        (''retentionNote'', Txt (''Available locations are retained for a maximum of 12 months.'')),
        (''lastUpdated'', Txt (''Last updated'')),
        (''invalidDate'', Txt (''The start date must be before the end date.'')),
        (''from'', Txt (''From'')),
        (''to'', Txt (''To''))]),
     (''status'', Obj
       [(''available'', Txt (''Data available'')),
        (''good'', Txt (''Good'')),
        (''review'', Txt (''Review'')),
        (''insufficient'', Txt (''Insufficient data'')),
        (''complete'', Txt (''Complete'')),
        (''incomplete'', Txt (''Incomplete''))]),
     (''vehicles'', Obj
       [(''bicycle'', Txt (''Bicycle'')),
        (''motorcycle'', Txt (''Motorcycle'')),
        (''car'', Txt (''Car'')),
        (''truck'', Txt (''Truck'')),
        (''van'', Txt (''Van'')),
        (''other'', Txt (''Other''))]),
     (''kpis'', Obj
       [(''activity'', Txt (''Devices with activity'')),
        (''points'', Txt (''Received points'')),
        (''distance'', Txt (''Estimated distance'')),
        (''lastReport'', Txt (''Last report'')),
        (''mostActive'', Txt (''Most active'')),
        (''interruption'', Txt (''Largest interruption''))]),
     (''units'', Obj
       [(''devices'', Txt (''devices'')),
        (''points'', Txt (''points'')),
        (''kilometers'', Txt (''km'')),
        (''localTime'', Txt (''local time'')),
        (''minutes'', Txt (''minutes'')),
        (''speed'', Txt (''km/h'')),
        (''pointsShort'', Txt (''points''))]),
     (''overview'', Obj
       [(''title'', Txt (''Overview'')),
        (''description'', Txt (''A general view of activity recorded during the selected period.'')),
        (''activityTitle'', Txt (''Activity over time'')),
        (''activityDescription'', Txt (''Volume of reports received by device.'')),
        (''receivedPoints'', Txt (''Received points'')),
        (''quickRead'', Txt (''Quick read'')),
        (''peakActivity'', Txt (''Activity peak'')),
        (''totalPerHour'', Txt (''Total per hour'')),
        (''activeDevices'', Txt (''Active devices'')),
        (''devicesWithActivity'', Txt (''Active devices'')),
        (''devicesDescription'', Txt (''Activity and continuity detail for the selected period.'')),
        (''viewAll'', Txt (''View all'')),
        (''device'', Txt (''Device'')),
        (''vehicle'', Txt (''Vehicle type'')),
        (''points'', Txt (''Received points'')),
        (''distance'', Txt (''Estimated distance'')),
        (''firstReport'', Txt (''First report'')),
        (''lastReport'', Txt (''Last report'')),
        (''continuity'', Txt (''Continuity'')),
        (''viewReport'', Txt (''View report''))]),
     (''routes'', Obj
       [(''title'', Txt (''Routes'')),
        (''description'', Txt (''Explore estimated routes derived from received GPS points.'')),
        (''disclaimer'', Txt (''Distances and stops are estimates based on GPS data.'')),
        (''viewRoute'', Txt (''View route'')),
        (''selectedRoute'', Txt (''Selected route'')),
        (''duration'', Txt (''Duration'')),
        (''distance'', Txt (''Estimated distance'')),
        (''averageSpeed'', Txt (''Average speed'')),
        (''maximumSpeed'', Txt (''Maximum speed'')),
        (''routePoints'', Txt (''Route points'')),
        (''coordinates'', Txt (''Coordinates'')),
        (''simplified'', Txt (''The route shown is simplified for performance; metrics use the complete dataset.'')),
        (''interruption'', Txt (''This route contains data interruptions.''))])]"

definition en_page_reports_part2 :: "(string \<times> dict) list" where
  "en_page_reports_part2 =
    [(''health'', Obj
       [(''title'', Txt (''Device health'')),
        (''description'', Txt (''Review available telemetry and report regularity.'')),
        (''disclaimer'', Txt (''Availability depends on device hardware and firmware.'')),
        (''recentContact'', Txt (''Recent contact'')),
        (''noOptionalTelemetry'', Txt (''No optional telemetry'')),
        (''lastContact'', Txt (''Last contact'')),
        (''battery'', Txt (''Battery voltage'')),
        (''averageBattery'', Txt (''Average battery'')),
        (''signal'', Txt (''Cellular signal'')),
        (''gpsAccuracy'', Txt (''Average GPS accuracy'')),
        (''reports'', Txt (''Reports'')),
        (''missingBattery'', Txt (''This device has not sent battery voltage.'')),
        (''missingSignal'', Txt (''This device has not sent signal strength.'')),
        (''telemetryTrend'', Txt (''Telemetry trend'')),
        (''trendDescription'', Txt (''Intervals without data are not connected as continuous measurements.'')),
        (''batteryMetric'', Txt (''Voltage '' @ [CHR 0xB7] @ '' V'')),
        (''signalMetric'', Txt (''Signal '' @ [CHR 0xB7] @ '' CSQ'')),
        (''gpsMetric'', Txt (''Accuracy '' @ [CHR 0xB7] @ '' m'')),
        (''trendReading'', Txt (''Trend reading'')),
        (''trendSummary'', Txt (''Intervals with available telemetry are shown for 2 devices.''))]),
     (''quality'', Obj
       [(''title'', Txt (''Data quality'')),
        (''description'', Txt (''Identify interruptions, incomplete data, and unreliable GPS readings.'')),
        (''averageInterval'', Txt (''Average report interval'')),
        (''largestInterruption'', Txt (''Largest interruption'')),
        (''incompleteRecords'', Txt (''Incomplete records'')),
        (''coordinateJumps'', Txt (''Coordinate jumps'')),
        (''period'', Txt (''During the period'')),
        (''optionalMissing'', Txt (''Optional telemetry missing'')),
        (''requiresReview'', Txt (''Requires review'')),
        (''quality'', Txt (''GPS quality'')),
        (''state'', Txt (''State'')),
        (''continuityDisclaimer'', Txt (''This report describes the continuity of received data; it does not represent an exact device availability history.''))]),
     (''export'', Obj
       [(''title'', Txt (''Export reports'')),
        (''description'', Txt (''The file will respect current filters and permissions. Exports may take longer for broad periods.'')),
        (''csv'', Txt (''Export CSV'')),
        (''gpx'', Txt (''Export GPX'')),
        (''preparing'', Txt (''Preparing {type} export'' @ [CHR 0x85])),
        (''ready'', Txt (''Export is ready.''))])]"

definition en_page_reports :: "dict" where
  "en_page_reports =
    Obj (en_page_reports_part1 @ en_page_reports_part2)"

definition en_page_part2 :: "(string \<times> dict) list" where
  "en_page_part2 =
    [(''reports'', en_page_reports)]"

definition en_page :: "dict" where
  "en_page =
    Obj (en_page_part1 @ en_page_part2)"

definition en_noAccess :: "dict" where
  "en_noAccess =
    Obj
    [(''title'', Txt (''Restricted area'')),
     (''body'', Txt (''You do not have permission to view this page. If you believe this is a mistake, contact a workspace administrator.'')),
     (''backCta'', Txt (''Back to dashboard'')),
     (''hint'', Txt (''Sign in with an account that has the required permissions.''))]"

definition en_date :: "dict" where
  "en_date =
    Obj
    [(''relative'', Obj
       [(''justNow'', Txt (''just now'')),
        (''minutesAgo'', Txt (''{count}m ago'')),
        (''hoursAgo'', Txt (''{count}h ago'')),
        (''daysAgo'', Txt (''{count}d ago''))])]"

definition en_device_part1 :: "(string \<times> dict) list" where
  "en_device_part1 =
    [(''title'', Txt (''Devices'')),
     (''online'', Txt (''Online'')),
     (''onlineStationary'', Txt (''Online / stationary'')),
     (''offline'', Txt (''Offline'')),
     (''stale'', Txt (''Stale'')),
     (''neverSeen'', Txt (''Never seen'')),
     (''unknown'', Txt (''Unknown'')),
     (''views'', Obj
       [(''label'', Txt (''Device views'')),
        (''overview'', Txt (''Overview'')),
        (''history'', Txt (''History''))]),
     (''roles'', Obj
       [(''owner'', Txt (''Owner'')),
        (''editor'', Txt (''Editor'')),
        (''viewer'', Txt (''Viewer''))]),
     (''page'', Obj
       [(''summary'', Txt (''{total} total '' @ [CHR 0xB7] @ '' {online} online '' @ [CHR 0xB7] @ '' {stale} stale '' @ [CHR 0xB7] @ '' {offline} offline '' @ [CHR 0xB7] @ '' {never} never seen'')),
        (''export'', Txt (''Export'')),
        (''noResultsTitle'', Txt (''No devices match your filters'')),
        (''noResultsMessage'', Txt (''Try clearing the search or changing the status / vehicle filter.'')),
        (''clearFilters'', Txt (''Clear filters'')),
        (''addFirstDevice'', Txt (''Add your first device'')),
        (''refreshed'', Txt (''Refreshed.'')),
        (''addedToast'', Txt (''Added '' @ [CHR 0x22] @ ''{name}'' @ [CHR 0x22] @ '' to your fleet.'')),
        (''savedToast'', Txt (''Saved changes to '' @ [CHR 0x22] @ ''{name}'' @ [CHR 0x22] @ ''.'')),
        (''removedToast'', Txt (''Removed '' @ [CHR 0x22] @ ''{name}'' @ [CHR 0x22] @ ''.''))]),
     (''table'', Obj
       [(''name'', Txt (''Name'')),
        (''firmwareUuid'', Txt (''Firmware UUID'')),
        (''vehicleType'', Txt (''Type'')),
        (''status'', Txt (''Status'')),
        (''lastSeen'', Txt (''Last Seen'')),
        (''battery'', Txt (''Battery'')),
        (''signal'', Txt (''Signal'')),
        (''actions'', Txt (''Actions'')),
        (''edit'', Txt (''Edit'')),
        (''delete'', Txt (''Delete'')),
        (''addDevice'', Txt (''Add device'')),
        (''failedToLoad'', Txt (''Failed to load devices'')),
        (''retry'', Txt (''Try again'')),
        (''notAvailable'', Txt ([CHR 0x97])),
        (''searchPlaceholder'', Txt (''Search by name, UUID, or vehicle'' @ [CHR 0x85])),
        (''refresh'', Txt (''Refresh'')),
        (''copy'', Txt (''Copy'')),
        (''copied'', Txt (''Copied'')),
        (''filter'', Obj
          [(''allStatuses'', Txt (''All statuses'')),
           (''allVehicles'', Txt (''All vehicles''))]),
        (''sort'', Obj
          [(''name-asc'', Txt (''Name (A'' @ [CHR 0x96] @ ''Z)'')),
           (''name-desc'', Txt (''Name (Z'' @ [CHR 0x96] @ ''A)'')),
           (''recent'', Txt (''Recently active'')),
           (''oldest'', Txt (''Longest offline''))]),
        (''vehicleTypes'', Obj
          [(''bicycle'', Txt (''Bicycle'')),
           (''motorcycle'', Txt (''Motorcycle'')),
           (''car'', Txt (''Car'')),
           (''truck'', Txt (''Truck'')),
           (''van'', Txt (''Van'')),
           (''other'', Txt (''Other''))]),
        (''inlineEdit'', Obj
          [(''save'', Txt (''Save'')),
           (''cancel'', Txt (''Cancel'')),
           (''editing'', Txt (''Editing'' @ [CHR 0x85])),
           (''saving'', Txt (''Saving'' @ [CHR 0x85])),
           (''updateFailed'', Txt (''Could not update the device. Try again.'')),
           (''nameRequired'', Txt (''Device name is required''))]),
        (''deleteConfirm'', Obj
          [(''warning'', Txt (''This will permanently delete the device '' @ [CHR 0x22] @ ''{name}'' @ [CHR 0x22] @ '' and all of its location history. This action cannot be undone.'')),
           (''typeNameLabel'', Txt (''Type the device name to confirm'')),
           (''typeNamePlaceholder'', Txt (''Device name'')),
           (''confirm'', Txt (''Delete device'')),
           (''deleting'', Txt (''Deleting'' @ [CHR 0x85])),
           (''cancel'', Txt (''Cancel'')),
           (''mismatch'', Txt (''The name must match the device exactly.'')),
           (''deleteFailed'', Txt (''Could not delete the device. Try again.''))])]),
     (''modals'', Obj
       [(''cancel'', Txt (''Cancel'')),
        (''save'', Txt (''Save changes'')),
        (''add'', Txt (''Add device'')),
        (''delete'', Txt (''Delete device'')),
        (''required'', Txt (''Required'')),
        (''addTitle'', Txt (''Add device'')),
        (''addSubtitle'', Txt (''Register a new ESP32 tracker in your fleet.'')),
        (''editTitle'', Txt (''Edit device'')),
        (''editSubtitle'', Txt (''Editing {name} '' @ [CHR 0xB7] @ '' firmware UUID {uuid}'')),
        (''uuidLabel'', Txt (''Firmware UUID'')),
        (''uuidPlaceholder'', Txt (''esp32-001'')),
        (''uuidHint'', Txt (''Unique ID printed by the ESP32 firmware.'')),
        (''uuidImmutable'', Txt (''UUID is immutable.'')),
        (''nameLabel'', Txt (''Device name'')),
        (''namePlaceholder'', Txt (''Truck BCN-04'')),
        (''nameHint'', Txt (''A human-friendly label, e.g. '' @ [CHR 0x27] @ ''Truck BCN-04'' @ [CHR 0x27] @ ''.'')),
        (''vehicleTypeLabel'', Txt (''Vehicle type'')),
        (''roleLabel'', Txt (''Your role'')),
        (''roleHint'', Txt (''Defaults to owner.'')),
        (''accessRoleLabel'', Txt (''Access role'')),
        (''generateUuid'', Txt (''Generate'')),
        (''deleteTitle'', Txt (''Delete device'')),
        (''deleteSubtitle'', Txt (''This action removes the device from your fleet. Telemetry history is retained.'')),
        (''deleteWarningTitle'', Txt (''This will permanently remove the device'')),
        (''deleteWarningMessage'', Txt (''Drivers assigned will lose access. This action cannot be undone.'')),
        (''deleteTypeToConfirm'', Txt (''Type '' @ [CHR 0x22] @ ''{name}'' @ [CHR 0x22] @ '' to confirm'')),
        (''deleteTip'', Txt (''Tip: type the device name exactly as shown '' @ [CHR 0x97] @ '' case-sensitive.''))])]"

definition en_device_detail_part1 :: "(string \<times> dict) list" where
  "en_device_detail_part1 =
    [(''workspace'', Txt (''Workspace'')),
     (''backToDevices'', Txt (''Back to devices'')),
     (''deviceId'', Txt (''Device #'')),
     (''lastPing'', Txt (''Last ping'')),
     (''uuidShort'', Txt (''UUID'')),
     (''share'', Txt (''Share'')),
     (''sharing'', Obj
       [(''chooseTitle'', Txt (''Share device'')),
        (''chooseDescription'', Txt (''Choose who should receive access to this device.'')),
        (''registeredTitle'', Txt (''Open GPS user'')),
        (''registeredDescription'', Txt (''Grant viewer access to an existing account.'')),
        (''guestTitle'', Txt (''External guest'')),
        (''guestDescription'', Txt (''Create a temporary, read-only location link.'')),
        (''guestLinkTitle'', Txt (''Temporary guest link'')),
        (''guestLinkDescription'', Txt (''The guest can view the current location while this link is active.'')),
        (''duration'', Txt (''Link duration'')),
        (''oneHour'', Txt (''1 hour'')),
        (''twoHours'', Txt (''2 hours'')),
        (''fourHours'', Txt (''4 hours'')),
        (''eightHours'', Txt (''8 hours'')),
        (''create'', Txt (''Create link'')),
        (''creating'', Txt (''Creating'' @ [CHR 0x85])),
        (''copy'', Txt (''Copy link'')),
        (''copied'', Txt (''Link copied'')),
        (''cancel'', Txt (''Cancel'')),
        (''activeLinks'', Txt (''Active guest links'')),
        (''loadingLinks'', Txt (''Loading links'' @ [CHR 0x85])),
        (''expiresAt'', Txt (''Expires'')),
        (''revoke'', Txt (''Revoke'')),
        (''revokeConfirm'', Txt (''Revoke this guest link now?'')),
        (''noActiveLinks'', Txt (''No active guest links.'')),
        (''createFailed'', Txt (''Could not create the guest link. Try again.'')),
        (''loadFailed'', Txt (''Could not load guest links. Try again.'')),
        (''copyFailed'', Txt (''Could not copy the link.''))]),
     (''guest'', Obj
       [(''pageTitle'', Txt (''Shared device'')),
        (''subtitle'', Txt (''Temporary read-only location access'')),
        (''loading'', Txt (''Validating shared link'' @ [CHR 0x85])),
        (''unavailableTitle'', Txt (''Link unavailable'')),
        (''unavailableMessage'', Txt (''This link is invalid, expired, or has been revoked.'')),
        (''live'', Txt (''Live updates on'')),
        (''connecting'', Txt (''Connecting to live updates'' @ [CHR 0x85])),
        (''reconnecting'', Txt (''Reconnecting'' @ [CHR 0x85]))]),
     (''edit'', Txt (''Edit'')),
     (''delete'', Txt (''Delete'')),
     (''loading'', Txt (''Loading device'' @ [CHR 0x85])),
     (''failedToLoad'', Txt (''Failed to load device'')),
     (''retry'', Txt (''Try again'')),
     (''missingDeviceTitle'', Txt (''No device selected'')),
     (''missingDeviceMessage'', Txt (''Open this page with a device id, for example ?id=device-id.'')),
     (''gpsTelemetry'', Txt (''GPS & telemetry'')),
     (''gpsTelemetryDescription'', Txt (''Most recent location reported by the device.'')),
     (''deviceSection'', Txt (''Device'')),
     (''deviceSectionDescription'', Txt (''Identity, hardware, and registration.'')),
     (''access'', Txt (''Access'')),
     (''accessDescription'', Txt (''People who can view or manage this device.'')),
     (''latitude'', Txt (''LAT'')),
     (''longitude'', Txt (''LNG'')),
     (''liveGps'', Txt (''Live GPS'')),
     (''latestReading'', Txt (''Latest reading'')),
     (''refresh'', Txt (''Refresh'')),
     (''liveTracking'', Txt (''Live tracking'')),
     (''mapLabel'', Txt (''Latest device location map'')),
     (''noLocation'', Txt (''Never reported'')),
     (''noLocationDescription'', Txt (''This device has not reported a location yet.'')),
     (''stationary'', Txt (''Stationary'')),
     (''moving'', Txt (''Moving'')),
     (''copy'', Txt (''Copy value'')),
     (''copied'', Txt (''Copied'')),
     (''units'', Obj
       [(''speed'', Txt (''m/s'')),
        (''meters'', Txt (''m''))]),
     (''kpi'', Obj
       [(''battery'', Txt (''Battery'')),
        (''signal'', Txt (''Signal'')),
        (''speed'', Txt (''Speed'')),
        (''lastPing'', Txt (''Last ping''))]),
     (''telemetry'', Obj
       [(''title'', Txt (''Telemetry'')),
        (''subtitle'', Txt (''From latest location packet'')),
        (''altitude'', Txt (''Altitude'')),
        (''speed'', Txt (''Speed'')),
        (''accuracy'', Txt (''Accuracy'')),
        (''battery'', Txt (''Battery'')),
        (''signal'', Txt (''Signal'')),
        (''recorded'', Txt (''Recorded''))]),
     (''goLive'', Txt (''Go Live'')),
     (''liveWaiting'', Txt (''Waiting for the first packet'' @ [CHR 0x85])),
     (''connectionLost'', Txt (''Connection lost'')),
     (''connectionLostMessage'', Txt (''Live tracking stopped: the device is unreachable.'')),
     (''deviceNotLiveTitle'', Txt (''Device not live'')),
     (''deviceNotLiveMessage'', Txt (''Live tracking stopped: the device has not reported a new location in over 45 seconds.'')),
     (''info'', Obj
       [(''title'', Txt (''Device information'')),
        (''subtitle'', Txt (''Identity and registration metadata'')),
        (''firmwareUuid'', Txt (''Firmware UUID'')),
        (''deviceId'', Txt (''Device ID'')),
        (''vehicleType'', Txt (''Vehicle type'')),
        (''yourRole'', Txt (''Your role'')),
        (''created'', Txt (''Created'')),
        (''lastSeen'', Txt (''Last seen''))])]"

definition en_device_detail_part2 :: "(string \<times> dict) list" where
  "en_device_detail_part2 =
    [(''accessTable'', Obj
       [(''title'', Txt (''Users with access'')),
        (''name'', Txt (''Name'')),
        (''email'', Txt (''Email'')),
        (''role'', Txt (''Role'')),
        (''accessGranted'', Txt (''Access granted'')),
        (''actions'', Txt (''Actions'')),
        (''addUser'', Txt (''Invite user'')),
        (''inviteSubtitle'', Txt (''Grant this device to an existing user by id.'')),
        (''userIdLabel'', Txt (''User ID'')),
        (''userIdPlaceholder'', Txt (''User id'')),
        (''userIdRequired'', Txt (''User ID is required'')),
        (''invite'', Txt (''Invite'')),
        (''inviting'', Txt (''Inviting'' @ [CHR 0x85])),
        (''cancel'', Txt (''Cancel'')),
        (''peopleCanView'', Txt (''{count} people can view this device'')),
        (''visibleToOwnerOnly'', Txt (''Visible to owner only'')),
        (''ownerOnly'', Txt (''Only the device owner can manage user access.'')),
        (''noUsers'', Txt (''No users have access to this device yet.'')),
        (''protected'', Txt (''Protected'')),
        (''remove'', Txt (''Remove access'')),
        (''removeTitle'', Txt (''Remove access'')),
        (''removeConfirm'', Txt (''Remove this user'' @ [CHR 0x27] @ ''s access to the device?'')),
        (''failedToLoad'', Txt (''Failed to load device'')),
        (''revokeConfirm'', Obj
          [(''title'', Txt (''Remove access'')),
           (''warning'', Txt (''This will permanently revoke '' @ [CHR 0x22] @ ''{name}'' @ [CHR 0x22] @ [CHR 0x27] @ ''s access to this device. They will no longer be able to view its location. This action cannot be undone.'')),
           (''typeConfirmLabel'', Txt (''Type '' @ [CHR 0x22] @ ''confirm'' @ [CHR 0x22] @ '' to confirm'')),
           (''typeConfirmPlaceholder'', Txt (''confirm'')),
           (''confirmPhrase'', Txt (''confirm'')),
           (''confirm'', Txt (''Remove access'')),
           (''removing'', Txt (''Removing'' @ [CHR 0x85])),
           (''cancel'', Txt (''Cancel'')),
           (''mismatch'', Txt (''You must type '' @ [CHR 0x22] @ ''confirm'' @ [CHR 0x22] @ '' exactly to confirm.'')),
           (''revokeFailed'', Txt (''Could not revoke access. Try again.''))])])]"

definition en_device_detail :: "dict" where
  "en_device_detail =
    Obj (en_device_detail_part1 @ en_device_detail_part2)"

definition en_device_part2 :: "(string \<times> dict) list" where
  "en_device_part2 =
    [(''detail'', en_device_detail)]"

definition en_device_part3 :: "(string \<times> dict) list" where
  "en_device_part3 =
    [(''live'', Obj
       [(''title'', Txt (''Live tracking'')),
        (''kicker'', Txt (''LIVE TRACKING'')),
        (''loading'', Txt (''Loading live tracking'' @ [CHR 0x85])),
        (''loadingHistory'', Txt (''Loading location history'' @ [CHR 0x85])),
        (''failedToLoad'', Txt (''Failed to load live tracking'')),
        (''retry'', Txt (''Try again'')),
        (''missingDeviceTitle'', Txt (''No device selected'')),
        (''missingDeviceMessage'', Txt (''Open this page with a device id, for example ?id=device-id.'')),
        (''backToDevices'', Txt (''Back to devices'')),
        (''backToDevice'', Txt (''Back to device'')),
        (''liveUpdatesOn'', Txt (''Live updates on'')),
        (''liveUpdatesOff'', Txt (''Live updates paused'')),
        (''currentPosition'', Txt (''Current position'')),
        (''movement'', Txt (''Movement'')),
        (''battery'', Txt (''Battery'')),
        (''signal'', Txt (''Signal'')),
        (''meters'', Txt (''m'')),
        (''speedUnit'', Txt (''m/s'')),
        (''liveLocation'', Txt (''Live location'')),
        (''liveLocationDescription'', Txt (''The latest position reported by this device.'')),
        (''nextPacket'', Txt (''Next packet in'')),
        (''updatesPaused'', Txt (''Updates paused'')),
        (''routeView'', Txt (''Route view'')),
        (''routeSubtitle'', Txt (''Latest location history'')),
        (''centerMap'', Txt (''Center map'')),
        (''centered'', Txt (''The map is centered on the latest packet.'')),
        (''livePosition'', Txt (''Live position'')),
        (''mapLabel'', Txt (''Live device location map'')),
        (''noLocation'', Txt (''Never reported'')),
        (''noLocationDescription'', Txt (''This device has not reported a location yet.'')),
        (''latestTelemetry'', Txt (''Latest telemetry'')),
        (''latestTelemetrySubtitle'', Txt (''From the latest location packet'')),
        (''latitude'', Txt (''Latitude'')),
        (''longitude'', Txt (''Longitude'')),
        (''altitude'', Txt (''Altitude'')),
        (''speed'', Txt (''Speed'')),
        (''accuracy'', Txt (''Accuracy'')),
        (''recorded'', Txt (''Recorded'')),
        (''detectiveMode'', Txt (''Detective mode'')),
        (''detectiveModeLabel'', Txt (''Detective mode:'')),
        (''on'', Txt (''On'')),
        (''off'', Txt (''Off'')),
        (''routeStyle'', Txt (''Route style'')),
        (''routeLine'', Txt (''Connected line'')),
        (''routeDots'', Txt (''Dots only'')),
        (''detectiveDescription'', Txt (''Replay the device'' @ [CHR 0x27] @ ''s route by choosing a time window.'')),
        (''routeWindow'', Txt (''Route from {from} to {to}'')),
        (''pointsAvailable'', Txt (''points available'')),
        (''from'', Txt (''From'')),
        (''to'', Txt (''To'')),
        (''applyWindow'', Txt (''Apply time window'')),
        (''ranges'', Obj
          [(''today'', Txt (''Today'')),
           (''24h'', Txt (''Last 24 hours'')),
           (''7d'', Txt (''Last 7 days'')),
           (''custom'', Txt (''Custom range''))]),
        (''detectiveNote'', Txt (''Use a broad window for route history. Results are paginated to keep the timeline responsive.'')),
        (''locationHistory'', Txt (''Location history'')),
        (''showing'', Txt (''Showing the latest {shown} of {total} entries'')),
        (''export'', Txt (''Export results'')),
        (''coordinates'', Txt (''Coordinates'')),
        (''source'', Txt (''Source'')),
        (''cellular'', Txt (''Cellular'')),
        (''ingestionInterval'', Txt (''15-second ingestion interval '' @ [CHR 0xB7] @ '' newest first'')),
        (''noHistory'', Txt (''No locations found for this time window.'')),
        (''deviceNotLiveTitle'', Txt (''Device not live'')),
        (''deviceNotLiveMessage'', Txt (''Live tracking stopped: the device has not reported a new location in over 45 seconds.''))])]"

definition en_device :: "dict" where
  "en_device =
    Obj (en_device_part1 @ en_device_part2 @ en_device_part3)"

definition en_user :: "dict" where
  "en_user =
    Obj
    [(''noUsersTitle'', Txt (''No users yet'')),
     (''noUsersMessage'', Txt (''Add your first user to get started.'')),
     (''page'', Obj
       [(''export'', Txt (''Export'')),
        (''refresh'', Txt (''Refresh'')),
        (''showing'', Txt (''Showing {shown} of {total} users'')),
        (''clearFilters'', Txt (''Clear filters'')),
        (''noResultsTitle'', Txt (''No users match your filters'')),
        (''noResultsMessage'', Txt (''Try clearing filters or invite your first user to the platform.'')),
        (''addFirstUser'', Txt (''Add your first user''))]),
     (''filters'', Obj
       [(''searchPlaceholder'', Txt (''Search by name or email'' @ [CHR 0x85])),
        (''sortLabel'', Txt (''Sort'')),
        (''sort'', Obj
          [(''created-desc'', Txt (''Newest first'')),
           (''created-asc'', Txt (''Oldest first'')),
           (''name-asc'', Txt (''Name (A'' @ [CHR 0x96] @ ''Z)''))]),
        (''roleLabel'', Txt (''Role'')),
        (''roleAll'', Txt (''All'')),
        (''roleSuperAdmin'', Txt (''Super admin'')),
        (''roleUser'', Txt (''User'')),
        (''emailLabel'', Txt (''Email'')),
        (''emailAll'', Txt (''All'')),
        (''emailVerified'', Txt (''Verified'')),
        (''emailUnverified'', Txt (''Unverified''))]),
     (''table'', Obj
       [(''user'', Txt (''User'')),
        (''role'', Txt (''Role'')),
        (''email'', Txt (''Email'')),
        (''password'', Txt (''Password'')),
        (''created'', Txt (''Created'')),
        (''actions'', Txt (''Actions'')),
        (''verified'', Txt (''Verified'')),
        (''unverified'', Txt (''Unverified'')),
        (''changeRequired'', Txt (''Change required'')),
        (''passwordOk'', Txt (''OK''))]),
     (''detail'', Obj
       [(''title'', Txt (''User details'')),
        (''accountId'', Txt (''Account ID'')),
        (''copy'', Txt (''Copy'')),
        (''copied'', Txt (''Copied'')),
        (''emailVerification'', Txt (''Email verification'')),
        (''password'', Txt (''Password'')),
        (''memberSince'', Txt (''Member since'')),
        (''role'', Txt (''Role'')),
        (''devicesAccess'', Txt (''Devices access ({count})'')),
        (''noDevices'', Txt (''No devices shared with this user.'')),
        (''failedToLoad'', Txt (''Could not load this user.''))]),
     (''create'', Obj
       [(''title'', Txt (''Add user'')),
        (''create'', Txt (''Create user'')),
        (''cancel'', Txt (''Cancel'')),
        (''roleHint'', Txt (''Super admins have full access to user management and platform settings.''))]),
     (''tempPassword'', Obj
       [(''title'', Txt (''User created'')),
        (''banner'', Txt (''Share this temporary password securely. {name} will be required to change it on first sign in.'')),
        (''emailSubject'', Txt (''Welcome to your new account!'')),
        (''copy'', Txt (''Copy'')),
        (''copied'', Txt (''Copied'')),
        (''saved'', Txt (''I'' @ [CHR 0x27] @ ''ve saved the password'')),
        (''meta'', Txt (''For security, this password is only shown once. If the user loses it, you can reset their password from their profile.''))]),
     (''delete'', Obj
       [(''title'', Txt (''Delete user'')),
        (''warningTitle'', Txt (''Are you sure you want to delete this user?'')),
        (''warningMessage'', Txt (''The user will lose access to the platform immediately. All data associated with this account will be permanently removed. This action cannot be undone.'')),
        (''prompt'', Txt (''To confirm deletion, type confirm in the field below.'')),
        (''confirmLabel'', Txt (''Confirmation'')),
        (''confirmPlaceholder'', Txt (''Type '' @ [CHR 0x27] @ ''confirm'' @ [CHR 0x27] @ '' to proceed'')),
        (''confirm'', Txt (''Delete user'')),
        (''cancel'', Txt (''Cancel'')),
        (''mismatch'', Txt (''You must type '' @ [CHR 0x27] @ ''confirm'' @ [CHR 0x27] @ '' to proceed.'')),
        (''deleteFailed'', Txt (''Could not delete the user. Try again.''))])]"

definition en_toast :: "dict" where
  "en_toast =
    Obj
    [(''userCreated'', Obj
       [(''title'', Txt (''User created'')),
        (''message'', Txt (''{name} can now sign in.''))]),
     (''userDeleted'', Obj
       [(''title'', Txt (''User deleted'')),
        (''message'', Txt (''{name} no longer has access.''))]),
     (''emailSent'', Obj
       [(''title'', Txt (''Welcome email sent'')),
        (''message'', Txt (''{name} will receive their temporary password by email.''))]),
     (''accessDenied'', Obj
       [(''title'', Txt (''Access denied'')),
        (''message'', Txt (''This area is restricted to administrators.''))])]"

definition en_apiKeys :: "dict" where
  "en_apiKeys =
    Obj
    [(''title'', Txt (''API Keys'')),
     (''page'', Obj
       [(''summary'', Txt (''{total} active keys across {devices} devices'')),
        (''export'', Txt (''Export'')),
        (''addFirstKey'', Txt (''Issue your first API key'')),
        (''noResultsTitle'', Txt (''No API keys match your filters'')),
        (''noResultsMessage'', Txt (''Try clearing the search or issuing a new key.'')),
        (''clearFilters'', Txt (''Clear filters'')),
        (''addKey'', Txt (''Issue API key'')),
        (''refreshed'', Txt (''Refreshed.'')),
        (''issuedToast'', Txt (''New API key issued for '' @ [CHR 0x22] @ ''{device}'' @ [CHR 0x22] @ ''.'')),
        (''revokedToast'', Txt (''API key revoked from '' @ [CHR 0x22] @ ''{device}'' @ [CHR 0x22] @ ''.''))]),
     (''filters'', Obj
       [(''searchPlaceholder'', Txt (''Search by device or key id'' @ [CHR 0x85])),
        (''sortLabel'', Txt (''Sort'')),
        (''sort'', Obj
          [(''created-desc'', Txt (''Newest first'')),
           (''created-asc'', Txt (''Oldest first'')),
           (''device-asc'', Txt (''Device (A'' @ [CHR 0x96] @ ''Z)''))])]),
     (''table'', Obj
       [(''device'', Txt (''Device'')),
        (''keyId'', Txt (''Key ID'')),
        (''created'', Txt (''Created'')),
        (''lastUsed'', Txt (''Last used'')),
        (''expires'', Txt (''Expires'')),
        (''actions'', Txt (''Actions'')),
        (''notAvailable'', Txt ([CHR 0x97])),
        (''copy'', Txt (''Copy'')),
        (''copied'', Txt (''Copied'')),
        (''refresh'', Txt (''Refresh''))]),
     (''modals'', Obj
       [(''addTitle'', Txt (''Issue API key'')),
        (''addSubtitle'', Txt (''Choose the device that will use this key. The token is shown only once.'')),
        (''deviceLabel'', Txt (''Device'')),
        (''devicePlaceholder'', Txt (''Select a device'')),
        (''deviceRequired'', Txt (''Choose a device.'')),
        (''noDevicesAvailable'', Txt (''No devices available. Register a device first.'')),
        (''cancel'', Txt (''Cancel'')),
        (''issue'', Txt (''Issue key'')),
        (''issuing'', Txt (''Issuing'' @ [CHR 0x85])),
        (''revealTitle'', Txt (''Save this API key'')),
        (''revealBanner'', Txt (''Copy this key now '' @ [CHR 0x97] @ '' it is shown only once. Flash it onto '' @ [CHR 0x22] @ ''{device}'' @ [CHR 0x22] @ '' firmware before closing this dialog.'')),
        (''revealMeta'', Txt (''For security, this key is only shown once. If you lose it, revoke and issue a new one.'')),
        (''copy'', Txt (''Copy'')),
        (''copied'', Txt (''Copied'')),
        (''saved'', Txt (''I'' @ [CHR 0x27] @ ''ve saved the key'')),
        (''revokeTitle'', Txt (''Revoke API key'')),
        (''revokeSubtitle'', Txt (''Revoking this key will disconnect '' @ [CHR 0x22] @ ''{device}'' @ [CHR 0x22] @ '' from Open GPS until a new key is issued.'')),
        (''revokeWarningTitle'', Txt (''This will permanently revoke the key'')),
        (''revokeWarningMessage'', Txt (''The device will need a new API key to authenticate. This action cannot be undone.'')),
        (''revokeTypeToConfirm'', Txt (''Type '' @ [CHR 0x22] @ ''{name}'' @ [CHR 0x22] @ '' to confirm'')),
        (''revokeTip'', Txt (''Tip: type the device name exactly as shown '' @ [CHR 0x97] @ '' case-sensitive.'')),
        (''revoke'', Txt (''Revoke key'')),
        (''revoking'', Txt (''Revoking'' @ [CHR 0x85])),
        (''revokeFailed'', Txt (''Could not revoke the API key. Try again.'')),
        (''revokeMismatch'', Txt (''The name must match the device exactly.''))])]"

definition en_dict :: dict where
  "en_dict = Obj
    [(''nav'', en_nav),
     (''layout'', en_layout),
     (''admin'', en_admin),
     (''section'', en_section),
     (''auth'', en_auth),
     (''profile'', en_profile),
     (''settings'', en_settings),
     (''page'', en_page),
     (''noAccess'', en_noAccess),
     (''date'', en_date),
     (''device'', en_device),
     (''user'', en_user),
     (''toast'', en_toast),
     (''apiKeys'', en_apiKeys)]"

end
