(* ===== verification/DictEs.thy ===== *)
theory DictEs
  imports Dicts
begin

text \<open>
  The Spanish texts (\<open>i18n/es.ts\<close>), section by section in the order of the file; the parts of a long
  section are lists of entries.
\<close>

definition es_nav :: "dict" where
  "es_nav =
    Obj
    [(''dashboard'', Txt (''Panel'')),
     (''devices'', Txt (''Dispositivos'')),
     (''admin'', Txt (''Administraci'' @ [CHR 0xF3] @ ''n'')),
     (''profile'', Txt (''Perfil'')),
     (''usersRoles'', Txt (''Usuarios y roles'')),
     (''settings'', Txt (''Ajustes'')),
     (''reports'', Txt (''Informes'')),
     (''access'', Txt (''Acceso''))]"

definition es_layout :: "dict" where
  "es_layout =
    Obj
    [(''appName'', Txt (''Open GPS'')),
     (''primaryNav'', Txt (''Principal'')),
     (''primaryNavMobile'', Txt (''Principal m'' @ [CHR 0xF3] @ ''vil'')),
     (''workspace'', Txt (''Espacio de trabajo'')),
     (''version'', Txt (''auto-hospedado '' @ [CHR 0xB7] @ '' v2.1'')),
     (''searchPlaceholder'', Txt (''Buscar dispositivos, conductores, IMEI'' @ [CHR 0x85])),
     (''notifications'', Txt (''Notificaciones'')),
     (''markAllRead'', Txt (''Marcar todo como le'' @ [CHR 0xED] @ ''do'')),
     (''viewAllActivity'', Txt (''Ver toda la actividad'')),
     (''appearance'', Txt (''Apariencia'')),
     (''themeLight'', Txt (''Claro'')),
     (''themeDark'', Txt (''Oscuro'')),
     (''accountSettings'', Txt (''Ajustes de cuenta'')),
     (''notificationsMenu'', Txt (''Notificaciones'')),
     (''helpDocs'', Txt (''Ayuda y docs'')),
     (''signOut'', Txt (''Cerrar sesi'' @ [CHR 0xF3] @ ''n'')),
     (''openMenu'', Txt (''Abrir men'' @ [CHR 0xFA])),
     (''switchToLight'', Txt (''Cambiar a tema claro'')),
     (''switchToDark'', Txt (''Cambiar a tema oscuro'')),
     (''settingsLabel'', Txt (''Ajustes'')),
     (''profileMenu'', Txt (''Perfil'')),
     (''superAdminOrg'', Txt (''Super admin '' @ [CHR 0xB7] @ '' Propietario'')),
     (''unknownUser'', Txt (''Usuario desconocido'')),
     (''unknownMail'', Txt ([CHR 0x97])),
     (''unknownInitials'', Txt (''?''))]"

definition es_admin :: "dict" where
  "es_admin =
    Obj
    [(''title'', Txt (''Administraci'' @ [CHR 0xF3] @ ''n'')),
     (''totalDevices'', Txt (''Dispositivos totales'')),
     (''activeToday'', Txt (''Activos hoy'')),
     (''onlineNow'', Txt (''En l'' @ [CHR 0xED] @ ''nea ahora'')),
     (''alerts'', Txt (''Alertas'')),
     (''userTable'', Obj
       [(''name'', Txt (''Nombre'')),
        (''email'', Txt (''Correo'')),
        (''role'', Txt (''Rol'')),
        (''status'', Txt (''Estado'')),
        (''created'', Txt (''Creado'')),
        (''actions'', Txt (''Acciones'')),
        (''devices'', Txt (''Dispositivos'')),
        (''verified'', Txt (''Verificado'')),
        (''unverified'', Txt (''Sin verificar'')),
        (''editUser'', Txt (''Editar'')),
        (''deleteUser'', Txt (''Eliminar'')),
        (''addUser'', Txt (''Crear usuario'')),
        (''failedToLoad'', Txt (''Error al cargar usuarios'')),
        (''inlineEdit'', Obj
          [(''title'', Txt (''Editar usuario'')),
           (''nameLabel'', Txt (''Nombre'')),
           (''namePlaceholder'', Txt (''Nombre'')),
           (''lastnameLabel'', Txt (''Apellido'')),
           (''lastnamePlaceholder'', Txt (''Apellido'')),
           (''save'', Txt (''Guardar'')),
           (''saving'', Txt (''Guardando...'')),
           (''cancel'', Txt (''Cancelar'')),
           (''updateFailed'', Txt (''No se pudo actualizar el usuario. Int'' @ [CHR 0xE9] @ ''ntalo de nuevo.''))]),
        (''deleteConfirm'', Obj
          [(''title'', Txt (''Eliminar usuario'')),
           (''warning'', Txt (''Esto eliminar'' @ [CHR 0xE1] @ '' permanentemente al usuario '' @ [CHR 0x22] @ ''{name}'' @ [CHR 0x22] @ '' y cualquier acceso que tenga a dispositivos. Esta acci'' @ [CHR 0xF3] @ ''n no se puede deshacer.'')),
           (''typeNameLabel'', Txt (''Escribe el nombre del usuario para confirmar'')),
           (''typeNamePlaceholder'', Txt (''Nombre del usuario'')),
           (''confirm'', Txt (''Eliminar usuario'')),
           (''deleting'', Txt (''Eliminando...'')),
           (''cancel'', Txt (''Cancelar'')),
           (''mismatch'', Txt (''El nombre debe coincidir exactamente con el del usuario.'')),
           (''deleteFailed'', Txt (''No se pudo eliminar al usuario. Int'' @ [CHR 0xE9] @ ''ntalo de nuevo.''))])]),
     (''createUser'', Obj
       [(''title'', Txt (''Crear nuevo usuario'')),
        (''email'', Txt (''Correo electr'' @ [CHR 0xF3] @ ''nico'')),
        (''emailPlaceholder'', Txt (''usuario@ejemplo.com'')),
        (''name'', Txt (''Nombre'')),
        (''namePlaceholder'', Txt (''Nombre del usuario'')),
        (''nameRequired'', Txt (''El nombre es obligatorio'')),
        (''lastname'', Txt (''Apellido'')),
        (''lastnamePlaceholder'', Txt (''Opcional'')),
        (''role'', Txt (''Rol'')),
        (''roleUser'', Txt (''Usuario'')),
        (''roleSuperAdmin'', Txt (''Super Admin'')),
        (''emailRequired'', Txt (''El correo es obligatorio'')),
        (''emailInvalid'', Txt (''Formato de correo inv'' @ [CHR 0xE1] @ ''lido'')),
        (''roleRequired'', Txt (''El rol es obligatorio'')),
        (''create'', Txt (''Crear usuario'')),
        (''creating'', Txt (''Creando...'')),
        (''cancel'', Txt (''Cancelar''))]),
     (''roles'', Obj
       [(''user'', Txt (''Usuario'')),
        (''superAdmin'', Txt (''Super Admin''))])]"

definition es_section :: "dict" where
  "es_section =
    Obj
    [(''kpiBar'', Obj
       [(''title'', Txt (''Resumen''))]),
     (''activityFeed'', Obj
       [(''title'', Txt (''Actividad''))])]"

definition es_auth_part1 :: "(string \<times> dict) list" where
  "es_auth_part1 =
    [(''login'', Txt (''Iniciar sesi'' @ [CHR 0xF3] @ ''n'')),
     (''signup'', Txt (''Crear cuenta'')),
     (''email'', Txt (''Correo electr'' @ [CHR 0xF3] @ ''nico'')),
     (''emailPlaceholder'', Txt (''tu@ejemplo.com'')),
     (''password'', Txt (''Contrase'' @ [CHR 0xF1] @ ''a'')),
     (''passwordPlaceholder'', Txt (''Ingresa tu contrase'' @ [CHR 0xF1] @ ''a'')),
     (''name'', Txt (''Nombre'')),
     (''namePlaceholder'', Txt (''Tu nombre'')),
     (''loggingIn'', Txt (''Iniciando sesi'' @ [CHR 0xF3] @ ''n...'')),
     (''signingUp'', Txt (''Creando cuenta...'')),
     (''haveAccount'', Txt ([CHR 0xBF] @ ''Ya tienes cuenta?'')),
     (''emailRequired'', Txt (''El correo es obligatorio'')),
     (''emailInvalid'', Txt (''Formato de correo inv'' @ [CHR 0xE1] @ ''lido'')),
     (''passwordRequired'', Txt (''La contrase'' @ [CHR 0xF1] @ ''a es obligatoria'')),
     (''passwordMin'', Txt (''La contrase'' @ [CHR 0xF1] @ ''a debe tener al menos 8 caracteres'')),
     (''nameRequired'', Txt (''El nombre es obligatorio'')),
     (''loginTitle'', Txt (''Bienvenido de nuevo'')),
     (''loginSubtitle'', Txt (''Inicia sesi'' @ [CHR 0xF3] @ ''n en tu cuenta Open GPS'')),
     (''signupTitle'', Txt (''Crear una cuenta'')),
     (''signupSubtitle'', Txt (''Empieza a rastrear tus dispositivos en minutos'')),
     (''signInWithGoogle'', Txt (''Iniciar sesi'' @ [CHR 0xF3] @ ''n con Google'')),
     (''orContinueWith'', Txt (''O contin'' @ [CHR 0xFA] @ ''a con tu correo'')),
     (''appName'', Txt (''Open GPS'')),
     (''version'', Txt (''v0.15.0'')),
     (''tagline'', Txt (''Rastrea cada dispositivo de tu flota, '')),
     (''taglineAccent'', Txt (''en tiempo real.'')),
     (''brandSubtitle'', Txt (''Rastreo GPS auto-hospedado para furgonetas de reparto, alquileres y equipos de campo '' @ [CHR 0x97] @ '' sin bloqueo de SaaS, sin reventa de datos.'')),
     (''svgStatus'', Txt (''EN VIVO  '' @ [CHR 0x95] @ ''  5 paradas  '' @ [CHR 0x95] @ ''  '' @ [CHR 0x81] @ '' en ruta'')),
     (''loading'', Txt (''Cargando'' @ [CHR 0x85])),
     (''footerHost'', Txt (''auth.open-gps.local'')),
     (''footerTech'', Txt (''hecho con Go + Astro'')),
     (''metaDescription'', Txt (''Open GPS '' @ [CHR 0xB7] @ '' Auth'')),
     (''rememberDevice'', Txt (''Recordar este dispositivo por 30 d'' @ [CHR 0xED] @ ''as'')),
     (''forgotPassword'', Txt ([CHR 0xBF] @ ''Olvidaste tu contrase'' @ [CHR 0xF1] @ ''a?'')),
     (''resetPassword'', Txt (''Restablecer contrase'' @ [CHR 0xF1] @ ''a'')),
     (''noAccount'', Txt ([CHR 0xBF] @ ''No tienes cuenta?'')),
     (''createOne'', Txt (''Crear una'')),
     (''firstAdminBadge'', Txt (''A'' @ [CHR 0xFA] @ ''n no hay cuentas '' @ [CHR 0x97] @ '' el primer inicio de sesi'' @ [CHR 0xF3] @ ''n ser'' @ [CHR 0xE1] @ '' el super admin.'')),
     (''loginFailed'', Txt (''No pudimos iniciar tu sesi'' @ [CHR 0xF3] @ ''n. Verifica tus credenciales e intenta de nuevo.'')),
     (''showPassword'', Txt (''Mostrar contrase'' @ [CHR 0xF1] @ ''a'')),
     (''hidePassword'', Txt (''Ocultar contrase'' @ [CHR 0xF1] @ ''a'')),
     (''emailPasswordRequired'', Txt (''El correo y la contrase'' @ [CHR 0xF1] @ ''a son obligatorios.'')),
     (''apiInspectorTitle'', Txt (''Vista previa de la solicitud'')),
     (''apiInspectorCookieNote'', Txt (''Establece la cookie authula.session_token (HttpOnly, SameSite=lax).'')),
     (''strengthLabel'', Txt (''Fortaleza'')),
     (''strengthTooShort'', Txt (''Muy corta'')),
     (''strengthWeak'', Txt (''D'' @ [CHR 0xE9] @ ''bil'')),
     (''strengthFair'', Txt (''Regular'')),
     (''strengthGood'', Txt (''Buena'')),
     (''strengthStrong'', Txt (''Fuerte'')),
     (''nameHelp'', Txt (''Opcional '' @ [CHR 0x97] @ '' solo se usa en tu perfil.'')),
     (''passwordHelp'', Txt (''Al menos 8 caracteres con may'' @ [CHR 0xFA] @ ''sculas y min'' @ [CHR 0xFA] @ ''sculas y un n'' @ [CHR 0xFA] @ ''mero o s'' @ [CHR 0xED] @ ''mbolo.'')),
     (''confirmPassword'', Txt (''Confirmar contrase'' @ [CHR 0xF1] @ ''a'')),
     (''passwordsDoNotMatch'', Txt (''Las contrase'' @ [CHR 0xF1] @ ''as no coinciden.'')),
     (''termsAgree'', Txt (''Acepto los'')),
     (''termsLabel'', Txt (''T'' @ [CHR 0xE9] @ ''rminos'')),
     (''privacyLabel'', Txt (''Pol'' @ [CHR 0xED] @ ''tica de Privacidad'')),
     (''creatingAccount'', Txt (''Creando cuenta'' @ [CHR 0x85])),
     (''orDivider'', Txt (''o'')),
     (''continueWithGoogle'', Txt (''Continuar con Google'')),
     (''firstAdminWelcome'', Txt (''Bienvenido '' @ [CHR 0x97] @ '' ser'' @ [CHR 0xE1] @ ''s el primer admin.'')),
     (''createAccountBadge'', Txt (''Crea tu cuenta'')),
     (''acceptTerms'', Txt (''Acepta los t'' @ [CHR 0xE9] @ ''rminos para continuar.'')),
     (''pickStrongerPassword'', Txt (''Elige una contrase'' @ [CHR 0xF1] @ ''a m'' @ [CHR 0xE1] @ ''s fuerte (mezcla may'' @ [CHR 0xFA] @ ''sculas y min'' @ [CHR 0xFA] @ ''sculas con n'' @ [CHR 0xFA] @ ''meros o s'' @ [CHR 0xED] @ ''mbolos).'')),
     (''signupFailed'', Txt (''No pudimos crear tu cuenta. Es posible que ese correo ya est'' @ [CHR 0xE9] @ '' registrado.'')),
     (''autoSignInNote'', Txt (''Auto-login: la respuesta establece la cookie de sesi'' @ [CHR 0xF3] @ ''n y devuelve 200 con el perfil del usuario.'')),
     (''changePassword'', Obj
       [(''title'', Txt (''Establece una nueva contrase'' @ [CHR 0xF1] @ ''a'')),
        (''subtitle'', Txt (''Debes cambiar tu contrase'' @ [CHR 0xF1] @ ''a antes de continuar.'')),
        (''description'', Txt (''Tu cuenta fue creada con una contrase'' @ [CHR 0xF1] @ ''a temporal. Elige una nueva para terminar de iniciar sesi'' @ [CHR 0xF3] @ ''n.'')),
        (''currentPassword'', Txt (''Contrase'' @ [CHR 0xF1] @ ''a actual'')),
        (''currentPlaceholder'', Txt (''Contrase'' @ [CHR 0xF1] @ ''a temporal de tu administrador'')),
        (''newPlaceholder'', Txt (''Elige una nueva contrase'' @ [CHR 0xF1] @ ''a'')),
        (''confirmPlaceholder'', Txt (''Escribe la nueva contrase'' @ [CHR 0xF1] @ ''a otra vez'')),
        (''submit'', Txt (''Actualizar contrase'' @ [CHR 0xF1] @ ''a'')),
        (''submitting'', Txt (''Actualizando'' @ [CHR 0x85])),
        (''errorWrongPassword'', Txt (''Esa contrase'' @ [CHR 0xF1] @ ''a es incorrecta.'')),
        (''errorWeakPassword'', Txt (''Esa contrase'' @ [CHR 0xF1] @ ''a es demasiado corta o d'' @ [CHR 0xE9] @ ''bil. Usa 8+ caracteres con may'' @ [CHR 0xFA] @ ''sculas y min'' @ [CHR 0xFA] @ ''sculas y un n'' @ [CHR 0xFA] @ ''mero o s'' @ [CHR 0xED] @ ''mbolo.'')),
        (''errorGeneric'', Txt (''No pudimos actualizar tu contrase'' @ [CHR 0xF1] @ ''a. Int'' @ [CHR 0xE9] @ ''ntalo de nuevo.''))])]"

definition es_auth_part2 :: "(string \<times> dict) list" where
  "es_auth_part2 =
    [(''passwordRecovery'', Obj
       [(''badge'', Txt (''Olvid'' @ [CHR 0xE9] @ '' mi contrase'' @ [CHR 0xF1] @ ''a'')),
        (''title'', Txt (''Restablece tu contrase'' @ [CHR 0xF1] @ ''a'')),
        (''sentTitle'', Txt (''Enlace de recuperaci'' @ [CHR 0xF3] @ ''n enviado'')),
        (''subtitle'', Txt (''Ingresa el correo con el que te registraste. Te enviaremos un enlace de un solo uso v'' @ [CHR 0xE1] @ ''lido por 15 minutos '' @ [CHR 0x97] @ '' nadie m'' @ [CHR 0xE1] @ ''s podr'' @ [CHR 0xE1] @ '' usarlo.'')),
        (''sentSubtitle'', Txt (''Si existe una cuenta con ese correo, ya va en camino un mensaje. '' @ [CHR 0xC1] @ ''brelo en este dispositivo para continuar.'')),
        (''emailLabel'', Txt (''Correo de la cuenta'')),
        (''emailHelp'', Txt (''El enlace se enviar'' @ [CHR 0xE1] @ '' solo a este correo. Nunca confirmamos si una cuenta existe.'')),
        (''submit'', Txt (''Enviar enlace de recuperaci'' @ [CHR 0xF3] @ ''n'')),
        (''submitting'', Txt (''Enviando enlace'' @ [CHR 0x85])),
        (''backToLogin'', Txt (''Volver a iniciar sesi'' @ [CHR 0xF3] @ ''n'')),
        (''sentTitlePrefix'', Txt (''Enviamos un enlace de recuperaci'' @ [CHR 0xF3] @ ''n a'')),
        (''copyEmail'', Txt (''Copiar'')),
        (''copiedEmail'', Txt (''Copiado'')),
        (''useDifferentEmail'', Txt (''Usar otro correo'')),
        (''expiresIn'', Txt (''Expira en'')),
        (''singleUseToken'', Txt (''Token de un solo uso'')),
        (''resendPrompt'', Txt ([CHR 0xBF] @ ''No lleg'' @ [CHR 0xF3] @ ''? Revisa el spam y luego:'')),
        (''resendCta'', Txt (''Reenviar el correo'')),
        (''resendResent'', Txt (''Reenviado '' @ [CHR 0xB7] @ '' revisa la bandeja'')),
        (''resendCooldown'', Txt (''Reenviar en'')),
        (''mailHelper'', Txt (''Abre tu app de correo:'')),
        (''mailApple'', Txt (''Apple Mail'')),
        (''mailGmail'', Txt (''Gmail'')),
        (''mailOutlook'', Txt (''Outlook'')),
        (''identityFrom'', Txt (''De'')),
        (''identityFromValue'', Txt (''no-reply@open-gps.local'')),
        (''identityFromBadge'', Txt (''verificado'')),
        (''identitySubject'', Txt (''Asunto'')),
        (''identitySubjectValue'', Txt (''Restablece tu contrase'' @ [CHR 0xF1] @ ''a de Open GPS'')),
        (''identityReplyTo'', Txt (''Responder a'')),
        (''identityReplyToValue'', Txt ([CHR 0x97] @ '' (monitoreado, no responder)'')),
        (''emailRequired'', Txt (''El correo es obligatorio'')),
        (''emailInvalid'', Txt (''Eso no parece un correo v'' @ [CHR 0xE1] @ ''lido.'')),
        (''requestFailed'', Txt (''No pudimos enviar el enlace de recuperaci'' @ [CHR 0xF3] @ ''n. Int'' @ [CHR 0xE9] @ ''ntalo de nuevo en un momento.'')),
        (''apiInspectorBody'', Obj
          [(''email'', Txt (''tu@empresa.com'')),
           (''redirectPath'', Txt (''/reset-password?token=''))]),
        (''rateLimitNote'', Txt (''Establece un cubo authula.rate_limit de corta duraci'' @ [CHR 0xF3] @ ''n (5 / hora) '' @ [CHR 0x97] @ '' misma respuesta exista o no la cuenta.'')),
        (''reset'', Obj
          [(''badge'', Txt (''Elige una nueva contrase'' @ [CHR 0xF1] @ ''a'')),
           (''title'', Txt (''Establece una nueva contrase'' @ [CHR 0xF1] @ ''a'')),
           (''subtitle'', Txt (''Usa una contrase'' @ [CHR 0xF1] @ ''a segura para proteger tu cuenta de Open GPS.'')),
           (''newPassword'', Txt (''Nueva contrase'' @ [CHR 0xF1] @ ''a'')),
           (''newPasswordPlaceholder'', Txt (''Elige una nueva contrase'' @ [CHR 0xF1] @ ''a'')),
           (''confirmPassword'', Txt (''Confirma la nueva contrase'' @ [CHR 0xF1] @ ''a'')),
           (''confirmPasswordPlaceholder'', Txt (''Escribe la contrase'' @ [CHR 0xF1] @ ''a otra vez'')),
           (''submit'', Txt (''Restablecer contrase'' @ [CHR 0xF1] @ ''a'')),
           (''submitting'', Txt (''Restableciendo contrase'' @ [CHR 0xF1] @ ''a'' @ [CHR 0x85])),
           (''successTitle'', Txt (''Contrase'' @ [CHR 0xF1] @ ''a restablecida'')),
           (''successMessage'', Txt (''Tu contrase'' @ [CHR 0xF1] @ ''a se actualiz'' @ [CHR 0xF3] @ ''. Ser'' @ [CHR 0xE1] @ ''s redirigido a la p'' @ [CHR 0xE1] @ ''gina de inicio de sesi'' @ [CHR 0xF3] @ ''n en 3 segundos.'')),
           (''missingTokenTitle'', Txt (''Vaya, no encontramos el enlace de restablecimiento'')),
           (''missingTokenMessage'', Txt (''Esta p'' @ [CHR 0xE1] @ ''gina necesita el enlace recibido por correo. Solicita uno nuevo para continuar.'')),
           (''invalidTokenTitle'', Txt (''Vaya, este enlace de restablecimiento ya no es v'' @ [CHR 0xE1] @ ''lido'')),
           (''invalidTokenMessage'', Txt (''El enlace puede haber expirado o ya se utiliz'' @ [CHR 0xF3] @ ''. Solicita un nuevo enlace para continuar.'')),
           (''resetFailed'', Txt (''No pudimos restablecer tu contrase'' @ [CHR 0xF1] @ ''a. Int'' @ [CHR 0xE9] @ ''ntalo de nuevo en un momento.'')),
           (''backToLogin'', Txt (''Volver a iniciar sesi'' @ [CHR 0xF3] @ ''n''))])]),
     (''recoveryBrand'', Obj
       [(''tagline'', Txt (''Recupera el acceso. '')),
        (''taglineAccent'', Txt (''Sin perder la confianza.'')),
        (''subtitle'', Txt (''Los recuperaci'' @ [CHR 0xF3] @ ''ns auto-hospedados se firman con un token de un solo uso, se auditan en auth.events, y t'' @ [CHR 0xFA] @ '' controlas el TTL y las listas de IP permitidas.'')),
        (''svgStatus'', Txt (''RECUPERACI'' @ [CHR 0xD3] @ ''N  '' @ [CHR 0xB7] @ ''  4 saltos  '' @ [CHR 0xB7] @ ''  '' @ [CHR 0x81] @ '' token en vuelo'')),
        (''svgTtl'', Txt (''ttl 15m'')),
        (''footerSection'', Txt (''recuperaci'' @ [CHR 0xF3] @ ''n de cuenta'')),
        (''step1'', Txt (''Verificar identidad'')),
        (''step2'', Txt (''Restablecer contrase'' @ [CHR 0xF1] @ ''a'')),
        (''step3'', Txt (''Iniciar sesi'' @ [CHR 0xF3] @ ''n''))])]"

definition es_auth :: "dict" where
  "es_auth =
    Obj (es_auth_part1 @ es_auth_part2)"

definition es_profile :: "dict" where
  "es_profile =
    Obj
    [(''title'', Txt (''Mi perfil'')),
     (''eyebrow'', Txt (''Usuario'')),
     (''subtitle'', Txt (''Consulta y actualiza la informaci'' @ [CHR 0xF3] @ ''n de tu cuenta y el acceso a dispositivos.'')),
     (''refresh'', Txt (''Actualizar'')),
     (''editProfile'', Txt (''Editar perfil'')),
     (''loading'', Txt (''Cargando perfil'' @ [CHR 0x85])),
     (''failedToLoad'', Txt (''Perfil no disponible'')),
     (''failedToLoadDescription'', Txt (''No se pudo cargar tu perfil. Int'' @ [CHR 0xE9] @ ''ntalo de nuevo.'')),
     (''retry'', Txt (''Reintentar'')),
     (''joined'', Txt (''Desde'')),
     (''id'', Txt (''ID'')),
     (''roles'', Obj
       [(''user'', Txt (''Usuario'')),
        (''superAdmin'', Txt (''Super admin''))]),
     (''account'', Obj
       [(''title'', Txt (''Informaci'' @ [CHR 0xF3] @ ''n de la cuenta'')),
        (''description'', Txt (''Datos de identidad y contacto de esta cuenta.'')),
        (''fullName'', Txt (''Nombre completo'')),
        (''email'', Txt (''Correo'')),
        (''verified'', Txt (''Verificado'')),
        (''unverified'', Txt (''Sin verificar'')),
        (''role'', Txt (''Rol'')),
        (''memberSince'', Txt (''Miembro desde'')),
        (''userId'', Txt (''ID de usuario'')),
        (''readOnlyNote'', Txt (''Los cambios de correo y rol deben ser gestionados por un administrador.''))]),
     (''devices'', Obj
       [(''title'', Txt (''Acceso a dispositivos'')),
        (''description'', Txt (''Dispositivos disponibles para esta cuenta.'')),
        (''empty'', Txt (''No hay dispositivos asignados a esta cuenta.'')),
        (''summary'', Txt (''Mostrando {shown} de {total} dispositivos.''))]),
     (''edit'', Obj
       [(''title'', Txt (''Editar perfil'')),
        (''subtitle'', Txt (''Actualiza tu nombre. El correo y el rol los gestiona tu administrador.'')),
        (''firstName'', Txt (''Nombre'')),
        (''lastName'', Txt (''Apellido'')),
        (''required'', Txt (''Este campo es obligatorio.'')),
        (''cancel'', Txt (''Cancelar'')),
        (''save'', Txt (''Guardar cambios'')),
        (''saving'', Txt (''Guardando'' @ [CHR 0x85])),
        (''savedTitle'', Txt (''Perfil actualizado'')),
        (''saved'', Txt (''Tu perfil se actualiz'' @ [CHR 0xF3] @ '' correctamente.'')),
        (''updateFailed'', Txt (''No se pudo actualizar tu perfil. Int'' @ [CHR 0xE9] @ ''ntalo de nuevo.''))])]"

definition es_settings :: "dict" where
  "es_settings =
    Obj
    [(''title'', Txt (''Ajustes'')),
     (''eyebrow'', Txt (''Preferencias personales'')),
     (''intro'', Txt (''Personaliza c'' @ [CHR 0xF3] @ ''mo ves y usas tu espacio de seguimiento.'')),
     (''saved'', Txt (''Cambios guardados'')),
     (''appearance'', Txt (''Apariencia'')),
     (''appearanceSub'', Txt (''Controla el aspecto de la aplicaci'' @ [CHR 0xF3] @ ''n y la navegaci'' @ [CHR 0xF3] @ ''n.'')),
     (''theme'', Txt (''Tema'')),
     (''themeHint'', Txt (''Elige el tema que resulte m'' @ [CHR 0xE1] @ ''s c'' @ [CHR 0xF3] @ ''modo para ti.'')),
     (''light'', Txt (''Claro'')),
     (''dark'', Txt (''Oscuro'')),
     (''language'', Txt (''Idioma'')),
     (''languageHint'', Txt (''Selecciona el idioma de la interfaz.'')),
     (''languageEnglish'', Txt (''Ingl'' @ [CHR 0xE9] @ ''s'')),
     (''languageSpanish'', Txt (''Espa'' @ [CHR 0xF1] @ ''ol'')),
     (''sidebarState'', Txt (''Estado inicial del men'' @ [CHR 0xFA] @ '' lateral'')),
     (''sidebarHint'', Txt (''Decide si el men'' @ [CHR 0xFA] @ '' aparece abierto al entrar en la aplicaci'' @ [CHR 0xF3] @ ''n.'')),
     (''expanded'', Txt (''Abierto'')),
     (''collapsed'', Txt (''Cerrado'')),
     (''motion'', Txt (''Reducir animaciones'')),
     (''motionHint'', Txt (''Reduce transiciones y movimientos no esenciales.'')),
     (''on'', Txt (''Activado'')),
     (''off'', Txt (''Desactivado'')),
     (''display'', Txt (''Visualizaci'' @ [CHR 0xF3] @ ''n'')),
     (''displaySub'', Txt (''Define los valores iniciales de tus vistas de seguimiento.'')),
     (''history'', Txt (''Rango temporal predeterminado'')),
     (''historyHint'', Txt (''Se usar'' @ [CHR 0xE1] @ '' al abrir un historial de ubicaciones.'')),
     (''lastHour'', Txt ([CHR 0xDA] @ ''ltima hora'')),
     (''lastSixHours'', Txt ([CHR 0xDA] @ ''ltimas 6 horas'')),
     (''lastDay'', Txt ([CHR 0xDA] @ ''ltimas 24 horas'')),
     (''lastWeek'', Txt ([CHR 0xDA] @ ''ltimos 7 d'' @ [CHR 0xED] @ ''as'')),
     (''landing'', Txt (''P'' @ [CHR 0xE1] @ ''gina inicial despu'' @ [CHR 0xE9] @ ''s de iniciar sesi'' @ [CHR 0xF3] @ ''n'')),
     (''landingHint'', Txt (''Elige la secci'' @ [CHR 0xF3] @ ''n que quieres ver primero.'')),
     (''dashboard'', Txt (''Panel'')),
     (''devices'', Txt (''Dispositivos'')),
     (''density'', Txt (''Densidad de la informaci'' @ [CHR 0xF3] @ ''n'')),
     (''densityHint'', Txt (''Controla cu'' @ [CHR 0xE1] @ ''nto contenido se muestra en las tablas.'')),
     (''comfortable'', Txt (''C'' @ [CHR 0xF3] @ ''moda'')),
     (''compact'', Txt (''Compacta'')),
     (''region'', Txt (''Regi'' @ [CHR 0xF3] @ ''n y unidades'')),
     (''regionSub'', Txt (''Ajusta fechas, horas y medidas para que coincidan con tu contexto.'')),
     (''timezone'', Txt (''Zona horaria'')),
     (''timezoneHint'', Txt (''Se usar'' @ [CHR 0xE1] @ '' para mostrar fechas y consultar el historial de ubicaciones.'')),
     (''units'', Txt (''Sistema de unidades'')),
     (''unitsHint'', Txt (''Define c'' @ [CHR 0xF3] @ ''mo se muestran velocidad, distancia y altitud.'')),
     (''metric'', Txt (''M'' @ [CHR 0xE9] @ ''trico'')),
     (''imperial'', Txt (''Imperial'')),
     (''timeFormat'', Txt (''Formato de hora'')),
     (''timeHint'', Txt (''Afecta las horas mostradas en el historial y la actividad.'')),
     (''hours12'', Txt (''12 horas'')),
     (''hours24'', Txt (''24 horas'')),
     (''account'', Txt (''Cuenta y seguridad'')),
     (''accountSub'', Txt (''Administra los datos de tu cuenta y sus credenciales.'')),
     (''profileAction'', Txt (''Editar perfil'')),
     (''profileHint'', Txt (''Actualiza tu identidad y revisa tu informaci'' @ [CHR 0xF3] @ ''n personal desde Perfil.'')),
     (''editProfile'', Txt (''Editar perfil'')),
     (''changePassword'', Txt (''Cambiar contrase'' @ [CHR 0xF1] @ ''a'')),
     (''email'', Txt (''Correo electr'' @ [CHR 0xF3] @ ''nico'')),
     (''readOnly'', Txt (''Solo lectura'')),
     (''accountSummary'', Txt (''Tu cuenta'')),
     (''accountSummaryText'', Txt (''Preferencias personales para tu espacio de seguimiento.'')),
     (''role'', Txt (''Rol'')),
     (''created'', Txt (''Creada'')),
     (''user'', Txt (''Usuario'')),
     (''superAdmin'', Txt (''Super admin'')),
     (''reset'', Txt (''Restablecer preferencias'')),
     (''comingSoon'', Txt (''M'' @ [CHR 0xE1] @ ''s preferencias pr'' @ [CHR 0xF3] @ ''ximamente'')),
     (''comingSoonText'', Txt (''Las alertas y preferencias avanzadas estar'' @ [CHR 0xE1] @ ''n disponibles cuando estas funciones est'' @ [CHR 0xE9] @ ''n conectadas.'')),
     (''localNote'', Txt (''Las preferencias se guardan en este navegador.''))]"

definition es_page_part1 :: "(string \<times> dict) list" where
  "es_page_part1 =
    [(''home'', Obj
       [(''title'', Txt (''Inicio'')),
        (''eyebrow'', Txt (''Tu espacio de rastreo'')),
        (''heading'', Txt (''Nunca pierdas de vista tus dispositivos.'')),
        (''sub'', Txt (''Open GPS mantiene la ubicaci'' @ [CHR 0xF3] @ ''n en vivo, el historial y el acceso en un solo lugar, en infraestructura que t'' @ [CHR 0xFA] @ '' controlas.'')),
        (''actions'', Obj
          [(''viewDevices'', Txt (''Ver dispositivos''))]),
        (''live'', Obj
          [(''title'', Txt (''Resumen en vivo'')),
           (''sub'', Txt (''Una lectura r'' @ [CHR 0xE1] @ ''pida de tu flota conectada.'')),
           (''status'', Txt (''Flujo conectado'')),
           (''sample'', Txt (''Datos de ejemplo'')),
           (''mapAlt'', Txt (''Mapa ilustrado de una ruta con tres posiciones de dispositivos conectados'')),
           (''mapLabels'', Obj
             [(''northLoop'', Txt (''ANILLO NORTE'')),
              (''eastDepot'', Txt (''DEP'' @ [CHR 0xD3] @ ''SITO ESTE'')),
              (''cityCentre'', Txt (''CENTRO CIUDAD''))]),
           (''cardTitle'', Txt (''Furgoneta 04 '' @ [CHR 0xB7] @ '' En movimiento'')),
           (''cardMeta'', Txt ([CHR 0xDA] @ ''ltima actualizaci'' @ [CHR 0xF3] @ ''n hace 12 s'')),
           (''legendRoute'', Txt (''Ruta reciente'')),
           (''legendNode'', Txt (''Dispositivo en l'' @ [CHR 0xED] @ ''nea'')),
           (''legendSse'', Txt (''Actualizaciones SSE en vivo''))]),
        (''features'', Obj
          [(''presence'', Obj
             [(''title'', Txt (''Presencia en tiempo real'')),
              (''desc'', Txt (''Un solo flujo SSE mantiene actualizados los estados en movimiento, detenido, desconectado y nunca visto.'')),
              (''link'', Txt (''Abrir rastreo en vivo''))]),
           (''history'', Obj
             [(''title'', Txt (''Historial que puedes inspeccionar'')),
              (''desc'', Txt (''Reproduce rutas en un mapa interactivo y exporta el rastro exacto en CSV.'')),
              (''link'', Txt (''Explorar informes''))]),
           (''sharing'', Obj
             [(''title'', Txt (''Comparte sin entregar acceso'')),
              (''desc'', Txt (''Crea enlaces de solo lectura que expiran despu'' @ [CHR 0xE9] @ ''s de 1, 2, 4 u 8 horas.'')),
              (''link'', Txt (''Ver opciones de compartir''))])]),
        (''capabilities'', Obj
          [(''code'', Txt (''Lo que puedes hacer'')),
           (''heading'', Txt (''Pensado para la forma en que realmente trabaja el rastreo.'')),
           (''desc'', Txt (''Empieza con el mapa en vivo y pasa de la ubicaci'' @ [CHR 0xF3] @ ''n al contexto, los informes y el acceso controlado.'')),
           (''reports'', Obj
             [(''title'', Txt (''Informes con forma '' @ [CHR 0xFA] @ ''til'')),
              (''desc'', Txt (''Secciones de resumen, salud, calidad y rutas con filtros m'' @ [CHR 0xE1] @ ''s exportaci'' @ [CHR 0xF3] @ ''n CSV y GPX.'')),
              (''foot'', Txt (''resumen '' @ [CHR 0xB7] @ '' salud '' @ [CHR 0xB7] @ '' rutas'')),
              (''link'', Txt (''Abrir informes''))]),
           (''access'', Obj
             [(''title'', Txt (''Acceso a nivel de dispositivo'')),
              (''desc'', Txt (''Los roles y los permisos por dispositivo mantienen la colaboraci'' @ [CHR 0xF3] @ ''n clara, mientras las claves de API manejan la ingesta.'')),
              (''foot'', Txt (''propietario '' @ [CHR 0xB7] @ '' editor '' @ [CHR 0xB7] @ '' visor'')),
              (''link'', Txt (''Gestionar acceso''))]),
           (''local'', Obj
             [(''title'', Txt (''Hecho para seguir siendo tuyo'')),
              (''desc'', Txt (''C'' @ [CHR 0xF3] @ ''digo abierto, licencia MIT y autoalojado con historial de ubicaciones de solo inserci'' @ [CHR 0xF3] @ ''n.'')),
              (''foot'', Txt (''retenci'' @ [CHR 0xF3] @ ''n de 12 meses'')),
              (''link'', Txt (''Acerca de Open GPS''))])]),
        (''ownership'', Obj
          [(''eyebrow'', Txt (''Tu infraestructura'')),
           (''heading'', Txt (''Rastreo que responde a tu equipo.'')),
           (''desc'', Txt (''Mant'' @ [CHR 0xE9] @ ''n los datos de ubicaci'' @ [CHR 0xF3] @ ''n en tu servidor, elige qui'' @ [CHR 0xE9] @ ''n puede ver cada dispositivo y comparte solo lo que un invitado necesita.'')),
           (''cta'', Txt (''Revisar ajustes del espacio''))]),
        (''protocol'', Obj
          [(''title'', Txt (''De un vistazo'')),
           (''rows'', Arr
             [Obj
                [(''label'', Txt (''Idiomas'')),
                 (''value'', Txt (''EN / ES''))],
              Obj
                [(''label'', Txt (''Modos de tema'')),
                 (''value'', Txt (''CLARO / OSCURO''))],
              Obj
                [(''label'', Txt (''Ingesta'')),
                 (''value'', Txt (''CLAVES DE API''))],
              Obj
                [(''label'', Txt (''Autenticaci'' @ [CHR 0xF3] @ ''n'')),
                 (''value'', Txt (''CONTRASE'' @ [CHR 0xD1] @ ''A / GOOGLE''))]])]),
        (''footer'', Obj
          [(''left'', Txt (''Open GPS '' @ [CHR 0xB7] @ '' rastreo en tiempo real autoalojado'')),
           (''right'', Txt (''Espacio de trabajo / Inicio''))])]),
     (''devices'', Obj
       [(''title'', Txt (''Dispositivos'')),
        (''subtitle'', Txt (''Gestiona tus dispositivos GPS''))]),
     (''deviceDetail'', Obj
       [(''title'', Txt (''Dispositivo'')),
        (''notFound'', Txt (''Dispositivo no encontrado''))]),
     (''liveTracking'', Obj
       [(''title'', Txt (''Rastreo en directo''))]),
     (''admin'', Obj
       [(''title'', Txt (''Panel de Administraci'' @ [CHR 0xF3] @ ''n'')),
        (''subtitle'', Txt (''Gestiona usuarios y ajustes del sistema''))]),
     (''users'', Obj
       [(''title'', Txt (''Usuarios y roles'')),
        (''subtitle'', Txt (''Gestiona el acceso de usuarios, roles y la incorporaci'' @ [CHR 0xF3] @ ''n a la plataforma Open GPS.''))]),
     (''access'', Obj
       [(''title'', Txt (''Acceso'')),
        (''subtitle'', Txt (''Emite y revoca claves de API para tus dispositivos.''))])]"

definition es_page_reports_part1 :: "(string \<times> dict) list" where
  "es_page_reports_part1 =
    [(''title'', Txt (''Informes'')),
     (''subtitle'', Txt (''Comprende la actividad, los recorridos y la calidad de los datos de tus dispositivos.'')),
     (''eyebrow'', Txt (''An'' @ [CHR 0xE1] @ ''lisis de dispositivos'')),
     (''refresh'', Txt (''Actualizar informe'')),
     (''loading'', Txt (''Cargando datos del informe'' @ [CHR 0x85])),
     (''retry'', Txt (''Reintentar'')),
     (''noData'', Txt (''No hay datos disponibles'')),
     (''loadError'', Txt (''No se pudo cargar esta secci'' @ [CHR 0xF3] @ ''n'')),
     (''authorizedDevices'', Txt (''dispositivos autorizados'')),
     (''estimated'', Txt (''Estimado'')),
     (''longestGap'', Txt (''Mayor interrupci'' @ [CHR 0xF3] @ ''n de reportes'')),
     (''display'', Txt (''visibles'')),
     (''changeFilters'', Txt (''Cambiar filtros'')),
     (''updated'', Txt (''Informe actualizado'')),
     (''filters'', Obj
       [(''period'', Txt (''Per'' @ [CHR 0xED] @ ''odo'')),
        (''timezone'', Txt (''Zona horaria'')),
        (''devices'', Txt (''Dispositivos'')),
        (''vehicleType'', Txt (''Tipo de veh'' @ [CHR 0xED] @ ''culo'')),
        (''custom'', Txt (''Personalizado'')),
        (''lastHour'', Txt ([CHR 0xDA] @ ''ltima hora'')),
        (''lastSixHours'', Txt ([CHR 0xDA] @ ''ltimas 6 horas'')),
        (''lastDay'', Txt ([CHR 0xDA] @ ''ltimas 24 horas'')),
        (''lastWeek'', Txt ([CHR 0xDA] @ ''ltimos 7 d'' @ [CHR 0xED] @ ''as'')),
        (''selectedDevices'', Txt (''2 dispositivos seleccionados'')),
        (''allDevices'', Txt (''Todos los dispositivos'')),
        (''allVehicleTypes'', Txt (''Todos los tipos'')),
        (''timezoneHint'', Txt (''Las fechas se interpretan en esta zona horaria.'')),
        (''deviceHint'', Txt (''Solo dispositivos a los que tienes acceso.'')),
        (''retentionNote'', Txt (''Las ubicaciones disponibles se conservan durante un m'' @ [CHR 0xE1] @ ''ximo de 12 meses.'')),
        (''lastUpdated'', Txt ([CHR 0xDA] @ ''ltima actualizaci'' @ [CHR 0xF3] @ ''n'')),
        (''invalidDate'', Txt (''La fecha inicial debe ser anterior a la fecha final.'')),
        (''from'', Txt (''Desde'')),
        (''to'', Txt (''Hasta''))]),
     (''status'', Obj
       [(''available'', Txt (''Datos disponibles'')),
        (''good'', Txt (''Buena'')),
        (''review'', Txt (''Revisar'')),
        (''insufficient'', Txt (''Datos insuficientes'')),
        (''complete'', Txt (''Completa'')),
        (''incomplete'', Txt (''Incompleto''))]),
     (''vehicles'', Obj
       [(''bicycle'', Txt (''Bicicleta'')),
        (''motorcycle'', Txt (''Motocicleta'')),
        (''car'', Txt (''Autom'' @ [CHR 0xF3] @ ''vil'')),
        (''truck'', Txt (''Cami'' @ [CHR 0xF3] @ ''n'')),
        (''van'', Txt (''Furgoneta'')),
        (''other'', Txt (''Otro''))]),
     (''kpis'', Obj
       [(''activity'', Txt (''Dispositivos con actividad'')),
        (''points'', Txt (''Puntos recibidos'')),
        (''distance'', Txt (''Distancia estimada'')),
        (''lastReport'', Txt ([CHR 0xDA] @ ''ltimo reporte'')),
        (''mostActive'', Txt (''Mayor actividad'')),
        (''interruption'', Txt (''Mayor interrupci'' @ [CHR 0xF3] @ ''n''))]),
     (''units'', Obj
       [(''devices'', Txt (''dispositivos'')),
        (''points'', Txt (''puntos'')),
        (''kilometers'', Txt (''km'')),
        (''localTime'', Txt (''hora local'')),
        (''minutes'', Txt (''minutos'')),
        (''speed'', Txt (''km/h'')),
        (''pointsShort'', Txt (''puntos''))]),
     (''overview'', Obj
       [(''title'', Txt (''Resumen'')),
        (''description'', Txt (''Una vista general de la actividad registrada durante el per'' @ [CHR 0xED] @ ''odo seleccionado.'')),
        (''activityTitle'', Txt (''Actividad en el tiempo'')),
        (''activityDescription'', Txt (''Volumen de reportes recibidos por dispositivo.'')),
        (''receivedPoints'', Txt (''Puntos recibidos'')),
        (''quickRead'', Txt (''Lectura r'' @ [CHR 0xE1] @ ''pida'')),
        (''peakActivity'', Txt (''Pico de actividad'')),
        (''totalPerHour'', Txt (''Total por hora'')),
        (''activeDevices'', Txt (''Dispositivos activos'')),
        (''devicesWithActivity'', Txt (''Dispositivos con actividad'')),
        (''devicesDescription'', Txt (''Detalle de actividad y continuidad durante el per'' @ [CHR 0xED] @ ''odo.'')),
        (''viewAll'', Txt (''Ver todos'')),
        (''device'', Txt (''Dispositivo'')),
        (''vehicle'', Txt (''Tipo de veh'' @ [CHR 0xED] @ ''culo'')),
        (''points'', Txt (''Puntos recibidos'')),
        (''distance'', Txt (''Distancia estimada'')),
        (''firstReport'', Txt (''Primer reporte'')),
        (''lastReport'', Txt ([CHR 0xDA] @ ''ltimo reporte'')),
        (''continuity'', Txt (''Continuidad'')),
        (''viewReport'', Txt (''Ver informe''))]),
     (''routes'', Obj
       [(''title'', Txt (''Recorridos'')),
        (''description'', Txt (''Explora recorridos estimados a partir de los puntos GPS recibidos.'')),
        (''disclaimer'', Txt (''Las distancias y las paradas son estimaciones basadas en datos GPS.'')),
        (''viewRoute'', Txt (''Ver recorrido'')),
        (''selectedRoute'', Txt (''Ruta seleccionada'')),
        (''duration'', Txt (''Duraci'' @ [CHR 0xF3] @ ''n'')),
        (''distance'', Txt (''Distancia estimada'')),
        (''averageSpeed'', Txt (''Velocidad media'')),
        (''maximumSpeed'', Txt (''Velocidad m'' @ [CHR 0xE1] @ ''xima'')),
        (''routePoints'', Txt (''Puntos de ruta'')),
        (''coordinates'', Txt (''Coordenadas'')),
        (''simplified'', Txt (''La ruta mostrada est'' @ [CHR 0xE1] @ '' simplificada para mejorar el rendimiento; las m'' @ [CHR 0xE9] @ ''tricas usan el conjunto completo de datos.'')),
        (''interruption'', Txt (''La ruta contiene interrupciones de datos.''))])]"

definition es_page_reports_part2 :: "(string \<times> dict) list" where
  "es_page_reports_part2 =
    [(''health'', Obj
       [(''title'', Txt (''Salud del dispositivo'')),
        (''description'', Txt (''Revisa la telemetr'' @ [CHR 0xED] @ ''a disponible y la regularidad de los reportes.'')),
        (''disclaimer'', Txt (''La disponibilidad depende del hardware y firmware del dispositivo.'')),
        (''recentContact'', Txt (''Contacto reciente'')),
        (''noOptionalTelemetry'', Txt (''Sin telemetr'' @ [CHR 0xED] @ ''a opcional'')),
        (''lastContact'', Txt ([CHR 0xDA] @ ''ltimo contacto'')),
        (''battery'', Txt (''Voltaje de bater'' @ [CHR 0xED] @ ''a'')),
        (''averageBattery'', Txt (''Promedio bater'' @ [CHR 0xED] @ ''a'')),
        (''signal'', Txt (''Se'' @ [CHR 0xF1] @ ''al celular'')),
        (''gpsAccuracy'', Txt (''Precisi'' @ [CHR 0xF3] @ ''n GPS media'')),
        (''reports'', Txt (''Reportes'')),
        (''missingBattery'', Txt (''Este dispositivo no ha enviado voltaje de bater'' @ [CHR 0xED] @ ''a.'')),
        (''missingSignal'', Txt (''Este dispositivo no ha enviado intensidad de se'' @ [CHR 0xF1] @ ''al.'')),
        (''telemetryTrend'', Txt (''Tendencia de telemetr'' @ [CHR 0xED] @ ''a'')),
        (''trendDescription'', Txt (''Los intervalos sin datos no se conectan como mediciones continuas.'')),
        (''batteryMetric'', Txt (''Voltaje '' @ [CHR 0xB7] @ '' V'')),
        (''signalMetric'', Txt (''Se'' @ [CHR 0xF1] @ ''al '' @ [CHR 0xB7] @ '' CSQ'')),
        (''gpsMetric'', Txt (''Precisi'' @ [CHR 0xF3] @ ''n '' @ [CHR 0xB7] @ '' m'')),
        (''trendReading'', Txt (''Lectura de la tendencia'')),
        (''trendSummary'', Txt (''Se muestran intervalos con telemetr'' @ [CHR 0xED] @ ''a disponible para 2 dispositivos.''))]),
     (''quality'', Obj
       [(''title'', Txt (''Calidad de datos'')),
        (''description'', Txt (''Identifica interrupciones, datos incompletos y lecturas GPS poco fiables.'')),
        (''averageInterval'', Txt (''Intervalo medio entre reportes'')),
        (''largestInterruption'', Txt (''Mayor interrupci'' @ [CHR 0xF3] @ ''n'')),
        (''incompleteRecords'', Txt (''Registros incompletos'')),
        (''coordinateJumps'', Txt (''Saltos de coordenadas'')),
        (''period'', Txt (''Durante el per'' @ [CHR 0xED] @ ''odo'')),
        (''optionalMissing'', Txt (''Telemetr'' @ [CHR 0xED] @ ''a opcional ausente'')),
        (''requiresReview'', Txt (''Requieren revisi'' @ [CHR 0xF3] @ ''n'')),
        (''quality'', Txt (''Calidad GPS'')),
        (''state'', Txt (''Estado'')),
        (''continuityDisclaimer'', Txt (''Este informe describe la continuidad de los datos recibidos; no representa un historial exacto de disponibilidad del dispositivo.''))]),
     (''export'', Obj
       [(''title'', Txt (''Exportar informes'')),
        (''description'', Txt (''El archivo respetar'' @ [CHR 0xE1] @ '' los filtros y permisos actuales. La exportaci'' @ [CHR 0xF3] @ ''n puede tardar en per'' @ [CHR 0xED] @ ''odos amplios.'')),
        (''csv'', Txt (''Exportar CSV'')),
        (''gpx'', Txt (''Exportar GPX'')),
        (''preparing'', Txt (''Preparando exportaci'' @ [CHR 0xF3] @ ''n {type}'' @ [CHR 0x85])),
        (''ready'', Txt (''La exportaci'' @ [CHR 0xF3] @ ''n est'' @ [CHR 0xE1] @ '' lista.''))])]"

definition es_page_reports :: "dict" where
  "es_page_reports =
    Obj (es_page_reports_part1 @ es_page_reports_part2)"

definition es_page_part2 :: "(string \<times> dict) list" where
  "es_page_part2 =
    [(''reports'', es_page_reports)]"

definition es_page :: "dict" where
  "es_page =
    Obj (es_page_part1 @ es_page_part2)"

definition es_noAccess :: "dict" where
  "es_noAccess =
    Obj
    [(''title'', Txt ([CHR 0xC1] @ ''rea restringida'')),
     (''body'', Txt (''No tienes permiso para ver esta p'' @ [CHR 0xE1] @ ''gina. Si crees que se trata de un error, contacta con un administrador del espacio de trabajo.'')),
     (''backCta'', Txt (''Volver al panel'')),
     (''hint'', Txt (''Inicia sesi'' @ [CHR 0xF3] @ ''n con una cuenta con permisos.''))]"

definition es_date :: "dict" where
  "es_date =
    Obj
    [(''relative'', Obj
       [(''justNow'', Txt (''ahora mismo'')),
        (''minutesAgo'', Txt (''hace {count}m'')),
        (''hoursAgo'', Txt (''hace {count}h'')),
        (''daysAgo'', Txt (''hace {count}d''))])]"

definition es_device_part1 :: "(string \<times> dict) list" where
  "es_device_part1 =
    [(''title'', Txt (''Dispositivos'')),
     (''online'', Txt (''En l'' @ [CHR 0xED] @ ''nea'')),
     (''onlineStationary'', Txt (''En l'' @ [CHR 0xED] @ ''nea / estacionario'')),
     (''offline'', Txt (''Desconectado'')),
     (''stale'', Txt (''Inactivo'')),
     (''neverSeen'', Txt (''Nunca visto'')),
     (''unknown'', Txt (''Desconocido'')),
     (''views'', Obj
       [(''label'', Txt (''Vistas del dispositivo'')),
        (''overview'', Txt (''Resumen'')),
        (''history'', Txt (''Historial''))]),
     (''roles'', Obj
       [(''owner'', Txt (''Propietario'')),
        (''editor'', Txt (''Editor'')),
        (''viewer'', Txt (''Visor''))]),
     (''page'', Obj
       [(''summary'', Txt (''{total} en total '' @ [CHR 0xB7] @ '' {online} en l'' @ [CHR 0xED] @ ''nea '' @ [CHR 0xB7] @ '' {stale} inactivos '' @ [CHR 0xB7] @ '' {offline} desconectados '' @ [CHR 0xB7] @ '' {never} nunca vistos'')),
        (''export'', Txt (''Exportar'')),
        (''noResultsTitle'', Txt (''Ning'' @ [CHR 0xFA] @ ''n dispositivo coincide con los filtros'')),
        (''noResultsMessage'', Txt (''Prueba a borrar la b'' @ [CHR 0xFA] @ ''squeda o cambiar el estado / tipo de veh'' @ [CHR 0xED] @ ''culo.'')),
        (''clearFilters'', Txt (''Borrar filtros'')),
        (''addFirstDevice'', Txt (''A'' @ [CHR 0xF1] @ ''ade tu primer dispositivo'')),
        (''refreshed'', Txt (''Actualizado.'')),
        (''addedToast'', Txt ([CHR 0xAB] @ ''{name}'' @ [CHR 0xBB] @ '' a'' @ [CHR 0xF1] @ ''adido a tu flota.'')),
        (''savedToast'', Txt (''Cambios guardados en '' @ [CHR 0xAB] @ ''{name}'' @ [CHR 0xBB] @ ''.'')),
        (''removedToast'', Txt ([CHR 0xAB] @ ''{name}'' @ [CHR 0xBB] @ '' eliminado.''))]),
     (''table'', Obj
       [(''name'', Txt (''Nombre'')),
        (''firmwareUuid'', Txt (''UUID de firmware'')),
        (''vehicleType'', Txt (''Tipo'')),
        (''status'', Txt (''Estado'')),
        (''lastSeen'', Txt ([CHR 0xDA] @ ''ltima vez'')),
        (''battery'', Txt (''Bater'' @ [CHR 0xED] @ ''a'')),
        (''signal'', Txt (''Se'' @ [CHR 0xF1] @ ''al'')),
        (''actions'', Txt (''Acciones'')),
        (''edit'', Txt (''Editar'')),
        (''delete'', Txt (''Eliminar'')),
        (''addDevice'', Txt (''A'' @ [CHR 0xF1] @ ''adir dispositivo'')),
        (''failedToLoad'', Txt (''Error al cargar dispositivos'')),
        (''retry'', Txt (''Reintentar'')),
        (''notAvailable'', Txt ([CHR 0x97])),
        (''searchPlaceholder'', Txt (''Buscar por nombre, UUID o veh'' @ [CHR 0xED] @ ''culo'' @ [CHR 0x85])),
        (''refresh'', Txt (''Actualizar'')),
        (''copy'', Txt (''Copiar'')),
        (''copied'', Txt (''Copiado'')),
        (''filter'', Obj
          [(''allStatuses'', Txt (''Todos los estados'')),
           (''allVehicles'', Txt (''Todos los veh'' @ [CHR 0xED] @ ''culos''))]),
        (''sort'', Obj
          [(''name-asc'', Txt (''Nombre (A'' @ [CHR 0x96] @ ''Z)'')),
           (''name-desc'', Txt (''Nombre (Z'' @ [CHR 0x96] @ ''A)'')),
           (''recent'', Txt (''Activos recientemente'')),
           (''oldest'', Txt (''Desconectados hace m'' @ [CHR 0xE1] @ ''s tiempo''))]),
        (''vehicleTypes'', Obj
          [(''bicycle'', Txt (''Bicicleta'')),
           (''motorcycle'', Txt (''Motocicleta'')),
           (''car'', Txt (''Coche'')),
           (''truck'', Txt (''Cami'' @ [CHR 0xF3] @ ''n'')),
           (''van'', Txt (''Furgoneta'')),
           (''other'', Txt (''Otro''))]),
        (''inlineEdit'', Obj
          [(''save'', Txt (''Guardar'')),
           (''cancel'', Txt (''Cancelar'')),
           (''editing'', Txt (''Editando'' @ [CHR 0x85])),
           (''saving'', Txt (''Guardando'' @ [CHR 0x85])),
           (''updateFailed'', Txt (''No se pudo actualizar el dispositivo. Int'' @ [CHR 0xE9] @ ''ntalo de nuevo.'')),
           (''nameRequired'', Txt (''El nombre del dispositivo es obligatorio''))]),
        (''deleteConfirm'', Obj
          [(''warning'', Txt (''Esto eliminar'' @ [CHR 0xE1] @ '' permanentemente el dispositivo '' @ [CHR 0x22] @ ''{name}'' @ [CHR 0x22] @ '' y todo su historial de ubicaciones. Esta acci'' @ [CHR 0xF3] @ ''n no se puede deshacer.'')),
           (''typeNameLabel'', Txt (''Escribe el nombre del dispositivo para confirmar'')),
           (''typeNamePlaceholder'', Txt (''Nombre del dispositivo'')),
           (''confirm'', Txt (''Eliminar dispositivo'')),
           (''deleting'', Txt (''Eliminando'' @ [CHR 0x85])),
           (''cancel'', Txt (''Cancelar'')),
           (''mismatch'', Txt (''El nombre debe coincidir exactamente.'')),
           (''deleteFailed'', Txt (''No se pudo eliminar el dispositivo. Int'' @ [CHR 0xE9] @ ''ntalo de nuevo.''))])]),
     (''modals'', Obj
       [(''cancel'', Txt (''Cancelar'')),
        (''save'', Txt (''Guardar cambios'')),
        (''add'', Txt (''A'' @ [CHR 0xF1] @ ''adir dispositivo'')),
        (''delete'', Txt (''Eliminar dispositivo'')),
        (''required'', Txt (''Obligatorio'')),
        (''addTitle'', Txt (''A'' @ [CHR 0xF1] @ ''adir dispositivo'')),
        (''addSubtitle'', Txt (''Registra un nuevo rastreador ESP32 en tu flota.'')),
        (''editTitle'', Txt (''Editar dispositivo'')),
        (''editSubtitle'', Txt (''Editando {name} '' @ [CHR 0xB7] @ '' UUID de firmware {uuid}'')),
        (''uuidLabel'', Txt (''UUID de firmware'')),
        (''uuidPlaceholder'', Txt (''esp32-001'')),
        (''uuidHint'', Txt (''ID '' @ [CHR 0xFA] @ ''nico impreso por el firmware ESP32.'')),
        (''uuidImmutable'', Txt (''El UUID es inmutable.'')),
        (''nameLabel'', Txt (''Nombre del dispositivo'')),
        (''namePlaceholder'', Txt (''Cami'' @ [CHR 0xF3] @ ''n BCN-04'')),
        (''nameHint'', Txt (''Una etiqueta legible, p. ej. '' @ [CHR 0x27] @ ''Cami'' @ [CHR 0xF3] @ ''n BCN-04'' @ [CHR 0x27] @ ''.'')),
        (''vehicleTypeLabel'', Txt (''Tipo de veh'' @ [CHR 0xED] @ ''culo'')),
        (''roleLabel'', Txt (''Tu rol'')),
        (''roleHint'', Txt (''Propietario por defecto.'')),
        (''accessRoleLabel'', Txt (''Rol de acceso'')),
        (''generateUuid'', Txt (''Generar'')),
        (''deleteTitle'', Txt (''Eliminar dispositivo'')),
        (''deleteSubtitle'', Txt (''Esta acci'' @ [CHR 0xF3] @ ''n elimina el dispositivo de tu flota. El historial de telemetr'' @ [CHR 0xED] @ ''a se conserva.'')),
        (''deleteWarningTitle'', Txt (''Esto eliminar'' @ [CHR 0xE1] @ '' permanentemente el dispositivo'')),
        (''deleteWarningMessage'', Txt (''Los conductores asignados perder'' @ [CHR 0xE1] @ ''n el acceso a este dispositivo. Esta acci'' @ [CHR 0xF3] @ ''n no se puede deshacer.'')),
        (''deleteTypeToConfirm'', Txt (''Escribe '' @ [CHR 0xAB] @ ''{name}'' @ [CHR 0xBB] @ '' para confirmar'')),
        (''deleteTip'', Txt (''Consejo: escribe el nombre del dispositivo exactamente como se muestra '' @ [CHR 0x97] @ '' distingue may'' @ [CHR 0xFA] @ ''sculas.''))])]"

definition es_device_detail_part1 :: "(string \<times> dict) list" where
  "es_device_detail_part1 =
    [(''workspace'', Txt (''Espacio de trabajo'')),
     (''backToDevices'', Txt (''Volver a dispositivos'')),
     (''deviceId'', Txt (''Dispositivo #'')),
     (''lastPing'', Txt ([CHR 0xDA] @ ''ltimo ping'')),
     (''uuidShort'', Txt (''UUID'')),
     (''share'', Txt (''Compartir'')),
     (''sharing'', Obj
       [(''chooseTitle'', Txt (''Compartir dispositivo'')),
        (''chooseDescription'', Txt (''Elige qui'' @ [CHR 0xE9] @ ''n recibir'' @ [CHR 0xE1] @ '' acceso a este dispositivo.'')),
        (''registeredTitle'', Txt (''Usuario de Open GPS'')),
        (''registeredDescription'', Txt (''Concede acceso de visor a una cuenta existente.'')),
        (''guestTitle'', Txt (''Invitado externo'')),
        (''guestDescription'', Txt (''Crea un enlace temporal de solo lectura para la ubicaci'' @ [CHR 0xF3] @ ''n.'')),
        (''guestLinkTitle'', Txt (''Enlace temporal para invitados'')),
        (''guestLinkDescription'', Txt (''El invitado podr'' @ [CHR 0xE1] @ '' ver la ubicaci'' @ [CHR 0xF3] @ ''n actual mientras el enlace est'' @ [CHR 0xE9] @ '' vigente.'')),
        (''duration'', Txt (''Duraci'' @ [CHR 0xF3] @ ''n del enlace'')),
        (''oneHour'', Txt (''1 hora'')),
        (''twoHours'', Txt (''2 horas'')),
        (''fourHours'', Txt (''4 horas'')),
        (''eightHours'', Txt (''8 horas'')),
        (''create'', Txt (''Crear enlace'')),
        (''creating'', Txt (''Creando'' @ [CHR 0x85])),
        (''copy'', Txt (''Copiar enlace'')),
        (''copied'', Txt (''Enlace copiado'')),
        (''cancel'', Txt (''Cancelar'')),
        (''activeLinks'', Txt (''Enlaces activos para invitados'')),
        (''loadingLinks'', Txt (''Cargando enlaces'' @ [CHR 0x85])),
        (''expiresAt'', Txt (''Vence'')),
        (''revoke'', Txt (''Revocar'')),
        (''revokeConfirm'', Txt ([CHR 0xBF] @ ''Revocar este enlace para invitados ahora?'')),
        (''noActiveLinks'', Txt (''No hay enlaces activos para invitados.'')),
        (''createFailed'', Txt (''No se pudo crear el enlace. Int'' @ [CHR 0xE9] @ ''ntalo de nuevo.'')),
        (''loadFailed'', Txt (''No se pudieron cargar los enlaces. Int'' @ [CHR 0xE9] @ ''ntalo de nuevo.'')),
        (''copyFailed'', Txt (''No se pudo copiar el enlace.''))]),
     (''guest'', Obj
       [(''pageTitle'', Txt (''Dispositivo compartido'')),
        (''subtitle'', Txt (''Acceso temporal de solo lectura a la ubicaci'' @ [CHR 0xF3] @ ''n'')),
        (''loading'', Txt (''Validando enlace compartido'' @ [CHR 0x85])),
        (''unavailableTitle'', Txt (''Enlace no disponible'')),
        (''unavailableMessage'', Txt (''El enlace no es v'' @ [CHR 0xE1] @ ''lido, venci'' @ [CHR 0xF3] @ '' o fue revocado.'')),
        (''live'', Txt (''Actualizaci'' @ [CHR 0xF3] @ ''n en directo activa'')),
        (''connecting'', Txt (''Conectando a las actualizaciones'' @ [CHR 0x85])),
        (''reconnecting'', Txt (''Reconectando'' @ [CHR 0x85]))]),
     (''edit'', Txt (''Editar'')),
     (''delete'', Txt (''Eliminar'')),
     (''loading'', Txt (''Cargando dispositivo'' @ [CHR 0x85])),
     (''failedToLoad'', Txt (''Error al cargar el dispositivo'')),
     (''retry'', Txt (''Reintentar'')),
     (''missingDeviceTitle'', Txt (''No se ha seleccionado ning'' @ [CHR 0xFA] @ ''n dispositivo'')),
     (''missingDeviceMessage'', Txt (''Abre esta p'' @ [CHR 0xE1] @ ''gina con un id de dispositivo, por ejemplo ?id=id-del-dispositivo.'')),
     (''gpsTelemetry'', Txt (''GPS y telemetr'' @ [CHR 0xED] @ ''a'')),
     (''gpsTelemetryDescription'', Txt ([CHR 0xDA] @ ''ltima ubicaci'' @ [CHR 0xF3] @ ''n comunicada por el dispositivo.'')),
     (''deviceSection'', Txt (''Dispositivo'')),
     (''deviceSectionDescription'', Txt (''Identidad, hardware y registro.'')),
     (''access'', Txt (''Acceso'')),
     (''accessDescription'', Txt (''Personas que pueden ver o gestionar este dispositivo.'')),
     (''latitude'', Txt (''LAT'')),
     (''longitude'', Txt (''LNG'')),
     (''liveGps'', Txt (''GPS en directo'')),
     (''latestReading'', Txt ([CHR 0xDA] @ ''ltima lectura'')),
     (''refresh'', Txt (''Actualizar'')),
     (''liveTracking'', Txt (''Rastreo en directo'')),
     (''mapLabel'', Txt (''Mapa de la '' @ [CHR 0xFA] @ ''ltima ubicaci'' @ [CHR 0xF3] @ ''n del dispositivo'')),
     (''noLocation'', Txt (''Nunca ha comunicado'')),
     (''noLocationDescription'', Txt (''Este dispositivo a'' @ [CHR 0xFA] @ ''n no ha comunicado ninguna ubicaci'' @ [CHR 0xF3] @ ''n.'')),
     (''stationary'', Txt (''Detenido'')),
     (''moving'', Txt (''En movimiento'')),
     (''copy'', Txt (''Copiar valor'')),
     (''copied'', Txt (''Copiado'')),
     (''units'', Obj
       [(''speed'', Txt (''m/s'')),
        (''meters'', Txt (''m''))]),
     (''kpi'', Obj
       [(''battery'', Txt (''Bater'' @ [CHR 0xED] @ ''a'')),
        (''signal'', Txt (''Se'' @ [CHR 0xF1] @ ''al'')),
        (''speed'', Txt (''Velocidad'')),
        (''lastPing'', Txt ([CHR 0xDA] @ ''ltimo ping''))]),
     (''telemetry'', Obj
       [(''title'', Txt (''Telemetr'' @ [CHR 0xED] @ ''a'')),
        (''subtitle'', Txt (''Del '' @ [CHR 0xFA] @ ''ltimo paquete de ubicaci'' @ [CHR 0xF3] @ ''n'')),
        (''altitude'', Txt (''Altitud'')),
        (''speed'', Txt (''Velocidad'')),
        (''accuracy'', Txt (''Precisi'' @ [CHR 0xF3] @ ''n'')),
        (''battery'', Txt (''Bater'' @ [CHR 0xED] @ ''a'')),
        (''signal'', Txt (''Se'' @ [CHR 0xF1] @ ''al'')),
        (''recorded'', Txt (''Registrado''))]),
     (''goLive'', Txt (''Ver en directo'')),
     (''liveWaiting'', Txt (''Esperando el primer paquete'' @ [CHR 0x85])),
     (''connectionLost'', Txt (''Conexi'' @ [CHR 0xF3] @ ''n perdida'')),
     (''connectionLostMessage'', Txt (''Rastreo en directo detenido: dispositivo no disponible.'')),
     (''deviceNotLiveTitle'', Txt (''Dispositivo no en directo'')),
     (''deviceNotLiveMessage'', Txt (''Rastreo en directo detenido: el dispositivo no ha comunicado una nueva ubicaci'' @ [CHR 0xF3] @ ''n en m'' @ [CHR 0xE1] @ ''s de 45 segundos.'')),
     (''info'', Obj
       [(''title'', Txt (''Informaci'' @ [CHR 0xF3] @ ''n del dispositivo'')),
        (''subtitle'', Txt (''Identidad y metadatos de registro'')),
        (''firmwareUuid'', Txt (''UUID de firmware'')),
        (''deviceId'', Txt (''ID del dispositivo'')),
        (''vehicleType'', Txt (''Tipo de veh'' @ [CHR 0xED] @ ''culo'')),
        (''yourRole'', Txt (''Tu rol'')),
        (''created'', Txt (''Creado'')),
        (''lastSeen'', Txt ([CHR 0xDA] @ ''ltima vez visto''))])]"

definition es_device_detail_part2 :: "(string \<times> dict) list" where
  "es_device_detail_part2 =
    [(''accessTable'', Obj
       [(''title'', Txt (''Usuarios con acceso'')),
        (''name'', Txt (''Nombre'')),
        (''email'', Txt (''Correo'')),
        (''role'', Txt (''Rol'')),
        (''accessGranted'', Txt (''Acceso otorgado'')),
        (''actions'', Txt (''Acciones'')),
        (''addUser'', Txt (''Invitar usuario'')),
        (''inviteSubtitle'', Txt (''Concede acceso a este dispositivo a un usuario existente.'')),
        (''userIdLabel'', Txt (''ID de usuario'')),
        (''userIdPlaceholder'', Txt (''ID de usuario'')),
        (''userIdRequired'', Txt (''El ID de usuario es obligatorio'')),
        (''invite'', Txt (''Invitar'')),
        (''inviting'', Txt (''Invitando'' @ [CHR 0x85])),
        (''cancel'', Txt (''Cancelar'')),
        (''peopleCanView'', Txt (''{count} personas pueden ver este dispositivo'')),
        (''visibleToOwnerOnly'', Txt (''Visible solo para el propietario'')),
        (''ownerOnly'', Txt (''Solo el propietario del dispositivo puede gestionar el acceso.'')),
        (''noUsers'', Txt (''A'' @ [CHR 0xFA] @ ''n no hay usuarios con acceso a este dispositivo.'')),
        (''protected'', Txt (''Protegido'')),
        (''remove'', Txt (''Quitar acceso'')),
        (''removeTitle'', Txt (''Quitar acceso'')),
        (''removeConfirm'', Txt ([CHR 0xBF] @ ''Quitar el acceso de este usuario al dispositivo?'')),
        (''failedToLoad'', Txt (''Error al cargar el dispositivo'')),
        (''revokeConfirm'', Obj
          [(''title'', Txt (''Quitar acceso'')),
           (''warning'', Txt (''Esto revocar'' @ [CHR 0xE1] @ '' permanentemente el acceso de '' @ [CHR 0x22] @ ''{name}'' @ [CHR 0x22] @ '' a este dispositivo. Ya no podr'' @ [CHR 0xE1] @ '' ver su ubicaci'' @ [CHR 0xF3] @ ''n. Esta acci'' @ [CHR 0xF3] @ ''n no se puede deshacer.'')),
           (''typeConfirmLabel'', Txt (''Escribe '' @ [CHR 0x22] @ ''confirmar'' @ [CHR 0x22] @ '' para confirmar'')),
           (''typeConfirmPlaceholder'', Txt (''confirmar'')),
           (''confirmPhrase'', Txt (''confirmar'')),
           (''confirm'', Txt (''Quitar acceso'')),
           (''removing'', Txt (''Quitando'' @ [CHR 0x85])),
           (''cancel'', Txt (''Cancelar'')),
           (''mismatch'', Txt (''Debes escribir '' @ [CHR 0x22] @ ''confirmar'' @ [CHR 0x22] @ '' exactamente para confirmar.'')),
           (''revokeFailed'', Txt (''No se pudo revocar el acceso. Int'' @ [CHR 0xE9] @ ''ntalo de nuevo.''))])])]"

definition es_device_detail :: "dict" where
  "es_device_detail =
    Obj (es_device_detail_part1 @ es_device_detail_part2)"

definition es_device_part2 :: "(string \<times> dict) list" where
  "es_device_part2 =
    [(''detail'', es_device_detail)]"

definition es_device_part3 :: "(string \<times> dict) list" where
  "es_device_part3 =
    [(''live'', Obj
       [(''title'', Txt (''Rastreo en directo'')),
        (''kicker'', Txt (''RASTREO EN DIRECTO'')),
        (''loading'', Txt (''Cargando rastreo en directo'' @ [CHR 0x85])),
        (''loadingHistory'', Txt (''Cargando historial de ubicaciones'' @ [CHR 0x85])),
        (''failedToLoad'', Txt (''No se pudo cargar el rastreo en directo'')),
        (''retry'', Txt (''Reintentar'')),
        (''missingDeviceTitle'', Txt (''No se ha seleccionado ning'' @ [CHR 0xFA] @ ''n dispositivo'')),
        (''missingDeviceMessage'', Txt (''Abre esta p'' @ [CHR 0xE1] @ ''gina con un id de dispositivo, por ejemplo ?id=id-del-dispositivo.'')),
        (''backToDevices'', Txt (''Volver a dispositivos'')),
        (''backToDevice'', Txt (''Volver al dispositivo'')),
        (''liveUpdatesOn'', Txt (''Actualizaciones activas'')),
        (''liveUpdatesOff'', Txt (''Actualizaciones pausadas'')),
        (''currentPosition'', Txt (''Posici'' @ [CHR 0xF3] @ ''n actual'')),
        (''movement'', Txt (''Movimiento'')),
        (''battery'', Txt (''Bater'' @ [CHR 0xED] @ ''a'')),
        (''signal'', Txt (''Se'' @ [CHR 0xF1] @ ''al'')),
        (''meters'', Txt (''m'')),
        (''speedUnit'', Txt (''m/s'')),
        (''liveLocation'', Txt (''Ubicaci'' @ [CHR 0xF3] @ ''n en directo'')),
        (''liveLocationDescription'', Txt (''La '' @ [CHR 0xFA] @ ''ltima posici'' @ [CHR 0xF3] @ ''n comunicada por este dispositivo.'')),
        (''nextPacket'', Txt (''Siguiente paquete en'')),
        (''updatesPaused'', Txt (''Actualizaciones pausadas'')),
        (''routeView'', Txt (''Vista de ruta'')),
        (''routeSubtitle'', Txt (''Historial de ubicaciones reciente'')),
        (''centerMap'', Txt (''Centrar mapa'')),
        (''centered'', Txt (''El mapa est'' @ [CHR 0xE1] @ '' centrado en el '' @ [CHR 0xFA] @ ''ltimo paquete.'')),
        (''livePosition'', Txt (''Posici'' @ [CHR 0xF3] @ ''n en directo'')),
        (''mapLabel'', Txt (''Mapa de ubicaci'' @ [CHR 0xF3] @ ''n en directo'')),
        (''noLocation'', Txt (''Nunca ha comunicado'')),
        (''noLocationDescription'', Txt (''Este dispositivo a'' @ [CHR 0xFA] @ ''n no ha comunicado ninguna ubicaci'' @ [CHR 0xF3] @ ''n.'')),
        (''latestTelemetry'', Txt ([CHR 0xDA] @ ''ltima telemetr'' @ [CHR 0xED] @ ''a'')),
        (''latestTelemetrySubtitle'', Txt (''Del '' @ [CHR 0xFA] @ ''ltimo paquete de ubicaci'' @ [CHR 0xF3] @ ''n'')),
        (''latitude'', Txt (''Latitud'')),
        (''longitude'', Txt (''Longitud'')),
        (''altitude'', Txt (''Altitud'')),
        (''speed'', Txt (''Velocidad'')),
        (''accuracy'', Txt (''Precisi'' @ [CHR 0xF3] @ ''n'')),
        (''recorded'', Txt (''Registrado'')),
        (''detectiveMode'', Txt (''Modo detective'')),
        (''detectiveModeLabel'', Txt (''Modo detective:'')),
        (''on'', Txt (''Activado'')),
        (''off'', Txt (''Desactivado'')),
        (''routeStyle'', Txt (''Estilo de ruta'')),
        (''routeLine'', Txt (''L'' @ [CHR 0xED] @ ''nea conectada'')),
        (''routeDots'', Txt (''Solo puntos'')),
        (''detectiveDescription'', Txt (''Reproduce la ruta del dispositivo eligiendo un intervalo de tiempo.'')),
        (''routeWindow'', Txt (''Ruta desde {from} hasta {to}'')),
        (''pointsAvailable'', Txt (''puntos disponibles'')),
        (''from'', Txt (''Desde'')),
        (''to'', Txt (''Hasta'')),
        (''applyWindow'', Txt (''Aplicar intervalo'')),
        (''ranges'', Obj
          [(''today'', Txt (''Hoy'')),
           (''24h'', Txt ([CHR 0xDA] @ ''ltimas 24 horas'')),
           (''7d'', Txt ([CHR 0xDA] @ ''ltimos 7 d'' @ [CHR 0xED] @ ''as'')),
           (''custom'', Txt (''Intervalo personalizado''))]),
        (''detectiveNote'', Txt (''Usa un intervalo amplio para el historial de ruta. Los resultados est'' @ [CHR 0xE1] @ ''n paginados para mantener la l'' @ [CHR 0xED] @ ''nea de tiempo '' @ [CHR 0xE1] @ ''gil.'')),
        (''locationHistory'', Txt (''Historial de ubicaciones'')),
        (''showing'', Txt (''Mostrando las '' @ [CHR 0xFA] @ ''ltimas {shown} de {total} entradas'')),
        (''export'', Txt (''Exportar resultados'')),
        (''coordinates'', Txt (''Coordenadas'')),
        (''source'', Txt (''Origen'')),
        (''cellular'', Txt (''Celular'')),
        (''ingestionInterval'', Txt (''Intervalo de ingesta de 15 segundos '' @ [CHR 0xB7] @ '' m'' @ [CHR 0xE1] @ ''s recientes primero'')),
        (''noHistory'', Txt (''No se encontraron ubicaciones en este intervalo.'')),
        (''deviceNotLiveTitle'', Txt (''Dispositivo no est'' @ [CHR 0xE1] @ '' en directo'')),
        (''deviceNotLiveMessage'', Txt (''El rastreo en directo se detuvo: el dispositivo no ha comunicado una ubicaci'' @ [CHR 0xF3] @ ''n nueva en m'' @ [CHR 0xE1] @ ''s de 45 segundos.''))])]"

definition es_device :: "dict" where
  "es_device =
    Obj (es_device_part1 @ es_device_part2 @ es_device_part3)"

definition es_user :: "dict" where
  "es_user =
    Obj
    [(''noUsersTitle'', Txt (''Sin usuarios'')),
     (''noUsersMessage'', Txt (''A'' @ [CHR 0xF1] @ ''ade tu primer usuario para empezar.'')),
     (''page'', Obj
       [(''export'', Txt (''Exportar'')),
        (''refresh'', Txt (''Actualizar'')),
        (''showing'', Txt (''Mostrando {shown} de {total} usuarios'')),
        (''clearFilters'', Txt (''Borrar filtros'')),
        (''noResultsTitle'', Txt (''Ning'' @ [CHR 0xFA] @ ''n usuario coincide con los filtros'')),
        (''noResultsMessage'', Txt (''Prueba a borrar los filtros o invita a tu primer usuario a la plataforma.'')),
        (''addFirstUser'', Txt (''A'' @ [CHR 0xF1] @ ''ade tu primer usuario''))]),
     (''filters'', Obj
       [(''searchPlaceholder'', Txt (''Buscar por nombre o correo'' @ [CHR 0x85])),
        (''sortLabel'', Txt (''Ordenar'')),
        (''sort'', Obj
          [(''created-desc'', Txt (''M'' @ [CHR 0xE1] @ ''s recientes primero'')),
           (''created-asc'', Txt (''M'' @ [CHR 0xE1] @ ''s antiguos primero'')),
           (''name-asc'', Txt (''Nombre (A'' @ [CHR 0x96] @ ''Z)''))]),
        (''roleLabel'', Txt (''Rol'')),
        (''roleAll'', Txt (''Todos'')),
        (''roleSuperAdmin'', Txt (''Super admin'')),
        (''roleUser'', Txt (''Usuario'')),
        (''emailLabel'', Txt (''Correo'')),
        (''emailAll'', Txt (''Todos'')),
        (''emailVerified'', Txt (''Verificados'')),
        (''emailUnverified'', Txt (''Sin verificar''))]),
     (''table'', Obj
       [(''user'', Txt (''Usuario'')),
        (''role'', Txt (''Rol'')),
        (''email'', Txt (''Correo'')),
        (''password'', Txt (''Contrase'' @ [CHR 0xF1] @ ''a'')),
        (''created'', Txt (''Creado'')),
        (''actions'', Txt (''Acciones'')),
        (''verified'', Txt (''Verificado'')),
        (''unverified'', Txt (''Sin verificar'')),
        (''changeRequired'', Txt (''Cambio requerido'')),
        (''passwordOk'', Txt (''Correcta''))]),
     (''detail'', Obj
       [(''title'', Txt (''Detalles del usuario'')),
        (''accountId'', Txt (''ID de cuenta'')),
        (''copy'', Txt (''Copiar'')),
        (''copied'', Txt (''Copiado'')),
        (''emailVerification'', Txt (''Verificaci'' @ [CHR 0xF3] @ ''n de correo'')),
        (''password'', Txt (''Contrase'' @ [CHR 0xF1] @ ''a'')),
        (''memberSince'', Txt (''Miembro desde'')),
        (''role'', Txt (''Rol'')),
        (''devicesAccess'', Txt (''Acceso a dispositivos ({count})'')),
        (''noDevices'', Txt (''Este usuario no tiene dispositivos compartidos.'')),
        (''failedToLoad'', Txt (''No se pudo cargar este usuario.''))]),
     (''create'', Obj
       [(''title'', Txt (''A'' @ [CHR 0xF1] @ ''adir usuario'')),
        (''create'', Txt (''Crear usuario'')),
        (''cancel'', Txt (''Cancelar'')),
        (''roleHint'', Txt (''Los super admins tienen acceso completo a la gesti'' @ [CHR 0xF3] @ ''n de usuarios y a los ajustes de la plataforma.''))]),
     (''tempPassword'', Obj
       [(''title'', Txt (''Usuario creado'')),
        (''banner'', Txt (''Comparte esta contrase'' @ [CHR 0xF1] @ ''a temporal de forma segura. {name} deber'' @ [CHR 0xE1] @ '' cambiarla en su primer inicio de sesi'' @ [CHR 0xF3] @ ''n.'')),
        (''emailSubject'', Txt ([CHR 0xA1] @ ''Bienvenido a tu nueva cuenta!'')),
        (''copy'', Txt (''Copiar'')),
        (''copied'', Txt (''Copiado'')),
        (''saved'', Txt (''He guardado la contrase'' @ [CHR 0xF1] @ ''a'')),
        (''meta'', Txt (''Por seguridad, esta contrase'' @ [CHR 0xF1] @ ''a solo se muestra una vez. Si el usuario la pierde, puedes restablecerla desde su perfil.''))]),
     (''delete'', Obj
       [(''title'', Txt (''Eliminar usuario'')),
        (''warningTitle'', Txt ([CHR 0xBF] @ ''Seguro que quieres eliminar a este usuario?'')),
        (''warningMessage'', Txt (''El usuario perder'' @ [CHR 0xE1] @ '' el acceso a la plataforma de inmediato. Todos los datos asociados a esta cuenta se eliminar'' @ [CHR 0xE1] @ ''n de forma permanente. Esta acci'' @ [CHR 0xF3] @ ''n no se puede deshacer.'')),
        (''prompt'', Txt (''Para confirmar la eliminaci'' @ [CHR 0xF3] @ ''n, escribe confirmar en el campo de abajo.'')),
        (''confirmLabel'', Txt (''Confirmaci'' @ [CHR 0xF3] @ ''n'')),
        (''confirmPlaceholder'', Txt (''Escribe '' @ [CHR 0x27] @ ''confirmar'' @ [CHR 0x27] @ '' para continuar'')),
        (''confirm'', Txt (''Eliminar usuario'')),
        (''cancel'', Txt (''Cancelar'')),
        (''mismatch'', Txt (''Debes escribir confirmar para continuar.'')),
        (''deleteFailed'', Txt (''No se pudo eliminar al usuario. Int'' @ [CHR 0xE9] @ ''ntalo de nuevo.''))])]"

definition es_toast :: "dict" where
  "es_toast =
    Obj
    [(''userCreated'', Obj
       [(''title'', Txt (''Usuario creado'')),
        (''message'', Txt (''{name} ya puede iniciar sesi'' @ [CHR 0xF3] @ ''n.''))]),
     (''userDeleted'', Obj
       [(''title'', Txt (''Usuario eliminado'')),
        (''message'', Txt (''{name} ya no tiene acceso.''))]),
     (''emailSent'', Obj
       [(''title'', Txt (''Correo de bienvenida enviado'')),
        (''message'', Txt (''{name} recibir'' @ [CHR 0xE1] @ '' la contrase'' @ [CHR 0xF1] @ ''a temporal por correo.''))]),
     (''accessDenied'', Obj
       [(''title'', Txt (''Acceso denegado'')),
        (''message'', Txt (''Esta '' @ [CHR 0xE1] @ ''rea est'' @ [CHR 0xE1] @ '' restringida a administradores.''))])]"

definition es_apiKeys :: "dict" where
  "es_apiKeys =
    Obj
    [(''title'', Txt (''Claves de API'')),
     (''page'', Obj
       [(''summary'', Txt (''{total} claves activas en {devices} dispositivos'')),
        (''export'', Txt (''Exportar'')),
        (''addFirstKey'', Txt (''Emite tu primera clave de API'')),
        (''noResultsTitle'', Txt (''Ninguna clave coincide con los filtros'')),
        (''noResultsMessage'', Txt (''Prueba a borrar la b'' @ [CHR 0xFA] @ ''squeda o emite una nueva clave.'')),
        (''clearFilters'', Txt (''Borrar filtros'')),
        (''addKey'', Txt (''Emitir clave de API'')),
        (''refreshed'', Txt (''Actualizado.'')),
        (''issuedToast'', Txt (''Nueva clave de API emitida para '' @ [CHR 0xAB] @ ''{device}'' @ [CHR 0xBB] @ ''.'')),
        (''revokedToast'', Txt (''Clave de API revocada de '' @ [CHR 0xAB] @ ''{device}'' @ [CHR 0xBB] @ ''.''))]),
     (''filters'', Obj
       [(''searchPlaceholder'', Txt (''Buscar por dispositivo o ID de clave'' @ [CHR 0x85])),
        (''sortLabel'', Txt (''Ordenar'')),
        (''sort'', Obj
          [(''created-desc'', Txt (''M'' @ [CHR 0xE1] @ ''s recientes primero'')),
           (''created-asc'', Txt (''M'' @ [CHR 0xE1] @ ''s antiguas primero'')),
           (''device-asc'', Txt (''Dispositivo (A'' @ [CHR 0x96] @ ''Z)''))])]),
     (''table'', Obj
       [(''device'', Txt (''Dispositivo'')),
        (''keyId'', Txt (''ID de clave'')),
        (''created'', Txt (''Creada'')),
        (''lastUsed'', Txt ([CHR 0xDA] @ ''ltimo uso'')),
        (''expires'', Txt (''Expira'')),
        (''actions'', Txt (''Acciones'')),
        (''notAvailable'', Txt ([CHR 0x97])),
        (''copy'', Txt (''Copiar'')),
        (''copied'', Txt (''Copiado'')),
        (''refresh'', Txt (''Actualizar''))]),
     (''modals'', Obj
       [(''addTitle'', Txt (''Emitir clave de API'')),
        (''addSubtitle'', Txt (''Elige el dispositivo que usar'' @ [CHR 0xE1] @ '' esta clave. El token solo se muestra una vez.'')),
        (''deviceLabel'', Txt (''Dispositivo'')),
        (''devicePlaceholder'', Txt (''Selecciona un dispositivo'')),
        (''deviceRequired'', Txt (''Elige un dispositivo.'')),
        (''noDevicesAvailable'', Txt (''No hay dispositivos disponibles. Registra uno primero.'')),
        (''cancel'', Txt (''Cancelar'')),
        (''issue'', Txt (''Emitir clave'')),
        (''issuing'', Txt (''Emitiendo'' @ [CHR 0x85])),
        (''revealTitle'', Txt (''Guarda esta clave de API'')),
        (''revealBanner'', Txt (''Copia esta clave ahora '' @ [CHR 0x97] @ '' solo se muestra una vez. Fl'' @ [CHR 0xE1] @ ''sheala en el firmware de '' @ [CHR 0xAB] @ ''{device}'' @ [CHR 0xBB] @ '' antes de cerrar este di'' @ [CHR 0xE1] @ ''logo.'')),
        (''revealMeta'', Txt (''Por seguridad, esta clave solo se muestra una vez. Si la pierdes, rev'' @ [CHR 0xF3] @ ''cala y emite una nueva.'')),
        (''copy'', Txt (''Copiar'')),
        (''copied'', Txt (''Copiado'')),
        (''saved'', Txt (''He guardado la clave'')),
        (''revokeTitle'', Txt (''Revocar clave de API'')),
        (''revokeSubtitle'', Txt (''Revocar esta clave desconectar'' @ [CHR 0xE1] @ '' '' @ [CHR 0xAB] @ ''{device}'' @ [CHR 0xBB] @ '' de Open GPS hasta que se emita una nueva.'')),
        (''revokeWarningTitle'', Txt (''Esto revocar'' @ [CHR 0xE1] @ '' permanentemente la clave'')),
        (''revokeWarningMessage'', Txt (''El dispositivo necesitar'' @ [CHR 0xE1] @ '' una nueva clave de API para autenticarse. Esta acci'' @ [CHR 0xF3] @ ''n no se puede deshacer.'')),
        (''revokeTypeToConfirm'', Txt (''Escribe '' @ [CHR 0xAB] @ ''{name}'' @ [CHR 0xBB] @ '' para confirmar'')),
        (''revokeTip'', Txt (''Consejo: escribe el nombre del dispositivo exactamente como se muestra '' @ [CHR 0x97] @ '' distingue may'' @ [CHR 0xFA] @ ''sculas.'')),
        (''revoke'', Txt (''Revocar clave'')),
        (''revoking'', Txt (''Revocando'' @ [CHR 0x85])),
        (''revokeFailed'', Txt (''No se pudo revocar la clave de API. Int'' @ [CHR 0xE9] @ ''ntalo de nuevo.'')),
        (''revokeMismatch'', Txt (''El nombre debe coincidir exactamente con el del dispositivo.''))])]"

definition es_dict :: dict where
  "es_dict = Obj
    [(''nav'', es_nav),
     (''layout'', es_layout),
     (''admin'', es_admin),
     (''section'', es_section),
     (''auth'', es_auth),
     (''profile'', es_profile),
     (''settings'', es_settings),
     (''page'', es_page),
     (''noAccess'', es_noAccess),
     (''date'', es_date),
     (''device'', es_device),
     (''user'', es_user),
     (''toast'', es_toast),
     (''apiKeys'', es_apiKeys)]"

end
