(* ===== verification/Translations.thy ===== *)
theory Translations
  imports DictEn DictEs Modals
begin

text \<open>
  The two languages side by side: they agree, text by text; \<open>getTranslation\<close> (\<open>i18n/index.ts\<close>) chooses one;
  the forms pick their strings from it (\<open>lib/i18n-utils.ts\<close>); and what two places of the code rely on in the
  texts: the phrases a deletion asks for, and the title of a toast cut out of its message.
\<close>

section \<open>The languages agree\<close>

lemma parts_nav: "agree en_nav es_nav"
  by code_simp

lemma parts_layout: "agree en_layout es_layout"
  by code_simp

lemma parts_admin: "agree en_admin es_admin"
  by code_simp

lemma parts_section: "agree en_section es_section"
  by code_simp

lemma parts_auth_part1: "agree_entries en_auth_part1 es_auth_part1"
  by code_simp

lemma parts_auth_part2: "agree_entries en_auth_part2 es_auth_part2"
  by code_simp

lemma parts_auth: "agree en_auth es_auth"
  unfolding en_auth_def es_auth_def agree.simps
  by (intro agree_entries_append parts_auth_part1 parts_auth_part2)

lemma parts_profile: "agree en_profile es_profile"
  by code_simp

lemma parts_settings: "agree en_settings es_settings"
  by code_simp

lemma parts_page_part1: "agree_entries en_page_part1 es_page_part1"
  by code_simp

lemma parts_page_reports_part1: "agree_entries en_page_reports_part1 es_page_reports_part1"
  by code_simp

lemma parts_page_reports_part2: "agree_entries en_page_reports_part2 es_page_reports_part2"
  by code_simp

lemma parts_page_reports: "agree en_page_reports es_page_reports"
  unfolding en_page_reports_def es_page_reports_def agree.simps
  by (intro agree_entries_append parts_page_reports_part1 parts_page_reports_part2)

lemma parts_page_part2: "agree_entries en_page_part2 es_page_part2"
  by (simp add: en_page_part2_def es_page_part2_def parts_page_reports)

lemma parts_page: "agree en_page es_page"
  unfolding en_page_def es_page_def agree.simps
  by (intro agree_entries_append parts_page_part1 parts_page_part2)

lemma parts_noAccess: "agree en_noAccess es_noAccess"
  by code_simp

lemma parts_date: "agree en_date es_date"
  by code_simp

lemma parts_device_part1: "agree_entries en_device_part1 es_device_part1"
  by code_simp

lemma parts_device_detail_part1: "agree_entries en_device_detail_part1 es_device_detail_part1"
  by code_simp

lemma parts_device_detail_part2: "agree_entries en_device_detail_part2 es_device_detail_part2"
  by code_simp

lemma parts_device_detail: "agree en_device_detail es_device_detail"
  unfolding en_device_detail_def es_device_detail_def agree.simps
  by (intro agree_entries_append parts_device_detail_part1 parts_device_detail_part2)

lemma parts_device_part2: "agree_entries en_device_part2 es_device_part2"
  by (simp add: en_device_part2_def es_device_part2_def parts_device_detail)

lemma parts_device_part3: "agree_entries en_device_part3 es_device_part3"
  by code_simp

lemma parts_device: "agree en_device es_device"
  unfolding en_device_def es_device_def agree.simps
  by (intro agree_entries_append parts_device_part1 parts_device_part2 parts_device_part3)

lemma parts_user: "agree en_user es_user"
  by code_simp

lemma parts_toast: "agree en_toast es_toast"
  by code_simp

lemma parts_apiKeys: "agree en_apiKeys es_apiKeys"
  by code_simp

lemma dictionaries_agree: "agree en_dict es_dict"
  by (simp add: en_dict_def es_dict_def parts_nav parts_layout parts_admin parts_section parts_auth parts_profile parts_settings parts_page parts_noAccess parts_date parts_device parts_user parts_toast parts_apiKeys)

text \<open>Agreement is an equivalence.\<close>

lemma agree_refl: "agree d d"
proof (induction d)
  case (Txt s)
  then show ?case by (simp add: same_keys_set)
next
  case (Obj es)
  then have "\<forall>p \<in> set es. agree (snd p) (snd p)" by (metis prod.exhaust_sel snds.intros)
  then have "agree_entries es es" by (induction es) auto
  then show ?case by simp
next
  case (Arr ds)
  then show ?case by (simp add: agree_items_list list_all2_conv_all_nth)
qed

lemma agree_sym:
  "agree a b \<Longrightarrow> agree b a" "agree_entries es fs \<Longrightarrow> agree_entries fs es" "agree_items ds gs \<Longrightarrow> agree_items gs ds"
  by (induction a b and es fs and ds gs rule: agree_agree_entries_agree_items.induct) (auto simp: same_keys_set)

definition getTranslation :: "string \<Rightarrow> dict" where
  "getTranslation loc = (if is_prefix ''es'' loc then es_dict else en_dict)"

lemma translations_agree_all: "agree (getTranslation l) (getTranslation l')"
  using dictionaries_agree agree_sym(1) [OF dictionaries_agree] agree_refl by (simp add: getTranslation_def)

text \<open>C30: The languages are equivalent to the code that uses them: whatever keys are read, the text is there in one
  language exactly when it is there in the other, it asks for the same values between braces, and so the same
  values fill both: two fillings that a text of one language cannot tell apart give the same text in the
  other.\<close>

theorem translations_agree:
  "case text_at ks (getTranslation l) of
     None \<Rightarrow> text_at ks (getTranslation l') = None
   | Some s \<Rightarrow> \<exists>t. text_at ks (getTranslation l') = Some t \<and> set (template_keys s) = set (template_keys t) \<and>
       (\<forall>vars vars'. (\<forall>k. k \<in> set (template_keys s) \<longrightarrow> vars k = vars' k) \<longrightarrow>
          interpolateTemplate vars t = interpolateTemplate vars' t)"
proof (cases "text_at ks (getTranslation l)")
  case None
  then show ?thesis using agree_text [OF translations_agree_all [of l l'], of ks] by simp
next
  case (Some s)
  then obtain t where "text_at ks (getTranslation l') = Some t" "set (template_keys s) = set (template_keys t)"
    using agree_text [OF translations_agree_all [of l l'], of ks] by auto
  moreover have "interpolateTemplate vars t = interpolateTemplate vars' t"
    if "\<forall>k. k \<in> set (template_keys t) \<longrightarrow> vars k = vars' k" for vars vars'
    using that by (intro interpolate_by_keys) blast
  ultimately show ?thesis using Some by auto
qed

section \<open>The strings of the forms\<close>

text \<open>An object literal of picked texts: each field with the value read, \<open>None\<close> for \<open>undefined\<close>.\<close>

type_synonym strings = "(string \<times> dict option) list"

definition pick :: "(string \<times> string list) list \<Rightarrow> dict \<Rightarrow> strings" where
  "pick picked d = map (\<lambda>f. (fst f, sub_dict (snd f) d)) picked"

text \<open>\<open>{ ...r, picked }\<close>: the picked fields replace those of \<open>r\<close>.\<close>

definition spread :: "dict option \<Rightarrow> strings \<Rightarrow> strings" where
  "spread r picked =
     (case r of
        Some (Obj es) \<Rightarrow> map (\<lambda>e. (fst e, Some (snd e))) (filter (\<lambda>e. fst e \<notin> set (map fst picked)) es) @ picked
      | _ \<Rightarrow> picked)"

definition parseLoginStrings :: "dict \<Rightarrow> strings" where
  "parseLoginStrings auth = pick
       [(''email'', [''email'']),
        (''emailPlaceholder'', [''emailPlaceholder'']),
        (''password'', [''password'']),
        (''passwordPlaceholder'', [''passwordPlaceholder'']),
        (''loggingIn'', [''loggingIn'']),
        (''login'', [''login'']),
        (''emailRequired'', [''emailRequired'']),
        (''emailInvalid'', [''emailInvalid'']),
        (''passwordRequired'', [''passwordRequired'']),
        (''loginTitle'', [''loginTitle'']),
        (''loginSubtitle'', [''loginSubtitle'']),
        (''signInWithGoogle'', [''signInWithGoogle'']),
        (''orContinueWith'', [''orContinueWith'']),
        (''rememberDevice'', [''rememberDevice'']),
        (''forgotPassword'', [''forgotPassword'']),
        (''resetPassword'', [''resetPassword'']),
        (''noAccount'', [''noAccount'']),
        (''createOne'', [''createOne'']),
        (''firstAdminBadge'', [''firstAdminBadge'']),
        (''loginFailed'', [''loginFailed'']),
        (''showPassword'', [''showPassword'']),
        (''hidePassword'', [''hidePassword'']),
        (''emailPasswordRequired'', [''emailPasswordRequired'']),
        (''apiInspectorTitle'', [''apiInspectorTitle'']),
        (''apiInspectorCookieNote'', [''apiInspectorCookieNote''])] auth"

definition parseSignUpStrings :: "dict \<Rightarrow> strings" where
  "parseSignUpStrings auth = pick
       [(''email'', [''email'']),
        (''emailPlaceholder'', [''emailPlaceholder'']),
        (''password'', [''password'']),
        (''passwordPlaceholder'', [''passwordPlaceholder'']),
        (''name'', [''name'']),
        (''namePlaceholder'', [''namePlaceholder'']),
        (''signingUp'', [''signingUp'']),
        (''signup'', [''signup'']),
        (''haveAccount'', [''haveAccount'']),
        (''loginLink'', [''login'']),
        (''emailRequired'', [''emailRequired'']),
        (''emailInvalid'', [''emailInvalid'']),
        (''passwordRequired'', [''passwordRequired'']),
        (''passwordMin'', [''passwordMin'']),
        (''nameRequired'', [''nameRequired'']),
        (''signupTitle'', [''signupTitle'']),
        (''signupSubtitle'', [''signupSubtitle'']),
        (''strengthLabel'', [''strengthLabel'']),
        (''strengthTooShort'', [''strengthTooShort'']),
        (''strengthWeak'', [''strengthWeak'']),
        (''strengthFair'', [''strengthFair'']),
        (''strengthGood'', [''strengthGood'']),
        (''strengthStrong'', [''strengthStrong'']),
        (''nameHelp'', [''nameHelp'']),
        (''passwordHelp'', [''passwordHelp'']),
        (''confirmPassword'', [''confirmPassword'']),
        (''passwordsDoNotMatch'', [''passwordsDoNotMatch'']),
        (''termsAgree'', [''termsAgree'']),
        (''termsLabel'', [''termsLabel'']),
        (''privacyLabel'', [''privacyLabel'']),
        (''creatingAccount'', [''creatingAccount'']),
        (''orDivider'', [''orDivider'']),
        (''continueWithGoogle'', [''continueWithGoogle'']),
        (''firstAdminWelcome'', [''firstAdminWelcome'']),
        (''createAccountBadge'', [''createAccountBadge'']),
        (''emailPasswordRequired'', [''emailPasswordRequired'']),
        (''acceptTerms'', [''acceptTerms'']),
        (''pickStrongerPassword'', [''pickStrongerPassword'']),
        (''signupFailed'', [''signupFailed'']),
        (''showPassword'', [''showPassword'']),
        (''hidePassword'', [''hidePassword'']),
        (''apiInspectorTitle'', [''apiInspectorTitle'']),
        (''apiInspectorCookieNote'', [''apiInspectorCookieNote'']),
        (''autoSignInNote'', [''autoSignInNote''])] auth"

definition parseChangePasswordStrings :: "dict \<Rightarrow> strings" where
  "parseChangePasswordStrings auth = pick
       [(''title'', [''changePassword'', ''title'']),
        (''subtitle'', [''changePassword'', ''subtitle'']),
        (''description'', [''changePassword'', ''description'']),
        (''currentPassword'', [''changePassword'', ''currentPassword'']),
        (''currentPlaceholder'', [''changePassword'', ''currentPlaceholder'']),
        (''newPassword'', [''password'']),
        (''newPlaceholder'', [''changePassword'', ''newPlaceholder'']),
        (''confirmPassword'', [''confirmPassword'']),
        (''confirmPlaceholder'', [''changePassword'', ''confirmPlaceholder'']),
        (''submit'', [''changePassword'', ''submit'']),
        (''submitting'', [''changePassword'', ''submitting'']),
        (''errorWrongPassword'', [''changePassword'', ''errorWrongPassword'']),
        (''errorWeakPassword'', [''changePassword'', ''errorWeakPassword'']),
        (''errorGeneric'', [''changePassword'', ''errorGeneric'']),
        (''passwordsDoNotMatch'', [''passwordsDoNotMatch'']),
        (''pickStrongerPassword'', [''pickStrongerPassword'']),
        (''passwordRequired'', [''passwordRequired'']),
        (''showPassword'', [''showPassword'']),
        (''hidePassword'', [''hidePassword'']),
        (''strengthLabel'', [''strengthLabel'']),
        (''strengthTooShort'', [''strengthTooShort'']),
        (''strengthWeak'', [''strengthWeak'']),
        (''strengthFair'', [''strengthFair'']),
        (''strengthGood'', [''strengthGood'']),
        (''strengthStrong'', [''strengthStrong'']),
        (''passwordHelp'', [''passwordHelp''])] auth"

definition parsePasswordForgottenStrings :: "dict \<Rightarrow> strings" where
  "parsePasswordForgottenStrings auth = pick
       [(''emailPlaceholder'', [''emailPlaceholder'']),
        (''badge'', [''passwordRecovery'', ''badge'']),
        (''title'', [''passwordRecovery'', ''title'']),
        (''sentTitle'', [''passwordRecovery'', ''sentTitle'']),
        (''subtitle'', [''passwordRecovery'', ''subtitle'']),
        (''sentSubtitle'', [''passwordRecovery'', ''sentSubtitle'']),
        (''emailLabel'', [''passwordRecovery'', ''emailLabel'']),
        (''emailHelp'', [''passwordRecovery'', ''emailHelp'']),
        (''submit'', [''passwordRecovery'', ''submit'']),
        (''submitting'', [''passwordRecovery'', ''submitting'']),
        (''backToLogin'', [''passwordRecovery'', ''backToLogin'']),
        (''sentTitlePrefix'', [''passwordRecovery'', ''sentTitlePrefix'']),
        (''copyEmail'', [''passwordRecovery'', ''copyEmail'']),
        (''copiedEmail'', [''passwordRecovery'', ''copiedEmail'']),
        (''useDifferentEmail'', [''passwordRecovery'', ''useDifferentEmail'']),
        (''expiresIn'', [''passwordRecovery'', ''expiresIn'']),
        (''singleUseToken'', [''passwordRecovery'', ''singleUseToken'']),
        (''resendPrompt'', [''passwordRecovery'', ''resendPrompt'']),
        (''resendCta'', [''passwordRecovery'', ''resendCta'']),
        (''resendResent'', [''passwordRecovery'', ''resendResent'']),
        (''resendCooldown'', [''passwordRecovery'', ''resendCooldown'']),
        (''mailHelper'', [''passwordRecovery'', ''mailHelper'']),
        (''mailApple'', [''passwordRecovery'', ''mailApple'']),
        (''mailGmail'', [''passwordRecovery'', ''mailGmail'']),
        (''mailOutlook'', [''passwordRecovery'', ''mailOutlook'']),
        (''identityFrom'', [''passwordRecovery'', ''identityFrom'']),
        (''identityFromValue'', [''passwordRecovery'', ''identityFromValue'']),
        (''identityFromBadge'', [''passwordRecovery'', ''identityFromBadge'']),
        (''identitySubject'', [''passwordRecovery'', ''identitySubject'']),
        (''identitySubjectValue'', [''passwordRecovery'', ''identitySubjectValue'']),
        (''identityReplyTo'', [''passwordRecovery'', ''identityReplyTo'']),
        (''identityReplyToValue'', [''passwordRecovery'', ''identityReplyToValue'']),
        (''emailRequired'', [''passwordRecovery'', ''emailRequired'']),
        (''emailInvalid'', [''passwordRecovery'', ''emailInvalid'']),
        (''requestFailed'', [''passwordRecovery'', ''requestFailed'']),
        (''apiInspectorBody'', [''passwordRecovery'', ''apiInspectorBody'']),
        (''rateLimitNote'', [''passwordRecovery'', ''rateLimitNote''])] auth"

definition parseResetPasswordStrings :: "dict \<Rightarrow> strings" where
  "parseResetPasswordStrings auth =
     spread (sub_dict [''passwordRecovery'', ''reset''] auth) (pick
       [(''passwordsDoNotMatch'', [''passwordsDoNotMatch'']),
        (''pickStrongerPassword'', [''pickStrongerPassword'']),
        (''passwordRequired'', [''passwordRequired'']),
        (''passwordHelp'', [''passwordHelp'']),
        (''showPassword'', [''showPassword'']),
        (''hidePassword'', [''hidePassword'']),
        (''strengthLabel'', [''strengthLabel'']),
        (''strengthTooShort'', [''strengthTooShort'']),
        (''strengthWeak'', [''strengthWeak'']),
        (''strengthFair'', [''strengthFair'']),
        (''strengthGood'', [''strengthGood'']),
        (''strengthStrong'', [''strengthStrong''])] auth)"

text \<open>A whole part of a dictionary: no text is empty, no object is empty or has a key twice.\<close>

fun whole :: "dict \<Rightarrow> bool" where
  "whole (Txt s) = (s \<noteq> [])"
| "whole (Obj es) = (es \<noteq> [] \<and> distinct (map fst es) \<and> list_all (\<lambda>e. whole (snd e)) es)"
| "whole (Arr ds) = list_all whole ds"

definition complete :: "strings \<Rightarrow> bool" where
  "complete ss \<longleftrightarrow> list_all (\<lambda>f. case snd f of Some d \<Rightarrow> whole d | None \<Rightarrow> False) ss"

text \<open>A path of keys that a dictionary has.\<close>

inductive reaches :: "string list \<Rightarrow> dict \<Rightarrow> bool" where
  end_of: "reaches [] d"
| at: "(k, d) \<in> set es \<Longrightarrow> reaches ks d \<Longrightarrow> reaches (k # ks) (Obj es)"

inductive_simps reaches_at: "reaches (k # ks) (Obj es)"

lemma whole_sub: "reaches ks d \<Longrightarrow> whole d \<Longrightarrow> \<exists>e. sub_dict ks d = Some e \<and> whole e"
proof (induction rule: reaches.induct)
  case (at k d es ks)
  then have "map_of es k = Some d" by simp
  moreover have "whole d" using at.hyps(1) at.prems by (fastforce simp: list_all_iff)
  ultimately show ?case using at.IH by simp
qed simp

lemma complete_pick: "whole d \<Longrightarrow> list_all (\<lambda>f. reaches (snd f) d) picked \<Longrightarrow> complete (pick picked d)"
  using whole_sub by (fastforce simp: complete_def pick_def list_all_iff)

lemma complete_spread: "whole d \<Longrightarrow> complete picked \<Longrightarrow> complete (spread (Some d) picked)"
  by (cases d) (auto simp: complete_def spread_def list_all_iff)


text \<open>The steps down a path: along the entries of an object, and into one of them.\<close>

lemma reaches_here: "reaches ks d \<Longrightarrow> reaches (k # ks) (Obj ((k, d) # es))"
  by (auto simp: reaches_at)

lemma reaches_there: "reaches (k # ks) (Obj es) \<Longrightarrow> reaches (k # ks) (Obj (e # es))"
  by (auto simp: reaches_at)

lemma reaches_front: "reaches (k # ks) (Obj es) \<Longrightarrow> reaches (k # ks) (Obj (es @ fs))"
  by (auto simp: reaches_at)

lemma reaches_back: "reaches (k # ks) (Obj fs) \<Longrightarrow> reaches (k # ks) (Obj (es @ fs))"
  by (auto simp: reaches_at)

lemma list_all_none: "list_all P []"
  by simp

lemma reaches_en:
  "reaches (''passwordRecovery'' # ks) (Obj en_auth_part2) \<Longrightarrow> reaches (''passwordRecovery'' # ks) en_auth"
  "reaches (k # ks) (Obj en_auth_part1) \<Longrightarrow> reaches (k # ks) en_auth"
  unfolding en_auth_def by (fact reaches_back reaches_front)+

lemma reaches_es:
  "reaches (''passwordRecovery'' # ks) (Obj es_auth_part2) \<Longrightarrow> reaches (''passwordRecovery'' # ks) es_auth"
  "reaches (k # ks) (Obj es_auth_part1) \<Longrightarrow> reaches (k # ks) es_auth"
  unfolding es_auth_def by (fact reaches_back reaches_front)+

lemmas path_steps = conjI list_all_none end_of reaches_here reaches_there
  reaches_en [unfolded en_auth_part1_def en_auth_part2_def] reaches_es [unfolded es_auth_part1_def es_auth_part2_def]

lemma whole_en: "whole en_auth"
  by (simp add: en_auth_def en_auth_part1_def en_auth_part2_def)

lemma whole_es: "whole es_auth"
  by (simp add: es_auth_def es_auth_part1_def es_auth_part2_def)

lemma login_en: "complete (parseLoginStrings en_auth)"
  unfolding parseLoginStrings_def by (rule complete_pick [OF whole_en], unfold list.pred_inject snd_conv) (rule path_steps)+

lemma login_es: "complete (parseLoginStrings es_auth)"
  unfolding parseLoginStrings_def by (rule complete_pick [OF whole_es], unfold list.pred_inject snd_conv) (rule path_steps)+

lemma signup_en: "complete (parseSignUpStrings en_auth)"
  unfolding parseSignUpStrings_def by (rule complete_pick [OF whole_en], unfold list.pred_inject snd_conv) (rule path_steps)+

lemma signup_es: "complete (parseSignUpStrings es_auth)"
  unfolding parseSignUpStrings_def by (rule complete_pick [OF whole_es], unfold list.pred_inject snd_conv) (rule path_steps)+

lemma changepassword_en: "complete (parseChangePasswordStrings en_auth)"
  unfolding parseChangePasswordStrings_def by (rule complete_pick [OF whole_en], unfold list.pred_inject snd_conv) (rule path_steps)+

lemma changepassword_es: "complete (parseChangePasswordStrings es_auth)"
  unfolding parseChangePasswordStrings_def by (rule complete_pick [OF whole_es], unfold list.pred_inject snd_conv) (rule path_steps)+

lemma passwordforgotten_en: "complete (parsePasswordForgottenStrings en_auth)"
  unfolding parsePasswordForgottenStrings_def by (rule complete_pick [OF whole_en], unfold list.pred_inject snd_conv) (rule path_steps)+

lemma passwordforgotten_es: "complete (parsePasswordForgottenStrings es_auth)"
  unfolding parsePasswordForgottenStrings_def by (rule complete_pick [OF whole_es], unfold list.pred_inject snd_conv) (rule path_steps)+

lemma reset_en: "complete (parseResetPasswordStrings en_auth)"
proof -
  have "reaches [''passwordRecovery'', ''reset''] en_auth"
    by (rule path_steps)+
  then obtain r where r: "sub_dict [''passwordRecovery'', ''reset''] en_auth = Some r" "whole r"
    using whole_sub [OF _ whole_en] by blast
  show ?thesis
    unfolding parseResetPasswordStrings_def r(1)
    by (rule complete_spread [OF r(2)], rule complete_pick [OF whole_en], unfold list.pred_inject snd_conv) (rule path_steps)+
qed

lemma reset_es: "complete (parseResetPasswordStrings es_auth)"
proof -
  have "reaches [''passwordRecovery'', ''reset''] es_auth"
    by (rule path_steps)+
  then obtain r where r: "sub_dict [''passwordRecovery'', ''reset''] es_auth = Some r" "whole r"
    using whole_sub [OF _ whole_es] by blast
  show ?thesis
    unfolding parseResetPasswordStrings_def r(1)
    by (rule complete_spread [OF r(2)], rule complete_pick [OF whole_es], unfold list.pred_inject snd_conv) (rule path_steps)+
qed

text \<open>The fields that the type of each form's strings declares (\<open>types/components/auth.types.ts\<close>).\<close>

definition LoginFormStrings :: "string list" where
  "LoginFormStrings =
    [''email'', ''emailPlaceholder'', ''password'', ''passwordPlaceholder'', ''loggingIn'', ''login'',
     ''emailRequired'', ''emailInvalid'', ''passwordRequired'', ''loginTitle'', ''loginSubtitle'',
     ''signInWithGoogle'', ''orContinueWith'', ''rememberDevice'', ''forgotPassword'', ''resetPassword'',
     ''noAccount'', ''createOne'', ''firstAdminBadge'', ''loginFailed'', ''showPassword'', ''hidePassword'',
     ''emailPasswordRequired'', ''apiInspectorTitle'', ''apiInspectorCookieNote'']"

definition SignupFormStrings :: "string list" where
  "SignupFormStrings =
    [''email'', ''emailPlaceholder'', ''password'', ''passwordPlaceholder'', ''name'', ''namePlaceholder'',
     ''signingUp'', ''signup'', ''haveAccount'', ''loginLink'', ''emailRequired'', ''emailInvalid'',
     ''passwordRequired'', ''passwordMin'', ''nameRequired'', ''signupTitle'', ''signupSubtitle'',
     ''strengthLabel'', ''strengthTooShort'', ''strengthWeak'', ''strengthFair'', ''strengthGood'',
     ''strengthStrong'', ''nameHelp'', ''passwordHelp'', ''confirmPassword'', ''passwordsDoNotMatch'',
     ''termsAgree'', ''termsLabel'', ''privacyLabel'', ''creatingAccount'', ''orDivider'',
     ''continueWithGoogle'', ''firstAdminWelcome'', ''createAccountBadge'', ''emailPasswordRequired'',
     ''acceptTerms'', ''pickStrongerPassword'', ''signupFailed'', ''showPassword'', ''hidePassword'',
     ''apiInspectorTitle'', ''apiInspectorCookieNote'', ''autoSignInNote'']"

definition ChangePasswordStrings :: "string list" where
  "ChangePasswordStrings =
    [''title'', ''subtitle'', ''description'', ''currentPassword'', ''currentPlaceholder'', ''newPassword'',
     ''newPlaceholder'', ''confirmPassword'', ''confirmPlaceholder'', ''submit'', ''submitting'',
     ''errorWrongPassword'', ''errorWeakPassword'', ''errorGeneric'', ''passwordsDoNotMatch'',
     ''pickStrongerPassword'', ''passwordRequired'', ''showPassword'', ''hidePassword'', ''strengthLabel'',
     ''strengthTooShort'', ''strengthWeak'', ''strengthFair'', ''strengthGood'', ''strengthStrong'',
     ''passwordHelp'']"

definition PasswordForgottenFormStrings :: "string list" where
  "PasswordForgottenFormStrings =
    [''emailPlaceholder'', ''badge'', ''title'', ''sentTitle'', ''subtitle'', ''sentSubtitle'', ''emailLabel'',
     ''emailHelp'', ''submit'', ''submitting'', ''backToLogin'', ''sentTitlePrefix'', ''copyEmail'',
     ''copiedEmail'', ''useDifferentEmail'', ''expiresIn'', ''singleUseToken'', ''resendPrompt'',
     ''resendCta'', ''resendResent'', ''resendCooldown'', ''mailHelper'', ''mailApple'', ''mailGmail'',
     ''mailOutlook'', ''identityFrom'', ''identityFromValue'', ''identityFromBadge'', ''identitySubject'',
     ''identitySubjectValue'', ''identityReplyTo'', ''identityReplyToValue'', ''emailRequired'',
     ''emailInvalid'', ''requestFailed'', ''apiInspectorBody'', ''rateLimitNote'']"

definition ResetPasswordFormStrings :: "string list" where
  "ResetPasswordFormStrings =
    [''badge'', ''title'', ''subtitle'', ''newPassword'', ''newPasswordPlaceholder'', ''confirmPassword'',
     ''confirmPasswordPlaceholder'', ''submit'', ''submitting'', ''successTitle'', ''successMessage'',
     ''missingTokenTitle'', ''missingTokenMessage'', ''invalidTokenTitle'', ''invalidTokenMessage'',
     ''resetFailed'', ''backToLogin'', ''passwordsDoNotMatch'', ''pickStrongerPassword'', ''passwordRequired'',
     ''passwordHelp'', ''showPassword'', ''hidePassword'', ''strengthLabel'', ''strengthTooShort'',
     ''strengthWeak'', ''strengthFair'', ''strengthGood'', ''strengthStrong'']"

definition has_fields :: "string list \<Rightarrow> strings \<Rightarrow> bool" where
  "has_fields fields_of ss \<longleftrightarrow> set (map fst ss) = set fields_of"

definition auth_texts :: "string \<Rightarrow> dict" where
  "auth_texts loc = (case child ''auth'' (getTranslation loc) of Some d \<Rightarrow> d | None \<Rightarrow> Obj [])"

lemma auth_texts_eq: "auth_texts loc = (if is_prefix ''es'' loc then es_auth else en_auth)"
  by (simp add: auth_texts_def getTranslation_def en_dict_def es_dict_def)

lemma login_fields: "has_fields LoginFormStrings (parseLoginStrings d)"
  by (simp add: has_fields_def LoginFormStrings_def parseLoginStrings_def pick_def)

lemma signup_fields: "has_fields SignupFormStrings (parseSignUpStrings d)"
  by (simp add: has_fields_def SignupFormStrings_def parseSignUpStrings_def pick_def)

lemma changepassword_fields: "has_fields ChangePasswordStrings (parseChangePasswordStrings d)"
  by (simp add: has_fields_def ChangePasswordStrings_def parseChangePasswordStrings_def pick_def)

lemma passwordforgotten_fields: "has_fields PasswordForgottenFormStrings (parsePasswordForgottenStrings d)"
  by (simp add: has_fields_def PasswordForgottenFormStrings_def parsePasswordForgottenStrings_def pick_def)

text \<open>The section that the reset form spreads has the fields its type starts with.\<close>

lemma reset_section_en:
  "\<exists>r. sub_dict [''passwordRecovery'', ''reset''] en_auth = Some (Obj r) \<and> map fst r = take 17 ResetPasswordFormStrings"
proof -
  have "\<exists>e es. en_auth_part2 = (''passwordRecovery'', Obj e) # es \<and>
    (\<exists>r. map_of e ''reset'' = Some (Obj r) \<and> map fst r = take 17 ResetPasswordFormStrings)"
    by (simp add: en_auth_part2_def ResetPasswordFormStrings_def)
  then obtain e es r where e: "en_auth_part2 = (''passwordRecovery'', Obj e) # es"
    and r: "map_of e ''reset'' = Some (Obj r)" "map fst r = take 17 ResetPasswordFormStrings" by blast
  have "distinct (map fst (en_auth_part1 @ en_auth_part2))" using whole_en unfolding en_auth_def by simp
  then have "map_of (en_auth_part1 @ en_auth_part2) ''passwordRecovery'' = Some (Obj e)"
    unfolding e by (subst map_of_eq_Some_iff) simp_all
  then show ?thesis using r by (simp add: en_auth_def)
qed

lemma reset_section_es:
  "\<exists>r. sub_dict [''passwordRecovery'', ''reset''] es_auth = Some (Obj r) \<and> map fst r = take 17 ResetPasswordFormStrings"
proof -
  have "\<exists>e es. es_auth_part2 = (''passwordRecovery'', Obj e) # es \<and>
    (\<exists>r. map_of e ''reset'' = Some (Obj r) \<and> map fst r = take 17 ResetPasswordFormStrings)"
    by (simp add: es_auth_part2_def ResetPasswordFormStrings_def)
  then obtain e es r where e: "es_auth_part2 = (''passwordRecovery'', Obj e) # es"
    and r: "map_of e ''reset'' = Some (Obj r)" "map fst r = take 17 ResetPasswordFormStrings" by blast
  have "distinct (map fst (es_auth_part1 @ es_auth_part2))" using whole_es unfolding es_auth_def by simp
  then have "map_of (es_auth_part1 @ es_auth_part2) ''passwordRecovery'' = Some (Obj e)"
    unfolding e by (subst map_of_eq_Some_iff) simp_all
  then show ?thesis using r by (simp add: es_auth_def)
qed

lemma reset_has_fields:
  assumes "sub_dict [''passwordRecovery'', ''reset''] d = Some (Obj r)" "map fst r = take 17 ResetPasswordFormStrings"
  shows "has_fields ResetPasswordFormStrings (parseResetPasswordStrings d)"
proof -
  define picked where "picked = drop 17 ResetPasswordFormStrings"
  have "\<exists>ps. parseResetPasswordStrings d = spread (Some (Obj r)) ps \<and> map fst ps = picked"
    unfolding parseResetPasswordStrings_def assms(1)
    by (intro exI conjI, rule refl) (simp add: pick_def picked_def ResetPasswordFormStrings_def)
  then obtain ps where ps: "parseResetPasswordStrings d = spread (Some (Obj r)) ps" "map fst ps = picked" by blast
  have "set (map fst (spread (Some (Obj r)) ps)) = set (map fst r) \<union> set (map fst ps)"
    by (auto simp: spread_def image_iff)
  then show ?thesis
    unfolding has_fields_def ps assms(2) picked_def by (metis append_take_drop_id set_append)
qed

lemma reset_fields: "has_fields ResetPasswordFormStrings (parseResetPasswordStrings en_auth)"
    "has_fields ResetPasswordFormStrings (parseResetPasswordStrings es_auth)"
  using reset_section_en reset_section_es reset_has_fields by blast+

text \<open>Every form gets the strings its type declares, in every language: exactly those fields, each one there
  and no text in it empty.\<close>

theorem form_strings_complete:
  "has_fields LoginFormStrings (parseLoginStrings (auth_texts loc)) \<and> complete (parseLoginStrings (auth_texts loc)) \<and>
   has_fields SignupFormStrings (parseSignUpStrings (auth_texts loc)) \<and> complete (parseSignUpStrings (auth_texts loc)) \<and>
   has_fields ChangePasswordStrings (parseChangePasswordStrings (auth_texts loc)) \<and>
     complete (parseChangePasswordStrings (auth_texts loc)) \<and>
   has_fields PasswordForgottenFormStrings (parsePasswordForgottenStrings (auth_texts loc)) \<and>
     complete (parsePasswordForgottenStrings (auth_texts loc)) \<and>
   has_fields ResetPasswordFormStrings (parseResetPasswordStrings (auth_texts loc)) \<and>
     complete (parseResetPasswordStrings (auth_texts loc))"
  by (simp add: auth_texts_eq login_en login_es signup_en signup_es changepassword_en changepassword_es
      passwordforgotten_en passwordforgotten_es reset_en reset_es login_fields signup_fields changepassword_fields
      passwordforgotten_fields reset_fields)

section \<open>What the code relies on in the texts\<close>

text \<open>The sections these texts are in, reached without evaluating the others.\<close>

lemma text_at_child: "text_at (k # ks) d = (case child k d of None \<Rightarrow> None | Some e \<Rightarrow> text_at ks e)"
  by (simp add: text_at_def split: option.split)

lemma child_append: "child k (Obj (es @ fs)) = (case map_of es k of None \<Rightarrow> map_of fs k | Some d \<Rightarrow> Some d)"
  by (simp add: map_add_def split: option.split)

lemma section_of:
  "child ''user'' (getTranslation ''en'') = Some en_user" "child ''user'' (getTranslation ''es'') = Some es_user"
  "child ''device'' (getTranslation ''en'') = Some en_device" "child ''device'' (getTranslation ''es'') = Some es_device"
  "child ''apiKeys'' (getTranslation ''en'') = Some en_apiKeys" "child ''apiKeys'' (getTranslation ''es'') = Some es_apiKeys"
  by (simp_all add: getTranslation_def en_dict_def es_dict_def)

lemma no_detail: "map_of en_device_part1 ''detail'' = None" "map_of es_device_part1 ''detail'' = None"
  unfolding entry_of_eq [symmetric] by code_simp+

lemma no_accessTable:
  "map_of en_device_detail_part1 ''accessTable'' = None" "map_of es_device_detail_part1 ''accessTable'' = None"
  unfolding entry_of_eq [symmetric] by code_simp+

definition revoke_texts :: "language \<Rightarrow> dict option" where
  "revoke_texts l = sub_dict [''device'', ''detail'', ''accessTable'', ''revokeConfirm''] (getTranslation (language_str l))"

lemma revoke_texts_eq:
  "revoke_texts En = Option.bind (map_of en_device_detail_part2 ''accessTable'') (child ''revokeConfirm'')"
  "revoke_texts Es = Option.bind (map_of es_device_detail_part2 ''accessTable'') (child ''revokeConfirm'')"
  by (simp_all add: revoke_texts_def section_of en_device_def es_device_def child_append no_detail en_device_part2_def
      es_device_part2_def en_device_detail_def es_device_detail_def no_accessTable del: child.simps split: option.split)

definition revoke_text :: "string \<Rightarrow> language \<Rightarrow> string" where
  "revoke_text k l = (case Option.bind (revoke_texts l) (child k) of Some (Txt s) \<Rightarrow> s | _ \<Rightarrow> [])"

lemma revoke_text_values:
  "revoke_text ''confirmPhrase'' En = ''confirm''" "revoke_text ''confirmPhrase'' Es = ''confirmar''"
  "revoke_text ''typeConfirmPlaceholder'' En = ''confirm''" "revoke_text ''typeConfirmPlaceholder'' Es = ''confirmar''"
  "revoke_text ''typeConfirmLabel'' En = ''Type '' @ dquote # ''confirm'' @ dquote # '' to confirm''"
  "revoke_text ''typeConfirmLabel'' Es = ''Escribe '' @ dquote # ''confirmar'' @ dquote # '' para confirmar''"
  unfolding revoke_text_def revoke_texts_eq entry_of_eq [symmetric] by code_simp+

definition user_delete_text :: "string \<Rightarrow> language \<Rightarrow> string" where
  "user_delete_text k l = nullish (text_at [''user'', ''delete'', k] (getTranslation (language_str l))) []"

lemma user_delete_text_eq:
  "user_delete_text k En = nullish (text_at [''delete'', k] en_user) []"
  "user_delete_text k Es = nullish (text_at [''delete'', k] es_user) []"
  by (simp_all add: user_delete_text_def text_at_child [of "''user''"] section_of)

text \<open>In each language the dialog that deletes a user tells the visitor the very phrase that it accepts, and so does
  the one that takes away an access; typing the phrase as the text shows it arms the button.\<close>

theorem delete_phrases_announced:
  "includes_str (user_delete_text ''prompt'' l) (DELETE_USER_CONFIRM_PHRASE l) \<and>
   includes_str (user_delete_text ''confirmPlaceholder'' l) (DELETE_USER_CONFIRM_PHRASE l) \<and>
   includes_str (revoke_text ''typeConfirmLabel'' l) ([dquote] @ revoke_text ''confirmPhrase'' l @ [dquote]) \<and>
   dm_can_confirm (revoke_text ''confirmPhrase'' l) (revoke_text ''typeConfirmPlaceholder'' l) \<and>
   dm_can_confirm (DELETE_USER_CONFIRM_PHRASE l) (revoke_text ''confirmPhrase'' l)"
proof (cases l)
  case En
  have "includes_str (user_delete_text ''prompt'' En) (DELETE_USER_CONFIRM_PHRASE En)"
    "includes_str (user_delete_text ''confirmPlaceholder'' En) (DELETE_USER_CONFIRM_PHRASE En)"
    unfolding user_delete_text_eq by code_simp+
  then show ?thesis
    unfolding En revoke_text_values by (simp add: dm_can_confirm_def DELETE_USER_CONFIRM_PHRASE_def dquote_def)
next
  case Es
  have "includes_str (user_delete_text ''prompt'' Es) (DELETE_USER_CONFIRM_PHRASE Es)"
    "includes_str (user_delete_text ''confirmPlaceholder'' Es) (DELETE_USER_CONFIRM_PHRASE Es)"
    unfolding user_delete_text_eq by code_simp+
  then show ?thesis
    unfolding Es revoke_text_values by (simp add: dm_can_confirm_def DELETE_USER_CONFIRM_PHRASE_def dquote_def)
qed

text \<open>The strings of the access page.\<close>

definition key_text :: "string list \<Rightarrow> language \<Rightarrow> string" where
  "key_text ks l = nullish (text_at (''apiKeys'' # ks) (getTranslation (language_str l))) []"

lemma key_text_eq:
  "key_text ks En = nullish (text_at ks en_apiKeys) []" "key_text ks Es = nullish (text_at ks es_apiKeys) []"
  by (simp_all add: key_text_def text_at_child [of "''apiKeys''"] section_of)

definition access_texts :: "language \<Rightarrow> access_strings" where
  "access_texts l = \<lparr>as_addKey = key_text [''page'', ''addKey''] l, as_issuedToast = key_text [''page'', ''issuedToast''] l,
     as_revokedToast = key_text [''page'', ''revokedToast''] l, as_revokeTitle = key_text [''modals'', ''revokeTitle''] l,
     as_revokeFailed = key_text [''modals'', ''revokeFailed''] l\<rparr>"

theorem translations_agree_witness:
  "\<exists>t. text_at [''apiKeys'', ''modals'', ''revokeTypeToConfirm''] (getTranslation ''es'') = Some t \<and>
     {''name''} = set (template_keys t) \<and>
     interpolateTemplate (\<lambda>_. Some ''Van'') t = interpolateTemplate (\<lambda>k. if k = ''name'' then Some ''Van'' else None) t"
proof -
  obtain s where s: "text_at [''modals'', ''revokeTypeToConfirm''] en_apiKeys = Some s" "template_keys s = [''name'']"
  proof
    show "text_at [''modals'', ''revokeTypeToConfirm''] en_apiKeys = Some (''Type '' @ dquote # ''{name}'' @ dquote # '' to confirm'')"
      by (simp add: text_at_def en_apiKeys_def dquote_def)
    show "template_keys (''Type '' @ dquote # ''{name}'' @ dquote # '' to confirm'') = [''name'']"
      by code_simp
  qed
  have "text_at [''apiKeys'', ''modals'', ''revokeTypeToConfirm''] (getTranslation ''en'') = Some s"
    using s(1) by (simp add: text_at_child [of "''apiKeys''"] section_of)
  note agreed = translations_agree [where ks = "[''apiKeys'', ''modals'', ''revokeTypeToConfirm'']" and l = "''en''" and l' = "''es''",
    unfolded this option.case s(2) list.set]
  then obtain t where t: "text_at [''apiKeys'', ''modals'', ''revokeTypeToConfirm''] (getTranslation ''es'') = Some t \<and>
     {''name''} = set (template_keys t) \<and>
     (\<forall>vars vars'. (\<forall>k. k \<in> {''name''} \<longrightarrow> vars k = vars' k) \<longrightarrow> interpolateTemplate vars t = interpolateTemplate vars' t)"
    by (rule exE)
  note same = t [THEN conjunct2, THEN conjunct2, rule_format, of "\<lambda>_. Some ''Van''" "\<lambda>k. if k = ''name'' then Some ''Van'' else None"]
  show ?thesis
  proof (intro exI conjI)
    show "text_at [''apiKeys'', ''modals'', ''revokeTypeToConfirm''] (getTranslation ''es'') = Some t" using t by (rule conjunct1)
    show "{''name''} = set (template_keys t)" using t [THEN conjunct2] by (rule conjunct1)
    show "interpolateTemplate (\<lambda>_. Some ''Van'') t = interpolateTemplate (\<lambda>k. if k = ''name'' then Some ''Van'' else None) t"
      by (rule same) simp
  qed
qed

text \<open>The title of the toast after a revocation is the part of its message before the first double quote. The
  Spanish message quotes the device with other signs, so its title is the whole message, its key unfilled.\<close>

theorem revoked_title_cut:
  "t_title (revoked_toast (access_texts En) row) = ''API key revoked from '' \<and>
   t_title (revoked_toast (access_texts Es) row) = as_revokedToast (access_texts Es) \<and>
   template_keys (t_title (revoked_toast (access_texts Es) row)) = [''device'']"
proof -
  have texts: "key_text [''page'', ''revokedToast''] En = ''API key revoked from '' @ dquote # (''{device}'' @ dquote # ''.'')"
    "key_text [''page'', ''revokedToast''] Es = ''Clave de API revocada de '' @ CHR 0xAB # ''{device}'' @ CHR 0xBB # ''.''"
    unfolding key_text_eq by (simp_all add: text_at_def en_apiKeys_def es_apiKeys_def dquote_def)
  have "dquote \<notin> set ''API key revoked from ''"
    "dquote \<notin> set (''Clave de API revocada de '' @ CHR 0xAB # ''{device}'' @ CHR 0xBB # ''.'')"
    by code_simp+
  then have en: "hd (split_char dquote (key_text [''page'', ''revokedToast''] En)) = ''API key revoked from ''"
    and es: "hd (split_char dquote (key_text [''page'', ''revokedToast''] Es)) = key_text [''page'', ''revokedToast''] Es"
    unfolding texts using split_char_append [of dquote "''API key revoked from ''"] split_char_single [of dquote] by (metis list.sel(1))+
  have keys: "template_keys (key_text [''page'', ''revokedToast''] Es) = [''device'']"
    unfolding texts by code_simp
  show ?thesis by (simp add: revoked_toast_def mk_toast_def access_texts_def en es keys)
qed

end
