(* ===== verification/DeviceCards.thy ===== *)
theory DeviceCards
  imports UiParts Tables Navigation ShareDialogs
begin

text \<open>
  What the device pages print: the strip of metrics (\<open>features/devices/detail/Kpi.tsx\<close>), the telemetry card
  (\<open>location/TelemetryCard.tsx\<close>), the header and the information card (\<open>VehicleDetailHeader.tsx\<close>,
  \<open>DeviceInfoCard.tsx\<close>), the table of people with access (\<open>access/DeviceAccessTable.tsx\<close>) and the table of the
  devices page (\<open>DevicesTable.tsx\<close>). A component is a function from its props to the texts on the screen;
  a click handler returns the call it makes, if any.
\<close>

section \<open>The environment and the strings\<close>

text \<open>Number printing, the clock, the parser of timestamps and \<open>Intl\<close> are parameters.\<close>

record card_env =
  ce_ns :: "number \<Rightarrow> string"
  ce_getTime :: "string \<Rightarrow> number"
  ce_now :: real
  ce_intl :: "language \<Rightarrow> real \<Rightarrow> string"
  ce_lang :: language
  ce_date :: relative_strings

record detail_strings =
  dl_unitSpeed :: string
  dl_unitMeters :: string
  dl_stationary :: string
  dl_moving :: string
  dl_battery :: string
  dl_signal :: string
  dl_speed :: string
  dl_lastPing :: string
  dl_altitude :: string
  dl_accuracy :: string
  dl_recorded :: string
  dl_deviceId :: string
  dl_uuidShort :: string

definition relative_text :: "card_env \<Rightarrow> string option \<Rightarrow> string" where
  "relative_text env t = formatRelativeTime (ce_getTime env) (ce_now env) t (ce_lang env) (ce_date env)"

section \<open>The metrics\<close>

record kpi_card =
  kc_label :: string
  kc_value :: string
  kc_hint :: string
  kc_percent :: "number option"
  kc_tone :: metric_tone

text \<open>The width of a card's bar in percent.\<close>

definition kpi_bar :: "kpi_card \<Rightarrow> number" where
  "kpi_bar c = nullish (kc_percent c) (Fin 0)"

definition percent_of :: "number \<Rightarrow> number" where
  "percent_of ratio = clampValue (num_round (num_mul ratio (Fin 100))) (Fin 0) (Fin 100)"

definition battery_percent :: "location_point option \<Rightarrow> number option" where
  "battery_percent loc =
     map_option (\<lambda>v. percent_of (num_div_const (num_sub v (Fin (33 / 10))) (9 / 10))) (Option.bind loc lp_battery_voltage)"

definition signal_percent :: "location_point option \<Rightarrow> number option" where
  "signal_percent loc = map_option (\<lambda>s. percent_of (num_div_const s 31)) (Option.bind loc lp_signal_strength)"

definition speed_percent :: "location_point option \<Rightarrow> number option" where
  "speed_percent loc = map_option (\<lambda>s. percent_of (num_div_const s 25)) (Option.bind loc lp_speed)"

definition speed_tone :: "number option \<Rightarrow> metric_tone" where
  "speed_tone speed =
     (case speed of None \<Rightarrow> ToneNone
      | Some s \<Rightarrow> if num_less (Fin 20) s then ToneBad else if num_less (Fin 14) s then ToneWarn else ToneOk)"

definition last_ping :: "'z device_scheme \<Rightarrow> location_point option \<Rightarrow> string option" where
  "last_ping d loc = (case loc of Some l \<Rightarrow> Some (lp_recorded_at l) | None \<Rightarrow> d_last_contact_at d)"

fun status_percent :: "device_status_key \<Rightarrow> number" where
  "status_percent StOnline = Fin 100"
| "status_percent StStale = Fin 50"
| "status_percent StOffline = Fin 5"
| "status_percent StNeverSeen = Fin 0"

definition status_tone :: "device_status_key \<Rightarrow> metric_tone" where
  "status_tone k = (if k = StOnline then ToneOk else if k = StStale then ToneWarn else ToneBad)"

definition percent_hint :: "card_env \<Rightarrow> number option \<Rightarrow> string" where
  "percent_hint env p = (case p of None \<Rightarrow> em_dash | Some n \<Rightarrow> ce_ns env n @ ''%'')"

definition signal_value :: "card_env \<Rightarrow> location_point option \<Rightarrow> string" where
  "signal_value env loc =
     (case Option.bind loc lp_signal_strength of None \<Rightarrow> em_dash | Some s \<Rightarrow> ce_ns env s @ ''/31'')"

definition kpi_strip ::
  "card_env \<Rightarrow> detail_strings \<Rightarrow> 'z device_scheme \<Rightarrow> location_point option \<Rightarrow> device_status \<Rightarrow> kpi_card list" where
  "kpi_strip env t d loc st =
     (let battery = battery_percent loc; signal = signal_percent loc; speed = Option.bind loc lp_speed;
          ping = last_ping d loc
      in [\<lparr>kc_label = dl_battery t,
           kc_value = (case battery of None \<Rightarrow> em_dash | Some n \<Rightarrow> ce_ns env n @ '' %''),
           kc_hint = percent_hint env battery, kc_percent = battery, kc_tone = getVehicleBatteryMetricTone battery\<rparr>,
          \<lparr>kc_label = dl_signal t, kc_value = signal_value env loc, kc_hint = percent_hint env signal,
           kc_percent = signal, kc_tone = getVehicleBatteryMetricTone signal\<rparr>,
          \<lparr>kc_label = dl_speed t,
           kc_value = (case speed of None \<Rightarrow> ''0 m/s'' | Some s \<Rightarrow> to_fixed (ce_ns env) 1 s @ '' '' @ dl_unitSpeed t),
           kc_hint = (case speed of None \<Rightarrow> ''0 m/s'' | Some s \<Rightarrow> if s = Fin 0 then dl_stationary t else dl_moving t),
           kc_percent = speed_percent loc, kc_tone = speed_tone speed\<rparr>,
          \<lparr>kc_label = dl_lastPing t, kc_value = relative_text env ping,
           kc_hint = formatDateTime (ce_getTime env) (ce_intl env) ping (ce_lang env),
           kc_percent = Some (status_percent (dst_key st)), kc_tone = status_tone (dst_key st)\<rparr>])"

definition in_percent :: "number \<Rightarrow> bool" where
  "in_percent n \<longleftrightarrow> num_leq (Fin 0) n \<and> num_leq n (Fin 100)"

definition reads :: "location_point \<Rightarrow> bool" where
  "reads l \<longleftrightarrow> lp_battery_voltage l \<noteq> Some NaN \<and> lp_signal_strength l \<noteq> Some NaN \<and> lp_speed l \<noteq> Some NaN"

lemma percent_of_range: "n \<noteq> NaN \<Longrightarrow> in_percent (percent_of n)"
proof -
  assume "n \<noteq> NaN"
  then have "num_round (num_mul n (Fin 100)) \<noteq> NaN" by (cases n) (auto simp: signed_inf_def)
  then show ?thesis unfolding in_percent_def percent_of_def by (rule clampValue_range [rotated]) simp
qed

lemma div_const_number: "n \<noteq> NaN \<Longrightarrow> 0 < c \<Longrightarrow> num_div_const n c \<noteq> NaN"
  by (cases n) (auto simp: num_div_const_def signed_inf_def)

lemma sub_const_number: "n \<noteq> NaN \<Longrightarrow> num_sub n (Fin c) \<noteq> NaN"
  by (cases n) (auto simp: num_sub_def)

lemma percents_in_range:
  assumes "case loc of None \<Rightarrow> True | Some l \<Rightarrow> reads l"
  shows "battery_percent loc = Some p \<Longrightarrow> in_percent p" "signal_percent loc = Some p \<Longrightarrow> in_percent p"
    "speed_percent loc = Some p \<Longrightarrow> in_percent p"
proof -
  have number: "n \<noteq> NaN" if "Option.bind loc f = Some n" "\<And>l. reads l \<Longrightarrow> f l \<noteq> Some NaN" for n f
    using that assms by (cases loc) auto
  show "in_percent p" if "battery_percent loc = Some p"
  proof -
    obtain v where v: "Option.bind loc lp_battery_voltage = Some v"
      "p = percent_of (num_div_const (num_sub v (Fin (33 / 10))) (9 / 10))"
      using \<open>battery_percent loc = Some p\<close> unfolding battery_percent_def by blast
    show ?thesis unfolding v(2)
      by (intro percent_of_range div_const_number sub_const_number number [OF v(1)]) (simp_all add: reads_def)
  qed
  show "in_percent p" if "signal_percent loc = Some p"
  proof -
    obtain v where v: "Option.bind loc lp_signal_strength = Some v" "p = percent_of (num_div_const v 31)"
      using \<open>signal_percent loc = Some p\<close> unfolding signal_percent_def by blast
    show ?thesis unfolding v(2) by (intro percent_of_range div_const_number number [OF v(1)]) (simp_all add: reads_def)
  qed
  show "in_percent p" if "speed_percent loc = Some p"
  proof -
    obtain v where v: "Option.bind loc lp_speed = Some v" "p = percent_of (num_div_const v 25)"
      using \<open>speed_percent loc = Some p\<close> unfolding speed_percent_def by blast
    show ?thesis unfolding v(2) by (intro percent_of_range div_const_number number [OF v(1)]) (simp_all add: reads_def)
  qed
qed

lemma math_round_mono: "x \<le> y \<Longrightarrow> math_round x \<le> math_round y"
  unfolding math_round_def by (rule floor_mono) simp

lemma percent_of_fin: "percent_of (Fin x) = Fin (of_int (max 0 (min 100 (math_round (x * 100)))))"
  unfolding percent_of_def num_mul.simps num_round.simps by (subst clampValue_finite) (auto simp: max_def min_def)

text \<open>The bar of each metric is between empty and full for every reading that is a number, and empty for a
  reading that is missing, which has no colour either; a higher battery voltage never fills its bar
  less; and the colour of the battery is red exactly below a fifth and green exactly from a half on.\<close>

theorem kpi_bars:
  assumes "case loc of None \<Rightarrow> True | Some l \<Rightarrow> reads l"
  shows "list_all (\<lambda>c. in_percent (kpi_bar c)) (kpi_strip env t d loc st) \<and>
    (Option.bind loc lp_battery_voltage = None \<longrightarrow>
       kpi_bar (kpi_strip env t d loc st ! 0) = Fin 0 \<and> kc_tone (kpi_strip env t d loc st ! 0) = ToneNone) \<and>
    (\<forall>v v'. v \<le> v' \<longrightarrow> num_leq (the (battery_percent (Some (l\<lparr>lp_battery_voltage := Some (Fin v)\<rparr>))))
                            (the (battery_percent (Some (l\<lparr>lp_battery_voltage := Some (Fin v')\<rparr>))))) \<and>
    (\<forall>p. battery_percent loc = Some (Fin p) \<longrightarrow>
       (kc_tone (kpi_strip env t d loc st ! 0) = ToneBad) = (p < 20) \<and>
       (kc_tone (kpi_strip env t d loc st ! 0) = ToneOk) = (50 \<le> p))"
proof (intro conjI allI impI)
  have z: "in_percent (Fin 0)" by (simp add: in_percent_def)
  have s: "in_percent (status_percent k)" for k by (cases k) (simp_all add: in_percent_def)
  show "list_all (\<lambda>c. in_percent (kpi_bar c)) (kpi_strip env t d loc st)"
    using percents_in_range [OF assms] z s
    by (cases "battery_percent loc"; cases "signal_percent loc"; cases "speed_percent loc")
      (simp_all add: kpi_strip_def kpi_bar_def Let_def)
next
  fix v v' :: real
  assume "v \<le> v'"
  then have "math_round ((v - 33 / 10) * (10 / 9) * 100) \<le> math_round ((v' - 33 / 10) * (10 / 9) * 100)"
    by (intro math_round_mono) simp
  then show "num_leq (the (battery_percent (Some (l\<lparr>lp_battery_voltage := Some (Fin v)\<rparr>))))
      (the (battery_percent (Some (l\<lparr>lp_battery_voltage := Some (Fin v')\<rparr>))))"
    by (simp add: battery_percent_def num_sub_def num_div_const_def percent_of_fin)
next
  fix p
  assume p: "battery_percent loc = Some (Fin p)"
  show "(kc_tone (kpi_strip env t d loc st ! 0) = ToneBad) = (p < 20)" "(kc_tone (kpi_strip env t d loc st ! 0) = ToneOk) = (50 \<le> p)"
    by (simp_all add: kpi_strip_def p getVehicleBatteryMetricTone_def Let_def)
qed (simp_all add: kpi_strip_def kpi_bar_def battery_percent_def getVehicleBatteryMetricTone_def Let_def)

section \<open>The telemetry card\<close>

definition telemetry_items :: "card_env \<Rightarrow> detail_strings \<Rightarrow> location_point \<Rightarrow> (string \<times> string) list" where
  "telemetry_items env t l =
     [(dl_altitude t, renderNumberWithUnit (ce_ns env) (lp_altitude l) (dl_unitMeters t) 0),
      (dl_speed t, (case lp_speed l of None \<Rightarrow> ''0 m/s''
                    | Some s \<Rightarrow> renderNumberWithUnit (ce_ns env) (Some s) (dl_unitSpeed t) 1 @ '' '' @ dl_unitSpeed t)),
      (dl_accuracy t, (case lp_accuracy l of None \<Rightarrow> [CHR 0xB1] @ '' 0 m''
                       | Some a \<Rightarrow> [CHR 0xB1] @ to_fixed (ce_ns env) 1 a @ '' '' @ dl_unitMeters t)),
      (dl_battery t, (case lp_battery_voltage l of None \<Rightarrow> em_dash
                      | Some v \<Rightarrow> renderNumberWithUnit (ce_ns env) (Some v) ''V'' 2)),
      (dl_signal t, signal_value env (Some l)),
      (dl_recorded t, relative_text env (Some (lp_recorded_at l)))]"

definition telemetry_card ::
  "card_env \<Rightarrow> detail_strings \<Rightarrow> location_point option \<Rightarrow> ((string \<times> string) \<times> (string \<times> string) list) option" where
  "telemetry_card env t loc =
     map_option (\<lambda>l. ((to_fixed (ce_ns env) 6 (lp_latitude l), to_fixed (ce_ns env) 6 (lp_longitude l)),
                      telemetry_items env t l)) loc"

text \<open>The telemetry card prints the unit of the speed twice, where the strip above it prints it once. And two
  readings that are missing are not shown as missing there: a position without a speed shows a speed
  of zero, one without an accuracy an accuracy of zero, while altitude, battery and signal show a dash.\<close>

theorem telemetry_texts:
  assumes "lp_speed l = Some (Fin s)" "\<bar>s\<bar> < 10 ^ 21"
  shows "snd (telemetry_items env t l ! 1) = kc_value (kpi_strip env t d (Some l) st ! 2) @ '' '' @ dl_unitSpeed t \<and>
    snd (telemetry_items env t l ! 1) = fixed_real 1 s @ '' '' @ dl_unitSpeed t @ '' '' @ dl_unitSpeed t \<and>
    map snd (take 5 (telemetry_items env t
        (l\<lparr>lp_altitude := None, lp_speed := None, lp_accuracy := None, lp_battery_voltage := None, lp_signal_strength := None\<rparr>))) =
      [em_dash, ''0 m/s'', [CHR 0xB1] @ '' 0 m'', em_dash, em_dash]"
  using assms by (simp add: telemetry_items_def kpi_strip_def renderNumberWithUnit_def signal_value_def Let_def)

definition plain_env :: card_env where
  "plain_env = \<lparr>ce_ns = (\<lambda>_. ''n''), ce_getTime = (\<lambda>_. Fin 0), ce_now = 0, ce_intl = (\<lambda>_ _. ''date''), ce_lang = En,
     ce_date = \<lparr>rl_justNow = ''now'', rl_minutesAgo = ''{count} min'', rl_hoursAgo = ''{count} h'', rl_daysAgo = ''{count} d''\<rparr>\<rparr>"

definition plain_detail :: detail_strings where
  "plain_detail = \<lparr>dl_unitSpeed = ''m/s'', dl_unitMeters = ''m'', dl_stationary = ''Stationary'', dl_moving = ''Moving'',
     dl_battery = ''Battery'', dl_signal = ''Signal'', dl_speed = ''Speed'', dl_lastPing = ''Last ping'', dl_altitude = ''Altitude'',
     dl_accuracy = ''Accuracy'', dl_recorded = ''Recorded'', dl_deviceId = ''ID'', dl_uuidShort = ''UUID''\<rparr>"

definition plain_reading :: location_point where
  "plain_reading = \<lparr>lp_device_id = ''d'', lp_recorded_at = ''t'', lp_latitude = Fin 0, lp_longitude = Fin 0, lp_altitude = None,
     lp_speed = Some (Fin 12), lp_accuracy = None, lp_battery_voltage = Some (Fin 4), lp_signal_strength = None\<rparr>"

theorem kpi_bars_witness:
  "list_all (\<lambda>c. in_percent (kpi_bar c)) (kpi_strip plain_env plain_detail van (Some plain_reading)
     (deviceStatusFromPresence OnlineMoving sample_strings))"
  using kpi_bars [of "Some plain_reading" plain_env plain_detail van "deviceStatusFromPresence OnlineMoving sample_strings"]
  by (simp only: option.case reads_def plain_reading_def location_point.simps) simp

theorem telemetry_texts_witness:
  "snd (telemetry_items plain_env plain_detail plain_reading ! 1) = ''12.0 m/s m/s''"
proof -
  have "fixed_real 1 12 = ''12.0''" by (simp add: fixed_real_def, code_simp)
  moreover have "lp_speed plain_reading = Some (Fin 12)" "\<bar>12\<bar> < (10 :: real) ^ 21" by (simp_all add: plain_reading_def)
  note telemetry_texts [OF this, where env = plain_env and t = plain_detail, THEN conjunct2, THEN conjunct1]
  ultimately show ?thesis by (simp add: plain_detail_def)
qed

section \<open>The header and the information card\<close>

text \<open>The texts under the title, and which buttons are there: sharing is for the owner.\<close>

record detail_header =
  dh_title :: string
  dh_status :: string
  dh_vehicle :: string
  dh_role :: string
  dh_id :: string
  dh_ping :: string
  dh_uuid :: string
  dh_share :: bool

definition vehicle_header ::
  "card_env \<Rightarrow> detail_strings \<Rightarrow> device_strings \<Rightarrow> (access_role \<Rightarrow> string) \<Rightarrow> bool \<Rightarrow> 'z device_with_access_scheme \<Rightarrow>
   device_status \<Rightarrow> detail_header" where
  "vehicle_header env t ds roles share d st =
     \<lparr>dh_title = d_name d, dh_status = dst_label st, dh_vehicle = ds_vehicleTypes ds (d_vehicle_type d),
      dh_role = roles (da_access_role d), dh_id = dl_deviceId t @ '' '' @ d_id d,
      dh_ping = dl_lastPing t @ ''  - '' @ relative_text env (d_last_contact_at d),
      dh_uuid = dl_uuidShort t @ '' '' @ take 8 (d_uuid_firmware d) @ ellipsis, dh_share = share\<rparr>"

text \<open>The device page hands the header a device whose last contact is that of the live position.\<close>

definition page_header ::
  "card_env \<Rightarrow> detail_strings \<Rightarrow> device_strings \<Rightarrow> (access_role \<Rightarrow> string) \<Rightarrow> 'z device_with_access_scheme \<Rightarrow>
   location_point option \<Rightarrow> device_status \<Rightarrow> detail_header" where
  "page_header env t ds roles d latest st =
     vehicle_header env t ds roles (da_access_role d = Owner) (d\<lparr>d_last_contact_at := map_option lp_recorded_at latest\<rparr>) st"

record info_row =
  ir_value :: string
  ir_copy :: "string option"

definition device_info ::
  "card_env \<Rightarrow> device_strings \<Rightarrow> (access_role \<Rightarrow> string) \<Rightarrow> 'z device_with_access_scheme \<Rightarrow> info_row list" where
  "device_info env ds roles d =
     [\<lparr>ir_value = d_uuid_firmware d, ir_copy = Some (d_uuid_firmware d)\<rparr>,
      \<lparr>ir_value = ''#'' @ d_id d, ir_copy = Some (d_id d)\<rparr>,
      \<lparr>ir_value = ds_vehicleTypes ds (d_vehicle_type d), ir_copy = None\<rparr>,
      \<lparr>ir_value = roles (da_access_role d), ir_copy = None\<rparr>,
      \<lparr>ir_value = relative_text env (Some (d_created_at d)), ir_copy = None\<rparr>,
      \<lparr>ir_value = relative_text env (d_last_contact_at d), ir_copy = None\<rparr>]"

text \<open>Three places of the device page say when the device was last heard of. With a live position they agree on
  the strip and the header. Without one the strip and the information card fall back to the last contact
  of the device, but the header shows a dash, as for a device that was never heard of.\<close>

theorem last_contact_shown:
  "kc_value (kpi_strip env t d (Some l) st ! 3) = relative_text env (Some (lp_recorded_at l)) \<and>
   dh_ping (page_header env t ds roles d (Some l) st) = dl_lastPing t @ ''  - '' @ relative_text env (Some (lp_recorded_at l)) \<and>
   kc_value (kpi_strip env t d None st ! 3) = ir_value (device_info env ds roles d ! 5) \<and>
   dh_ping (page_header env t ds roles d None st) = dl_lastPing t @ ''  - '' @ em_dash \<and>
   dh_share (page_header env t ds roles d latest st) = (da_access_role d = Owner)"
  by (simp add: kpi_strip_def last_ping_def page_header_def vehicle_header_def device_info_def Let_def relative_text_def
      formatRelativeTime_def)

section \<open>The people with access\<close>

datatype access_button = Protected | RevokeButton string

record access_row =
  ar_initials :: string
  ar_name :: string
  ar_email :: string
  ar_role :: string
  ar_granted :: string
  ar_button :: access_button

datatype access_body = AccessOwnerOnly | AccessNobody | AccessRows "access_row list"

definition access_table ::
  "card_env \<Rightarrow> (access_role \<Rightarrow> string) \<Rightarrow> device_detail \<Rightarrow> access_body" where
  "access_table env roles d =
     (if da_access_role d \<noteq> Owner then AccessOwnerOnly
      else if dd_users d = [] then AccessNobody
      else AccessRows (map (\<lambda>u.
        \<lparr>ar_initials = getInitials (dal_name u), ar_name = dal_name u, ar_email = dal_email u, ar_role = roles (dal_role u),
         ar_granted = relative_text env (Some (dal_access_granted_at u)),
         ar_button = (if dal_role u = Owner then Protected else RevokeButton (dal_user_id u))\<rparr>) (dd_users d)))"

definition can_invite :: "device_detail \<Rightarrow> bool" where
  "can_invite d \<longleftrightarrow> da_access_role d = Owner"

text \<open>\<open>handleRevoke\<close>: the user that the clicked button's \<open>data-id\<close> names.\<close>

definition access_revoke :: "device_detail \<Rightarrow> string \<Rightarrow> device_access_list_item option" where
  "access_revoke d userId = (if userId = [] then None else find (\<lambda>u. dal_user_id u = userId) (dd_users d))"

definition access_buttons :: "card_env \<Rightarrow> (access_role \<Rightarrow> string) \<Rightarrow> device_detail \<Rightarrow> string list" where
  "access_buttons env roles d =
     (case access_table env roles d of
        AccessRows rs \<Rightarrow> concat (map (\<lambda>r. case ar_button r of Protected \<Rightarrow> [] | RevokeButton i \<Rightarrow> [i]) rs)
      | _ \<Rightarrow> [])"

lemma access_buttons_ids:
  "access_buttons env roles d =
     (if da_access_role d = Owner then map dal_user_id (filter (\<lambda>u. dal_role u \<noteq> Owner) (dd_users d)) else [])"
proof -
  have "concat (map (\<lambda>r. case ar_button r of Protected \<Rightarrow> [] | RevokeButton i \<Rightarrow> [i])
      (map (\<lambda>u. \<lparr>ar_initials = getInitials (dal_name u), ar_name = dal_name u, ar_email = dal_email u, ar_role = roles (dal_role u),
         ar_granted = relative_text env (Some (dal_access_granted_at u)),
         ar_button = (if dal_role u = Owner then Protected else RevokeButton (dal_user_id u))\<rparr>) us)) =
    map dal_user_id (filter (\<lambda>u. dal_role u \<noteq> Owner) us)" for us :: "device_access_list_item list"
    by (induction us) simp_all
  then show ?thesis by (simp add: access_buttons_def access_table_def del: map_map)
qed

text \<open>Rows are found again by their keys.\<close>

lemma find_by_key:
  assumes "distinct (map key xs)" "x \<in> set xs"
  shows "find (\<lambda>y. key y = key x) xs = Some x"
  using assms by (induction xs) (auto simp: image_iff)

text \<open>Access is taken away by an owner only, and never an owner's: a visitor who does not own the device has
  no button and no list; and every button that an owner has asks to revoke the person of its own row, who
  is not an owner.\<close>

theorem owners_keep_access:
  assumes "distinct (map dal_user_id (dd_users d))"
  shows "(da_access_role d \<noteq> Owner \<longrightarrow> access_buttons env roles d = [] \<and> access_table env roles d = AccessOwnerOnly) \<and>
    (\<forall>i u. i \<in> set (access_buttons env roles d) \<and> access_revoke d i = Some u \<longrightarrow>
       dal_user_id u = i \<and> u \<in> set (dd_users d) \<and> dal_role u \<noteq> Owner) \<and>
    (da_access_role d = Owner \<longrightarrow>
       (\<forall>u. u \<in> set (dd_users d) \<and> dal_role u \<noteq> Owner \<and> dal_user_id u \<noteq> [] \<longrightarrow>
          dal_user_id u \<in> set (access_buttons env roles d) \<and> access_revoke d (dal_user_id u) = Some u))"
proof (intro conjI allI impI)
  fix i u
  assume iu: "i \<in> set (access_buttons env roles d) \<and> access_revoke d i = Some u"
  then obtain v where v: "v \<in> set (dd_users d)" "dal_user_id v = i" "dal_role v \<noteq> Owner"
    unfolding access_buttons_ids by (auto split: if_splits)
  then have "find (\<lambda>w. dal_user_id w = i) (dd_users d) = Some v" using find_by_key [OF assms v(1)] by simp
  then have "u = v" using iu by (simp add: access_revoke_def split: if_splits)
  then show "dal_user_id u = i" "u \<in> set (dd_users d)" "dal_role u \<noteq> Owner" using v by simp_all
qed (use find_by_key [OF assms] in \<open>auto simp: access_buttons_ids access_revoke_def access_table_def\<close>)

section \<open>The table of devices\<close>

text \<open>A click on an icon button carries its row's id and its action.\<close>

definition icon_action :: "bool \<Rightarrow> string" where
  "icon_action danger = (if danger then ''delete'' else ''edit'')"

datatype 'a table_call = CallEdit 'a | CallDelete 'a

definition devices_action :: "device_with_access list \<Rightarrow> string \<Rightarrow> string \<Rightarrow> device_with_access table_call option" where
  "devices_action devices i action =
     (if i = [] then None
      else map_option (\<lambda>row. if action = ''delete'' then CallDelete row else CallEdit row) (find (\<lambda>d. d_id d = i) devices))"

definition devices_navigate :: "string \<Rightarrow> (string \<times> string) option" where
  "devices_navigate i = (if i = [] then None else Some (''/devices/detail'', ''id='' @ i))"

record device_row =
  dr_id :: string
  dr_name :: string
  dr_role :: string
  dr_uuid :: string
  dr_vehicle :: string
  dr_status :: device_status
  dr_seen :: string
  dr_never :: bool

definition device_rows ::
  "card_env \<Rightarrow> device_strings \<Rightarrow> (access_role \<Rightarrow> string) \<Rightarrow> device_with_access list \<Rightarrow> device_row list" where
  "device_rows env ds roles devices =
     map (\<lambda>d. \<lparr>dr_id = d_id d, dr_name = d_name d, dr_role = roles (da_access_role d), dr_uuid = d_uuid_firmware d,
        dr_vehicle = ds_vehicleTypes ds (d_vehicle_type d),
        dr_status = deriveDeviceStatus (ce_getTime env) (Fin (ce_now env)) (d_last_contact_at d) ds,
        dr_seen = relative_text env (d_last_contact_at d), dr_never = (nullish (d_last_contact_at d) [] = [])\<rparr>) devices"

lemma safe_encode: "list_all form_safe s \<Longrightarrow> form_encode s = s"
  by (induction s) (simp_all add: form_encode_def form_char_def)

lemma decode_id_name: "form_decode ''id'' = ''id''"
  by code_simp

lemma search_id: "search_param ''id'' (''id='' @ form_encode i) = Some i"
proof -
  have "CHR ''&'' \<notin> set (''id='' @ form_encode i)" using form_encode_clean by auto
  then have "split_char (CHR ''&'') (''id='' @ form_encode i) = [''id='' @ form_encode i]" by (rule split_char_single)
  then show ?thesis by (simp add: search_param_def form_pair_def Let_def form_decode_encode decode_id_name)
qed

text \<open>Every row of the devices table acts on its own device: with distinct ids, the pencil of a row edits and
  the bin deletes exactly the row's device, and the name leads to a page that reads exactly its id from the
  URL, as long as the id is made of characters a query leaves alone. The row of a device without a
  contact is marked, and its status is never seen.\<close>

theorem device_rows_act:
  assumes "distinct (map d_id devices)" "d \<in> set devices" "d_id d \<noteq> []" "list_all form_safe (d_id d)"
  shows "devices_action devices (d_id d) (icon_action False) = Some (CallEdit d) \<and>
    devices_action devices (d_id d) (icon_action True) = Some (CallDelete d) \<and>
    (case devices_navigate (d_id d) of
       None \<Rightarrow> False
     | Some (path, query) \<Rightarrow> path = ''/devices/detail'' \<and> readDeviceIdFromUrl (search_param ''id'' query) = Some (d_id d)) \<and>
    map dr_id (device_rows env ds roles devices) = map d_id devices \<and>
    (\<forall>r. r \<in> set (device_rows env ds roles devices) \<and> dr_never r \<longrightarrow> dst_key (dr_status r) = StNeverSeen)"
proof -
  have "search_param ''id'' (''id='' @ d_id d) = Some (d_id d)"
    using search_id [of "d_id d"] by (simp add: safe_encode [OF assms(4)])
  moreover have "dst_key (dr_status r) = StNeverSeen"
    if "r \<in> set (device_rows env ds roles devices)" "dr_never r" for r
    using that by (auto simp: device_rows_def deriveDeviceStatus_def split: option.splits)
  ultimately show ?thesis
    using assms find_by_key [OF assms(1,2)]
    by (auto simp: devices_action_def icon_action_def devices_navigate_def readDeviceIdFromUrl_def device_rows_def)
qed

definition shared_van :: device_detail where
  "shared_van = device_with_access.extend van
     (device_detail.fields [\<lparr>dal_user_id = ''u1'', dal_name = ''Ana'', dal_email = ''a@x'', dal_role = Owner, dal_access_granted_at = ''t''\<rparr>,
        \<lparr>dal_user_id = ''u2'', dal_name = ''Leo'', dal_email = ''l@x'', dal_role = Viewer, dal_access_granted_at = ''t''\<rparr>])"

theorem owners_keep_access_witness:
  "access_revoke shared_van ''u2'' =
     Some \<lparr>dal_user_id = ''u2'', dal_name = ''Leo'', dal_email = ''l@x'', dal_role = Viewer, dal_access_granted_at = ''t''\<rparr>"
proof -
  have users: "dd_users shared_van = [\<lparr>dal_user_id = ''u1'', dal_name = ''Ana'', dal_email = ''a@x'', dal_role = Owner, dal_access_granted_at = ''t''\<rparr>,
        \<lparr>dal_user_id = ''u2'', dal_name = ''Leo'', dal_email = ''l@x'', dal_role = Viewer, dal_access_granted_at = ''t''\<rparr>]"
    "da_access_role shared_van = Owner"
    by (simp_all add: shared_van_def van_def device_with_access.defs device_detail.defs)
  then have "distinct (map dal_user_id (dd_users shared_van))" by simp
  from owners_keep_access [OF this, THEN conjunct2, THEN conjunct2, rule_format, OF users(2),
      of "\<lparr>dal_user_id = ''u2'', dal_name = ''Leo'', dal_email = ''l@x'', dal_role = Viewer, dal_access_granted_at = ''t''\<rparr>"]
  show ?thesis by (simp add: users(1))
qed

theorem device_rows_act_witness:
  "devices_action [van] (d_id van) (icon_action True) = Some (CallDelete van) \<and>
   (case devices_navigate (d_id van) of
       None \<Rightarrow> False
     | Some (path, query) \<Rightarrow> path = ''/devices/detail'' \<and> readDeviceIdFromUrl (search_param ''id'' query) = Some (d_id van))"
proof -
  have "distinct (map d_id [van])" "van \<in> set [van]" "d_id van \<noteq> []" by (simp_all add: van_def)
  moreover have "list_all form_safe (d_id van)" unfolding van_def by code_simp
  ultimately show ?thesis using device_rows_act by metis
qed

end
