(* ===== verification/ReportViews.thy ===== *)
theory ReportViews
  imports Reports
begin

text \<open>
  What the sections of the reports page print (\<open>features/reports/ReportSection.tsx\<close>, \<open>OverviewSection.tsx\<close>,
  \<open>RoutesSection.tsx\<close>, \<open>HealthSection.tsx\<close>, \<open>QualitySection.tsx\<close>) from the reports of
  \<open>types/api/reports.types.ts\<close>. Number printing, \<open>Intl.NumberFormat\<close> and \<open>toLocaleString\<close> are parameters.
\<close>

section \<open>The reports\<close>

record report_device =
  rd_id :: string
  rd_name :: string
  rd_vehicle_type :: vehicle_type

record report_metadata =
  md_estimated :: bool
  md_gap_threshold_seconds :: number
  md_poor_accuracy_threshold_meters :: number
  md_max_jump_speed_kph :: number

record report_point =
  rpt_device_id :: string
  rpt_recorded_at :: string
  rpt_latitude :: number
  rpt_longitude :: number
  rpt_altitude :: "number option"
  rpt_speed :: "number option"
  rpt_accuracy :: "number option"
  rpt_battery_voltage :: "number option"
  rpt_signal_strength :: "number option"

record bucket_count =
  bc_started_at :: string
  bc_count :: number

record device_summary =
  sm_device :: report_device
  sm_point_count :: number
  sm_estimated_distance_km :: "number option"
  sm_first_report :: "string option"
  sm_latest_report :: "string option"
  sm_longest_gap_seconds :: number
  sm_jump_count :: number

record overview_report =
  or_device_count :: number
  or_point_count :: number
  or_estimated_distance_km :: "number option"
  or_most_active_device :: "report_device option"
  or_most_active_point_count :: number
  or_longest_gap_seconds :: number
  or_bucket_seconds :: number
  or_series :: "bucket_count list"
  or_devices :: "device_summary list"
  or_metadata :: report_metadata

record route_report =
  rr_device :: report_device
  rr_started_at :: string
  rr_ended_at :: string
  rr_duration_seconds :: number
  rr_distance_km :: number
  rr_average_speed_kph :: number
  rr_maximum_speed_kph :: number
  rr_complete_point_count :: number
  rr_returned_point_count :: number
  rr_jump_count :: number
  rr_sampled :: bool
  rr_points :: "report_point list"

record routes_report =
  ro_routes :: "route_report list"
  ro_metadata :: report_metadata

text \<open>\<open>TelemetryFloat\<close> and \<open>TelemetryInt\<close> have the same fields.\<close>

record telemetry_stats =
  ts_latest :: "number option"
  ts_minimum :: "number option"
  ts_maximum :: "number option"
  ts_average :: "number option"
  ts_present_count :: number

record device_health =
  hl_device :: report_device
  hl_latest_report :: "string option"
  hl_point_count :: number
  hl_battery_voltage :: telemetry_stats
  hl_signal_strength :: telemetry_stats
  hl_gps_accuracy :: telemetry_stats

record optional_presence =
  op_altitude :: number
  op_speed :: number
  op_accuracy :: number
  op_battery_voltage :: number
  op_signal_strength :: number

record device_quality =
  dq_device :: report_device
  dq_point_count :: number
  dq_gap_count :: number
  dq_poor_accuracy_count :: number
  dq_jump_count :: number
  dq_interval_count :: number
  dq_average_interval_seconds :: number
  dq_longest_gap_seconds :: number
  dq_optional_presence :: optional_presence
  dq_first_report :: "string option"
  dq_latest_report :: "string option"

section \<open>Formatting\<close>

record format_env =
  fe_ns :: "number \<Rightarrow> string"
  fe_intl :: "nat \<Rightarrow> number \<Rightarrow> string"
  fe_local :: "string \<Rightarrow> string"

definition formatReportNumber :: "format_env \<Rightarrow> number \<Rightarrow> nat \<Rightarrow> string" where
  "formatReportNumber env value digits = fe_intl env digits value"

definition formatReportMetric :: "format_env \<Rightarrow> number option \<Rightarrow> string \<Rightarrow> nat \<Rightarrow> string" where
  "formatReportMetric env value unit digits =
     (case value of None \<Rightarrow> em_dash | Some v \<Rightarrow> formatReportNumber env v digits @ '' '' @ unit)"

definition formatReportDate :: "format_env \<Rightarrow> string option \<Rightarrow> string" where
  "formatReportDate env value = (case value of None \<Rightarrow> em_dash | Some s \<Rightarrow> if s = [] then em_dash else fe_local env s)"

record report_strings =
  rs_devices :: string
  rs_points :: string
  rs_kilometers :: string
  rs_minutes :: string
  rs_speed :: string
  rs_estimated :: string
  rs_longestGap :: string
  rs_display :: string
  rs_noData :: string

text \<open>A metric of the overview: value and unit.\<close>

definition overview_kpis :: "format_env \<Rightarrow> report_strings \<Rightarrow> overview_report \<Rightarrow> (string \<times> string) list" where
  "overview_kpis env t r =
     [(fe_ns env (or_device_count r), rs_devices t),
      (fe_ns env (or_point_count r), rs_points t),
      (formatReportMetric env (or_estimated_distance_km r) (rs_kilometers t) 1, rs_estimated t),
      (formatReportMetric env (Some (num_div_const (or_longest_gap_seconds r) 60)) (rs_minutes t) 1, rs_longestGap t)]"

definition overview_row :: "format_env \<Rightarrow> report_strings \<Rightarrow> device_summary \<Rightarrow> string list" where
  "overview_row env t i =
     [rd_name (sm_device i) @ vehicle_type_str (rd_vehicle_type (sm_device i)), fe_ns env (sm_point_count i),
      formatReportMetric env (sm_estimated_distance_km i) (rs_kilometers t) 1,
      formatReportDate env (sm_first_report i), formatReportDate env (sm_latest_report i)]"

definition route_row :: "format_env \<Rightarrow> report_strings \<Rightarrow> route_report \<Rightarrow> string list" where
  "route_row env t r =
     [rd_name (rr_device r),
      formatReportMetric env (Some (num_div_const (rr_duration_seconds r) 60)) (rs_minutes t) 1,
      formatReportMetric env (Some (rr_distance_km r)) (rs_kilometers t) 1,
      formatReportMetric env (Some (rr_average_speed_kph r)) (rs_speed t) 1,
      fe_ns env (rr_complete_point_count r) @ '' ('' @ fe_ns env (rr_returned_point_count r) @ '' '' @ rs_display t @ '')'']"

text \<open>The React key of a row.\<close>

definition route_key :: "route_report \<Rightarrow> string" where
  "route_key r = rd_id (rr_device r) @ ''-'' @ rr_started_at r"

definition health_row :: "format_env \<Rightarrow> device_health \<Rightarrow> string list" where
  "health_row env d =
     [rd_name (hl_device d),
      formatReportMetric env (ts_latest (hl_battery_voltage d)) ''V'' 1,
      formatReportMetric env (ts_average (hl_battery_voltage d)) ''V'' 1,
      (case ts_latest (hl_signal_strength d) of None \<Rightarrow> em_dash | Some s \<Rightarrow> fe_ns env s @ '' CSQ''),
      formatReportMetric env (ts_average (hl_gps_accuracy d)) ''m'' 1,
      fe_ns env (hl_point_count d)]"

definition quality_row :: "format_env \<Rightarrow> report_strings \<Rightarrow> device_quality \<Rightarrow> string list" where
  "quality_row env t d =
     [rd_name (dq_device d), fe_ns env (dq_point_count d),
      formatReportMetric env (Some (dq_average_interval_seconds d)) ''s'' 1,
      formatReportMetric env (Some (num_div_const (dq_longest_gap_seconds d) 60)) (rs_minutes t) 1,
      fe_ns env (dq_jump_count d)]"

lemma metric_dash: "formatReportMetric env v u n = em_dash \<longleftrightarrow> v = None"
proof (cases v)
  case (Some x)
  then show ?thesis by (simp add: formatReportMetric_def em_dash_def append_eq_Cons_conv)
qed (simp add: formatReportMetric_def)

lemma health_lookup:
  "health_row env d ! 1 = formatReportMetric env (ts_latest (hl_battery_voltage d)) ''V'' 1"
  "health_row env d ! 2 = formatReportMetric env (ts_average (hl_battery_voltage d)) ''V'' 1"
  "health_row env d ! 4 = formatReportMetric env (ts_average (hl_gps_accuracy d)) ''m'' 1"
  by (simp_all add: health_row_def)

text \<open>The health table never makes a missing reading a number or a number a dash: each of its four readings
  shows a dash exactly when the reading was not reported, a zero included; and the same of the distances
  and dates of the overview, if the printed date is not itself a dash.\<close>

theorem missing_readings_are_dashes:
  assumes "\<And>s. fe_local env s \<noteq> em_dash"
  shows "(health_row env d ! 1 = em_dash \<longleftrightarrow> ts_latest (hl_battery_voltage d) = None) \<and>
    (health_row env d ! 2 = em_dash \<longleftrightarrow> ts_average (hl_battery_voltage d) = None) \<and>
    (health_row env d ! 3 = em_dash \<longleftrightarrow> ts_latest (hl_signal_strength d) = None) \<and>
    (health_row env d ! 4 = em_dash \<longleftrightarrow> ts_average (hl_gps_accuracy d) = None) \<and>
    (overview_row env t i ! 2 = em_dash \<longleftrightarrow> sm_estimated_distance_km i = None) \<and>
    (overview_row env t i ! 3 = em_dash \<longleftrightarrow> nullish (sm_first_report i) [] = []) \<and>
    (overview_row env t i ! 4 = em_dash \<longleftrightarrow> nullish (sm_latest_report i) [] = [])"
proof -
  have csq: "(case v of None \<Rightarrow> em_dash | Some s \<Rightarrow> fe_ns env s @ '' CSQ'') = em_dash \<longleftrightarrow> v = None" for v
    by (cases v) (auto simp: em_dash_def append_eq_Cons_conv)
  have date: "formatReportDate env v = em_dash \<longleftrightarrow> nullish v [] = []" for v
    using assms by (cases v) (auto simp: formatReportDate_def)
  have signal: "health_row env d ! 3 = (case ts_latest (hl_signal_strength d) of None \<Rightarrow> em_dash | Some s \<Rightarrow> fe_ns env s @ '' CSQ'')"
    by (simp add: health_row_def)
  have overview: "overview_row env t i ! 2 = formatReportMetric env (sm_estimated_distance_km i) (rs_kilometers t) 1"
    "overview_row env t i ! 3 = formatReportDate env (sm_first_report i)"
    "overview_row env t i ! 4 = formatReportDate env (sm_latest_report i)"
    by (simp_all add: overview_row_def)
  show ?thesis unfolding health_lookup signal overview metric_dash csq date by simp
qed

definition plain_format :: format_env where
  "plain_format = \<lparr>fe_ns = (\<lambda>_. ''n''), fe_intl = (\<lambda>_ _. ''0''), fe_local = (\<lambda>s. ''at '' @ s)\<rparr>"

definition no_stats :: telemetry_stats where
  "no_stats = \<lparr>ts_latest = None, ts_minimum = None, ts_maximum = None, ts_average = None, ts_present_count = Fin 0\<rparr>"

definition silent_device :: device_health where
  "silent_device = \<lparr>hl_device = \<lparr>rd_id = ''d1'', rd_name = ''Van'', rd_vehicle_type = Van\<rparr>, hl_latest_report = None,
     hl_point_count = Fin 0, hl_battery_voltage = no_stats\<lparr>ts_latest := Some (Fin 0)\<rparr>, hl_signal_strength = no_stats,
     hl_gps_accuracy = no_stats\<rparr>"

theorem missing_readings_are_dashes_witness:
  "health_row plain_format silent_device ! 1 \<noteq> em_dash \<and> health_row plain_format silent_device ! 2 = em_dash \<and>
   health_row plain_format silent_device ! 3 = em_dash"
proof -
  have "\<And>s. fe_local plain_format s \<noteq> em_dash" by (simp add: plain_format_def em_dash_def)
  from missing_readings_are_dashes [OF this, of silent_device] show ?thesis by (simp add: silent_device_def no_stats_def)
qed

section \<open>A section and its states\<close>

datatype section_view = SectionLoading | SectionAlert string | SectionContent json

text \<open>\<open>Boolean(v)\<close>.\<close>

fun json_truthy :: "json \<Rightarrow> bool" where
  "json_truthy JNull = False"
| "json_truthy JUndefined = False"
| "json_truthy (JBool b) = b"
| "json_truthy (JNumber n) = (n \<noteq> Fin 0 \<and> n \<noteq> NaN)"
| "json_truthy (JString s) = (s \<noteq> [])"
| "json_truthy _ = True"

definition section_shown :: "report_strings \<Rightarrow> section_state \<Rightarrow> section_view" where
  "section_shown t st =
     (if ss_loading st then SectionLoading
      else case (ss_data st, ss_error st) of
        (Some d, e) \<Rightarrow> if nullish e [] \<noteq> [] \<or> \<not> json_truthy d then SectionAlert (nullish e (rs_noData t)) else SectionContent d
      | (None, e) \<Rightarrow> SectionAlert (nullish e (rs_noData t)))"

definition devices_counted :: "string list \<Rightarrow> device_with_access list \<Rightarrow> nat" where
  "devices_counted deviceIds devices = (if length deviceIds = 0 then length devices else length deviceIds)"

text \<open>The devices offered as filters: those of one page of 100, none if the request fails.\<close>

definition filter_devices :: "(thrown + device_list_response envelope fetch_result) \<Rightarrow> device_with_access list" where
  "filter_devices out =
     (case out of Inl e \<Rightarrow> []
      | Inr r \<Rightarrow> (case fr_data r of None \<Rightarrow> []
          | Some env \<Rightarrow> (case env_data env of None \<Rightarrow> [] | Some d \<Rightarrow> dlr_items d)))"

text \<open>A section shows its answer: while a load runs all four say so, a report that arrived is shown, and a failure
  shows its message with a button, which starts the load of all four sections again. The message
  stands even when it is empty: an error without a text leaves the alert blank, not with the text for
  missing data.\<close>

theorem sections_show_answers:
  "section_shown t (rp_sections (loadReports f p) k) = SectionLoading \<and>
   section_shown t (loadSection env (Inr d)) = (if json_truthy d then SectionContent d else SectionAlert (rs_noData t)) \<and>
   section_shown t (loadSection env (Inl e)) = SectionAlert (load_error_message env e) \<and>
   section_shown t (loadSection env (Inl (JsError []))) = SectionAlert [] \<and>
   (\<forall>k'. section_shown t (rp_sections (report_step env RetryReports p) k') = SectionLoading)"
  by (simp add: section_shown_def loadReports_def createReportSectionState_def loadSection_def retryReports_def
      report_step_def after_change_def)

end
