(* ===== verification/AdminViews.thy ===== *)
theory AdminViews
  imports DeviceCards UserService
begin

text \<open>
  What the admin lists show and where their buttons lead: the users table with its pills
  (\<open>features/users/UsersTable.tsx\<close>, \<open>UserPills.tsx\<close>), the detail dialog of a user
  (\<open>modal/UserDetailModal.tsx\<close>) with the overlapping requests behind it, the table of access keys
  (\<open>access/AccessKeysTable.tsx\<close>), and the body of the three list pages (\<open>UsersPage.tsx\<close>,
  \<open>DevicesPage.tsx\<close>, \<open>AccessPage.tsx\<close>): the table, or one of the two notices that stand for it.
\<close>

section \<open>Pills\<close>

record pill =
  pl_class :: string
  pl_label :: string

definition role_pill :: "user_role \<Rightarrow> string \<Rightarrow> string \<Rightarrow> pill" where
  "role_pill role superAdmin usr =
     (if role = RoleSuperAdmin then \<lparr>pl_class = ''role-pill role-pill-admin'', pl_label = superAdmin\<rparr>
      else \<lparr>pl_class = ''role-pill'', pl_label = usr\<rparr>)"

definition email_pill :: "bool \<Rightarrow> string \<Rightarrow> string \<Rightarrow> pill" where
  "email_pill verified verifiedLabel unverifiedLabel =
     \<lparr>pl_class = ''status-pill'' @ (if verified then '' status-pill-verified'' else '' status-pill-unverified''),
      pl_label = (if verified then verifiedLabel else unverifiedLabel)\<rparr>"

definition password_pill :: "bool \<Rightarrow> string \<Rightarrow> string \<Rightarrow> pill" where
  "password_pill mustChange okLabel changeLabel =
     \<lparr>pl_class = ''password-pill'' @ (if mustChange then '' password-pill-change'' else '' password-pill-ok''),
      pl_label = (if mustChange then changeLabel else okLabel)\<rparr>"

record user_labels =
  ul_superAdmin :: string
  ul_user :: string
  ul_verified :: string
  ul_unverified :: string
  ul_passwordOk :: string
  ul_changeRequired :: string

section \<open>The users table\<close>

definition full_name :: "'z user_scheme \<Rightarrow> string" where
  "full_name u = u_name u @ '' '' @ u_lastname u"

record user_line =
  uln_id :: string
  uln_initials :: string
  uln_name :: string
  uln_mail :: string
  uln_pills :: "pill list"
  uln_created :: string

definition user_lines :: "card_env \<Rightarrow> user_labels \<Rightarrow> 'z user_scheme list \<Rightarrow> user_line list" where
  "user_lines env t users =
     map (\<lambda>u. \<lparr>uln_id = u_id u, uln_initials = getInitials (full_name u), uln_name = full_name u, uln_mail = u_email u,
        uln_pills = [role_pill (u_role u) (ul_superAdmin t) (ul_user t),
                     email_pill (u_email_verified u) (ul_verified t) (ul_unverified t),
                     password_pill (u_must_change_password u) (ul_passwordOk t) (ul_changeRequired t)],
        uln_created = formatDate (ce_getTime env) (ce_lang env) (Some (u_created_at u))\<rparr>) users"

definition users_action :: "'z user_scheme list \<Rightarrow> string \<Rightarrow> string \<Rightarrow> 'z user_scheme option" where
  "users_action users i action =
     (if i = [] then None
      else case find (\<lambda>u. u_id u = i) users of None \<Rightarrow> None | Some row \<Rightarrow> if action = ''delete'' then Some row else None)"

definition users_open :: "'z user_scheme list \<Rightarrow> string \<Rightarrow> 'z user_scheme option" where
  "users_open users i = (if i = [] then None else find (\<lambda>u. u_id u = i) users)"

section \<open>The table of access keys\<close>

record key_line =
  kln_id :: string
  kln_device :: string
  kln_deviceId :: string
  kln_key :: string
  kln_created :: string
  kln_never :: bool

definition key_lines :: "card_env \<Rightarrow> api_key_row list \<Rightarrow> key_line list" where
  "key_lines env rows =
     map (\<lambda>r. \<lparr>kln_id = kr_id r, kln_device = kr_device_name r, kln_deviceId = kr_device_id r, kln_key = truncateId (kr_id r),
        kln_created = relative_text env (Some (kr_created_at r)), kln_never = (kr_created_at r = [])\<rparr>) rows"

definition keys_action :: "api_key_row list \<Rightarrow> string \<Rightarrow> string \<Rightarrow> api_key_row option" where
  "keys_action rows i action = (if i = [] \<or> action \<noteq> ''delete'' then None else find (\<lambda>r. kr_id r = i) rows)"

text \<open>The bins of the two tables and the names of the users act on their own row: with distinct ids, the bin of a
  row asks to delete exactly that user or revoke exactly that key, the name opens exactly that user, whatever
  the filter and the order of the list are; and the columns show the rows of the list in order.\<close>

theorem admin_rows_act:
  assumes "distinct (map u_id users)" "u \<in> set users" "u_id u \<noteq> []"
    and "distinct (map kr_id rows)" "r \<in> set rows" "kr_id r \<noteq> []"
  shows "users_action users (u_id u) (icon_action True) = Some u \<and> users_action users (u_id u) (icon_action False) = None \<and>
    users_open users (u_id u) = Some u \<and>
    keys_action rows (kr_id r) (icon_action True) = Some r \<and> keys_action rows (kr_id r) (icon_action False) = None \<and>
    map uln_id (user_lines env t users) = map u_id users \<and> map kln_id (key_lines env rows) = map kr_id rows"
  using find_by_key [OF assms(1,2)] find_by_key [OF assms(4,5)] assms(3,6)
  by (simp add: users_action_def users_open_def keys_action_def icon_action_def user_lines_def key_lines_def o_def)

definition two_users :: "user list" where
  "two_users = [sample_person ''ann'' ''1'' True, sample_person ''bob'' ''2'' False]"

definition one_key :: "api_key_row list" where
  "one_key = [\<lparr>kr_id = ''k1'', kr_name = ''key'', kr_device_name = ''Van'', kr_device_id = ''d1'', kr_created_at = ''c''\<rparr>]"

theorem admin_rows_act_witness:
  "users_action two_users ''bob'' (icon_action True) = Some (sample_person ''bob'' ''2'' False) \<and>
   keys_action one_key ''k1'' (icon_action True) = Some (hd one_key)"
proof -
  have "distinct (map u_id two_users)" "sample_person ''bob'' ''2'' False \<in> set two_users" "u_id (sample_person ''bob'' ''2'' False) \<noteq> []"
    "distinct (map kr_id one_key)" "hd one_key \<in> set one_key" "kr_id (hd one_key) \<noteq> []"
    by (simp_all add: two_users_def one_key_def sample_person_def)
  from admin_rows_act [OF this] show ?thesis by (simp add: sample_person_def one_key_def)
qed

section \<open>The body of a list page\<close>

datatype list_body = ListEmpty string string | ListNoResults | ListTable

definition list_body :: "string \<Rightarrow> string \<Rightarrow> 'a list \<Rightarrow> bool \<Rightarrow> 'b list \<Rightarrow> list_body" where
  "list_body title message rows isLoading filtered =
     (if rows = [] \<and> \<not> isLoading then ListEmpty title message
      else if filtered = [] then ListNoResults else ListTable)"

text \<open>The two lists whose filters are functions of their own.\<close>

definition users_body ::
  "(string \<Rightarrow> number) \<Rightarrow> (string \<Rightarrow> string \<Rightarrow> int) \<Rightarrow> string \<Rightarrow> string \<Rightarrow> string \<Rightarrow> user_email_filter \<Rightarrow> user_sort_key \<Rightarrow>
   user_service \<Rightarrow> list_body" where
  "users_body getTime collate title message query emailFilter sortBy s =
     list_body title message (usv_users s) (usv_isLoading s) (filterAndSortUsers getTime collate (usv_users s) query emailFilter sortBy)"

record devices_texts =
  dx_title :: string
  dx_failedToLoad :: string

definition devices_body ::
  "(string \<Rightarrow> number) \<Rightarrow> number \<Rightarrow> (string \<Rightarrow> string \<Rightarrow> int) \<Rightarrow> device_strings \<Rightarrow> devices_texts \<Rightarrow> string \<Rightarrow>
   device_status_key option \<Rightarrow> vehicle_type option \<Rightarrow> device_sort_key \<Rightarrow> device_with_access list \<Rightarrow> bool \<Rightarrow> list_body" where
  "devices_body getTime now collate t x query statusFilter vehicleFilter sortBy devices isLoading =
     list_body (dx_title x) (dx_failedToLoad x) devices isLoading
       (filtered_devices getTime now collate t query statusFilter vehicleFilter sortBy devices)"

lemma filtered_nothing:
  "filtered_devices getTime now collate t q sf vf by_key [] = []" "filterAndSortUsers getTime collate [] q ef sk = []"
  by (simp_all add: filtered_devices_def filterAndSortUsers_def filter_sort_def)

text \<open>A list page shows the table exactly when something is left by the filters. Without any data it shows its
  first notice when nothing is being loaded, and the notice that no entry matches the filters while the
  first load runs, although no filter is set. An account without a device is told that its devices
  could not be loaded, with no failure at all.\<close>

theorem list_bodies:
  "(list_body title message rows loading filtered = ListTable \<longleftrightarrow> filtered \<noteq> [] \<and> (rows \<noteq> [] \<or> loading)) \<and>
   users_body getTime collate title message [] EmailAll sk (s\<lparr>usv_users := [], usv_isLoading := True\<rparr>) = ListNoResults \<and>
   users_body getTime collate title message [] EmailAll sk (s\<lparr>usv_users := [], usv_isLoading := False\<rparr>) = ListEmpty title message \<and>
   devices_body getTime now collate t x q sf vf by_key [] False = ListEmpty (dx_title x) (dx_failedToLoad x)"
  by (auto simp: list_body_def users_body_def devices_body_def filtered_nothing)

section \<open>The detail dialog of a user\<close>

text \<open>
  The page keeps the row that was opened (\<open>detailTarget\<close>); an effect on it asks for the user, and the
  dialog shows what the hook holds while a row is open. Closing the dialog does not cancel a request, so
  answers may come late and out of order. \<open>getUserByID\<close> runs up to its await, and from the answer on.
\<close>

record detail_dialog =
  ud_hook :: user_service
  ud_target :: "string option"
  ud_flight :: "string list"

definition user_asked :: "string \<Rightarrow> user_service \<Rightarrow> user_service" where
  "user_asked i s =
     s\<lparr>usv_error := None, usv_isLoading := True, usv_user := None,
       w_sent := w_sent s @ [(mk_request ApiClient GET (users_path i))
         \<lparr>rq_query := [(''page'', JNumber (Fin 1)), (''page_size'', JNumber (Fin 10))]\<rparr>]\<rparr>"

definition user_answered :: "(thrown + user_with_devices envelope fetch_result) \<Rightarrow> unit user_act" where
  "user_answered out =
     io_finally
       (io_catch
         (io_bind (withApiErrorToast (\<lambda>s. (out, s)) True) (\<lambda>r.
            case fr_data r of
              None \<Rightarrow> user_null_response ''get user returned a null response''
            | Some response \<Rightarrow> usv_setUser (\<lambda>_. env_data response)))
         (\<lambda>caught. let apiError = (if isApiError caught then the_api_error caught else toApiError caught)
                   in io_then (usv_setError (Some apiError)) (io_throw (ApiObj apiError))))
       (usv_setIsLoading False)"

lemma user_request_in_two_steps: "getUserByID i 1 10 out s = user_answered out (user_asked i s)"
  by (cases out) (simp_all add: getUserByID_def user_answered_def user_asked_def withApiErrorToast_def
      usv_setIsLoading_def set_usv_loading_def usv_setError_def usv_setUser_def io_unfold)

datatype detail_event =
    OpenDetail string
  | CloseDetail
  | DetailAnswer nat "thrown + user_with_devices envelope fetch_result"

definition detail_step :: "detail_event \<Rightarrow> detail_dialog \<Rightarrow> detail_dialog" where
  "detail_step e d =
     (case e of
        OpenDetail i \<Rightarrow> d\<lparr>ud_hook := user_asked i (ud_hook d), ud_target := Some i, ud_flight := ud_flight d @ [i]\<rparr>
      | CloseDetail \<Rightarrow> d\<lparr>ud_target := None\<rparr>
      | DetailAnswer n out \<Rightarrow>
          (if n < length (ud_flight d)
           then d\<lparr>ud_hook := snd (user_answered out (ud_hook d)), ud_flight := take n (ud_flight d) @ drop (Suc n) (ud_flight d)\<rparr>
           else d))"

definition detail_shown :: "detail_dialog \<Rightarrow> user_with_devices option" where
  "detail_shown d = (if ud_target d = None then None else usv_user (ud_hook d))"

definition user_answer :: "user_with_devices \<Rightarrow> thrown + user_with_devices envelope fetch_result" where
  "user_answer u = fetched \<lparr>env_status_code = 200, env_message = [], env_data = Some u\<rparr>"

text \<open>A row that is opened shows no details until its answer, and then the user of the answer; a failed request
  shows nothing and keeps the error. No request is cancelled or checked, so with two of them under way the
  last answer wins: after opening one user, closing the dialog and opening another, a late answer for the first
  replaces the second user's details in the open dialog.\<close>

theorem detail_dialog_shows:
  assumes "ud_flight d = []"
  shows "detail_shown (detail_step (OpenDetail i) d) = None \<and>
    detail_shown (detail_step (DetailAnswer 0 (user_answer u)) (detail_step (OpenDetail i) d)) = Some u \<and>
    detail_shown (detail_step (DetailAnswer 0 (Inl e)) (detail_step (OpenDetail i) d)) = None \<and>
    usv_error (ud_hook (detail_step (DetailAnswer 0 (Inl e)) (detail_step (OpenDetail i) d))) \<noteq> None \<and>
    (let late = fold detail_step [OpenDetail i, CloseDetail, OpenDetail j, DetailAnswer 1 (user_answer v), DetailAnswer 0 (user_answer u)] d
     in ud_target late = Some j \<and> detail_shown late = Some u)"
proof -
  have ok: "snd (user_answered (user_answer x) s) = s\<lparr>usv_user := Some x, usv_isLoading := False\<rparr>" for x s
    by (simp add: user_answered_def user_answer_def fetched_def withApiErrorToast_def usv_setIsLoading_def set_usv_loading_def
        usv_setUser_def io_unfold)
  have failed: "usv_user (snd (user_answered (Inl e) s)) = usv_user s \<and> usv_error (snd (user_answered (Inl e) s)) \<noteq> None" for s
    by (simp add: user_answered_def withApiErrorToast_def usv_setIsLoading_def set_usv_loading_def usv_setError_def
        io_simps pushed_def Let_def)
  show ?thesis
    using assms by (simp add: detail_step_def detail_shown_def ok failed user_asked_def)
qed

definition fresh_user_service :: user_service where
  "fresh_user_service = world.extend initial_world \<lparr>usv_isLoading = False, usv_error = None, usv_users = [], usv_user = None\<rparr>"

theorem detail_dialog_shows_witness:
  "detail_shown (detail_step (OpenDetail ''ann'') \<lparr>ud_hook = fresh_user_service, ud_target = None, ud_flight = []\<rparr>) = None"
  by (rule detail_dialog_shows [THEN conjunct1]) simp

end
