(* ===== verification/Topbar.thy ===== *)
theory Topbar
  imports PageShell UiParts AuthProps
begin

text \<open>
  The bar above every page (\<open>layout/Topbar/index.tsx\<close>) with its profile menu (\<open>ProfileDropdown.tsx\<close>,
  \<open>MenuItem.tsx\<close>), and the sidebar beside it: both watch the width of the window and share one flag, so
  they are one state here. A press of the mouse is two events, the button going down and the click.
\<close>

section \<open>A menu item\<close>

datatype menu_item = ItemLink string bool | ItemButton

definition is_web_address :: "string \<Rightarrow> bool" where
  "is_web_address href \<longleftrightarrow> is_prefix ''http://'' (to_lower href) \<or> is_prefix ''https://'' (to_lower href)"

text \<open>The flag of a link: whether it opens a new tab.\<close>

definition menu_item :: "string option \<Rightarrow> bool option \<Rightarrow> menu_item" where
  "menu_item href external =
     (if nullish href [] = [] then ItemButton
      else ItemLink (nullish href []) (nullish external (is_web_address (nullish href []))))"

definition REPOSITORY_URL :: string where
  "REPOSITORY_URL = ''https://github.com/HouseCham/open-gps''"

section \<open>The texts\<close>

record topbar_texts =
  tt_unknownUser :: string
  tt_unknownMail :: string
  tt_superAdminOrg :: string
  tt_themeLight :: string
  tt_themeDark :: string
  tt_switchToLight :: string
  tt_switchToDark :: string

definition topbar_initials :: "auth_user option \<Rightarrow> string" where
  "topbar_initials u = (case u of None \<Rightarrow> ''?'' | Some x \<Rightarrow> getInitials (au_name x))"

definition profile_card :: "topbar_texts \<Rightarrow> auth_user option \<Rightarrow> string list" where
  "profile_card t u =
     [topbar_initials u, nullish (map_option au_name u) (tt_unknownUser t), nullish (map_option au_email u) (tt_unknownMail t),
      tt_superAdminOrg t]"

text \<open>The label and the title of the theme button.\<close>

definition theme_button :: "topbar_texts \<Rightarrow> theme \<Rightarrow> string \<times> string" where
  "theme_button t th =
     (if th = Dark then (tt_switchToLight t, tt_themeLight t) else (tt_switchToDark t, tt_themeDark t))"

section \<open>The state and its events\<close>

definition MOBILE_BREAKPOINT :: nat where
  "MOBILE_BREAKPOINT = 920"

definition narrow_window :: "nat \<Rightarrow> bool" where
  "narrow_window width \<longleftrightarrow> width \<le> MOBILE_BREAKPOINT - 1"

record shell =
  sh_world :: world
  sh_width :: nat
  sh_isMobile :: bool
  sh_sidebarOpen :: bool
  sh_initial :: sidebar_initial_state
  sh_profileOpen :: bool
  sh_theme :: theme_state

text \<open>The first effects: the bar reads the media query, the sidebar applies the setting.\<close>

definition shell_mount :: "shell \<Rightarrow> shell" where
  "shell_mount p =
     p\<lparr>sh_isMobile := narrow_window (sh_width p),
       sh_sidebarOpen := apply_initial_state (narrow_window (sh_width p)) (sh_initial p) (sh_sidebarOpen p)\<rparr>"

text \<open>A new width: the listener of the open sidebar, then the two listeners of the media query if its answer
  has changed.\<close>

definition resized :: "nat \<Rightarrow> shell \<Rightarrow> shell" where
  "resized width p =
     (let p1 = p\<lparr>sh_width := width,
            sh_sidebarOpen := (if sh_sidebarOpen p \<and> MOBILE_BREAKPOINT < width then closeSidebar (sh_sidebarOpen p) else sh_sidebarOpen p)\<rparr>;
          narrow = narrow_window width
      in if narrow = narrow_window (sh_width p) then p1
         else p1\<lparr>sh_isMobile := narrow, sh_sidebarOpen := apply_initial_state narrow (sh_initial p) (sh_sidebarOpen p1)\<rparr>)"

text \<open>The key handler: whether the browser's own action is stopped. The reference it focuses is attached to no
  element, so nothing else happens.\<close>

definition search_key :: "string \<Rightarrow> bool \<Rightarrow> bool" where
  "search_key key modifier \<longleftrightarrow> modifier \<and> to_lower key = ''k''"

datatype shell_event =
    ShMenu
  | ShSidebarLink
  | ShSetting sidebar_initial_state
  | ShResize nat
  | ShToggleTheme
  | ShPickTheme theme
  | ShAvatar
  | ShDocument document_event
  | ShAccount
  | ShSignOut "thrown + auth_session option fetch_result"

text \<open>\<open>menu\<close> is the set of the nodes of the profile menu. The button of the sidebar is there on a narrow window
  only, the entries of the menu while it is open.\<close>

fun shell_step :: "string set \<Rightarrow> shell_event \<Rightarrow> shell \<Rightarrow> shell" where
  "shell_step menu ShMenu p = (if sh_isMobile p then p\<lparr>sh_sidebarOpen := toggleSidebar (sh_sidebarOpen p)\<rparr> else p)"
| "shell_step menu ShSidebarLink p = p\<lparr>sh_sidebarOpen := closeSidebar (sh_sidebarOpen p)\<rparr>"
| "shell_step menu (ShSetting v) p =
     (if v = sh_initial p then p
      else p\<lparr>sh_initial := v, sh_sidebarOpen := apply_initial_state (narrow_window (sh_width p)) v (sh_sidebarOpen p)\<rparr>)"
| "shell_step menu (ShResize width) p = resized width p"
| "shell_step menu ShToggleTheme p =
     p\<lparr>sh_theme := setTheme (if th_theme (sh_theme p) = Dark then Light else Dark) (sh_theme p)\<rparr>"
| "shell_step menu (ShPickTheme t) p = (if sh_profileOpen p then p\<lparr>sh_theme := setTheme t (sh_theme p)\<rparr> else p)"
| "shell_step menu ShAvatar p = p\<lparr>sh_profileOpen := \<not> sh_profileOpen p\<rparr>"
| "shell_step menu (ShDocument e) p =
     (if sh_profileOpen p \<and> click_outside (Some menu) e then p\<lparr>sh_profileOpen := False\<rparr> else p)"
| "shell_step menu ShAccount p = 
     (if sh_profileOpen p then p\<lparr>sh_world := navigated ''/profile'' (sh_world p)\<rparr> else p)"
| "shell_step menu (ShSignOut out) p = 
     (if sh_profileOpen p then p\<lparr>sh_world := snd (signOut out (sh_world p))\<rparr> else p)"

definition shell_run :: "string set \<Rightarrow> shell_event list \<Rightarrow> shell \<Rightarrow> shell" where
  "shell_run menu es p = foldl (\<lambda>p e. shell_step menu e p) p es"

lemma shell_run_simps [simp]:
  "shell_run menu [] p = p" "shell_run menu (e # es) p = shell_run menu es (shell_step menu e p)"
  by (simp_all add: shell_run_def)

section \<open>Window and sidebar\<close>

text \<open>The bar knows whether the window is narrow, and an open sidebar is on a narrow window.\<close>

definition shell_inv :: "shell \<Rightarrow> bool" where
  "shell_inv p \<longleftrightarrow> sh_isMobile p = narrow_window (sh_width p) \<and> (sh_sidebarOpen p \<longrightarrow> sh_width p < MOBILE_BREAKPOINT)"

lemma narrow_less: "narrow_window w \<longleftrightarrow> w < MOBILE_BREAKPOINT"
  by (auto simp: narrow_window_def MOBILE_BREAKPOINT_def)

lemma initial_open: "apply_initial_state narrow v b \<longleftrightarrow> narrow \<and> v = Expanded"
  by (simp add: apply_initial_state_def openSidebar_def closeSidebar_def)

lemma shell_inv_step: "shell_inv p \<Longrightarrow> shell_inv (shell_step menu e p)"
  by (cases e) (auto simp: shell_inv_def narrow_less initial_open closeSidebar_def toggleSidebar_def resized_def Let_def)

lemma shell_inv_mount: "shell_inv (shell_mount p)"
  by (simp add: shell_inv_def shell_mount_def initial_open narrow_less)

lemma shell_inv_run: "shell_inv p \<Longrightarrow> shell_inv (shell_run menu es p)"
  by (induction es arbitrary: p) (simp_all add: shell_inv_step)

text \<open>Bar and sidebar agree about the window whatever happens to them in whatever order: the menu button is
  there exactly on a narrow window, and the sidebar lies open over the page on a narrow window only, so
  the button that closes it is always there when it is open. Narrowing the window opens the sidebar exactly
  when the preference says so.\<close>

theorem shell_follows_window:
  "shell_inv (shell_run menu es (shell_mount p)) \<and>
   sh_sidebarOpen (resized 800 (resized 1200 q)) = (sh_initial q = Expanded) \<and>
   sh_sidebarOpen (resized 1200 (resized 800 q)) = False"
proof -
  have "shell_inv (shell_run menu es (shell_mount p))" by (intro shell_inv_run shell_inv_mount)
  then show ?thesis by (simp add: resized_def narrow_less initial_open MOBILE_BREAKPOINT_def Let_def)
qed

section \<open>The profile menu\<close>

text \<open>The open profile menu closes on the Escape key and on a press anywhere outside it, and stays for a press
  inside. But the button that opened it lies outside: its press closes the menu and the click that
  follows opens it again, so a second click on the button never closes the menu; on a closed menu the
  same two events open it.\<close>

theorem profile_button_never_closes:
  assumes "avatar \<notin> menu" "entry \<in> menu"
  shows "sh_profileOpen (shell_run menu [ShDocument (MouseDown avatar), ShAvatar] p) \<and>
    (shell_run menu [ShDocument (MouseDown avatar)] (p\<lparr>sh_profileOpen := True\<rparr>) = p\<lparr>sh_profileOpen := False\<rparr>) \<and>
    (shell_run menu [ShDocument (KeyDown ''Escape'')] (p\<lparr>sh_profileOpen := True\<rparr>) = p\<lparr>sh_profileOpen := False\<rparr>) \<and>
    (shell_run menu [ShDocument (MouseDown entry)] p = p)"
  using assms by (simp add: click_outside_def)

definition first_shell :: shell where
  "first_shell = \<lparr>sh_world = initial_world, sh_width = 1200, sh_isMobile = False, sh_sidebarOpen = False, sh_initial = Expanded,
     sh_profileOpen = True, sh_theme = \<lparr>th_theme = Light, th_attr = None, th_stored = None, th_writable = True\<rparr>\<rparr>"

theorem profile_button_never_closes_witness:
  "sh_profileOpen (shell_run {''item''} [ShDocument (MouseDown ''avatar''), ShAvatar] first_shell)"
  using profile_button_never_closes [of "''avatar''" "{''item''}" "''item''" first_shell] by simp

lemma help_entry: "menu_item (Some REPOSITORY_URL) None = ItemLink REPOSITORY_URL True"
  by (simp add: menu_item_def REPOSITORY_URL_def is_web_address_def to_lower_def lower_char_def)

end
