(* ===== verification/HistoryPanel.thy ===== *)
theory HistoryPanel
  imports History TextUtils UiParts
begin

text \<open>
  The history panel of the device page as a whole (\<open>features/devices/history/DeviceHistoryView.tsx\<close>): the date
  window and the modes of History over the locations hook of LocationService, with the requests that are
  under way, and what the panel shows of both: the alert, the title, the table, its notices and its foot.
\<close>

section \<open>State and events\<close>

text \<open>\<open>pn_histories\<close> and \<open>pn_routes\<close> are the numbers of the requests that have no answer yet.\<close>

record history_panel =
  pn_page :: history_page
  pn_locations :: location_service
  pn_histories :: "nat list"
  pn_routes :: "nat list"

datatype panel_event =
    PanelUser history_event
  | PanelHistory nat "thrown + json"
  | PanelRoute nat "thrown + json"

text \<open>The retry button looks at the errors of the hook.\<close>

definition with_errors :: "location_service \<Rightarrow> history_event \<Rightarrow> history_event" where
  "with_errors s e =
     (case e of RetryLocations _ _ \<Rightarrow> RetryLocations (lsv_historyError s \<noteq> None) (lsv_routeError s \<noteq> None) | _ \<Rightarrow> e)"

text \<open>A request that a handler starts gets the next number of its kind.\<close>

fun start_request :: "location_casts \<Rightarrow> history_panel \<Rightarrow> location_event \<Rightarrow> history_panel" where
  "start_request c s (StartHistory d f t z p n) =
     (let l = location_step c (StartHistory d f t z p n) (pn_locations s)
      in s\<lparr>pn_locations := l, pn_histories := pn_histories s @ [lsv_historyRequestId l]\<rparr>)"
| "start_request c s (StartRoute d f t z m) =
     (let l = location_step c (StartRoute d f t z m) (pn_locations s)
      in s\<lparr>pn_locations := l, pn_routes := pn_routes s @ [lsv_routeRequestId l]\<rparr>)"
| "start_request c s e = s"

fun panel_step :: "local_zone \<Rightarrow> location_casts \<Rightarrow> panel_event \<Rightarrow> history_panel \<Rightarrow> history_panel" where
  "panel_step z c (PanelUser e) s =
     (case history_step z (with_errors (pn_locations s) e) (pn_page s) of
        (p, requests) \<Rightarrow> foldl (start_request c) (s\<lparr>pn_page := p\<rparr>) requests)"
| "panel_step z c (PanelHistory k out) s =
     (if k \<in> set (pn_histories s)
      then s\<lparr>pn_locations := location_step c (SettleHistory k out) (pn_locations s), pn_histories := removeAll k (pn_histories s)\<rparr>
      else s)"
| "panel_step z c (PanelRoute k out) s =
     (if k \<in> set (pn_routes s)
      then s\<lparr>pn_locations := location_step c (SettleRoute k out) (pn_locations s), pn_routes := removeAll k (pn_routes s)\<rparr>
      else s)"

definition panel_run :: "local_zone \<Rightarrow> location_casts \<Rightarrow> panel_event list \<Rightarrow> history_panel \<Rightarrow> history_panel" where
  "panel_run z c es s = foldl (\<lambda>s e. panel_step z c e s) s es"

lemma panel_run_simps [simp]:
  "panel_run z c [] s = s" "panel_run z c (e # es) s = panel_run z c es (panel_step z c e s)"
  "panel_run z c (es @ fs) s = panel_run z c fs (panel_run z c es s)"
  by (simp_all add: panel_run_def)

text \<open>The panel before its first effect; mounting runs that effect.\<close>

definition panel_start :: "local_zone \<Rightarrow> real \<Rightarrow> string \<Rightarrow> history_panel" where
  "panel_start z now tz =
     \<lparr>pn_page = \<lparr>hp_deviceId = [], hp_timeZone = tz, hp_range = getDateRange z now RangeToday, hp_detectiveMode = False,
        hp_routeStyle = LineStyle\<rparr>, pn_locations = location_initial, pn_histories = [], pn_routes = []\<rparr>"

definition panel_mount :: "local_zone \<Rightarrow> location_casts \<Rightarrow> real \<Rightarrow> string \<Rightarrow> string \<Rightarrow> history_panel" where
  "panel_mount z c now tz deviceId = panel_step z c (PanelUser (OpenHistory now deviceId)) (panel_start z now tz)"

section \<open>Requests under way\<close>

text \<open>A view is loading exactly while its latest request has no answer, and then it is empty.\<close>

definition panel_inv :: "history_panel \<Rightarrow> bool" where
  "panel_inv s \<longleftrightarrow>
     (lsv_historyLoading (pn_locations s) \<longleftrightarrow> lsv_historyRequestId (pn_locations s) \<in> set (pn_histories s)) \<and>
     (lsv_historyLoading (pn_locations s) \<longrightarrow> history_view (pn_locations s) = (True, None, [], None)) \<and>
     list_all (\<lambda>k. k \<le> lsv_historyRequestId (pn_locations s)) (pn_histories s) \<and>
     (lsv_routeLoading (pn_locations s) \<longleftrightarrow> lsv_routeRequestId (pn_locations s) \<in> set (pn_routes s)) \<and>
     (lsv_routeLoading (pn_locations s) \<longrightarrow> route_view (pn_locations s) = (True, None, None)) \<and>
     list_all (\<lambda>k. k \<le> lsv_routeRequestId (pn_locations s)) (pn_routes s)"

lemma loading_of_view:
  "lsv_historyLoading s = fst (history_view s)" "lsv_routeLoading s = fst (route_view s)"
  by (simp_all add: history_view_def route_view_def)

lemma result_settled: "fst (history_result c out) = False" "fst (route_result c out) = False"
  by (simp_all add: history_result_def route_result_def split: option.split)

lemma start_frames:
  "history_view (location_step c (StartHistory d f t z p n) s) = (True, None, [], None)"
  "lsv_historyRequestId (location_step c (StartHistory d f t z p n) s) = lsv_historyRequestId s + 1"
  "route_view (location_step c (StartHistory d f t z p n) s) = route_view s"
  "lsv_routeRequestId (location_step c (StartHistory d f t z p n) s) = lsv_routeRequestId s"
  "route_view (location_step c (StartRoute d f t z m) s) = (True, None, None)"
  "lsv_routeRequestId (location_step c (StartRoute d f t z m) s) = lsv_routeRequestId s + 1"
  "history_view (location_step c (StartRoute d f t z m) s) = history_view s"
  "lsv_historyRequestId (location_step c (StartRoute d f t z m) s) = lsv_historyRequestId s"
  by (simp_all add: start_unfold)

lemma panel_inv_start: "panel_inv s \<Longrightarrow> panel_inv (start_request c s e)"
  by (cases "(c, s, e)" rule: start_request.cases)
    (auto simp: panel_inv_def loading_of_view start_frames Let_def list_all_iff simp del: location_step.simps)

lemma panel_inv_starts: "panel_inv s \<Longrightarrow> panel_inv (foldl (start_request c) s es)"
  by (induction es arbitrary: s) (simp_all add: panel_inv_start)

lemma panel_inv_page: "panel_inv (s\<lparr>pn_page := p\<rparr>) = panel_inv s"
  by (simp add: panel_inv_def)

lemma panel_inv_settle_history:
  assumes "panel_inv s" "k \<in> set (pn_histories s)"
  shows "panel_inv (panel_step z c (PanelHistory k out) s)"
proof (cases "k = lsv_historyRequestId (pn_locations s)")
  case True
  then have "history_view (pn_locations s) = (True, None, [], None)" using assms by (simp add: panel_inv_def)
  from history_settle_current [OF this, of c out] show ?thesis
    using assms True by (auto simp: panel_inv_def loading_of_view history_settle_frame result_settled list_all_iff)
next
  case False
  then have "history_view (snd (getLocationHistory_settle (cast_history c) k out (pn_locations s))) = history_view (pn_locations s)"
    by (rule history_settle_stale)
  then show ?thesis
    using assms False by (auto simp: panel_inv_def loading_of_view history_settle_frame list_all_iff)
qed

lemma panel_inv_settle_route:
  assumes "panel_inv s" "k \<in> set (pn_routes s)"
  shows "panel_inv (panel_step z c (PanelRoute k out) s)"
proof (cases "k = lsv_routeRequestId (pn_locations s)")
  case True
  then have "route_view (pn_locations s) = (True, None, None)" using assms by (simp add: panel_inv_def)
  from route_settle_current [OF this, of c out] show ?thesis
    using assms True by (auto simp: panel_inv_def loading_of_view route_settle_frame result_settled list_all_iff)
next
  case False
  then have "route_view (snd (getLocationRoute_settle (cast_route c) k out (pn_locations s))) = route_view (pn_locations s)"
    by (rule route_settle_stale)
  then show ?thesis
    using assms False by (auto simp: panel_inv_def loading_of_view route_settle_frame list_all_iff)
qed

lemma panel_inv_step: "panel_inv s \<Longrightarrow> panel_inv (panel_step z c e s)"
proof (cases e)
  case (PanelUser u)
  assume "panel_inv s"
  then show ?thesis by (simp add: PanelUser panel_inv_starts panel_inv_page split: prod.split)
next
  case (PanelHistory k out)
  assume "panel_inv s"
  then show ?thesis
    using panel_inv_settle_history [of s k z c out] by (cases "k \<in> set (pn_histories s)") (simp_all only: PanelHistory panel_step.simps if_False)
next
  case (PanelRoute k out)
  assume "panel_inv s"
  then show ?thesis
    using panel_inv_settle_route [of s k z c out] by (cases "k \<in> set (pn_routes s)") (simp_all only: PanelRoute panel_step.simps if_False)
qed

lemma panel_inv_run: "panel_inv s \<Longrightarrow> panel_inv (panel_run z c es s)"
  by (induction es arbitrary: s) (simp_all add: panel_inv_step del: panel_step.simps)

lemma panel_inv_mount: "panel_inv (panel_mount z c now tz deviceId)"
proof -
  have "panel_inv (panel_start z now tz)"
    by (simp add: panel_inv_def panel_start_def location_initial_def world.defs)
  then show ?thesis unfolding panel_mount_def by (rule panel_inv_step)
qed

text \<open>Answers only take requests away.\<close>

definition answers :: "(nat \<Rightarrow> thrown + json) \<Rightarrow> (nat \<Rightarrow> thrown + json) \<Rightarrow> nat list \<Rightarrow> nat list \<Rightarrow> panel_event list" where
  "answers h r hs rs = map (\<lambda>k. PanelHistory k (h k)) hs @ map (\<lambda>k. PanelRoute k (r k)) rs"

lemma history_answers:
  "set (pn_histories (panel_run z c (map (\<lambda>k. PanelHistory k (h k)) hs) s)) = set (pn_histories s) - set hs"
  "pn_routes (panel_run z c (map (\<lambda>k. PanelHistory k (h k)) hs) s) = pn_routes s"
  by (induction hs arbitrary: s) auto

lemma route_answers:
  "set (pn_routes (panel_run z c (map (\<lambda>k. PanelRoute k (r k)) rs) s)) = set (pn_routes s) - set rs"
  "pn_histories (panel_run z c (map (\<lambda>k. PanelRoute k (r k)) rs) s) = pn_histories s"
  by (induction rs arbitrary: s) auto

section \<open>What the panel shows\<close>

record panel_env =
  pe_getTime :: "string \<Rightarrow> number"
  pe_ns :: "number \<Rightarrow> string"
  pe_intl :: "language \<Rightarrow> real \<Rightarrow> string"
  pe_lang :: language

record panel_texts =
  pt_routeWindow :: string
  pt_on :: string
  pt_off :: string
  pt_pointsAvailable :: string
  pt_speedUnit :: string
  pt_meters :: string
  pt_cellular :: string
  pt_loadingHistory :: string
  pt_noHistory :: string

definition panel_alert :: "history_panel \<Rightarrow> string option" where
  "panel_alert s =
     (case lsv_historyError (pn_locations s) of
        Some e \<Rightarrow> Some (err_message e)
      | None \<Rightarrow> map_option err_message (lsv_routeError (pn_locations s)))"

definition routeWindowLabel :: "panel_env \<Rightarrow> panel_texts \<Rightarrow> history_panel \<Rightarrow> string" where
  "routeWindowLabel env t s =
     (let time = (\<lambda>v. formatHistoryTime (pe_getTime env) (pe_intl env) v (pe_lang env)); r = hp_range (pn_page s)
      in replace_first ''{to}'' (time (dr_to r)) (replace_first ''{from}'' (time (dr_from r)) (pt_routeWindow t)))"

text \<open>The badge of the mode; the select of the style and the form are there in the detective mode.\<close>

definition mode_badge :: "panel_texts \<Rightarrow> history_panel \<Rightarrow> bool \<times> string" where
  "mode_badge t s = (hp_detectiveMode (pn_page s), if hp_detectiveMode (pn_page s) then pt_on t else pt_off t)"

definition points_available :: "panel_env \<Rightarrow> panel_texts \<Rightarrow> history_panel \<Rightarrow> string" where
  "points_available env t s =
     pe_ns env (case lsv_historyPagination (pn_locations s) of
        Some m \<Rightarrow> Fin (of_int (pm_total m)) | None \<Rightarrow> Fin (of_nat (length (lsv_history (pn_locations s)))))
     @ '' '' @ pt_pointsAvailable t"

definition window_busy :: "history_panel \<Rightarrow> bool" where
  "window_busy s \<longleftrightarrow> lsv_historyLoading (pn_locations s) \<or> lsv_routeLoading (pn_locations s)"

definition picked_style :: "string \<Rightarrow> history_event option" where
  "picked_style v = (if v = ''line'' then Some (SetStyle LineStyle) else if v = ''dots'' then Some (SetStyle DotStyle) else None)"

definition history_row :: "panel_env \<Rightarrow> panel_texts \<Rightarrow> location_point \<Rightarrow> string list" where
  "history_row env t q =
     [formatHistoryTime (pe_getTime env) (pe_intl env) (lp_recorded_at q) (pe_lang env),
      to_fixed (pe_ns env) 6 (lp_latitude q) @ '', '' @ to_fixed (pe_ns env) 6 (lp_longitude q),
      formatDateMetric (pe_ns env) (lp_speed q) (pt_speedUnit t) 1,
      formatDateMetric (pe_ns env) (lp_altitude q) (pt_meters t) 1,
      (case lp_accuracy q of None \<Rightarrow> em_dash | Some a \<Rightarrow> [CHR 0xB1] @ to_fixed (pe_ns env) 1 a @ '' '' @ pt_meters t),
      pt_cellular t]"

definition history_table :: "panel_env \<Rightarrow> panel_texts \<Rightarrow> history_panel \<Rightarrow> string list list" where
  "history_table env t s = map (history_row env t) (lsv_history (pn_locations s))"

definition history_notice :: "panel_texts \<Rightarrow> history_panel \<Rightarrow> string option" where
  "history_notice t s =
     (if lsv_history (pn_locations s) = []
      then Some (if lsv_historyLoading (pn_locations s) then pt_loadingHistory t else pt_noHistory t) else None)"

text \<open>The export button: nothing while the table is empty.\<close>

definition export_pressed :: "panel_env \<Rightarrow> csv_labels \<Rightarrow> 'z device_scheme \<Rightarrow> history_panel \<Rightarrow> download option" where
  "export_pressed env labels device s =
     (if length (lsv_history (pn_locations s)) = 0 then None
      else Some (downloadCsv (pe_ns env) device (lsv_history (pn_locations s)) labels))"

text \<open>The page buttons are there with the pagination of an answer.\<close>

definition page_pressed :: "int \<Rightarrow> history_panel \<Rightarrow> panel_event option" where
  "page_pressed n s =
     (case lsv_historyPagination (pn_locations s) of
        None \<Rightarrow> None
      | Some m \<Rightarrow> map_option (\<lambda>p. PanelUser (GoToPage p)) (go (pm_total_pages m) n))"

section \<open>Properties\<close>

text \<open>A panel at any time, and the panel once everything under way is answered.\<close>

definition panel_at :: "local_zone \<Rightarrow> location_casts \<Rightarrow> real \<Rightarrow> string \<Rightarrow> string \<Rightarrow> panel_event list \<Rightarrow> history_panel" where
  "panel_at z c now tz deviceId es = panel_run z c es (panel_mount z c now tz deviceId)"

definition all_answered ::
  "local_zone \<Rightarrow> location_casts \<Rightarrow> (nat \<Rightarrow> thrown + json) \<Rightarrow> (nat \<Rightarrow> thrown + json) \<Rightarrow> history_panel \<Rightarrow> history_panel" where
  "all_answered z c h r s = panel_run z c (answers h r (pn_histories s) (pn_routes s)) s"

lemma panel_at_inv: "panel_inv (panel_at z c now tz d es)"
  unfolding panel_at_def by (intro panel_inv_run panel_inv_mount)

text \<open>C7: The history panel never stays busy: whatever its user did and in whatever order old answers arrived,
  once every request under way is answered, with a report, a refusal or a failure, no spinner and no
  loading notice is left; and until then the button shows that it is busy exactly while the answer to
  the latest request of the history or of the route is missing.\<close>

theorem history_panel_settles:
  "let s = panel_at z c now tz deviceId es; s' = all_answered z c h r s in
     \<not> window_busy s' \<and> pn_histories s' = [] \<and> pn_routes s' = [] \<and> history_notice t s' \<in> {None, Some (pt_noHistory t)} \<and>
     (window_busy s \<longleftrightarrow> lsv_historyRequestId (pn_locations s) \<in> set (pn_histories s) \<or>
                         lsv_routeRequestId (pn_locations s) \<in> set (pn_routes s))"
proof -
  obtain s where s: "panel_at z c now tz deviceId es = s" by simp
  have inv: "panel_inv s" "panel_inv (all_answered z c h r s)"
    using panel_at_inv [of z c now tz deviceId es] by (simp_all add: s all_answered_def panel_inv_run)
  have "set (pn_histories (all_answered z c h r s)) = {}" "set (pn_routes (all_answered z c h r s)) = {}"
    unfolding all_answered_def answers_def by (simp_all add: history_answers route_answers)
  then show ?thesis using inv by (simp add: s Let_def panel_inv_def window_busy_def history_notice_def)
qed

text \<open>The page buttons of the history cannot race with themselves: they are there only while the latest request
  is answered, and a press asks for an existing page; as soon as it is made the old page and its
  buttons are gone and the notice says that the page is loading.\<close>

theorem history_pages_one_at_a_time:
  "let s = panel_at z c now tz deviceId es in
     case page_pressed n s of
       None \<Rightarrow> True
     | Some e \<Rightarrow> e = PanelUser (GoToPage n) \<and> 1 \<le> n \<and> n \<le> pm_total_pages (the (lsv_historyPagination (pn_locations s))) \<and>
         lsv_historyRequestId (pn_locations s) \<notin> set (pn_histories s) \<and>
         page_pressed m (panel_step z c e s) = None \<and> history_table env t (panel_step z c e s) = [] \<and>
         history_notice t (panel_step z c e s) = Some (pt_loadingHistory t)"
proof -
  obtain s where s: "panel_at z c now tz deviceId es = s" by simp
  have inv: "panel_inv s" using panel_at_inv [of z c now tz deviceId es] by (simp add: s)
  have "case page_pressed n s of
       None \<Rightarrow> True
     | Some e \<Rightarrow> e = PanelUser (GoToPage n) \<and> 1 \<le> n \<and> n \<le> pm_total_pages (the (lsv_historyPagination (pn_locations s))) \<and>
         lsv_historyRequestId (pn_locations s) \<notin> set (pn_histories s) \<and>
         page_pressed m (panel_step z c e s) = None \<and> history_table env t (panel_step z c e s) = [] \<and>
         history_notice t (panel_step z c e s) = Some (pt_loadingHistory t)"
  proof (cases "page_pressed n s")
    case (Some e)
    have foot: "lsv_historyPagination (pn_locations s) \<noteq> None" "e = PanelUser (GoToPage n)" "1 \<le> n"
      "n \<le> pm_total_pages (the (lsv_historyPagination (pn_locations s)))"
      using Some by (auto simp: page_pressed_def go_def split: option.splits if_splits)
    then have "\<not> lsv_historyLoading (pn_locations s)" using inv by (auto simp: panel_inv_def history_view_def)
    moreover have "history_view (pn_locations (panel_step z c e s)) = (True, None, [], None)"
      by (simp add: foot(2) with_errors_def loadHistory_def history_request_def route_request_def start_frames Let_def
          del: location_step.simps)
    then have "page_pressed m (panel_step z c e s) = None" "history_table env t (panel_step z c e s) = []"
      "history_notice t (panel_step z c e s) = Some (pt_loadingHistory t)"
      by (simp_all add: history_view_def page_pressed_def history_table_def history_notice_def del: panel_step.simps)
    ultimately show ?thesis using inv foot by (simp add: Some panel_inv_def del: panel_step.simps)
  qed simp
  then show ?thesis by (simp only: s Let_def)
qed

text \<open>The retry button of the panel in two situations it handles badly. After a route failed and the detective mode
  was left, the alert stays and its button does nothing at all. After both requests failed in the
  detective mode, one press asks for the same route twice.\<close>

theorem history_retry:
  "let left = panel_at z c now tz d [PanelUser ToggleDetective, PanelRoute 1 (Inl e), PanelUser ToggleDetective, PanelHistory 1 (reply 200 (JObject v))];
       both = panel_at z c now tz d [PanelUser ToggleDetective, PanelRoute 1 (Inl e), PanelHistory 1 (Inl e')];
       retried = panel_step z c (PanelUser (RetryLocations a b)) both
   in panel_alert left = Some (err_message (toError e)) \<and> panel_step z c (PanelUser (RetryLocations a b)) left = left \<and>
      pn_histories retried = [2] \<and> pn_routes retried = [2, 3]"
  by (simp add: panel_at_def panel_mount_def panel_start_def location_initial_def world.defs with_errors_def openHistory_def
      handleDetectiveToggle_def retryLocations_def loadHistory_def history_request_def route_request_def panel_alert_def
      getLocationHistory_settle_def getLocationRoute_settle_def settle_unfold start_unfold reply_def isEnvelope_def payload_cast_def Let_def)

text \<open>The title of the table names the dates in the fields, not those of the table: as soon as a date is edited it
  announces the edited window over the rows of the old one, which is also what the export then writes.\<close>

theorem window_title_runs_ahead:
  "let s' = panel_step z c (PanelUser (EditFrom v)) s; time = (\<lambda>v. formatHistoryTime (pe_getTime env) (pe_intl env) v (pe_lang env)) in
     routeWindowLabel env t s' =
       replace_first ''{to}'' (time (dr_to (hp_range (pn_page s)))) (replace_first ''{from}'' (time v) (pt_routeWindow t)) \<and>
     history_table env t s' = history_table env t s \<and> export_pressed env labels device s' = export_pressed env labels device s \<and>
     pn_histories s' = pn_histories s"
  by (simp add: with_errors_def routeWindowLabel_def history_table_def export_pressed_def Let_def)

end
