(* ===== verification/MapView.thy ===== *)
theory MapView
  imports History DeviceCards
begin

text \<open>
  The rest of the map card (\<open>features/devices/location/MapCard.tsx\<close>) and of the section around it
  (\<open>detail/GpsTelemetrySection.tsx\<close>): what is drawn for a route and for the device, the texts, and the effect
  that moves the camera over a sequence of renders. The map library is what it is told to do: the layers
  it is given and the moves it is asked for.
\<close>

section \<open>What is drawn\<close>

datatype route_feature = LineString "lng_lat list" | PointFeature lng_lat

definition routeData :: "location_point list list \<Rightarrow> route_feature list" where
  "routeData segs = map LineString (processed_segments segs)"

definition allPoints :: "location_point list list \<Rightarrow> lng_lat list" where
  "allPoints segs = concat (processed_segments segs)"

definition routePointsData :: "location_point list list \<Rightarrow> route_feature list" where
  "routePointsData segs = map PointFeature (allPoints segs)"

record map_props =
  mp_location :: "location_point option"
  mp_segments :: "location_point list list"
  mp_style :: route_style
  mp_displayStatus :: "device_status option"

definition map_status :: "card_env \<Rightarrow> device_strings \<Rightarrow> map_props \<Rightarrow> device_status" where
  "map_status env ds p =
     (case mp_displayStatus p of Some st \<Rightarrow> st
      | None \<Rightarrow> deriveDeviceStatus (ce_getTime env) (Fin (ce_now env)) (map_option lp_recorded_at (mp_location p)) ds)"

definition ROUTE_COLOR_ONLINE :: string where "ROUTE_COLOR_ONLINE = ''#4c8577''"
definition ROUTE_COLOR_OFFLINE :: string where "ROUTE_COLOR_OFFLINE = ''#78838c''"

definition routeColor :: "card_env \<Rightarrow> device_strings \<Rightarrow> map_props \<Rightarrow> string" where
  "routeColor env ds p = (if dst_key (map_status env ds p) = StOnline then ROUTE_COLOR_ONLINE else ROUTE_COLOR_OFFLINE)"

text \<open>The sources on the map: an id, its features and their colour.\<close>

definition map_sources :: "card_env \<Rightarrow> device_strings \<Rightarrow> map_props \<Rightarrow> (string \<times> route_feature list \<times> string) list" where
  "map_sources env ds p =
     (if 0 < length (processed_segments (mp_segments p)) \<and> mp_style p = LineStyle
      then [(''device-route'', routeData (mp_segments p), routeColor env ds p)] else []) @
     (if 0 < length (allPoints (mp_segments p)) \<and> mp_style p = DotStyle
      then [(''device-route-dots'', routePointsData (mp_segments p), routeColor env ds p)] else [])"

text \<open>The marker: its place and whether it pulses.\<close>

definition map_marker :: "card_env \<Rightarrow> device_strings \<Rightarrow> map_props \<Rightarrow> (lng_lat \<times> bool) option" where
  "map_marker env ds p =
     map_option (\<lambda>l. ((lp_longitude l, lp_latitude l), dst_dot (map_status env ds p) = DotSuccess)) (mp_location p)"

record map_texts =
  mx_latestReading :: string
  mx_noLocation :: string

definition map_subtitle :: "card_env \<Rightarrow> map_texts \<Rightarrow> map_props \<Rightarrow> string" where
  "map_subtitle env t p =
     (case mp_location p of None \<Rightarrow> mx_noLocation t
      | Some l \<Rightarrow> mx_latestReading t @ '' '' @ [CHR 0xB7] @ '' '' @ relative_text env (Some (lp_recorded_at l)))"

definition map_footer :: "card_env \<Rightarrow> map_texts \<Rightarrow> map_props \<Rightarrow> string" where
  "map_footer env t p =
     (case mp_location p of None \<Rightarrow> mx_noLocation t
      | Some l \<Rightarrow> to_fixed (ce_ns env) MAP_COORDINATE_DECIMALS (lp_latitude l) @ degree_sign @ '', '' @ to_fixed (ce_ns env) MAP_COORDINATE_DECIMALS (lp_longitude l) @ degree_sign)"

definition MAP_FALLBACK_CENTER :: lng_lat where
  "MAP_FALLBACK_CENTER = (Fin (- 991332 / 10000), Fin (194326 / 10000))"
definition MAP_FALLBACK_ZOOM :: nat where "MAP_FALLBACK_ZOOM = 4"
definition MAP_DEVICE_ZOOM :: nat where "MAP_DEVICE_ZOOM = 15"

definition initial_view :: "map_props \<Rightarrow> lng_lat \<times> nat" where
  "initial_view p =
     (case mp_location p of None \<Rightarrow> (MAP_FALLBACK_CENTER, MAP_FALLBACK_ZOOM)
      | Some l \<Rightarrow> ((lp_longitude l, lp_latitude l), MAP_DEVICE_ZOOM))"

section \<open>The camera over renders\<close>

text \<open>The values the effect depends on, and the effect: it runs on the first render and when one of them has
  changed, and moves the map once the library has handed it over.\<close>

type_synonym camera_deps = "bool \<times> number option \<times> number option \<times> string"

definition camera_deps :: "map_props \<Rightarrow> camera_deps" where
  "camera_deps p =
     (mp_location p \<noteq> None, map_option lp_latitude (mp_location p), map_option lp_longitude (mp_location p),
      buildRouteKey (mp_segments p))"

record map_view =
  mv_deps :: "camera_deps option"
  mv_moves :: "camera list"

definition map_render :: "bool \<Rightarrow> map_props \<Rightarrow> map_view \<Rightarrow> map_view" where
  "map_render ready p v =
     (if mv_deps v = Some (camera_deps p) then v
      else \<lparr>mv_deps = Some (camera_deps p),
             mv_moves = mv_moves v @ (if ready \<and> camera_move (mp_segments p) (mp_location p) \<noteq> StayPut
                                      then [camera_move (mp_segments p) (mp_location p)] else [])\<rparr>)"

definition fresh_map :: map_view where
  "fresh_map = \<lparr>mv_deps = None, mv_moves = []\<rparr>"

definition map_renders :: "(bool \<times> map_props) list \<Rightarrow> map_view \<Rightarrow> map_view" where
  "map_renders ps v = foldl (\<lambda>v (ready, p). map_render ready p v) v ps"

lemma map_renders_simps [simp]:
  "map_renders [] v = v" "map_renders ((ready, p) # ps) v = map_renders ps (map_render ready p v)"
  by (simp_all add: map_renders_def)

text \<open>The section: nothing is shown while a first position loads, and the refresh button needs a device.\<close>

definition section_skeleton :: "location_point option \<Rightarrow> bool \<Rightarrow> bool" where
  "section_skeleton latest loading \<longleftrightarrow> latest = None \<and> loading"

definition section_refresh :: "string \<Rightarrow> string option" where
  "section_refresh deviceId = (if deviceId \<noteq> [] then Some deviceId else None)"

lemma processed_long: "list_all (\<lambda>c. 2 \<le> length c) (processed_segments segs)"
  by (induction segs) (auto simp: processed_segments_def processSegment_def Let_def list_all_iff)

text \<open>What the map draws. There is never more than one source, of the kind of the chosen style; a line has two
  points or more; lines and dots are made of the same points. A device whose marker is on the map has a position,
  and pulses exactly when the
  route has the colour of a device that is online. But a single position, or several that are too close to
  each other, is drawn in neither style, although the dots are meant to show every accepted point.\<close>

theorem map_draws_route:
  "length (map_sources env ds p) \<le> 1 \<and>
   list_all (\<lambda>c. 2 \<le> length c) (processed_segments (mp_segments p)) \<and>
   concat (map (\<lambda>f. case f of LineString cs \<Rightarrow> cs | PointFeature c \<Rightarrow> [c]) (routeData (mp_segments p))) =
   concat (map (\<lambda>f. case f of LineString cs \<Rightarrow> cs | PointFeature c \<Rightarrow> [c]) (routePointsData (mp_segments p))) \<and>
   map_sources env ds (p\<lparr>mp_segments := [[q]]\<rparr>) = [] \<and>
   (map_marker env ds p = None \<longleftrightarrow> mp_location p = None) \<and>
   map_option snd (map_marker env ds (p\<lparr>mp_displayStatus := Some (deviceStatusFromPresence st ds)\<rparr>)) =
     map_option (\<lambda>_. routeColor env ds (p\<lparr>mp_displayStatus := Some (deviceStatusFromPresence st ds)\<rparr>) = ROUTE_COLOR_ONLINE) (mp_location p)"
proof -
  have lines: "concat (map (\<lambda>f. case f of LineString cs \<Rightarrow> cs | PointFeature c \<Rightarrow> [c]) (map LineString css)) = concat css" for css
    by (induction css) simp_all
  have dots: "concat (map (\<lambda>f. case f of LineString cs \<Rightarrow> cs | PointFeature c \<Rightarrow> [c]) (map PointFeature cs)) = cs" for cs
    by (induction cs) simp_all
  show ?thesis
    using processed_long
    by (simp add: map_sources_def routeData_def routePointsData_def allPoints_def lines dots map_marker_def map_status_def routeColor_def
        option.map_comp o_def deviceStatusFromPresence_def ROUTE_COLOR_ONLINE_def ROUTE_COLOR_OFFLINE_def del: map_map)
      (simp add: processed_segments_def processSegment_def Let_def)
qed

text \<open>The camera moves at most once for the same position and the same route, however often the card renders. It
  does not notice everything: a route that differs in its inner points only is drawn anew without the camera
  being fitted to it; and when the first render comes before the map is ready, the move is lost until the
  position or the ends of the route change.\<close>

theorem camera_over_renders:
  assumes "buildRouteKey segs = buildRouteKey (mp_segments p)"
  shows "map_renders (map (\<lambda>ready. (ready, p)) readies) (map_render r p v) = map_render r p v \<and>
    map_render True (p\<lparr>mp_segments := segs\<rparr>) (map_render r p v) = map_render r p v \<and>
    mv_moves (map_renders (map (\<lambda>ready. (ready, p)) readies) (map_render False p v)) = mv_moves v"
proof -
  have again: "map_render r' p (map_render r p v) = map_render r p v" for r r' v
    by (simp add: map_render_def)
  have all: "map_renders (map (\<lambda>ready. (ready, p)) readies) (map_render r p v) = map_render r p v" for r readies v
    by (induction readies) (simp_all add: again)
  have same: "camera_deps (p\<lparr>mp_segments := segs\<rparr>) = camera_deps p" using assms by (simp add: camera_deps_def)
  have other: "map_render True (p\<lparr>mp_segments := segs\<rparr>) (map_render r p v) = map_render r p v"
    by (simp add: map_render_def same)
  show ?thesis by (simp only: all other) (simp add: map_render_def)
qed

definition straight :: map_props where
  "straight = \<lparr>mp_location = None, mp_segments = [map at_minute [''1'', ''2'', ''4'']], mp_style = LineStyle, mp_displayStatus = None\<rparr>"

theorem camera_over_renders_witness:
  "map_render True (straight\<lparr>mp_segments := [[at_minute ''1'', (at_minute ''3'')\<lparr>lp_longitude := Fin 50\<rparr>, at_minute ''4'']]\<rparr>)
     (map_render True straight fresh_map) = map_render True straight fresh_map"
proof -
  have "buildRouteKey [[at_minute ''1'', (at_minute ''3'')\<lparr>lp_longitude := Fin 50\<rparr>, at_minute ''4'']] = buildRouteKey (mp_segments straight)"
    by (simp add: straight_def buildRouteKey_def segment_key_def at_minute_def)
  from camera_over_renders [OF this, THEN conjunct2, THEN conjunct1] show ?thesis .
qed

end
