(* ===== verification/DeviceView.thy ===== *)
theory DeviceView
  imports DetailPage DeviceStream HistoryPanel MapView
begin

text \<open>
  The device page as a whole (\<open>features/devices/detail/DeviceDetailPage.tsx\<close>): the page of DetailPage, the stream
  of DeviceStream, the history panel while it is mounted, the dialogs, and the one operation on the device that
  can be under way. While the device hook is loading the page renders its loading view only, so everything
  below it is unmounted and forgets its state.

  An operation is two steps: its start, from which the hook is loading, and its end, which runs the handler with
  the answers it got. Nothing that the handler captured can change in between, because what would change it
  is not on the screen.
\<close>

section \<open>State\<close>

datatype device_op =
    OpLoad
  | OpReload
  | OpInvite string
  | OpRevoke
  | OpEdit string update_device_dto
  | OpDelete

record device_view =
  dv_page :: detail_page
  dv_stream :: stream
  dv_history :: "history_panel option"
  dv_shareChoiceOpen :: bool
  dv_guestShareOpen :: bool
  dv_deleteOpen :: bool
  dv_running :: "device_op option"

record view_env =
  ve_zone :: local_zone
  ve_casts :: location_casts
  ve_stream :: stream_env
  ve_timeZone :: string

record op_outcome =
  oo_first :: "thrown + unit fetch_result"
  oo_detail :: "thrown + device_detail envelope fetch_result"
  oo_device :: "thrown + device envelope fetch_result"

text \<open>Whether the device is on the screen, after the early returns of the page.\<close>

definition device_shown :: "detail_page \<Rightarrow> bool" where
  "device_shown p \<longleftrightarrow> \<not> no_id (dt_deviceId p) \<and> \<not> dsv_isLoading p \<and> dsv_device p \<noteq> None"

lemma device_shown_render: "device_shown p \<longleftrightarrow> (\<exists>d. detail_render t p = ScreenDevice d)"
  by (auto simp: device_shown_def detail_render_def no_id_def split: option.split)

text \<open>The history panel is mounted with the device, from the first visit of the history view on.\<close>

definition sync_history :: "view_env \<Rightarrow> real \<Rightarrow> device_view \<Rightarrow> device_view" where
  "sync_history env now s =
     s\<lparr>dv_history :=
       (if device_shown (dv_page s) \<and> dt_historyOpened (dv_page s)
        then (case dv_history s of
                Some h \<Rightarrow> Some h
              | None \<Rightarrow> Some (panel_mount (ve_zone env) (ve_casts env) now (ve_timeZone env) (the (dt_deviceId (dv_page s)))))
        else None)\<rparr>"

section \<open>Operations\<close>

definition op_begin :: "device_op \<Rightarrow> detail_page \<Rightarrow> detail_page" where
  "op_begin op p =
     (if op = OpLoad \<or> op = OpReload then p\<lparr>dsv_isLoading := True, dsv_device := None\<rparr> else p\<lparr>dsv_isLoading := True\<rparr>)"

fun op_end :: "device_op \<Rightarrow> op_outcome \<Rightarrow> detail_page \<Rightarrow> detail_page" where
  "op_end OpLoad r p = snd (load_device (oo_detail r) p)"
| "op_end OpReload r p = snd (load_device (oo_detail r) p)"
| "op_end (OpInvite u) r p = snd (handleInvite u (oo_first r) (oo_detail r) p)"
| "op_end OpRevoke r p = snd (handleRevoke (oo_first r) (oo_detail r) p)"
| "op_end (OpEdit i d) r p = snd (handleEdit i d (oo_device r) p)"
| "op_end OpDelete r p = snd (handleDelete (oo_first r) p)"

text \<open>What starts an operation has to be on the screen: a dialog over the device, or a retry button.\<close>

fun op_offered :: "device_op \<Rightarrow> device_view \<Rightarrow> bool" where
  "op_offered OpLoad s = False"
| "op_offered OpReload s =
     (\<not> no_id (dt_deviceId (dv_page s)) \<and> \<not> dsv_isLoading (dv_page s) \<and>
      (dsv_device (dv_page s) = None \<or> st_error (dv_stream s) \<noteq> None))"
| "op_offered (OpInvite u) s = (device_shown (dv_page s) \<and> dt_inviteOpen (dv_page s))"
| "op_offered OpRevoke s = (device_shown (dv_page s) \<and> dt_revokeTarget (dv_page s) \<noteq> None)"
| "op_offered (OpEdit i d) s = (device_shown (dv_page s) \<and> dt_editOpen (dv_page s))"
| "op_offered OpDelete s = (device_shown (dv_page s) \<and> dv_deleteOpen s)"

section \<open>Events\<close>

datatype dialog = DlShareChoice | DlGuestShare | DlInvite | DlEdit | DlDelete

definition set_dialog :: "dialog \<Rightarrow> bool \<Rightarrow> device_view \<Rightarrow> device_view" where
  "set_dialog k b s =
     (case k of
        DlShareChoice \<Rightarrow> s\<lparr>dv_shareChoiceOpen := b\<rparr>
      | DlGuestShare \<Rightarrow> s\<lparr>dv_guestShareOpen := b\<rparr>
      | DlInvite \<Rightarrow> s\<lparr>dv_page := (dv_page s)\<lparr>dt_inviteOpen := b\<rparr>\<rparr>
      | DlEdit \<Rightarrow> s\<lparr>dv_page := (dv_page s)\<lparr>dt_editOpen := b\<rparr>\<rparr>
      | DlDelete \<Rightarrow> s\<lparr>dv_deleteOpen := b\<rparr>)"

datatype view_event =
    DvUrl detail_event
  | DvStream stream_event
  | DvRefresh
  | DvHistory panel_event
  | DvShare
  | DvChooseUser
  | DvChooseGuest
  | DvOpenEdit
  | DvOpenDelete
  | DvOpenInvite
  | DvPickRevoke "device_access_list_item option"
  | DvClose dialog
  | DvStart device_op
  | DvEnd op_outcome

text \<open>The buttons are there while the device is shown; sharing is for its owner.\<close>

fun view_event_step :: "view_env \<Rightarrow> view_event \<Rightarrow> device_view \<Rightarrow> device_view" where
  "view_event_step env (DvUrl e) s =
     (if (case e of SwitchView _ \<Rightarrow> device_shown (dv_page s) | _ \<Rightarrow> True)
      then s\<lparr>dv_page := detail_step e (dv_page s)\<rparr> else s)"
| "view_event_step env (DvStream e) s =
     (if changes_device e then s else s\<lparr>dv_stream := stream_step (ve_stream env) e (dv_stream s)\<rparr>)"
| "view_event_step env DvRefresh s =
     (if device_shown (dv_page s) then s\<lparr>dv_stream := refresh (dt_deviceId (dv_page s)) (dv_stream s)\<rparr> else s)"
| "view_event_step env (DvHistory e) s =
     s\<lparr>dv_history := map_option (panel_step (ve_zone env) (ve_casts env) e) (dv_history s)\<rparr>"
| "view_event_step env DvShare s =
     (if device_shown (dv_page s) \<and> map_option da_access_role (dsv_device (dv_page s)) = Some Owner
      then set_dialog DlShareChoice True s else s)"
| "view_event_step env DvChooseUser s =
     (if device_shown (dv_page s) \<and> dv_shareChoiceOpen s then set_dialog DlInvite True (set_dialog DlShareChoice False s) else s)"
| "view_event_step env DvChooseGuest s =
     (if device_shown (dv_page s) \<and> dv_shareChoiceOpen s then set_dialog DlGuestShare True (set_dialog DlShareChoice False s) else s)"
| "view_event_step env DvOpenEdit s = (if device_shown (dv_page s) then set_dialog DlEdit True s else s)"
| "view_event_step env DvOpenDelete s = (if device_shown (dv_page s) then set_dialog DlDelete True s else s)"
| "view_event_step env DvOpenInvite s =
     (if device_shown (dv_page s) \<and> map_option da_access_role (dsv_device (dv_page s)) = Some Owner
      then set_dialog DlInvite True s else s)"
| "view_event_step env (DvPickRevoke u) s =
     (if device_shown (dv_page s) then s\<lparr>dv_page := (dv_page s)\<lparr>dt_revokeTarget := u\<rparr>\<rparr> else s)"
| "view_event_step env (DvClose k) s = (if device_shown (dv_page s) then set_dialog k False s else s)"
| "view_event_step env (DvStart op) s =
     (if op_offered op s
      then s\<lparr>dv_page := op_begin op (dv_page s), dv_running := Some op,
             dv_stream := (if op = OpReload then refresh (dt_deviceId (dv_page s)) (dv_stream s) else dv_stream s)\<rparr>
      else s)"
| "view_event_step env (DvEnd r) s =
     (case dv_running s of None \<Rightarrow> s | Some op \<Rightarrow> s\<lparr>dv_page := op_end op r (dv_page s), dv_running := None\<rparr>)"

text \<open>After every event the page renders.\<close>

definition view_step :: "view_env \<Rightarrow> real \<Rightarrow> view_event \<Rightarrow> device_view \<Rightarrow> device_view" where
  "view_step env now e s = sync_history env now (view_event_step env e s)"

definition view_run :: "view_env \<Rightarrow> (real \<times> view_event) list \<Rightarrow> device_view \<Rightarrow> device_view" where
  "view_run env es s = foldl (\<lambda>s (now, e). view_step env now e s) s es"

lemma view_run_simps [simp]:
  "view_run env [] s = s" "view_run env ((now, e) # es) s = view_run env es (view_step env now e s)"
  by (simp_all add: view_run_def)

text \<open>Mounting: the URL is read, the stream connects, and the first load starts if there is an id.\<close>

definition view_mount :: "view_env \<Rightarrow> params \<Rightarrow> world \<Rightarrow> device_view" where
  "view_mount env u w =
     (let p = mount_detail u w; has_id = (\<not> no_id (dt_deviceId p))
      in \<lparr>dv_page = (if has_id then op_begin OpLoad p else p),
          dv_stream = stream_step (ve_stream env) (ChangeDevice (dt_deviceId p)) initial_stream,
          dv_history = None, dv_shareChoiceOpen = False, dv_guestShareOpen = False, dv_deleteOpen = False,
          dv_running = (if has_id then Some OpLoad else None)\<rparr>)"

definition view_at :: "view_env \<Rightarrow> params \<Rightarrow> world \<Rightarrow> (real \<times> view_event) list \<Rightarrow> device_view" where
  "view_at env u w es = view_run env es (view_mount env u w)"

section \<open>Operations end\<close>

lemma idle_on_part:
  "dsv_isLoading (snd (on_part detail_hook put_detail_hook m p)) = dsv_isLoading (snd (m (detail_hook p)))"
  by (simp add: detail_hook.on_part_pair)

lemma then_modify:
  fixes m :: "unit detail_act"
  assumes "\<And>q. P (f q) = P q"
  shows "P (snd (io_then m (io_modify f) p)) = P (snd (m p))"
  by (cases "m p"; cases "fst (m p)") (use assms in \<open>simp_all add: io_then_def io_bind_def io_modify_def\<close>)

lemma op_end_idle:
  assumes "op = OpLoad \<or> op = OpReload \<Longrightarrow> \<not> no_id (dt_deviceId p)" "op \<noteq> OpLoad \<and> op \<noteq> OpReload \<Longrightarrow> dsv_device p \<noteq> None"
    "op = OpRevoke \<Longrightarrow> dt_revokeTarget p \<noteq> None"
  shows "\<not> dsv_isLoading (op_end op r p)"
proof (cases op)
  case OpLoad
  then show ?thesis using assms(1)
    by (auto simp: no_id_def load_device_def io_bind_def io_gets_def idle_on_part getDeviceById_idle)
next
  case OpReload
  then show ?thesis using assms(1)
    by (auto simp: no_id_def load_device_def io_bind_def io_gets_def idle_on_part getDeviceById_idle)
next
  case (OpInvite u)
  then obtain d where d: "dsv_device p = Some d" using assms(2) by auto
  have "dsv_isLoading (op_end op r p) =
      dsv_isLoading (snd (on_part detail_hook put_detail_hook (grantAccess (d_id d) u (oo_first r) (oo_detail r)) p))"
    unfolding OpInvite op_end.simps handleInvite_def io_bind_def io_gets_def d
    by (simp, rule then_modify) simp
  then show ?thesis by (simp add: idle_on_part grantAccess_end)
next
  case OpRevoke
  then obtain d v where d: "dsv_device p = Some d" "dt_revokeTarget p = Some v" using assms(2,3) by auto
  have "dsv_isLoading (op_end op r p) =
      dsv_isLoading (snd (on_part detail_hook put_detail_hook (revokeAccess (d_id d) (dal_user_id v) (oo_first r) (oo_detail r)) p))"
    unfolding OpRevoke op_end.simps handleRevoke_def io_bind_def io_gets_def d
    by (simp, rule then_modify) simp
  moreover have "\<not> dsv_isLoading (snd (revokeAccess (d_id d) (dal_user_id v) (oo_first r) (oo_detail r) s))" for s
    unfolding revokeAccess_def service_defs by (intro then_ends_idle) (simp add: ends_idle [unfolded service_defs])
  ultimately show ?thesis by (simp add: idle_on_part)
next
  case (OpEdit i d)
  have "dsv_isLoading (op_end op r p) =
      dsv_isLoading (snd (on_part detail_hook put_detail_hook (updateDevice i d (dsv_device p) (oo_device r)) p))"
    unfolding OpEdit op_end.simps handleEdit_def io_bind_def io_gets_def
    by (simp, rule then_modify) simp
  moreover have "\<not> dsv_isLoading (snd (updateDevice i d c out s))" for c out s
    unfolding updateDevice_def service_defs by (intro then_ends_idle) (simp add: ends_idle [unfolded service_defs])
  ultimately show ?thesis by (simp add: idle_on_part)
next
  case OpDelete
  then obtain d where d: "dsv_device p = Some d" using assms(2) by auto
  have nav: "dsv_isLoading (snd (io_then m goBack p)) = dsv_isLoading (snd (m p))" for m :: "unit detail_act"
    by (cases "m p"; cases "fst (m p)") (simp_all add: goBack_def io_then_def io_bind_def redirectTo_eq navigated_def)
  have "dsv_isLoading (op_end op r p) =
      dsv_isLoading (snd (on_part detail_hook put_detail_hook (deleteDevice (d_id d) (Some d) (oo_first r)) p))"
    unfolding OpDelete op_end.simps handleDelete_def io_bind_def io_gets_def d by (simp add: nav)
  moreover have "\<not> dsv_isLoading (snd (deleteDevice (d_id d) (Some d) (oo_first r) s))" for s
    unfolding deleteDevice_def service_defs by (intro then_ends_idle) (simp add: ends_idle [unfolded service_defs])
  ultimately show ?thesis by (simp add: idle_on_part)
qed

text \<open>What an operation leaves alone: the device id, the view and the entries of the tab.\<close>

definition page_place where
  "page_place p = (dt_deviceId (p :: detail_page), dt_activeView p, dt_historyOpened p, dt_url p, dt_past p, dt_future p)"

lemma page_place_part: "page_place (snd (on_part detail_hook put_detail_hook m p)) = page_place p"
  using detail_hook.on_part_rest [of m p] by (simp add: page_place_def detail_rest_def)

lemma op_end_place: "page_place (op_end op r p) = page_place p"
proof -
  have load: "page_place (snd (load_device out p)) = page_place p" for out
    by (cases "dt_deviceId p") (simp_all add: load_device_def io_bind_def io_gets_def io_return_def page_place_part)
  have close: "page_place (p\<lparr>dt_inviteOpen := b\<rparr>) = page_place p" "page_place (p\<lparr>dt_editOpen := b\<rparr>) = page_place p"
    "page_place (p\<lparr>dt_revokeTarget := v\<rparr>) = page_place p" for p b v
    by (simp_all add: page_place_def)
  have nav: "page_place (snd (io_then m goBack p)) = page_place (snd (m p))" for m :: "unit detail_act"
    by (cases "m p"; cases "fst (m p)") (simp_all add: goBack_def io_then_def io_bind_def redirectTo_eq navigated_def page_place_def)
  show ?thesis
    by (cases op)
      (simp_all add: load handleInvite_def handleRevoke_def handleEdit_def handleDelete_def io_bind_def [of "io_gets f" for f] io_gets_def
        then_modify [of page_place] close nav page_place_part io_return_def split: option.split)
qed

text \<open>Editing keeps the device on the screen, refused or not.\<close>

lemma edit_keeps_device: "dsv_device p \<noteq> None \<Longrightarrow> dsv_device (op_end (OpEdit i d) r p) \<noteq> None"
proof -
  assume dev: "dsv_device p \<noteq> None"
  have "dsv_device (op_end (OpEdit i d) r p) =
      dsv_device (snd (on_part detail_hook put_detail_hook (updateDevice i d (dsv_device p) (oo_device r)) p))"
    unfolding op_end.simps handleEdit_def io_bind_def io_gets_def by (simp, rule then_modify) simp
  moreover have "dsv_device (snd (updateDevice i d (dsv_device p) (oo_device r) (detail_hook p))) \<noteq> None"
    using dev by (cases "oo_device r")
      (auto simp: updateDevice_def io_simps service_defs set_dsv_loading_def split: option.split)
  ultimately show ?thesis by (simp add: detail_hook.on_part_pair)
qed

section \<open>The invariant\<close>

definition op_fits :: "device_op \<Rightarrow> detail_page \<Rightarrow> bool" where
  "op_fits op p \<longleftrightarrow>
     (if op = OpLoad \<or> op = OpReload then \<not> no_id (dt_deviceId p) else dsv_device p \<noteq> None) \<and>
     (op = OpRevoke \<longrightarrow> dt_revokeTarget p \<noteq> None)"

definition run_fits :: "device_op option \<Rightarrow> detail_page \<Rightarrow> bool" where
  "run_fits running p \<longleftrightarrow> (case running of None \<Rightarrow> \<not> dsv_isLoading p | Some op \<Rightarrow> dsv_isLoading p \<and> op_fits op p)"

definition view_inv :: "params \<Rightarrow> device_view \<Rightarrow> bool" where
  "view_inv u s \<longleftrightarrow> detail_inv u (dv_page s) \<and> run_fits (dv_running s) (dv_page s)"

lemma detail_inv_place: "page_place q = page_place p \<Longrightarrow> detail_inv u q = detail_inv u p"
  by (simp add: page_place_def detail_inv_def)

lemma url_step_fields:
  "dsv_isLoading (detail_step e p) = dsv_isLoading p" "dsv_device (detail_step e p) = dsv_device p"
  "dt_revokeTarget (detail_step e p) = dt_revokeTarget p"
  by (cases e; simp add: handleViewChange_def push_state_def syncFromUrl_def Let_def split: list.split prod.split)+

lemma run_fits_url: "detail_inv u p \<Longrightarrow> run_fits running p \<Longrightarrow> run_fits running (detail_step e p)"
proof -
  assume inv: "detail_inv u p" and fits: "run_fits running p"
  have "dt_deviceId (detail_step e p) = dt_deviceId p"
    using inv detail_inv_step [OF inv, of e] by (simp add: detail_inv_def)
  then show ?thesis using fits by (cases running) (simp_all add: run_fits_def op_fits_def url_step_fields)
qed

lemma run_fits_shown: "device_shown p \<Longrightarrow> run_fits running p \<Longrightarrow> running = None"
  by (auto simp: run_fits_def device_shown_def split: option.splits)

lemma begin_fits: "op_offered op s \<Longrightarrow> run_fits (Some op) (op_begin op (dv_page s))"
  by (cases op) (auto simp: run_fits_def op_fits_def op_begin_def device_shown_def)

lemma begin_place: "page_place (op_begin op p) = page_place p"
  by (simp add: op_begin_def page_place_def)

lemma dialog_fields:
  "dv_running (set_dialog k b s) = dv_running s" "dv_stream (set_dialog k b s) = dv_stream s"
  "page_place (dv_page (set_dialog k b s)) = page_place (dv_page s)"
  "dsv_isLoading (dv_page (set_dialog k b s)) = dsv_isLoading (dv_page s)"
  "dsv_device (dv_page (set_dialog k b s)) = dsv_device (dv_page s)"
  by (cases k; simp add: set_dialog_def page_place_def)+

lemma view_inv_dialog: "device_shown (dv_page s) \<Longrightarrow> view_inv u s \<Longrightarrow> view_inv u (set_dialog k b s)"
proof -
  assume "device_shown (dv_page s)" "view_inv u s"
  then have "dv_running s = None" "view_inv u s" using run_fits_shown by (auto simp: view_inv_def)
  then show ?thesis
    using detail_inv_place [OF dialog_fields(3) [of k b s]] by (simp add: view_inv_def run_fits_def dialog_fields)
qed

lemma shown_dialog: "device_shown (dv_page (set_dialog k b s)) = device_shown (dv_page s)"
  using dialog_fields(3) [of k b s] by (simp add: device_shown_def dialog_fields page_place_def)

lemma view_inv_end:
  assumes "view_inv u s" "dv_running s = Some op"
  shows "view_inv u (s\<lparr>dv_page := op_end op r (dv_page s), dv_running := None\<rparr>)"
proof -
  have "op_fits op (dv_page s)" using assms by (simp add: view_inv_def run_fits_def)
  then have "\<not> dsv_isLoading (op_end op r (dv_page s))" by (intro op_end_idle) (auto simp: op_fits_def)
  then show ?thesis
    using assms(1) detail_inv_place [OF op_end_place] by (simp add: view_inv_def run_fits_def)
qed

lemma view_inv_event: "view_inv u s \<Longrightarrow> view_inv u (view_event_step env e s)"
proof (cases e)
  case (DvUrl d)
  assume "view_inv u s"
  then have "view_inv u (s\<lparr>dv_page := detail_step d (dv_page s)\<rparr>)"
    by (simp add: view_inv_def detail_inv_step run_fits_url [of u])
  then show ?thesis using \<open>view_inv u s\<close> by (simp only: DvUrl view_event_step.simps split: if_split) simp
next
  case (DvPickRevoke v)
  assume inv: "view_inv u s"
  have "detail_inv u ((dv_page s)\<lparr>dt_revokeTarget := v\<rparr>) = detail_inv u (dv_page s)"
    by (rule detail_inv_place) (simp add: page_place_def)
  then show ?thesis using inv run_fits_shown [of "dv_page s" "dv_running s"]
    by (auto simp: DvPickRevoke view_inv_def run_fits_def)
next
  case (DvStart op)
  assume inv: "view_inv u s"
  then show ?thesis using begin_fits [of op s] detail_inv_place [OF begin_place]
    by (simp add: DvStart view_inv_def)
next
  case (DvEnd r)
  assume "view_inv u s"
  then show ?thesis using view_inv_end [of u s _ r] by (cases "dv_running s") (simp_all add: DvEnd)
qed (simp_all add: view_inv_dialog shown_dialog view_inv_def [of u "s\<lparr>dv_stream := x\<rparr>" for x] view_inv_def [of u "s\<lparr>dv_history := x\<rparr>" for x],
     simp_all add: view_inv_def)

lemma sync_fields:
  "dv_page (sync_history env now s) = dv_page s" "dv_running (sync_history env now s) = dv_running s"
  "dv_stream (sync_history env now s) = dv_stream s"
  by (simp_all add: sync_history_def)

lemma sync_history_mounted:
  "dv_history (sync_history env now s) \<noteq> None \<longleftrightarrow> device_shown (dv_page s) \<and> dt_historyOpened (dv_page s)"
  by (simp add: sync_history_def split: option.split)

lemma view_inv_step: "view_inv u s \<Longrightarrow> view_inv u (view_step env now e s)"
  using view_inv_event [of u s env e] by (simp add: view_step_def view_inv_def sync_fields)

lemma view_inv_run: "view_inv u s \<Longrightarrow> view_inv u (view_run env es s)"
proof (induction es arbitrary: s)
  case (Cons x es)
  then show ?case by (cases x) (simp add: view_inv_step)
qed simp

lemma view_inv_mount: "view_inv u (view_mount env u w)"
proof -
  have inv: "detail_inv u (mount_detail u w)" by (rule detail_inv_reachable [OF mounted])
  have idle: "\<not> dsv_isLoading (mount_detail u w)"
    by (simp add: mount_detail_def syncFromUrl_def Let_def world.defs)
  show ?thesis
    using inv idle detail_inv_place [OF begin_place, of u OpLoad "mount_detail u w"]
    by (simp add: view_inv_def view_mount_def run_fits_def op_fits_def op_begin_def Let_def)
qed

lemma view_at_inv: "view_inv u (view_at env u w es)"
  unfolding view_at_def by (intro view_inv_run view_inv_mount)

lemma view_at_history:
  "dv_history (view_at env u w es) \<noteq> None \<longleftrightarrow> device_shown (dv_page (view_at env u w es)) \<and> dt_historyOpened (dv_page (view_at env u w es))"
proof (cases es rule: rev_cases)
  case Nil
  have "\<not> device_shown (dv_page (view_mount env u w))"
    by (simp add: view_mount_def mount_detail_def syncFromUrl_def Let_def world.defs device_shown_def op_begin_def)
  then show ?thesis by (simp add: Nil view_at_def) (simp add: view_mount_def Let_def)
next
  case (snoc fs x)
  obtain now e where x: "x = (now, e)" by fastforce
  have "view_at env u w es = view_step env now e (view_at env u w fs)"
    by (simp add: view_at_def view_run_def snoc x)
  then show ?thesis unfolding view_step_def by (simp only: sync_history_mounted sync_fields)
qed

section \<open>Properties\<close>

text \<open>C6: The parts of the device page fit together at any time: the page says that it is loading exactly while one of
  its operations is under way; the device it is about is the one of the address it was opened with, and the
  view is the one of the present address; and the history panel is mounted exactly while the device is
  shown and its history has been opened.\<close>

theorem device_view_consistent:
  "let s = view_at env u w es; p = dv_page s in
     (detail_render t p = ScreenLoading \<longleftrightarrow> dv_running s \<noteq> None) \<and>
     dt_deviceId p = Some (nullish (readDeviceIdFromUrl (params_get ''id'' u)) []) \<and> dt_activeView p = url_view (dt_url p) \<and>
     (dv_history s \<noteq> None \<longleftrightarrow> (\<exists>d. detail_render t p = ScreenDevice d) \<and> dt_historyOpened p)"
proof -
  obtain s where s: "view_at env u w es = s" by simp
  have inv: "detail_inv u (dv_page s)" "run_fits (dv_running s) (dv_page s)"
    using view_at_inv [of u env w es] by (simp_all add: s view_inv_def)
  have "dt_deviceId (dv_page s) \<noteq> None" using inv(1) by (simp add: detail_inv_def)
  then have "detail_render t (dv_page s) = ScreenLoading \<longleftrightarrow> dsv_isLoading (dv_page s)"
    by (auto simp: detail_render_def split: option.split)
  moreover have "dsv_isLoading (dv_page s) \<longleftrightarrow> dv_running s \<noteq> None"
    using inv(2) by (cases "dv_running s") (simp_all add: run_fits_def)
  ultimately show ?thesis
    using inv(1) view_at_history [of env u w es] device_shown_render [of "dv_page s" t] by (simp add: s Let_def detail_inv_def)
qed

text \<open>C39: The device page never loads for ever: however an operation ends, accepted, refused or failed in any of its
  requests, the loading view is gone, and the page shows the device, or that there is none to show, or an
  error with a button that can load it again.\<close>

theorem device_view_settles:
  "let s = view_step env now (DvEnd r) (view_at env u w es) in
     dv_running s = None \<and>
     (case detail_render t (dv_page s) of
        ScreenLoading \<Rightarrow> False
      | ScreenMissing \<Rightarrow> dt_deviceId (dv_page s) = Some []
      | ScreenError _ \<Rightarrow> op_offered OpReload s
      | ScreenDevice d \<Rightarrow> dsv_device (dv_page s) = Some d)"
proof -
  obtain s where s: "view_step env now (DvEnd r) (view_at env u w es) = s" by simp
  have idle: "dv_running s = None"
    using s by (auto simp: view_step_def sync_fields split: option.split)
  have "view_inv u s" using view_inv_step [OF view_at_inv, of u env now "DvEnd r" env w es] by (simp add: s)
  then have "dt_deviceId (dv_page s) \<noteq> None" "\<not> dsv_isLoading (dv_page s)"
    by (simp_all add: view_inv_def run_fits_def idle detail_inv_def)
  then show ?thesis
    by (auto simp: s Let_def idle detail_render_def no_id_def split: option.split)
qed

text \<open>C33: Whatever the page does with its device throws the history panel away. An operation that leaves the device on
  the screen mounts a new panel: its dates, its detective mode, its page and the route on the map are those of
  a first visit, and the history of today is asked for again; and an edit always does so, the refused
  ones included.\<close>

theorem operations_reset_history:
  assumes "op_offered op s" "device_shown (dv_page s)" "dt_historyOpened (dv_page s)"
  shows "let s' = view_step env later (DvEnd r) (view_step env now (DvStart op) s) in
    (if device_shown (dv_page s')
     then dv_history s' = Some (panel_mount (ve_zone env) (ve_casts env) later (ve_timeZone env) (the (dt_deviceId (dv_page s))))
     else \<forall>i d. op \<noteq> OpEdit i d)"
proof -
  let ?s1 = "view_step env now (DvStart op) s" and ?s2 = "view_step env later (DvEnd r) (view_step env now (DvStart op) s)"
  have p1: "dv_page ?s1 = op_begin op (dv_page s)" "dv_running ?s1 = Some op"
    using assms(1) by (simp_all add: view_step_def sync_fields)
  have "\<not> device_shown (op_begin op (dv_page s))" by (simp add: op_begin_def device_shown_def)
  then have h1: "dv_history ?s1 = None"
    using sync_history_mounted [of env now "view_event_step env (DvStart op) s"] p1(1)
    by (simp only: view_step_def sync_fields) blast
  have p2: "dv_page ?s2 = op_end op r (op_begin op (dv_page s))"
    by (simp add: view_step_def [of env later] sync_fields p1)
  have place: "page_place (dv_page ?s2) = page_place (dv_page s)"
    unfolding p2 by (simp only: op_end_place begin_place)
  have h2: "dv_history ?s2 = Some (panel_mount (ve_zone env) (ve_casts env) later (ve_timeZone env) (the (dt_deviceId (dv_page s))))"
    if "device_shown (dv_page ?s2)"
    using that place assms(3) h1 p2
    by (simp add: view_step_def [of env later] sync_history_def p1 page_place_def)
  have edit: "device_shown (dv_page ?s2)" if "op = OpEdit i d" for i d
  proof -
    have "dsv_device (op_begin op (dv_page s)) \<noteq> None" using assms(2) that by (simp add: op_begin_def device_shown_def)
    moreover from this have "\<not> dsv_isLoading (op_end op r (op_begin op (dv_page s)))"
      using that by (intro op_end_idle) auto
    ultimately show ?thesis
      using edit_keeps_device [of "op_begin op (dv_page s)" i d r] assms(2) place
      unfolding p2 by (simp add: device_shown_def page_place_def that)
  qed
  show ?thesis unfolding Let_def using h2 edit by auto
qed

definition plain_view_env :: view_env where
  "plain_view_env =
     \<lparr>ve_zone = \<lparr>lz_parts = (\<lambda>_. \<lparr>lt_year = 2024, lt_month = 1, lt_day = 1, lt_hours = 0, lt_minutes = 0\<rparr>), lz_midnight = id\<rparr>,
      ve_casts = sample_casts, ve_stream = DeviceStream.plain_env, ve_timeZone = ''UTC''\<rparr>"

text \<open>A page on which the owner has opened the edit dialog, over a history panel in the detective mode.\<close>

definition editing_view :: device_view where
  "editing_view =
     \<lparr>dv_page = sample_detail\<lparr>dt_historyOpened := True, dt_editOpen := True\<rparr>, dv_stream = initial_stream,
      dv_history = Some (panel_run (ve_zone plain_view_env) sample_casts [PanelUser ToggleDetective]
        (panel_mount (ve_zone plain_view_env) sample_casts 0 ''UTC'' ''7'')),
      dv_shareChoiceOpen = False, dv_guestShareOpen = False, dv_deleteOpen = False, dv_running = None\<rparr>"

definition refused :: op_outcome where
  "refused = \<lparr>oo_first = Inl Primitive, oo_detail = Inl Primitive, oo_device = Inl Primitive\<rparr>"

theorem operations_reset_history_witness:
  "map_option (\<lambda>h. hp_detectiveMode (pn_page h)) (dv_history editing_view) = Some True \<and>
   map_option (\<lambda>h. hp_detectiveMode (pn_page h)) (dv_history (view_step plain_view_env 2 (DvEnd refused)
     (view_step plain_view_env 1 (DvStart (OpEdit ''7'' \<lparr>udd_name = ''Van'', udd_vehicle_type = None\<rparr>)) editing_view))) = Some False"
proof -
  let ?op = "OpEdit ''7'' \<lparr>udd_name = ''Van'', udd_vehicle_type = None\<rparr>"
  have "\<not> dsv_isLoading sample_detail"
    by (simp add: sample_detail_def mount_detail_def syncFromUrl_def Let_def world.defs)
  then have s: "device_shown (dv_page editing_view)" "dt_historyOpened (dv_page editing_view)" "op_offered ?op editing_view"
    by (simp_all add: editing_view_def device_shown_def no_id_def sample_detail_simps)
  have mounted: "hp_detectiveMode (pn_page (panel_mount z c now tz d)) = False" for z c now tz d
    by (simp add: panel_mount_def panel_start_def with_errors_def openHistory_def history_request_def Let_def)
  have before: "map_option (\<lambda>h. hp_detectiveMode (pn_page h)) (dv_history editing_view) = Some True"
    by (simp add: editing_view_def with_errors_def handleDetectiveToggle_def route_request_def mounted Let_def)
  from operations_reset_history [OF s(3,1,2), of plain_view_env 2 refused 1]
  have "dv_history (view_step plain_view_env 2 (DvEnd refused) (view_step plain_view_env 1 (DvStart ?op) editing_view)) =
      Some (panel_mount (ve_zone plain_view_env) (ve_casts plain_view_env) 2 (ve_timeZone plain_view_env)
        (the (dt_deviceId (dv_page editing_view))))"
    by (auto simp: Let_def split: if_splits)
  then show ?thesis using before by (simp only: option.map mounted)
qed

section \<open>What the page hands to the map\<close>

definition view_latest :: "device_view \<Rightarrow> location_point option" where
  "view_latest s = Option.bind (ll_snapshot (st_live (dv_stream s))) ls_location"

definition view_status :: "device_strings \<Rightarrow> device_view \<Rightarrow> device_status option" where
  "view_status ds s =
     map_option (\<lambda>_. deviceStatusFromPresence
       (case ll_snapshot (st_live (dv_stream s)) of None \<Rightarrow> NeverSeen | Some n \<Rightarrow> dp_state (ls_presence n)) ds)
     (dsv_device (dv_page s))"

definition view_alert :: "string \<Rightarrow> device_view \<Rightarrow> string option" where
  "view_alert failedToLoad s =
     (case (dsv_error (dv_page s), st_error (dv_stream s)) of
        (Some e, _) \<Rightarrow> Some (err_message e)
      | (None, Some e) \<Rightarrow> Some (err_message e)
      | (None, None) \<Rightarrow> None)"

text \<open>The route that the mounted panel reports, with its style; the map gets it in the history view only.\<close>

definition panel_route ::
  "(string \<Rightarrow> number) \<Rightarrow> real \<Rightarrow> device_view \<Rightarrow> location_point list list \<times> route_style" where
  "panel_route getTime now s =
     (case dv_history s of
        None \<Rightarrow> ([], LineStyle)
      | Some h \<Rightarrow> (routeSegments getTime (hp_routeStyle (pn_page h))
          (routePath getTime now (pn_page h) (view_latest s) (ll_route (st_live (dv_stream s))) (lsv_route (pn_locations h))
             (lsv_history (pn_locations h))), hp_routeStyle (pn_page h)))"

definition view_map :: "(string \<Rightarrow> number) \<Rightarrow> real \<Rightarrow> device_strings \<Rightarrow> device_view \<Rightarrow> map_props" where
  "view_map getTime now ds s =
     \<lparr>mp_location = view_latest s,
      mp_segments = (if dt_activeView (dv_page s) = HistoryView then fst (panel_route getTime now s) else []),
      mp_style = snd (panel_route getTime now s), mp_displayStatus = view_status ds s\<rparr>"

text \<open>The map of the device page shows what the rest of the page shows: in the overview no route; in the history
  view, from its first moment until the detective mode is switched on, none either; a marker exactly
  when the stream has a position; and a route in the colour of a connected device exactly when the stream
  says that the device is online.\<close>

theorem device_map_follows_page:
  assumes "dsv_device (dv_page s) \<noteq> None"
  shows "(dt_activeView (dv_page s) = Overview \<longrightarrow> map_sources env ds (view_map getTime now ds s) = []) \<and>
    map_sources env ds (view_map getTime now ds (s\<lparr>dv_history := Some (panel_mount z c t0 tz d)\<rparr>)) = [] \<and>
    (map_marker env ds (view_map getTime now ds s) \<noteq> None \<longleftrightarrow> view_latest s \<noteq> None) \<and>
    (routeColor env ds (view_map getTime now ds s) = ROUTE_COLOR_ONLINE \<longleftrightarrow>
       map_option (\<lambda>n. dp_state (ls_presence n)) (ll_snapshot (st_live (dv_stream s))) \<in> {Some OnlineMoving, Some OnlineStationary})"
proof -
  have no_route: "map_sources env ds p = []" if "mp_segments p = []" for p
    using that by (simp add: map_sources_def allPoints_def processed_segments_def)
  have fresh: "routeSegments getTime st (routePath getTime now (pn_page (panel_mount z c t0 tz d)) l lv r h) = []" for st l lv r h
    by (simp add: panel_mount_def panel_start_def with_errors_def openHistory_def history_request_def Let_def routePath_def
        routeSegments_def splitLocationRoute_def)
  have status: "map_status env ds (view_map getTime now ds s) = deviceStatusFromPresence
      (case ll_snapshot (st_live (dv_stream s)) of None \<Rightarrow> NeverSeen | Some n \<Rightarrow> dp_state (ls_presence n)) ds"
    using assms by (auto simp: map_status_def view_map_def view_status_def)
  have online: "dst_key (deviceStatusFromPresence ps ds) = StOnline \<longleftrightarrow> ps = OnlineMoving \<or> ps = OnlineStationary" for ps
    by (cases ps) (simp_all add: deviceStatusFromPresence_def)
  have "mp_segments (view_map getTime now ds (s\<lparr>dv_history := Some (panel_mount z c t0 tz d)\<rparr>)) = []"
    by (simp add: view_map_def panel_route_def fresh)
  note parts = no_route [OF this]
  have overview: "map_sources env ds (view_map getTime now ds s) = []" if "dt_activeView (dv_page s) = Overview"
  proof -
    have "mp_segments (view_map getTime now ds s) = []" using that by (simp add: view_map_def)
    from no_route [OF this] show ?thesis .
  qed
  have marker: "map_marker env ds (view_map getTime now ds s) \<noteq> None \<longleftrightarrow> view_latest s \<noteq> None"
    by (simp add: map_marker_def view_map_def)
  have colour: "routeColor env ds (view_map getTime now ds s) = ROUTE_COLOR_ONLINE \<longleftrightarrow>
       map_option (\<lambda>n. dp_state (ls_presence n)) (ll_snapshot (st_live (dv_stream s))) \<in> {Some OnlineMoving, Some OnlineStationary}"
    by (auto simp: routeColor_def status online ROUTE_COLOR_ONLINE_def ROUTE_COLOR_OFFLINE_def split: option.split)
  show ?thesis using parts overview marker colour by blast
qed

theorem device_map_follows_page_witness:
  "map_sources DeviceCards.plain_env sample_strings (view_map (\<lambda>_. Fin 0) 0 sample_strings editing_view) = [] \<and>
   routeColor DeviceCards.plain_env sample_strings (view_map (\<lambda>_. Fin 0) 0 sample_strings editing_view) \<noteq> ROUTE_COLOR_ONLINE"
proof -
  have s: "dsv_device (dv_page editing_view) \<noteq> None" "dt_activeView (dv_page editing_view) = Overview"
    "ll_snapshot (st_live (dv_stream editing_view)) = None"
    by (simp_all add: editing_view_def sample_detail_simps initial_stream_def EMPTY_LIVE_LOCATION_STATE_def)
      (simp add: sample_detail_def mount_detail_def syncFromUrl_def url_view_def params_get_def Let_def world.defs)
  from device_map_follows_page [OF s(1)] show ?thesis using s(2,3) by auto
qed

end
