(* ===== verification/FormViews.thy ===== *)
theory FormViews
  imports Forms RouteGates
begin

text \<open>
  The account forms on the page (\<open>components/react/form\<close>): what their fields, alerts and buttons show, and
  their requests in two steps, the press that sends one and the answer that settles it, so that fields
  can be edited and buttons pressed in between. The contract that a form waits for one answer at a
  time is the locale \<open>single_request\<close>; four forms keep it by their own loading flag, the sign-up form only
  by the gate around it.
\<close>

section \<open>A form with a request\<close>

text \<open>
  The loading flag of a form, whether its button takes a press, the handler up to its \<open>await\<close> (the value it
  captured for the request, if it makes one), the handler from the answer on, and the edits of the fields.
\<close>

record ('w, 'c, 'o, 'e) form_code =
  fc_loading :: "'w \<Rightarrow> bool"
  fc_disabled :: "'w \<Rightarrow> bool"
  fc_press :: "'w \<Rightarrow> 'c option \<times> 'w"
  fc_answer :: "'c \<Rightarrow> 'o \<Rightarrow> 'w \<Rightarrow> 'w"
  fc_edit :: "'e \<Rightarrow> 'w \<Rightarrow> 'w"

record ('w, 'c) form_page =
  fg_form :: 'w
  fg_waiting :: "'c list"

datatype ('o, 'e) form_event = Press | Answer nat 'o | Edit 'e

fun form_step :: "('w, 'c, 'o, 'e) form_code \<Rightarrow> ('o, 'e) form_event \<Rightarrow> ('w, 'c) form_page \<Rightarrow> ('w, 'c) form_page" where
  "form_step f Press p =
     (if fc_disabled f (fg_form p) then p
      else case fc_press f (fg_form p) of
        (None, w) \<Rightarrow> p\<lparr>fg_form := w\<rparr>
      | (Some c, w) \<Rightarrow> p\<lparr>fg_form := w, fg_waiting := fg_waiting p @ [c]\<rparr>)"
| "form_step f (Answer n out) p =
     (if n < length (fg_waiting p)
      then p\<lparr>fg_form := fc_answer f (fg_waiting p ! n) out (fg_form p),
             fg_waiting := take n (fg_waiting p) @ drop (Suc n) (fg_waiting p)\<rparr>
      else p)"
| "form_step f (Edit e) p = p\<lparr>fg_form := fc_edit f e (fg_form p)\<rparr>"

definition form_run :: "('w, 'c, 'o, 'e) form_code \<Rightarrow> ('o, 'e) form_event list \<Rightarrow> ('w, 'c) form_page \<Rightarrow> ('w, 'c) form_page" where
  "form_run f es p = foldl (\<lambda>p e. form_step f e p) p es"

definition mounted :: "'w \<Rightarrow> ('w, 'c) form_page" where
  "mounted w = \<lparr>fg_form = w, fg_waiting = []\<rparr>"

lemma form_run_simps [simp]:
  "form_run f [] p = p" "form_run f (e # es) p = form_run f es (form_step f e p)"
  "form_run f (es @ [e]) p = form_step f e (form_run f es p)"
  by (simp_all add: form_run_def)

lemma mounted_simps [simp]: "fg_form (mounted w) = w" "fg_waiting (mounted w) = []"
  by (simp_all add: mounted_def)

text \<open>The answers a form waits for: one while it is loading, none otherwise.\<close>

definition awaits :: "('w, 'c, 'o, 'e) form_code \<Rightarrow> ('w, 'c) form_page \<Rightarrow> bool" where
  "awaits f p \<longleftrightarrow> length (fg_waiting p) = (if fc_loading f (fg_form p) then 1 else 0)"

locale single_request =
  fixes f :: "('w, 'c, 'o, 'e) form_code"
  assumes loading_disables: "fc_loading f w \<Longrightarrow> fc_disabled f w"
    and press_loads: "\<not> fc_disabled f w \<Longrightarrow> fc_loading f (snd (fc_press f w)) \<longleftrightarrow> fst (fc_press f w) \<noteq> None"
    and answer_ends: "\<not> fc_loading f (fc_answer f c out w)"
    and edit_keeps: "fc_loading f (fc_edit f e w) = fc_loading f w"
begin

lemma awaits_step: "awaits f p \<Longrightarrow> awaits f (form_step f e p)"
proof (cases e)
  case Press
  assume p: "awaits f p"
  show ?thesis
  proof (cases "fc_disabled f (fg_form p)")
    case False
    then have "fg_waiting p = []" using p loading_disables [of "fg_form p"] by (auto simp: awaits_def split: if_splits)
    then show ?thesis
      using press_loads [OF False] False Press
      by (cases "fc_press f (fg_form p)"; cases "fst (fc_press f (fg_form p))") (auto simp: awaits_def)
  qed (use p Press in simp)
next
  case (Answer n out)
  assume p: "awaits f p"
  then have "length (fg_waiting p) \<le> 1" by (simp add: awaits_def split: if_splits)
  with p Answer show ?thesis by (auto simp: awaits_def answer_ends)
qed (simp add: awaits_def edit_keeps)

lemma awaits_run: "awaits f p \<Longrightarrow> awaits f (form_run f es p)"
  by (induction es arbitrary: p) (simp_all add: awaits_step)

lemma mounted_awaits: "\<not> fc_loading f w \<Longrightarrow> awaits f (form_run f es (mounted w))"
  by (rule awaits_run) (simp add: awaits_def)

text \<open>As soon as the answer is there, whatever it is, the form takes presses again.\<close>

lemma answered_idle:
  "\<not> fc_loading f w \<Longrightarrow> fg_waiting (form_run f es (mounted w)) \<noteq> [] \<Longrightarrow>
   \<not> fc_loading f (fg_form (form_run f (es @ [Answer 0 out]) (mounted w)))"
  by (simp add: answer_ends)

end

section \<open>Fields, alerts and buttons\<close>

text \<open>\<open>{err && <Alert title={err} />}\<close>: nothing for an empty text either.\<close>

definition alert_of :: "string option \<Rightarrow> string option" where
  "alert_of err = (if err = Some [] then None else err)"

text \<open>\<open>Field\<close>: under its control the error, or else the help.\<close>

datatype field_note = FieldPlain | FieldHelp string | FieldError string

definition field_note :: "string option \<Rightarrow> string option \<Rightarrow> field_note" where
  "field_note help error =
     (case alert_of error of
        Some m \<Rightarrow> FieldError m
      | None \<Rightarrow> (case alert_of help of Some m \<Rightarrow> FieldHelp m | None \<Rightarrow> FieldPlain))"

record field_view =
  fi_value :: string
  fi_invalid :: bool
  fi_note :: field_note

text \<open>\<open>Button\<close>: disabled while loading, with a spinner.\<close>

record button_view =
  bv_label :: string
  bv_disabled :: bool
  bv_busy :: bool

definition submit_button :: "bool \<Rightarrow> bool \<Rightarrow> string \<Rightarrow> button_view" where
  "submit_button disabled loading label = \<lparr>bv_label = label, bv_disabled = disabled \<or> loading, bv_busy = loading\<rparr>"

record form_view =
  fv_alert :: "string option"
  fv_fields :: "field_view list"
  fv_button :: button_view

text \<open>The password field: its type and the label of the eye button, which toggles \<open>show\<close>.\<close>

definition password_input :: "string \<Rightarrow> string \<Rightarrow> bool \<Rightarrow> string \<times> string" where
  "password_input showLabel hideLabel visible = (if visible then (''text'', hideLabel) else (''password'', showLabel))"

text \<open>The strength meter: its level and \<open>labels[lvl]\<close>.\<close>

definition strength_meter :: "string list \<Rightarrow> string \<Rightarrow> nat \<times> string option" where
  "strength_meter labels v = (let lvl = strengthScore v in (lvl, if lvl < length labels then Some (labels ! lvl) else None))"

text \<open>With its five labels the meter always has one to show, and it warns exactly where the forms refuse: below
  the third.\<close>

lemma strength_meter_labelled:
  "length labels = 5 \<Longrightarrow> snd (strength_meter labels v) = Some (labels ! strengthScore v)"
  using strengthScore_bounded_monotone [of v "[]"] by (simp add: strength_meter_def Let_def)

text \<open>What an awaited call does once its outcome is there.\<close>

definition answered :: "(thrown + 'a) \<Rightarrow> ('z, 'a) act" where
  "answered out w = (out, w)"

text \<open>The rest of \<open>signIn\<close> and \<open>signUp\<close> after the answer.\<close>

definition session_answered :: "string \<Rightarrow> (thrown + auth_session fetch_result) \<Rightarrow> ('z, unit) act" where
  "session_answered empty_message out =
     io_bind (withApiErrorToast (answered out) True) (\<lambda>r.
       case fr_data r of
         None \<Rightarrow> reportEmptyResponse empty_message True
       | Some s \<Rightarrow> io_then (setUser (as_user s)) (redirectTo REDIRECT_AFTER_AUTH))"

lemmas answer_simps = session_answered_def answered_def withApiErrorToast_def io_unfold Let_def

section \<open>Sign-in\<close>

definition login_press :: "login_strings \<Rightarrow> login_form \<Rightarrow> sign_in_credentials option \<times> login_form" where
  "login_press t w =
     (if lf_email w = [] \<or> lf_password w = [] then (None, w\<lparr>lf_err := Some (ls_emailPasswordRequired t)\<rparr>)
      else (let c = \<lparr>si_email = trim (lf_email w), si_password = lf_password w\<rparr>
            in (Some c, w\<lparr>lf_err := None, asv_isLoading := True, w_sent := w_sent w @ [signIn_request c]\<rparr>)))"

definition login_answer :: "login_strings \<Rightarrow> (thrown + auth_session fetch_result) \<Rightarrow> login_form \<Rightarrow> login_form" where
  "login_answer t out w =
     snd (io_catch
       (io_finally (session_answered ''sign-in returned an empty response'' out) (io_modify (set_asv_loading False)))
       (\<lambda>e. io_modify (\<lambda>w. w\<lparr>lf_err := Some (form_message (ls_loginFailed t) e)\<rparr>)) w)"

lemma login_in_two_steps:
  "snd (handleSubmit t out w) = (case login_press t w of (None, w') \<Rightarrow> w' | (Some c, w') \<Rightarrow> login_answer t out w')"
  by (cases out) (simp_all add: handleSubmit_def login_press_def login_answer_def signIn_def set_asv_loading_def answer_simps)

datatype login_edit = LoginEmail string | LoginPassword string

fun login_typed :: "login_edit \<Rightarrow> login_form \<Rightarrow> login_form" where
  "login_typed (LoginEmail v) w = w\<lparr>lf_email := v\<rparr>"
| "login_typed (LoginPassword v) w = w\<lparr>lf_password := v\<rparr>"

definition login_code ::
  "login_strings \<Rightarrow> (login_form, sign_in_credentials, thrown + auth_session fetch_result, login_edit) form_code" where
  "login_code t = \<lparr>fc_loading = asv_isLoading, fc_disabled = asv_isLoading, fc_press = login_press t,
     fc_answer = (\<lambda>c. login_answer t), fc_edit = login_typed\<rparr>"

record login_labels =
  ll_login :: string
  ll_loggingIn :: string

definition login_button :: "login_labels \<Rightarrow> login_form \<Rightarrow> button_view" where
  "login_button l w =
     submit_button (asv_isLoading w) (asv_isLoading w) (if asv_isLoading w then ll_loggingIn l else ll_login l)"

definition login_view :: "login_labels \<Rightarrow> login_form \<Rightarrow> form_view" where
  "login_view l w =
     \<lparr>fv_alert = alert_of (lf_err w),
      fv_fields =
        [\<lparr>fi_value = lf_email w, fi_invalid = (alert_of (lf_err w) \<noteq> None \<and> lf_email w = []), fi_note = FieldPlain\<rparr>,
         \<lparr>fi_value = lf_password w, fi_invalid = (alert_of (lf_err w) \<noteq> None \<and> lf_password w = []), fi_note = FieldPlain\<rparr>],
      fv_button = login_button l w\<rparr>"

text \<open>The link to the recovery, and the button for an account at Google: of this form it is always disabled.\<close>

definition forgot_link :: "('z, unit) act" where
  "forgot_link = redirectTo ''/forgot-password''"

definition google_pressed :: "bool \<Rightarrow> string option" where
  "google_pressed disabled = (if disabled then None else Some ''/api/auth/oauth2/authorize/google'')"

definition login_google :: "string option" where
  "login_google = google_pressed True"

text \<open>\<open>useState(firstUser ? 'admin@open-gps.local' : '')\<close> and the other initial values, over the page's state.\<close>

definition login_mount :: "bool \<Rightarrow> world \<Rightarrow> login_form" where
  "login_mount firstUser w =
     auth_service.extend (world.extend w (auth_service.fields False))
       (login_form.fields (if firstUser then ''admin@open-gps.local'' else []) [] None)"

section \<open>Sign-up\<close>

definition signup_press :: "signup_strings \<Rightarrow> signup_form \<Rightarrow> sign_up_credentials option \<times> signup_form" where
  "signup_press t w =
     (let refuse = (\<lambda>m. (None, w\<lparr>sf_err := Some m\<rparr>))
      in if sf_email w = [] \<or> sf_pw w = [] then refuse (ss_emailPasswordRequired t)
         else if mismatch (sf_pw w) (sf_pw2 w) then refuse (ss_passwordsDoNotMatch t)
         else if \<not> sf_terms w then refuse (ss_acceptTerms t)
         else if strengthScore (sf_pw w) < 2 then refuse (ss_pickStrongerPassword t)
         else (let c = \<lparr>su_email = trim (sf_email w), su_password = sf_pw w, su_name = trim (sf_name w)\<rparr>
               in (Some c, (on_auth (\<lambda>a. a\<lparr>a_isAuthLoading := True\<rparr>) (w\<lparr>sf_err := None\<rparr>))
                     \<lparr>w_sent := w_sent w @ [signUp_request c]\<rparr>)))"

definition signup_answer :: "signup_strings \<Rightarrow> (thrown + auth_session fetch_result) \<Rightarrow> signup_form \<Rightarrow> signup_form" where
  "signup_answer t out w =
     snd (io_catch
       (io_finally (session_answered ''sign-up returned an empty response'' out) (setAuthLoading False))
       (\<lambda>e. io_modify (\<lambda>w. w\<lparr>sf_err := Some (form_message (ss_signupFailed t) e)\<rparr>)) w)"

lemma signup_in_two_steps:
  "snd (submit_signup t out w) = (case signup_press t w of (None, w') \<Rightarrow> w' | (Some c, w') \<Rightarrow> signup_answer t out w')"
  by (cases out) (simp_all add: submit_signup_def signup_press_def signup_answer_def signUp_def answer_simps setAuthLoading_def on_auth_def
      set_auth_loading_def)

datatype signup_edit = SignupName string | SignupEmail string | SignupPw string | SignupPw2 string | SignupTerms bool

fun signup_typed :: "signup_edit \<Rightarrow> signup_form \<Rightarrow> signup_form" where
  "signup_typed (SignupName v) w = w\<lparr>sf_name := v\<rparr>"
| "signup_typed (SignupEmail v) w = w\<lparr>sf_email := v\<rparr>"
| "signup_typed (SignupPw v) w = w\<lparr>sf_pw := v\<rparr>"
| "signup_typed (SignupPw2 v) w = w\<lparr>sf_pw2 := v\<rparr>"
| "signup_typed (SignupTerms v) w = w\<lparr>sf_terms := v\<rparr>"

text \<open>
  The button is disabled by the \<open>isLoading\<close> of the hook, but \<open>signUp\<close> sets the loading flag of the store
  instead. That flag is the one of the gate of the page, which shows its fallback in place of the form. So the
  form alone, and the form where the gate has it on the page:
\<close>

definition signup_code ::
  "signup_strings \<Rightarrow> (signup_form, sign_up_credentials, thrown + auth_session fetch_result, signup_edit) form_code" where
  "signup_code t = \<lparr>fc_loading = asv_isLoading, fc_disabled = asv_isLoading, fc_press = signup_press t,
     fc_answer = (\<lambda>c. signup_answer t), fc_edit = signup_typed\<rparr>"

definition gated_signup_code ::
  "bootstrap_status option \<Rightarrow> signup_strings \<Rightarrow>
   (signup_form, sign_up_credentials, thrown + auth_session fetch_result, signup_edit) form_code" where
  "gated_signup_code st t = (signup_code t)
     \<lparr>fc_loading := (\<lambda>w. a_isAuthLoading (w_auth w)),
      fc_disabled := (\<lambda>w. public_render False (w_auth w) st \<noteq> ShowChildren \<or> asv_isLoading w)\<rparr>"

record signup_labels =
  sl_firstAdminWelcome :: string
  sl_createAccountBadge :: string
  sl_nameHelp :: string
  sl_passwordHelp :: string
  sl_signup :: string
  sl_creatingAccount :: string

definition signup_badge :: "signup_labels \<Rightarrow> bool \<Rightarrow> string" where
  "signup_badge l firstUser = (if firstUser then sl_firstAdminWelcome l else sl_createAccountBadge l)"

definition confirm_field :: "string \<Rightarrow> string \<Rightarrow> string \<Rightarrow> field_view" where
  "confirm_field text password confirm =
     \<lparr>fi_value = confirm, fi_invalid = mismatch password confirm,
      fi_note = field_note None (if mismatch password confirm then Some text else None)\<rparr>"

definition signup_button :: "signup_labels \<Rightarrow> signup_form \<Rightarrow> button_view" where
  "signup_button l w =
     submit_button (asv_isLoading w) (asv_isLoading w) (if asv_isLoading w then sl_creatingAccount l else sl_signup l)"

definition signup_google :: "string option" where
  "signup_google = google_pressed False"

definition signup_view :: "signup_strings \<Rightarrow> signup_labels \<Rightarrow> signup_form \<Rightarrow> form_view" where
  "signup_view t l w =
     \<lparr>fv_alert = alert_of (sf_err w),
      fv_fields =
        [\<lparr>fi_value = sf_name w, fi_invalid = False, fi_note = field_note (Some (sl_nameHelp l)) None\<rparr>,
         \<lparr>fi_value = sf_email w, fi_invalid = (alert_of (sf_err w) \<noteq> None \<and> sf_email w = []), fi_note = FieldPlain\<rparr>,
         \<lparr>fi_value = sf_pw w, fi_invalid = False,
          fi_note = field_note (if sf_pw w = [] then Some (sl_passwordHelp l) else None) None\<rparr>,
         confirm_field (ss_passwordsDoNotMatch t) (sf_pw w) (sf_pw2 w)],
      fv_button = signup_button l w\<rparr>"

definition signup_mount :: "world \<Rightarrow> signup_form" where
  "signup_mount w =
     auth_service.extend (world.extend w (auth_service.fields False)) (signup_form.fields [] [] [] [] False None)"

section \<open>The password reset\<close>

definition reset_press :: "reset_form \<Rightarrow> consume_password_recovery_dto option \<times> reset_form" where
  "reset_press w =
     (let refuse = (\<lambda>e. (None, w\<lparr>rf_error := Some e\<rparr>))
      in if rf_token w = [] then refuse ErrMissing
         else if rf_password w = [] \<or> rf_confirm w = [] then refuse ErrRequired
         else if mismatch (rf_password w) (rf_confirm w) then refuse ErrMismatch
         else if strengthScore (rf_password w) < 2 then refuse ErrWeak
         else (Some \<lparr>cpr_token = rf_token w, cpr_new_password = rf_password w\<rparr>,
               w\<lparr>rf_error := None, rf_loading := True, w_sent := w_sent w @ [consume_request (rf_token w) (rf_password w)]\<rparr>))"

definition reset_answer :: "(thrown + bool envelope fetch_result) \<Rightarrow> reset_form \<Rightarrow> reset_form" where
  "reset_answer out w =
     snd (io_finally
       (io_catch
         (io_then (withApiErrorToast (answered out) True) (io_modify (\<lambda>w. w\<lparr>rf_success := True\<rparr>)))
         (\<lambda>caught. io_modify (\<lambda>w. w\<lparr>rf_error := Some (if isApiError caught \<and> err_status (the_api_error caught) \<noteq> 400
                                                      then ErrGeneric else ErrInvalid)\<rparr>)))
       (io_modify (\<lambda>w. w\<lparr>rf_loading := False\<rparr>)) w)"

lemma reset_in_two_steps:
  "snd (submit_reset out w) = (case reset_press w of (None, w') \<Rightarrow> w' | (Some c, w') \<Rightarrow> reset_answer out w')"
  by (cases out) (simp_all add: submit_reset_def reset_press_def reset_answer_def consumePasswordRecovery_def consume_request_def
      answer_simps io_simps form_defs)

datatype reset_edit = ResetPassword string | ResetConfirm string

fun reset_typed :: "reset_edit \<Rightarrow> reset_form \<Rightarrow> reset_form" where
  "reset_typed (ResetPassword v) w = w\<lparr>rf_password := v\<rparr>"
| "reset_typed (ResetConfirm v) w = w\<lparr>rf_confirm := v\<rparr>"

definition reset_code ::
  "(reset_form, consume_password_recovery_dto, thrown + bool envelope fetch_result, reset_edit) form_code" where
  "reset_code = \<lparr>fc_loading = rf_loading, fc_disabled = (\<lambda>w. rf_loading w \<or> reset_render w \<noteq> ResetFields),
     fc_press = reset_press, fc_answer = (\<lambda>c. reset_answer), fc_edit = reset_typed\<rparr>"

record reset_texts =
  rt_invalidTokenTitle :: string
  rt_invalidTokenMessage :: string
  rt_missingTokenTitle :: string
  rt_missingTokenMessage :: string
  rt_passwordsDoNotMatch :: string
  rt_pickStrongerPassword :: string
  rt_passwordRequired :: string
  rt_resetFailed :: string
  rt_passwordHelp :: string
  rt_submit :: string
  rt_submitting :: string
  rt_successTitle :: string
  rt_successMessage :: string
  rt_backToLogin :: string

text \<open>The title and the message of the alert.\<close>

definition reset_alert :: "reset_texts \<Rightarrow> reset_error \<Rightarrow> string \<times> string option" where
  "reset_alert t e =
     (if e = ErrInvalid then rt_invalidTokenTitle t
      else if e = ErrMissing then rt_missingTokenTitle t
      else if e = ErrMismatch then rt_passwordsDoNotMatch t
      else if e = ErrWeak then rt_pickStrongerPassword t
      else if e = ErrRequired then rt_passwordRequired t
      else rt_resetFailed t,
      if e = ErrInvalid then Some (rt_invalidTokenMessage t)
      else if e = ErrMissing then Some (rt_missingTokenMessage t) else None)"

definition new_password_field :: "string \<Rightarrow> bool \<Rightarrow> string \<Rightarrow> field_view" where
  "new_password_field help invalid v =
     \<lparr>fi_value = v, fi_invalid = invalid, fi_note = field_note (if v = [] then Some help else None) None\<rparr>"

definition reset_button :: "reset_texts \<Rightarrow> reset_form \<Rightarrow> button_view" where
  "reset_button t w = submit_button (rf_loading w) (rf_loading w) (if rf_loading w then rt_submitting t else rt_submit t)"

text \<open>What stands in place of the fields: a title, a message and a link, labelled as one back to the login.\<close>

definition reset_notice :: "reset_texts \<Rightarrow> language \<Rightarrow> reset_form \<Rightarrow> (string \<times> string \<times> (string \<times> string) option) option" where
  "reset_notice t loc w =
     (case reset_render w of
        ResetDone \<Rightarrow> Some (rt_successTitle t, rt_successMessage t, None)
      | ResetNoToken \<Rightarrow> Some (rt_missingTokenTitle t, rt_missingTokenMessage t,
          Some (rt_backToLogin t, ''/'' @ language_str loc @ ''/forgot-password''))
      | ResetFields \<Rightarrow> None)"

definition reset_fields :: "reset_texts \<Rightarrow> reset_form \<Rightarrow> form_view" where
  "reset_fields t w =
     \<lparr>fv_alert = map_option (fst \<circ> reset_alert t) (rf_error w),
      fv_fields = [new_password_field (rt_passwordHelp t) False (rf_password w),
                   confirm_field (rt_passwordsDoNotMatch t) (rf_password w) (rf_confirm w)],
      fv_button = reset_button t w\<rparr>"

text \<open>The page of a link with the given \<open>token\<close> parameter, after the effect that reads it.\<close>

definition reset_mount :: "string option \<Rightarrow> world \<Rightarrow> reset_form" where
  "reset_mount tok w =
     read_token tok (auth_service.extend (world.extend w (auth_service.fields False))
       (reset_form.fields [] False [] [] False None False))"

section \<open>The password change\<close>

definition change_press :: "change_strings \<Rightarrow> change_form \<Rightarrow> change_password_dto option \<times> change_form" where
  "change_press t w =
     (let refuse = (\<lambda>m. (None, w\<lparr>cf_err := Some m\<rparr>))
      in if cf_current w = [] \<or> cf_next w = [] \<or> cf_confirm w = [] then refuse (cs_passwordRequired t)
         else if mismatch (cf_next w) (cf_confirm w) then refuse (cs_passwordsDoNotMatch t)
         else if strengthScore (cf_next w) < 2 then refuse (cs_pickStrongerPassword t)
         else (let p = \<lparr>cp_old_password = cf_current w, cp_new_password = cf_next w\<rparr>
               in (Some p, w\<lparr>cf_err := None, cf_loading := True,
                    w_sent := w_sent w @ [(mk_request ApiClient POST ''/auth/change-password'')
                      \<lparr>rq_body := Some (JObject [(''old_password'', JString (cp_old_password p)),
                                                 (''new_password'', JString (cp_new_password p))])\<rparr>]\<rparr>)))"

text \<open>Both awaits of \<open>changePassword\<close>, the second one the profile's, end with the answer.\<close>

definition change_answer ::
  "change_strings \<Rightarrow> (thrown + bool envelope fetch_result) \<times> (thrown + user envelope fetch_result) \<Rightarrow> change_form \<Rightarrow> change_form" where
  "change_answer t out w =
     snd (io_finally
       (io_catch
         (io_then
           (io_bind (withApiErrorToast (answered (fst out)) True) (\<lambda>_. io_bind (fetchProfile (snd out)) (\<lambda>_. io_return ())))
           (io_modify (\<lambda>w. w\<lparr>cf_closed := True\<rparr>)))
         (\<lambda>e. io_modify (\<lambda>w. w\<lparr>cf_err := Some (form_message (cs_errorGeneric t) e)\<rparr>)))
       (io_modify (\<lambda>w. w\<lparr>cf_loading := False\<rparr>)) w)"

lemma change_in_two_steps:
  "snd (submit_change t out out_profile w) =
     (case change_press t w of (None, w') \<Rightarrow> w' | (Some c, w') \<Rightarrow> change_answer t (out, out_profile) w')"
  by (cases out) (simp_all add: submit_change_def change_press_def change_answer_def changePassword_def answer_simps io_simps form_defs)

datatype change_edit = ChangeCurrent string | ChangeNext string | ChangeConfirm string

fun change_typed :: "change_edit \<Rightarrow> change_form \<Rightarrow> change_form" where
  "change_typed (ChangeCurrent v) w = w\<lparr>cf_current := v\<rparr>"
| "change_typed (ChangeNext v) w = w\<lparr>cf_next := v\<rparr>"
| "change_typed (ChangeConfirm v) w = w\<lparr>cf_confirm := v\<rparr>"

definition change_code ::
  "change_strings \<Rightarrow> (change_form, change_password_dto, (thrown + bool envelope fetch_result) \<times> (thrown + user envelope fetch_result),
     change_edit) form_code" where
  "change_code t = \<lparr>fc_loading = cf_loading, fc_disabled = (\<lambda>w. cf_loading w \<or> cf_closed w), fc_press = change_press t,
     fc_answer = (\<lambda>c. change_answer t), fc_edit = change_typed\<rparr>"

record change_labels =
  cl_passwordHelp :: string
  cl_submit :: string
  cl_submitting :: string

definition change_button :: "change_labels \<Rightarrow> change_form \<Rightarrow> button_view" where
  "change_button l w = submit_button (cf_loading w) (cf_loading w) (if cf_loading w then cl_submitting l else cl_submit l)"

definition change_view :: "change_strings \<Rightarrow> change_labels \<Rightarrow> change_form \<Rightarrow> form_view" where
  "change_view t l w =
     (let failed = alert_of (cf_err w) \<noteq> None
      in \<lparr>fv_alert = alert_of (cf_err w),
          fv_fields =
            [\<lparr>fi_value = cf_current w, fi_invalid = (failed \<and> cf_current w = []), fi_note = FieldPlain\<rparr>,
             new_password_field (cl_passwordHelp l) (failed \<and> (cf_next w = [] \<or> cf_next w \<noteq> cf_confirm w)) (cf_next w),
             confirm_field (cs_passwordsDoNotMatch t) (cf_next w) (cf_confirm w)],
          fv_button = change_button l w\<rparr>)"

definition change_mount :: "world \<Rightarrow> change_form" where
  "change_mount w =
     auth_service.extend (world.extend w (auth_service.fields False)) (change_form.fields [] [] [] False None False)"

section \<open>The password recovery\<close>

text \<open>Both handlers share the flag; the value captured by the first is the address it sends.\<close>

datatype recovery_ask = AskFor string | AskAgain

definition forgot_press :: "forgot_props \<Rightarrow> forgot_form \<Rightarrow> recovery_ask option \<times> forgot_form" where
  "forgot_press t w =
     (let ask = (\<lambda>email w. w\<lparr>ff_err := None, ff_loading := True, w_sent := w_sent w @ [recovery_request t email]\<rparr>)
      in case ff_phase w of
        RequestPhase \<Rightarrow>
          (let trimmed = trim (ff_email w)
           in if trimmed = [] then (None, w\<lparr>ff_err := Some (fp_emailRequired t)\<rparr>)
              else if \<not> EMAIL_REGEX trimmed then (None, w\<lparr>ff_err := Some (fp_emailInvalid t)\<rparr>)
              else (Some (AskFor trimmed), ask trimmed w))
      | SentPhase \<Rightarrow> if 0 < ff_cooldown w then (None, w) else (Some AskAgain, ask (ff_email w) w))"

fun recovery_done :: "recovery_ask \<Rightarrow> forgot_form \<Rightarrow> forgot_form" where
  "recovery_done (AskFor trimmed) w =
     w\<lparr>ff_email := trimmed, ff_resent := False, ff_cooldown := PASSWORD_RECOVERY_RESEND_COOLDOWN_SECONDS, ff_phase := SentPhase\<rparr>"
| "recovery_done AskAgain w = w\<lparr>ff_resent := True, ff_cooldown := PASSWORD_RECOVERY_RESEND_COOLDOWN_SECONDS\<rparr>"

definition forgot_answer ::
  "forgot_props \<Rightarrow> recovery_ask \<Rightarrow> (thrown + string envelope fetch_result) \<Rightarrow> forgot_form \<Rightarrow> forgot_form" where
  "forgot_answer t c out w =
     snd (io_finally
       (io_catch
         (io_then (withApiErrorToast (answered out) True) (io_modify (recovery_done c)))
         (\<lambda>e. io_modify (\<lambda>w. w\<lparr>ff_err := Some (form_message (fp_requestFailed t) e)\<rparr>)))
       (io_modify (\<lambda>w. w\<lparr>ff_loading := False\<rparr>)) w)"

lemma forgot_in_two_steps:
  "(case forgot_press t w of (None, w') \<Rightarrow> w' | (Some c, w') \<Rightarrow> forgot_answer t c out w') =
     snd (if ff_phase w = RequestPhase then submit_forgot t out w else resend t out w)"
  by (cases "ff_phase w"; cases out)
    (simp_all add: forgot_press_def forgot_answer_def submit_forgot_def resend_def recovery_simps answered_def
      withApiErrorToast_def Let_def)

datatype forgot_edit = ForgotTyped string | ForgotTick | ForgotBack | ForgotCopied bool | ForgotCopyEnd

fun forgot_typed :: "forgot_props \<Rightarrow> forgot_edit \<Rightarrow> forgot_form \<Rightarrow> forgot_form" where
  "forgot_typed t (ForgotTyped v) w = forgot_step t (TypeEmail v) w"
| "forgot_typed t ForgotTick w = forgot_step t CooldownTick w"
| "forgot_typed t ForgotBack w = forgot_step t EditEmail w"
| "forgot_typed t (ForgotCopied copied) w = forgot_step t (CopyEmail copied) w"
| "forgot_typed t ForgotCopyEnd w = forgot_step t CopyTimeout w"

definition forgot_disabled :: "forgot_form \<Rightarrow> bool" where
  "forgot_disabled w \<longleftrightarrow> (case ff_phase w of RequestPhase \<Rightarrow> ff_loading w | SentPhase \<Rightarrow> 0 < ff_cooldown w \<or> ff_loading w)"

definition forgot_code ::
  "forgot_props \<Rightarrow> (forgot_form, recovery_ask, thrown + string envelope fetch_result, forgot_edit) form_code" where
  "forgot_code t = \<lparr>fc_loading = ff_loading, fc_disabled = forgot_disabled, fc_press = forgot_press t,
     fc_answer = forgot_answer t, fc_edit = forgot_typed t\<rparr>"

record forgot_texts =
  ft_emailHelp :: string
  ft_submit :: string
  ft_submitting :: string
  ft_copyEmail :: string
  ft_copiedEmail :: string
  ft_resendCooldown :: string
  ft_resendResent :: string
  ft_resendCta :: string

definition request_button :: "forgot_texts \<Rightarrow> forgot_form \<Rightarrow> button_view" where
  "request_button l w = submit_button (ff_loading w) (ff_loading w) (if ff_loading w then ft_submitting l else ft_submit l)"

definition request_view :: "forgot_texts \<Rightarrow> forgot_form \<Rightarrow> form_view" where
  "request_view l w =
     \<lparr>fv_alert = alert_of (ff_err w),
      fv_fields = [\<lparr>fi_value = ff_email w, fi_invalid = (alert_of (ff_err w) \<noteq> None),
                    fi_note = field_note (Some (ft_emailHelp l)) (ff_err w)\<rparr>],
      fv_button = request_button l w\<rparr>"

record sent_view =
  sv_alert :: "string option"
  sv_masked :: string
  sv_copy :: string
  sv_resend :: string
  sv_disabled :: bool

definition cooldown_label :: "int \<Rightarrow> string" where
  "cooldown_label cooldown =
     pad_start 2 (CHR ''0'') (int_str (cooldown div 60)) @ '':'' @ pad_start 2 (CHR ''0'') (int_str (cooldown mod 60))"

definition sent_view :: "forgot_texts \<Rightarrow> forgot_form \<Rightarrow> sent_view" where
  "sent_view l w =
     \<lparr>sv_alert = alert_of (ff_err w),
      sv_masked = maskEmail (ff_email w),
      sv_copy = (if ff_copied w then ft_copiedEmail l else ft_copyEmail l),
      sv_resend = (if 0 < ff_cooldown w then ft_resendCooldown l @ '' '' @ cooldown_label (ff_cooldown w)
                   else if ff_resent w then ft_resendResent l else ft_resendCta l),
      sv_disabled = (0 < ff_cooldown w \<or> ff_loading w)\<rparr>"

text \<open>The buttons that open a mail program: the address each goes to, and whether in a new tab.\<close>

definition mail_apps :: "(string \<times> bool) list" where
  "mail_apps = [(''mailto:'', False), (''https://mail.google.com'', True), (''https://outlook.live.com/mail'', True)]"

definition back_to_login :: "language \<Rightarrow> string" where
  "back_to_login loc = ''/'' @ language_str loc @ LOGIN_PATH"

definition forgot_mount :: "world \<Rightarrow> forgot_form" where
  "forgot_mount w =
     auth_service.extend (world.extend w (auth_service.fields False)) (forgot_form.fields RequestPhase [] None False 0 False False)"

section \<open>One answer at a time\<close>

lemmas code_defs = login_code_def signup_code_def gated_signup_code_def reset_code_def change_code_def forgot_code_def
lemmas mount_defs = login_mount_def signup_mount_def reset_mount_def change_mount_def forgot_mount_def read_token_def
  auth_service.defs world.defs login_form.defs signup_form.defs reset_form.defs change_form.defs forgot_form.defs

lemma catch_err_keeps:
  "(\<And>e w. g (f e w) = g w) \<Longrightarrow> g (snd (io_catch m (\<lambda>e. io_modify (f e)) w)) = g (snd (m w))"
  by (cases "m w"; cases "fst (m w)") (auto simp: io_catch_def io_modify_def)

lemma login_answer_idle [simp]: "\<not> asv_isLoading (login_answer t out w)"
proof -
  have "asv_isLoading (login_answer t out w) =
      asv_isLoading (snd (io_finally (session_answered ''sign-in returned an empty response'' out) (io_modify (set_asv_loading False)) w))"
    unfolding login_answer_def by (rule catch_err_keeps) simp
  then show ?thesis by (simp add: asv_loading.finally_flag)
qed

lemma signup_answer_idle [simp]: "\<not> a_isAuthLoading (w_auth (signup_answer t out w))"
proof -
  have "a_isAuthLoading (w_auth (signup_answer t out w)) =
      a_isAuthLoading (w_auth (snd (io_finally (session_answered ''sign-up returned an empty response'' out) (setAuthLoading False) w)))"
    unfolding signup_answer_def by (rule catch_err_keeps) simp
  then show ?thesis
    by (simp add: setAuthLoading_def io_finally_modify set_auth_loading_def)
qed

interpretation login_one: single_request "login_code t" for t
proof (unfold_locales, goal_cases)
  case (2 w) then show ?case by (auto simp: code_defs login_press_def Let_def)
next
  case (4 e w) then show ?case by (cases e) (simp_all add: code_defs)
qed (simp_all add: code_defs)

interpretation signup_one: single_request "gated_signup_code st t" for st t
proof (unfold_locales, goal_cases)
  case (2 w) then show ?case
    by (auto simp: code_defs signup_press_def Let_def public_render_def split: if_splits)
next
  case (4 e w) then show ?case by (cases e) (simp_all add: code_defs)
qed (auto simp: code_defs public_render_def)

interpretation reset_one: single_request reset_code
proof (unfold_locales, goal_cases)
  case (2 w) then show ?case by (auto simp: code_defs reset_press_def Let_def)
next
  case (3 c out w) show ?case by (simp add: code_defs reset_answer_def io_finally_modify)
next
  case (4 e w) then show ?case by (cases e) (simp_all add: code_defs)
qed (simp add: code_defs)

interpretation change_one: single_request "change_code t" for t
proof (unfold_locales, goal_cases)
  case (2 w) then show ?case by (auto simp: code_defs change_press_def Let_def)
next
  case (3 c out w) show ?case by (simp add: code_defs change_answer_def io_finally_modify)
next
  case (4 e w) then show ?case by (cases e) (simp_all add: code_defs)
qed (simp add: code_defs)

interpretation forgot_one: single_request "forgot_code t" for t
proof (unfold_locales, goal_cases)
  case (1 w) then show ?case by (simp add: code_defs forgot_disabled_def split: recovery_phase.split)
next
  case (2 w) then show ?case
    by (auto simp: code_defs forgot_press_def forgot_disabled_def Let_def split: recovery_phase.splits)
next
  case (3 c out w) show ?case by (simp add: code_defs forgot_answer_def io_finally_modify)
next
  case (4 e w) then show ?case by (cases e) (simp_all add: code_defs cooldown_tick_def edit_email_def handleCopy_def)
qed
text \<open>At most one answer is missing, and the button shows whether.\<close>

definition one_answer :: "('w, 'c) form_page \<Rightarrow> button_view \<Rightarrow> bool" where
  "one_answer p b \<longleftrightarrow> length (fg_waiting p) \<le> 1 \<and> bv_disabled b = (fg_waiting p \<noteq> []) \<and> bv_busy b = (fg_waiting p \<noteq> [])"

lemma awaits_iff: "awaits f p \<Longrightarrow> length (fg_waiting p) \<le> 1 \<and> (fc_loading f (fg_form p) \<longleftrightarrow> fg_waiting p \<noteq> [])"
  by (auto simp: awaits_def split: if_splits)

lemma awaits_button:
  "awaits f p \<Longrightarrow> b = submit_button (fc_loading f (fg_form p)) (fc_loading f (fg_form p)) label \<Longrightarrow> one_answer p b"
  by (drule awaits_iff) (simp add: one_answer_def submit_button_def)

text \<open>C32: The sign-in, reset, change and recovery forms never send a second request before the answer to the first,
  whatever is typed, pressed and answered in between; and their buttons are disabled, with the
  spinner, exactly while that answer is missing.\<close>

theorem forms_wait_for_one_answer:
  "(let p = form_run (login_code lt) les (mounted (login_mount first w)) in one_answer p (fv_button (login_view ll (fg_form p)))) \<and>
   (let p = form_run reset_code res (mounted (reset_mount tok w)) in one_answer p (fv_button (reset_fields rt (fg_form p)))) \<and>
   (let p = form_run (change_code ct) ces (mounted (change_mount w)) in one_answer p (fv_button (change_view ct cl (fg_form p)))) \<and>
   (let p = form_run (forgot_code ft) fes (mounted (forgot_mount w)) in one_answer p (fv_button (request_view fl (fg_form p))))"
proof (unfold Let_def, intro conjI)
  show "one_answer (form_run (login_code lt) les (mounted (login_mount first w)))
      (fv_button (login_view ll (fg_form (form_run (login_code lt) les (mounted (login_mount first w))))))"
    by (rule awaits_button [OF login_one.mounted_awaits]) (simp_all add: code_defs mount_defs login_view_def login_button_def)
  show "one_answer (form_run reset_code res (mounted (reset_mount tok w)))
      (fv_button (reset_fields rt (fg_form (form_run reset_code res (mounted (reset_mount tok w))))))"
    by (rule awaits_button [OF reset_one.mounted_awaits]) (simp_all add: code_defs mount_defs reset_fields_def reset_button_def)
  show "one_answer (form_run (change_code ct) ces (mounted (change_mount w)))
      (fv_button (change_view ct cl (fg_form (form_run (change_code ct) ces (mounted (change_mount w))))))"
    by (rule awaits_button [OF change_one.mounted_awaits]) (simp_all add: code_defs mount_defs change_view_def change_button_def Let_def)
  show "one_answer (form_run (forgot_code ft) fes (mounted (forgot_mount w)))
      (fv_button (request_view fl (fg_form (form_run (forgot_code ft) fes (mounted (forgot_mount w))))))"
    by (rule awaits_button [OF forgot_one.mounted_awaits]) (simp_all add: code_defs mount_defs request_view_def request_button_def)
qed

definition filled_signup :: "signup_strings \<Rightarrow> world \<Rightarrow> (signup_form, sign_up_credentials) form_page" where
  "filled_signup t w =
     form_run (signup_code t) [Edit (SignupEmail ''a@b.co''), Edit (SignupPw ''Aa1!''), Edit (SignupTerms True)] (mounted (signup_mount w))"

lemma signup_answer_flag: "asv_isLoading (signup_answer t out w) = asv_isLoading w"
proof (cases out)
  case (Inl e)
  then show ?thesis by (simp add: signup_answer_def answer_simps io_simps form_defs setAuthLoading_def)
next
  case (Inr r)
  then show ?thesis
    by (cases "fr_data r") (simp_all add: signup_answer_def answer_simps io_simps form_defs setAuthLoading_def)
qed

lemma signup_flag_step: "asv_isLoading (fg_form (form_step (signup_code t) e q)) = asv_isLoading (fg_form q)"
proof (cases e)
  case (Edit x)
  then show ?thesis by (cases x) (simp_all add: code_defs)
qed (simp_all add: code_defs signup_press_def Let_def on_auth_def signup_answer_flag)

lemma signup_flag_run: "asv_isLoading (fg_form (form_run (signup_code t) es q)) = asv_isLoading (fg_form q)"
  by (induction es arbitrary: q) (simp_all add: signup_flag_step)

text \<open>The sign-up form waits for its answer only because of the gate around it, which shows its fallback
  while the request runs. Its own button never shows that an account is being created and takes every
  press: two presses send two requests.\<close>

theorem signup_waits_by_gate:
  "(let p = form_run (gated_signup_code st t) es (mounted (signup_mount (w\<lparr>w_auth := initial_auth\<rparr>)))
    in length (fg_waiting p) \<le> 1 \<and>
       (fg_waiting p = [] \<or> public_render False (w_auth (fg_form p)) st = ShowFallback)) \<and>
   fv_button (signup_view t l (fg_form (form_run (signup_code t) es (mounted (signup_mount w))))) =
     \<lparr>bv_label = sl_signup l, bv_disabled = False, bv_busy = False\<rparr> \<and>
   length (fg_waiting (form_run (signup_code t) [Press, Press] (filled_signup t w))) = 2"
proof -
  let ?p = "form_run (gated_signup_code st t) es (mounted (signup_mount (w\<lparr>w_auth := initial_auth\<rparr>)))"
  have "awaits (gated_signup_code st t) ?p"
    by (rule signup_one.mounted_awaits) (simp add: code_defs mount_defs initial_auth_def)
  then have gate: "length (fg_waiting ?p) \<le> 1 \<and> (fg_waiting ?p = [] \<or> public_render False (w_auth (fg_form ?p)) st = ShowFallback)"
    by (drule_tac awaits_iff) (auto simp: code_defs public_render_def)
  have idle: "\<not> asv_isLoading (fg_form (form_run (signup_code t) es (mounted (signup_mount w))))"
    by (simp add: signup_flag_run mount_defs)
  have strong: "\<not> strengthScore ''Aa1!'' < 2" by (simp add: short_password_accepted)
  have "length (fg_waiting (form_run (signup_code t) [Press, Press] (filled_signup t w))) = 2"
    by (simp add: filled_signup_def code_defs mount_defs signup_press_def Let_def mismatch_def strong on_auth_def)
  with gate idle show ?thesis by (simp add: Let_def signup_view_def signup_button_def submit_button_def)
qed

section \<open>What a visitor sees\<close>

definition login_at :: "login_strings \<Rightarrow> bool \<Rightarrow> world \<Rightarrow> (thrown + auth_session fetch_result, login_edit) form_event list \<Rightarrow>
    (login_form, sign_in_credentials) form_page" where
  "login_at t first w es = form_run (login_code t) es (mounted (login_mount first w))"

definition marked :: "form_view \<Rightarrow> bool list" where
  "marked v = map fi_invalid (fv_fields v)"

lemma login_at_awaits: "awaits (login_code t) (login_at t first w es)"
  unfolding login_at_def by (rule login_one.mounted_awaits) (simp add: code_defs mount_defs)

lemma login_answer_err:
  "lf_err (login_answer t out w) =
     (case session_failure ''sign-in returned an empty response'' out of None \<Rightarrow> lf_err w | Some e \<Rightarrow> Some (err_message e))"
  "lf_email (login_answer t out w) = lf_email w" "lf_password (login_answer t out w) = lf_password w"
proof -
  have "lf_err (login_answer t out w) =
      (case session_failure ''sign-in returned an empty response'' out of None \<Rightarrow> lf_err w | Some e \<Rightarrow> Some (err_message e)) \<and>
    lf_email (login_answer t out w) = lf_email w \<and> lf_password (login_answer t out w) = lf_password w"
  proof (cases out)
    case (Inl e)
    then show ?thesis by (simp add: login_answer_def answer_simps io_simps form_defs session_failure_def)
  next
    case (Inr r)
    then show ?thesis
      by (cases "fr_data r") (simp_all add: login_answer_def answer_simps io_simps form_defs session_failure_def)
  qed
  then show "lf_err (login_answer t out w) =
     (case session_failure ''sign-in returned an empty response'' out of None \<Rightarrow> lf_err w | Some e \<Rightarrow> Some (err_message e))"
  "lf_email (login_answer t out w) = lf_email w" "lf_password (login_answer t out w) = lf_password w" by simp_all
qed

text \<open>What pressing the sign-in button shows, whatever happened before. With a field left empty an alert asks for
  it, the empty fields alone are marked and the button stays ready. With both filled nothing is marked, the
  alert is gone and the button is busy; its answer makes it ready again with both fields as they were and
  unmarked, and an alert exactly when the answer was a failure with a text: a failure without one
  shows nothing at all.\<close>

theorem login_feedback:
  "let p = login_at t first w es; f = fg_form p; p' = form_step (login_code t) Press p; v = login_view l (fg_form p');
       v' = login_view l (fg_form (form_step (login_code t) (Answer 0 out) p'))
   in case fg_waiting p of
        c # cs \<Rightarrow> p' = p
      | [] \<Rightarrow>
          (if lf_email f = [] \<or> lf_password f = []
           then fg_waiting p' = [] \<and> fv_alert v = alert_of (Some (ls_emailPasswordRequired t)) \<and>
                (fv_alert v = None \<or> marked v = [lf_email f = [], lf_password f = []]) \<and> \<not> bv_disabled (fv_button v)
           else fg_waiting p' = [\<lparr>si_email = trim (lf_email f), si_password = lf_password f\<rparr>] \<and> fv_alert v = None \<and>
                marked v = [False, False] \<and> fv_button v = \<lparr>bv_label = ll_loggingIn l, bv_disabled = True, bv_busy = True\<rparr> \<and>
                fv_button v' = \<lparr>bv_label = ll_login l, bv_disabled = False, bv_busy = False\<rparr> \<and>
                marked v' = [False, False] \<and> map fi_value (fv_fields v') = [lf_email f, lf_password f] \<and>
                fv_alert v' = alert_of (map_option err_message (session_failure ''sign-in returned an empty response'' out)))"
proof -
  obtain p where p: "login_at t first w es = p" by simp
  have aw: "fc_loading (login_code t) (fg_form p) \<longleftrightarrow> fg_waiting p \<noteq> []"
    using awaits_iff [OF login_at_awaits [of t first w es]] p by simp
  then have busy: "asv_isLoading (fg_form p) \<longleftrightarrow> fg_waiting p \<noteq> []" by (simp add: code_defs)
  show ?thesis
  proof (cases "fg_waiting p")
    case (Cons c cs)
    then show ?thesis using busy by (simp add: p Let_def code_defs)
  next
    case Nil
    then have ready: "\<not> asv_isLoading (fg_form p)" using busy by simp
    show ?thesis
    proof (cases "lf_email (fg_form p) = [] \<or> lf_password (fg_form p) = []")
      case True
      then show ?thesis using Nil ready
        by (auto simp: p Let_def code_defs login_press_def login_view_def login_button_def submit_button_def marked_def)
    next
      case False
      then show ?thesis using Nil ready
        by (simp add: p Let_def code_defs login_press_def login_view_def login_button_def submit_button_def marked_def login_answer_err
            alert_of_def split: option.split)
    qed
  qed
qed

section \<open>The reset link\<close>

definition reset_at :: "string option \<Rightarrow> world \<Rightarrow> (thrown + bool envelope fetch_result, reset_edit) form_event list \<Rightarrow>
    (reset_form, consume_password_recovery_dto) form_page" where
  "reset_at tok w es = form_run reset_code es (mounted (reset_mount tok w))"

text \<open>What an opened reset page keeps: the token of its link, and a session log that only the form adds to.\<close>

definition reset_link_inv :: "string \<Rightarrow> (reset_form, consume_password_recovery_dto) form_page \<Rightarrow> bool" where
  "reset_link_inv tok p \<longleftrightarrow>
     rf_token (fg_form p) = tok \<and> rf_tokenReady (fg_form p) \<and> rf_error (fg_form p) \<noteq> Some ErrMissing \<and>
     list_all (\<lambda>c. cpr_token c = tok \<and> tok \<noteq> [] \<and> 2 \<le> strengthScore (cpr_new_password c)) (fg_waiting p) \<and>
     (tok = [] \<longrightarrow> \<not> rf_success (fg_form p))"

lemma reset_answer_fields:
  "rf_token (reset_answer out w) = rf_token w" "rf_tokenReady (reset_answer out w) = rf_tokenReady w"
  "rf_error w \<noteq> Some ErrMissing \<Longrightarrow> rf_error (reset_answer out w) \<noteq> Some ErrMissing"
  by (cases out; simp add: reset_answer_def answer_simps io_simps form_defs)+

lemma reset_link_step: "reset_link_inv tok p \<Longrightarrow> reset_link_inv tok (form_step reset_code e p)"
proof (cases e)
  case Press
  assume p: "reset_link_inv tok p"
  then show ?thesis
    using Press by (auto simp: code_defs reset_press_def Let_def reset_link_inv_def reset_render_def)
next
  case (Answer n out)
  assume p: "reset_link_inv tok p"
  show ?thesis
  proof (cases "n < length (fg_waiting p)")
    case True
    then have "tok \<noteq> []" using p by (auto simp: reset_link_inv_def list_all_length)
    moreover have "list_all P (take n xs @ drop (Suc n) xs)" if "list_all P xs" for P and xs :: "consume_password_recovery_dto list"
      using that by (auto simp: list_all_iff dest: in_set_takeD in_set_dropD)
    ultimately show ?thesis
      using p Answer True by (simp add: code_defs reset_link_inv_def reset_answer_fields)
  qed (use p Answer in simp)
next
  case (Edit x)
  assume "reset_link_inv tok p"
  then show ?thesis using Edit by (cases x) (simp_all add: code_defs reset_link_inv_def)
qed

lemma reset_link_run: "reset_link_inv tok p \<Longrightarrow> reset_link_inv tok (form_run reset_code es p)"
  by (induction es arbitrary: p) (simp_all add: reset_link_step)

lemma reset_at_inv: "reset_link_inv (nullish tok []) (reset_at tok w es)"
  unfolding reset_at_def by (rule reset_link_run) (simp add: reset_link_inv_def mount_defs)

text \<open>A reset page is what its link says for as long as it is open: without a token it says so, has no fields and
  never waits for an answer; with one it shows the form, or the success view, and asks only for
  passwords that are strong enough, with the token of the link. The alert of the form about a missing
  token is never reached.\<close>

theorem reset_page_follows_link:
  "let p = reset_at tok w es
   in (if tok = None \<or> tok = Some [] then reset_render (fg_form p) = ResetNoToken \<and> fg_waiting p = []
       else reset_render (fg_form p) \<in> {ResetFields, ResetDone}) \<and>
      list_all (\<lambda>c. tok = Some (cpr_token c) \<and> 2 \<le> strengthScore (cpr_new_password c)) (fg_waiting p) \<and>
      rf_error (fg_form p) \<noteq> Some ErrMissing"
proof -
  have inv: "reset_link_inv (nullish tok []) (reset_at tok w es)" by (rule reset_at_inv)
  have none: "nullish tok [] = [] \<longleftrightarrow> tok = None \<or> tok = Some []" by (cases tok) simp_all
  have asked: "list_all (\<lambda>c. tok = Some (cpr_token c) \<and> 2 \<le> strengthScore (cpr_new_password c)) (fg_waiting (reset_at tok w es))"
    using inv by (cases tok) (auto simp: reset_link_inv_def list_all_iff)
  have empty: "fg_waiting (reset_at tok w es) = []" if "nullish tok [] = []"
    using inv that by (cases "fg_waiting (reset_at tok w es)") (simp_all add: reset_link_inv_def)
  show ?thesis
    using inv asked empty none by (auto simp: Let_def reset_link_inv_def reset_render_def)
qed

section \<open>The sent view\<close>

definition forgot_at :: "forgot_props \<Rightarrow> world \<Rightarrow> (thrown + string envelope fetch_result, forgot_edit) form_event list \<Rightarrow>
    (forgot_form, recovery_ask) form_page" where
  "forgot_at t w es = form_run (forgot_code t) es (mounted (forgot_mount w))"

fun ask_valid :: "recovery_ask \<Rightarrow> bool" where
  "ask_valid (AskFor trimmed) \<longleftrightarrow> EMAIL_REGEX trimmed"
| "ask_valid AskAgain \<longleftrightarrow> True"

definition sent_inv :: "(forgot_form, recovery_ask) form_page \<Rightarrow> bool" where
  "sent_inv p \<longleftrightarrow> cooldown_ok (fg_form p) \<and> list_all ask_valid (fg_waiting p) \<and>
     (ff_phase (fg_form p) = SentPhase \<longrightarrow> EMAIL_REGEX (ff_email (fg_form p)))"

lemma forgot_answer_cases:
  "forgot_answer t c (Inr r) w = (recovery_done c w)\<lparr>ff_loading := False\<rparr>"
  "forgot_answer t c (Inl e) w =
     (pushed (error_toast (toError e)) w)\<lparr>ff_err := Some (err_message (toError e)), ff_loading := False\<rparr>"
  by (simp_all add: forgot_answer_def answered_def withApiErrorToast_def form_message_def io_simps Let_def)

lemma sent_inv_step: "sent_inv p \<Longrightarrow> sent_inv (form_step (forgot_code t) e p)"
proof (cases e)
  case Press
  assume "sent_inv p"
  then show ?thesis using Press
    by (auto simp: code_defs sent_inv_def forgot_press_def Let_def cooldown_ok_def split: recovery_phase.splits)
next
  case (Answer n out)
  assume p: "sent_inv p"
  have rest: "list_all ask_valid (take n xs @ drop (Suc n) xs)" if "list_all ask_valid xs" for xs
    using that by (auto simp: list_all_iff dest: in_set_takeD in_set_dropD)
  show ?thesis
  proof (cases "n < length (fg_waiting p)")
    case True
    then have "ask_valid (fg_waiting p ! n)" using p by (simp add: sent_inv_def list_all_length)
    then show ?thesis using p True Answer rest [of "fg_waiting p"]
      by (cases "fg_waiting p ! n"; cases out)
        (simp_all add: code_defs sent_inv_def forgot_answer_cases cooldown_ok_def pushed_def
          PASSWORD_RECOVERY_RESEND_COOLDOWN_SECONDS_def)
  qed (use p Answer in simp)
next
  case (Edit x)
  assume "sent_inv p"
  then show ?thesis using Edit
    by (cases x) (auto simp: code_defs sent_inv_def cooldown_ok_def cooldown_tick_def edit_email_def handleCopy_def)
qed

lemma sent_inv_run: "sent_inv p \<Longrightarrow> sent_inv (form_run (forgot_code t) es p)"
  by (induction es arbitrary: p) (simp_all add: sent_inv_step)

lemma forgot_at_inv: "sent_inv (forgot_at t w es)"
  unfolding forgot_at_def by (rule sent_inv_run) (simp add: sent_inv_def cooldown_ok_def mount_defs)

lemma two_digits:
  assumes "0 \<le> v" "v < 100"
  shows "length (pad_start 2 (CHR ''0'') (int_str v)) = 2 \<and> str_nat (pad_start 2 (CHR ''0'') (int_str v)) = nat v"
proof -
  have "int_str v = nat_str (nat v)" using assms by (simp add: int_str_def)
  moreover have "length (nat_str (nat v)) \<in> {1, 2}"
    using length_nat_str_two [of "nat v"] assms nat_str_nonempty [of "nat v"]
    by (cases "length (nat_str (nat v))"; cases "length (nat_str (nat v)) - 1") auto
  moreover have "str_nat (CHR ''0'' # nat_str n) = n" for n
    using str_nat_nat_str [of n] by (simp add: str_nat_def digit_val_def)
  ultimately show ?thesis
    by (auto simp: pad_start_def)
qed

lemma cooldown_label_reads:
  assumes "0 \<le> c" "c \<le> 60"
  shows "length (cooldown_label c) = 5 \<and>
    60 * str_nat (take 2 (cooldown_label c)) + str_nat (drop 3 (cooldown_label c)) = nat c"
proof -
  have d: "c div 60 < 100" "0 \<le> c div 60" "0 \<le> c mod 60" "c mod 60 < 100" using assms by auto
  show ?thesis
    using two_digits [OF d(2,1)] two_digits [OF d(3,4)] assms
    by (simp add: cooldown_label_def nat_div_distrib nat_mod_distrib)
qed

lemma valid_address:
  assumes "EMAIL_REGEX s"
  shows "\<exists>loc domain. s = loc @ ''@'' @ domain \<and> loc \<noteq> [] \<and> CHR ''@'' \<notin> set loc"
proof -
  obtain loc domain where parts: "split_char (CHR ''@'') s = [loc, domain]" "loc \<noteq> []"
    using assms by (auto simp: EMAIL_REGEX_def split: list.splits)
  then have "s = loc @ ''@'' @ domain" using join_split_char [of "CHR ''@''" s] by simp
  moreover have "CHR ''@'' \<notin> set loc" using parts split_char_no_sep [of loc "CHR ''@''" s] by simp
  ultimately show ?thesis using parts(2) by blast
qed

text \<open>C40: The confirmation of the recovery, however it was reached: it is about a valid address and shows at most two
  characters of its local part; the time on the button reads back as the cooldown, in five
  characters; and the button takes a press exactly when the press sends a request.\<close>

theorem recovery_confirmation:
  "let p = forgot_at t w es; s = fg_form p; v = sent_view l s
   in case ff_phase s of
        RequestPhase \<Rightarrow> True
      | SentPhase \<Rightarrow>
          (\<exists>loc domain. ff_email s = loc @ ''@'' @ domain \<and> loc \<noteq> [] \<and> sv_masked v = take 2 loc @ bullets @ ''@'' @ domain) \<and>
          length (cooldown_label (ff_cooldown s)) = 5 \<and>
          60 * str_nat (take 2 (cooldown_label (ff_cooldown s))) + str_nat (drop 3 (cooldown_label (ff_cooldown s))) =
            nat (ff_cooldown s) \<and>
          (sv_disabled v \<longleftrightarrow> w_sent (fg_form (form_step (forgot_code t) Press p)) = w_sent s)"
proof -
  obtain p where p: "forgot_at t w es = p" by simp
  have inv: "sent_inv p" using forgot_at_inv [of t w es] p by simp
  show ?thesis
  proof (cases "ff_phase (fg_form p)")
    case SentPhase
    then obtain loc domain where parts: "ff_email (fg_form p) = loc @ ''@'' @ domain" "loc \<noteq> []" "CHR ''@'' \<notin> set loc"
      using inv valid_address [of "ff_email (fg_form p)"] by (auto simp: sent_inv_def)
    have masked: "maskEmail (ff_email (fg_form p)) = take 2 loc @ bullets @ ''@'' @ domain"
      using maskEmail_hides_local_part [OF parts(3,2)] parts(1) by simp
    have label: "length (cooldown_label (ff_cooldown (fg_form p))) = 5 \<and>
      60 * str_nat (take 2 (cooldown_label (ff_cooldown (fg_form p)))) + str_nat (drop 3 (cooldown_label (ff_cooldown (fg_form p)))) =
        nat (ff_cooldown (fg_form p))"
      using inv by (intro cooldown_label_reads) (simp_all add: sent_inv_def cooldown_ok_def)
    have "sv_disabled (sent_view l (fg_form p)) \<longleftrightarrow> w_sent (fg_form (form_step (forgot_code t) Press p)) = w_sent (fg_form p)"
      using SentPhase by (auto simp: sent_view_def code_defs forgot_disabled_def forgot_press_def Let_def)
    then show ?thesis
      using SentPhase parts masked label by (auto simp: p Let_def sent_view_def)
  qed (simp add: p Let_def)
qed
end
