(* ===== verification/FilterBars.thy ===== *)
theory FilterBars
  imports AdminViews
begin

text \<open>
  The filters over the three list pages: the bars (\<open>features/users/UserFilterBar.tsx\<close>,
  \<open>features/devices/DeviceFilterBar.tsx\<close>, \<open>access/AccessFilterBar.tsx\<close>), the options of their selects, the
  handlers that clear them, and the lines that count what is shown. What the pages rely on, that an inactive
  filter lets everything through and that clearing makes a filter inactive and keeps the order, is the
  locale \<open>list_filter\<close>.
\<close>

section \<open>Selects\<close>

type_synonym select_options = "(string \<times> string) list"

fun user_sort_value :: "user_sort_key \<Rightarrow> string" where
  "user_sort_value CreatedDesc = ''created-desc''"
| "user_sort_value CreatedAsc = ''created-asc''"
| "user_sort_value NameAsc = ''name-asc''"

definition USER_SORT_OPTIONS :: "user_sort_key list" where
  "USER_SORT_OPTIONS = [CreatedDesc, CreatedAsc, NameAsc]"

definition user_sort_options :: "(user_sort_key \<Rightarrow> string) \<Rightarrow> select_options" where
  "user_sort_options labels = map (\<lambda>k. (user_sort_value k, labels k)) USER_SORT_OPTIONS"

text \<open>The handler of the select returns on any other value.\<close>

definition picked_user_sort :: "string \<Rightarrow> user_sort_key option" where
  "picked_user_sort v = find (\<lambda>k. user_sort_value k = v) [CreatedDesc, CreatedAsc, NameAsc]"

fun key_sort_value :: "api_key_sort_key \<Rightarrow> string" where
  "key_sort_value KeyCreatedDesc = ''created-desc''"
| "key_sort_value KeyCreatedAsc = ''created-asc''"
| "key_sort_value KeyDeviceAsc = ''device-asc''"

definition key_sort_options :: "(string \<Rightarrow> string) \<Rightarrow> select_options" where
  "key_sort_options labels = map (\<lambda>v. (v, labels v)) API_KEY_SORT_OPTIONS"

definition picked_key_sort :: "string \<Rightarrow> api_key_sort_key option" where
  "picked_key_sort v =
     (if isApiKeySortKey v then find (\<lambda>k. key_sort_value k = v) [KeyCreatedDesc, KeyCreatedAsc, KeyDeviceAsc] else None)"

fun device_status_value :: "device_status_key \<Rightarrow> string" where
  "device_status_value StOnline = ''online''"
| "device_status_value StStale = ''stale''"
| "device_status_value StOffline = ''offline''"
| "device_status_value StNeverSeen = ''never-seen''"

fun device_sort_value :: "device_sort_key \<Rightarrow> string" where
  "device_sort_value DevNameAsc = ''name-asc''"
| "device_sort_value DevNameDesc = ''name-desc''"
| "device_sort_value Recent = ''recent''"
| "device_sort_value Oldest = ''oldest''"

definition DEVICE_SORT_OPTIONS :: "device_sort_key list" where
  "DEVICE_SORT_OPTIONS = [DevNameAsc, DevNameDesc, Recent, Oldest]"

definition VEHICLE_TYPE_OPTIONS :: "vehicle_type list" where
  "VEHICLE_TYPE_OPTIONS = [Bicycle, Motorcycle, Car, Truck, Van, OtherVehicle]"

record bar_texts =
  bt_allStatuses :: string
  bt_online :: string
  bt_stale :: string
  bt_offline :: string
  bt_neverSeen :: string
  bt_allVehicles :: string
  bt_vehicleTypes :: "vehicle_type \<Rightarrow> string"
  bt_sort :: "device_sort_key \<Rightarrow> string"

text \<open>The value \<open>all\<close> of the two filters is \<open>None\<close>; the selects offer no other values, and the handlers take
  the value they get without a check.\<close>

definition status_options :: "bar_texts \<Rightarrow> select_options" where
  "status_options t =
     [(''all'', bt_allStatuses t), (''online'', bt_online t), (''stale'', bt_stale t), (''offline'', bt_offline t),
      (''never-seen'', bt_neverSeen t)]"

definition vehicle_options :: "bar_texts \<Rightarrow> select_options" where
  "vehicle_options t = (''all'', bt_allVehicles t) # map (\<lambda>v. (vehicle_type_str v, bt_vehicleTypes t v)) VEHICLE_TYPE_OPTIONS"

definition device_sort_options :: "bar_texts \<Rightarrow> select_options" where
  "device_sort_options t = map (\<lambda>k. (device_sort_value k, bt_sort t k)) DEVICE_SORT_OPTIONS"

definition status_value :: "device_status_key option \<Rightarrow> string" where
  "status_value s = (case s of None \<Rightarrow> ''all'' | Some k \<Rightarrow> device_status_value k)"

definition vehicle_value :: "vehicle_type option \<Rightarrow> string" where
  "vehicle_value s = (case s of None \<Rightarrow> ''all'' | Some k \<Rightarrow> vehicle_type_str k)"

text \<open>The state a value of a select stands for.\<close>

definition picked_in :: "('k \<Rightarrow> string) \<Rightarrow> 'k list \<Rightarrow> string \<Rightarrow> 'k option" where
  "picked_in value_of ks v = find (\<lambda>k. value_of k = v) ks"

definition picked_status :: "string \<Rightarrow> device_status_key option option" where
  "picked_status = picked_in status_value [None, Some StOnline, Some StStale, Some StOffline, Some StNeverSeen]"

definition picked_vehicle :: "string \<Rightarrow> vehicle_type option option" where
  "picked_vehicle = picked_in vehicle_value (None # map Some VEHICLE_TYPE_OPTIONS)"

definition picked_device_sort :: "string \<Rightarrow> device_sort_key option" where
  "picked_device_sort = picked_in device_sort_value DEVICE_SORT_OPTIONS"

text \<open>\<open>VehicleTypeSelect\<close> of the device dialogs, which checks the value.\<close>

definition picked_vehicle_type :: "string \<Rightarrow> vehicle_type option" where
  "picked_vehicle_type v = find (\<lambda>k. vehicle_type_str k = v) VEHICLE_TYPE_OPTIONS"

text \<open>Every choice is on offer, exactly once, and choosing its entry sets it: the selects of the three list pages
  and of the device dialogs have one option for each order, status and type of vehicle and no two with the
  same value, and the handler of an option stores the choice whose value the select then shows.\<close>

theorem selects_offer_every_choice:
  "distinct (map fst (user_sort_options l1)) \<and> user_sort_value us \<in> set (map fst (user_sort_options l1)) \<and>
   picked_user_sort (user_sort_value us) = Some us \<and>
   distinct (map fst (key_sort_options l2)) \<and> key_sort_value ks \<in> set (map fst (key_sort_options l2)) \<and>
   picked_key_sort (key_sort_value ks) = Some ks \<and>
   distinct (map fst (status_options t)) \<and> status_value st \<in> set (map fst (status_options t)) \<and>
   picked_status (status_value st) = Some st \<and>
   distinct (map fst (vehicle_options t)) \<and> vehicle_value vt \<in> set (map fst (vehicle_options t)) \<and>
   picked_vehicle (vehicle_value vt) = Some vt \<and>
   distinct (map fst (device_sort_options t)) \<and> device_sort_value ds \<in> set (map fst (device_sort_options t)) \<and>
   picked_device_sort (device_sort_value ds) = Some ds \<and> picked_vehicle_type (vehicle_type_str v) = Some v"
proof (intro conjI)
  show "user_sort_value us \<in> set (map fst (user_sort_options l1))" "picked_user_sort (user_sort_value us) = Some us"
    by (cases us; simp add: user_sort_options_def USER_SORT_OPTIONS_def picked_user_sort_def)+
  show "key_sort_value ks \<in> set (map fst (key_sort_options l2))" "picked_key_sort (key_sort_value ks) = Some ks"
    by (cases ks; simp add: key_sort_options_def API_KEY_SORT_OPTIONS_def picked_key_sort_def isApiKeySortKey_def)+
  show "status_value st \<in> set (map fst (status_options t))" "picked_status (status_value st) = Some st"
    by (cases st; cases "the st"; simp add: status_options_def status_value_def picked_status_def picked_in_def)+
  show "vehicle_value vt \<in> set (map fst (vehicle_options t))" "picked_vehicle (vehicle_value vt) = Some vt"
    by (cases vt; cases "the vt"; simp add: vehicle_options_def vehicle_value_def picked_vehicle_def picked_in_def VEHICLE_TYPE_OPTIONS_def)+
  show "device_sort_value ds \<in> set (map fst (device_sort_options t))" "picked_device_sort (device_sort_value ds) = Some ds"
    by (cases ds; simp add: device_sort_options_def DEVICE_SORT_OPTIONS_def picked_device_sort_def picked_in_def)+
  show "picked_vehicle_type (vehicle_type_str v) = Some v"
    by (cases v; simp add: picked_vehicle_type_def VEHICLE_TYPE_OPTIONS_def)
qed (simp_all add: user_sort_options_def USER_SORT_OPTIONS_def key_sort_options_def API_KEY_SORT_OPTIONS_def status_options_def
    vehicle_options_def VEHICLE_TYPE_OPTIONS_def device_sort_options_def DEVICE_SORT_OPTIONS_def)

section \<open>Filters\<close>

locale list_filter =
  fixes matches :: "'f \<Rightarrow> 'a \<Rightarrow> bool"
    and cmp :: "'f \<Rightarrow> 'a \<Rightarrow> 'a \<Rightarrow> int"
    and active :: "'f \<Rightarrow> bool"
    and clear :: "'f \<Rightarrow> 'f"
  assumes inactive_matches: "\<not> active f \<Longrightarrow> matches f x"
    and clear_inactive: "\<not> active (clear f)"
    and clear_order: "cmp (clear f) = cmp f"
begin

text \<open>Clearing shows every row, in the order that was chosen.\<close>

lemma cleared_list: "filter_sort (matches (clear f)) (cmp (clear f)) xs = js_sort (cmp f) xs"
  by (simp add: filter_sort_def inactive_matches [OF clear_inactive] clear_order)

text \<open>Only an active filter can hide every row, so the notice that nothing matches can be cleared away.\<close>

lemma nothing_shown: "filter_sort (matches f) (cmp f) xs = [] \<Longrightarrow> \<not> active f \<Longrightarrow> xs = []"
  using mset_filter_sort [of "matches f" "cmp f" xs] inactive_matches [of f] by (auto simp: filter_empty_mset)

end

record users_filter =
  uf_query :: string
  uf_mail :: user_email_filter
  uf_sort :: user_sort_key

datatype users_bar = UserQuery string | UserChip user_email_filter | UserSortPick string | UserClear

definition users_filter_start :: users_filter where
  "users_filter_start = \<lparr>uf_query = [], uf_mail = EmailAll, uf_sort = CreatedDesc\<rparr>"

fun users_bar_step :: "users_filter \<Rightarrow> users_bar \<Rightarrow> users_filter" where
  "users_bar_step f (UserQuery v) = f\<lparr>uf_query := v\<rparr>"
| "users_bar_step f (UserChip e) = f\<lparr>uf_mail := e\<rparr>"
| "users_bar_step f (UserSortPick v) = (case picked_user_sort v of None \<Rightarrow> f | Some k \<Rightarrow> f\<lparr>uf_sort := k\<rparr>)"
| "users_bar_step f UserClear = f\<lparr>uf_query := [], uf_mail := EmailAll\<rparr>"

definition users_has_filters :: "users_filter \<Rightarrow> bool" where
  "users_has_filters f \<longleftrightarrow> uf_query f \<noteq> [] \<or> uf_mail f \<noteq> EmailAll"

definition users_shown ::
  "(string \<Rightarrow> number) \<Rightarrow> (string \<Rightarrow> string \<Rightarrow> int) \<Rightarrow> users_filter \<Rightarrow> 'z user_scheme list \<Rightarrow> 'z user_scheme list" where
  "users_shown getTime collate f users = filterAndSortUsers getTime collate users (uf_query f) (uf_mail f) (uf_sort f)"

record devices_filter =
  df_query :: string
  df_status :: "device_status_key option"
  df_vehicle :: "vehicle_type option"
  df_sort :: device_sort_key

datatype devices_bar =
  DeviceQuery string | DeviceStatusPick string | DeviceVehiclePick string | DeviceSortPick string | DeviceClear

definition devices_filter_start :: devices_filter where
  "devices_filter_start = \<lparr>df_query = [], df_status = None, df_vehicle = None, df_sort = DevNameAsc\<rparr>"

fun devices_bar_step :: "devices_filter \<Rightarrow> devices_bar \<Rightarrow> devices_filter" where
  "devices_bar_step f (DeviceQuery v) = f\<lparr>df_query := v\<rparr>"
| "devices_bar_step f (DeviceStatusPick v) = (case picked_status v of None \<Rightarrow> f | Some k \<Rightarrow> f\<lparr>df_status := k\<rparr>)"
| "devices_bar_step f (DeviceVehiclePick v) = (case picked_vehicle v of None \<Rightarrow> f | Some k \<Rightarrow> f\<lparr>df_vehicle := k\<rparr>)"
| "devices_bar_step f (DeviceSortPick v) = (case picked_device_sort v of None \<Rightarrow> f | Some k \<Rightarrow> f\<lparr>df_sort := k\<rparr>)"
| "devices_bar_step f DeviceClear = f\<lparr>df_query := [], df_status := None, df_vehicle := None\<rparr>"

definition devices_shown ::
  "(string \<Rightarrow> number) \<Rightarrow> number \<Rightarrow> (string \<Rightarrow> string \<Rightarrow> int) \<Rightarrow> device_strings \<Rightarrow> devices_filter \<Rightarrow>
   device_with_access list \<Rightarrow> device_with_access list" where
  "devices_shown getTime now collate t f devices =
     filtered_devices getTime now collate t (df_query f) (df_status f) (df_vehicle f) (df_sort f) devices"

text \<open>Whether a filter of the devices is set; the page itself does not ask.\<close>

definition devices_filtering :: "devices_filter \<Rightarrow> bool" where
  "devices_filtering f \<longleftrightarrow> df_query f \<noteq> [] \<or> df_status f \<noteq> None \<or> df_vehicle f \<noteq> None"

record keys_filter =
  kf_query :: string
  kf_sort :: api_key_sort_key

datatype keys_bar = KeyQuery string | KeySortPick string | KeyClear

definition keys_filter_start :: keys_filter where
  "keys_filter_start = \<lparr>kf_query = [], kf_sort = KeyCreatedDesc\<rparr>"

fun keys_bar_step :: "keys_filter \<Rightarrow> keys_bar \<Rightarrow> keys_filter" where
  "keys_bar_step f (KeyQuery v) = f\<lparr>kf_query := v\<rparr>"
| "keys_bar_step f (KeySortPick v) = (case picked_key_sort v of None \<Rightarrow> f | Some k \<Rightarrow> f\<lparr>kf_sort := k\<rparr>)"
| "keys_bar_step f KeyClear = f\<lparr>kf_query := []\<rparr>"

definition keys_has_filters :: "keys_filter \<Rightarrow> bool" where
  "keys_has_filters f \<longleftrightarrow> kf_query f \<noteq> []"

definition keys_shown ::
  "(string \<Rightarrow> number) \<Rightarrow> (string \<Rightarrow> string \<Rightarrow> int) \<Rightarrow> keys_filter \<Rightarrow> api_key_row list \<Rightarrow> api_key_row list" where
  "keys_shown getTime collate f rows = filtered_keys getTime collate (kf_query f) (kf_sort f) rows"

lemma blank_query [simp]: "to_lower (trim []) = []"
  by (simp add: trim_def to_lower_def)

interpretation user_filter: list_filter
  "\<lambda>f. user_matches (uf_query f) (uf_mail f)" "\<lambda>f. user_compare getTime collate (uf_sort f)" users_has_filters
  "\<lambda>f. users_bar_step f UserClear" for getTime collate
  by unfold_locales (auto simp: users_has_filters_def user_matches_def)

interpretation device_filter: list_filter
  "\<lambda>f. device_matches getTime now t (df_query f) (df_status f) (df_vehicle f)" "\<lambda>f. device_compare getTime collate (df_sort f)"
  devices_filtering "\<lambda>f. devices_bar_step f DeviceClear" for getTime now t collate
  by unfold_locales (auto simp: device_matches_def devices_filtering_def)

interpretation key_filter: list_filter
  "\<lambda>f. key_matches (kf_query f)" "\<lambda>f. key_compare getTime collate (kf_sort f)" keys_has_filters
  "\<lambda>f. keys_bar_step f KeyClear" for getTime collate
  by unfold_locales (auto simp: keys_has_filters_def key_matches_def)

lemmas shown_defs = users_shown_def filterAndSortUsers_def devices_shown_def filtered_devices_def keys_shown_def filtered_keys_def

text \<open>C38: The buttons that clear the filters keep their promise on all three pages: every row is shown again, in the
  order that was chosen; and the notice that nothing matches never hides rows without an active filter, so
  its button always brings rows back.\<close>

theorem clearing_filters:
  "users_shown getTime collate (users_bar_step uf UserClear) us = js_sort (user_compare getTime collate (uf_sort uf)) us \<and>
   devices_shown getTime now collate t (devices_bar_step df DeviceClear) ds = js_sort (device_compare getTime collate (df_sort df)) ds \<and>
   keys_shown getTime collate (keys_bar_step kf KeyClear) ks = js_sort (key_compare getTime collate (kf_sort kf)) ks \<and>
   \<not> users_has_filters (users_bar_step uf UserClear) \<and> \<not> keys_has_filters (keys_bar_step kf KeyClear) \<and>
   (if users_shown getTime collate uf us = [] then us = [] \<or> users_has_filters uf else True) \<and>
   (if devices_shown getTime now collate t df ds = []
    then ds = [] \<or> devices_filtering df else True) \<and>
   (if keys_shown getTime collate kf ks = [] then ks = [] \<or> keys_has_filters kf else True)"
  using user_filter.cleared_list [where getTime = getTime and collate = collate and f = uf and xs = us]
    device_filter.cleared_list [where getTime = getTime and now = now and t = t and collate = collate and f = df and xs = ds]
    key_filter.cleared_list [where getTime = getTime and collate = collate and f = kf and xs = ks]
    user_filter.nothing_shown [where getTime = getTime and collate = collate and f = uf and xs = us]
    device_filter.nothing_shown [where getTime = getTime and now = now and t = t and collate = collate and f = df and xs = ds]
    key_filter.nothing_shown [where getTime = getTime and collate = collate and f = kf and xs = ks]
    user_filter.clear_inactive [of uf] key_filter.clear_inactive [of kf]
  by (auto simp: shown_defs)

section \<open>Chips and counts\<close>

record chip =
  ch_label :: string
  ch_count :: "int option"
  ch_active :: bool
  ch_sets :: users_bar

definition email_chips :: "(user_email_filter \<Rightarrow> string) \<Rightarrow> user_filter_counts \<Rightarrow> users_filter \<Rightarrow> chip list" where
  "email_chips labels counts f =
     map (\<lambda>(e, n). \<lparr>ch_label = labels e, ch_count = n, ch_active = (uf_mail f = e), ch_sets = UserChip e\<rparr>)
       [(EmailAll, None), (EmailVerified, Some (ufc_verified counts)), (EmailUnverified, Some (ufc_unverified counts))]"

definition users_showing :: "string \<Rightarrow> 'a list \<Rightarrow> 'b list \<Rightarrow> string" where
  "users_showing template filtered users =
     interpolateTemplate [''shown'' \<mapsto> nat_str (length filtered), ''total'' \<mapsto> nat_str (length users)] template"

definition devices_summary :: "string \<Rightarrow> device_counts \<Rightarrow> string" where
  "devices_summary template c =
     interpolateTemplate [''total'' \<mapsto> int_str (dc_total c), ''online'' \<mapsto> int_str (dc_online c), ''stale'' \<mapsto> int_str (dc_stale c),
       ''offline'' \<mapsto> int_str (dc_offline c), ''never'' \<mapsto> int_str (dc_neverSeen c)] template"

definition keys_summary :: "string \<Rightarrow> api_key_row list \<Rightarrow> string" where
  "keys_summary template rows =
     interpolateTemplate [''total'' \<mapsto> nat_str (length rows), ''devices'' \<mapsto> nat_str (total_key_devices rows)] template"

definition keys_count :: "string \<Rightarrow> api_key_row list \<Rightarrow> api_key_row list \<Rightarrow> string" where
  "keys_count title filtered rows =
     (if length filtered = length rows then nat_str (length rows) @ '' '' @ to_lower title
      else nat_str (length filtered) @ '' / '' @ nat_str (length rows))"

text \<open>The chips over the users: exactly one is marked, the one of the filter in force; pressing one marks it; and
  with nothing typed, the number on a chip is the number of users that pressing it lists, whatever the
  filter and the order were before.\<close>

theorem chips_announce_lists:
  "length (filter ch_active (email_chips labels (computeFilterCounts users) f)) = 1 \<and>
   list_all (\<lambda>c. let f' = users_bar_step f (ch_sets c); shown = users_shown getTime collate (f'\<lparr>uf_query := []\<rparr>) users
       in map ch_active (email_chips labels (computeFilterCounts users) f') =
            map (\<lambda>d. ch_sets d = ch_sets c) (email_chips labels (computeFilterCounts users) f) \<and>
          ch_count c \<in> {None, Some (int (length shown))})
     (email_chips labels (computeFilterCounts users) f)"
  using user_badges_match_filters [of users getTime collate "uf_sort f"]
  by (cases "uf_mail f") (auto simp: email_chips_def users_shown_def Let_def)

text \<open>The line over the access keys: it has the form of a fraction exactly when the filter hides a key, and
  then the first number is the smaller one.\<close>

theorem keys_count_tells_hidden:
  "(if filter (key_matches (kf_query f)) rows = rows
    then keys_count title (keys_shown getTime collate f rows) rows = nat_str (length rows) @ '' '' @ to_lower title
    else \<exists>m. m < length rows \<and> keys_count title (keys_shown getTime collate f rows) rows = nat_str m @ '' / '' @ nat_str (length rows))"
proof -
  have len: "length (keys_shown getTime collate f rows) = length (filter (key_matches (kf_query f)) rows)"
    by (simp add: shown_defs length_filter_sort)
  have le: "length (filter (key_matches (kf_query f)) rows) = length rows \<longleftrightarrow> filter (key_matches (kf_query f)) rows = rows"
    by (metis filter_True length_filter_less linorder_not_less order_refl)
  show ?thesis
    using len le length_filter_le [of "key_matches (kf_query f)" rows] by (auto simp: keys_count_def le_less)
qed
end
