(* ===== verification/InFlight.thy ===== *)
theory InFlight
  imports ApiErrors
begin

text \<open>
  What the pages with requests under way have in common: the list of the requests that are not answered yet,
  how answering one changes the number of each kind, and that a page whose answers start at most one
  more request each runs out of requests.
\<close>

definition without_nth :: "nat \<Rightarrow> 'a list \<Rightarrow> 'a list" where
  "without_nth n xs = take n xs @ drop (Suc n) xs"

lemma without_nth_simps [simp]:
  "without_nth 0 (x # xs) = xs" "without_nth (Suc n) (x # xs) = x # without_nth n xs"
  by (simp_all add: without_nth_def)

lemma count_without_nth:
  "n < length xs \<Longrightarrow> length (filter P xs) = length (filter P (without_nth n xs)) + (if P (xs ! n) then 1 else 0)"
  unfolding without_nth_def by (subst id_take_nth_drop [of n xs]) simp_all

lemma in_without_nth: "x \<in> set (without_nth n xs) \<Longrightarrow> x \<in> set xs"
  by (auto simp: without_nth_def dest: in_set_takeD in_set_dropD)

text \<open>The wrapper of every service call, from the answer on.\<close>

lemma answer_toast [io_simps]:
  "withApiErrorToast (Pair (Inl e)) True s = (Inl (ApiObj (toError e)), pushed (error_toast (toError e)) s)"
  "withApiErrorToast (Pair (Inr r)) True s = (Inr r, s)"
  by (simp_all add: withApiErrorToast_def io_simps Let_def)

text \<open>How many answers a list of requests needs when each request that \<open>spawns\<close> may start one that does not.\<close>

definition flight_weight :: "('r \<Rightarrow> bool) \<Rightarrow> 'r list \<Rightarrow> nat" where
  "flight_weight spawns rs = length rs + length (filter spawns rs)"

lemma flight_weight_le: "flight_weight spawns rs \<le> 2 * length rs"
  using length_filter_le [of spawns rs] by (simp add: flight_weight_def)

lemma flight_weight_none: "flight_weight (\<lambda>_. False) rs = length rs"
  by (simp add: flight_weight_def)

locale answered_page =
  fixes flight :: "'s \<Rightarrow> 'r list" and answer :: "'a \<Rightarrow> 's \<Rightarrow> 's" and spawns :: "'r \<Rightarrow> bool"
  assumes at_rest: "flight s = [] \<Longrightarrow> flight (answer a s) = []"
    and one_answered: "flight s = r # rest \<Longrightarrow>
      \<exists>us. flight (answer a s) = rest @ us \<and> list_all (\<lambda>u. \<not> spawns u) us \<and> length us \<le> of_bool (spawns r)"
begin

lemma weight_answer: "flight_weight spawns (flight (answer a s)) \<le> flight_weight spawns (flight s) - 1"
proof (cases "flight s")
  case Nil
  then show ?thesis by (simp add: at_rest flight_weight_def)
next
  case (Cons r rest)
  obtain us where us: "flight (answer a s) = rest @ us" "list_all (\<lambda>u. \<not> spawns u) us" "length us \<le> of_bool (spawns r)"
    using one_answered [OF Cons] by blast
  have "filter spawns us = []" using us(2) by (auto simp: list_all_iff filter_empty_conv)
  then show ?thesis using Cons us by (cases "spawns r") (simp_all add: flight_weight_def)
qed

lemma all_answered: "flight_weight spawns (flight s) \<le> length as \<Longrightarrow> flight (fold answer as s) = []"
proof (induction as arbitrary: s)
  case (Cons a as)
  then have "flight_weight spawns (flight (answer a s)) \<le> length as" using weight_answer [of a s] by simp
  then show ?case using Cons.IH by simp
qed (simp add: flight_weight_def)

end

end
