(* ===== verification/UsersView.thy ===== *)
theory UsersView
  imports InFlight FilterBars AdminPages
begin

text \<open>
  The users page as a whole (\<open>features/users/UsersPage.tsx\<close>): its filter, its dialogs and the requests under way.
  A request is made by one event and answered by another, in any order and with anything in between; the
  handlers and the operations of the hooks are cut at their \<open>await\<close>, and lemmas show that the two halves
  make the whole.
\<close>

section \<open>The operations of the hooks, up to the request and from the answer on\<close>

definition users_asked :: "user_service \<Rightarrow> user_service" where
  "users_asked s = s\<lparr>usv_error := None, usv_isLoading := True, usv_users := [],
     w_sent := w_sent s @ [mk_request ApiClient GET ''/users'']\<rparr>"

definition users_answered :: "(thrown + user list envelope fetch_result) \<Rightarrow> unit user_act" where
  "users_answered out =
     io_finally
       (io_bind (withApiErrorToast (\<lambda>s. (out, s)) True) (\<lambda>r.
          case fr_data r of
            None \<Rightarrow> user_null_response ''get all users returned a null response''
          | Some response \<Rightarrow>
              (case env_data response of
                 None \<Rightarrow> io_throw null_property_error
               | Some us \<Rightarrow> setUsers (\<lambda>_. map plain_row us))))
       (usv_setIsLoading False)"

definition create_asked :: "create_user_dto \<Rightarrow> user_service \<Rightarrow> user_service" where
  "create_asked payload s = s\<lparr>usv_error := None, usv_isLoading := True,
     w_sent := w_sent s @ [(mk_request ApiClient POST ''/users'')\<lparr>rq_body := Some (create_user_body payload)\<rparr>]\<rparr>"

definition create_answered :: "(thrown + created_user envelope fetch_result) \<Rightarrow> created_user user_act" where
  "create_answered out =
     io_finally
       (io_bind (withApiErrorToast (\<lambda>s. (out, s)) True) (\<lambda>r.
          case fr_data r of
            None \<Rightarrow> user_null_response ''create user returned an invalid response''
          | Some response \<Rightarrow>
              (if env_status_code response \<noteq> 201 then user_null_response ''create user returned an invalid response''
               else case env_data response of
                 None \<Rightarrow> user_null_response ''create user returned an invalid response''
               | Some u \<Rightarrow> io_then (setUsers (\<lambda>prev. prev @ [created_row u])) (io_return u))))
       (usv_setIsLoading False)"

definition delete_asked :: "string \<Rightarrow> user_service \<Rightarrow> user_service" where
  "delete_asked i s = s\<lparr>usv_error := None, usv_isLoading := True,
     w_sent := w_sent s @ [mk_request ApiClient DELETE (users_path i)]\<rparr>"

definition delete_answered :: "string \<Rightarrow> (thrown + unit fetch_result) \<Rightarrow> unit user_act" where
  "delete_answered i out =
     io_finally (io_bind (withApiErrorToast (\<lambda>s. (out, s)) True) (\<lambda>_. setUsers (drop_key u_id i))) (usv_setIsLoading False)"

definition email_asked :: "welcome_email_request \<Rightarrow> email_service \<Rightarrow> email_service" where
  "email_asked q s = s\<lparr>esv_error := None, esv_messageId := None, esv_isLoading := True,
     w_sent := w_sent s @ [(mk_request ApiClient POST ''/email/welcome'')\<lparr>rq_body := Some (welcome_email_body q)\<rparr>]\<rparr>"

definition email_answered :: "(thrown + string envelope fetch_result) \<Rightarrow> bool email_act" where
  "email_answered out =
     io_finally
       (io_bind (withApiErrorToast (\<lambda>s. (out, s)) True) (\<lambda>r.
          let ok = (map_option env_status_code (fr_data r) = Some 202)
          in io_then (case Option.bind (fr_data r) env_data of
                 None \<Rightarrow> io_return ()
               | Some i \<Rightarrow> io_when ok (io_modify (\<lambda>s. s\<lparr>esv_messageId := Some i\<rparr>)))
             (io_return ok)))
       (io_modify (set_esv_loading False))"

lemma list_in_two_steps: "getAllUsers out s = users_answered out (users_asked s)"
  by (cases out) (simp_all add: getAllUsers_def users_answered_def users_asked_def withApiErrorToast_def service_defs set_usv_loading_def io_unfold)

lemma create_in_two_steps: "createUser payload out s = create_answered out (create_asked payload s)"
  by (cases out) (simp_all add: createUser_def create_answered_def create_asked_def withApiErrorToast_def service_defs set_usv_loading_def io_unfold)

lemma delete_in_two_steps: "deleteUser i out s = delete_answered i out (delete_asked i s)"
  by (cases out) (simp_all add: deleteUser_def delete_answered_def delete_asked_def withApiErrorToast_def service_defs set_usv_loading_def io_unfold)

lemma email_in_two_steps: "sendWelcomeEmail q out s = email_answered out (email_asked q s)"
  by (cases out) (simp_all add: sendWelcomeEmail_def email_answered_def email_asked_def withApiErrorToast_def esv_resetState_def
      set_esv_loading_def io_unfold)

section \<open>The page\<close>

datatype users_flight = FlightList | FlightDetail string | FlightCreate create_user_dto | FlightDelete user | FlightEmail created_user

record users_view =
  uv_page :: users_page
  uv_detail :: "string option"
  uv_filter :: users_filter
  uv_flight :: "users_flight list"

text \<open>What the backend answers: the part that fits the request is read.\<close>

record users_answer =
  ra_list :: "thrown + user list envelope fetch_result"
  ra_detail :: "thrown + user_with_devices envelope fetch_result"
  ra_create :: "thrown + created_user envelope fetch_result"
  ra_delete :: "thrown + unit fetch_result"
  ra_email :: "thrown + string envelope fetch_result"

definition ask_users :: "(user_service \<Rightarrow> user_service) \<Rightarrow> users_flight \<Rightarrow> users_view \<Rightarrow> users_view" where
  "ask_users f req s =
     s\<lparr>uv_page := put_users_hook (f (users_hook (uv_page s))) (uv_page s), uv_flight := uv_flight s @ [req]\<rparr>"

definition ask_email :: "users_strings \<Rightarrow> created_user \<Rightarrow> users_view \<Rightarrow> users_view" where
  "ask_email t u s =
     s\<lparr>uv_page := put_email_hook (email_asked (welcome_request t u) (email_hook (uv_page s))) (uv_page s),
       uv_flight := uv_flight s @ [FlightEmail u]\<rparr>"

text \<open>The handlers from the answer on. What a call that is neither awaited nor caught throws is logged.\<close>

fun users_settle :: "users_strings \<Rightarrow> users_flight \<Rightarrow> users_answer \<Rightarrow> users_view \<Rightarrow> users_view" where
  "users_settle t FlightList a s =
     s\<lparr>uv_page := snd (detached (on_part users_hook put_users_hook (users_answered (ra_list a))) (uv_page s))\<rparr>"
| "users_settle t (FlightDetail i) a s =
     s\<lparr>uv_page := snd (detached (on_part users_hook put_users_hook (user_answered (ra_detail a))) (uv_page s))\<rparr>"
| "users_settle t (FlightCreate d) a s =
     (case on_part users_hook put_users_hook (create_answered (ra_create a)) (uv_page s) of
        (Inl e, p) \<Rightarrow> s\<lparr>uv_page := p\<lparr>up_createLoading := False\<rparr>\<rparr>
      | (Inr u, p) \<Rightarrow>
          (let s1 = ask_email t u (s\<lparr>uv_page := snd (push_toast (person_toast (us_userCreated t) u) (p\<lparr>up_addOpen := False\<rparr>))\<rparr>)
           in s1\<lparr>uv_page := (uv_page s1)\<lparr>up_createLoading := False\<rparr>\<rparr>))"
| "users_settle t (FlightDelete u) a s =
     s\<lparr>uv_page := snd (io_finally
         (io_catch
           (io_then (on_part users_hook put_users_hook (delete_answered (u_id u) (ra_delete a)))
             (io_then (io_modify (\<lambda>p. p\<lparr>up_deleteTarget := None\<rparr>)) (push_toast (person_toast (us_userDeleted t) u))))
           (\<lambda>_. io_return ()))
         (io_modify (\<lambda>p. p\<lparr>up_deleteLoading := False\<rparr>)) (uv_page s))\<rparr>"
| "users_settle t (FlightEmail u) a s =
     s\<lparr>uv_page := snd (detached
         (io_bind (on_part email_hook put_email_hook (email_answered (ra_email a))) (\<lambda>ok.
            if ok then push_toast (person_toast (us_emailSent t) u) else io_modify (\<lambda>p. p\<lparr>up_createdUser := Some u\<rparr>))) (uv_page s))\<rparr>"

datatype users_event =
    UvRefresh
  | UvBar users_bar
  | UvShowAdd bool
  | UvCreate create_user_dto
  | UvOpenDetail string
  | UvCloseDetail
  | UvAskDelete string
  | UvCloseDelete
  | UvConfirmDelete
  | UvCloseTemp
  | UvAnswer nat users_answer

record users_env =
  ue_getTime :: "string \<Rightarrow> number"
  ue_collate :: "string \<Rightarrow> string \<Rightarrow> int"
  ue_texts :: users_strings

definition users_rows :: "users_env \<Rightarrow> users_view \<Rightarrow> user_row list" where
  "users_rows env s = users_shown (ue_getTime env) (ue_collate env) (uv_filter s) (usv_users (uv_page s))"

text \<open>The buttons of a dialog are there while it is open, and disabled while its request runs; a row has to be
  in the table.\<close>

fun users_step :: "users_env \<Rightarrow> users_event \<Rightarrow> users_view \<Rightarrow> users_view" where
  "users_step env UvRefresh s = ask_users users_asked FlightList s"
| "users_step env (UvBar e) s = s\<lparr>uv_filter := users_bar_step (uv_filter s) e\<rparr>"
| "users_step env (UvShowAdd b) s = s\<lparr>uv_page := (uv_page s)\<lparr>up_addOpen := b\<rparr>\<rparr>"
| "users_step env (UvCreate d) s =
     (if up_addOpen (uv_page s) \<and> \<not> up_createLoading (uv_page s)
      then ask_users (create_asked d) (FlightCreate d) (s\<lparr>uv_page := (uv_page s)\<lparr>up_createLoading := True\<rparr>\<rparr>) else s)"
| "users_step env (UvOpenDetail i) s =
     (case users_open (users_rows env s) i of
        None \<Rightarrow> s
      | Some u \<Rightarrow> (ask_users (user_asked (u_id u)) (FlightDetail (u_id u)) s)\<lparr>uv_detail := Some (u_id u)\<rparr>)"
| "users_step env UvCloseDetail s = s\<lparr>uv_detail := None\<rparr>"
| "users_step env (UvAskDelete i) s =
     (case users_action (users_rows env s) i ''delete'' of
        None \<Rightarrow> s | Some u \<Rightarrow> s\<lparr>uv_page := (uv_page s)\<lparr>up_deleteTarget := Some (user.truncate u)\<rparr>\<rparr>)"
| "users_step env UvCloseDelete s = s\<lparr>uv_page := (uv_page s)\<lparr>up_deleteTarget := None\<rparr>\<rparr>"
| "users_step env UvConfirmDelete s =
     (case up_deleteTarget (uv_page s) of
        None \<Rightarrow> s
      | Some u \<Rightarrow> if up_deleteLoading (uv_page s) then s
                  else ask_users (delete_asked (u_id u)) (FlightDelete u) (s\<lparr>uv_page := (uv_page s)\<lparr>up_deleteLoading := True\<rparr>\<rparr>))"
| "users_step env UvCloseTemp s = s\<lparr>uv_page := (uv_page s)\<lparr>up_createdUser := None\<rparr>\<rparr>"
| "users_step env (UvAnswer n a) s =
     (if n < length (uv_flight s)
      then users_settle (ue_texts env) (uv_flight s ! n) a (s\<lparr>uv_flight := without_nth n (uv_flight s)\<rparr>)
      else s)"

definition users_run :: "users_env \<Rightarrow> users_event list \<Rightarrow> users_view \<Rightarrow> users_view" where
  "users_run env es s = foldl (\<lambda>s e. users_step env e s) s es"

lemma users_run_simps [simp]:
  "users_run env [] s = s" "users_run env (e # es) s = users_run env es (users_step env e s)"
  by (simp_all add: users_run_def)

definition users_mount :: "world \<Rightarrow> users_view" where
  "users_mount w = ask_users users_asked FlightList
     \<lparr>uv_page = user_service.extend (world.extend w (user_service.fields False None [] None))
        (users_page.fields False None None False False None None False []),
      uv_detail = None, uv_filter = users_filter_start, uv_flight = []\<rparr>"

definition users_at :: "users_env \<Rightarrow> world \<Rightarrow> users_event list \<Rightarrow> users_view" where
  "users_at env w es = users_run env es (users_mount w)"

section \<open>The flags and the requests\<close>

fun is_create :: "users_flight \<Rightarrow> bool" where
  "is_create (FlightCreate d) = True" | "is_create _ = False"

fun is_delete :: "users_flight \<Rightarrow> bool" where
  "is_delete (FlightDelete u) = True" | "is_delete _ = False"

fun is_email :: "users_flight \<Rightarrow> bool" where
  "is_email (FlightEmail u) = True" | "is_email _ = False"

definition in_flight :: "(users_flight \<Rightarrow> bool) \<Rightarrow> users_view \<Rightarrow> nat" where
  "in_flight P s = length (filter P (uv_flight s))"

definition users_inv :: "users_view \<Rightarrow> bool" where
  "users_inv s \<longleftrightarrow>
     in_flight is_create s = of_bool (up_createLoading (uv_page s)) \<and>
     in_flight is_delete s = of_bool (up_deleteLoading (uv_page s)) \<and>
     (usv_isLoading (uv_page s) \<longrightarrow> 0 < in_flight (\<lambda>r. \<not> is_email r) s)"

text \<open>The flags of the page, which every settled request leaves as this lemma collection says.\<close>

definition page_flags :: "users_page \<Rightarrow> bool \<times> bool \<times> bool" where
  "page_flags p = (usv_isLoading p, up_createLoading p, up_deleteLoading p)"

lemma detached_keeps:
  "(\<And>p xs. g (p\<lparr>up_unhandled := xs\<rparr>) = g p) \<Longrightarrow> g (snd (detached m p)) = g (snd (m p))"
  by (cases "m p"; cases "fst (m p)") (auto simp: detached_def io_catch_def io_modify_def)

lemma flags_unhandled [simp]: "page_flags (p\<lparr>up_unhandled := xs\<rparr>) = page_flags p"
  by (simp add: page_flags_def)

lemma flags_hook: "page_flags (snd (on_part users_hook put_users_hook m p)) =
    (usv_isLoading (snd (m (users_hook p))), up_createLoading p, up_deleteLoading p)"
  by (simp add: page_flags_def on_part_def put_users_hook_def split: prod.split)

lemma flags_email: "page_flags (snd (on_part email_hook put_email_hook m p)) = page_flags p"
  by (simp add: page_flags_def on_part_def put_email_hook_def split: prod.split)

lemma users_answered_idle:
  "\<not> usv_isLoading (snd (users_answered out1 s))" "\<not> usv_isLoading (snd (create_answered out2 s))"
  "\<not> usv_isLoading (snd (delete_answered i out3 s))" "\<not> usv_isLoading (snd (user_answered out4 s))"
  by (simp_all add: users_answered_def create_answered_def delete_answered_def user_answered_def usv_setIsLoading_def
      usv_loading.finally_flag)

lemma flags_pushed [simp]: "page_flags (pushed b p) = page_flags p"
  by (simp add: page_flags_def pushed_def)

lemma flags_update [simp]:
  "page_flags (p\<lparr>up_addOpen := b\<rparr>) = page_flags p" "page_flags (p\<lparr>up_deleteTarget := x\<rparr>) = page_flags p"
  "page_flags (p\<lparr>up_createdUser := y\<rparr>) = page_flags p"
  "page_flags (p\<lparr>up_createLoading := c\<rparr>) = (fst (page_flags p), c, snd (snd (page_flags p)))"
  "page_flags (p\<lparr>up_deleteLoading := d\<rparr>) = (fst (page_flags p), fst (snd (page_flags p)), d)"
  by (simp_all add: page_flags_def)

lemma bind_keeps:
  "(\<And>x p. g (snd (f x p)) = g p) \<Longrightarrow> g (snd (io_bind m f p)) = g (snd (m p))"
  by (cases "m p"; cases "fst (m p)") (auto simp: io_bind_def)

lemma delete_settled:
  "page_flags (snd (io_finally
     (io_catch (io_then m (io_then (io_modify (\<lambda>p. p\<lparr>up_deleteTarget := None\<rparr>)) (push_toast b))) (\<lambda>_. io_return ()))
     (io_modify (\<lambda>p. p\<lparr>up_deleteLoading := False\<rparr>)) p)) =
   (fst (page_flags (snd (m p))), fst (snd (page_flags (snd (m p)))), False)"
  by (cases "m p"; cases "fst (m p)") (auto simp: io_simps)

lemma settle_flags:
  "page_flags (uv_page (users_settle t req a s)) =
     (if is_email req then usv_isLoading (uv_page s) else False,
      if is_create req then False else up_createLoading (uv_page s),
      if is_delete req then False else up_deleteLoading (uv_page s))"
proof (cases req)
  case FlightList
  then show ?thesis by (simp add: detached_keeps [where g = page_flags] flags_hook users_answered_idle)
next
  case (FlightDetail i)
  then show ?thesis by (simp add: detached_keeps [where g = page_flags] flags_hook users_answered_idle)
next
  case (FlightCreate d)
  obtain r p where rp: "on_part users_hook put_users_hook (create_answered (ra_create a)) (uv_page s) = (r, p)" by fastforce
  have p: "page_flags p = (False, up_createLoading (uv_page s), up_deleteLoading (uv_page s))"
    using flags_hook [of "create_answered (ra_create a)" "uv_page s"] users_answered_idle(2) rp by simp
  have email: "page_flags (put_email_hook x q) = page_flags q" for x q
    by (simp add: page_flags_def put_email_hook_def)
  show ?thesis using FlightCreate rp p
    by (cases r) (simp_all add: ask_email_def Let_def email io_simps)
next
  case (FlightDelete u)
  then show ?thesis by (simp add: delete_settled flags_hook users_answered_idle)
next
  case (FlightEmail u)
  have ends: "page_flags (snd ((if ok then push_toast (person_toast (us_emailSent t) u)
      else io_modify (\<lambda>p. p\<lparr>up_createdUser := Some u\<rparr>)) p)) = page_flags p" for ok p
    by (simp add: io_simps)
  have "page_flags (uv_page (users_settle t req a s)) = page_flags (uv_page s)"
    unfolding FlightEmail users_settle.simps
    by (simp add: detached_keeps [where g = page_flags] bind_keeps [where g = page_flags, OF ends] flags_email)
  then show ?thesis using FlightEmail by (simp add: page_flags_def)
qed

lemma settle_flight:
  "\<exists>us. uv_flight (users_settle t req a s) = uv_flight s @ us \<and> list_all is_email us \<and> (us = [] \<or> is_create req \<and> length us = 1)"
proof (cases req)
  case (FlightCreate d)
  then show ?thesis by (auto simp: ask_email_def Let_def split: prod.split sum.split)
qed auto

lemma users_inv_answer:
  assumes inv: "users_inv s" and n: "n < length (uv_flight s)"
  shows "users_inv (users_step env (UvAnswer n a) s)"
proof -
  define req where "req = uv_flight s ! n"
  define s0 where "s0 = s\<lparr>uv_flight := without_nth n (uv_flight s)\<rparr>"
  define s' where "s' = users_settle (ue_texts env) req a s0"
  obtain us where us: "uv_flight s' = uv_flight s0 @ us" "list_all is_email us"
    using settle_flight s'_def by blast
  have new: "filter P us = []" if "\<And>r. is_email r \<Longrightarrow> \<not> P r" for P
    using us(2) that by (auto simp: list_all_iff filter_empty_conv)
  have no_create: "filter is_create us = []" by (rule new) (metis is_create.simps is_email.elims(2))
  have no_delete: "filter is_delete us = []" by (rule new) (metis is_delete.simps is_email.elims(2))
  have no_hook: "filter (\<lambda>r. \<not> is_email r) us = []" by (rule new) simp
  have flags: "page_flags (uv_page s') =
     (if is_email req then usv_isLoading (uv_page s) else False,
      if is_create req then False else up_createLoading (uv_page s),
      if is_delete req then False else up_deleteLoading (uv_page s))"
    using settle_flags [of "ue_texts env" req a s0] by (simp add: s'_def s0_def)
  have gone: "in_flight P s = in_flight P s0 + (if P req then 1 else 0)" for P
    using count_without_nth [OF n, of P] by (simp add: in_flight_def s0_def req_def)
  have stays: "in_flight is_create s' = in_flight is_create s0" "in_flight is_delete s' = in_flight is_delete s0"
    "in_flight (\<lambda>r. \<not> is_email r) s' = in_flight (\<lambda>r. \<not> is_email r) s0"
    by (simp_all add: in_flight_def us(1) no_create no_delete no_hook)
  have "users_inv s'"
    using inv flags gone [of is_create] gone [of is_delete] gone [of "\<lambda>r. \<not> is_email r"]
    unfolding users_inv_def stays by (cases req) (auto simp: page_flags_def of_bool_def split: if_splits)
  then show ?thesis using n by (simp add: s'_def s0_def req_def)
qed

lemma in_flight_ask [simp]: "in_flight P (ask_users f req s) = in_flight P s + (if P req then 1 else 0)"
  by (simp add: in_flight_def ask_users_def)

lemma ask_flags [simp]:
  "up_createLoading (uv_page (ask_users f req s)) = up_createLoading (uv_page s)"
  "up_deleteLoading (uv_page (ask_users f req s)) = up_deleteLoading (uv_page s)"
  by (simp_all add: ask_users_def put_users_hook_def)

lemma in_flight_other [simp]:
  "in_flight P (s\<lparr>uv_page := p\<rparr>) = in_flight P s" "in_flight P (s\<lparr>uv_filter := f\<rparr>) = in_flight P s"
  "in_flight P (s\<lparr>uv_detail := d\<rparr>) = in_flight P s"
  by (simp_all add: in_flight_def)

lemma users_inv_step:
  assumes "users_inv s"
  shows "users_inv (users_step env e s)"
proof (cases e)
  case (UvAnswer n a)
  then show ?thesis
  proof (cases "n < length (uv_flight s)")
    case True
    then show ?thesis using users_inv_answer [OF assms] UvAnswer by simp
  qed (use assms in simp)
next
  case (UvOpenDetail i)
  then show ?thesis using assms by (auto simp: users_inv_def split: option.split)
next
  case (UvAskDelete i)
  then show ?thesis using assms by (auto simp: users_inv_def split: option.split)
next
  case UvConfirmDelete
  then show ?thesis using assms by (auto simp: users_inv_def split: option.split)
qed (use assms in \<open>auto simp: users_inv_def\<close>)

lemma users_inv_run: "users_inv s \<Longrightarrow> users_inv (users_run env es s)"
  by (induction es arbitrary: s) (simp_all add: users_inv_step)

lemma users_at_inv: "users_inv (users_at env w es)"
  unfolding users_at_def
  by (rule users_inv_run) (simp add: users_inv_def users_mount_def in_flight_def ask_users_def put_users_hook_def
      user_service.defs world.defs users_page.defs)

text \<open>The users page asks for one creation and one deletion at a time: while the request of a dialog is under way
  its button is busy, and it is busy at no other time, however the dialogs are opened and closed, whatever
  else is loaded, and in whatever order the answers come. The loading flag of the list never stays without a
  request behind it.\<close>

theorem users_page_requests:
  "let s = users_at env w es; p = uv_page s in
     length (filter is_create (uv_flight s)) = (if up_createLoading p then 1 else 0) \<and>
     length (filter is_delete (uv_flight s)) = (if up_deleteLoading p then 1 else 0) \<and>
     (if list_all is_email (uv_flight s) then \<not> usv_isLoading p else True)"
proof -
  have "users_inv (users_at env w es)" by (rule users_at_inv)
  moreover have "in_flight (\<lambda>r. \<not> is_email r) s = 0" if "list_all is_email (uv_flight s)" for s
    using that by (auto simp: in_flight_def filter_empty_conv list_all_iff)
  ultimately show ?thesis by (auto simp: Let_def users_inv_def in_flight_def)
qed

section \<open>Every answer\<close>

definition users_answers :: "nat \<Rightarrow> (nat \<Rightarrow> users_answer) \<Rightarrow> users_event list" where
  "users_answers n f = map (\<lambda>i. UvAnswer 0 (f i)) [0..<n]"

text \<open>A creation sends one more request, its email.\<close>

interpretation users_flights: answered_page uv_flight "\<lambda>a. users_step env (UvAnswer 0 a)" is_create for env
proof
  fix s :: users_view and r rest a assume flight: "uv_flight s = r # rest"
  obtain us where us: "uv_flight (users_settle (ue_texts env) r a (s\<lparr>uv_flight := rest\<rparr>)) = rest @ us" "list_all is_email us"
      "us = [] \<or> is_create r \<and> length us = 1"
    using settle_flight [of "ue_texts env" r a "s\<lparr>uv_flight := rest\<rparr>"] by auto
  have "list_all (\<lambda>u. \<not> is_create u) us"
    using us(2) by (auto simp: list_all_iff) (metis is_create.simps is_email.elims(2))
  then show "\<exists>us. uv_flight (users_step env (UvAnswer 0 a) s) = rest @ us \<and> list_all (\<lambda>u. \<not> is_create u) us \<and>
      length us \<le> of_bool (is_create r)"
    using flight us by auto
qed simp

lemma users_answers_fold: "users_run env (users_answers n f) s = fold (\<lambda>a. users_step env (UvAnswer 0 a)) (map f [0..<n]) s"
  by (simp add: users_run_def users_answers_def foldl_conv_fold fold_map comp_def)

text \<open>C37: The users page comes to rest: once every request under way is answered, each in whatever way, the email of a
  creation included, nothing on the page is loading: no spinner of the list, of a creation or of a deletion.\<close>

theorem users_page_settles:
  "let s = users_at env w es; s' = users_run env (users_answers (2 * length (uv_flight s)) f) s; p = uv_page s' in
     uv_flight s' = [] \<and> \<not> usv_isLoading p \<and> \<not> up_createLoading p \<and> \<not> up_deleteLoading p"
proof -
  let ?s = "users_at env w es"
  let ?s' = "users_run env (users_answers (2 * length (uv_flight ?s)) f) ?s"
  have empty: "uv_flight ?s' = []"
    unfolding users_answers_fold by (rule users_flights.all_answered) (simp add: flight_weight_le)
  have "users_inv ?s'" by (intro users_inv_run users_at_inv)
  then show ?thesis using empty by (simp add: Let_def users_inv_def in_flight_def)
qed

section \<open>What the page shows\<close>

record users_page_texts =
  ut_failedToLoad :: string
  ut_noUsersTitle :: string
  ut_noUsersMessage :: string
  ut_showing :: string

definition users_alert :: "users_page_texts \<Rightarrow> users_view \<Rightarrow> (string \<times> string) option" where
  "users_alert x s = map_option (\<lambda>e. (ut_failedToLoad x, err_message e)) (usv_error (uv_page s))"

definition users_result_row :: "users_env \<Rightarrow> users_page_texts \<Rightarrow> users_view \<Rightarrow> string \<times> bool" where
  "users_result_row env x s =
     (users_showing (ut_showing x) (users_rows env s) (usv_users (uv_page s)), users_has_filters (uv_filter s))"

definition users_page_body :: "users_env \<Rightarrow> users_page_texts \<Rightarrow> users_view \<Rightarrow> list_body" where
  "users_page_body env x s =
     users_body (ue_getTime env) (ue_collate env) (ut_noUsersTitle x) (ut_noUsersMessage x) (uf_query (uv_filter s))
       (uf_mail (uv_filter s)) (uf_sort (uv_filter s)) (users_hook (uv_page s))"

definition detail_user :: "users_view \<Rightarrow> user_with_devices option" where
  "detail_user s = (if uv_detail s = None then None else usv_user (uv_page s))"

definition users_reply :: "user list \<Rightarrow> thrown + user list envelope fetch_result" where
  "users_reply us = fetched \<lparr>env_status_code = 200, env_message = [], env_data = Some us\<rparr>"

definition created_reply :: "created_user \<Rightarrow> thrown + created_user envelope fetch_result" where
  "created_reply u = fetched \<lparr>env_status_code = 201, env_message = [], env_data = Some u\<rparr>"

definition users_loaded :: "users_env \<Rightarrow> world \<Rightarrow> users_answer \<Rightarrow> user list \<Rightarrow> users_view" where
  "users_loaded env w a us = users_at env w [UvAnswer 0 (a\<lparr>ra_list := users_reply us\<rparr>)]"

lemma list_settled:
  "users_answered (users_reply us) s = (Inr (), s\<lparr>usv_users := map plain_row us, usv_isLoading := False\<rparr>)"
  "users_answered (Inl e) s = (Inl (ApiObj (toError e)), (pushed (error_toast (toError e)) s)\<lparr>usv_isLoading := False\<rparr>)"
  by (simp_all add: users_answered_def users_reply_def fetched_def withApiErrorToast_def service_defs set_usv_loading_def io_simps Let_def)

lemma detail_settled:
  "user_answered (user_answer d) s = (Inr (), s\<lparr>usv_user := Some d, usv_isLoading := False\<rparr>)"
  by (simp add: user_answered_def user_answer_def fetched_def withApiErrorToast_def service_defs set_usv_loading_def io_unfold)

lemma create_settled:
  "create_answered (created_reply c) s = (Inr c, s\<lparr>usv_users := usv_users s @ [created_row c], usv_isLoading := False\<rparr>)"
  by (simp add: create_answered_def created_reply_def fetched_def withApiErrorToast_def service_defs set_usv_loading_def io_unfold)

lemmas view_defs = users_at_def users_mount_def ask_users_def ask_email_def detached_def on_part_def users_asked_def

lemma loaded_eq:
  "users_loaded env w a us =
     (let s = users_mount w
      in s\<lparr>uv_page := (uv_page s)\<lparr>usv_users := map plain_row us, usv_isLoading := False\<rparr>, uv_flight := []\<rparr>)"
  by (simp add: users_loaded_def view_defs list_settled Let_def io_simps hook_defs users_page.defs)

lemma failed_list:
  "let failed = users_at env w [UvAnswer 0 (a\<lparr>ra_list := Inl e\<rparr>)]
   in usv_users (uv_page failed) = [] \<and> \<not> usv_isLoading (uv_page failed) \<and> usv_error (uv_page failed) = None \<and>
      up_unhandled (uv_page failed) = [ApiObj (toError e)] \<and> uv_filter failed = users_filter_start"
  by (simp add: view_defs list_settled Let_def io_simps hook_defs users_page.defs pushed_def)

lemma mount_fields:
  "uv_filter (users_mount w) = users_filter_start" "up_addOpen (uv_page (users_mount w)) = False"
  "up_createLoading (uv_page (users_mount w)) = False" "up_deleteLoading (uv_page (users_mount w)) = False"
  by (simp_all add: view_defs hook_defs users_page.defs)

lemma body_empty:
  "usv_users (uv_page s) = [] \<Longrightarrow> \<not> usv_isLoading (uv_page s) \<Longrightarrow>
   users_page_body env x s = ListEmpty (ut_noUsersTitle x) (ut_noUsersMessage x)"
  by (simp add: users_page_body_def users_body_def list_body_def hook_defs)

lemma waiting_list:
  "let one = users_loaded env w a [u\<lparr>u_id := ''u1''\<rparr>];
       waiting = users_run env [UvOpenDetail ''u1'', UvRefresh, UvAnswer 0 (a\<lparr>ra_detail := user_answer d\<rparr>)] one
   in usv_users (uv_page waiting) = [] \<and> \<not> usv_isLoading (uv_page waiting) \<and> uv_flight waiting = [FlightList]"
  by (simp add: loaded_eq Let_def users_rows_def users_shown_def filterAndSortUsers_def filter_sort_def mount_fields users_filter_start_def
      user_matches_def users_open_def plain_row_def user.defs ask_users_def users_asked_def user_asked_def detail_settled on_part_def
      detached_def io_simps put_users_hook_def users_hook_def user_service.defs)

lemma late_list:
  "let one = users_loaded env w a [u];
       late = users_run env [UvRefresh, UvShowAdd True, UvCreate payload, UvAnswer 1 (a\<lparr>ra_create := created_reply c\<rparr>),
                UvAnswer 0 (a\<lparr>ra_list := users_reply us\<rparr>)] one
   in usv_users (uv_page late) = map plain_row us \<and> uv_flight late = [FlightEmail c] \<and>
      t_title (last (w_toasts (uv_page late))) = tx_title (us_userCreated (ue_texts env))"
  by (simp add: loaded_eq Let_def mount_fields ask_users_def ask_email_def users_asked_def create_asked_def email_asked_def create_settled
      list_settled on_part_def detached_def io_simps put_users_hook_def users_hook_def put_email_hook_def email_hook_def
      user_service.defs world.defs pushed_def person_toast_def mk_toast_def)

text \<open>Three things the users page says that are not so. When the list cannot be loaded it says that there are no
  users, without an alert; the failure is not even handled. When the list is loaded again while the details
  of a user are on their way, their arrival turns the wait for the list into the notice that there are no
  users. And a list asked for before a user was created, arriving after it, takes the new user off the page
  that has just announced it.\<close>

theorem users_list_misreported:
  "let failed = users_at env w [UvAnswer 0 (a\<lparr>ra_list := Inl e\<rparr>)];
       one = users_loaded env w a [u\<lparr>u_id := ''u1''\<rparr>];
       waiting = users_run env [UvOpenDetail ''u1'', UvRefresh, UvAnswer 0 (a\<lparr>ra_detail := user_answer d\<rparr>)] one;
       late = users_run env [UvRefresh, UvShowAdd True, UvCreate payload, UvAnswer 1 (a\<lparr>ra_create := created_reply c\<rparr>),
                UvAnswer 0 (a\<lparr>ra_list := users_reply us\<rparr>)] one
   in users_page_body env x failed = ListEmpty (ut_noUsersTitle x) (ut_noUsersMessage x) \<and> users_alert x failed = None \<and>
      up_unhandled (uv_page failed) = [ApiObj (toError e)] \<and>
      users_page_body env x waiting = ListEmpty (ut_noUsersTitle x) (ut_noUsersMessage x) \<and> uv_flight waiting = [FlightList] \<and>
      usv_users (uv_page late) = map plain_row us \<and> uv_flight late = [FlightEmail c] \<and>
      t_title (last (w_toasts (uv_page late))) = tx_title (us_userCreated (ue_texts env))"
  using failed_list [where env = env and w = w and a = a and e = e] waiting_list [where env = env and w = w and a = a and u = u and d = d]
    late_list [where env = env and w = w and a = a and u = "u\<lparr>u_id := ''u1''\<rparr>" and payload = payload and c = c and us = us]
  by (simp only: Let_def) (simp add: body_empty users_alert_def)
end
