(* ===== verification/ProfileViews.thy ===== *)
theory ProfileViews
  imports InFlight AdminViews AdminPages
begin

text \<open>
  What is shown of one person: the dialog with the details of a user (\<open>modal/UserDetailModal.tsx\<close>) and the
  profile page (\<open>features/profile/ProfilePage.tsx\<close>), with the requests of the page under way.
\<close>

definition middle_dot :: string where "middle_dot = [CHR 0xB7]"

section \<open>The detail dialog\<close>

record detail_texts =
  dtx_accountId :: string
  dtx_emailVerification :: string
  dtx_password :: string
  dtx_memberSince :: string
  dtx_role :: string
  dtx_devicesAccess :: string
  dtx_noDevices :: string

record detail_view =
  dtv_initials :: string
  dtv_name :: string
  dtv_mail :: string
  dtv_tags :: "pill list"
  dtv_rows :: "(string \<times> string) list"
  dtv_copied :: string
  dtv_devicesTitle :: string
  dtv_devices :: "(string \<times> string) list"
  dtv_empty :: "string option"

definition user_detail_modal ::
  "card_env \<Rightarrow> user_labels \<Rightarrow> detail_texts \<Rightarrow> user_with_devices option \<Rightarrow> detail_view option" where
  "user_detail_modal env l t shown =
     (case shown of
        None \<Rightarrow> None
      | Some u \<Rightarrow>
          (let devices = uwd_devices u;
               role = role_pill (u_role u) (ul_superAdmin l) (ul_user l);
               email = email_pill (u_email_verified u) (ul_verified l) (ul_unverified l)
           in Some
            \<lparr>dtv_initials = getInitials (full_name u), dtv_name = full_name u, dtv_mail = u_email u,
             dtv_tags = [role, email] @
               (if u_must_change_password u then [password_pill True (ul_passwordOk l) (ul_changeRequired l)] else []),
             dtv_rows =
               [(dtx_accountId t, u_id u), (''Email'', u_email u), (dtx_emailVerification t, pl_label email),
                (dtx_password t, pl_label (password_pill (u_must_change_password u) (ul_passwordOk l) (ul_changeRequired l))),
                (dtx_memberSince t, formatDate (ce_getTime env) (ce_lang env) (Some (u_created_at u)) @ middle_dot @ '' '' @
                   relative_text env (Some (u_created_at u))),
                (dtx_role t, pl_label role)],
             dtv_copied = u_id u,
             dtv_devicesTitle = interpolateTemplate [''count'' \<mapsto> nat_str (length devices)] (dtx_devicesAccess t),
             dtv_devices = map (\<lambda>d. (ud_name d, ud_uuid_firmware d)) devices,
             dtv_empty = (if devices = [] then Some (dtx_noDevices t) else None)\<rparr>))"

section \<open>The profile\<close>

record profile_texts =
  pt_failedToLoad :: string
  pt_failedToLoadDescription :: string
  pt_superAdmin :: string
  pt_user :: string
  pt_eyebrow :: string
  pt_joined :: string
  pt_id :: string
  pt_fullName :: string
  pt_email :: string
  pt_verified :: string
  pt_unverified :: string
  pt_role :: string
  pt_memberSince :: string
  pt_userId :: string
  pt_devicesSummary :: string
  pt_devicesEmpty :: string

datatype profile_screen = ProfileLoading | ProfileFailed string string | ProfileShown user_with_devices

definition profile_render :: "profile_texts \<Rightarrow> profile_page \<Rightarrow> profile_screen" where
  "profile_render t p =
     (if a_user (w_auth p) = None \<or> (usv_isLoading p \<and> usv_user p = None) then ProfileLoading
      else case usv_user p of
        None \<Rightarrow> ProfileFailed (pt_failedToLoad t) (nullish (map_option err_message (usv_error p)) (pt_failedToLoadDescription t))
      | Some u \<Rightarrow> ProfileShown u)"

definition profile_name :: "user_with_devices \<Rightarrow> string" where
  "profile_name u = (let name = trim (u_name u @ '' '' @ u_lastname u) in if name \<noteq> [] then name else u_email u)"

definition role_label :: "profile_texts \<Rightarrow> user_with_devices \<Rightarrow> string" where
  "role_label t u = (if u_role u = RoleSuperAdmin then pt_superAdmin t else pt_user t)"

definition profile_joined :: "card_env \<Rightarrow> user_with_devices \<Rightarrow> string" where
  "profile_joined env u = formatDate (ce_getTime env) (ce_lang env) (Some (u_created_at u))"

text \<open>The heading: above the title, the initials, and the line under the name.\<close>

definition profile_eyebrow :: "profile_texts \<Rightarrow> user_with_devices \<Rightarrow> string" where
  "profile_eyebrow t u = pt_eyebrow t @ '' '' @ middle_dot @ '' '' @ role_label t u"

definition profile_hero :: "card_env \<Rightarrow> profile_texts \<Rightarrow> user_with_devices \<Rightarrow> string list" where
  "profile_hero env t u =
     [getInitials (full_name u), profile_name u, role_label t u, u_email u, pt_joined t @ '' '' @ profile_joined env u,
      pt_id t @ '' '' @ u_id u]"

definition account_rows :: "card_env \<Rightarrow> profile_texts \<Rightarrow> user_with_devices \<Rightarrow> (string \<times> string list) list" where
  "account_rows env t u =
     [(pt_fullName t, [profile_name u]),
      (pt_email t, [u_email u, if u_email_verified u then pt_verified t else pt_unverified t]),
      (pt_role t, [role_label t u]),
      (pt_memberSince t, [profile_joined env u]),
      (pt_userId t, [u_id u])]"

record devices_card =
  dcd_count :: string
  dcd_devices :: "(string \<times> string) list"
  dcd_empty :: "string option"
  dcd_summary :: string

definition profile_devices :: "profile_texts \<Rightarrow> user_with_devices \<Rightarrow> devices_card" where
  "profile_devices t u =
     (let total = int_str (pm_total (uwd_pagination u))
      in \<lparr>dcd_count = total,
          dcd_devices = map (\<lambda>d. (ud_name d, ud_uuid_firmware d)) (uwd_devices u),
          dcd_empty = (if 0 < length (uwd_devices u) then None else Some (pt_devicesEmpty t)),
          dcd_summary = interpolateTemplate [''shown'' \<mapsto> nat_str (length (uwd_devices u)), ''total'' \<mapsto> total] (pt_devicesSummary t)\<rparr>)"

text \<open>One person reads the same everywhere: the row of the users table, the detail dialog and the profile agree on
  the initials and on the address, the dialog repeats the name and the first two pills of the row, and the profile
  never shows an empty name for an account with an address. The lists of devices agree too, but not what is said of
  their number: the dialog counts the devices it was sent, which is one page of them, the profile the
  total.\<close>

theorem person_views_agree:
  "let row = hd (user_lines env l [u]); box = the (user_detail_modal env l dt (Some u)); card = profile_devices t u
   in uln_initials row = dtv_initials box \<and> dtv_initials box = hd (profile_hero env t u) \<and>
      uln_name row = dtv_name box \<and> uln_mail row = dtv_mail box \<and> take 2 (uln_pills row) = take 2 (dtv_tags box) \<and>
      (length (dtv_tags box) = 3 \<longleftrightarrow> u_must_change_password u) \<and>
      (profile_name u = [] \<longleftrightarrow> u_email u = [] \<and> trim (u_name u @ '' '' @ u_lastname u) = []) \<and>
      dtv_devices box = dcd_devices card \<and> (dtv_empty box = None \<longleftrightarrow> dcd_empty card = None) \<and>
      user_detail_modal env l (dt\<lparr>dtx_devicesAccess := ''{count}''\<rparr>) (Some u) =
        Some (box\<lparr>dtv_devicesTitle := nat_str (length (uwd_devices u))\<rparr>) \<and>
      dcd_count card = int_str (pm_total (uwd_pagination u))"
  by (simp add: user_lines_def user_detail_modal_def profile_devices_def profile_hero_def profile_name_def Let_def is_word_def)

section \<open>The profile page and its requests\<close>

definition update_asked :: "string \<Rightarrow> update_user_dto \<Rightarrow> user_service \<Rightarrow> user_service" where
  "update_asked i payload s = s\<lparr>usv_error := None, usv_isLoading := True,
     w_sent := w_sent s @ [(mk_request ApiClient PUT (users_path i))\<lparr>rq_body := Some (update_user_body payload)\<rparr>]\<rparr>"

datatype profile_flight = FlightProfile | FlightSave string

record profile_view =
  pv_page :: profile_page
  pv_flight :: "profile_flight list"

record profile_answer =
  fa_detail :: "thrown + user_with_devices envelope fetch_result"
  fa_update :: "thrown + user envelope fetch_result"

definition ask_profile :: "(user_service \<Rightarrow> user_service) \<Rightarrow> profile_flight \<Rightarrow> profile_view \<Rightarrow> profile_view" where
  "ask_profile f req s =
     s\<lparr>pv_page := put_profile_hook (f (profile_hook (pv_page s))) (pv_page s), pv_flight := pv_flight s @ [req]\<rparr>"

text \<open>The effect on the id of the signed-in user, and \<open>reload\<close>: nothing without an id.\<close>

definition profile_reload :: "profile_view \<Rightarrow> profile_view" where
  "profile_reload s =
     (case map_option au_id (a_user (w_auth (pv_page s))) of
        None \<Rightarrow> s
      | Some i \<Rightarrow> if i = [] then s else ask_profile (user_asked i) FlightProfile s)"

definition update_answered :: "string \<Rightarrow> (thrown + user envelope fetch_result) \<Rightarrow> unit user_act" where
  "update_answered i out =
     io_finally
       (io_bind (withApiErrorToast (\<lambda>s. (out, s)) True) (\<lambda>r.
          case Option.bind (fr_data r) env_data of
            None \<Rightarrow> user_null_response ''update user returned a null response''
          | Some updated \<Rightarrow>
              io_then (setUsers (update_key u_id i (\<lambda>_. plain_row updated)))
              (usv_setUser (\<lambda>prev. case prev of None \<Rightarrow> None
                 | Some u \<Rightarrow> if u_id u = i then Some (merge_user u updated) else prev))))
       (usv_setIsLoading False)"

lemma update_in_two_steps: "updateUser i payload out s = update_answered i out (update_asked i payload s)"
  by (cases out) (simp_all add: updateUser_def update_answered_def update_asked_def withApiErrorToast_def service_defs
      set_usv_loading_def io_unfold)

text \<open>A refusal of the update is thrown on to the dialog; a failed load ends in the error of the hook.\<close>

fun profile_settle :: "text_pair \<Rightarrow> profile_flight \<Rightarrow> profile_answer \<Rightarrow> profile_page \<Rightarrow> profile_page" where
  "profile_settle t FlightProfile a p =
     snd (io_catch (on_part profile_hook put_profile_hook (user_answered (fa_detail a))) (\<lambda>_. io_return ()) p)"
| "profile_settle t (FlightSave i) a p =
     snd (io_then (on_part profile_hook put_profile_hook (update_answered i (fa_update a)))
       (io_then (io_modify (\<lambda>p. p\<lparr>pp_editOpen := False\<rparr>)) (push_toast (mk_toast ToastSuccess (tx_title t) (tx_message t)))) p)"

datatype profile_event = PvReload | PvEdit bool | PvSave update_user_dto | PvAnswer nat profile_answer

fun profile_step :: "text_pair \<Rightarrow> profile_event \<Rightarrow> profile_view \<Rightarrow> profile_view" where
  "profile_step t PvReload s =
     (if a_user (w_auth (pv_page s)) = None \<or> (usv_isLoading (pv_page s) \<and> usv_user (pv_page s) = None) then s else profile_reload s)"
| "profile_step t (PvEdit b) s =
     (if usv_user (pv_page s) = None then s else s\<lparr>pv_page := (pv_page s)\<lparr>pp_editOpen := b\<rparr>\<rparr>)"
| "profile_step t (PvSave payload) s =
     (case usv_user (pv_page s) of
        None \<Rightarrow> s
      | Some u \<Rightarrow> if pp_editOpen (pv_page s) then ask_profile (update_asked (u_id u) payload) (FlightSave (u_id u)) s else s)"
| "profile_step t (PvAnswer n a) s =
     (if n < length (pv_flight s)
      then s\<lparr>pv_page := profile_settle t (pv_flight s ! n) a (pv_page s),
             pv_flight := without_nth n (pv_flight s)\<rparr>
      else s)"

definition profile_run :: "text_pair \<Rightarrow> profile_event list \<Rightarrow> profile_view \<Rightarrow> profile_view" where
  "profile_run t es s = foldl (\<lambda>s e. profile_step t e s) s es"

lemma profile_view_run_simps [simp]:
  "profile_run t [] s = s" "profile_run t (e # es) s = profile_run t es (profile_step t e s)"
  by (simp_all add: profile_run_def)

lemma profile_run_append: "profile_run t (es @ fs) s = profile_run t fs (profile_run t es s)"
  by (simp add: profile_run_def)

text \<open>The first render, before any effect, and the page after its effect.\<close>

definition profile_first :: "auth_user \<Rightarrow> world \<Rightarrow> profile_page" where
  "profile_first v w =
     user_service.extend (world.extend (w\<lparr>w_auth := (w_auth w)\<lparr>a_user := Some v\<rparr>\<rparr>) (user_service.fields False None [] None))
       (profile_page.fields False)"

definition profile_at :: "text_pair \<Rightarrow> auth_user \<Rightarrow> world \<Rightarrow> profile_event list \<Rightarrow> profile_view" where
  "profile_at t v w es = profile_run t es (profile_reload \<lparr>pv_page = profile_first v w, pv_flight = []\<rparr>)"

definition profile_inv :: "profile_view \<Rightarrow> bool" where
  "profile_inv s \<longleftrightarrow> a_user (w_auth (pv_page s)) \<noteq> None \<and> (usv_isLoading (pv_page s) \<longrightarrow> pv_flight s \<noteq> [])"

lemma hook_auth:
  "w_auth (snd (user_answered out s)) = w_auth s" "w_auth (snd (update_answered i out' s)) = w_auth s"
proof -
  show "w_auth (snd (user_answered out s)) = w_auth s"
  proof (cases out)
    case (Inr r)
    then show ?thesis
      by (cases "fr_data r") (simp_all add: user_answered_def withApiErrorToast_def service_defs set_usv_loading_def io_simps Let_def)
  qed (simp add: user_answered_def withApiErrorToast_def service_defs set_usv_loading_def io_simps Let_def)
  show "w_auth (snd (update_answered i out' s)) = w_auth s"
  proof (cases out')
    case (Inr r)
    then show ?thesis
      by (cases "Option.bind (fr_data r) env_data")
        (simp_all add: update_answered_def withApiErrorToast_def service_defs set_usv_loading_def io_simps Let_def)
  qed (simp add: update_answered_def withApiErrorToast_def service_defs set_usv_loading_def io_simps Let_def)
qed

lemma hook_idle:
  "\<not> usv_isLoading (snd (user_answered out s))" "\<not> usv_isLoading (snd (update_answered i out' s))"
  by (simp_all add: user_answered_def update_answered_def usv_setIsLoading_def usv_loading.finally_flag)

lemma put_profile_world [simp]:
  "w_auth (put_profile_hook s p) = w_auth s" "usv_isLoading (put_profile_hook s p) = usv_isLoading s"
  "w_auth (profile_hook p) = w_auth p"
  by (simp_all add: put_profile_hook_def profile_hook_def user_service.defs)

lemma profile_settled:
  "\<not> usv_isLoading (profile_settle t req a p) \<and> w_auth (profile_settle t req a p) = w_auth p"
proof (cases req)
  case FlightProfile
  then show ?thesis
    using hook_auth(1) [of "fa_detail a" "profile_hook p"] hook_idle(1) [of "fa_detail a" "profile_hook p"]
    by (cases "user_answered (fa_detail a) (profile_hook p)"; cases "fst (user_answered (fa_detail a) (profile_hook p))")
      (auto simp: on_part_def io_unfold)
next
  case (FlightSave i)
  then show ?thesis
    using hook_auth(2) [of i "fa_update a" "profile_hook p"] hook_idle(2) [of i "fa_update a" "profile_hook p"]
    by (cases "update_answered i (fa_update a) (profile_hook p)"; cases "fst (update_answered i (fa_update a) (profile_hook p))")
      (auto simp: on_part_def io_simps pushed_def)
qed

lemma ask_profile_simps [simp]:
  "a_user (w_auth (pv_page (ask_profile f req s))) = a_user (w_auth (f (profile_hook (pv_page s))))"
  "pv_flight (ask_profile f req s) = pv_flight s @ [req]"
  by (simp_all add: ask_profile_def)

lemma asked_auth [simp]: "w_auth (user_asked i s) = w_auth s" "w_auth (update_asked i payload s) = w_auth s"
  by (simp_all add: user_asked_def update_asked_def)

lemma profile_inv_reload: "profile_inv s \<Longrightarrow> profile_inv (profile_reload s)"
  by (auto simp: profile_inv_def profile_reload_def split: option.split)

lemma profile_inv_step: "profile_inv s \<Longrightarrow> profile_inv (profile_step t e s)"
proof (cases e)
  case PvReload
  assume "profile_inv s"
  then show ?thesis using PvReload by (simp add: profile_inv_reload)
next
  case (PvAnswer n a)
  assume "profile_inv s"
  then show ?thesis using PvAnswer profile_settled [of t "pv_flight s ! n" a "pv_page s"] by (auto simp: profile_inv_def)
qed (auto simp: profile_inv_def split: option.split)

lemma profile_inv_run: "profile_inv s \<Longrightarrow> profile_inv (profile_run t es s)"
  by (induction es arbitrary: s) (simp_all add: profile_inv_step)

lemma profile_at_inv: "profile_inv (profile_at t v w es)"
  unfolding profile_at_def
  by (intro profile_inv_run profile_inv_reload)
    (simp add: profile_inv_def profile_first_def user_service.defs world.defs profile_page.defs)

definition profile_answers :: "nat \<Rightarrow> (nat \<Rightarrow> profile_answer) \<Rightarrow> profile_event list" where
  "profile_answers n f = map (\<lambda>i. PvAnswer 0 (f i)) [0..<n]"

interpretation profile_flights: answered_page pv_flight "\<lambda>a. profile_step t (PvAnswer 0 a)" "\<lambda>_. False" for t
  by unfold_locales auto

lemma profile_drained: "pv_flight (profile_run t (profile_answers (length (pv_flight s)) f) s) = []"
  using profile_flights.all_answered [of s "map f [0..<length (pv_flight s)]" t]
  by (simp add: flight_weight_none profile_run_def profile_answers_def foldl_conv_fold fold_map comp_def)

text \<open>The profile page of a signed-in user comes to rest: when every load and every save under way is answered,
  in whatever way, the page shows a user, or a failure whose button asks again.\<close>

theorem profile_page_settles:
  "let s = profile_at t v w es; s' = profile_run t (profile_answers (length (pv_flight s)) f) s
   in pv_flight s' = [] \<and>
      (case profile_render x (pv_page s') of
         ProfileLoading \<Rightarrow> False
       | ProfileFailed title text \<Rightarrow> profile_step t PvReload s' = profile_reload s'
       | ProfileShown u \<Rightarrow> usv_user (pv_page s') = Some u)"
proof -
  let ?s = "profile_at t v w es"
  let ?s' = "profile_run t (profile_answers (length (pv_flight ?s)) f) ?s"
  have "profile_inv ?s'" by (intro profile_inv_run profile_at_inv)
  moreover have "pv_flight ?s' = []" by (simp add: profile_drained)
  ultimately show ?thesis
    by (cases "usv_user (pv_page ?s')") (auto simp: Let_def profile_inv_def profile_render_def)
qed

text \<open>The page reports a failure although nothing failed in two situations: on its first render, before the effect
  that loads the user has run; and while the user is being loaded again, when the answer to a
  save that was still under way arrives first.\<close>

theorem profile_failure_misreported:
  "profile_render x (profile_first v w) = ProfileFailed (pt_failedToLoad x) (pt_failedToLoadDescription x) \<and>
   (let v' = v\<lparr>au_id := ''u1''\<rparr>;
        shown = profile_at t v' w [PvAnswer 0 (a\<lparr>fa_detail := user_answer u\<rparr>)];
        s = profile_run t [PvEdit True, PvSave payload, PvEdit False, PvReload, PvAnswer 0 (a\<lparr>fa_update := fetched m\<rparr>)] shown
    in pv_flight s = [FlightProfile] \<and>
       profile_render x (pv_page s) = ProfileFailed (pt_failedToLoad x) (pt_failedToLoadDescription x))"
proof -
  have detail: "user_answered (user_answer d) q = (Inr (), q\<lparr>usv_user := Some d, usv_isLoading := False\<rparr>)" for d q
    by (simp add: user_answered_def user_answer_def fetched_def withApiErrorToast_def service_defs set_usv_loading_def io_unfold)
  have save: "usv_user (snd (update_answered i (fetched m) q)) = None \<and> usv_error (snd (update_answered i (fetched m) q)) = usv_error q"
    if "usv_user q = None" for i q
    using that by (cases "env_data m")
      (simp_all add: update_answered_def fetched_def withApiErrorToast_def service_defs set_usv_loading_def io_simps Let_def pushed_def)
  let ?v = "v\<lparr>au_id := ''u1''\<rparr>"
  let ?shown = "profile_at t ?v w [PvAnswer 0 (a\<lparr>fa_detail := user_answer u\<rparr>)]"
  obtain before where b: "profile_run t [PvEdit True, PvSave payload, PvEdit False, PvReload] ?shown = before" by simp
  have before: "pv_flight before = [FlightSave (u_id u), FlightProfile]" "usv_user (pv_page before) = None"
      "usv_error (pv_page before) = None" "a_user (w_auth (pv_page before)) = Some ?v"
    by (simp_all add: b [symmetric] profile_at_def profile_reload_def profile_first_def ask_profile_def user_asked_def update_asked_def
        detail on_part_def io_unfold put_profile_hook_def profile_hook_def user_service.defs world.defs profile_page.defs)
  obtain p where p: "profile_settle t (FlightSave (u_id u)) (a\<lparr>fa_update := fetched m\<rparr>) (pv_page before) = p" by simp
  obtain r q where rq: "update_answered (u_id u) (fetched m) (profile_hook (pv_page before)) = (r, q)" by fastforce
  have "usv_user q = None" "usv_error q = None"
    using save [of "profile_hook (pv_page before)" "u_id u"] before(2,3) rq
    by (simp_all add: profile_hook_def user_service.defs)
  then have "usv_user p = None" "usv_error p = None"
    using p rq by (cases r; auto simp: on_part_def io_simps put_profile_hook_def pushed_def)+
  moreover have "\<not> usv_isLoading p" "a_user (w_auth p) = Some ?v"
    using profile_settled [of t "FlightSave (u_id u)" "a\<lparr>fa_update := fetched m\<rparr>" "pv_page before"] before(4) unfolding p by simp_all
  ultimately have "profile_render x p = ProfileFailed (pt_failedToLoad x) (pt_failedToLoadDescription x)"
    by (simp add: profile_render_def)
  moreover have "profile_run t ([PvEdit True, PvSave payload, PvEdit False, PvReload] @ [PvAnswer 0 (a\<lparr>fa_update := fetched m\<rparr>)]) ?shown =
      before\<lparr>pv_page := p, pv_flight := [FlightProfile]\<rparr>"
    unfolding profile_run_append b using before(1) by (simp add: p del: profile_settle.simps)
  moreover have "profile_render x (profile_first v w) = ProfileFailed (pt_failedToLoad x) (pt_failedToLoadDescription x)"
    by (simp add: profile_render_def profile_first_def user_service.defs world.defs profile_page.defs)
  ultimately show ?thesis by (simp only: Let_def append.simps) simp
qed
end
