(* ===== verification/DevicesView.thy ===== *)
theory DevicesView
  imports InFlight FilterBars Modals DeviceCards
begin

text \<open>
  The devices page as a whole (\<open>features/devices/DevicesPage.tsx\<close>): its filter, its three dialogs with the forms in
  them, and the requests under way. A request is made by one event and answered by another. The
  operations of the hook are cut at their \<open>await\<close>; lemmas show that the halves make the whole.
\<close>

section \<open>The operations of the hook, up to the request and from the answer on\<close>

definition devices_request :: "int \<Rightarrow> int \<Rightarrow> request" where
  "devices_request page pageSize = (mk_request ApiClient GET ''/devices'')
     \<lparr>rq_query := [(''page'', JNumber (Fin (of_int page))), (''page_size'', JNumber (Fin (of_int pageSize)))]\<rparr>"

definition devices_asked :: "int \<Rightarrow> int \<Rightarrow> device_service \<Rightarrow> device_service" where
  "devices_asked page pageSize s = s\<lparr>dsv_error := None, dsv_isLoading := True, dsv_devices := [],
     w_sent := w_sent s @ [devices_request page pageSize]\<rparr>"

definition devices_answered :: "(thrown + device_list_response envelope fetch_result) \<Rightarrow> unit device_act" where
  "devices_answered out =
     io_finally
       (io_bind (withApiErrorToast (\<lambda>s. (out, s)) True) (\<lambda>r.
          case fr_data r of
            None \<Rightarrow> null_response ''get all devices returned a null response''
          | Some response \<Rightarrow>
              (case env_data response of
                 None \<Rightarrow> io_throw null_property_error
               | Some d \<Rightarrow> setDevices (\<lambda>_. dlr_items d))))
       (dsv_setIsLoading False)"

definition device_create_request :: "create_device_dto \<Rightarrow> request" where
  "device_create_request payload = (mk_request ApiClient POST ''/devices'')
     \<lparr>rq_body := Some (JObject [(''uuid_firmware'', JString (cdd_uuid_firmware payload)), (''name'', JString (cdd_name payload)),
                               (''vehicle_type'', JString (vehicle_type_str (cdd_vehicle_type payload)))])\<rparr>"

definition device_create_asked :: "create_device_dto \<Rightarrow> device_service \<Rightarrow> device_service" where
  "device_create_asked payload s = s\<lparr>dsv_error := None, dsv_isLoading := True,
     w_sent := w_sent s @ [device_create_request payload]\<rparr>"

definition device_created :: "device_with_access list \<Rightarrow> (thrown + device envelope fetch_result) \<Rightarrow> unit device_act" where
  "device_created captured out =
     io_finally
       (io_bind (withApiErrorToast (\<lambda>s. (out, s)) True) (\<lambda>r.
          case Option.bind (fr_data r) env_data of
            None \<Rightarrow> null_response ''create device returned a null response''
          | Some d \<Rightarrow> setDevices (\<lambda>_. with_owner d # captured)))
       (dsv_setIsLoading False)"

definition device_update_request :: "string \<Rightarrow> update_device_dto \<Rightarrow> request" where
  "device_update_request i payload = (mk_request ApiClient PUT (device_path i))
     \<lparr>rq_body := Some (JObject ((''name'', JString (udd_name payload)) #
        (case udd_vehicle_type payload of None \<Rightarrow> [] | Some v \<Rightarrow> [(''vehicle_type'', JString (vehicle_type_str v))])))\<rparr>"

definition device_update_asked :: "string \<Rightarrow> update_device_dto \<Rightarrow> device_service \<Rightarrow> device_service" where
  "device_update_asked i payload s = s\<lparr>dsv_error := None, dsv_isLoading := True,
     w_sent := w_sent s @ [device_update_request i payload]\<rparr>"

definition device_updated :: "string \<Rightarrow> device_detail option \<Rightarrow> (thrown + device envelope fetch_result) \<Rightarrow> unit device_act" where
  "device_updated i captured out =
     io_finally
       (io_bind (withApiErrorToast (\<lambda>s. (out, s)) True) (\<lambda>r.
          case Option.bind (fr_data r) env_data of
            None \<Rightarrow> null_response ''update device returned a null response''
          | Some p \<Rightarrow>
              io_then (setDevices (update_key d_id i (\<lambda>d. merge_device d p)))
              (case captured of
                 Some d \<Rightarrow> if d_id d = i then setDevice (Some (merge_device d p)) else io_return ()
               | None \<Rightarrow> io_return ())))
       (dsv_setIsLoading False)"

definition device_delete_asked :: "string \<Rightarrow> device_service \<Rightarrow> device_service" where
  "device_delete_asked i s = s\<lparr>dsv_error := None, dsv_isLoading := True,
     w_sent := w_sent s @ [mk_request ApiClient DELETE (device_path i)]\<rparr>"

definition device_deleted :: "string \<Rightarrow> device_detail option \<Rightarrow> (thrown + unit fetch_result) \<Rightarrow> unit device_act" where
  "device_deleted i captured out =
     io_finally
       (io_bind (withApiErrorToast (\<lambda>s. (out, s)) True) (\<lambda>_.
          io_then (setDevices (drop_key d_id i))
          (case captured of
             Some d \<Rightarrow> if d_id d = i then setDevice None else io_return ()
           | None \<Rightarrow> io_return ())))
       (dsv_setIsLoading False)"

lemmas device_half_defs = devices_asked_def devices_answered_def device_create_asked_def device_created_def device_update_asked_def
  device_updated_def device_delete_asked_def device_deleted_def devices_request_def device_create_request_def device_update_request_def

lemma devices_in_two_steps: "getAllDevices page pageSize out s = devices_answered out (devices_asked page pageSize s)"
  by (cases out) (simp_all add: getAllDevices_def device_half_defs withApiErrorToast_def service_defs set_dsv_loading_def io_unfold)

lemma device_create_in_two_steps: "createDevice payload captured out s = device_created captured out (device_create_asked payload s)"
  by (cases out) (simp_all add: createDevice_def device_half_defs withApiErrorToast_def service_defs set_dsv_loading_def io_unfold)

lemma device_update_in_two_steps: "updateDevice i payload captured out s = device_updated i captured out (device_update_asked i payload s)"
  by (cases out) (simp_all add: updateDevice_def device_half_defs withApiErrorToast_def service_defs set_dsv_loading_def io_unfold)

lemma device_delete_in_two_steps: "deleteDevice i captured out s = device_deleted i captured out (device_delete_asked i s)"
  by (cases out) (simp_all add: deleteDevice_def device_half_defs withApiErrorToast_def service_defs set_dsv_loading_def io_unfold)

section \<open>The page\<close>

datatype devices_flight =
    DvList
  | DvCreate "device_with_access list"
  | DvUpdate string "device_detail option"
  | DvDelete string "device_detail option"

record devices_view =
  vv_page :: devices_page
  vv_filter :: devices_filter
  vv_add :: "device_errors \<times> add_device_form"
  vv_edit :: "edit_device_form option \<times> string option"
  vv_typed :: string
  vv_flight :: "devices_flight list"
  vv_unhandled :: "thrown list"

record devices_answer =
  da_list :: "thrown + device_list_response envelope fetch_result"
  da_device :: "thrown + device envelope fetch_result"
  da_delete :: "thrown + unit fetch_result"

record devices_env =
  ve_getTime :: "string \<Rightarrow> number"
  ve_now :: number
  ve_collate :: "string \<Rightarrow> string \<Rightarrow> int"
  ve_strings :: device_strings
  ve_required :: string

definition ask_devices :: "(device_service \<Rightarrow> device_service) \<Rightarrow> devices_flight \<Rightarrow> devices_view \<Rightarrow> devices_view" where
  "ask_devices f req s =
     s\<lparr>vv_page := put_devices_hook (f (devices_hook (vv_page s))) (vv_page s), vv_flight := vv_flight s @ [req]\<rparr>"

text \<open>The page awaits and catches nothing: \<open>void onCreate(form)\<close>, \<open>void onSave(...)\<close>, \<open>void onConfirm()\<close>, \<open>void
  getAllDevices()\<close>. What such a call throws is an unhandled rejection.\<close>

definition page_call :: "(devices_page, thrown, unit) io \<Rightarrow> devices_view \<Rightarrow> devices_view" where
  "page_call m s =
     (case m (vv_page s) of
        (Inl e, p) \<Rightarrow> s\<lparr>vv_page := p, vv_unhandled := vv_unhandled s @ [e]\<rparr>
      | (Inr _, p) \<Rightarrow> s\<lparr>vv_page := p\<rparr>)"

definition set_edit_target :: "device_with_access option \<Rightarrow> devices_view \<Rightarrow> devices_view" where
  "set_edit_target d s =
     (if d = dp_editTarget (vv_page s) then s
      else s\<lparr>vv_page := (vv_page s)\<lparr>dp_editTarget := d\<rparr>, vv_edit := edit_device_effect (d \<noteq> None) d (vv_edit s)\<rparr>)"

text \<open>The edit dialog runs its effect when the answer has closed it.\<close>

fun devices_settle :: "devices_flight \<Rightarrow> devices_answer \<Rightarrow> devices_view \<Rightarrow> devices_view" where
  "devices_settle DvList a s = page_call (on_part devices_hook put_devices_hook (devices_answered (da_list a))) s"
| "devices_settle (DvCreate captured) a s =
     page_call (io_then (on_part devices_hook put_devices_hook (device_created captured (da_device a)))
       (io_modify (\<lambda>p. p\<lparr>dp_addOpen := False\<rparr>))) s"
| "devices_settle (DvUpdate i shown) a s =
     (case on_part devices_hook put_devices_hook (device_updated i shown (da_device a)) (vv_page s) of
        (Inl e, p) \<Rightarrow> s\<lparr>vv_page := p, vv_unhandled := vv_unhandled s @ [e]\<rparr>
      | (Inr _, p) \<Rightarrow> set_edit_target None (s\<lparr>vv_page := p\<rparr>))"
| "devices_settle (DvDelete i shown) a s =
     page_call (io_then (on_part devices_hook put_devices_hook (device_deleted i shown (da_delete a)))
       (io_modify (\<lambda>p. p\<lparr>dp_deleteTarget := None\<rparr>))) s"

datatype devices_event =
    DsRefresh
  | DsBar devices_bar
  | DsShowAdd bool
  | DsAddForm add_device_form
  | DsAddGenerate string
  | DsAddPress
  | DsEditRow string
  | DsEditForm edit_device_form
  | DsCloseEdit
  | DsEditPress
  | DsDeleteRow string
  | DsTyped string
  | DsCloseDelete
  | DsDeletePress
  | DsAnswer nat devices_answer

definition view_rows :: "devices_env \<Rightarrow> devices_view \<Rightarrow> device_with_access list" where
  "view_rows env s =
     devices_shown (ve_getTime env) (ve_now env) (ve_collate env) (ve_strings env) (vv_filter s) (dsv_devices (vv_page s))"

definition update_dto_of :: "edit_device_form \<Rightarrow> update_device_dto" where
  "update_dto_of f = \<lparr>udd_name = edf_name f, udd_vehicle_type = Some (edf_vehicle_type f)\<rparr>"

definition no_device_errors :: device_errors where
  "no_device_errors = \<lparr>de_name = None, de_uuid_firmware = None\<rparr>"

fun devices_step :: "devices_env \<Rightarrow> devices_event \<Rightarrow> devices_view \<Rightarrow> devices_view" where
  "devices_step env DsRefresh s = ask_devices (devices_asked 1 20) DvList s"
| "devices_step env (DsBar e) s = s\<lparr>vv_filter := devices_bar_step (vv_filter s) e\<rparr>"
| "devices_step env (DsShowAdd b) s =
     s\<lparr>vv_page := (vv_page s)\<lparr>dp_addOpen := b\<rparr>,
       vv_add := (if b \<and> \<not> dp_addOpen (vv_page s) then (no_device_errors, add_device_blank) else vv_add s)\<rparr>"
| "devices_step env (DsAddForm f) s = (if dp_addOpen (vv_page s) then s\<lparr>vv_add := (fst (vv_add s), f)\<rparr> else s)"
| "devices_step env (DsAddGenerate uuid) s =
     (if dp_addOpen (vv_page s) then s\<lparr>vv_add := (fst (vv_add s), add_device_generate uuid (snd (vv_add s)))\<rparr> else s)"
| "devices_step env DsAddPress s =
     (if dp_addOpen (vv_page s)
      then (case add_device_submit (ve_required env) (snd (vv_add s)) of
              (e, None) \<Rightarrow> s\<lparr>vv_add := (e, snd (vv_add s))\<rparr>
            | (e, Some f) \<Rightarrow> ask_devices (device_create_asked (create_dto_of f)) (DvCreate (dsv_devices (vv_page s)))
                             (s\<lparr>vv_add := (e, snd (vv_add s))\<rparr>))
      else s)"
| "devices_step env (DsEditRow i) s =
     (case devices_action (view_rows env s) i (icon_action False) of
        Some (CallEdit d) \<Rightarrow> set_edit_target (Some d) s | _ \<Rightarrow> s)"
| "devices_step env (DsEditForm f) s =
     (case vv_edit s of (Some _, e) \<Rightarrow> s\<lparr>vv_edit := (Some f, e)\<rparr> | _ \<Rightarrow> s)"
| "devices_step env DsCloseEdit s = set_edit_target None s"
| "devices_step env DsEditPress s =
     (case dp_editTarget (vv_page s) of
        None \<Rightarrow> s
      | Some d \<Rightarrow>
          (case edit_device_submit (ve_required env) d (fst (vv_edit s)) (snd (vv_edit s)) of
             (e, None) \<Rightarrow> s\<lparr>vv_edit := (fst (vv_edit s), e)\<rparr>
           | (e, Some (i, f)) \<Rightarrow> ask_devices (device_update_asked i (update_dto_of f)) (DvUpdate i (dsv_device (vv_page s)))
                                   (s\<lparr>vv_edit := (fst (vv_edit s), e)\<rparr>)))"
| "devices_step env (DsDeleteRow i) s =
     (case devices_action (view_rows env s) i (icon_action True) of
        Some (CallDelete d) \<Rightarrow>
          s\<lparr>vv_page := (vv_page s)\<lparr>dp_deleteTarget := Some d\<rparr>,
            vv_typed := (if dp_deleteTarget (vv_page s) = None then [] else vv_typed s)\<rparr>
      | _ \<Rightarrow> s)"
| "devices_step env (DsTyped v) s = (if dp_deleteTarget (vv_page s) = None then s else s\<lparr>vv_typed := v\<rparr>)"
| "devices_step env DsCloseDelete s = s\<lparr>vv_page := (vv_page s)\<lparr>dp_deleteTarget := None\<rparr>\<rparr>"
| "devices_step env DsDeletePress s =
     (case dp_deleteTarget (vv_page s) of
        None \<Rightarrow> s
      | Some d \<Rightarrow>
          if dm_can_confirm (delete_device_phrase d) (vv_typed s)
          then ask_devices (device_delete_asked (d_id d)) (DvDelete (d_id d) (dsv_device (vv_page s))) s else s)"
| "devices_step env (DsAnswer n a) s =
     (if n < length (vv_flight s)
      then devices_settle (vv_flight s ! n) a (s\<lparr>vv_flight := without_nth n (vv_flight s)\<rparr>) else s)"

definition devices_run :: "devices_env \<Rightarrow> devices_event list \<Rightarrow> devices_view \<Rightarrow> devices_view" where
  "devices_run env es s = foldl (\<lambda>s e. devices_step env e s) s es"

lemma devices_run_simps [simp]:
  "devices_run env [] s = s" "devices_run env (e # es) s = devices_run env es (devices_step env e s)"
  by (simp_all add: devices_run_def)

definition devices_blank :: "world \<Rightarrow> devices_view" where
  "devices_blank w =
     \<lparr>vv_page = device_service.extend (world.extend w (device_service.fields False None [] None)) (devices_page.fields False None None),
      vv_filter = devices_filter_start, vv_add = (no_device_errors, add_device_blank), vv_edit = (None, None), vv_typed = [],
      vv_flight = [], vv_unhandled = []\<rparr>"

definition devices_mount :: "world \<Rightarrow> devices_view" where
  "devices_mount w = ask_devices (devices_asked 1 20) DvList (devices_blank w)"

definition devices_at :: "devices_env \<Rightarrow> world \<Rightarrow> devices_event list \<Rightarrow> devices_view" where
  "devices_at env w es = devices_run env es (devices_mount w)"

text \<open>The handlers of the page are the event that asks and the answer.\<close>

lemma put_devices_again: "devices_hook (put_devices_hook x p) = x" "put_devices_hook y (put_devices_hook x p) = put_devices_hook y p"
  by (simp_all add: devices_hook_def put_devices_hook_def device_service.defs)

lemma handlers_whole:
  "handleCreate_device data captured out p =
     io_then (on_part devices_hook put_devices_hook (device_created captured out)) (io_modify (\<lambda>p. p\<lparr>dp_addOpen := False\<rparr>))
       (put_devices_hook (device_create_asked data (devices_hook p)) p)"
  "handleSave_device i payload shown out p =
     io_then (on_part devices_hook put_devices_hook (device_updated i shown out)) (io_modify (\<lambda>p. p\<lparr>dp_editTarget := None\<rparr>))
       (put_devices_hook (device_update_asked i payload (devices_hook p)) p)"
  "dp_deleteTarget p = Some d \<Longrightarrow> handleDelete_device shown out' p =
     io_then (on_part devices_hook put_devices_hook (device_deleted (d_id d) shown out')) (io_modify (\<lambda>p. p\<lparr>dp_deleteTarget := None\<rparr>))
       (put_devices_hook (device_delete_asked (d_id d) (devices_hook p)) p)"
  by (simp_all add: handleCreate_device_def handleSave_device_def handleDelete_device_def on_part_def io_unfold put_devices_again
      device_create_in_two_steps device_update_in_two_steps device_delete_in_two_steps)

section \<open>What an answer changes\<close>

definition devices_frame :: "device_service \<Rightarrow> bool \<times> request list" where
  "devices_frame s = (dsv_isLoading s, w_sent s)"

lemma frame_pushed [simp]: "devices_frame (pushed b s) = devices_frame s"
  by (simp add: devices_frame_def pushed_def)

lemma half_frames:
  "devices_frame (snd (devices_answered out s)) = (False, w_sent s)"
  "devices_frame (snd (device_created captured out2 s)) = (False, w_sent s)"
  "devices_frame (snd (device_updated i shown out2 s)) = (False, w_sent s)"
  "devices_frame (snd (device_deleted i shown out3 s)) = (False, w_sent s)"
proof -
  show "devices_frame (snd (devices_answered out s)) = (False, w_sent s)"
    by (cases out) (simp_all add: devices_answered_def devices_frame_def service_defs set_dsv_loading_def io_simps pushed_def
        split: option.split)
  show "devices_frame (snd (device_created captured out2 s)) = (False, w_sent s)"
    by (cases out2) (simp_all add: device_created_def devices_frame_def service_defs set_dsv_loading_def io_simps pushed_def
        split: option.split)
  show "devices_frame (snd (device_updated i shown out2 s)) = (False, w_sent s)"
    by (cases out2; cases shown) (simp_all add: device_updated_def devices_frame_def service_defs set_dsv_loading_def io_simps pushed_def
        split: option.split)
  show "devices_frame (snd (device_deleted i shown out3 s)) = (False, w_sent s)"
    by (cases out3; cases shown) (simp_all add: device_deleted_def devices_frame_def service_defs set_dsv_loading_def io_simps pushed_def)
qed

lemma frame_on_part:
  "(dsv_isLoading (snd (on_part devices_hook put_devices_hook m p)), w_sent (snd (on_part devices_hook put_devices_hook m p))) =
   devices_frame (snd (m (devices_hook p)))"
  by (simp add: on_part_def put_devices_hook_def devices_frame_def split: prod.split)

lemma hook_sent [simp]: "w_sent (devices_hook p) = w_sent p"
  by (simp add: devices_hook_def device_service.defs)

definition page_frame :: "devices_page \<Rightarrow> bool \<times> request list" where
  "page_frame p = (dsv_isLoading p, w_sent p)"

lemma page_frame_part: "page_frame (snd (on_part devices_hook put_devices_hook m p)) = devices_frame (snd (m (devices_hook p)))"
  using frame_on_part [of m p] by (simp add: page_frame_def)

lemma page_call_flight [simp]: "vv_flight (page_call m s) = vv_flight s"
  by (simp add: page_call_def split: prod.split sum.split)

lemma page_call_frame: "page_frame (vv_page (page_call m s)) = page_frame (snd (m (vv_page s)))"
  by (simp add: page_call_def split: prod.split sum.split)

lemma frame_then_modify:
  "(\<And>q. page_frame (f q) = page_frame q) \<Longrightarrow> page_frame (snd (io_then (m :: (devices_page, thrown, unit) io) (io_modify f) p)) = page_frame (snd (m p))"
  by (cases "m p"; cases "fst (m p)") (auto simp: io_then_def io_bind_def io_modify_def)

lemma set_edit_target_simps [simp]:
  "vv_flight (set_edit_target d s) = vv_flight s" "page_frame (vv_page (set_edit_target d s)) = page_frame (vv_page s)"
  by (simp_all add: set_edit_target_def page_frame_def)

lemma dialogs_frame [simp]:
  "page_frame (p\<lparr>dp_addOpen := b\<rparr>) = page_frame p" "page_frame (p\<lparr>dp_editTarget := d\<rparr>) = page_frame p"
  "page_frame (p\<lparr>dp_deleteTarget := d\<rparr>) = page_frame p"
  by (simp_all add: page_frame_def)

lemma devices_settle_frame:
  "page_frame (vv_page (devices_settle req a s)) = (False, w_sent (vv_page s)) \<and> vv_flight (devices_settle req a s) = vv_flight s"
proof (cases req)
  case (DvUpdate i shown)
  obtain r p where rp: "on_part devices_hook put_devices_hook (device_updated i shown (da_device a)) (vv_page s) = (r, p)" by fastforce
  then have "page_frame p = (False, w_sent (vv_page s))"
    using page_frame_part [of "device_updated i shown (da_device a)" "vv_page s"] by (simp add: half_frames)
  then show ?thesis using DvUpdate rp by (cases r) simp_all
qed (simp_all add: page_call_frame frame_then_modify page_frame_part half_frames)

section \<open>What the page asks\<close>

definition filled_field :: "string \<Rightarrow> request \<Rightarrow> bool" where
  "filled_field k rq =
     (case rq_body rq of
        Some (JObject fs) \<Rightarrow> (case map_of fs k of Some (JString v) \<Rightarrow> trim v \<noteq> [] | _ \<Rightarrow> False)
      | _ \<Rightarrow> False)"

definition page_request :: "request \<Rightarrow> bool" where
  "page_request rq \<longleftrightarrow>
     rq_client rq = ApiClient \<and>
     (case rq_verb rq of
        GET \<Rightarrow> rq = devices_request 1 20
      | POST \<Rightarrow> rq_path rq = ''/devices'' \<and> filled_field ''uuid_firmware'' rq \<and> filled_field ''name'' rq
      | PUT \<Rightarrow> filled_field ''name'' rq
      | DELETE \<Rightarrow> rq_body rq = None)"

lemma add_request_filled:
  "snd (add_device_submit required f) = Some f' \<Longrightarrow> page_request (device_create_request (create_dto_of f'))"
  by (auto simp: add_device_submit_def required_error_def Let_def page_request_def device_create_request_def create_dto_of_def
      mk_request_def filled_field_def split: if_splits)

lemma edit_request_filled:
  "snd (edit_device_submit required d form err) = Some (i, f) \<Longrightarrow> page_request (device_update_request i (update_dto_of f))"
  by (auto simp: edit_device_submit_def required_error_def Let_def page_request_def device_update_request_def update_dto_of_def
      mk_request_def filled_field_def split: if_splits option.splits)

lemma other_requests: "page_request (devices_request 1 20)" "page_request (mk_request ApiClient DELETE p)"
  by (simp_all add: page_request_def devices_request_def mk_request_def)

definition devices_inv :: "world \<Rightarrow> devices_view \<Rightarrow> bool" where
  "devices_inv w s \<longleftrightarrow>
     (dsv_isLoading (vv_page s) \<longrightarrow> vv_flight s \<noteq> []) \<and>
     (\<exists>rqs. w_sent (vv_page s) = w_sent w @ rqs \<and> list_all page_request rqs)"

lemma put_devices_sent [simp]: "w_sent (put_devices_hook x p) = w_sent x"
  by (simp add: put_devices_hook_def)

lemma inv_asks:
  assumes "devices_inv w s" "w_sent (f (devices_hook (vv_page s))) = w_sent (vv_page s) @ [rq]" "page_request rq"
  shows "devices_inv w (ask_devices f req s)"
  using assms by (auto simp: devices_inv_def ask_devices_def)

lemma inv_cong:
  "devices_inv w s \<Longrightarrow> page_frame (vv_page s') = page_frame (vv_page s) \<Longrightarrow> vv_flight s' = vv_flight s \<Longrightarrow> devices_inv w s'"
  by (simp add: devices_inv_def page_frame_def)

lemma asked_sent:
  "w_sent (devices_asked page pageSize x) = w_sent x @ [devices_request page pageSize]"
  "w_sent (device_create_asked c x) = w_sent x @ [device_create_request c]"
  "w_sent (device_update_asked i u x) = w_sent x @ [device_update_request i u]"
  "w_sent (device_delete_asked i x) = w_sent x @ [mk_request ApiClient DELETE (device_path i)]"
  by (simp_all add: devices_asked_def device_create_asked_def device_update_asked_def device_delete_asked_def)

lemma devices_inv_step:
  assumes inv: "devices_inv w s"
  shows "devices_inv w (devices_step env e s)"
proof (cases e)
  case DsRefresh
  then show ?thesis using inv by (simp add: inv_asks asked_sent other_requests)
next
  case DsAddPress
  let ?r = "add_device_submit (ve_required env) (snd (vv_add s))"
  show ?thesis
  proof (cases "dp_addOpen (vv_page s)")
    case True
    show ?thesis
    proof (cases "snd ?r")
      case None
      then show ?thesis using DsAddPress True inv by (cases ?r) (auto intro: inv_cong)
    next
      case (Some f)
      then have "page_request (device_create_request (create_dto_of f))" by (rule add_request_filled)
      moreover have "devices_inv w (s\<lparr>vv_add := (fst ?r, snd (vv_add s))\<rparr>)" using inv by (rule inv_cong) simp_all
      ultimately show ?thesis using DsAddPress True Some by (cases ?r) (auto simp: asked_sent intro!: inv_asks)
    qed
  qed (use DsAddPress inv in simp)
next
  case (DsEditRow i)
  then show ?thesis using inv by (auto intro: inv_cong split: option.split table_call.split)
next
  case (DsEditForm f)
  then show ?thesis using inv by (cases "vv_edit s"; cases "fst (vv_edit s)") (auto intro: inv_cong)
next
  case DsEditPress
  show ?thesis
  proof (cases "dp_editTarget (vv_page s)")
    case (Some d)
    let ?r = "edit_device_submit (ve_required env) d (fst (vv_edit s)) (snd (vv_edit s))"
    show ?thesis
    proof (cases "snd ?r")
      case None
      then show ?thesis using DsEditPress Some inv by (cases ?r) (auto intro: inv_cong)
    next
      case (Some x)
      obtain i f where x: "x = (i, f)" by fastforce
      have "page_request (device_update_request i (update_dto_of f))" using edit_request_filled Some x by blast
      moreover have "devices_inv w (s\<lparr>vv_edit := (fst (vv_edit s), fst ?r)\<rparr>)" using inv by (rule inv_cong) simp_all
      ultimately show ?thesis using DsEditPress \<open>dp_editTarget (vv_page s) = Some d\<close> Some x
        by (cases ?r) (auto simp: asked_sent intro!: inv_asks)
    qed
  qed (use DsEditPress inv in simp)
next
  case (DsDeleteRow i)
  then show ?thesis using inv by (auto intro: inv_cong split: option.split table_call.split)
next
  case DsDeletePress
  then show ?thesis using inv by (auto simp: asked_sent other_requests intro: inv_asks split: option.split)
next
  case (DsAnswer n a)
  then show ?thesis
    using inv devices_settle_frame [of "vv_flight s ! n" a "s\<lparr>vv_flight := without_nth n (vv_flight s)\<rparr>"]
    by (auto simp: devices_inv_def page_frame_def)
qed (use inv in \<open>auto intro: inv_cong\<close>)

lemma devices_inv_run: "devices_inv w s \<Longrightarrow> devices_inv w (devices_run env es s)"
  by (induction es arbitrary: s) (simp_all add: devices_inv_step)

lemma devices_at_inv: "devices_inv w (devices_at env w es)"
proof -
  have "devices_inv w (devices_blank w)"
    by (simp add: devices_inv_def devices_blank_def device_service.defs world.defs devices_page.defs)
  then have "devices_inv w (devices_mount w)"
    unfolding devices_mount_def by (rule inv_asks) (simp add: asked_sent, rule other_requests)
  then show ?thesis unfolding devices_at_def by (rule devices_inv_run)
qed

definition deletions :: "devices_view \<Rightarrow> string list" where
  "deletions s = map rq_path (filter (\<lambda>rq. rq_verb rq = DELETE) (w_sent (vv_page s)))"

lemma deletions_asked:
  "w_sent (f (devices_hook (vv_page s))) = w_sent (vv_page s) @ [rq] \<Longrightarrow>
   deletions (ask_devices f req s) = deletions s @ (if rq_verb rq = DELETE then [rq_path rq] else [])"
  by (simp add: deletions_def ask_devices_def)

lemma deletions_cong: "page_frame (vv_page s') = page_frame (vv_page s) \<Longrightarrow> deletions s' = deletions s"
  by (simp add: deletions_def page_frame_def)

lemma deletions_step:
  "deletions (devices_step env e s) = deletions s @
     (if e = DsDeletePress
      then (case dp_deleteTarget (vv_page s) of
              None \<Rightarrow> []
            | Some d \<Rightarrow> if dm_can_confirm (delete_device_phrase d) (vv_typed s) then [device_path (d_id d)] else [])
      else [])"
proof (cases e)
  case DsRefresh
  then show ?thesis by (simp add: deletions_asked asked_sent devices_request_def mk_request_def)
next
  case DsAddPress
  then show ?thesis
    by (auto simp: deletions_asked asked_sent device_create_request_def mk_request_def intro: deletions_cong split: prod.split option.split)
next
  case (DsEditRow i)
  then show ?thesis by (auto intro: deletions_cong split: option.split table_call.split)
next
  case (DsEditForm f)
  then show ?thesis by (auto intro: deletions_cong split: prod.split option.split)
next
  case DsEditPress
  then show ?thesis
    by (auto simp: deletions_asked asked_sent device_update_request_def mk_request_def intro: deletions_cong split: prod.split option.split)
next
  case (DsDeleteRow i)
  then show ?thesis by (auto intro: deletions_cong split: option.split table_call.split)
next
  case DsDeletePress
  then show ?thesis by (auto simp: deletions_asked asked_sent mk_request_def split: option.split)
next
  case (DsAnswer n a)
  then show ?thesis
    using devices_settle_frame [of "vv_flight s ! n" a "s\<lparr>vv_flight := without_nth n (vv_flight s)\<rparr>"]
    by (simp add: deletions_def page_frame_def)
qed (auto intro: deletions_cong)

text \<open>C36: Whatever is typed and pressed on the devices page, what it asks of the backend is the first page of the list, a
  creation with an identifier and a name that are more than blanks, an edit with such a name, or a
  deletion; and it deletes only on the press in a dialog in which the name of that very device was typed.\<close>

theorem devices_page_asks:
  "let s = devices_at env w es; s' = devices_step env e s in
     list_all page_request (drop (length (w_sent w)) (w_sent (vv_page s))) \<and>
     (case dp_deleteTarget (vv_page s) of
        None \<Rightarrow> deletions s' = deletions s
      | Some d \<Rightarrow>
          deletions s' = deletions s @
            (if e = DsDeletePress \<and> to_lower (trim (vv_typed s)) = to_lower (trim (d_name d)) then [device_path (d_id d)] else []))"
proof -
  obtain rqs where "w_sent (vv_page (devices_at env w es)) = w_sent w @ rqs" "list_all page_request rqs"
    using devices_at_inv [of w env es] by (auto simp: devices_inv_def)
  then show ?thesis
    using deletions_step [of env e "devices_at env w es"]
    by (auto simp: Let_def dm_can_confirm_def delete_device_phrase_def simp del: devices_step.simps split: option.split)
qed

section \<open>Every answer\<close>

definition devices_answers :: "nat \<Rightarrow> (nat \<Rightarrow> devices_answer) \<Rightarrow> devices_event list" where
  "devices_answers n f = map (\<lambda>i. DsAnswer 0 (f i)) [0..<n]"

lemma devices_settle_flight: "vv_flight (devices_settle req a s) = vv_flight s"
  using devices_settle_frame by blast

interpretation devices_flights: answered_page vv_flight "\<lambda>a. devices_step env (DsAnswer 0 a)" "\<lambda>_. False" for env
  by unfold_locales (auto simp: devices_settle_flight)

definition devices_alert :: "devices_view \<Rightarrow> string option" where
  "devices_alert s = map_option err_message (dsv_error (vv_page s))"

definition devices_header :: "devices_env \<Rightarrow> string \<Rightarrow> devices_view \<Rightarrow> string" where
  "devices_header env template s =
     devices_summary template (device_page_counts (ve_getTime env) (ve_now env) (ve_strings env) (dsv_devices (vv_page s)))"

definition devices_page_body :: "devices_env \<Rightarrow> devices_texts \<Rightarrow> devices_view \<Rightarrow> list_body" where
  "devices_page_body env x s =
     devices_body (ve_getTime env) (ve_now env) (ve_collate env) (ve_strings env) x (df_query (vv_filter s)) (df_status (vv_filter s))
       (df_vehicle (vv_filter s)) (df_sort (vv_filter s)) (dsv_devices (vv_page s)) (dsv_isLoading (vv_page s))"

text \<open>The devices page comes to rest: when every request under way is answered, each in whatever way, nothing is
  loading, and the page shows its table, or says that there is nothing to show; it never says that nothing
  matches the filters of a list without devices.\<close>

theorem devices_page_settles:
  "let s = devices_at env w es; s' = devices_run env (devices_answers (length (vv_flight s)) f) s; b = devices_page_body env x s' in
     vv_flight s' = [] \<and> \<not> dsv_isLoading (vv_page s') \<and>
     (if dsv_devices (vv_page s') = [] then b = ListEmpty (dx_title x) (dx_failedToLoad x)
      else b = (if view_rows env s' = [] then ListNoResults else ListTable))"
proof -
  let ?s = "devices_at env w es"
  let ?s' = "devices_run env (devices_answers (length (vv_flight ?s)) f) ?s"
  have "vv_flight ?s' = []"
    using devices_flights.all_answered [of ?s "map f [0..<length (vv_flight ?s)]" env]
    by (simp add: flight_weight_none devices_run_def devices_answers_def foldl_conv_fold fold_map comp_def)
  moreover have "devices_inv w ?s'" by (intro devices_inv_run devices_at_inv)
  ultimately show ?thesis
    by (simp add: Let_def devices_inv_def devices_page_body_def devices_body_def list_body_def view_rows_def devices_shown_def)
qed

section \<open>Two presses, two answers\<close>

definition device_reply :: "device \<Rightarrow> thrown + device envelope fetch_result" where
  "device_reply d = fetched \<lparr>env_status_code = 201, env_message = ''created'', env_data = Some d\<rparr>"

definition devices_reply :: "device_list_response \<Rightarrow> thrown + device_list_response envelope fetch_result" where
  "devices_reply r = fetched \<lparr>env_status_code = 200, env_message = ''ok'', env_data = Some r\<rparr>"

definition van_form :: add_device_form where
  "van_form = \<lparr>adf_uuid_firmware = ''tk-1'', adf_name = ''Van'', adf_vehicle_type = Car, adf_access_role = Owner\<rparr>"

definition devices_loaded :: "devices_env \<Rightarrow> world \<Rightarrow> devices_answer \<Rightarrow> device_list_response \<Rightarrow> devices_view" where
  "devices_loaded env w a r = devices_at env w [DsAnswer 0 (a\<lparr>da_list := devices_reply r\<rparr>)]"

lemma devices_loaded_simps [simp]:
  "vv_flight (devices_loaded env w a r) = []" "dsv_devices (vv_page (devices_loaded env w a r)) = dlr_items r"
  "dp_addOpen (vv_page (devices_loaded env w a r)) = False" "vv_filter (devices_loaded env w a r) = devices_filter_start"
  "dp_deleteTarget (vv_page (devices_loaded env w a r)) = None"
  by (simp_all add: devices_loaded_def devices_at_def devices_mount_def devices_blank_def ask_devices_def devices_asked_def
      devices_answered_def devices_reply_def fetched_def page_call_def on_part_def io_simps service_defs set_dsv_loading_def
      devices_hook_def put_devices_hook_def device_service.defs world.defs devices_page.defs)

lemma device_halves_settled:
  "device_created ds (device_reply d) s = (Inr (), s\<lparr>dsv_devices := with_owner d # ds, dsv_isLoading := False\<rparr>)"
  "device_deleted i None (fetched ()) s = (Inr (), s\<lparr>dsv_devices := drop_key d_id i (dsv_devices s), dsv_isLoading := False\<rparr>)"
  by (simp_all add: device_created_def device_deleted_def device_reply_def fetched_def io_simps service_defs set_dsv_loading_def)

lemma part_fields:
  "dsv_devices (put_devices_hook x p) = dsv_devices x" "dsv_isLoading (put_devices_hook x p) = dsv_isLoading x"
  "dsv_device (put_devices_hook x p) = dsv_device x" "dsv_device (devices_hook p) = dsv_device p"
  by (simp_all add: put_devices_hook_def devices_hook_def device_service.defs)

lemma add_press_sends:
  assumes "dp_addOpen (vv_page s)" "snd (vv_add s) = van_form"
  shows "w_sent (vv_page (devices_step env DsAddPress s)) = w_sent (vv_page s) @ [device_create_request (create_dto_of van_form)]"
    "vv_flight (devices_step env DsAddPress s) = vv_flight s @ [DvCreate (dsv_devices (vv_page s))]"
    "dsv_devices (vv_page (devices_step env DsAddPress s)) = dsv_devices (vv_page s)"
    "dp_addOpen (vv_page (devices_step env DsAddPress s))" "snd (vv_add (devices_step env DsAddPress s)) = van_form"
proof -
  have "trim ''tk-1'' \<noteq> []" "trim ''Van'' \<noteq> []" by code_simp+
  then have "add_device_submit m van_form = (no_device_errors, Some van_form)" for m
    by (simp add: add_device_submit_def van_form_def required_error_def no_device_errors_def)
  then show "w_sent (vv_page (devices_step env DsAddPress s)) = w_sent (vv_page s) @ [device_create_request (create_dto_of van_form)]"
    "vv_flight (devices_step env DsAddPress s) = vv_flight s @ [DvCreate (dsv_devices (vv_page s))]"
    "dsv_devices (vv_page (devices_step env DsAddPress s)) = dsv_devices (vv_page s)"
    "dp_addOpen (vv_page (devices_step env DsAddPress s))" "snd (vv_add (devices_step env DsAddPress s)) = van_form"
    using assms by (simp_all add: ask_devices_def asked_sent device_create_asked_def part_fields)
qed

lemma creation_answered:
  assumes "vv_flight s = DvCreate ds # rest"
  shows "let s' = devices_step env (DsAnswer 0 (a\<lparr>da_device := device_reply d\<rparr>)) s
    in vv_flight s' = rest \<and> dsv_devices (vv_page s') = with_owner d # ds \<and> w_sent (vv_page s') = w_sent (vv_page s)"
  using assms by (simp add: Let_def page_call_def on_part_def device_halves_settled io_simps part_fields)

text \<open>The button of the dialog that adds a device is never disabled. A second press before the answer sends the same
  creation again; and as each creation puts its device in front of the list its render saw, the list ends
  with the second device only.\<close>

theorem devices_added_twice:
  "let shown = devices_loaded env w a r;
       s = devices_run env [DsShowAdd True, DsAddForm van_form, DsAddPress, DsAddPress, DsAnswer 0 (a\<lparr>da_device := device_reply d1\<rparr>),
             DsAnswer 0 (a\<lparr>da_device := device_reply d2\<rparr>)] shown;
       rq = device_create_request (create_dto_of van_form)
   in w_sent (vv_page s) = w_sent (vv_page shown) @ [rq, rq] \<and> vv_flight s = [] \<and>
      dsv_devices (vv_page s) = with_owner d2 # dlr_items r"
proof -
  define s1 where "s1 = devices_run env [DsShowAdd True, DsAddForm van_form] (devices_loaded env w a r)"
  have s1: "vv_flight s1 = []" "dsv_devices (vv_page s1) = dlr_items r" "dp_addOpen (vv_page s1)" "snd (vv_add s1) = van_form"
    "w_sent (vv_page s1) = w_sent (vv_page (devices_loaded env w a r))"
    by (simp_all add: s1_def)
  define s2 where "s2 = devices_step env DsAddPress s1"
  define s3 where "s3 = devices_step env DsAddPress s2"
  note press2 = add_press_sends [OF s1(3,4), of env, folded s2_def]
  note press3 = add_press_sends [OF press2(4,5), of env, folded s3_def]
  define s4 where "s4 = devices_step env (DsAnswer 0 (a\<lparr>da_device := device_reply d1\<rparr>)) s3"
  have "vv_flight s3 = DvCreate (dlr_items r) # [DvCreate (dlr_items r)]" using press2 press3 s1 by simp
  note s4 = creation_answered [OF this, where env = env and a = a and d = d1, folded s4_def, unfolded Let_def]
  note s5 = creation_answered [OF s4 [THEN conjunct1], where env = env and a = a and d = d2, unfolded Let_def]
  have "devices_run env [DsShowAdd True, DsAddForm van_form, DsAddPress, DsAddPress, DsAnswer 0 (a\<lparr>da_device := device_reply d1\<rparr>),
      DsAnswer 0 (a\<lparr>da_device := device_reply d2\<rparr>)] (devices_loaded env w a r) =
    devices_step env (DsAnswer 0 (a\<lparr>da_device := device_reply d2\<rparr>)) s4"
    unfolding s4_def s3_def s2_def s1_def devices_run_simps ..
  note whole = this
  show ?thesis
    unfolding Let_def whole using s5 s4 press3(1) press2(1) s1(5) by (simp del: devices_step.simps)
qed

text \<open>The one loading flag belongs to all requests. While the list is loaded again, the answer to a deletion that was
  still under way takes the flag away, and the page reports that the devices could not be loaded,
  with their request still running.\<close>

theorem devices_list_misreported:
  "let shown = devices_loaded env w a (r\<lparr>dlr_items := [d]\<rparr>);
       s = devices_run env [DsDeleteRow (d_id d), DsTyped (d_name d), DsDeletePress, DsRefresh, DsAnswer 0 (a\<lparr>da_delete := fetched ()\<rparr>)] shown
   in if d_id d = [] then True
      else vv_flight s = [DvList] \<and> devices_page_body env x s = ListEmpty (dx_title x) (dx_failedToLoad x)"
proof (cases "d_id d = []")
  case False
  obtain s0 where s0: "devices_loaded env w a (r\<lparr>dlr_items := [d]\<rparr>) = s0" by simp
  have fields: "vv_flight s0 = []" "dsv_devices (vv_page s0) = [d]" "vv_filter s0 = devices_filter_start"
    "dp_deleteTarget (vv_page s0) = None" using s0 by auto
  have device: "dsv_device (vv_page s0) = None"
    using s0 by (auto simp: devices_loaded_def devices_at_def devices_mount_def devices_blank_def ask_devices_def devices_asked_def
      devices_answered_def devices_reply_def fetched_def page_call_def on_part_def io_simps service_defs set_dsv_loading_def
      devices_hook_def put_devices_hook_def device_service.defs world.defs devices_page.defs)
  have rows: "view_rows env s0 = [d]"
    by (simp add: view_rows_def fields devices_shown_def devices_filter_start_def filtered_devices_def filter_sort_def device_matches_def)
  have row: "devices_action [d] (d_id d) (icon_action True) = Some (CallDelete d)"
    using False by (simp add: devices_action_def icon_action_def)
  show ?thesis
    unfolding s0
    using False by (simp add: Let_def rows row fields device ask_devices_def device_delete_asked_def devices_asked_def page_call_def on_part_def
        device_halves_settled io_simps part_fields dm_can_confirm_def delete_device_phrase_def devices_page_body_def devices_body_def
        list_body_def drop_key_def)
qed simp

end
