(* ===== verification/AccessView.thy ===== *)
theory AccessView
  imports DevicesView ShareDialogs AdminViews
begin

text \<open>
  The access page as a whole (\<open>components/react/access/AccessPage.tsx\<close>): the list of keys and the list of devices,
  each with a hook of its own, the dialog that issues a key and shows it once, the dialog that revokes
  one, and the requests under way.
\<close>

section \<open>The operations of the hook, up to the request and from the answer on\<close>

definition keys_asked :: "key_service \<Rightarrow> key_service" where
  "keys_asked s = s\<lparr>ksv_error := None, ksv_isLoading := True, ksv_rows := [],
     w_sent := w_sent s @ [mk_request ApiClient GET ''/api-keys'']\<rparr>"

definition keys_answered :: "(thrown + api_key_row list envelope fetch_result) \<Rightarrow> unit key_act" where
  "keys_answered out =
     io_finally
       (io_bind (withApiErrorToast (\<lambda>s. (out, s)) True) (\<lambda>r.
          case Option.bind (fr_data r) env_data of
            None \<Rightarrow> key_null_response ''list api keys returned a null response''
          | Some rows \<Rightarrow> setRows (\<lambda>_. rows)))
       (ksv_setIsLoading False)"

definition issue_asked :: "string \<Rightarrow> key_service \<Rightarrow> key_service" where
  "issue_asked deviceId s = s\<lparr>ksv_isLoading := True, ksv_error := None,
     w_sent := w_sent s @ [mk_request ApiClient POST (keys_path deviceId)]\<rparr>"

definition issue_answered :: "(thrown + create_api_key_response envelope fetch_result) \<Rightarrow> create_api_key_response option key_act" where
  "issue_answered out =
     io_finally
       (io_catch
         (io_bind (withApiErrorToast (\<lambda>s. (out, s)) True) (\<lambda>r.
            case Option.bind (fr_data r) env_data of
              None \<Rightarrow> key_null_response ''issue api key returned a null response''
            | Some created \<Rightarrow>
                io_then (setApiKeys (\<lambda>prev. key_metadata created # prev))
                (io_bind (toast_push save_key_toast) (\<lambda>_. io_return (Some created)))))
         (\<lambda>err. if isApiError err \<and> err_status (the_api_error err) = 409
                then io_bind (toast_push conflict_toast) (\<lambda>_. io_return None)
                else io_throw err))
       (ksv_setIsLoading False)"

definition revoke_asked :: "string \<Rightarrow> string \<Rightarrow> key_service \<Rightarrow> key_service" where
  "revoke_asked deviceId keyId s = s\<lparr>ksv_isLoading := True, ksv_error := None,
     w_sent := w_sent s @ [mk_request ApiClient DELETE (keys_path deviceId @ ''/'' @ keyId)]\<rparr>"

definition revoke_answered :: "string \<Rightarrow> (thrown + unit fetch_result) \<Rightarrow> unit key_act" where
  "revoke_answered keyId out =
     io_finally
       (io_bind (withApiErrorToast (\<lambda>s. (out, s)) True) (\<lambda>_.
          io_then (setApiKeys (drop_key k_id keyId)) (setRows (drop_key kr_id keyId))))
       (ksv_setIsLoading False)"

lemmas key_half_defs = keys_asked_def keys_answered_def issue_asked_def issue_answered_def revoke_asked_def revoke_answered_def

lemma keys_in_two_steps: "getAllApiKeys out s = keys_answered out (keys_asked s)"
  by (cases out) (simp_all add: getAllApiKeys_def key_half_defs withApiErrorToast_def service_defs set_ksv_loading_def io_unfold)

lemma issue_in_two_steps: "issueApiKey i out s = issue_answered out (issue_asked i s)"
  by (cases out) (simp_all add: issueApiKey_def key_half_defs withApiErrorToast_def service_defs set_ksv_loading_def io_unfold)

lemma revoke_in_two_steps: "revokeApiKey i k out s = revoke_answered k out (revoke_asked i k s)"
  by (cases out) (simp_all add: revokeApiKey_def key_half_defs withApiErrorToast_def service_defs set_ksv_loading_def io_unfold)

section \<open>The page\<close>

text \<open>A request for a key carries the name its handler found for the device.\<close>

datatype access_flight = AvKeys | AvDevices | AvIssue string "string option" | AvRevoke api_key_row

record access_view =
  av_page :: access_page
  av_devLoading :: bool
  av_devError :: "api_error option"
  av_device :: "device_detail option"
  av_filter :: keys_filter
  av_key :: key_dialog
  av_typed :: string
  av_flight :: "access_flight list"

record access_answer =
  aa_keys :: "thrown + api_key_row list envelope fetch_result"
  aa_devices :: "thrown + device_list_response envelope fetch_result"
  aa_issue :: "thrown + create_api_key_response envelope fetch_result"
  aa_revoke :: "thrown + unit fetch_result"

record access_env =
  xe_getTime :: "string \<Rightarrow> number"
  xe_collate :: "string \<Rightarrow> string \<Rightarrow> int"
  xe_strings :: access_strings
  xe_deviceRequired :: string

text \<open>The state of the devices hook, which is spread over the view.\<close>

definition picker_hook :: "access_view \<Rightarrow> device_service" where
  "picker_hook s = world.extend (world.truncate (av_page s))
     (device_service.fields (av_devLoading s) (av_devError s) (ap_devices (av_page s)) (av_device s))"

definition put_picker_hook :: "device_service \<Rightarrow> access_view \<Rightarrow> access_view" where
  "put_picker_hook x s = s
     \<lparr>av_page := (av_page s)
        \<lparr>w_toasts := w_toasts x, w_counter := w_counter x, w_now := w_now x, w_auth := w_auth x, w_nav := w_nav x,
         w_pathname := w_pathname x, w_language := w_language x, w_sent := w_sent x, ap_devices := dsv_devices x\<rparr>,
      av_devLoading := dsv_isLoading x, av_devError := dsv_error x, av_device := dsv_device x\<rparr>"

definition picker_rest where
  "picker_rest s =
     (ksv_isLoading (av_page s), ksv_error (av_page s), ksv_apiKeys (av_page s), ksv_rows (av_page s), ap_addOpen (av_page s),
      ap_deleteTarget (av_page s), ap_revokeLoading (av_page s), ap_unhandled (av_page s), av_filter s, av_key s, av_typed s, av_flight s)"

interpretation picker_hook: page_part picker_hook put_picker_hook picker_rest
  by unfold_locales
    (simp_all add: picker_hook_def put_picker_hook_def picker_rest_def device_service.defs world.defs)

definition ask_keys :: "(key_service \<Rightarrow> key_service) \<Rightarrow> access_flight \<Rightarrow> access_view \<Rightarrow> access_view" where
  "ask_keys f req s =
     s\<lparr>av_page := put_keys_hook (f (keys_hook (av_page s))) (av_page s), av_flight := av_flight s @ [req]\<rparr>"

definition ask_picker :: "access_view \<Rightarrow> access_view" where
  "ask_picker s = put_picker_hook (devices_asked 1 20 (picker_hook s)) (s\<lparr>av_flight := av_flight s @ [AvDevices]\<rparr>)"

definition access_unhandled :: "thrown \<Rightarrow> access_view \<Rightarrow> access_view" where
  "access_unhandled e s = s\<lparr>av_page := (av_page s)\<lparr>ap_unhandled := ap_unhandled (av_page s) @ [e]\<rparr>\<rparr>"

text \<open>The handlers from the answer on. An issued key starts the list again, not awaited, before the toast.\<close>

definition issue_settle :: "access_strings \<Rightarrow> string option \<Rightarrow> (thrown + create_api_key_response option) \<Rightarrow> access_view \<Rightarrow> access_view" where
  "issue_settle t name r s =
     (case r of
        Inl e \<Rightarrow> access_unhandled e (s\<lparr>av_key := kd_settled (Inl e) (av_key s)\<rparr>)
      | Inr None \<Rightarrow> s\<lparr>av_key := kd_settled (Inr None) (av_key s)\<rparr>
      | Inr (Some c) \<Rightarrow>
          (let device = nullish name (ck_id c); s1 = ask_keys keys_asked AvKeys s
           in s1\<lparr>av_page := snd (push_toast (issued_toast t device) (av_page s1)),
                 av_key := kd_settled (Inr (Some \<lparr>rp_deviceName = device, rp_plainKey = ck_plain_key c\<rparr>)) (av_key s)\<rparr>))"

fun access_settle :: "access_strings \<Rightarrow> access_flight \<Rightarrow> access_answer \<Rightarrow> access_view \<Rightarrow> access_view" where
  "access_settle t AvKeys a s =
     (case on_part keys_hook put_keys_hook (keys_answered (aa_keys a)) (av_page s) of
        (Inl e, p) \<Rightarrow> access_unhandled e (s\<lparr>av_page := p\<rparr>) | (Inr _, p) \<Rightarrow> s\<lparr>av_page := p\<rparr>)"
| "access_settle t AvDevices a s =
     (case on_part picker_hook put_picker_hook (devices_answered (aa_devices a)) s of
        (Inl e, s') \<Rightarrow> access_unhandled e s' | (Inr _, s') \<Rightarrow> s')"
| "access_settle t (AvIssue i name) a s =
     (case on_part keys_hook put_keys_hook (issue_answered (aa_issue a)) (av_page s) of
        (r, p) \<Rightarrow> issue_settle t name r (s\<lparr>av_page := p\<rparr>))"
| "access_settle t (AvRevoke row) a s =
     s\<lparr>av_page := snd (io_finally
         (io_catch
           (io_then (on_part keys_hook put_keys_hook (revoke_answered (kr_id row) (aa_revoke a)))
           (io_then (push_toast (revoked_toast t row))
             (io_modify (\<lambda>p. p\<lparr>ap_deleteTarget := None\<rparr>))))
           (\<lambda>_. push_toast (mk_toast ToastError (as_revokeTitle t) (as_revokeFailed t))))
         (io_modify (\<lambda>p. p\<lparr>ap_revokeLoading := False\<rparr>)) (av_page s))\<rparr>"

datatype access_event =
    AxRefresh
  | AxBar keys_bar
  | AxShowAdd
  | AxCloseAdd
  | AxPick string
  | AxIssue
  | AxCopy clipboard_env
  | AxCopyEnd
  | AxAskRevoke string
  | AxTyped string
  | AxCloseRevoke
  | AxConfirm
  | AxAnswer nat access_answer

definition access_rows :: "access_env \<Rightarrow> access_view \<Rightarrow> api_key_row list" where
  "access_rows env s = keys_shown (xe_getTime env) (xe_collate env) (av_filter s) (ksv_rows (av_page s))"

text \<open>The form of the key dialog is on the screen; the devices it offers.\<close>

definition key_form_shown :: "key_dialog \<Rightarrow> bool" where
  "key_form_shown d \<longleftrightarrow> kd_open d \<and> \<not> (kd_revealMode d \<and> kd_reveal d \<noteq> None)"

definition offered_devices :: "access_view \<Rightarrow> device_with_access list" where
  "offered_devices s = available_devices (ap_devices (av_page s)) (ksv_rows (av_page s))"

definition device_name_of :: "access_view \<Rightarrow> string \<Rightarrow> string option" where
  "device_name_of s i = map_option d_name (find (\<lambda>d. d_id d = i) (ap_devices (av_page s)))"

fun access_step :: "access_env \<Rightarrow> access_event \<Rightarrow> access_view \<Rightarrow> access_view" where
  "access_step env AxRefresh s = ask_keys keys_asked AvKeys s"
| "access_step env (AxBar e) s = s\<lparr>av_filter := keys_bar_step (av_filter s) e\<rparr>"
| "access_step env AxShowAdd s =
     s\<lparr>av_page := (av_page s)\<lparr>ap_addOpen := True\<rparr>, av_key := (if kd_open (av_key s) then av_key s else kd_opened (av_key s))\<rparr>"
| "access_step env AxCloseAdd s = s\<lparr>av_page := (av_page s)\<lparr>ap_addOpen := False\<rparr>, av_key := kd_closed (av_key s)\<rparr>"
| "access_step env (AxPick v) s =
     (if key_form_shown (av_key s) \<and> offered_devices s \<noteq> [] \<and> v \<in> insert [] (d_id ` set (offered_devices s))
      then s\<lparr>av_key := kd_pick v (av_key s)\<rparr> else s)"
| "access_step env AxIssue s =
     (if key_form_shown (av_key s) \<and> \<not> kd_submitting (av_key s)
      then (case kd_submit (xe_deviceRequired env) (ap_devices (av_page s)) (ksv_rows (av_page s)) (av_key s) of
              (d, None) \<Rightarrow> s\<lparr>av_key := d\<rparr>
            | (d, Some i) \<Rightarrow> ask_keys (issue_asked i) (AvIssue i (device_name_of s i)) (s\<lparr>av_key := d\<rparr>))
      else s)"
| "access_step env (AxCopy c) s =
     (if kd_open (av_key s) \<and> kd_revealMode (av_key s) then s\<lparr>av_key := kd_copyKey c (av_key s)\<rparr> else s)"
| "access_step env AxCopyEnd s = s\<lparr>av_key := (av_key s)\<lparr>kd_copied := copy_timeout (kd_copied (av_key s))\<rparr>\<rparr>"
| "access_step env (AxAskRevoke i) s =
     (case keys_action (access_rows env s) i (icon_action True) of
        None \<Rightarrow> s
      | Some r \<Rightarrow> s\<lparr>av_page := (av_page s)\<lparr>ap_deleteTarget := Some r\<rparr>,
                    av_typed := (if ap_deleteTarget (av_page s) = None then [] else av_typed s)\<rparr>)"
| "access_step env (AxTyped v) s = (if ap_deleteTarget (av_page s) = None then s else s\<lparr>av_typed := v\<rparr>)"
| "access_step env AxCloseRevoke s = s\<lparr>av_page := (av_page s)\<lparr>ap_deleteTarget := None\<rparr>\<rparr>"
| "access_step env AxConfirm s =
     (case ap_deleteTarget (av_page s) of
        None \<Rightarrow> s
      | Some row \<Rightarrow>
          if dm_can_confirm (delete_key_phrase row) (av_typed s) \<and> \<not> ap_revokeLoading (av_page s)
          then ask_keys (revoke_asked (kr_device_id row) (kr_id row)) (AvRevoke row)
                 (s\<lparr>av_page := (av_page s)\<lparr>ap_revokeLoading := True\<rparr>\<rparr>)
          else s)"
| "access_step env (AxAnswer n a) s =
     (if n < length (av_flight s)
      then access_settle (xe_strings env) (av_flight s ! n) a (s\<lparr>av_flight := without_nth n (av_flight s)\<rparr>) else s)"

definition access_run :: "access_env \<Rightarrow> access_event list \<Rightarrow> access_view \<Rightarrow> access_view" where
  "access_run env es s = foldl (\<lambda>s e. access_step env e s) s es"

lemma access_run_simps [simp]:
  "access_run env [] s = s" "access_run env (e # es) s = access_run env es (access_step env e s)"
  by (simp_all add: access_run_def)

definition access_blank :: "world \<Rightarrow> access_view" where
  "access_blank w =
     \<lparr>av_page = key_service.extend (world.extend w (key_service.fields False None [] [])) (access_page.fields [] False None False []),
      av_devLoading = False, av_devError = None, av_device = None, av_filter = keys_filter_start, av_key = key_dialog_closed,
      av_typed = [], av_flight = []\<rparr>"

definition access_mount :: "world \<Rightarrow> access_view" where
  "access_mount w = ask_picker (ask_keys keys_asked AvKeys (access_blank w))"

definition access_at :: "access_env \<Rightarrow> world \<Rightarrow> access_event list \<Rightarrow> access_view" where
  "access_at env w es = access_run env es (access_mount w)"

text \<open>The handler of the revocation is the event that asks and the answer.\<close>

lemma put_keys_again: "keys_hook (put_keys_hook x p) = x" "put_keys_hook y (put_keys_hook x p) = put_keys_hook y p"
  by (simp_all add: keys_hook_def put_keys_hook_def key_service.defs)

lemma revoke_handler_whole:
  "ap_deleteTarget p = Some row \<Longrightarrow> handleRevoke_key t out p =
     io_finally
       (io_catch
         (io_then (on_part keys_hook put_keys_hook (revoke_answered (kr_id row) out))
         (io_then (push_toast (revoked_toast t row)) (io_modify (\<lambda>p. p\<lparr>ap_deleteTarget := None\<rparr>))))
         (\<lambda>_. push_toast (mk_toast ToastError (as_revokeTitle t) (as_revokeFailed t))))
       (io_modify (\<lambda>p. p\<lparr>ap_revokeLoading := False\<rparr>))
       (put_keys_hook (revoke_asked (kr_device_id row) (kr_id row) (keys_hook (p\<lparr>ap_revokeLoading := True\<rparr>))) (p\<lparr>ap_revokeLoading := True\<rparr>))"
  by (simp add: handleRevoke_key_def on_part_def io_unfold put_keys_again revoke_in_two_steps)

section \<open>The flags and the requests\<close>

fun is_revoke :: "access_flight \<Rightarrow> bool" where
  "is_revoke (AvRevoke r) = True" | "is_revoke _ = False"

fun is_issue :: "access_flight \<Rightarrow> bool" where
  "is_issue (AvIssue i n) = True" | "is_issue _ = False"

definition of_picker :: "access_flight \<Rightarrow> bool" where
  "of_picker r \<longleftrightarrow> r = AvDevices"

definition pending :: "(access_flight \<Rightarrow> bool) \<Rightarrow> access_view \<Rightarrow> nat" where
  "pending P s = length (filter P (av_flight s))"

definition access_flags :: "access_view \<Rightarrow> bool \<times> bool \<times> bool \<times> bool" where
  "access_flags s = (ksv_isLoading (av_page s), ap_revokeLoading (av_page s), av_devLoading s, ap_addOpen (av_page s) = kd_open (av_key s))"

definition access_inv :: "access_view \<Rightarrow> bool" where
  "access_inv s \<longleftrightarrow>
     pending is_revoke s = of_bool (ap_revokeLoading (av_page s)) \<and>
     (ksv_isLoading (av_page s) \<longrightarrow> 0 < pending (\<lambda>r. \<not> of_picker r) s) \<and>
     (av_devLoading s \<longrightarrow> 0 < pending of_picker s) \<and>
     ap_addOpen (av_page s) = kd_open (av_key s)"

lemma key_halves_idle:
  "\<not> ksv_isLoading (snd (keys_answered out1 x))" "\<not> ksv_isLoading (snd (issue_answered out2 x))"
  "\<not> ksv_isLoading (snd (revoke_answered k out3 x))"
  by (simp_all add: keys_answered_def issue_answered_def revoke_answered_def ksv_setIsLoading_def ksv_loading.finally_flag)

lemma picker_half_idle: "\<not> dsv_isLoading (snd (devices_answered out x))"
  using half_frames(1) [of out x] by (simp add: devices_frame_def)

definition page_bits :: "access_page \<Rightarrow> bool \<times> bool \<times> bool" where
  "page_bits p = (ksv_isLoading p, ap_revokeLoading p, ap_addOpen p)"

lemma page_bits_put: "page_bits (put_keys_hook x p) = (ksv_isLoading x, ap_revokeLoading p, ap_addOpen p)"
  by (simp add: page_bits_def put_keys_hook_def)

lemma page_bits_part:
  "page_bits (snd (on_part keys_hook put_keys_hook m p)) = (ksv_isLoading (snd (m (keys_hook p))), ap_revokeLoading p, ap_addOpen p)"
  by (simp add: on_part_def page_bits_put split: prod.split)

lemma page_bits_simps [simp]:
  "page_bits (pushed b p) = page_bits p" "page_bits (p\<lparr>ap_deleteTarget := d\<rparr>) = page_bits p"
  "page_bits (p\<lparr>ap_unhandled := us\<rparr>) = page_bits p"
  "page_bits (p\<lparr>ap_revokeLoading := b'\<rparr>) = (fst (page_bits p), b', snd (snd (page_bits p)))"
  by (simp_all add: page_bits_def pushed_def)

lemma revoke_settled_bits:
  "page_bits (snd (io_finally
     (io_catch (io_then m (io_then (push_toast b) (io_modify (\<lambda>p. p\<lparr>ap_deleteTarget := None\<rparr>)))) (\<lambda>_. push_toast b'))
     (io_modify (\<lambda>p. p\<lparr>ap_revokeLoading := False\<rparr>)) p)) =
   (fst (page_bits (snd (m p))), False, snd (snd (page_bits (snd (m p)))))"
  by (cases "m p"; cases "fst (m p)") (auto simp: io_simps)

lemma asked_loading [simp]:
  "ksv_isLoading (keys_asked x)" "ksv_isLoading (issue_asked i x)" "ksv_isLoading (revoke_asked i k x)"
  "dsv_isLoading (devices_asked page pageSize y)"
  by (simp_all add: keys_asked_def issue_asked_def revoke_asked_def devices_asked_def)

lemma kd_open_settled [simp]: "kd_open (kd_settled r d) = kd_open d"
  by (simp add: kd_settled_def split: sum.split option.split)

lemma ask_keys_simps [simp]:
  "av_flight (ask_keys f req s) = av_flight s @ [req]" "av_devLoading (ask_keys f req s) = av_devLoading s"
  "av_key (ask_keys f req s) = av_key s"
  "page_bits (av_page (ask_keys f req s)) =
     (ksv_isLoading (f (keys_hook (av_page s))), ap_revokeLoading (av_page s), ap_addOpen (av_page s))"
  by (simp_all add: ask_keys_def page_bits_put)

definition view_bits :: "access_view \<Rightarrow> (bool \<times> bool \<times> bool) \<times> bool \<times> bool" where
  "view_bits s = (page_bits (av_page s), av_devLoading s, kd_open (av_key s))"

lemma unhandled_bits [simp]:
  "view_bits (access_unhandled e s) = view_bits s" "av_flight (access_unhandled e s) = av_flight s"
  by (simp_all add: access_unhandled_def view_bits_def)

lemma picker_bits:
  "view_bits (put_picker_hook x s) = (page_bits (av_page s), dsv_isLoading x, kd_open (av_key s))"
  "av_flight (put_picker_hook x s) = av_flight s"
  by (simp_all add: put_picker_hook_def view_bits_def page_bits_def)

text \<open>What an answer does to the flags, and the one request it may start.\<close>

lemma access_settle_bits:
  "\<exists>us. av_flight (access_settle t req a s) = av_flight s @ us \<and> us \<in> {[], [AvKeys]} \<and> (us \<noteq> [] \<longrightarrow> is_issue req) \<and>
     view_bits (access_settle t req a s) =
       ((if of_picker req then ksv_isLoading (av_page s) else us \<noteq> [],
         if is_revoke req then False else ap_revokeLoading (av_page s), ap_addOpen (av_page s)),
        if of_picker req then False else av_devLoading s, kd_open (av_key s))"
proof (cases req)
  case AvKeys
  obtain r p where rp: "on_part keys_hook put_keys_hook (keys_answered (aa_keys a)) (av_page s) = (r, p)" by fastforce
  then have "page_bits p = (False, ap_revokeLoading (av_page s), ap_addOpen (av_page s))"
    using page_bits_part [of "keys_answered (aa_keys a)" "av_page s"] by (simp add: key_halves_idle)
  then show ?thesis using AvKeys rp by (cases r) (simp_all add: view_bits_def of_picker_def access_unhandled_def)
next
  case AvDevices
  have "\<not> dsv_isLoading (snd (devices_answered (aa_devices a) (picker_hook s)))" by (rule picker_half_idle)
  then show ?thesis using AvDevices
    by (auto simp: on_part_def picker_bits of_picker_def page_bits_def split: prod.split sum.split)
next
  case (AvIssue i name)
  obtain r p where rp: "on_part keys_hook put_keys_hook (issue_answered (aa_issue a)) (av_page s) = (r, p)" by fastforce
  then have bits: "page_bits p = (False, ap_revokeLoading (av_page s), ap_addOpen (av_page s))"
    using page_bits_part [of "issue_answered (aa_issue a)" "av_page s"] by (simp add: key_halves_idle)
  show ?thesis
  proof (cases r)
    case (Inl e)
    then show ?thesis using AvIssue rp bits by (simp add: issue_settle_def view_bits_def of_picker_def access_unhandled_def)
  next
    case (Inr c)
    then show ?thesis using AvIssue rp bits
      by (cases c) (simp_all add: issue_settle_def view_bits_def of_picker_def Let_def io_simps page_bits_def ask_keys_def put_keys_hook_def pushed_def)
  qed
next
  case (AvRevoke row)
  have "\<not> ksv_isLoading (snd (revoke_answered (kr_id row) (aa_revoke a) (keys_hook (av_page s))))" by (rule key_halves_idle)
  then show ?thesis using AvRevoke by (simp add: view_bits_def of_picker_def revoke_settled_bits page_bits_part)
qed

lemma pending_ask [simp]: "pending P (ask_keys f req s) = pending P s + (if P req then 1 else 0)"
  by (simp add: pending_def)

lemma access_inv_bits:
  "access_inv s \<longleftrightarrow>
     (case view_bits s of ((loading, revoking, added), dev, opened) \<Rightarrow>
        pending is_revoke s = of_bool revoking \<and> (loading \<longrightarrow> 0 < pending (\<lambda>r. \<not> of_picker r) s) \<and>
        (dev \<longrightarrow> 0 < pending of_picker s) \<and> added = opened)"
  by (simp add: access_inv_def view_bits_def page_bits_def)

lemma access_inv_answer:
  assumes inv: "access_inv s" and n: "n < length (av_flight s)"
  shows "access_inv (access_step env (AxAnswer n a) s)"
proof -
  define req where "req = av_flight s ! n"
  define s0 where "s0 = s\<lparr>av_flight := without_nth n (av_flight s)\<rparr>"
  define s' where "s' = access_settle (xe_strings env) req a s0"
  obtain us where us: "av_flight s' = av_flight s0 @ us" "us \<in> {[], [AvKeys]}"
    "view_bits s' =
       ((if of_picker req then ksv_isLoading (av_page s0) else us \<noteq> [],
         if is_revoke req then False else ap_revokeLoading (av_page s0), ap_addOpen (av_page s0)),
        if of_picker req then False else av_devLoading s0, kd_open (av_key s0))"
    using access_settle_bits [of "xe_strings env" req a s0] s'_def by blast
  have gone: "pending P s = pending P s0 + (if P req then 1 else 0)" for P
    using count_without_nth [OF n, of P] by (simp add: pending_def s0_def req_def)
  have more: "pending P s' = pending P s0 + length (filter P us)" for P
    by (simp add: pending_def us(1))
  have "access_inv s'"
    using inv us(2) gone [of is_revoke] gone [of of_picker] gone [of "\<lambda>r. \<not> of_picker r"]
    unfolding access_inv_bits us(3) more
    by (cases req) (auto simp: of_picker_def s0_def view_bits_def page_bits_def of_bool_def split: if_splits)
  then show ?thesis using n by (simp add: s'_def s0_def req_def)
qed

lemma access_inv_cong:
  "access_inv s \<Longrightarrow> view_bits s' = view_bits s \<Longrightarrow> av_flight s' = av_flight s \<Longrightarrow> access_inv s'"
  by (simp add: access_inv_bits pending_def)

lemma access_inv_asks:
  assumes "access_inv s" "ksv_isLoading (f (keys_hook (av_page s)))" "\<not> is_revoke req" "\<not> of_picker req"
  shows "access_inv (ask_keys f req s)"
  using assms by (simp add: access_inv_bits view_bits_def page_bits_def ask_keys_def pending_def put_keys_hook_def)

lemma kd_open_submit: "kd_submit m ds rs d = (d', r) \<Longrightarrow> kd_open d' = kd_open d"
  by (auto simp: kd_submit_def Let_def split: if_splits option.splits)

lemma kd_open_other [simp]:
  "kd_open (kd_pick v d) = kd_open d" "kd_open (kd_copyKey c d) = kd_open d" "kd_open (kd_opened d) = True" "kd_open (kd_closed d) = False"
  by (simp_all add: kd_pick_def kd_copyKey_def kd_opened_def kd_closed_def Let_def split: option.split)

lemma access_inv_step:
  assumes inv: "access_inv s"
  shows "access_inv (access_step env e s)"
proof (cases e)
  case AxRefresh
  then show ?thesis using inv by (simp add: access_inv_asks of_picker_def)
next
  case AxIssue
  obtain d r where dr: "kd_submit (xe_deviceRequired env) (ap_devices (av_page s)) (ksv_rows (av_page s)) (av_key s) = (d, r)" by fastforce
  have "access_inv (s\<lparr>av_key := d\<rparr>)"
    using inv kd_open_submit [OF dr] by (auto intro: access_inv_cong simp: view_bits_def)
  then show ?thesis using AxIssue dr inv
    by (cases r) (simp_all add: access_inv_asks of_picker_def)
next
  case (AxAskRevoke i)
  then show ?thesis using inv by (auto intro: access_inv_cong simp: view_bits_def split: option.split)
next
  case AxConfirm
  then show ?thesis using inv
    by (auto simp: access_inv_def of_picker_def ask_keys_def put_keys_hook_def pending_def split: option.split)
next
  case (AxAnswer n a)
  then show ?thesis
    using access_inv_answer [OF inv] inv by (cases "n < length (av_flight s)") simp_all
qed (use inv in \<open>auto simp: access_inv_def pending_def\<close>)

lemma access_inv_run: "access_inv s \<Longrightarrow> access_inv (access_run env es s)"
  by (induction es arbitrary: s) (simp_all add: access_inv_step)

lemma access_at_inv: "access_inv (access_at env w es)"
proof -
  have "access_inv (access_mount w)"
    by (simp add: access_mount_def ask_picker_def access_inv_bits picker_bits pending_def access_blank_def of_picker_def
        key_service.defs world.defs access_page.defs key_dialog_closed_def)
  then show ?thesis unfolding access_at_def by (rule access_inv_run)
qed

text \<open>C35: On the access page one revocation runs at a time, and the button that confirms is busy exactly while it does;
  the loading flags of both lists are set only while a request that will take them away is under way; the
  page and the key dialog agree on whether the dialog is open.\<close>

theorem access_page_requests:
  "let s = access_at env w es in
     length (filter is_revoke (av_flight s)) = (if ap_revokeLoading (av_page s) then 1 else 0) \<and>
     (if list_all of_picker (av_flight s) then \<not> ksv_isLoading (av_page s) else True) \<and>
     (if AvDevices \<in> set (av_flight s) then True else \<not> av_devLoading s) \<and>
     ap_addOpen (av_page s) = kd_open (av_key s)"
proof -
  have "access_inv (access_at env w es)" by (rule access_at_inv)
  moreover have "pending (\<lambda>r. \<not> of_picker r) s = 0" if "list_all of_picker (av_flight s)" for s
    using that by (auto simp: pending_def filter_empty_conv list_all_iff)
  moreover have "pending of_picker s = 0" if "AvDevices \<notin> set (av_flight s)" for s
    using that by (auto simp: pending_def filter_empty_conv of_picker_def)
  ultimately show ?thesis by (auto simp: Let_def access_inv_def pending_def)
qed

section \<open>Every answer\<close>

definition access_answers :: "nat \<Rightarrow> (nat \<Rightarrow> access_answer) \<Rightarrow> access_event list" where
  "access_answers n f = map (\<lambda>i. AxAnswer 0 (f i)) [0..<n]"

interpretation access_flights: answered_page av_flight "\<lambda>a. access_step env (AxAnswer 0 a)" is_issue for env
proof
  fix s :: access_view and r rest a assume flight: "av_flight s = r # rest"
  obtain us where "av_flight (access_settle (xe_strings env) r a (s\<lparr>av_flight := rest\<rparr>)) = rest @ us" "us \<in> {[], [AvKeys]}"
      "us \<noteq> [] \<longrightarrow> is_issue r"
    using access_settle_bits [of "xe_strings env" r a "s\<lparr>av_flight := rest\<rparr>"] by auto
  then show "\<exists>us. av_flight (access_step env (AxAnswer 0 a) s) = rest @ us \<and> list_all (\<lambda>u. \<not> is_issue u) us \<and>
      length us \<le> of_bool (is_issue r)"
    using flight by auto
qed simp

record access_texts =
  xt_title :: string
  xt_addFirstKey :: string

definition access_page_body :: "access_env \<Rightarrow> access_texts \<Rightarrow> access_view \<Rightarrow> list_body" where
  "access_page_body env x s =
     list_body (xt_title x) (xt_addFirstKey x) (ksv_rows (av_page s)) (ksv_isLoading (av_page s)) (access_rows env s)"

definition access_alert :: "access_view \<Rightarrow> string option" where
  "access_alert s = map_option err_message (ksv_error (av_page s))"

definition access_result_row :: "access_env \<Rightarrow> access_texts \<Rightarrow> access_view \<Rightarrow> string \<times> bool" where
  "access_result_row env x s =
     (keys_count (xt_title x) (access_rows env s) (ksv_rows (av_page s)), keys_has_filters (av_filter s))"

text \<open>C34: The access page comes to rest: when every request under way is answered, each in whatever way, and the lists that
  issued keys started are too, neither list is loading and the confirming button is free again; the page
  shows its table, or the notice that fits.\<close>

theorem access_page_settles:
  "let s = access_at env w es; s' = access_run env (access_answers (2 * length (av_flight s)) f) s; b = access_page_body env x s' in
     av_flight s' = [] \<and> \<not> ksv_isLoading (av_page s') \<and> \<not> ap_revokeLoading (av_page s') \<and> \<not> av_devLoading s' \<and>
     (if ksv_rows (av_page s') = [] then b = ListEmpty (xt_title x) (xt_addFirstKey x)
      else b = (if access_rows env s' = [] then ListNoResults else ListTable))"
proof -
  let ?s = "access_at env w es"
  let ?as = "map f [0..<2 * length (av_flight ?s)]"
  let ?s' = "access_run env (access_answers (2 * length (av_flight ?s)) f) ?s"
  have "?s' = fold (\<lambda>a. access_step env (AxAnswer 0 a)) ?as ?s"
    by (simp add: access_run_def access_answers_def foldl_conv_fold fold_map comp_def)
  then have "av_flight ?s' = []"
    using access_flights.all_answered [of ?s ?as env] by (simp add: flight_weight_le)
  moreover have "access_inv ?s'" by (intro access_inv_run access_at_inv)
  ultimately show ?thesis by (simp add: Let_def access_inv_def pending_def access_page_body_def list_body_def)
qed

section \<open>The plain key\<close>

text \<open>The view without the plain key of the dialog, and without the mark of its copy button; events whose answers
  carry no plain key.\<close>

definition kd_public :: "key_dialog \<Rightarrow> key_dialog" where
  "kd_public d = d\<lparr>kd_reveal := map_option (rp_plainKey_update (\<lambda>_. [])) (kd_reveal d), kd_copied := False\<rparr>"

definition public_view :: "access_view \<Rightarrow> access_view" where
  "public_view s = s\<lparr>av_key := kd_public (av_key s)\<rparr>"

definition without_key :: "create_api_key_response \<Rightarrow> create_api_key_response" where
  "without_key c = c\<lparr>ck_plain_key := []\<rparr>"

definition keyless :: "(thrown + create_api_key_response envelope fetch_result) \<Rightarrow> thrown + create_api_key_response envelope fetch_result" where
  "keyless out =
     (case out of
        Inl e \<Rightarrow> Inl e
      | Inr r \<Rightarrow> Inr (r\<lparr>fr_data := map_option (\<lambda>v. v\<lparr>env_data := map_option without_key (env_data v)\<rparr>) (fr_data r)\<rparr>))"

fun keyless_event :: "access_event \<Rightarrow> access_event" where
  "keyless_event (AxAnswer n a) = AxAnswer n (a\<lparr>aa_issue := keyless (aa_issue a)\<rparr>)"
| "keyless_event e = e"

lemma without_key_idem [simp]: "without_key (without_key c) = without_key c"
  by (simp add: without_key_def)

lemma keyless_idem [simp]: "keyless (keyless out) = keyless out"
  by (simp add: keyless_def option.map_comp comp_def split: sum.split)

lemma keyless_event_idem [simp]: "keyless_event (keyless_event e) = keyless_event e"
  by (cases e) simp_all

lemma kd_public_idem [simp]: "kd_public (kd_public d) = kd_public d"
  by (simp add: kd_public_def option.map_comp comp_def)

lemma public_idem [simp]: "public_view (public_view s) = public_view s"
  by (simp add: public_view_def)

lemma kd_public_fields [simp]:
  "kd_open (kd_public d) = kd_open d" "kd_revealMode (kd_public d) = kd_revealMode d" "kd_deviceId (kd_public d) = kd_deviceId d"
  "kd_submitting (kd_public d) = kd_submitting d" "kd_error (kd_public d) = kd_error d"
  "key_form_shown (kd_public d) = key_form_shown d"
  by (simp_all add: kd_public_def key_form_shown_def)

lemma public_fields [simp]:
  "av_page (public_view s) = av_page s" "av_filter (public_view s) = av_filter s" "av_typed (public_view s) = av_typed s"
  "av_flight (public_view s) = av_flight s" "av_devLoading (public_view s) = av_devLoading s" "av_key (public_view s) = kd_public (av_key s)"
  "picker_hook (public_view s) = picker_hook s"
  by (simp_all add: public_view_def picker_hook_def)

lemma public_updates:
  "public_view ((public_view s)\<lparr>av_page := p\<rparr>) = public_view (s\<lparr>av_page := p\<rparr>)"
  "public_view ((public_view s)\<lparr>av_filter := f\<rparr>) = public_view (s\<lparr>av_filter := f\<rparr>)"
  "public_view ((public_view s)\<lparr>av_typed := v\<rparr>) = public_view (s\<lparr>av_typed := v\<rparr>)"
  "public_view ((public_view s)\<lparr>av_page := p, av_typed := v\<rparr>) = public_view (s\<lparr>av_page := p, av_typed := v\<rparr>)"
  "(public_view s)\<lparr>av_flight := fl\<rparr> = public_view (s\<lparr>av_flight := fl\<rparr>)"
  "public_view (ask_keys g req (public_view s)) = public_view (ask_keys g req s)"
  "public_view (access_unhandled e (public_view s)) = public_view (access_unhandled e s)"
  "put_picker_hook x (public_view s) = public_view (put_picker_hook x s)"
  by (simp_all add: public_view_def ask_keys_def access_unhandled_def put_picker_hook_def)

lemma kd_public_ops:
  "kd_public (kd_opened (kd_public d)) = kd_public (kd_opened d)" "kd_public (kd_closed (kd_public d)) = kd_public (kd_closed d)"
  "kd_public (kd_pick v (kd_public d)) = kd_public (kd_pick v d)"
  "kd_public (kd_copyKey c d) = kd_public d" "kd_public (d\<lparr>kd_copied := b\<rparr>) = kd_public d"
  by (simp_all add: kd_public_def kd_opened_def kd_closed_def kd_pick_def kd_copyKey_def Let_def option.map_comp comp_def
      split: option.split)

lemma kd_submit_public: "kd_submit m ds rs (kd_public d) = map_prod kd_public id (kd_submit m ds rs d)"
  by (simp add: kd_submit_def kd_public_def Let_def split: option.split)

lemma issue_keyless:
  "issue_answered (keyless out) x = map_prod (map_sum id (map_option without_key)) id (issue_answered out x)"
proof (cases out)
  case (Inl e)
  then show ?thesis
    by (simp add: keyless_def issue_answered_def io_simps service_defs)
next
  case (Inr r)
  then show ?thesis
  proof (cases "Option.bind (fr_data r) env_data")
    case None
    then show ?thesis using Inr
      by (cases "fr_data r") (simp_all add: keyless_def issue_answered_def io_simps service_defs)
  next
    case (Some c)
    then show ?thesis using Inr
      by (cases "fr_data r") (simp_all add: keyless_def issue_answered_def io_simps service_defs without_key_def key_metadata_def)
  qed
qed

lemma kd_settled_public:
  "kd_public (kd_settled (Inl e) (kd_public d)) = kd_public (kd_settled (Inl e) d)"
  "kd_public (kd_settled (Inr None) (kd_public d)) = kd_public (kd_settled (Inr None) d)"
  "kd_public (kd_settled (Inr (Some \<lparr>rp_deviceName = n, rp_plainKey = []\<rparr>)) (kd_public d)) =
   kd_public (kd_settled (Inr (Some \<lparr>rp_deviceName = n, rp_plainKey = k\<rparr>)) d)"
  by (simp_all add: kd_public_def kd_settled_def option.map_comp comp_def)

lemma issue_settle_public:
  "public_view (issue_settle t name (map_sum id (map_option without_key) r) (public_view s)) = public_view (issue_settle t name r s)"
proof (cases r)
  case (Inl e)
  then show ?thesis using kd_settled_public(1) [of e "av_key s"]
    by (simp add: issue_settle_def access_unhandled_def public_view_def)
next
  case (Inr c)
  then show ?thesis
    using kd_settled_public(2) [of "av_key s"] kd_settled_public(3) [of _ "av_key s"]
    by (cases c) (simp_all add: issue_settle_def public_view_def ask_keys_def Let_def io_simps without_key_def)
qed

lemma settle_public:
  "public_view (access_settle t req (a\<lparr>aa_issue := keyless (aa_issue a)\<rparr>) (public_view s)) = public_view (access_settle t req a s)"
proof (cases req)
  case AvKeys
  then show ?thesis by (simp add: public_updates split: prod.split sum.split) (simp add: public_view_def access_unhandled_def)
next
  case AvDevices
  then show ?thesis by (simp add: on_part_def public_updates split: prod.split sum.split)
next
  case (AvIssue i name)
  obtain r p where rp: "on_part keys_hook put_keys_hook (issue_answered (aa_issue a)) (av_page s) = (r, p)" by fastforce
  then have "on_part keys_hook put_keys_hook (issue_answered (keyless (aa_issue a))) (av_page s) =
      (map_sum id (map_option without_key) r, p)"
    by (simp add: on_part_def issue_keyless split: prod.splits)
  moreover have "(public_view s)\<lparr>av_page := p\<rparr> = public_view (s\<lparr>av_page := p\<rparr>)" by (simp add: public_view_def)
  ultimately show ?thesis using AvIssue rp issue_settle_public [of t name r "s\<lparr>av_page := p\<rparr>"] by simp
next
  case (AvRevoke row)
  then show ?thesis by (simp add: public_updates)
qed

lemma public_key_update: "kd_public d' = kd_public d \<Longrightarrow> public_view ((public_view s)\<lparr>av_key := d'\<rparr>) = public_view (s\<lparr>av_key := d\<rparr>)"
  by (simp add: public_view_def)

lemma step_public: "public_view (access_step env (keyless_event e) (public_view s)) = public_view (access_step env e s)"
proof (cases e)
  case AxRefresh
  then show ?thesis by (simp add: public_updates)
next
  case (AxPick v)
  then show ?thesis using kd_public_ops(3) [of v "av_key s"] by (auto simp: offered_devices_def public_view_def)
next
  case AxIssue
  obtain d r where dr: "kd_submit (xe_deviceRequired env) (ap_devices (av_page s)) (ksv_rows (av_page s)) (av_key s) = (d, r)" by fastforce
  then show ?thesis using AxIssue
    by (cases r) (simp_all add: kd_submit_public public_view_def ask_keys_def device_name_of_def)
next
  case (AxAskRevoke i)
  then show ?thesis by (simp add: access_rows_def public_view_def split: option.split)
next
  case AxConfirm
  then show ?thesis by (simp add: public_view_def ask_keys_def split: option.split)
next
  case (AxAnswer n a)
  then show ?thesis
    using settle_public [of "xe_strings env" "av_flight s ! n" a "s\<lparr>av_flight := without_nth n (av_flight s)\<rparr>"]
    by (simp add: public_updates)
qed (simp_all add: public_updates kd_public_ops offered_devices_def public_view_def)

lemma step_public_again:
  "public_view s = public_view s' \<Longrightarrow> public_view (access_step env (keyless_event e) s') = public_view (access_step env e s)"
  using step_public [of env e s] step_public [of env "keyless_event e" s'] by simp

lemma run_public:
  "public_view s = public_view s' \<Longrightarrow> public_view (access_run env (map keyless_event es) s') = public_view (access_run env es s)"
proof (induction es arbitrary: s s')
  case (Cons e es)
  then show ?case using step_public_again [OF Cons.prems, of env e] by simp
qed simp

text \<open>C14: An issued key is on the screen of its dialog and nowhere else: if every plain key in the answers of the
  backend is replaced by nothing, the page goes through exactly the same states, with the same requests,
  toasts, lists, filters and flags, and the dialog too but for the key it shows and the mark of
  its copy button; and it shows a key only while it is open.\<close>

theorem plain_key_stays_in_dialog:
  "let s = access_at env w es; s' = access_at env w (map keyless_event es) in
     av_page s' = av_page s \<and> av_filter s' = av_filter s \<and> av_typed s' = av_typed s \<and> av_flight s' = av_flight s \<and>
     kd_public (av_key s') = kd_public (av_key s) \<and>
     (if kd_open (av_key s) then True else kd_shown_key (av_key s) = None)"
proof -
  let ?s = "access_at env w es" and ?s' = "access_at env w (map keyless_event es)"
  have eq: "public_view ?s' = public_view ?s"
    unfolding access_at_def by (rule run_public) simp
  have "av_page ?s' = av_page ?s" "av_filter ?s' = av_filter ?s" "av_typed ?s' = av_typed ?s" "av_flight ?s' = av_flight ?s"
    "kd_public (av_key ?s') = kd_public (av_key ?s)"
    using public_fields [of ?s'] public_fields [of ?s] unfolding eq by simp_all
  then show ?thesis by (simp add: Let_def kd_shown_key_def)
qed

section \<open>Late answers\<close>

definition keys_reply :: "api_key_row list \<Rightarrow> thrown + api_key_row list envelope fetch_result" where
  "keys_reply rows = fetched \<lparr>env_status_code = 200, env_message = ''ok'', env_data = Some rows\<rparr>"

definition key_reply :: "create_api_key_response \<Rightarrow> thrown + create_api_key_response envelope fetch_result" where
  "key_reply c = fetched \<lparr>env_status_code = 201, env_message = ''created'', env_data = Some c\<rparr>"

definition access_loaded :: "access_env \<Rightarrow> world \<Rightarrow> access_answer \<Rightarrow> device_list_response \<Rightarrow> api_key_row list \<Rightarrow> access_view" where
  "access_loaded env w a r rows =
     access_at env w [AxAnswer 0 (a\<lparr>aa_keys := keys_reply rows\<rparr>), AxAnswer 0 (a\<lparr>aa_devices := devices_reply r\<rparr>)]"

lemma keys_halves_settled:
  "keys_answered (keys_reply rows) x = (Inr (), x\<lparr>ksv_rows := rows, ksv_isLoading := False\<rparr>)"
  "issue_answered (key_reply c) x =
     (Inr (Some c), (pushed save_key_toast (x\<lparr>ksv_apiKeys := key_metadata c # ksv_apiKeys x\<rparr>))\<lparr>ksv_isLoading := False\<rparr>)"
  "revoke_answered k (fetched ()) x =
     (Inr (), x\<lparr>ksv_apiKeys := drop_key k_id k (ksv_apiKeys x), ksv_rows := drop_key kr_id k (ksv_rows x), ksv_isLoading := False\<rparr>)"
  by (simp_all add: keys_answered_def keys_reply_def issue_answered_def key_reply_def revoke_answered_def fetched_def io_simps service_defs
      set_ksv_loading_def)

lemma list_half_settled: "devices_answered (devices_reply r) x = (Inr (), x\<lparr>dsv_devices := dlr_items r, dsv_isLoading := False\<rparr>)"
  by (simp add: devices_answered_def devices_reply_def fetched_def io_simps service_defs set_dsv_loading_def)

lemma picker_fields [simp]:
  "ksv_rows (av_page (put_picker_hook x s)) = ksv_rows (av_page s)" "ap_devices (av_page (put_picker_hook x s)) = dsv_devices x"
  "ap_deleteTarget (av_page (put_picker_hook x s)) = ap_deleteTarget (av_page s)"
  "ap_revokeLoading (av_page (put_picker_hook x s)) = ap_revokeLoading (av_page s)"
  "av_key (put_picker_hook x s) = av_key s" "av_filter (put_picker_hook x s) = av_filter s"
  by (simp_all add: put_picker_hook_def)

lemma access_loaded_simps:
  "av_flight (access_loaded env w a r rows) = []" "ksv_rows (av_page (access_loaded env w a r rows)) = rows"
  "ap_devices (av_page (access_loaded env w a r rows)) = dlr_items r" "ap_deleteTarget (av_page (access_loaded env w a r rows)) = None"
  "ap_revokeLoading (av_page (access_loaded env w a r rows)) = False" "av_key (access_loaded env w a r rows) = key_dialog_closed"
  "av_filter (access_loaded env w a r rows) = keys_filter_start"
  by (simp_all add: access_loaded_def access_at_def access_mount_def ask_picker_def ask_keys_def on_part_def keys_halves_settled
      list_half_settled access_blank_def picker_bits put_keys_hook_def key_service.defs world.defs access_page.defs)

lemma row_action:
  assumes "av_filter s = keys_filter_start" "r \<in> set (ksv_rows (av_page s))" "distinct (map kr_id (ksv_rows (av_page s)))" "kr_id r \<noteq> []"
  shows "keys_action (access_rows env s) (kr_id r) (icon_action True) = Some r"
proof -
  let ?rows = "js_sort (key_compare (xe_getTime env) (xe_collate env) KeyCreatedDesc) (ksv_rows (av_page s))"
  have "access_rows env s = ?rows"
    using assms(1) by (simp add: access_rows_def keys_shown_def filtered_keys_def filter_sort_def keys_filter_start_def key_matches_def)
  moreover have "find (\<lambda>x. kr_id x = kr_id r) ?rows = Some r"
    using assms(2,3) by (intro find_by_key) (simp_all add: distinct_map_js_sort)
  ultimately show ?thesis using assms(4) by (simp add: keys_action_def icon_action_def)
qed

lemma revoke_confirmed:
  assumes "av_filter s = keys_filter_start" "r \<in> set (ksv_rows (av_page s))" "distinct (map kr_id (ksv_rows (av_page s)))" "kr_id r \<noteq> []"
    and "ap_deleteTarget (av_page s) = None" "\<not> ap_revokeLoading (av_page s)" "av_flight s = []"
  shows "let s' = access_run env [AxAskRevoke (kr_id r), AxTyped (kr_device_name r), AxConfirm, AxCloseRevoke] s in
    av_flight s' = [AvRevoke r] \<and> ap_revokeLoading (av_page s') \<and> ap_deleteTarget (av_page s') = None \<and>
    ksv_rows (av_page s') = ksv_rows (av_page s) \<and> av_filter s' = av_filter s"
  using row_action [OF assms(1-4), of env] assms(5-)
  by (simp add: Let_def dm_can_confirm_def delete_key_phrase_def ask_keys_def put_keys_hook_def revoke_asked_def keys_hook_def key_service.defs)

lemma revoke_answered_page:
  assumes "av_flight s = [AvRevoke r]"
  shows "let s' = access_step env (AxAnswer 0 (a\<lparr>aa_revoke := fetched ()\<rparr>)) s in
    av_flight s' = [] \<and> \<not> ap_revokeLoading (av_page s') \<and> ap_deleteTarget (av_page s') = None \<and>
    ksv_rows (av_page s') = drop_key kr_id (kr_id r) (ksv_rows (av_page s))"
  using assms
  by (simp add: Let_def on_part_def keys_halves_settled io_simps pushed_def put_keys_hook_def keys_hook_def key_service.defs)

text \<open>The dialog that revokes a key can be closed while its request runs, and another one opened. Its button is busy
  with the other request, and the answer to that one closes it.\<close>

theorem late_revocation_closes_dialog:
  "let s = access_run env [AxAskRevoke (kr_id k1), AxTyped (kr_device_name k1), AxConfirm, AxCloseRevoke, AxAskRevoke (kr_id k2)]
             (access_loaded env w a r [k1, k2]);
       s' = access_step env (AxAnswer 0 (a\<lparr>aa_revoke := fetched ()\<rparr>)) s
   in if kr_id k1 = [] \<or> kr_id k2 = [] \<or> kr_id k1 = kr_id k2 then True
      else ap_deleteTarget (av_page s) = Some k2 \<and> ap_revokeLoading (av_page s) \<and> ap_deleteTarget (av_page s') = None \<and>
        ksv_rows (av_page s') = [k2]"
proof (cases "kr_id k1 = [] \<or> kr_id k2 = [] \<or> kr_id k1 = kr_id k2")
  case False
  define s0 where "s0 = access_loaded env w a r [k1, k2]"
  define s1 where "s1 = access_run env [AxAskRevoke (kr_id k1), AxTyped (kr_device_name k1), AxConfirm, AxCloseRevoke] s0"
  have s1: "av_flight s1 = [AvRevoke k1] \<and> ap_revokeLoading (av_page s1) \<and> ap_deleteTarget (av_page s1) = None \<and>
      ksv_rows (av_page s1) = [k1, k2] \<and> av_filter s1 = keys_filter_start"
    using revoke_confirmed [of s0 k1 env] False by (simp add: s0_def s1_def access_loaded_simps Let_def del: access_run_simps)
  define s2 where "s2 = access_step env (AxAskRevoke (kr_id k2)) s1"
  have s2: "av_flight s2 = [AvRevoke k1]" "ap_revokeLoading (av_page s2)" "ap_deleteTarget (av_page s2) = Some k2"
      "ksv_rows (av_page s2) = [k1, k2]"
    using row_action [of s1 k2 env] s1 False by (simp_all add: s2_def)
  have run: "access_run env [AxAskRevoke (kr_id k1), AxTyped (kr_device_name k1), AxConfirm, AxCloseRevoke, AxAskRevoke (kr_id k2)]
             (access_loaded env w a r [k1, k2]) = s2"
    unfolding s2_def s1_def s0_def access_run_simps ..
  show ?thesis
    unfolding Let_def run using revoke_answered_page [OF s2(1), of env a, unfolded Let_def] s2 False
    by (auto simp: drop_key_def simp del: access_step.simps)
qed simp

text \<open>A key is issued: the dialog asks for the device that was picked, and shows the key of the answer. The list is
  loaded again behind it, and until it arrives no key is known to the page, so the dialog, opened again,
  offers every device, the one that has just got its key included.\<close>

theorem issued_key_shown:
  "let s = access_run env [AxShowAdd, AxPick (d_id d), AxIssue] (access_loaded env w a r rows);
       s' = access_step env (AxAnswer 0 (a\<lparr>aa_issue := key_reply c\<rparr>)) s
   in if d \<in> set (dlr_items r) \<and> d_id d \<notin> set (map kr_device_id rows) \<and> d_id d \<noteq> []
      then av_flight s = [AvIssue (d_id d) (device_name_of s (d_id d))] \<and>
        kd_shown_key (av_key s') = Some (ck_plain_key c) \<and> av_flight s' = [AvKeys] \<and> offered_devices s' = dlr_items r
      else True"
proof (cases "d \<in> set (dlr_items r) \<and> d_id d \<notin> set (map kr_device_id rows) \<and> d_id d \<noteq> []")
  case True
  define s0 where "s0 = access_loaded env w a r rows"
  define s1 where "s1 = access_run env [AxShowAdd, AxPick (d_id d)] s0"
  have offered: "d \<in> set (offered_devices s0)"
    using True by (simp add: s0_def offered_devices_def available_devices_def access_loaded_simps)
  then have s1: "ksv_rows (av_page s1) = rows" "ap_devices (av_page s1) = dlr_items r" "av_flight s1 = []"
      "av_key s1 = kd_pick (d_id d) (kd_opened key_dialog_closed)"
    by (auto simp: s1_def s0_def access_loaded_simps key_dialog_closed_def key_form_shown_def kd_opened_def offered_devices_def)
  define s2 where "s2 = access_step env AxIssue s1"
  have dialog: "key_form_shown (av_key s1)" "\<not> kd_submitting (av_key s1)" "kd_deviceId (av_key s1) = d_id d" "kd_open (av_key s1)"
    by (simp_all add: s1(4) kd_pick_def kd_opened_def key_form_shown_def)
  have "kd_submit (xe_deviceRequired env) (dlr_items r) rows (av_key s1) = ((av_key s1)\<lparr>kd_error := [], kd_submitting := True\<rparr>, Some (d_id d))"
    using True dialog(3) by (intro kd_submit_ok) auto
  then have s2: "av_flight s2 = [AvIssue (d_id d) (device_name_of s2 (d_id d))]" "ap_devices (av_page s2) = dlr_items r" "kd_open (av_key s2)"
    using s1 dialog by (simp_all add: s2_def ask_keys_def put_keys_hook_def device_name_of_def)
  have run: "access_run env [AxShowAdd, AxPick (d_id d), AxIssue] (access_loaded env w a r rows) = s2"
    unfolding s2_def s1_def s0_def access_run_simps ..
  let ?s' = "access_step env (AxAnswer 0 (a\<lparr>aa_issue := key_reply c\<rparr>)) s2"
  have "kd_shown_key (av_key ?s') = Some (ck_plain_key c)" "av_flight ?s' = [AvKeys]" "offered_devices ?s' = dlr_items r"
    using s2 by (simp_all add: on_part_def keys_halves_settled issue_settle_def Let_def io_simps ask_keys_def put_keys_hook_def keys_asked_def
        keys_hook_def key_service.defs kd_settled_def kd_shown_key_def offered_devices_def available_devices_def pushed_def)
  then show ?thesis unfolding Let_def run using s2(1) by (simp del: access_step.simps)
qed (simp only: Let_def if_False)

end
