(* ===== verification/SettingsView.thy ===== *)
theory SettingsView
  imports PageShell DeviceCards
begin

text \<open>
  What the rows of the settings page show (\<open>components/react/features/settings/SettingsPage.tsx\<close>): the select, the choices or
  the switch of each row with the event it reports, and the card of the account.
\<close>

section \<open>The rows\<close>

datatype row_control =
    RowSelect string "(string \<times> string) list" "string \<Rightarrow> settings_event"
  | RowButtons "(string \<times> bool \<times> settings_event) list"
  | RowChoices "(string \<times> bool \<times> settings_event) list"
  | RowSwitch bool string "bool \<Rightarrow> settings_event"

record settings_texts =
  sx_theme :: string
  sx_light :: string
  sx_dark :: string
  sx_language :: string
  sx_languageSpanish :: string
  sx_languageEnglish :: string
  sx_sidebarState :: string
  sx_expanded :: string
  sx_collapsed :: string
  sx_motion :: string
  sx_on :: string
  sx_off :: string
  sx_history :: string
  sx_lastHour :: string
  sx_lastSixHours :: string
  sx_lastDay :: string
  sx_lastWeek :: string
  sx_landing :: string
  sx_dashboard :: string
  sx_devices :: string
  sx_timezone :: string
  sx_timeFormat :: string
  sx_hours12 :: string
  sx_hours24 :: string

definition appearance_rows :: "settings_texts \<Rightarrow> language \<Rightarrow> string \<Rightarrow> string \<Rightarrow> settings_page \<Rightarrow> (string \<times> row_control) list" where
  "appearance_rows t l search hash p =
     (let s = sg_localSettings (sp_settings p)
      in [(sx_theme t, RowSelect (theme_str (th_theme (sp_theme p))) [(''light'', sx_light t), (''dark'', sx_dark t)] SpTheme),
          (sx_language t, RowButtons [(sx_languageSpanish t, l = Es, SpLocale search hash Es),
                                      (sx_languageEnglish t, l = En, SpLocale search hash En)]),
          (sx_sidebarState t, RowChoices [(sx_expanded t, pref_sidebarInitialState s = Expanded, SpSidebar Expanded),
                                          (sx_collapsed t, pref_sidebarInitialState s = Collapsed, SpSidebar Collapsed)]),
          (sx_motion t, RowSwitch (pref_reduceMotion s) (if pref_reduceMotion s then sx_on t else sx_off t) SpMotion)])"

definition display_rows :: "settings_texts \<Rightarrow> settings_page \<Rightarrow> (string \<times> row_control) list" where
  "display_rows t p =
     (let s = sg_localSettings (sp_settings p)
      in [(sx_history t, RowSelect (name_in SETTINGS_HISTORY_RANGES (pref_defaultHistoryRange s))
             [(''1h'', sx_lastHour t), (''6h'', sx_lastSixHours t), (''24h'', sx_lastDay t), (''7d'', sx_lastWeek t)] SpHistory),
          (sx_landing t, RowSelect (name_in SETTINGS_LANDING_PAGES (pref_landingPage s))
             [(''dashboard'', sx_dashboard t), (''devices'', sx_devices t)] SpLanding)])"

definition region_rows :: "settings_texts \<Rightarrow> settings_page \<Rightarrow> (string \<times> row_control) list" where
  "region_rows t p =
     (let s = sg_localSettings (sp_settings p)
      in [(sx_timezone t, RowSelect (pref_timeZone s) (map (\<lambda>z. (z, z)) (zone_options p)) SpZone),
          (sx_timeFormat t, RowChoices [(sx_hours12 t, pref_timeFormat s = Format12h, SpTime Format12h),
                                        (sx_hours24 t, pref_timeFormat s = Format24h, SpTime Format24h)])])"

definition settings_rows :: "settings_texts \<Rightarrow> language \<Rightarrow> string \<Rightarrow> string \<Rightarrow> settings_page \<Rightarrow> (string \<times> row_control) list" where
  "settings_rows t l search hash p = appearance_rows t l search hash p @ display_rows t p @ region_rows t p"

text \<open>The choices a row offers, and the one it shows to be in force. The buttons of the language leave the page.\<close>

fun row_choices :: "row_control \<Rightarrow> settings_event list" where
  "row_choices (RowSelect v opts ev) = map (\<lambda>(x, _). ev x) opts"
| "row_choices (RowButtons bs) = []"
| "row_choices (RowChoices cs) = map (\<lambda>(_, _, e). e) cs"
| "row_choices (RowSwitch v label ev) = [ev True, ev False]"

fun row_shows :: "row_control \<Rightarrow> settings_event list" where
  "row_shows (RowSelect v opts ev) = [ev v]"
| "row_shows (RowButtons bs) = []"
| "row_shows (RowChoices cs) = map (\<lambda>(_, _, e). e) (filter (\<lambda>(_, checked, _). checked) cs)"
| "row_shows (RowSwitch v label ev) = [ev v]"

fun row_in_order :: "row_control \<Rightarrow> bool" where
  "row_in_order (RowSelect v opts ev) \<longleftrightarrow> v \<in> fst ` set opts \<and> distinct (map fst opts)"
| "row_in_order (RowButtons bs) \<longleftrightarrow> length (filter (\<lambda>(_, primary, _). primary) bs) = 1"
| "row_in_order (RowChoices cs) \<longleftrightarrow> length (filter (\<lambda>(_, checked, _). checked) cs) = 1"
| "row_in_order (RowSwitch v label ev) \<longleftrightarrow> True"

lemma rows_from_chosen:
  "sg_localSettings (sp_settings p) = ch_settings (chosen_of p)" "th_theme (sp_theme p) = ch_theme (chosen_of p)"
  by (simp_all add: chosen_of_def)

lemma zone_rows:
  "pref_timeZone (sg_localSettings (sp_settings p)) \<in> set (zone_options p)" "distinct (zone_options p)"
  by (auto simp: zone_options_def isSettingValue_def Let_def list_ex_iff SETTINGS_TIME_ZONES_def)

lemma name_in_options:
  "name_in SETTINGS_HISTORY_RANGES r \<in> {''1h'', ''6h'', ''24h'', ''7d''}" "name_in SETTINGS_LANDING_PAGES l \<in> {''dashboard'', ''devices''}"
  by (cases r; simp add: name_in_def SETTINGS_HISTORY_RANGES_def) (cases l; simp add: name_in_def SETTINGS_LANDING_PAGES_def)

text \<open>Every row of the settings page is in order in every state: a select shows one of its options and offers none
  twice, also when the zone in force is none of the listed ones; of the choices of a row exactly one is marked.\<close>

theorem settings_rows_in_order:
  "list_all (\<lambda>(_, c). row_in_order c) (settings_rows t l search hash p)"
proof -
  have "theme_str (th_theme (sp_theme p)) \<in> {''light'', ''dark''}" by (cases "th_theme (sp_theme p)") simp_all
  then have "list_all (\<lambda>(_, c). row_in_order c) (appearance_rows t l search hash p)"
    by (cases l; cases "pref_sidebarInitialState (sg_localSettings (sp_settings p))") (auto simp: appearance_rows_def Let_def)
  moreover have "list_all (\<lambda>(_, c). row_in_order c) (display_rows t p)"
    using name_in_options(1) [of "pref_defaultHistoryRange (sg_localSettings (sp_settings p))"]
      name_in_options(2) [of "pref_landingPage (sg_localSettings (sp_settings p))"]
    by (auto simp: display_rows_def Let_def)
  moreover have "list_all (\<lambda>(_, c). row_in_order c) (region_rows t p)"
    using zone_rows [of p]
    by (cases "pref_timeFormat (sg_localSettings (sp_settings p))") (auto simp: region_rows_def Let_def comp_def image_image)
  ultimately show ?thesis by (simp add: settings_rows_def)
qed

text \<open>Every choice of a row takes effect: on a page in order, after a choice the row shows exactly that choice.\<close>

theorem settings_choices_show:
  assumes "zones_accepted b" "page_zone_ok b p"
    and "i < length (settings_rows t l search hash p)" "e \<in> set (row_choices (snd (settings_rows t l search hash p ! i)))"
  shows "row_shows (snd (settings_rows t l search hash (settings_step b e p) ! i)) = [e]"
proof -
  define q where "q = settings_step b e p"
  have "chosen_of q = chose b e (chosen_of p)"
    using settings_choice [OF _ assms(2)] assms(1) by (simp add: q_def zones_accepted_def)
  then have now: "sg_localSettings (sp_settings q) = ch_settings (chose b e (chosen_of p))" "th_theme (sp_theme q) = ch_theme (chose b e (chosen_of p))"
    by (simp_all add: rows_from_chosen)
  have zone: "pref_timeZone (ch_settings (chosen_of p)) = pref_timeZone (sg_localSettings (sp_settings p))"
    by (simp add: rows_from_chosen)
  have "i \<in> {0, 1, 2, 3, 4, 5, 6, 7}"
    using assms(3) by (auto simp: settings_rows_def appearance_rows_def display_rows_def region_rows_def Let_def)
  then consider "i = 0" | "i = 1" | "i = 2" | "i = 3" | "i = 4" | "i = 5" | "i = 6" | "i = 7" by blast
  then show ?thesis unfolding q_def [symmetric]
  proof cases
    case 7
    then obtain z where z: "e = SpZone z" "z \<in> set (zone_options p)"
      using assms(4) by (auto simp: settings_rows_def appearance_rows_def display_rows_def region_rows_def Let_def)
    then have "zone_ok b z" using assms(1,2) by (auto simp: zone_options_set zones_accepted_def list_all_iff)
    then have "pref_timeZone (sg_localSettings (sp_settings q)) = z"
      using z zone by (auto simp: now zone_options_set)
    then have "row_shows (snd (settings_rows t l search hash q ! i)) = [SpZone z]" using 7
      by (simp add: settings_rows_def appearance_rows_def display_rows_def region_rows_def Let_def)
    then show "row_shows (snd (settings_rows t l search hash q ! i)) = [e]" using z(1) by (simp only:)
  qed (use assms(4) in \<open>auto simp: settings_rows_def appearance_rows_def display_rows_def region_rows_def Let_def now name_in_def
        SETTINGS_HISTORY_RANGES_def SETTINGS_LANDING_PAGES_def\<close>)
qed

section \<open>The account\<close>

record account_texts =
  sa_superAdmin :: string
  sa_user :: string

text \<open>\<open>toLocaleDateString\<close> is a parameter; without a profile or a date there is a dash.\<close>

definition settings_created :: "(language \<Rightarrow> string \<Rightarrow> string) \<Rightarrow> language \<Rightarrow> user option \<Rightarrow> string" where
  "settings_created toLocaleDate l profile =
     (case map_option u_created_at profile of
        None \<Rightarrow> em_dash
      | Some d \<Rightarrow> if d = [] then em_dash else toLocaleDate l d)"

definition account_summary ::
  "(language \<Rightarrow> string \<Rightarrow> string) \<Rightarrow> account_texts \<Rightarrow> language \<Rightarrow> auth_user option \<Rightarrow> user option \<Rightarrow> string list" where
  "account_summary toLocaleDate x l usr profile =
     [nullish (map_option au_email usr) em_dash, settings_role (sa_superAdmin x) (sa_user x) profile,
      settings_created toLocaleDate l profile]"

text \<open>The card of the account and the row of the email hold a dash for what is not known, and before the profile is
  loaded an administrator is labelled as a user.\<close>

theorem account_before_profile:
  "account_summary toLocaleDate x l None None = [em_dash, sa_user x, em_dash] \<and>
   account_summary toLocaleDate x l (Some u) None = [au_email u, sa_user x, em_dash] \<and>
   account_summary toLocaleDate x l (Some u) (Some (p\<lparr>u_role := RoleSuperAdmin, u_created_at := CHR ''2'' # ds\<rparr>)) =
     [au_email u, sa_superAdmin x, toLocaleDate l (CHR ''2'' # ds)]"
  by (simp add: account_summary_def settings_role_def settings_created_def)

end
