(* ===== verification/DialogViews.thy ===== *)
theory DialogViews
  imports FormViews ShareDialogs FilterBars
begin

text \<open>
  What the dialogs of \<open>components/react/modal\<close> show: titles, fields with their notes, the buttons, and which ways out
  the shell \<open>components/react/ui/Modal.tsx\<close> leaves open. A dialog that is closed shows nothing.
\<close>

section \<open>The shell\<close>

datatype modal_size = SizeSm | SizeMd | SizeLg

definition SIZE_TO_MAX_WIDTH :: "modal_size \<Rightarrow> int" where
  "SIZE_TO_MAX_WIDTH s = (case s of SizeSm \<Rightarrow> 420 | SizeMd \<Rightarrow> 480 | SizeLg \<Rightarrow> 560)"

record modal_props =
  mp_open :: bool
  mp_size :: modal_size
  mp_dismissible :: bool
  mp_hideCloseButton :: bool

definition plain_modal :: "modal_size \<Rightarrow> modal_props" where
  "plain_modal s = \<lparr>mp_open = True, mp_size = s, mp_dismissible = True, mp_hideCloseButton = False\<rparr>"

datatype way_out = EscapeKey | BackdropClick | CloseClick

definition show_close_button :: "modal_props \<Rightarrow> bool" where
  "show_close_button m \<longleftrightarrow> mp_dismissible m \<and> \<not> mp_hideCloseButton m"

text \<open>Whether \<open>onClose\<close> is called.\<close>

definition modal_closes :: "modal_props \<Rightarrow> way_out \<Rightarrow> bool" where
  "modal_closes m way \<longleftrightarrow>
     mp_open m \<and> (case way of EscapeKey \<Rightarrow> mp_dismissible m | BackdropClick \<Rightarrow> mp_dismissible m | CloseClick \<Rightarrow> show_close_button m)"

record dialog_view =
  dg_title :: string
  dg_subtitle :: "string option"
  dg_modal :: modal_props
  dg_fields :: "(string \<times> field_view) list"
  dg_alert :: "string option"
  dg_cancel :: "button_view option"
  dg_submit :: "button_view option"

record dialog_texts =
  dt_title :: string
  dt_subtitle :: string
  dt_cancel :: string
  dt_submit :: string
  dt_busy :: string

definition plain_button :: "string \<Rightarrow> button_view" where
  "plain_button label = submit_button False False label"

definition text_field :: "string option \<Rightarrow> string option \<Rightarrow> string \<Rightarrow> field_view" where
  "text_field help error value = \<lparr>fi_value = value, fi_invalid = (alert_of error \<noteq> None), fi_note = field_note help error\<rparr>"

section \<open>Devices\<close>

record device_dialog_texts =
  ddt_nameLabel :: string
  ddt_nameHint :: string
  ddt_uuidLabel :: string
  ddt_uuidHint :: string
  ddt_vehicleTypeLabel :: string
  ddt_uuidImmutable :: string

definition vehicle_field :: "vehicle_type \<Rightarrow> field_view" where
  "vehicle_field v = text_field None None (vehicle_type_str v)"

definition add_device_view ::
  "dialog_texts \<Rightarrow> device_dialog_texts \<Rightarrow> bool \<Rightarrow> device_errors \<times> add_device_form \<Rightarrow> dialog_view option" where
  "add_device_view x l opened st =
     (if \<not> opened then None
      else Some \<lparr>dg_title = dt_title x, dg_subtitle = Some (dt_subtitle x), dg_modal = plain_modal SizeMd,
        dg_fields =
          [(ddt_nameLabel l, text_field (Some (ddt_nameHint l)) (de_name (fst st)) (adf_name (snd st))),
           (ddt_uuidLabel l, text_field (Some (ddt_uuidHint l)) (de_uuid_firmware (fst st)) (adf_uuid_firmware (snd st))),
           (ddt_vehicleTypeLabel l, vehicle_field (adf_vehicle_type (snd st)))],
        dg_alert = None, dg_cancel = Some (plain_button (dt_cancel x)), dg_submit = Some (plain_button (dt_submit x))\<rparr>)"

text \<open>The dialog over a device: its identifier is text, and the fields come with the form of the effect.\<close>

definition edit_device_view ::
  "dialog_texts \<Rightarrow> device_dialog_texts \<Rightarrow> device_with_access option \<Rightarrow> edit_device_form option \<times> string option \<Rightarrow>
   (dialog_view \<times> string \<times> string) option" where
  "edit_device_view x l target st =
     (case target of
        None \<Rightarrow> None
      | Some d \<Rightarrow> Some
          (\<lparr>dg_title = dt_title x,
            dg_subtitle = Some (interpolateTemplate [''name'' \<mapsto> d_name d, ''uuid'' \<mapsto> d_uuid_firmware d] (dt_subtitle x)),
            dg_modal = plain_modal SizeMd,
            dg_fields =
              (case fst st of
                 None \<Rightarrow> []
               | Some f \<Rightarrow> [(ddt_nameLabel l, text_field None (snd st) (edf_name f)),
                           (ddt_vehicleTypeLabel l, vehicle_field (edf_vehicle_type f))]),
            dg_alert = None, dg_cancel = Some (plain_button (dt_cancel x)), dg_submit = Some (plain_button (dt_submit x))\<rparr>,
           d_uuid_firmware d, ddt_uuidImmutable l))"

section \<open>Users and profiles\<close>

definition busy_button :: "dialog_texts \<Rightarrow> bool \<Rightarrow> button_view" where
  "busy_button x loading = submit_button False loading (if loading then dt_busy x else dt_submit x)"

record user_dialog_texts =
  udt_email :: string
  udt_name :: string
  udt_namePlaceholder :: string
  udt_lastname :: string
  udt_lastnamePlaceholder :: string

definition add_user_view ::
  "dialog_texts \<Rightarrow> user_dialog_texts \<Rightarrow> bool \<Rightarrow> bool \<Rightarrow> user_errors \<times> user_form \<Rightarrow> dialog_view option" where
  "add_user_view x l opened loading st =
     (if \<not> opened then None
      else Some \<lparr>dg_title = dt_title x, dg_subtitle = None, dg_modal = plain_modal SizeMd,
        dg_fields =
          [(udt_email l, text_field None (ue_email (fst st)) (uf_email (snd st))),
           (udt_name l, text_field (if alert_of (ue_name (fst st)) = None then Some (udt_namePlaceholder l) else None) (ue_name (fst st)) (uf_name (snd st))),
           (udt_lastname l, text_field (Some (udt_lastnamePlaceholder l)) None (uf_lastname (snd st)))],
        dg_alert = None, dg_cancel = Some (plain_button (dt_cancel x)), dg_submit = Some (busy_button x loading)\<rparr>)"

definition grant_view :: "dialog_texts \<Rightarrow> string \<Rightarrow> bool \<Rightarrow> bool \<Rightarrow> string \<Rightarrow> string \<Rightarrow> dialog_view option" where
  "grant_view x label opened loading userId error =
     (if \<not> opened then None
      else Some \<lparr>dg_title = dt_title x, dg_subtitle = Some (dt_subtitle x), dg_modal = plain_modal SizeSm,
        dg_fields = [(label, text_field None (Some error) userId)],
        dg_alert = None, dg_cancel = Some (plain_button (dt_cancel x)), dg_submit = Some (busy_button x loading)\<rparr>)"

definition edit_profile_view :: "dialog_texts \<Rightarrow> string \<times> string \<Rightarrow> profile_dialog \<Rightarrow> dialog_view option" where
  "edit_profile_view x l d =
     (if \<not> pd_open d then None
      else Some \<lparr>dg_title = dt_title x, dg_subtitle = Some (dt_subtitle x), dg_modal = plain_modal SizeMd,
        dg_fields = [(fst l, text_field None (pd_error_name d) (pd_name d)), (snd l, text_field None (pd_error_lastname d) (pd_lastname d))],
        dg_alert = alert_of (pd_submitError d), dg_cancel = Some (submit_button (pd_saving d) False (dt_cancel x)),
        dg_submit = Some (busy_button x (pd_saving d))\<rparr>)"

section \<open>Keys and passwords\<close>

record key_dialog_texts =
  kdt_deviceLabel :: string
  kdt_devicePlaceholder :: string
  kdt_noDevicesAvailable :: string
  kdt_revealTitle :: string
  kdt_revealBanner :: string
  kdt_saved :: string
  kdt_copy :: string
  kdt_copied :: string

record key_form_view = dialog_view +
  kfv_options :: select_options
  kfv_selectDisabled :: bool

record reveal_view =
  rv_title :: string
  rv_banner :: string
  rv_value :: string
  rv_copy :: string
  rv_close :: string
  rv_modal :: modal_props

datatype key_dialog_view = KeyDialogClosed | KeyDialogForm key_form_view | KeyDialogReveal reveal_view

definition key_dialog_shows ::
  "dialog_texts \<Rightarrow> key_dialog_texts \<Rightarrow> device_with_access list \<Rightarrow> api_key_row list \<Rightarrow> key_dialog \<Rightarrow> key_dialog_view" where
  "key_dialog_shows x l devices rows d =
     (let available = available_devices devices rows
      in if \<not> kd_open d then KeyDialogClosed
         else case (kd_revealMode d, kd_reveal d) of
           (True, Some r) \<Rightarrow> KeyDialogReveal
             \<lparr>rv_title = kdt_revealTitle l, rv_banner = interpolateTemplate [''device'' \<mapsto> rp_deviceName r] (kdt_revealBanner l),
              rv_value = rp_plainKey r, rv_copy = (if kd_copied d then kdt_copied l else kdt_copy l), rv_close = kdt_saved l,
              rv_modal = plain_modal SizeMd\<rparr>
         | _ \<Rightarrow> KeyDialogForm
             \<lparr>dg_title = dt_title x, dg_subtitle = Some (dt_subtitle x), dg_modal = plain_modal SizeMd,
              dg_fields = [(kdt_deviceLabel l,
                 text_field (if available = [] then Some (kdt_noDevicesAvailable l) else None) (Some (kd_error d)) (kd_deviceId d))],
              dg_alert = None, dg_cancel = Some (submit_button (kd_submitting d) False (dt_cancel x)),
              dg_submit = Some (busy_button x (kd_submitting d)),
              kfv_options = ([], kdt_devicePlaceholder l) # map (\<lambda>d. (d_id d, d_name d)) available,
              kfv_selectDisabled = (available = [])\<rparr>)"

definition temp_password_view ::
  "string \<Rightarrow> string \<Rightarrow> string \<Rightarrow> string \<Rightarrow> string \<Rightarrow> created_user option \<Rightarrow> bool \<Rightarrow> reveal_view option" where
  "temp_password_view title banner saved copyLabel copiedLabel usr copied =
     map_option (\<lambda>u.
       \<lparr>rv_title = title, rv_banner = interpolateTemplate [''name'' \<mapsto> person_name u] banner, rv_value = cu_temporary_password u,
        rv_copy = (if copied then copiedLabel else copyLabel), rv_close = saved, rv_modal = plain_modal SizeMd\<rparr>) usr"

definition change_password_modal :: "string \<Rightarrow> string \<Rightarrow> bool \<Rightarrow> bool \<Rightarrow> dialog_view option" where
  "change_password_modal title subtitle opened locked =
     (if \<not> opened then None
      else Some \<lparr>dg_title = title, dg_subtitle = Some subtitle,
        dg_modal = \<lparr>mp_open = True, mp_size = SizeMd, mp_dismissible = \<not> locked, mp_hideCloseButton = locked\<rparr>,
        dg_fields = [], dg_alert = None, dg_cancel = None, dg_submit = None\<rparr>)"

section \<open>Sharing\<close>

datatype share_choice = ShareRegistered | ShareGuest

definition share_choice_view :: "dialog_texts \<Rightarrow> (share_choice \<Rightarrow> string \<times> string) \<Rightarrow> bool \<Rightarrow> (dialog_view \<times> (share_choice \<times> string \<times> string) list) option" where
  "share_choice_view x options opened =
     (if \<not> opened then None
      else Some (\<lparr>dg_title = dt_title x, dg_subtitle = Some (dt_subtitle x), dg_modal = plain_modal SizeMd, dg_fields = [],
         dg_alert = None, dg_cancel = Some (plain_button (dt_cancel x)), dg_submit = None\<rparr>,
         map (\<lambda>c. (c, options c)) [ShareRegistered, ShareGuest]))"

record guest_share_texts =
  gst_hours :: "string \<times> string \<times> string \<times> string"
  gst_expiresAt :: string
  gst_loadingLinks :: string
  gst_noActiveLinks :: string
  gst_copy :: string
  gst_copied :: string

datatype active_links = LinksNote string | LinkRows "(string \<times> string) list"

record guest_share_view = dialog_view +
  gsv_durations :: "(int \<times> string) list"
  gsv_created :: "(string \<times> string) option"
  gsv_links :: active_links

definition link_rows :: "(string \<Rightarrow> string) \<Rightarrow> guest_share_texts \<Rightarrow> share_dialog \<Rightarrow> active_links" where
  "link_rows shortDate l d =
     (if gs_loading d then LinksNote (gst_loadingLinks l)
      else if gs_links d = [] then LinksNote (gst_noActiveLinks l)
      else LinkRows (map (\<lambda>k. (sl_id k, gst_expiresAt l @ '' '' @ shortDate (sl_expires_at k))) (gs_links d)))"

definition guest_share_shows ::
  "(string \<Rightarrow> string) \<Rightarrow> dialog_texts \<Rightarrow> guest_share_texts \<Rightarrow> share_dialog \<Rightarrow> guest_share_view option" where
  "guest_share_shows shortDate x l d =
     (if \<not> gs_open d then None
      else Some \<lparr>dg_title = dt_title x, dg_subtitle = Some (dt_subtitle x),
        dg_modal = \<lparr>mp_open = True, mp_size = SizeMd, mp_dismissible = \<not> gs_saving d, mp_hideCloseButton = False\<rparr>,
        dg_fields = [], dg_alert = alert_of (Some (gs_error d)), dg_cancel = Some (submit_button (gs_saving d) False (dt_cancel x)),
        dg_submit = Some (busy_button x (gs_saving d)),
        gsv_durations =
          (let (h1, h2, h4, h8) = gst_hours l in map (\<lambda>h. (h, duration_label h1 h2 h4 h8 h)) GUEST_SHARE_DURATIONS),
        gsv_created = (if gs_createdUrl d = [] then None else Some (gs_createdUrl d, if gs_copied d then gst_copied l else gst_copy l)),
        gsv_links = link_rows shortDate l d\<rparr>)"

section \<open>Deletions\<close>

record delete_props =
  dlp_title :: string
  dlp_subtitle :: "string option"
  dlp_warning :: "string \<times> string"
  dlp_target :: "string \<times> string"
  dlp_confirmLabel :: string
  dlp_confirmValue :: string
  dlp_confirmError :: "string option"
  dlp_tip :: "string option"
  dlp_cancelLabel :: string
  dlp_confirmButton :: string
  dlp_loading :: bool

definition delete_view :: "delete_props \<Rightarrow> delete_modal \<Rightarrow> dialog_view option" where
  "delete_view q m =
     (let canConfirm = dm_can_confirm (dlp_confirmValue q) (dm_typed m); mismatch = dm_mismatch (dlp_confirmValue q) (dm_typed m)
      in if \<not> dm_open m then None
         else Some \<lparr>dg_title = dlp_title q, dg_subtitle = dlp_subtitle q, dg_modal = plain_modal SizeSm,
           dg_fields = [(dlp_confirmLabel q, \<lparr>fi_value = dm_typed m, fi_invalid = mismatch,
             fi_note = field_note None (if mismatch then dlp_confirmError q else None)\<rparr>)],
           dg_alert = None, dg_cancel = Some (plain_button (dlp_cancelLabel q)),
           dg_submit = Some (submit_button (\<not> canConfirm) (dlp_loading q) (dlp_confirmButton q))\<rparr>)"

record delete_texts =
  dlt_title :: string
  dlt_subtitle :: string
  dlt_warningTitle :: string
  dlt_warningMessage :: string
  dlt_typeToConfirm :: string
  dlt_mismatch :: string
  dlt_tip :: string
  dlt_cancel :: string
  dlt_confirm :: string
  dlt_busy :: string

definition dotted :: "string \<Rightarrow> string \<Rightarrow> string" where
  "dotted a b = a @ '' '' @ [CHR 0xB7] @ '' '' @ b"

definition delete_device_props :: "delete_texts \<Rightarrow> (vehicle_type \<Rightarrow> string) \<Rightarrow> 'z device_scheme \<Rightarrow> delete_props" where
  "delete_device_props t types d =
     \<lparr>dlp_title = dlt_title t, dlp_subtitle = Some (dlt_subtitle t), dlp_warning = (dlt_warningTitle t, dlt_warningMessage t),
      dlp_target = (d_name d, dotted (d_uuid_firmware d) (types (d_vehicle_type d))),
      dlp_confirmLabel = interpolateTemplate [''name'' \<mapsto> d_name d] (dlt_typeToConfirm t), dlp_confirmValue = delete_device_phrase d,
      dlp_confirmError = None, dlp_tip = Some (dlt_tip t), dlp_cancelLabel = dlt_cancel t, dlp_confirmButton = dlt_confirm t,
      dlp_loading = False\<rparr>"

definition delete_key_props :: "delete_texts \<Rightarrow> bool \<Rightarrow> api_key_row \<Rightarrow> delete_props" where
  "delete_key_props t loading r =
     \<lparr>dlp_title = dlt_title t, dlp_subtitle = Some (interpolateTemplate [''device'' \<mapsto> kr_device_name r] (dlt_subtitle t)),
      dlp_warning = (dlt_warningTitle t, dlt_warningMessage t), dlp_target = (kr_device_name r, kr_id r),
      dlp_confirmLabel = interpolateTemplate [''name'' \<mapsto> kr_device_name r] (dlt_typeToConfirm t), dlp_confirmValue = delete_key_phrase r,
      dlp_confirmError = Some (dlt_mismatch t), dlp_tip = Some (dlt_tip t), dlp_cancelLabel = dlt_cancel t,
      dlp_confirmButton = (if loading then dlt_busy t else dlt_confirm t), dlp_loading = loading\<rparr>"

definition delete_user_props :: "delete_texts \<Rightarrow> (user_role \<Rightarrow> string) \<Rightarrow> language \<Rightarrow> bool \<Rightarrow> 'z user_scheme \<Rightarrow> delete_props" where
  "delete_user_props t roles l loading u =
     \<lparr>dlp_title = dlt_title t, dlp_subtitle = None, dlp_warning = (dlt_warningTitle t, dlt_warningMessage t),
      dlp_target = (u_name u @ '' '' @ u_lastname u, dotted (u_email u) (roles (u_role u))),
      dlp_confirmLabel = dlt_typeToConfirm t, dlp_confirmValue = DELETE_USER_CONFIRM_PHRASE l,
      dlp_confirmError = Some (dlt_mismatch t), dlp_tip = Some (dlt_tip t), dlp_cancelLabel = dlt_cancel t,
      dlp_confirmButton = dlt_confirm t, dlp_loading = loading\<rparr>"

definition revoke_access_props :: "delete_texts \<Rightarrow> string \<Rightarrow> bool \<Rightarrow> device_access_list_item \<Rightarrow> delete_props" where
  "revoke_access_props t phrase loading u =
     \<lparr>dlp_title = dlt_title t, dlp_subtitle = None,
      dlp_warning = (dlt_title t, interpolateTemplate [''name'' \<mapsto> dal_name u] (dlt_warningMessage t)),
      dlp_target = (dal_name u, dal_email u), dlp_confirmLabel = dlt_typeToConfirm t, dlp_confirmValue = phrase,
      dlp_confirmError = Some (dlt_mismatch t), dlp_tip = None, dlp_cancelLabel = dlt_cancel t,
      dlp_confirmButton = (if loading then dlt_busy t else dlt_confirm t), dlp_loading = loading\<rparr>"

section \<open>What the dialogs show after a press\<close>

lemma alert_of_required: "alert_of (required_error (c # m) v) = (if trim v = [] then Some (c # m) else None)"
  by (simp add: alert_of_def required_error_def)

text \<open>The marked fields, and whether the press handed something over.\<close>

definition marked_fields :: "dialog_view option \<Rightarrow> bool list" where
  "marked_fields v = (case v of None \<Rightarrow> [] | Some d \<Rightarrow> map (\<lambda>(_, f). fi_invalid f) (dg_fields d))"

text \<open>A press of the button of a form dialog marks exactly the required fields that hold nothing but blanks, and hands
  the form over exactly when it marks none.\<close>

theorem press_marks_blank_fields:
  "(let r = add_device_submit (c # m) f; v = add_device_view x dl True (fst r, f)
    in marked_fields v = [trim (adf_name f) = [], trim (adf_uuid_firmware f) = [], False] \<and> (snd r = None \<longleftrightarrow> True \<in> set (marked_fields v))) \<and>
   (let r = edit_device_submit (c # m) d (Some ef) err; v = map_option fst (edit_device_view x dl (Some d) (Some ef, fst r))
    in marked_fields v = [trim (edf_name ef) = [], False] \<and> (snd r = None \<longleftrightarrow> True \<in> set (marked_fields v))) \<and>
   (let r = add_user_submit (c # m) (c' # m') u; v = add_user_view x ul True loading (fst r, u)
    in marked_fields v = [trim (uf_email u) = [], trim (uf_name u) = [], False] \<and> (snd r = None \<longleftrightarrow> True \<in> set (marked_fields v))) \<and>
   (let r = grant_submit (c # m) i e; v = grant_view x label True loading i (fst r)
    in marked_fields v = [trim i = []] \<and> (snd r = None \<longleftrightarrow> True \<in> set (marked_fields v)))"
proof (intro conjI)
  show "let r = add_device_submit (c # m) f; v = add_device_view x dl True (fst r, f)
    in marked_fields v = [trim (adf_name f) = [], trim (adf_uuid_firmware f) = [], False] \<and> (snd r = None \<longleftrightarrow> True \<in> set (marked_fields v))"
    by (simp add: Let_def add_device_submit_def add_device_view_def marked_fields_def text_field_def vehicle_field_def alert_of_def
        required_error_def)
  show "let r = edit_device_submit (c # m) d (Some ef) err; v = map_option fst (edit_device_view x dl (Some d) (Some ef, fst r))
    in marked_fields v = [trim (edf_name ef) = [], False] \<and> (snd r = None \<longleftrightarrow> True \<in> set (marked_fields v))"
    by (simp add: Let_def edit_device_submit_def edit_device_view_def marked_fields_def text_field_def vehicle_field_def alert_of_def
        required_error_def)
  show "let r = add_user_submit (c # m) (c' # m') u; v = add_user_view x ul True loading (fst r, u)
    in marked_fields v = [trim (uf_email u) = [], trim (uf_name u) = [], False] \<and> (snd r = None \<longleftrightarrow> True \<in> set (marked_fields v))"
    by (simp add: Let_def add_user_submit_def add_user_view_def marked_fields_def text_field_def alert_of_def required_error_def)
  show "let r = grant_submit (c # m) i e; v = grant_view x label True loading i (fst r)
    in marked_fields v = [trim i = []] \<and> (snd r = None \<longleftrightarrow> True \<in> set (marked_fields v))"
    by (simp add: Let_def grant_submit_def grant_view_def marked_fields_def text_field_def alert_of_def)
qed

text \<open>The button of a dialog that deletes is there to be pressed exactly when the phrase was typed and nothing is running, and
  a press that it takes calls the handler; the mismatch is reported exactly while something else was typed.
  The dialogs over a device and over its key ask for its name, the one over a user for the phrase of the language.\<close>

theorem delete_dialog_arms:
  "(case delete_view q m of
      None \<Rightarrow> \<not> dm_open m
    | Some v \<Rightarrow> (case dg_submit v of
        None \<Rightarrow> False
      | Some b \<Rightarrow>
          bv_disabled b = (dlp_loading q \<or> to_lower (trim (dm_typed m)) \<noteq> to_lower (trim (dlp_confirmValue q))) \<and>
          dm_calls (dm_step (dlp_confirmValue q) (DmClick (dlp_loading q)) m) = dm_calls m + of_bool (\<not> bv_disabled b) \<and>
          marked_fields (Some v) = [dm_typed m \<noteq> [] \<and> to_lower (trim (dm_typed m)) \<noteq> to_lower (trim (dlp_confirmValue q))])) \<and>
   dlp_confirmValue (delete_device_props t types d) = d_name d \<and> fst (dlp_target (delete_device_props t types d)) = d_name d \<and>
   dlp_confirmValue (delete_key_props t loading r) = kr_device_name r \<and>
   dlp_confirmValue (delete_user_props t roles En loading u) = ''confirm''"
  by (auto simp: delete_view_def Let_def submit_button_def dm_can_confirm_def dm_mismatch_def marked_fields_def delete_device_props_def
      delete_key_props_def delete_user_props_def delete_device_phrase_def delete_key_phrase_def DELETE_USER_CONFIRM_PHRASE_def)

section \<open>Ways out while something runs\<close>

text \<open>While a profile is saved, or a guest link created, every way out of the dialog is closed: the cancel button, and what
  the shell leaves open. A dialog that may not be left at all has no close button and no other way out.
  The dialog that issues a key disables its cancel button too, but not the other ways: the Escape key
  closes it with its request running, and the key it answers with is then shown to nobody.\<close>

theorem ways_out_while_running:
  "(case edit_profile_view x l (d\<lparr>pd_saving := True\<rparr>) of
      None \<Rightarrow> \<not> pd_open d
    | Some v \<Rightarrow> map_option bv_disabled (dg_cancel v) = Some True \<and> profile_step pt PdCloses (d\<lparr>pd_saving := True\<rparr>) = d\<lparr>pd_saving := True\<rparr>) \<and>
   (case guest_share_shows shortDate x gl (g\<lparr>gs_saving := True\<rparr>) of
      None \<Rightarrow> \<not> gs_open g
    | Some v \<Rightarrow> map_option bv_disabled (dg_cancel v) = Some True \<and> \<not> modal_closes (dg_modal v) way) \<and>
   (case change_password_modal title subtitle True locked of
      None \<Rightarrow> False | Some v \<Rightarrow> modal_closes (dg_modal v) way = (\<not> locked)) \<and>
   (case key_dialog_shows x kl devices rows (k\<lparr>kd_open := True, kd_revealMode := False, kd_submitting := True\<rparr>) of
      KeyDialogForm v \<Rightarrow> map_option bv_disabled (dg_cancel v) = Some True \<and> modal_closes (dg_modal v) way \<and>
        kd_shown_key (kd_settled (Inr (Some r)) (kd_closed (k\<lparr>kd_submitting := True\<rparr>))) = None
    | _ \<Rightarrow> False)"
  by (cases way) (auto simp: edit_profile_view_def profile_close_def guest_share_shows_def change_password_modal_def key_dialog_shows_def
      submit_button_def modal_closes_def show_close_button_def plain_modal_def Let_def kd_shown_key_def kd_settled_def kd_closed_def)

text \<open>The select of the key dialog offers the devices without a key and nothing else, and is disabled, with its help, exactly
  when there is none; a link list shows each link once, in its order.\<close>

theorem dialogs_list_choices:
  "(case key_dialog_shows x kl devices rows (k\<lparr>kd_open := True, kd_revealMode := False, kd_error := []\<rparr>) of
      KeyDialogForm v \<Rightarrow>
        map fst (kfv_options v) = [] # map d_id (filter (\<lambda>d. d_id d \<notin> set (map kr_device_id rows)) devices) \<and>
        kfv_selectDisabled v = (list_all (\<lambda>d. d_id d \<in> set (map kr_device_id rows)) devices) \<and>
        (kdt_noDevicesAvailable kl = [] \<or>
          map (\<lambda>(_, f). fi_note f) (dg_fields v) = [if kfv_selectDisabled v then FieldHelp (kdt_noDevicesAvailable kl) else FieldPlain])
    | _ \<Rightarrow> False) \<and>
   (case link_rows shortDate gl (g\<lparr>gs_loading := False\<rparr>) of
      LinksNote n \<Rightarrow> gs_links g = [] \<and> n = gst_noActiveLinks gl
    | LinkRows ls \<Rightarrow> map fst ls = map sl_id (gs_links g))"
  by (auto simp: key_dialog_shows_def Let_def available_devices_def filter_empty_conv list_all_iff text_field_def field_note_def alert_of_def
      link_rows_def)

end
