(* ===== verification/ShellViews.thy ===== *)
theory ShellViews
  imports PageShell Topbar ReportViews
begin

text \<open>
  What the frame of the pages shows: the links of the sidebar (\<open>layout/Sidebar.tsx\<close>, \<open>constants/layout.ts\<close>), the profile
  menu (\<open>layout/Topbar/ProfileDropdown.tsx\<close>), the bar itself (\<open>layout/Topbar/index.tsx\<close>), and the filters of the reports
  page (\<open>features/reports/ReportsFilters.tsx\<close>).
\<close>

section \<open>The sidebar\<close>

text \<open>The numbers beside two of the entries are constants of the source.\<close>

definition nav_count :: "nav_item \<Rightarrow> int option" where
  "nav_count i = map_of [(''admin'', 14), (''devices'', 128)] (ni_id i)"

record sidebar_link =
  sk_href :: string
  sk_label :: string
  sk_active :: bool
  sk_count :: "int option"

definition sidebar_links :: "(string \<Rightarrow> string) \<Rightarrow> language \<Rightarrow> string \<Rightarrow> user_role option \<Rightarrow> sidebar_link list" where
  "sidebar_links nav loc pathname role =
     map (\<lambda>i. \<lparr>sk_href = item_href loc i, sk_label = nav (ni_id i), sk_active = is_active loc pathname i, sk_count = nav_count i\<rparr>)
       (visible_items role)"

lemma filter_only: "distinct xs \<Longrightarrow> x \<in> set xs \<Longrightarrow> filter (\<lambda>y. y = x) xs = [x]"
  by (induction xs) (auto simp: filter_empty_conv)

lemma href_inj: "i \<in> set SHELL_NAV_ITEMS \<Longrightarrow> j \<in> set SHELL_NAV_ITEMS \<Longrightarrow> item_href loc i = item_href loc j \<Longrightarrow> i = j"
  using item_by_href by (simp add: item_href_def)

lemma follow_active:
  assumes "i \<in> set SHELL_NAV_ITEMS" "j \<in> set SHELL_NAV_ITEMS"
  shows "is_active loc (item_href loc i) j \<longleftrightarrow> i = j"
proof -
  obtain n m where n: "ni_href i = CHR ''/'' # n" "CHR ''/'' \<notin> set n" and m: "ni_href j = CHR ''/'' # m"
    using item_hrefs assms by blast
  have "\<not> is_prefix (item_href loc j @ ''/'') (item_href loc i)"
  proof
    assume "is_prefix (item_href loc j @ ''/'') (item_href loc i)"
    then obtain r where "item_href loc i = item_href loc j @ ''/'' @ r" by (auto simp: is_prefix_iff)
    then have "n = m @ ''/'' @ r" using n m by (simp add: item_href_def)
    then show False using n(2) by simp
  qed
  then show ?thesis using href_inj [OF assms] by (auto simp: is_active_def)
qed

text \<open>Whatever entry of the sidebar is followed, exactly its link is marked on the page it leads to, among the links the role may
  see; links are never repeated; and the numbers beside them do not come from the data.\<close>

theorem sidebar_marks_followed:
  "list_all (\<lambda>i. filter sk_active (sidebar_links nav loc (item_href loc i) role) =
       [\<lparr>sk_href = item_href loc i, sk_label = nav (ni_id i), sk_active = True, sk_count = nav_count i\<rparr>]) (visible_items role) \<and>
   distinct (map sk_href (sidebar_links nav loc pathname role)) \<and>
   map sk_count (sidebar_links nav loc pathname (Some RoleSuperAdmin)) = [None, Some 14, Some 128, None, None, None]"
proof (intro conjI)
  have sub: "set (visible_items role) \<subseteq> set SHELL_NAV_ITEMS" by (auto simp: visible_items_def)
  have dist: "distinct (visible_items role)" by (simp add: visible_items_def SHELL_NAV_ITEMS_def)
  show "list_all (\<lambda>i. filter sk_active (sidebar_links nav loc (item_href loc i) role) =
       [\<lparr>sk_href = item_href loc i, sk_label = nav (ni_id i), sk_active = True, sk_count = nav_count i\<rparr>]) (visible_items role)"
    unfolding list_all_iff
  proof
    fix i assume i: "i \<in> set (visible_items role)"
    have "filter (\<lambda>j. is_active loc (item_href loc i) j) (visible_items role) = filter (\<lambda>j. j = i) (visible_items role)"
    proof (rule filter_cong)
      show "is_active loc (item_href loc i) x = (x = i)" if "x \<in> set (visible_items role)" for x
        using that i sub follow_active [of i x loc] by blast
    qed simp
    also have "\<dots> = [i]" by (rule filter_only [OF dist i])
    finally have "filter (\<lambda>j. is_active loc (item_href loc i) j) (visible_items role) = [i]" .
    moreover have "is_active loc (item_href loc i) i" using i sub follow_active by blast
    ultimately show "filter sk_active (sidebar_links nav loc (item_href loc i) role) =
       [\<lparr>sk_href = item_href loc i, sk_label = nav (ni_id i), sk_active = True, sk_count = nav_count i\<rparr>]"
      by (simp add: sidebar_links_def filter_map comp_def)
  qed
  have "inj_on (item_href loc) (set (visible_items role))"
    using sub href_inj by (intro inj_onI) blast
  then show "distinct (map sk_href (sidebar_links nav loc pathname role))"
    using dist by (simp add: sidebar_links_def comp_def distinct_map)
  show "map sk_count (sidebar_links nav loc pathname (Some RoleSuperAdmin)) = [None, Some 14, Some 128, None, None, None]"
    by (simp add: sidebar_links_def visible_items_def SHELL_NAV_ITEMS_def nav_count_def isSuperAdmin_def)
qed

section \<open>The profile menu\<close>

text \<open>An entry runs a callback on a press, or, with an address, is a link of its own.\<close>

datatype menu_effect = MenuTheme theme | MenuRedirect string | MenuFollow | MenuSignOut

record menu_entry =
  me_label :: string
  me_marked :: bool
  me_shape :: menu_item
  me_effect :: menu_effect

record menu_texts =
  mt_accountSettings :: string
  mt_helpDocs :: string
  mt_signOut :: string

definition profile_menu :: "topbar_texts \<Rightarrow> menu_texts \<Rightarrow> theme \<Rightarrow> menu_entry list" where
  "profile_menu t m th =
     [\<lparr>me_label = tt_themeLight t, me_marked = (th = Light), me_shape = ItemButton, me_effect = MenuTheme Light\<rparr>,
      \<lparr>me_label = tt_themeDark t, me_marked = (th = Dark), me_shape = ItemButton, me_effect = MenuTheme Dark\<rparr>,
      \<lparr>me_label = mt_accountSettings m, me_marked = False, me_shape = menu_item None None, me_effect = MenuRedirect ''/profile''\<rparr>,
      \<lparr>me_label = mt_helpDocs m, me_marked = False, me_shape = menu_item (Some REPOSITORY_URL) None, me_effect = MenuFollow\<rparr>,
      \<lparr>me_label = mt_signOut m, me_marked = False, me_shape = menu_item None None, me_effect = MenuSignOut\<rparr>]"

definition menu_theme :: "menu_effect \<Rightarrow> theme_state \<Rightarrow> theme_state" where
  "menu_theme e s = (case e of MenuTheme th \<Rightarrow> setTheme th s | _ \<Rightarrow> s)"

text \<open>The profile menu marks exactly the theme in force; choosing a theme marks it and no other; every entry but the repository's
  is a button, and that one opens a new tab; and the card names whoever is signed in, or nobody, the super admin.\<close>

theorem profile_menu_marks_theme:
  "map me_effect (filter me_marked (profile_menu t m th)) = [MenuTheme th] \<and>
   map me_effect (filter me_marked (profile_menu t m (th_theme (menu_theme (MenuTheme th') s)))) = [MenuTheme th'] \<and>
   map me_shape (profile_menu t m th) =
     [ItemButton, ItemButton, ItemButton, ItemLink REPOSITORY_URL True, ItemButton] \<and>
   last (profile_card t u) = tt_superAdminOrg t"
  by (cases th; cases th')
    (simp_all add: profile_menu_def menu_theme_def setTheme_def profile_card_def help_entry menu_item_def [of None None] nullish_def)

section \<open>The filters of the reports\<close>

record report_filter_texts =
  rft_periods :: "period \<Rightarrow> string"
  rft_allVehicleTypes :: string
  rft_vehicles :: "vehicle_type \<Rightarrow> string"
  rft_authorizedDevices :: string

record report_filters_view =
  rfv_period :: string
  rfv_periods :: "(string \<times> string) list"
  rfv_zone :: string
  rfv_range :: "string \<times> string"
  rfv_vehicle :: string
  rfv_vehicles :: "(string \<times> string) list"
  rfv_devices :: "(string \<times> string \<times> bool) list"
  rfv_alert :: "string option"
  rfv_footer :: string

definition report_filters_shown :: "report_env \<Rightarrow> report_filter_texts \<Rightarrow> device_with_access list \<Rightarrow> reports_page \<Rightarrow> report_filters_view" where
  "report_filters_shown env t devices p =
     \<lparr>rfv_period = period_str (rp_period p), rfv_periods = map (\<lambda>v. (period_str v, rft_periods t v)) REPORT_PERIODS,
      rfv_zone = re_timeZone env, rfv_range = (rp_from p, rp_to p),
      rfv_vehicle = (case rp_vehicleType p of None \<Rightarrow> [] | Some v \<Rightarrow> vehicle_type_str v),
      rfv_vehicles = ([], rft_allVehicleTypes t) # map (\<lambda>v. (vehicle_type_str v, rft_vehicles t v)) REPORT_VEHICLE_TYPES,
      rfv_devices = map (\<lambda>d. (d_id d, d_name d, list_ex (\<lambda>i. i = d_id d) (rp_deviceIds p))) devices,
      rfv_alert = (if rp_validationError p = Some [] then None else rp_validationError p),
      rfv_footer = nat_str (devices_counted (rp_deviceIds p) devices) @ '' '' @ rft_authorizedDevices t\<rparr>"

text \<open>A select of the filters shows one of its own options; a press on a device's box flips that box and no other; and with
  all boxes empty the footer counts every device, as the filter stands for all of them.\<close>

theorem report_filters_follow:
  "let v = report_filters_shown env t devices p; v' = report_filters_shown env t devices (toggleDevice i p) in
     rfv_period v \<in> fst ` set (rfv_periods v) \<and> rfv_vehicle v \<in> fst ` set (rfv_vehicles v) \<and>
     rfv_devices v' = map (\<lambda>(j, n, c). (j, n, if j = i then \<not> c else c)) (rfv_devices v) \<and>
     rfv_footer (report_filters_shown env t devices (p\<lparr>rp_deviceIds := []\<rparr>)) = nat_str (length devices) @ '' '' @ rft_authorizedDevices t"
proof -
  have "rp_period p \<in> set REPORT_PERIODS" by (cases "rp_period p") (simp_all add: REPORT_PERIODS_def)
  then have "period_str (rp_period p) \<in> fst ` set (map (\<lambda>v. (period_str v, rft_periods t v)) REPORT_PERIODS)" by force
  moreover have "vehicle_type_str v \<in> fst ` set (map (\<lambda>v. (vehicle_type_str v, rft_vehicles t v)) REPORT_VEHICLE_TYPES)" for v
    by (cases v) (simp_all add: REPORT_VEHICLE_TYPES_def)
  moreover have "list_ex (\<lambda>j. j = d) (rp_deviceIds (toggleDevice i p)) =
      (if d = i then \<not> list_ex (\<lambda>j. j = d) (rp_deviceIds p) else list_ex (\<lambda>j. j = d) (rp_deviceIds p))" for d
    by (auto simp: toggleDevice_def list_ex_iff)
  ultimately show ?thesis
    by (auto simp: Let_def report_filters_shown_def devices_counted_def split: option.split)
qed

end
