(* ===== verification/Site.thy ===== *)
theory Site
  imports Startup PageShell AuthProps SmallServices
begin

text \<open>
  The pages of the site as a whole: the routes (\<open>pages\<close>), the layouts that put the session provider and the gates
  around them (\<open>components/astro/layout\<close>), and what happens when a visitor opens an address: a page is loaded, its
  provider asks for the session, its gates look at the answer, and a redirect loads the next page. The answers of the
  backend are those of one visitor and do not change on the way. A journey is a \<open>partial_function\<close>: that it ends is
  proved. The provider's island is hydrated before the gates nested in it, so its effect runs first.
\<close>

section \<open>The routes\<close>

datatype site_page =
    PgIndex | PgHome | PgAccess | PgAdmin | PgDevices | PgDetail | PgGuest | PgNoAccess | PgProfile | PgReports | PgSettings
  | PgLogin | PgSignup | PgForgot | PgReset

datatype site_layout = MainLayout bool | AuthLayout bool | OwnDocument | IndexDocument

fun layout_of :: "site_page \<Rightarrow> site_layout" where
  "layout_of PgIndex = IndexDocument"
| "layout_of PgGuest = OwnDocument"
| "layout_of PgAdmin = MainLayout True"
| "layout_of PgLogin = AuthLayout True"
| "layout_of PgForgot = AuthLayout True"
| "layout_of PgReset = AuthLayout True"
| "layout_of PgSignup = AuthLayout False"
| "layout_of _ = MainLayout False"

definition lan_params :: "(string \<times> language) list" where
  "lan_params = [(''en'', En), (''es'', Es)]"

definition lan_pages :: "(string list \<times> site_page) list" where
  "lan_pages =
     [([], PgHome), ([''access''], PgAccess), ([''admin''], PgAdmin), ([''devices''], PgDevices),
      ([''devices'', ''detail''], PgDetail), ([''devices'', ''guest''], PgGuest), ([''no-access''], PgNoAccess),
      ([''profile''], PgProfile), ([''reports''], PgReports), ([''settings''], PgSettings), ([''login''], PgLogin),
      ([''signup''], PgSignup), ([''forgot-password''], PgForgot), ([''reset-password''], PgReset)]"

text \<open>The parts of a path, for which a slash at the end makes no difference.\<close>

definition site_parts :: "string \<Rightarrow> string list option" where
  "site_parts u =
     (case split_char (CHR ''/'') u of
        [] # ws \<Rightarrow> Some (if ws \<noteq> [] \<and> last ws = [] then butlast ws else ws)
      | _ \<Rightarrow> None)"

definition route_at :: "string \<Rightarrow> (language option \<times> site_page) option" where
  "route_at u =
     (case site_parts u of
        None \<Rightarrow> None
      | Some [] \<Rightarrow> Some (None, PgIndex)
      | Some (l # ws) \<Rightarrow>
          (case (map_of lan_params l, map_of lan_pages ws) of
             (Some loc, Some pg) \<Rightarrow> Some (Some loc, pg)
           | _ \<Rightarrow> None))"

section \<open>The bootstrap status\<close>

text \<open>The helper of the bootstrap service (\<open>lib/api/helpers/handle-api-error.ts\<close>), a copy of the one in \<open>lib/api/api-utils.ts\<close>:
  the error it throws.\<close>

fun helper_api_error :: "thrown \<Rightarrow> api_error" where
  "helper_api_error (BetterFetchError st _ body) =
     \<lparr>err_status = st,
      err_message = (let msg = nullish (Option.bind body eb_message) [] in if msg = [] then ''An unexpected error occurred'' else msg),
      err_code = Option.bind body eb_code\<rparr>"
| "helper_api_error (JsError msg) = \<lparr>err_status = 0, err_message = msg, err_code = None\<rparr>"
| "helper_api_error _ = \<lparr>err_status = 0, err_message = ''Network error'', err_code = None\<rparr>"

text \<open>The two helpers throw the same error, for every value that can be caught. What the gates make of the request for the status:
  they take the site for set up unless the backend said the opposite, so a backend that cannot be reached, refuses or answers
  without a body never opens the sign-up page.\<close>

theorem status_defaults_to_set_up:
  "(handleApiError e :: ('z, unit) act) w = (Inl (ApiObj (helper_api_error e)), w) \<and>
   bs_needsSetup (settle_status (fst (getStatus out w))) =
     (case out of Inl _ \<Rightarrow> False | Inr r \<Rightarrow> Option.bind (fr_data r) env_data = Some True)"
proof (intro conjI)
  show "(handleApiError e :: ('z, unit) act) w = (Inl (ApiObj (helper_api_error e)), w)"
    by (cases e)
      (auto simp: io_throw_def betterFetchErrorToApi_def mk_api_error_def nullish_def Let_def split: option.split)
  show "bs_needsSetup (settle_status (fst (getStatus out w))) =
     (case out of Inl _ \<Rightarrow> False | Inr r \<Rightarrow> Option.bind (fr_data r) env_data = Some True)"
  proof (cases out)
    case (Inl x)
    then show ?thesis by (cases x) (simp_all add: getStatus_def io_simps settle_status_def)
  next
    case (Inr r)
    then show ?thesis
      by (cases "fr_data r") (simp_all add: getStatus_def io_simps settle_status_def null_property_error_def)
  qed
qed

section \<open>One page load\<close>

text \<open>What the backend answers this visitor, and whether on the first page the gate is faster than the script.\<close>

record visitor =
  vs_session :: "thrown + auth_session fetch_result"
  vs_profile :: "thrown + user envelope fetch_result"
  vs_status :: "thrown + bootstrap_status"
  vs_firstRun :: bool
  vs_language :: string

definition page_load :: "bool \<Rightarrow> visitor \<Rightarrow> world \<Rightarrow> boot" where
  "page_load showToast v w =
     boot_run [ProviderEffect, SessionSettles showToast (vs_session v), ProfileSettles (vs_profile v)] (boot_start w)"

definition opened :: "visitor \<Rightarrow> string \<Rightarrow> world" where
  "opened v u = initial_world\<lparr>w_pathname := u, w_language := vs_language v\<rparr>"

text \<open>The status a gate knows once its effect has run on the settled store.\<close>

definition known_status :: "bool \<Rightarrow> visitor \<Rightarrow> bootstrap_status option" where
  "known_status asks v = (if asks then Some (settle_status (vs_status v)) else None)"

definition main_gates :: "bool \<Rightarrow> language \<Rightarrow> visitor \<Rightarrow> auth_atoms \<Rightarrow> string option" where
  "main_gates onlyAdmin loc v a =
     (case protected_redirect a (known_status (protected_asks a None) v) of
        Some p \<Rightarrow> Some p
      | None \<Rightarrow> if onlyAdmin then admin_redirect loc a else None)"

definition auth_gate :: "bool \<Rightarrow> visitor \<Rightarrow> auth_atoms \<Rightarrow> string option" where
  "auth_gate isLoginPage v a = public_redirect isLoginPage a (known_status (public_asks a None) v)"

text \<open>The script of the first page, and the gate beside it.\<close>

definition index_script :: "string \<Rightarrow> string" where
  "index_script language =
     (let lang = hd (split_char (CHR ''-'') (if language = [] then ''en'' else language))
      in ''/'' @ (if lang \<in> {''en'', ''es''} then lang else ''es'') @ ''/'')"

definition index_target :: "visitor \<Rightarrow> string" where
  "index_target v =
     (if vs_firstRun v then firstRunTarget (vs_language v) supported_langs (vs_status v) else index_script (vs_language v))"

definition next_url :: "visitor \<Rightarrow> string \<Rightarrow> string option" where
  "next_url v u =
     (case route_at u of
        None \<Rightarrow> None
      | Some (None, _) \<Rightarrow> Some (index_target v)
      | Some (Some loc, pg) \<Rightarrow>
          map_option (redirect_url u (vs_language v))
            (case layout_of pg of
               MainLayout onlyAdmin \<Rightarrow> main_gates onlyAdmin loc v (boot_auth (page_load True v (opened v u)))
             | AuthLayout isLoginPage \<Rightarrow> auth_gate isLoginPage v (boot_auth (page_load False v (opened v u)))
             | _ \<Rightarrow> None))"

text \<open>What the gates of a loaded page show once the store has settled; \<open>None\<close> where there is no page.\<close>

definition page_view :: "visitor \<Rightarrow> string \<Rightarrow> gate_view option" where
  "page_view v u =
     (case route_at u of
        None \<Rightarrow> None
      | Some (None, _) \<Rightarrow> Some ShowFallback
      | Some (Some _, pg) \<Rightarrow>
          Some (case layout_of pg of
              MainLayout onlyAdmin \<Rightarrow>
                (let a = boot_auth (page_load True v (opened v u))
                 in case protected_render a (known_status (protected_asks a None) v) of
                      ShowChildren \<Rightarrow> if onlyAdmin then admin_render a else ShowChildren
                    | x \<Rightarrow> x)
            | AuthLayout isLoginPage \<Rightarrow>
                (let a = boot_auth (page_load False v (opened v u))
                 in public_render isLoginPage a (known_status (public_asks a None) v))
            | _ \<Rightarrow> ShowChildren))"

section \<open>Journeys\<close>

partial_function (option) journey :: "visitor \<Rightarrow> string \<Rightarrow> string list option" where
  "journey v u =
     (case next_url v u of
        None \<Rightarrow> Some [u]
      | Some u' \<Rightarrow> Option.bind (journey v u') (\<lambda>us. Some (u # us)))"

definition journey_end :: "visitor \<Rightarrow> string \<Rightarrow> string option" where
  "journey_end v u = map_option last (journey v u)"

lemma journey_rest: "next_url v u = None \<Longrightarrow> journey v u = Some [u]"
  by (simp add: journey.simps)

lemma journey_move: "next_url v u = Some u' \<Longrightarrow> journey v u' = Some us \<Longrightarrow> journey v u = Some (u # us)"
  by (subst journey.simps) simp

section \<open>The store after a load\<close>

definition signed_in :: "visitor \<Rightarrow> bool" where
  "signed_in v \<longleftrightarrow> me_of (vs_session v) \<noteq> None"

text \<open>The profile the middleware and the answer leave.\<close>

definition profile_of :: "(thrown + user envelope fetch_result) \<Rightarrow> user option" where
  "profile_of out =
     (case out of
        Inl _ \<Rightarrow> None
      | Inr r \<Rightarrow> if must_change_password_error (fr_error r) then None else Option.bind (fr_data r) env_data)"

definition visitor_role :: "visitor \<Rightarrow> user_role option" where
  "visitor_role v = map_option u_role (profile_of (vs_profile v))"

definition needs_setup :: "visitor \<Rightarrow> bool" where
  "needs_setup v = bs_needsSetup (settle_status (vs_status v))"

lemma fetchProfile_atoms:
  "a_profile (w_auth (snd (fetchProfile out w))) =
     (case profile_of out of None \<Rightarrow> a_profile (w_auth w) | Some u \<Rightarrow> Some u)"
  "a_isRoleLoaded (w_auth (snd (fetchProfile out w)))"
proof -
  have "a_profile (w_auth (snd (fetchProfile out w))) = (case profile_of out of None \<Rightarrow> a_profile (w_auth w) | Some u \<Rightarrow> Some u) \<and>
    a_isRoleLoaded (w_auth (snd (fetchProfile out w)))"
  proof (cases out)
    case (Inl e)
    then show ?thesis by (simp add: fetchProfile_def io_simps service_defs profile_of_def)
  next
    case (Inr r)
    then show ?thesis
      by (cases "must_change_password_error (fr_error r)"; cases "Option.bind (fr_data r) env_data")
        (simp_all add: fetchProfile_def io_simps service_defs profile_of_def)
  qed
  then show "a_profile (w_auth (snd (fetchProfile out w))) = (case profile_of out of None \<Rightarrow> a_profile (w_auth w) | Some u \<Rightarrow> Some u)"
    "a_isRoleLoaded (w_auth (snd (fetchProfile out w)))" by simp_all
qed

lemma getSession_auth:
  "w_auth (snd (getSession t out w)) =
     (case me_of out of None \<Rightarrow> (cleared (w_auth w))\<lparr>a_isAuthLoading := False\<rparr>
      | Some u \<Rightarrow> (w_auth w)\<lparr>a_user := Some u, a_isAuthLoading := False\<rparr>)"
  "fst (getSession t out w) = Inr (me_of out)"
proof -
  obtain w' where w': "fetchMe t out (set_auth_loading True w) = (Inr (me_of out), w')" "w_auth w' = (w_auth w)\<lparr>a_isAuthLoading := True\<rparr>"
    using fetchMe_pair [of t out "set_auth_loading True w"] fetchMe_auth [of t out "set_auth_loading True w"] by simp
  then show "w_auth (snd (getSession t out w)) = (case me_of out of None \<Rightarrow> (cleared (w_auth w))\<lparr>a_isAuthLoading := False\<rparr>
      | Some u \<Rightarrow> (w_auth w)\<lparr>a_user := Some u, a_isAuthLoading := False\<rparr>)"
    "fst (getSession t out w) = Inr (me_of out)"
    by (cases "me_of out"; simp add: getSession_def io_simps setAuthLoading_def setUser_def clearUser_def cleared_def)+
qed

lemma page_load_atoms:
  "boot_auth (page_load t v w) =
     (let w1 = snd (getSession t (vs_session v) (snd (setAuthLoading True (w\<lparr>w_auth := initial_auth\<rparr>))))
      in case me_of (vs_session v) of None \<Rightarrow> w_auth w1 | Some _ \<Rightarrow> w_auth (snd (fetchProfile (vs_profile v) w1)))"
proof -
  let ?w = "snd (setAuthLoading True (w\<lparr>w_auth := initial_auth\<rparr>))"
  have 1: "boot_step ProviderEffect (boot_start w) = (boot_start w)\<lparr>bt_hydrated := True, bt_session := True, bt_world := ?w\<rparr>"
    by (simp add: boot_start_def provider_effect_def hydrate_once_def Let_def)
  obtain w1 where 2: "getSession t (vs_session v) ?w = (Inr (me_of (vs_session v)), w1)"
    by (metis getSession_auth(2) prod.collapse)
  have 3: "boot_step (SessionSettles t (vs_session v)) (boot_step ProviderEffect (boot_start w)) =
      (boot_start w)\<lparr>bt_hydrated := True, bt_session := False, bt_world := w1,
        bt_profile := (me_of (vs_session v) \<noteq> None)\<rparr>"
    unfolding 1 by (subst boot_step.simps(2)) (cases "me_of (vs_session v)"; simp add: 2 boot_start_def)
  show ?thesis
    unfolding page_load_def boot_run_simps 3
    by (cases "me_of (vs_session v)") (simp_all add: boot_start_def 2)
qed

lemma loaded_store:
  "a_isAuthLoading (boot_auth (page_load t v w)) = False"
  "isAuthenticated (boot_auth (page_load t v w)) = signed_in v"
  "a_isRoleLoaded (boot_auth (page_load t v w)) = signed_in v"
  "userRole (boot_auth (page_load t v w)) = (if signed_in v then visitor_role v else None)"
proof -
  let ?a = "boot_auth (page_load t v w)"
  have start: "w_auth (snd (setAuthLoading True (w\<lparr>w_auth := initial_auth\<rparr>))) = initial_auth\<lparr>a_isAuthLoading := True\<rparr>"
    by (simp add: setAuthLoading_def io_simps)
  have init: "a_user initial_auth = None" "a_profile initial_auth = None" "\<not> a_isRoleLoaded initial_auth"
    by (simp_all add: initial_auth_def)
  have "a_isAuthLoading ?a = False \<and> isAuthenticated ?a = signed_in v \<and> a_isRoleLoaded ?a = signed_in v \<and>
    userRole ?a = (if signed_in v then visitor_role v else None)"
    by (cases "me_of (vs_session v)"; cases "profile_of (vs_profile v)")
      (simp_all add: page_load_atoms Let_def getSession_auth(1) fetchProfile_atoms fetchProfile_keeps signed_in_def visitor_role_def
        isAuthenticated_def userRole_def start init)
  then show "a_isAuthLoading ?a = False" "isAuthenticated ?a = signed_in v" "a_isRoleLoaded ?a = signed_in v"
    "userRole ?a = (if signed_in v then visitor_role v else None)" by simp_all
qed

lemma main_gates_loaded:
  "main_gates adm loc v (boot_auth (page_load t v (opened v u))) =
     (if \<not> signed_in v then Some (if needs_setup v then SIGNUP_PATH else LOGIN_PATH)
      else if adm \<and> \<not> isSuperAdmin (visitor_role v) then Some (''/'' @ language_str loc @ ''/no-access'') else None)"
  by (simp add: main_gates_def protected_redirect_def protected_asks_def known_status_def loaded_store admin_redirect_def needs_setup_def)

lemma auth_gate_loaded:
  "auth_gate isLogin v (boot_auth (page_load t v (opened v u))) =
     (if signed_in v then Some DASHBOARD_PATH
      else if isLogin \<and> needs_setup v then Some SIGNUP_PATH
      else if \<not> isLogin \<and> \<not> needs_setup v then Some LOGIN_PATH else None)"
  by (simp add: auth_gate_def public_redirect_def public_asks_def known_status_def loaded_store needs_setup_def)

section \<open>Addresses\<close>

lemma lan_params_iff: "map_of lan_params l = Some loc \<longleftrightarrow> l = language_str loc"
  by (cases loc) (auto simp: lan_params_def)

lemma join_with_last_empty: "ws \<noteq> [] \<Longrightarrow> join_with sep (ws @ [[]]) = join_with sep ws @ sep"
proof (induction ws)
  case (Cons w ws)
  then show ?case by (cases ws) simp_all
qed simp

lemma site_parts_join:
  assumes "site_parts u = Some ws" "ws \<noteq> []"
  shows "\<exists>s \<in> {[], ''/''}. u = ''/'' @ join_with ''/'' ws @ s"
proof -
  obtain ps where ps: "split_char (CHR ''/'') u = [] # ps" "ws = (if ps \<noteq> [] \<and> last ps = [] then butlast ps else ps)"
    using assms(1) by (auto simp: site_parts_def split: list.splits)
  have ps_ne: "ps \<noteq> []" using ps(2) assms(2) by auto
  have u: "u = ''/'' @ join_with ''/'' ps"
    using join_split_char [of "CHR ''/''" u] ps(1) ps_ne by (cases ps) auto
  show ?thesis
  proof (cases "last ps = []")
    case True
    then have "ps = ws @ [[]]" using ps(2) ps_ne append_butlast_last_id [of ps] by simp
    then show ?thesis using u join_with_last_empty [OF assms(2)] by simp
  next
    case False
    then show ?thesis using u ps(2) by simp
  qed
qed

text \<open>What an address with a language looks like.\<close>

lemma route_address:
  assumes "route_at u = Some (Some loc, pg)"
  obtains ws s where "map_of lan_pages ws = Some pg" "s = [] \<or> s = ''/''" "site_parts u = Some (language_str loc # ws)"
    "u = ''/'' @ join_with ''/'' (language_str loc # ws) @ s"
proof -
  obtain l ws where parts: "site_parts u = Some (l # ws)" "map_of lan_params l = Some loc" "map_of lan_pages ws = Some pg"
    using assms by (auto simp: route_at_def split: option.splits list.splits)
  then show thesis using that [of ws] site_parts_join [of u "l # ws"] by (auto simp: lan_params_iff)
qed

lemma split_first_part:
  assumes "site_parts u = Some (l # ws)" "l \<noteq> []"
  shows "first_segment u = Some l"
proof -
  obtain ps where ps: "split_char (CHR ''/'') u = [] # ps" "l # ws = (if ps \<noteq> [] \<and> last ps = [] then butlast ps else ps)"
    using assms(1) by (auto simp: site_parts_def split: list.splits)
  then obtain qs where "ps = l # qs" by (cases ps) (auto split: if_splits)
  then show ?thesis using ps(1) assms(2) by (simp add: first_segment_def)
qed

text \<open>A redirect from a page with a language stays in that language.\<close>

lemma redirect_from_route:
  assumes "route_at u = Some (Some loc, pg)"
  shows "redirect_url u language p = ''/'' @ language_str loc @ p"
proof -
  obtain ws where "site_parts u = Some (language_str loc # ws)" using route_address [OF assms] by metis
  moreover have "language_str loc \<noteq> []" by (cases loc) simp_all
  ultimately have "first_segment u = Some (language_str loc)" by (rule split_first_part)
  then show ?thesis by (cases loc) (simp_all add: redirect_url_def redirect_lang_def supported_langs_def)
qed

lemma next_url_routed:
  assumes "route_at u = Some (Some loc, pg)"
  shows "next_url v u =
    (let home = ''/'' @ language_str loc in
     case layout_of pg of
       MainLayout adm \<Rightarrow>
         if \<not> signed_in v then Some (home @ (if needs_setup v then ''/signup'' else ''/login''))
         else if adm \<and> \<not> isSuperAdmin (visitor_role v) then Some (home @ home @ ''/no-access'') else None
     | AuthLayout isLogin \<Rightarrow>
         if signed_in v then Some (home @ ''/'')
         else if isLogin \<and> needs_setup v then Some (home @ ''/signup'')
         else if \<not> isLogin \<and> \<not> needs_setup v then Some (home @ ''/login'') else None
     | _ \<Rightarrow> None)"
  using assms by (simp add: next_url_def redirect_from_route [OF assms] main_gates_loaded auth_gate_loaded path_defs Let_def
    split: site_layout.split)

text \<open>The routes a redirect leads to.\<close>

lemma redirect_routes:
  "route_at (''/'' @ language_str loc @ ''/'') = Some (Some loc, PgHome)"
  "route_at (''/'' @ language_str loc @ ''/login'') = Some (Some loc, PgLogin)"
  "route_at (''/'' @ language_str loc @ ''/signup'') = Some (Some loc, PgSignup)"
  "route_at (''/'' @ language_str loc @ ''/'' @ language_str loc @ ''/no-access'') = None"
  by (cases loc; simp add: route_at_def site_parts_def lan_params_def lan_pages_def)+

text \<open>Where a visitor comes to rest who opens a page of the site.\<close>

definition resting_place :: "visitor \<Rightarrow> language \<Rightarrow> site_page \<Rightarrow> string \<Rightarrow> string" where
  "resting_place v loc pg u =
     (let home = ''/'' @ language_str loc in
      case layout_of pg of
        MainLayout adm \<Rightarrow>
          if \<not> signed_in v then home @ (if needs_setup v then ''/signup'' else ''/login'')
          else if adm \<and> \<not> isSuperAdmin (visitor_role v) then home @ home @ ''/no-access'' else u
      | AuthLayout isLogin \<Rightarrow>
          if signed_in v then home @ ''/''
          else if isLogin \<noteq> needs_setup v then u
          else home @ (if needs_setup v then ''/signup'' else ''/login'')
      | _ \<Rightarrow> u)"

lemma journey_no_route: "route_at u = None \<Longrightarrow> journey v u = Some [u]"
  by (rule journey_rest) (simp add: next_url_def)

lemma rests_at:
  "\<not> signed_in v \<Longrightarrow> needs_setup v \<Longrightarrow> journey v (''/'' @ language_str loc @ ''/signup'') = Some [''/'' @ language_str loc @ ''/signup'']"
  "\<not> signed_in v \<Longrightarrow> \<not> needs_setup v \<Longrightarrow> journey v (''/'' @ language_str loc @ ''/login'') = Some [''/'' @ language_str loc @ ''/login'']"
  "signed_in v \<Longrightarrow> journey v (''/'' @ language_str loc @ ''/'') = Some [''/'' @ language_str loc @ ''/'']"
  by (rule journey_rest; simp only: next_url_routed [OF redirect_routes(3)] next_url_routed [OF redirect_routes(2)]
      next_url_routed [OF redirect_routes(1)] Let_def; simp)+

lemma journey_routed:
  assumes "route_at u = Some (Some loc, pg)"
  shows "journey v u = Some (if resting_place v loc pg u = u then [u] else [u, resting_place v loc pg u])"
proof (cases "next_url v u")
  case None
  then have "resting_place v loc pg u = u"
    using next_url_routed [OF assms, of v]
    by (auto simp: resting_place_def Let_def split: site_layout.splits if_splits)
  then show ?thesis using journey_rest [OF None] by simp
next
  case (Some u')
  then have rest: "resting_place v loc pg u = u'" and next_rest: "journey v u' = Some [u']"
    using next_url_routed [OF assms, of v] rests_at [of v loc] journey_no_route [OF redirect_routes(4), of v loc]
    by (auto simp: resting_place_def Let_def split: site_layout.splits if_splits)
  moreover have "u' \<noteq> u"
  proof
    assume "u' = u"
    then have "journey v u = Some [u, u]" using journey_move [OF Some next_rest] by simp
    then show False using next_rest \<open>u' = u\<close> by simp
  qed
  ultimately show ?thesis using journey_move [OF Some next_rest] by simp
qed

text \<open>A journey that ends is a chain of redirects, and its end redirects no further.\<close>

lemma journey_chain:
  assumes "journey v u = Some us"
  shows "us \<noteq> [] \<and> hd us = u \<and> next_url v (last us) = None"
proof (rule journey.raw_induct [where P = "\<lambda>v u us. us \<noteq> [] \<and> hd us = u \<and> next_url v (last us) = None", OF _ assms])
  fix f v u us
  assume IH: "\<And>v u us. f v u = Some us \<Longrightarrow> us \<noteq> [] \<and> hd us = u \<and> next_url v (last us) = None"
    and eq: "(case next_url v u of None \<Rightarrow> Some [u] | Some u' \<Rightarrow> Option.bind (f v u') (\<lambda>us. Some (u # us))) = Some us"
  show "us \<noteq> [] \<and> hd us = u \<and> next_url v (last us) = None"
    using eq IH by (auto split: option.splits bind_splits)
qed

lemma index_targets: "index_target v \<in> {''/en/'', ''/es/'', ''/en/signup'', ''/es/signup'', ''/en/login'', ''/es/login'', ''/en/error'', ''/es/error''}"
proof -
  have "resolveLocale l supported_langs \<in> {Some ''en'', Some ''es''}" for l
    by (auto simp: resolveLocale_def supported_langs_def Let_def)
  then show ?thesis
    by (auto simp: index_target_def index_script_def firstRunTarget_def Let_def split: sum.split)
      (metis (no_types, lifting) insert_iff nullish_simps(2) singletonD)+
qed

lemma index_target_known: "route_at (index_target v) \<noteq> Some (None, pg)"
  using index_targets [of v] by (auto simp: route_at_def site_parts_def lan_params_def lan_pages_def)

lemma journey_known:
  assumes "\<And>pg. route_at u \<noteq> Some (None, pg)"
  shows "\<exists>us. journey v u = Some us \<and> length us \<le> 2"
proof (cases "route_at u")
  case None
  then show ?thesis using journey_no_route by simp
next
  case (Some r)
  then obtain loc pg where "route_at u = Some (Some loc, pg)" using assms by (cases r; cases "fst r") auto
  then show ?thesis using journey_routed [of u loc pg v] by simp
qed

lemma journey_returns: "\<exists>us. journey v u = Some us \<and> length us \<le> 3"
proof (cases "\<exists>pg. route_at u = Some (None, pg)")
  case True
  then have "next_url v u = Some (index_target v)" by (auto simp: next_url_def)
  moreover obtain us where "journey v (index_target v) = Some us" "length us \<le> 2"
    using journey_known [OF index_target_known] by blast
  ultimately show ?thesis using journey_move by fastforce
next
  case False
  then show ?thesis using journey_known [of u v] by fastforce
qed

section \<open>Properties of journeys\<close>

text \<open>C5: Every visit comes to rest. Whatever address is opened and whatever the backend answers this visitor, the redirects
  of the script, the gates and the first-run gate end after at most two of them, at an address that redirects no further.\<close>

theorem journeys_end:
  "case journey v u of
     None \<Rightarrow> False
   | Some us \<Rightarrow> hd us = u \<and> length us \<le> 3 \<and> next_url v (last us) = None"
proof -
  obtain us where "journey v u = Some us" "length us \<le> 3" using journey_returns by blast
  then show ?thesis using journey_chain by simp
qed

lemma page_view_routed:
  assumes "route_at u = Some (Some loc, pg)"
  shows "page_view v u = Some (case layout_of pg of
     MainLayout adm \<Rightarrow> if signed_in v \<and> (adm \<longrightarrow> isSuperAdmin (visitor_role v)) then ShowChildren else ShowNothing
   | AuthLayout isLogin \<Rightarrow> if \<not> signed_in v \<and> isLogin \<noteq> needs_setup v then ShowChildren else ShowNothing
   | _ \<Rightarrow> ShowChildren)"
  using assms
  by (cases "layout_of pg")
    (auto simp: page_view_def Let_def protected_render_def protected_asks_def known_status_def admin_render_def public_render_def
      public_asks_def loaded_store needs_setup_def)

text \<open>C4: Where a visit comes to rest the visitor sees content that is theirs to see: the page at the end of a journey shows its
  content (or the address has no page), a page behind the main gate only with a session, the admin page only to a super
  admin, the sign-in and sign-up pages only without a session and each only before or after the set-up it belongs to.\<close>

theorem content_at_rest:
  "case journey_end v u of
     None \<Rightarrow> False
   | Some e \<Rightarrow>
       (case route_at e of
          None \<Rightarrow> page_view v e = None
        | Some (None, _) \<Rightarrow> False
        | Some (Some _, pg) \<Rightarrow>
            page_view v e = Some ShowChildren \<and>
            (case layout_of pg of
               MainLayout onlyAdmin \<Rightarrow> signed_in v \<and> (if onlyAdmin then isSuperAdmin (visitor_role v) else True)
             | AuthLayout isLoginPage \<Rightarrow> \<not> signed_in v \<and> (isLoginPage \<noteq> needs_setup v)
             | _ \<Rightarrow> True))"
proof -
  obtain us where us: "journey v u = Some us" using journey_returns by blast
  have rest: "next_url v (last us) = None" using journey_chain [OF us] by blast
  have content: "page_view v e = Some ShowChildren \<and>
            (case layout_of pg of
               MainLayout onlyAdmin \<Rightarrow> signed_in v \<and> (if onlyAdmin then isSuperAdmin (visitor_role v) else True)
             | AuthLayout isLoginPage \<Rightarrow> \<not> signed_in v \<and> (isLoginPage \<noteq> needs_setup v)
             | _ \<Rightarrow> True)" if "route_at e = Some (Some loc, pg)" "next_url v e = None" for e loc pg
    using that(2) page_view_routed [OF that(1), of v] next_url_routed [OF that(1), of v]
    by (auto simp: Let_def split: site_layout.splits if_splits)
  show ?thesis
  proof (cases "route_at (last us)")
    case None
    then show ?thesis by (simp add: journey_end_def us page_view_def)
  next
    case (Some r)
    then obtain loc pg where r: "route_at (last us) = Some (Some loc, pg)"
      using rest by (cases r; cases "fst r") (auto simp: next_url_def)
    show ?thesis using content [OF r rest] r by (simp add: journey_end_def us)
  qed
qed

text \<open>C9: Signing in and out, followed through the pages. After a sign-in that the backend accepted the visitor comes to rest on
  the home page in the language of the form, provided the session then exists. After a sign-out, whatever became of its
  request, the visitor comes to rest on the form for signing in (or up) if the session is gone; but if it is not, as when the
  request failed, on the home page again, signed in.\<close>

theorem session_changes_lead:
  "case route_at (w_pathname w) of
     Some (Some loc, _) \<Rightarrow>
       (let home = ''/'' @ language_str loc;
            rest = home @ (if signed_in v then ''/'' else if needs_setup v then ''/signup'' else ''/login'')
        in journey_end v (last (w_nav (snd (signIn c (fetched s) w)))) = Some rest \<and>
           journey_end v (last (w_nav (snd (signOut out w)))) = Some rest)
   | _ \<Rightarrow> True"
proof (cases "route_at (w_pathname w)")
  case (Some r)
  show ?thesis
  proof (cases "fst r")
    case (Some loc)
    then have route: "route_at (w_pathname w) = Some (Some loc, snd r)" using \<open>route_at (w_pathname w) = Some r\<close> by (cases r) simp
    let ?home = "''/'' @ language_str loc"
    have 1: "last (w_nav (snd (signIn c (fetched s) w))) = ?home @ ''/''"
      using signIn_outcomes [of c "fetched s" w] redirect_from_route [OF route, of "w_language w" "''/''"]
      by (simp add: fetched_def redirect_url_def)
    have 2: "last (w_nav (snd (signOut out w))) = ?home @ ''/login''"
      by (cases out) (simp_all add: signOut_def io_simps service_defs path_defs redirect_from_route [OF route])
    have "journey_end v (?home @ ''/'') = Some (resting_place v loc PgHome (?home @ ''/''))"
      "journey_end v (?home @ ''/login'') = Some (resting_place v loc PgLogin (?home @ ''/login''))"
      using journey_routed [OF redirect_routes(1), of v loc] journey_routed [OF redirect_routes(2), of v loc]
      by (simp_all add: journey_end_def)
    then show ?thesis by (simp add: route 1 2 resting_place_def Let_def)
  qed (use \<open>route_at (w_pathname w) = Some r\<close> in \<open>cases r; simp\<close>)
qed simp

text \<open>The sidebar and the gates agree: of the addresses in the sidebar exactly those that it shows to this visitor's role are
  pages on which the visitor can stay.\<close>

lemma sidebar_routes:
  "i \<in> set SHELL_NAV_ITEMS \<Longrightarrow> \<exists>pg. route_at (item_href loc i) = Some (Some loc, pg) \<and> layout_of pg = MainLayout (ni_requiresRole i)"
  by (cases loc)
    (auto simp: SHELL_NAV_ITEMS_def item_href_def route_at_def site_parts_def lan_params_def lan_pages_def)

theorem sidebar_agrees_with_gates:
  "list_all (\<lambda>i. (next_url v (item_href loc i) = None) = (signed_in v \<and> i \<in> set (visible_items (visitor_role v)))) SHELL_NAV_ITEMS"
  unfolding list_all_iff
proof
  fix i assume i: "i \<in> set SHELL_NAV_ITEMS"
  then obtain pg where "route_at (item_href loc i) = Some (Some loc, pg)" "layout_of pg = MainLayout (ni_requiresRole i)"
    using sidebar_routes by blast
  then show "(next_url v (item_href loc i) = None) = (signed_in v \<and> i \<in> set (visible_items (visitor_role v)))"
    using next_url_routed [of "item_href loc i" loc pg v] i by (auto simp: visible_items_def Let_def)
qed

lemma site_parts_lan:
  "CHR ''/'' \<notin> set l \<Longrightarrow> site_parts (CHR ''/'' # l @ CHR ''/'' # cs) =
     Some (l # (let ws = split_char (CHR ''/'') cs in if last ws = [] then butlast ws else ws))"
  by (simp add: site_parts_def split_char_append Let_def)

lemma site_parts_lan_only: "CHR ''/'' \<notin> set l \<Longrightarrow> l \<noteq> [] \<Longrightarrow> site_parts (CHR ''/'' # l) = Some [l]"
  by (simp add: site_parts_def split_char_single)

lemma language_chars: "CHR ''/'' \<notin> set (language_str l)" "language_str l \<noteq> []"
  by (cases l; simp)+

lemma route_relocalized:
  assumes "route_at u = Some (Some loc, pg)"
  shows "\<exists>t. u = ''/'' @ language_str loc @ t \<and> (t = [] \<or> (\<exists>cs. t = CHR ''/'' # cs)) \<and>
    (\<forall>l. route_at (''/'' @ language_str l @ t) = Some (Some l, pg))"
proof -
  obtain ws s where ws: "map_of lan_pages ws = Some pg" "s = [] \<or> s = ''/''" "site_parts u = Some (language_str loc # ws)"
    "u = ''/'' @ join_with ''/'' (language_str loc # ws) @ s"
    by (rule route_address [OF assms])
  let ?t = "(if ws = [] then [] else ''/'' @ join_with ''/'' ws) @ s"
  have u: "u = ''/'' @ language_str loc @ ?t" using ws(4) by (cases ws) simp_all
  have "site_parts (''/'' @ language_str l @ ?t) = Some (language_str l # ws)" for l
  proof (cases ?t)
    case Nil
    then show ?thesis using site_parts_lan_only [of "language_str l"] language_chars by (auto split: if_splits)
  next
    case (Cons c cs)
    then have t: "?t = CHR ''/'' # cs" using ws(2) by (auto split: if_splits)
    show ?thesis
      using ws(3) unfolding u t by (simp add: site_parts_lan language_chars)
  qed
  then have "\<forall>l. route_at (''/'' @ language_str l @ ?t) = Some (Some l, pg)"
    using ws(1) by (simp add: route_at_def lan_params_iff [THEN iffD2])
  then show ?thesis using u ws(2) by (intro exI [of _ ?t]) auto
qed

text \<open>C10: The language toggle keeps the page: the address it leads to from any page of the site is the same page in the other
  language, where this visitor stays if and only if they could stay before.
  The way back leads to the address it started from.\<close>

theorem language_toggle_keeps_page:
  "case route_at u of
     Some (Some loc, pg) \<Rightarrow>
       (let u' = replace_locale loc' u
        in route_at u' = Some (Some loc', pg) \<and> replace_locale loc u' = u \<and>
           page_view v u' = page_view v u \<and> (next_url v u' = None) = (next_url v u = None))
   | _ \<Rightarrow> True"
proof (cases "route_at u")
  case (Some r)
  show ?thesis
  proof (cases "fst r")
    case (Some loc)
    then have route: "route_at u = Some (Some loc, snd r)" using \<open>route_at u = Some r\<close> by (cases r) simp
    obtain t where t: "u = ''/'' @ language_str loc @ t" "\<And>l. route_at (''/'' @ language_str l @ t) = Some (Some l, snd r)"
      using route_relocalized [OF route] by blast
    have "replace_locale l (''/'' @ language_str k @ t) = ''/'' @ language_str l @ t" for l k
      by (cases k) (simp_all add: replace_locale_def)
    then obtain u' where u': "replace_locale loc' u = u'" "replace_locale loc u' = u" "route_at u' = Some (Some loc', snd r)"
      using t by metis
    show ?thesis
      using page_view_routed [OF route, of v] page_view_routed [OF u'(3), of v] next_url_routed [OF route, of v]
        next_url_routed [OF u'(3), of v]
      by (cases "layout_of (snd r)") (simp_all add: route u' Let_def)
  qed (use \<open>route_at u = Some r\<close> in \<open>cases r; simp\<close>)
qed simp

text \<open>The gate for the password follows the backend on every page: it is open exactly for a session whose profile was refused
  for the password, or read with the flag set.\<close>

theorem password_gate_on_every_page:
  "password_gate_open (boot_auth (page_load t v w)) =
     (signed_in v \<and>
      (case vs_profile v of Inl _ \<Rightarrow> False | Inr r \<Rightarrow> must_change_password_error (fr_error r)) \<or>
      signed_in v \<and> map_option u_must_change_password (profile_of (vs_profile v)) = Some True)"
proof (cases "me_of (vs_session v)")
  case None
  then show ?thesis
    by (simp add: page_load_atoms getSession_auth(1) Let_def signed_in_def password_gate_open_def)
next
  case (Some u)
  let ?w = "snd (getSession t (vs_session v) (snd (setAuthLoading True (w\<lparr>w_auth := initial_auth\<rparr>))))"
  have "a_profile (w_auth ?w) = None"
    by (simp add: getSession_auth(1) Some setAuthLoading_def io_simps initial_auth_def)
  then show ?thesis
    using password_gate_signals [of "vs_profile v" ?w] Some
    by (auto simp: page_load_atoms Let_def signed_in_def profile_of_def split: sum.splits if_splits option.splits)
qed

section \<open>Links\<close>

text \<open>The home page: the links of its features, its capabilities, its two buttons. An external one opens a new tab.\<close>

definition home_href :: "language \<Rightarrow> string \<Rightarrow> string" where
  "home_href loc path = ''/'' @ language_str loc @ path"

definition HOME_FEATURES :: "language \<Rightarrow> string list" where
  "HOME_FEATURES loc = map (home_href loc) [''/devices'', ''/reports'', ''/devices'']"

definition HOME_CAPABILITIES :: "string \<Rightarrow> language \<Rightarrow> (string \<times> bool) list" where
  "HOME_CAPABILITIES repository loc =
     [(home_href loc ''/reports'', False), (home_href loc ''/access'', False), (repository, True)]"

definition home_buttons :: "language \<Rightarrow> string list" where
  "home_buttons loc = map (home_href loc) [''/devices'', ''/settings'']"

text \<open>Every address that the home page links to, and every address of the sidebar, is a page in the same language; so are the
  addresses the gates, the forms and the menus redirect to, from any page. The older sidebar has one link that is none:
  there is no page for the keys.\<close>

theorem links_lead_to_pages:
  "list_all (\<lambda>u. map_option fst (route_at u) = Some (Some loc))
     (HOME_FEATURES loc @ map fst (filter (\<lambda>(_, external). \<not> external) (HOME_CAPABILITIES repository loc)) @ home_buttons loc @
      map (item_href loc) SHELL_NAV_ITEMS) \<and>
   (case route_at u of
      Some (Some here, _) \<Rightarrow>
        list_all (\<lambda>p. map_option fst (route_at (redirect_url u language p)) = Some (Some here))
          [LOGIN_PATH, SIGNUP_PATH, DASHBOARD_PATH, ''/forgot-password'', ''/profile'', ''/devices/'', ''/devices/detail'']
    | _ \<Rightarrow> True) \<and>
   map sn_key (filter (\<lambda>i. route_at (sn_href i) = None) (generateNavbarItems loc labels showAdmin)) = [''api-keys'']"
proof (intro conjI)
  show "list_all (\<lambda>u. map_option fst (route_at u) = Some (Some loc))
     (HOME_FEATURES loc @ map fst (filter (\<lambda>(_, external). \<not> external) (HOME_CAPABILITIES repository loc)) @ home_buttons loc @
      map (item_href loc) SHELL_NAV_ITEMS)"
    by (cases loc) (simp_all add: HOME_FEATURES_def HOME_CAPABILITIES_def home_buttons_def home_href_def SHELL_NAV_ITEMS_def item_href_def
      route_at_def site_parts_def lan_params_def lan_pages_def)
  show "case route_at u of
      Some (Some here, _) \<Rightarrow>
        list_all (\<lambda>p. map_option fst (route_at (redirect_url u language p)) = Some (Some here))
          [LOGIN_PATH, SIGNUP_PATH, DASHBOARD_PATH, ''/forgot-password'', ''/profile'', ''/devices/'', ''/devices/detail'']
    | _ \<Rightarrow> True"
  proof (cases "route_at u")
    case (Some r)
    have "list_all (\<lambda>p. map_option fst (route_at (''/'' @ language_str here @ p)) = Some (Some here))
          [LOGIN_PATH, SIGNUP_PATH, DASHBOARD_PATH, ''/forgot-password'', ''/profile'', ''/devices/'', ''/devices/detail'']" for here
      by (cases here) (simp_all add: path_defs route_at_def site_parts_def lan_params_def lan_pages_def)
    then show ?thesis
      using redirect_from_route [of u] Some by (cases r; cases "fst r") (simp_all add: list_all_iff)
  qed simp
  show "map sn_key (filter (\<lambda>i. route_at (sn_href i) = None) (generateNavbarItems loc labels showAdmin)) = [''api-keys'']"
    by (cases loc; cases showAdmin)
      (simp_all add: generateNavbarItems_def Let_def route_at_def site_parts_def lan_params_def lan_pages_def)
qed

text \<open>In a browser with a language the site does not have, the script of the first page chooses Spanish and everything else
  that has to choose one chooses English.\<close>

theorem default_languages_differ:
  "case hd (split_char (CHR ''-'') (if lang = [] then ''en'' else lang)) of
     l \<Rightarrow> index_script lang = ''/'' @ (if l \<in> {''en'', ''es''} then l else ''es'') @ ''/'' \<and>
          redirect_url ''/'' lang p = ''/'' @ (if l \<in> {''en'', ''es''} then l else ''en'') @ p \<and>
          (if lang = [] then True else resolveLocale lang supported_langs = Some (if l \<in> {''en'', ''es''} then l else ''en''))"
  by (simp add: index_script_def redirect_url_def redirect_lang_def first_segment_def supported_langs_def resolveLocale_def Let_def)

section \<open>The theme across page loads\<close>

text \<open>\<open>scripts/theme-init.js\<close>, which every document runs first: the attribute it sets, from what the storage and the system
  say; \<open>None\<close> for a storage that throws.\<close>

definition theme_init :: "string option option \<Rightarrow> bool \<Rightarrow> string" where
  "theme_init stored sysDark =
     (case stored of
        None \<Rightarrow> ''light''
      | Some saved \<Rightarrow>
          if saved = Some ''dark'' \<or> saved = Some ''light'' then the saved else if sysDark then ''dark'' else ''light'')"

text \<open>The store as the next document creates it.\<close>

definition next_document :: "bool \<Rightarrow> bool \<Rightarrow> theme_state \<Rightarrow> theme_state" where
  "next_document readable sysDark s =
     (let attr = theme_init (if readable then Some (th_stored s) else None) sysDark
      in s\<lparr>th_attr := Some attr, th_theme := readInitialTheme (Some attr)\<rparr>)"

text \<open>The theme a visitor chose is the theme of every later page, as long as the storage takes it; the store and the attribute
  of the document always agree; and while nothing was chosen the pages follow the system.\<close>

theorem theme_survives_loads:
  "th_theme ((next_document True sysDark ^^ n) (setTheme t (s\<lparr>th_writable := True\<rparr>))) = t \<and>
   th_attr (next_document readable sysDark s) = Some (theme_str (th_theme (next_document readable sysDark s))) \<and>
   th_theme (next_document True sysDark (s\<lparr>th_stored := None\<rparr>)) = (if sysDark then Dark else Light)"
proof -
  have "th_theme ((next_document True sysDark ^^ n) (setTheme t (s\<lparr>th_writable := True\<rparr>))) = t \<and>
    th_stored ((next_document True sysDark ^^ n) (setTheme t (s\<lparr>th_writable := True\<rparr>))) = Some (theme_str t) \<and>
    th_writable ((next_document True sysDark ^^ n) (setTheme t (s\<lparr>th_writable := True\<rparr>)))"
  proof (induction n)
    case 0
    then show ?case by (simp add: setTheme_def)
  next
    case (Suc n)
    then show ?case by (cases t) (simp_all add: next_document_def theme_init_def readInitialTheme_def Let_def)
  qed
  then show ?thesis by (auto simp: next_document_def theme_init_def readInitialTheme_def Let_def)
qed

end
