(* ===== verification/Widgets.thy ===== *)
theory Widgets
  imports ToastTimers Site UserService
begin

text \<open>
  The remaining components of \<open>components/react/ui\<close> and \<open>form/ui\<close> that decide something: the button, the toast, the trail
  of breadcrumbs, the search field, the theme button, radio buttons; and the constant tables that pages draw: the headers of
  their columns, the sample metrics of the administrators' page.
\<close>

section \<open>Class names\<close>

text \<open>\<open>[...].filter(Boolean).join(' ')\<close>: a false condition and an empty or missing name give nothing.\<close>

definition class_list :: "string option list \<Rightarrow> string" where
  "class_list xs = join_with '' '' (filter (\<lambda>c. c \<noteq> []) (map (\<lambda>x. nullish x []) xs))"

definition when_class :: "bool \<Rightarrow> string \<Rightarrow> string option" where
  "when_class b c = (if b then Some c else None)"

section \<open>The button\<close>

datatype button_variant = BtnPrimary | BtnSecondary | BtnGhost | BtnDestructive
datatype button_size = BtnSm | BtnMd | BtnLg
datatype button_part = PartSpinner | PartIcon | PartChildren | PartIconRight

fun button_variant_str :: "button_variant \<Rightarrow> string" where
  "button_variant_str BtnPrimary = ''primary''"
| "button_variant_str BtnSecondary = ''secondary''"
| "button_variant_str BtnGhost = ''ghost''"
| "button_variant_str BtnDestructive = ''destructive''"

fun button_size_str :: "button_size \<Rightarrow> string" where
  "button_size_str BtnSm = ''sm''"
| "button_size_str BtnMd = ''md''"
| "button_size_str BtnLg = ''lg''"

record button_props =
  bp_variant :: "button_variant option"
  bp_size :: "button_size option"
  bp_iconOnly :: bool
  bp_loading :: bool
  bp_disabled :: bool
  bp_className :: "string option"
  bp_type :: "string option"

record button_element =
  be_type :: string
  be_class :: string
  be_disabled :: bool
  be_ariaBusy :: bool
  be_content :: "button_part list"

definition button_element :: "button_props \<Rightarrow> button_element" where
  "button_element p =
     \<lparr>be_type = nullish (bp_type p) ''button'',
      be_class = class_list [Some ''btn'', Some (''btn-'' @ button_variant_str (nullish (bp_variant p) BtnPrimary)),
        Some (''btn-'' @ button_size_str (nullish (bp_size p) BtnMd)), when_class (bp_iconOnly p) ''btn-icon-only'', bp_className p],
      be_disabled = (bp_disabled p \<or> bp_loading p), be_ariaBusy = bp_loading p,
      be_content = (if bp_loading p then [PartSpinner, PartChildren] else if bp_iconOnly p then [PartIcon]
                    else [PartIcon, PartChildren, PartIconRight])\<rparr>"

text \<open>A press on the element: the browser hands it to the handler unless the element is disabled.\<close>

definition button_press :: "button_props \<Rightarrow> ('s \<Rightarrow> 's) \<Rightarrow> 's \<Rightarrow> 's" where
  "button_press p onClick s = (if be_disabled (button_element p) then s else onClick s)"

lemma join_with_single_sep:
  "ws \<noteq> [] \<Longrightarrow> join_with sep (w # ws) = w @ sep @ join_with sep ws"
  by (cases ws) simp_all

text \<open>A button that is loading or disabled runs no handler, however often it is pressed; while it loads it is announced as busy
  and shows the spinner and never its icon; a button that does neither runs its handler once for each press. Its classes
  begin with those of its kind and size, and the caller's own come last.\<close>

theorem busy_buttons_do_nothing:
  "(button_press p f ^^ n) s = (if bp_disabled p \<or> bp_loading p then s else (f ^^ n) s) \<and>
   be_ariaBusy (button_element p) = (PartSpinner \<in> set (be_content (button_element p))) \<and>
   be_ariaBusy (button_element p) = (PartIcon \<notin> set (be_content (button_element p))) \<and>
   (case bp_className p of
      Some c \<Rightarrow> c = [] \<or> (\<exists>pre. be_class (button_element p) = pre @ '' '' @ c)
    | None \<Rightarrow> True)"
proof (intro conjI)
  show "(button_press p f ^^ n) s = (if bp_disabled p \<or> bp_loading p then s else (f ^^ n) s)"
  proof (cases "bp_disabled p \<or> bp_loading p")
    case True
    then have "button_press p f = id" by (auto simp: button_press_def button_element_def fun_eq_iff)
    then show ?thesis using True by simp
  next
    case False
    then have "button_press p f = f" by (auto simp: button_press_def button_element_def fun_eq_iff)
    then show ?thesis using False by simp
  qed
  show "case bp_className p of Some c \<Rightarrow> c = [] \<or> (\<exists>pre. be_class (button_element p) = pre @ '' '' @ c) | None \<Rightarrow> True"
    by (cases "bp_iconOnly p"; cases "bp_className p")
      (auto simp: button_element_def class_list_def when_class_def append_assoc [symmetric] simp del: append_assoc)
qed (simp_all add: button_element_def)

section \<open>Toasts on the screen\<close>

definition TOAST_VARIANT_CLASS :: "toast_variant \<Rightarrow> string" where
  "TOAST_VARIANT_CLASS v =
     (case v of ToastSuccess \<Rightarrow> ''gp-toast--success'' | ToastError \<Rightarrow> ''gp-toast--error''
      | ToastWarning \<Rightarrow> ''gp-toast--warning'' | ToastInfo \<Rightarrow> ''gp-toast--info'')"

text \<open>One toast. Its icon and its action button, which no caller asks for, are left out.\<close>

record toast_view =
  tv_id :: string
  tv_class :: string
  tv_role :: string
  tv_title :: string
  tv_message :: "string option"

definition toast_view :: "toast_item \<Rightarrow> toast_view" where
  "toast_view t =
     \<lparr>tv_id = t_id t, tv_class = ''gp-toast '' @ TOAST_VARIANT_CLASS (t_variant t),
      tv_role = (if t_variant t = ToastError then ''alert'' else ''status''), tv_title = t_title t,
      tv_message = (if nullish (t_message t) [] = [] then None else t_message t)\<rparr>"

definition toasts_on_screen :: "'z world_scheme \<Rightarrow> toast_view list" where
  "toasts_on_screen w = map toast_view (w_toasts w)"

text \<open>What is on the screen follows the stack: the close button of a toast takes exactly that toast away and leaves the others
  as they were and in their order; a new toast is the last one on the screen; a toast is an alert exactly if it is an error;
  and the class of a toast tells its kind.\<close>

theorem toasts_follow_stack:
  "toasts_on_screen (snd (toast_dismiss i w)) = filter (\<lambda>v. tv_id v \<noteq> i) (toasts_on_screen w) \<and>
   tv_title (last (toasts_on_screen (pushed b w))) = t_title b \<and>
   list_all (\<lambda>t. (tv_role (toast_view t) = ''alert'') = (t_variant t = ToastError)) (w_toasts w) \<and>
   (TOAST_VARIANT_CLASS v = TOAST_VARIANT_CLASS v') = (v = v')"
  by (cases v; cases v')
    (auto simp: toasts_on_screen_def toast_dismiss_def io_simps drop_key_def filter_map comp_def toast_view_def pushed_def
      list_all_iff TOAST_VARIANT_CLASS_def)

section \<open>Breadcrumbs\<close>

record crumb =
  cr_label :: string
  cr_href :: "string option"

datatype crumb_part = CrumbSeparator | CrumbCurrent string | CrumbLink string string

definition breadcrumb_parts :: "crumb list \<Rightarrow> crumb_part list" where
  "breadcrumb_parts items =
     concat (map (\<lambda>(i, it).
        (if 0 < i then [CrumbSeparator] else []) @
        [if i = length items - 1 \<or> nullish (cr_href it) [] = [] then CrumbCurrent (cr_label it)
         else CrumbLink (the (cr_href it)) (cr_label it)])
       (enumerate 0 items))"

text \<open>The trail of the device page.\<close>

definition device_trail :: "language \<Rightarrow> string \<Rightarrow> string \<Rightarrow> string \<Rightarrow> crumb list" where
  "device_trail loc workspace pageLabel name =
     [\<lparr>cr_label = workspace, cr_href = Some (''/'' @ language_str loc @ ''/'')\<rparr>,
      \<lparr>cr_label = pageLabel, cr_href = Some (''/'' @ language_str loc @ ''/devices/'')\<rparr>,
      \<lparr>cr_label = name, cr_href = None\<rparr>]"

text \<open>The trail of the device page shows two links and the name of the device, apart by separators; its links lead to the home
  page and the list of devices in the language of the page.\<close>

theorem device_trail_leads_back:
  "breadcrumb_parts (device_trail loc workspace pageLabel name) =
     [CrumbLink (''/'' @ language_str loc @ ''/'') workspace, CrumbSeparator,
      CrumbLink (''/'' @ language_str loc @ ''/devices/'') pageLabel, CrumbSeparator, CrumbCurrent name] \<and>
   map (\<lambda>c. Option.bind (cr_href c) route_at) (device_trail loc workspace pageLabel name) =
     [Some (Some loc, PgHome), Some (Some loc, PgDevices), None]"
  by (cases loc)
    (simp_all add: breadcrumb_parts_def device_trail_def route_at_def site_parts_def lan_params_def lan_pages_def)

text \<open>Any trail: as many entries as items, one separator less, and the last entry is never a link.\<close>

lemma count_crumb_entries:
  "length (filter (\<lambda>p. p \<noteq> CrumbSeparator) (concat (map (\<lambda>(i, it). (if 0 < i then [CrumbSeparator] else []) @ [if P i it then CrumbCurrent (f it) else CrumbLink (g it) (f it)]) (enumerate k items)))) =
   length items"
  by (induction items arbitrary: k) auto

lemma count_crumb_separators:
  "length (filter (\<lambda>p. p = CrumbSeparator) (concat (map (\<lambda>(i, it). (if 0 < i then [CrumbSeparator] else []) @ [if P i it then CrumbCurrent (f it) else CrumbLink (g it) (f it)]) (enumerate (Suc k) items)))) =
   length items"
  by (induction items arbitrary: k) auto

theorem breadcrumbs_shape:
  "length (filter (\<lambda>p. p \<noteq> CrumbSeparator) (breadcrumb_parts items)) = length items \<and>
   length (filter (\<lambda>p. p = CrumbSeparator) (breadcrumb_parts items)) = length items - 1 \<and>
   (case items of [] \<Rightarrow> breadcrumb_parts items = [] | _ \<Rightarrow> last (breadcrumb_parts items) = CrumbCurrent (cr_label (last items)))"
proof -
  have "last (breadcrumb_parts items) = CrumbCurrent (cr_label (last items))" if ne: "items \<noteq> []"
  proof -
    obtain xs x where x: "items = xs @ [x]" using append_butlast_last_id [OF ne] by metis
    show ?thesis by (simp add: breadcrumb_parts_def x enumerate_append_eq)
  qed
  moreover have "length (filter (\<lambda>p. p = CrumbSeparator) (breadcrumb_parts items)) = length items - 1"
    by (cases items) (simp_all add: breadcrumb_parts_def count_crumb_separators)
  moreover have "length (filter (\<lambda>p. p \<noteq> CrumbSeparator) (breadcrumb_parts items)) = length items"
    by (simp add: breadcrumb_parts_def count_crumb_entries)
  moreover have "breadcrumb_parts [] = []" by (simp add: breadcrumb_parts_def)
  ultimately show ?thesis by (cases items) simp_all
qed

section \<open>The search field\<close>

text \<open>The listeners on the window, one for each mounted field, and the field with the focus. A key reaches them all.\<close>

record key_press =
  kp_meta :: bool
  kp_ctrl :: bool
  kp_key :: string

record search_page =
  sr_listeners :: "nat list"
  sr_focus :: "nat option"

datatype search_event = FieldMounts nat | FieldUnmounts nat | KeyDown key_press

definition search_shortcut :: "key_press \<Rightarrow> bool" where
  "search_shortcut e \<longleftrightarrow> (kp_meta e \<or> kp_ctrl e) \<and> to_lower (kp_key e) = ''k''"

text \<open>The second part tells whether the browser's own action is prevented.\<close>

fun search_step :: "search_event \<Rightarrow> search_page \<Rightarrow> search_page \<times> bool" where
  "search_step (FieldMounts f) s = (s\<lparr>sr_listeners := sr_listeners s @ [f]\<rparr>, False)"
| "search_step (FieldUnmounts f) s = (s\<lparr>sr_listeners := remove1 f (sr_listeners s)\<rparr>, False)"
| "search_step (KeyDown e) s =
     (if search_shortcut e \<and> sr_listeners s \<noteq> [] then (s\<lparr>sr_focus := Some (last (sr_listeners s))\<rparr>, True) else (s, False))"

definition search_run :: "search_event list \<Rightarrow> search_page \<Rightarrow> search_page" where
  "search_run es s = foldl (\<lambda>s e. fst (search_step e s)) s es"

text \<open>Fields come and go without a trace: after a field was mounted and taken away, with any keys but the shortcut in between,
  the listeners are those from before. While it is mounted the shortcut, with either key and in either case, goes to it, and the
  browser's own action is prevented; without a field the shortcut is the browser's.\<close>

lemma plain_keys_change_nothing:
  "list_all (\<lambda>e. \<not> search_shortcut e) ks \<Longrightarrow> search_run (map KeyDown ks) s = s"
  by (induction ks arbitrary: s) (simp_all add: search_run_def)

lemma search_run_append: "search_run (es @ es') s = search_run es' (search_run es s)"
  by (simp add: search_run_def)

theorem search_field_shortcut:
  "(let s' = search_run (FieldMounts f # map KeyDown (filter (\<lambda>e. \<not> search_shortcut e) ks) @ [FieldUnmounts f]) s
    in mset (sr_listeners s') = mset (sr_listeners s) \<and> sr_focus s' = sr_focus s) \<and>
   search_step (KeyDown k) (fst (search_step (FieldMounts f) s)) =
     (if search_shortcut k then ((fst (search_step (FieldMounts f) s))\<lparr>sr_focus := Some f\<rparr>, True)
      else (fst (search_step (FieldMounts f) s), False)) \<and>
   \<not> snd (search_step (KeyDown k) (s\<lparr>sr_listeners := []\<rparr>)) \<and>
   search_shortcut \<lparr>kp_meta = True, kp_ctrl = c, kp_key = ''K''\<rparr> \<and> search_shortcut \<lparr>kp_meta = m, kp_ctrl = True, kp_key = ''k''\<rparr>"
proof -
  have plain: "list_all (\<lambda>e. \<not> search_shortcut e) (filter (\<lambda>e. \<not> search_shortcut e) ks)" by (simp add: list_all_iff)
  have "search_run (FieldMounts f # map KeyDown (filter (\<lambda>e. \<not> search_shortcut e) ks) @ [FieldUnmounts f]) s =
      s\<lparr>sr_listeners := remove1 f (sr_listeners s @ [f])\<rparr>"
    using search_run_append [of "[FieldMounts f]" "map KeyDown (filter (\<lambda>e. \<not> search_shortcut e) ks) @ [FieldUnmounts f]" s]
    by (simp only: append_Cons append_Nil search_run_append plain_keys_change_nothing [OF plain]) (simp add: search_run_def)
  moreover have "to_lower ''K'' = ''k''" "to_lower ''k'' = ''k''" by code_simp+
  ultimately show ?thesis by (simp add: Let_def search_shortcut_def)
qed

section \<open>The theme button\<close>

definition theme_toggle_view :: "theme \<Rightarrow> string \<times> string" where
  "theme_toggle_view th =
     (if th = Dark then (''Switch to light theme'', ''Light'') else (''Switch to dark theme'', ''Dark''))"

text \<open>The button names the theme that a press then chooses, and a second press takes back the first. Unlike the button of the
  bar, it is named in English on every page.\<close>

theorem theme_toggle_names_next:
  "th_theme (toggleTheme s) = (if snd (theme_toggle_view (th_theme s)) = ''Dark'' then Dark else Light) \<and>
   theme_toggle_view (th_theme (toggleTheme s)) \<noteq> theme_toggle_view (th_theme s) \<and>
   theme_toggle_view (th_theme (toggleTheme (toggleTheme s))) = theme_toggle_view (th_theme s)"
  by (cases "th_theme s") (simp_all add: theme_toggle_view_def toggleTheme_def setTheme_def)

section \<open>Radio buttons\<close>

text \<open>\<open>checked === value\<close>, and the change hands over the button's own value.\<close>

definition radio_checked :: "string \<Rightarrow> string \<Rightarrow> bool" where
  "radio_checked chosen v \<longleftrightarrow> chosen = v"

definition radio_change :: "string \<Rightarrow> string \<Rightarrow> string" where
  "radio_change v chosen = v"

text \<open>Of a group with different values exactly the one that was pressed last is checked.\<close>

theorem radio_group_chooses_one:
  assumes "distinct vs" "v \<in> set vs"
  shows "filter (radio_checked (radio_change v chosen)) vs = [v]"
  using assms by (induction vs) (auto simp: radio_checked_def radio_change_def filter_empty_conv)

theorem radio_group_chooses_one_witness:
  "filter (radio_checked (radio_change ''es'' ''en'')) [''en'', ''es''] = [''es'']"
  by (rule radio_group_chooses_one) simp_all

section \<open>Column headers\<close>

datatype column_align = AlignLeft | AlignRight | AlignCenter

record table_column =
  tc_key :: string
  tc_label :: string
  tc_sortable :: bool
  tc_align :: "column_align option"
  tc_width :: "string option"

definition plain_column :: "string \<Rightarrow> string \<Rightarrow> table_column" where
  "plain_column k l = \<lparr>tc_key = k, tc_label = l, tc_sortable = False, tc_align = None, tc_width = None\<rparr>"

definition getUserTableColumns :: "(string \<Rightarrow> string) \<Rightarrow> table_column list" where
  "getUserTableColumns t =
     [(plain_column ''name'' (t ''name''))\<lparr>tc_sortable := True\<rparr>, plain_column ''email'' (t ''email''),
      plain_column ''role'' (t ''role''), plain_column ''status'' (t ''status''),
      (plain_column ''created'' (t ''created''))\<lparr>tc_align := Some AlignCenter\<rparr>,
      (plain_column ''devices'' (t ''devices''))\<lparr>tc_align := Some AlignCenter\<rparr>,
      (plain_column ''actions'' (t ''actions''))\<lparr>tc_align := Some AlignCenter\<rparr>]"

definition getApiKeyTableColumns :: "(string \<Rightarrow> string) \<Rightarrow> table_column list" where
  "getApiKeyTableColumns t =
     [plain_column ''device'' (t ''device''), plain_column ''keyId'' (t ''keyId''), plain_column ''created'' (t ''created''),
      plain_column ''lastUsed'' (t ''lastUsed''), plain_column ''expires'' (t ''expires''),
      (plain_column ''actions'' (t ''actions''))\<lparr>tc_align := Some AlignRight\<rparr>]"

definition USER_TABLE_COLUMNS :: "table_column list" where
  "USER_TABLE_COLUMNS =
     [(plain_column ''name'' ''Name'')\<lparr>tc_sortable := True\<rparr>, plain_column ''email'' ''Email'', plain_column ''role'' ''Role'',
      plain_column ''status'' ''Status'', (plain_column ''created'' ''Created'')\<lparr>tc_align := Some AlignCenter\<rparr>,
      (plain_column ''devices'' ''Devices'')\<lparr>tc_align := Some AlignCenter\<rparr>,
      (plain_column ''actions'' ''Actions'')\<lparr>tc_align := Some AlignCenter\<rparr>]"

text \<open>The columns are told apart by their keys, each is labelled with the text of its key, and the constant columns of the users
  table differ from the translated ones in their labels only.\<close>

theorem columns_by_key:
  "distinct (map tc_key (getUserTableColumns t)) \<and> distinct (map tc_key (getApiKeyTableColumns t)) \<and>
   list_all (\<lambda>c. tc_label c = t (tc_key c)) (getUserTableColumns t @ getApiKeyTableColumns t) \<and>
   map (\<lambda>c. c\<lparr>tc_label := t (tc_key c)\<rparr>) USER_TABLE_COLUMNS = getUserTableColumns t"
  by (simp add: getUserTableColumns_def getApiKeyTableColumns_def USER_TABLE_COLUMNS_def plain_column_def)

section \<open>Sample metrics\<close>

datatype stat_trend = TrendUp | TrendDown | TrendFlat
datatype stat_variant = StatNeutral | StatSuccess | StatWarning | StatDanger
datatype stat_icon = IconCpu | IconWifi | IconWifiOff | IconAlert

record stat_item =
  si_label :: string
  si_value :: int
  si_icon :: stat_icon
  si_trend :: stat_trend
  si_trendValue :: string
  si_variant :: stat_variant

record stat_texts =
  sx_totalDevices :: string
  sx_onlineNow :: string
  sx_offline :: string
  sx_alerts :: string

definition getDemoKpiItems :: "stat_texts \<Rightarrow> stat_item list" where
  "getDemoKpiItems t =
     [\<lparr>si_label = sx_totalDevices t, si_value = 24, si_icon = IconCpu, si_trend = TrendUp, si_trendValue = ''+3 today'',
        si_variant = StatNeutral\<rparr>,
      \<lparr>si_label = sx_onlineNow t, si_value = 18, si_icon = IconWifi, si_trend = TrendUp, si_trendValue = ''+2'',
        si_variant = StatSuccess\<rparr>,
      \<lparr>si_label = sx_offline t, si_value = 5, si_icon = IconWifiOff, si_trend = TrendDown, si_trendValue = ''-1'',
        si_variant = StatWarning\<rparr>,
      \<lparr>si_label = sx_alerts t, si_value = 1, si_icon = IconAlert, si_trend = TrendFlat, si_trendValue = ''0'',
        si_variant = StatDanger\<rparr>]"

text \<open>The sample is consistent: its total is the sum of the other three, and the sign of each change is that of its trend.\<close>

theorem demo_metrics_add_up:
  "si_value (hd (getDemoKpiItems t)) = sum_list (map si_value (tl (getDemoKpiItems t))) \<and>
   list_all (\<lambda>i. (si_trend i = TrendUp) = is_prefix ''+'' (si_trendValue i) \<and> (si_trend i = TrendDown) = is_prefix ''-'' (si_trendValue i))
     (getDemoKpiItems t)"
  by (simp add: getDemoKpiItems_def)

end
