(* ===== verification/DeviceFrame.thy ===== *)
theory DeviceFrame
  imports DeviceView Widgets
begin

text \<open>
  The device page on the screen (\<open>features/devices/detail/DeviceDetailPage.tsx\<close>): which of its parts are there, for a state of the
  page modelled in DeviceView. The trail, the two buttons that switch the view, the panels, the map, the notice of an error,
  the dialogs.
\<close>

record frame_texts =
  ft_workspace :: string
  ft_pageLabel :: string
  ft_failedToLoad :: string
  ft_overview :: string
  ft_history :: string

record view_button =
  vb_label :: string
  vb_variant :: button_variant
  vb_pressed :: bool
  vb_view :: detail_view

record device_frame =
  df_trail :: "crumb list"
  df_switch :: "view_button list"
  df_kpiStrip :: bool
  df_alert :: "string option"
  df_map :: map_props
  df_overviewHidden :: bool
  df_historyHidden :: bool
  df_historyMounted :: bool
  df_shareChoice :: bool
  df_guestShare :: bool
  df_grant :: bool
  df_revoke :: "device_access_list_item option"
  df_edit :: bool
  df_delete :: bool

definition view_button :: "string \<Rightarrow> detail_view \<Rightarrow> detail_view \<Rightarrow> view_button" where
  "view_button label view active =
     \<lparr>vb_label = label, vb_variant = (if active = view then BtnPrimary else BtnSecondary), vb_pressed = (active = view), vb_view = view\<rparr>"

definition shown_frame ::
  "(string \<Rightarrow> number) \<Rightarrow> real \<Rightarrow> device_strings \<Rightarrow> frame_texts \<Rightarrow> language \<Rightarrow> device_detail \<Rightarrow> device_view \<Rightarrow> device_frame" where
  "shown_frame getTime now ds t loc d s =
     (let active = dt_activeView (dv_page s) in
      \<lparr>df_trail = device_trail loc (ft_workspace t) (ft_pageLabel t) (d_name d),
       df_switch = [view_button (ft_overview t) Overview active, view_button (ft_history t) HistoryView active],
       df_kpiStrip = (active = HistoryView), df_alert = view_alert (ft_failedToLoad t) s, df_map = view_map getTime now ds s,
       df_overviewHidden = (active \<noteq> Overview), df_historyHidden = (active \<noteq> HistoryView),
       df_historyMounted = dt_historyOpened (dv_page s),
       df_shareChoice = dv_shareChoiceOpen s, df_guestShare = dv_guestShareOpen s, df_grant = dt_inviteOpen (dv_page s),
       df_revoke = dt_revokeTarget (dv_page s), df_edit = dt_editOpen (dv_page s), df_delete = dv_deleteOpen s\<rparr>)"

text \<open>The page below its early returns; \<open>None\<close> while one of them is taken.\<close>

definition device_frame ::
  "(string \<Rightarrow> number) \<Rightarrow> real \<Rightarrow> device_strings \<Rightarrow> frame_texts \<Rightarrow> language \<Rightarrow> device_view \<Rightarrow> device_frame option" where
  "device_frame getTime now ds t loc s =
     (case detail_render (ft_failedToLoad t) (dv_page s) of
        ScreenDevice d \<Rightarrow> Some (shown_frame getTime now ds t loc d s)
      | _ \<Rightarrow> None)"

lemma frame_fields:
  "df_switch (shown_frame getTime now ds t loc d s) =
     [view_button (ft_overview t) Overview (dt_activeView (dv_page s)), view_button (ft_history t) HistoryView (dt_activeView (dv_page s))]"
  "df_kpiStrip (shown_frame getTime now ds t loc d s) = (dt_activeView (dv_page s) = HistoryView)"
  "df_map (shown_frame getTime now ds t loc d s) = view_map getTime now ds s"
  "df_overviewHidden (shown_frame getTime now ds t loc d s) = (dt_activeView (dv_page s) \<noteq> Overview)"
  "df_historyHidden (shown_frame getTime now ds t loc d s) = (dt_activeView (dv_page s) \<noteq> HistoryView)"
  "df_historyMounted (shown_frame getTime now ds t loc d s) = dt_historyOpened (dv_page s)"
  by (simp_all only: shown_frame_def Let_def device_frame.simps)

lemma frame_shown: "device_frame getTime now ds t loc s \<noteq> None \<longleftrightarrow> device_shown (dv_page s)"
  unfolding device_frame_def device_shown_render [of _ "ft_failedToLoad t"]
  by (cases "detail_render (ft_failedToLoad t) (dv_page s)") simp_all

lemma two_views: "v \<noteq> Overview \<longleftrightarrow> v = HistoryView"
  by (cases v) simp_all

text \<open>The device page at any time, however it got there: while the device is on the screen exactly one of the two panels is
  visible, the one whose button is pressed and which the address names; the panel of the history is mounted whenever it is
  visible, and the page keeps it and its requests exactly while the frame shows it; the strip of metrics and a route on the map belong to
  the history view only.\<close>

theorem device_frame_fits:
  "let s = view_at env u w es in
   case device_frame getTime now ds t loc s of
     None \<Rightarrow> dv_history s = None
   | Some f \<Rightarrow>
       df_overviewHidden f \<noteq> df_historyHidden f \<and>
       map vb_pressed (df_switch f) = [\<not> df_overviewHidden f, \<not> df_historyHidden f] \<and>
       map vb_view (filter vb_pressed (df_switch f)) = [url_view (dt_url (dv_page s))] \<and>
       df_historyMounted f = (dv_history s \<noteq> None) \<and>
       (if df_historyHidden f then mp_segments (df_map f) = [] else df_historyMounted f) \<and>
       df_kpiStrip f = (\<not> df_historyHidden f)"
proof -
  define s where "s = view_at env u w es"
  have inv: "dt_activeView (dv_page s) = url_view (dt_url (dv_page s))"
    "dt_activeView (dv_page s) = HistoryView \<Longrightarrow> dt_historyOpened (dv_page s)"
    using view_at_inv [of u env w es] by (simp_all add: s_def view_inv_def detail_inv_def)
  have history: "dv_history s \<noteq> None \<longleftrightarrow> device_shown (dv_page s) \<and> dt_historyOpened (dv_page s)"
    unfolding s_def by (rule view_at_history)
  show ?thesis
  proof (cases "device_frame getTime now ds t loc s")
    case None
    then have "\<not> device_shown (dv_page s)" using frame_shown by blast
    then have "dv_history s = None" using history by blast
    then show ?thesis using None by (simp add: s_def [symmetric])
  next
    case (Some f)
    then have shown: "device_shown (dv_page s)" using frame_shown by blast
    then obtain d where d: "detail_render (ft_failedToLoad t) (dv_page s) = ScreenDevice d" using device_shown_render by blast
    from shown have mounted: "dv_history s \<noteq> None \<longleftrightarrow> dt_historyOpened (dv_page s)" using history by blast
    have f: "device_frame getTime now ds t loc s = Some (shown_frame getTime now ds t loc d s)"
      by (simp only: device_frame_def d detail_screen.case)
    have segments: "dt_activeView (dv_page s) = Overview \<Longrightarrow> mp_segments (view_map getTime now ds s) = []"
      by (simp add: view_map_def)
    show ?thesis
      unfolding s_def [symmetric] Let_def f option.case frame_fields
      using inv mounted segments by (cases "dt_activeView (dv_page s)") (simp_all add: view_button_def)
  qed
qed

text \<open>The dialogs. Choosing with whom to share replaces the choice by one other dialog; closing the choice closes nothing
  else; switching between the views opens and closes none. Without the device on the screen there is nothing to press.\<close>

definition dialogs_of :: "device_view \<Rightarrow> bool list" where
  "dialogs_of s = [dv_shareChoiceOpen s, dv_guestShareOpen s, dt_inviteOpen (dv_page s), dt_revokeTarget (dv_page s) \<noteq> None,
     dt_editOpen (dv_page s), dv_deleteOpen s]"

lemma switch_keeps_dialogs: "dialogs_of (s\<lparr>dv_page := detail_step e (dv_page s)\<rparr>) = dialogs_of s"
  by (cases e) (simp_all add: dialogs_of_def handleViewChange_def push_state_def syncFromUrl_def Let_def split: list.split prod.split)

theorem share_choice_leads_on:
  "let s' = set_dialog DlShareChoice True s; user = view_event_step env DvChooseUser s'; guest = view_event_step env DvChooseGuest s' in
   if device_shown (dv_page s)
   then dialogs_of user = (dialogs_of s)[0 := False, 2 := True] \<and> dialogs_of guest = (dialogs_of s)[0 := False, 1 := True] \<and>
        dialogs_of (view_event_step env (DvClose DlShareChoice) s') = (dialogs_of s)[0 := False] \<and>
        dialogs_of (view_event_step env (DvUrl e) s) = dialogs_of s
   else dialogs_of user = dialogs_of s' \<and> dialogs_of guest = dialogs_of s'"
proof (cases "device_shown (dv_page s)")
  case True
  then have "dialogs_of (view_event_step env (DvUrl e) s) = dialogs_of s"
    using switch_keeps_dialogs [where s = s and e = e] by (simp split: if_split)
  then show ?thesis using True by (simp add: Let_def set_dialog_def dialogs_of_def)
qed (simp add: Let_def set_dialog_def)

end
