(* ===== verification/Calendar.thy ===== *)
theory Calendar
  imports Dates
begin

text \<open>
  The calendar behind the dates of the pages is right: a day can be computed back from its date, dates are ordered as the days
  are (an instance of \<open>linorder\<close>), and the text of \<open>formatDate\<close> (\<open>lib/date-utils.ts\<close>) tells the day of a time in either language.
\<close>

section \<open>The order of dates\<close>

instantiation civil_ext :: (linorder) linorder
begin

definition less_eq_civil_ext :: "'a civil_ext \<Rightarrow> 'a civil_ext \<Rightarrow> bool" where
  "less_eq_civil_ext c c' \<longleftrightarrow>
     cv_year c < cv_year c' \<or> cv_year c = cv_year c' \<and>
     (cv_month c < cv_month c' \<or> cv_month c = cv_month c' \<and>
      (cv_day c < cv_day c' \<or> cv_day c = cv_day c' \<and> civil.more c \<le> civil.more c'))"

definition less_civil_ext :: "'a civil_ext \<Rightarrow> 'a civil_ext \<Rightarrow> bool" where
  "less_civil_ext c c' \<longleftrightarrow> c \<le> c' \<and> \<not> c' \<le> c"

instance
proof
  fix c c' c'' :: "'a civil_ext"
  show "(c < c') = (c \<le> c' \<and> \<not> c' \<le> c)" by (rule less_civil_ext_def)
  show "c \<le> c" by (simp add: less_eq_civil_ext_def)
  show "c \<le> c' \<Longrightarrow> c' \<le> c'' \<Longrightarrow> c \<le> c''" by (auto simp: less_eq_civil_ext_def)
  show "c \<le> c' \<Longrightarrow> c' \<le> c \<Longrightarrow> c = c'" by (cases c; cases c') (auto simp: less_eq_civil_ext_def)
  show "c \<le> c' \<or> c' \<le> c" by (auto simp: less_eq_civil_ext_def)
qed

end

lemma civil_less:
  "(c :: civil) < c' \<longleftrightarrow>
     cv_year c < cv_year c' \<or> cv_year c = cv_year c' \<and>
     (cv_month c < cv_month c' \<or> cv_month c = cv_month c' \<and> cv_day c < cv_day c')"
  by (auto simp: less_civil_ext_def less_eq_civil_ext_def)

section \<open>Years counted from March\<close>

text \<open>The year from March and the day in it, as the calendar computes them.\<close>

definition march_year :: "int \<Rightarrow> int" where
  "march_year d =
     (let z = d + 719468; r400 = z mod 146097; n100 = min 3 (r400 div 36524); r100 = r400 - n100 * 36524; n4 = r100 div 1461;
          r4 = r100 mod 1461; n1 = min 3 (r4 div 365)
      in 400 * (z div 146097) + 100 * n100 + 4 * n4 + n1)"

definition march_day :: "int \<Rightarrow> int" where
  "march_day d =
     (let z = d + 719468; r400 = z mod 146097; n100 = min 3 (r400 div 36524); r100 = r400 - n100 * 36524;
          r4 = r100 mod 1461; n1 = min 3 (r4 div 365)
      in r4 - n1 * 365)"

text \<open>The first day of a year from March.\<close>

definition march_first :: "int \<Rightarrow> int" where
  "march_first y = 365 * y + y div 4 - y div 100 + y div 400 - 719468"

lemma civil_by_march:
  "civil_of_day d =
     (let mp = (5 * march_day d + 2) div 153; m = (if mp < 10 then mp + 2 else mp - 10)
      in \<lparr>cv_year = march_year d + (if m \<le> 1 then 1 else 0), cv_month = m, cv_day = march_day d - (153 * mp + 2) div 5 + 1\<rparr>)"
  by (simp only: civil_of_day_def march_year_def march_day_def Let_def)

lemma march_parts:
  obtains e a b c r :: int where
    "march_year d = 400 * e + 100 * a + 4 * b + c" "march_day d = r"
    "d + 719468 = 146097 * e + 36524 * a + 1461 * b + 365 * c + r"
    "0 \<le> a" "a \<le> 3" "0 \<le> b" "b \<le> 24" "0 \<le> c" "c \<le> 3" "0 \<le> r" "r \<le> 365"
    "r = 365 \<longrightarrow> c = 3 \<and> (b = 24 \<longrightarrow> a = 3)"
proof -
  define z where "z = d + 719468"
  define e where "e = z div 146097"
  define r400 where "r400 = z mod 146097"
  define a where "a = min 3 (r400 div 36524)"
  define r100 where "r100 = r400 - a * 36524"
  define b where "b = r100 div 1461"
  define r4 where "r4 = r100 mod 1461"
  define c where "c = min 3 (r4 div 365)"
  define r where "r = r4 - c * 365"
  have 400: "z = 146097 * e + r400" "0 \<le> r400" "r400 < 146097" by (simp_all add: e_def r400_def)
  have a: "0 \<le> a" "a \<le> 3" using 400 by (auto simp: a_def pos_imp_zdiv_nonneg_iff)
  have 100: "0 \<le> r100" "r100 \<le> 36524" "r100 = 36524 \<Longrightarrow> a = 3"
    using 400(2,3) unfolding r100_def a_def by (auto simp: min_def split: if_splits)
  have 4: "r100 = 1461 * b + r4" "0 \<le> r4" "r4 < 1461" by (simp_all add: b_def r4_def)
  have b: "0 \<le> b" "b \<le> 24" using 100 4 by linarith+
  have c: "0 \<le> c" "c \<le> 3" using 4 by (auto simp: c_def pos_imp_zdiv_nonneg_iff)
  have r: "0 \<le> r" "r \<le> 365" "r = 365 \<Longrightarrow> c = 3 \<and> r4 = 1460"
    using 4(2,3) unfolding r_def c_def by (auto simp: min_def split: if_splits)
  have "march_year d = 400 * e + 100 * a + 4 * b + c" "march_day d = r"
    unfolding march_year_def march_day_def Let_def z_def [symmetric] e_def [symmetric] r400_def [symmetric] a_def [symmetric]
      r100_def [symmetric] b_def [symmetric] r4_def [symmetric] c_def [symmetric] r_def [symmetric] by simp_all
  moreover have "d + 719468 = 146097 * e + 36524 * a + 1461 * b + 365 * c + r"
    using 400(1) 4(1) by (simp add: z_def r100_def r_def)
  moreover have "r = 365 \<longrightarrow> c = 3 \<and> (b = 24 \<longrightarrow> a = 3)" using r(3) 4(1) 100 by auto
  ultimately show thesis using that a b c r(1,2) by metis
qed

lemma march_divs:
  fixes e a b c :: int
  assumes "0 \<le> a" "a \<le> 3" "0 \<le> b" "b \<le> 24" "0 \<le> c" "c \<le> 3"
  shows "(400 * e + 100 * a + 4 * b + c) div 4 = 100 * e + 25 * a + b"
    "(400 * e + 100 * a + 4 * b + c) div 100 = 4 * e + a"
    "(400 * e + 100 * a + 4 * b + c) div 400 = e"
  proof -
  show "(400 * e + 100 * a + 4 * b + c) div 4 = 100 * e + 25 * a + b"
    by (rule int_div_pos_eq [where r = c]) (use assms in simp_all)
  show "(400 * e + 100 * a + 4 * b + c) div 100 = 4 * e + a"
    by (rule int_div_pos_eq [where r = "4 * b + c"]) (use assms in simp_all)
  show "(400 * e + 100 * a + 4 * b + c) div 400 = e"
    by (rule int_div_pos_eq [where r = "100 * a + 4 * b + c"]) (use assms in simp_all)
qed

lemma march_day_range: "0 \<le> march_day d \<and> march_day d \<le> 365"
  by (rule march_parts [of d]) simp

lemma march_first_mono:
  assumes "y < y'"
  shows "march_first y + 365 \<le> march_first y'"
proof -
  define q q' where "q = y div 4" and "q' = y' div 4"
  have q: "q \<le> q'" unfolding q_def q'_def by (rule zdiv_mono1) (use assms in simp_all)
  have 100: "y div 100 = q div 25" "y' div 100 = q' div 25" by (simp_all add: q_def q'_def zdiv_zmult2_eq [symmetric])
  have "q' div 25 \<le> (q + (q' - q) * 25) div 25" by (rule zdiv_mono1) (use q in simp_all)
  also have "\<dots> = q div 25 + (q' - q)" by simp
  finally have "q - q div 25 \<le> q' - q' div 25" by simp
  moreover have "y div 400 \<le> y' div 400" by (rule zdiv_mono1) (use assms in simp_all)
  ultimately show ?thesis using assms 100 by (simp add: march_first_def q_def [symmetric] q'_def [symmetric])
qed

lemma march_first_parts:
  assumes "0 \<le> a" "a \<le> 3" "0 \<le> b" "b \<le> 24" "0 \<le> c" "c \<le> 3" "y = 400 * e + 100 * a + 4 * b + c"
  shows "march_first y = 146097 * e + 36524 * a + 1461 * b + 365 * c - 719468"
  unfolding march_first_def assms(7) march_divs [OF assms(1-6)] by simp

lemma day_by_march: "march_first (march_year d) + march_day d = d"
proof (rule march_parts [of d])
  fix e a b c r :: int
  assume "march_year d = 400 * e + 100 * a + 4 * b + c" "march_day d = r"
    "d + 719468 = 146097 * e + 36524 * a + 1461 * b + 365 * c + r"
    "0 \<le> a" "a \<le> 3" "0 \<le> b" "b \<le> 24" "0 \<le> c" "c \<le> 3"
  then show ?thesis using march_first_parts [of a b c "march_year d" e] by simp
qed

text \<open>A year from March ends before the next begins.\<close>

lemma march_day_in_year: "march_first (march_year d) + march_day d < march_first (march_year d + 1)"
proof (rule march_parts [of d])
  fix e a b c r :: int
  assume y: "march_year d = 400 * e + 100 * a + 4 * b + c" and r: "march_day d = r"
    and bounds: "0 \<le> a" "a \<le> 3" "0 \<le> b" "b \<le> 24" "0 \<le> c" "c \<le> 3" "0 \<le> r" "r \<le> 365"
    and leap: "r = 365 \<longrightarrow> c = 3 \<and> (b = 24 \<longrightarrow> a = 3)"
  show ?thesis
  proof (cases "r = 365")
    case False
    then show ?thesis using march_first_mono [of "march_year d" "march_year d + 1"] r bounds by simp
  next
    case True
    then have c: "c = 3" using leap by simp
    have now: "march_first (march_year d) = 146097 * e + 36524 * a + 1461 * b + 365 * c - 719468"
      by (rule march_first_parts [OF bounds(1-6) y])
    show ?thesis
    proof (cases "b = 24")
      case True
      then have "march_first (march_year d + 1) = 146097 * (e + 1) + 36524 * 0 + 1461 * 0 + 365 * 0 - 719468"
        using leap \<open>r = 365\<close> y c by (intro march_first_parts) simp_all
      then show ?thesis using now r c True leap \<open>r = 365\<close> by simp
    next
      case False
      then have "march_first (march_year d + 1) = 146097 * e + 36524 * a + 1461 * (b + 1) + 365 * 0 - 719468"
        using y c bounds by (intro march_first_parts) simp_all
      then show ?thesis using now r c \<open>r = 365\<close> by simp
    qed
  qed
qed

lemma march_order:
  assumes "d < d'"
  shows "march_year d < march_year d' \<or> march_year d = march_year d' \<and> march_day d < march_day d'"
proof (rule ccontr)
  assume "\<not> ?thesis"
  then consider "march_year d' < march_year d" | "march_year d' = march_year d" "march_day d' \<le> march_day d" by linarith
  then show False
  proof cases
    case 1
    have "march_first (march_year d' + 1) \<le> march_first (march_year d)"
      using 1 march_first_mono [of "march_year d' + 1" "march_year d"] by (cases "march_year d' + 1 = march_year d") auto
    then show False
      using march_day_in_year [of d'] day_by_march [of d] day_by_march [of d'] march_day_range [of d] assms by linarith
  next
    case 2
    then show False using day_by_march [of d] day_by_march [of d'] assms by simp
  qed
qed

section \<open>Dates are in the order of the days\<close>

lemma civil_less_step:
  assumes "march_year d < march_year d' \<or> march_year d = march_year d' \<and> march_day d < march_day d'"
  shows "civil_of_day d < civil_of_day d'"
proof -
  define mp mp' where "mp = (5 * march_day d + 2) div 153" and "mp' = (5 * march_day d' + 2) div 153"
  have bounds: "0 \<le> mp" "mp \<le> 11" "0 \<le> mp'" "mp' \<le> 11"
    using month_bounds [of "march_day d"] month_bounds [of "march_day d'"] march_day_range [of d] march_day_range [of d']
    by (simp_all add: mp_def mp'_def)
  have later: "mp \<le> mp'" if "march_day d < march_day d'"
    unfolding mp_def mp'_def by (rule zdiv_mono1) (use that in simp_all)
  show ?thesis
    using assms later bounds
    unfolding civil_less civil_by_march Let_def mp_def [symmetric] mp'_def [symmetric]
    by (cases "mp = mp'") (auto simp: not_le)
qed

lemma civil_strict_mono: "strict_mono civil_of_day"
  by (rule strict_monoI) (rule civil_less_step [OF march_order])

text \<open>The day of a date.\<close>

definition day_of_civil :: "civil \<Rightarrow> int" where
  "day_of_civil c =
     (let y = cv_year c - (if cv_month c \<le> 1 then 1 else 0); mp = (if cv_month c \<le> 1 then cv_month c + 10 else cv_month c - 2)
      in march_first y + (153 * mp + 2) div 5 + cv_day c - 1)"

text \<open>The calendar is right: the day is computed back from its date, different days have different dates, and dates are in the
  order of the days; so the date of a time never goes back.\<close>

theorem calendar_right:
  "day_of_civil (civil_of_day d) = d \<and> strict_mono civil_of_day \<and> mono utc_date"
proof (intro conjI)
  have "(5 * march_day d + 2) div 153 \<le> 11" "0 \<le> (5 * march_day d + 2) div 153"
    using month_bounds [of "march_day d"] march_day_range [of d] by simp_all
  then show "day_of_civil (civil_of_day d) = d"
    using day_by_march [of d] by (auto simp: day_of_civil_def civil_by_march Let_def)
  show "strict_mono civil_of_day" by (rule civil_strict_mono)
  show "mono utc_date"
  proof (rule monoI)
    fix s t :: real assume "s \<le> t"
    then have "\<lfloor>s\<rfloor> div 86400000 \<le> \<lfloor>t\<rfloor> div 86400000" by (intro zdiv_mono1 floor_mono) simp_all
    then show "utc_date s \<le> utc_date t" by (simp add: utc_date_def strict_mono_less_eq [OF civil_strict_mono])
  qed
qed

section \<open>The text of a date\<close>

lemma int_str_no_blank: "CHR '' '' \<notin> set (int_str i)"
proof -
  have "CHR '' '' \<notin> set (nat_str n)" for n
    using nat_str_digits [of "CHR '' ''" n] by (auto simp: is_digit_def)
  then show ?thesis by (simp add: int_str_def)
qed

lemma int_str_inject: "int_str i = int_str j \<longleftrightarrow> i = j"
proof -
  have dash: "nat_str n \<noteq> CHR ''-'' # cs" for n cs
  proof
    assume "nat_str n = CHR ''-'' # cs"
    then have "CHR ''-'' \<in> set (nat_str n)" by simp
    then show False using nat_str_no_dash by blast
  qed
  then show ?thesis using dash [symmetric] by (auto simp: int_str_def)
qed

lemma months_no_blank: "m \<in> set (DATE_FORMAT_MONTHS lang) \<Longrightarrow> CHR '' '' \<notin> set m"
  by (cases lang) auto

lemma months_distinct: "distinct (DATE_FORMAT_MONTHS lang)" "length (DATE_FORMAT_MONTHS lang) = 12"
  by (cases lang; simp)+

text \<open>C8: \<open>formatDate\<close>: two readable times are shown as the same date exactly if they are in the same day (of UTC), in either
  language. So the text of a date never hides a change of day, month or year, and never differs within a day.\<close>

theorem formatDate_tells_day:
  "case (getTime i, getTime j) of
     (Fin s, Fin t) \<Rightarrow>
       (if i = [] \<or> j = [] then True
        else (formatDate getTime lang (Some i) = formatDate getTime lang (Some j)) = (\<lfloor>s\<rfloor> div 86400000 = \<lfloor>t\<rfloor> div 86400000))
   | _ \<Rightarrow> True"
proof -
  have same: "int_str (cv_day c) @ '' '' @ DATE_FORMAT_MONTHS lang ! nat (cv_month c) @ '' '' @ int_str (cv_year c) =
      int_str (cv_day c') @ '' '' @ DATE_FORMAT_MONTHS lang ! nat (cv_month c') @ '' '' @ int_str (cv_year c') \<longleftrightarrow> c = c'"
    if c: "c = civil_of_day d" and c': "c' = civil_of_day d'" for c c' d d'
  proof -
    have range: "0 \<le> cv_month x \<and> cv_month x \<le> 11" if "x \<in> {c, c'}" for x
      using that c c' civil_of_day_range [of d] civil_of_day_range [of d'] by auto
    have month: "DATE_FORMAT_MONTHS lang ! nat (cv_month x) \<in> set (DATE_FORMAT_MONTHS lang)" if "x \<in> {c, c'}" for x
      using range [OF that] by (intro nth_mem) (auto simp: months_distinct)
    let ?text = "\<lambda>x. int_str (cv_day x) @ '' '' @ DATE_FORMAT_MONTHS lang ! nat (cv_month x) @ '' '' @ int_str (cv_year x)"
    have split: "split_char (CHR '' '') (?text x) =
        [int_str (cv_day x), DATE_FORMAT_MONTHS lang ! nat (cv_month x), int_str (cv_year x)]" if "x \<in> {c, c'}" for x
      using months_no_blank [OF month [OF that]] by (simp add: split_char_append split_char_single int_str_no_blank)
    have "c = c'" if "?text c = ?text c'"
    proof -
      have "split_char (CHR '' '') (?text c) = split_char (CHR '' '') (?text c')" using that by simp
      then have parts: "cv_day c = cv_day c'" "cv_year c = cv_year c'"
        "DATE_FORMAT_MONTHS lang ! nat (cv_month c) = DATE_FORMAT_MONTHS lang ! nat (cv_month c')"
        using split [of c] split [of c'] by (simp_all add: int_str_inject)
      have "nat (cv_month c) = nat (cv_month c')"
        by (rule nth_eq_iff_index_eq [OF months_distinct(1), THEN iffD1, OF _ _ parts(3)])
          (use range [of c] range [of c'] in \<open>auto simp: months_distinct\<close>)
      then have "cv_month c = cv_month c'" using range [of c] range [of c'] by auto
      then show ?thesis using parts by simp
    qed
    then show ?thesis by blast
  qed
  have inject: "civil_of_day d = civil_of_day d' \<longleftrightarrow> d = d'" for d d' by (rule strict_mono_eq [OF civil_strict_mono])
  show ?thesis
    by (cases "getTime i"; cases "getTime j")
      (simp_all add: formatDate_def utc_date_def Let_def same [OF refl refl, simplified] inject)
qed

end
