(* ===== verification/Spec2Isabelle.thy ===== *)
theory Spec2Isabelle
  imports Prelude JsStrings JsValues JsTime ApiTypes World Toasts ApiErrors Navigation AuthService AuthProps
    RouteGates DeviceService DeviceProps LocationService LocationProps LiveLocation DeviceStream UserService
    SmallServices ApiKeyService Routes Settings Tables Dates TextUtils ToastTimers Reports History Forms AdminPages
    DetailPage Startup Modals FormCode ShareDialogs GuestView PageShell UiParts Dicts DictEn DictEs Translations
    DeviceCards ReportViews AdminViews Topbar HistoryPanel MapView DeviceView
    FormViews FilterBars InFlight UsersView ProfileViews DevicesView AccessView SettingsView
    DialogViews ShellViews Site Widgets DeviceFrame Calendar
begin

text \<open>
  A verification library for the web application of open-gps, \<open>src/frontend/src\<close> (TypeScript, React
  islands over nanostores and an HTTP API). Paths below are relative to that directory.

  \<^bold>\<open>The program.\<close> The browser side of a GPS tracker. Shared stores (\<open>lib/stores\<close>) hold the signed-in
  user, the toasts, the settings, the theme; hooks (\<open>lib/api/services\<close>, \<open>hooks\<close>) wrap the HTTP API and
  cache what it returns; gates (\<open>components/react/auth\<close>) decide which page may render and redirect
  otherwise; feature pages (\<open>components/react/features\<close>, \<open>access\<close>, \<open>form\<close>) filter, sort and edit the
  cached data; a live stream (server-sent events with polling behind it) drives the map of one
  device, and the history view draws its past routes.

  \<^bold>\<open>How the code is modelled.\<close> An async function is a function of the state it runs in that returns
  the new state and a value or a thrown value (\<open>io\<close> in Prelude); \<open>try\<close>, \<open>catch\<close> and \<open>finally\<close> are
  combinators. The state of all islands is the record \<open>world\<close> (World); a hook extends it with its
  \<open>useState\<close> fields, a page extends the hook with its dialogs. What an HTTP call returns is an
  argument of the operation that makes it, so every theorem holds for every answer of the backend.
  Operations that may overlap are step functions on explicit event sequences, and properties of
  their interleavings are inductions over them. A value captured by the render a handler belongs to
  is an argument. Strings are lists of characters, one per code unit, read as Windows-1252; numbers
  are reals with the special values; untyped data is \<open>json\<close>. Parsing of timestamps, \<open>localeCompare\<close>,
  number printing, time zones and \<open>Intl\<close> are parameters.

  \<^bold>\<open>The theories.\<close>
  \<^item> Prelude, JsStrings, JsValues, JsTime: the async combinators, stable sorting and its contracts
    (locales \<open>comparator\<close>, \<open>key_comparator\<close>), updates by key, loading flags (locale \<open>flag_field\<close>),
    strings, numbers, timestamps.
  \<^item> ApiTypes, World: the wire types (\<open>types/api\<close>), requests, outcomes, the shared state.
  \<^item> Toasts, ToastTimers: \<open>lib/stores/toast.store.ts\<close> and \<open>ui/ToastProvider.tsx\<close>. The stack is bounded, its ids
    are distinct, and timers match the stack.
  \<^item> ApiErrors: \<open>lib/api/api-utils.ts\<close> and the helpers that turn errors into toasts.
  \<^item> Navigation, AuthService, AuthProps, RouteGates: \<open>lib/router-utils.ts\<close>, \<open>lib/stores/auth.ts\<close>,
    \<open>authService.ts\<close> and the route gates: who sees what, and where everybody else is sent.
  \<^item> DeviceService, DeviceProps, UserService, ApiKeyService, SmallServices: the other services, with
    their effect on the cached lists on every branch.
  \<^item> LocationService, LocationProps: \<open>locationService.ts\<close>, whose requests overlap; the view is that of
    the latest request (a simulation between the numbered requests and a view that knows only the
    latest one).
  \<^item> LiveLocation, DeviceStream: \<open>lib/live-location.ts\<close> and \<open>hooks/useDeviceLocationStream.ts\<close>: the guard
    and the reducer of snapshots, and the stream's connection states as a step relation.
  \<^item> Routes, History: \<open>lib/location-utils.ts\<close>, \<open>lib/map-utils.ts\<close>, the history view and the map card.
  \<^item> Settings: \<open>lib/settings.ts\<close>, \<open>lib/stores/settings.ts\<close>: repairing and persisting preferences.
  \<^item> Tables: filters, orders and counters of the users, devices and access pages, device status.
  \<^item> Dates, Reports: \<open>lib/date-utils.ts\<close>, \<open>lib/reports-utils.ts\<close> with a UTC calendar, and the reports page.
  \<^item> TextUtils: templates, masked addresses, the CSV export with a reader for it, clipboard, theme,
    sidebar, password score.
  \<^item> Forms: sign-in, sign-up, reset, change and recovery of the password.
  \<^item> AdminPages, DetailPage: the handlers of the admin pages and of the device page; a hook's
    operation runs on its part of the page (locale \<open>page_part\<close>).
  \<^item> Startup: \<open>auth/AuthProvider.tsx\<close> beside the protected gate, two islands over one store: one
    session request, a gate that terminates, and what depends on which island is first.
  \<^item> Modals, ShareDialogs: \<open>components/react/modal\<close> and \<open>ui/Modal.tsx\<close>: the typed confirmation, the scroll
    lock, the forms, the dialogs that reveal a key or a link; awaited requests are steps of their own, recorded
    when they are sent.
  \<^item> FormCode: what \<open>URLSearchParams\<close> does with the token of a guest link: the encoding of a form in the bytes of UTF-8
    and its way back, for every character of a string; a code point without a character is read as a question mark.
  \<^item> GuestView: \<open>features/devices/guest/GuestDevicePage.tsx\<close>: the token, the first snapshot, the stream.
  \<^item> PageShell: \<open>SettingsPage.tsx\<close> with an abstract reading of it that the page refines, whatever the storage
    of the browser does, \<open>Sidebar.tsx\<close>,
    \<open>LanguageToggle.tsx\<close>, \<open>NoAccessNotice.tsx\<close>.
  \<^item> UiParts: the small components of \<open>components/react/ui\<close> that compute something.
  \<^item> DeviceCards, ReportViews, AdminViews: what the device page, the report sections and the tables print, and
    which row a click acts on.
  \<^item> HistoryPanel, MapView: the history view with its requests under way (no spinner stays), and what the
    card of the map draws, when its camera moves.
  \<^item> DeviceView: the whole device page: its operations in two steps, the reload after them, the dialogs,
    the stream and the history panel it mounts and throws away.
  \<^item> FormViews: what the account forms show while their one request runs (locale \<open>single_request\<close>), the views of
    the recovery form, and which of the forms a visitor of the reset link gets.
  \<^item> FilterBars: the filter bars of the three list pages; clearing the filters of a list shows it whole
    (locale \<open>list_filter\<close>), the chips and counters agree with the list.
  \<^item> InFlight: pages with requests under way (locale \<open>answered_page\<close>, interpreted on the four pages below).
  \<^item> UsersView, ProfileViews, DevicesView, AccessView: the users page, the profile page and the dialog about a person,
    the devices page and the access page, with their dialogs and their requests under way: which flag belongs to
    which request, that the pages come to rest, what they ask of the backend, that an issued key does not
    leave its dialog, and what late answers do.
  \<^item> DialogViews, SettingsView: what the dialogs and the rows of the settings page show: the marked fields, the armed
    buttons, the ways out while something runs; each choice of a row takes effect.
  \<^item> ShellViews: what the sidebar, the profile menu and the report filters show; a followed entry is the one marked.
  \<^item> Site: the routes (\<open>pages\<close>), the layouts with their gates (\<open>components/astro/layout\<close>), and journeys from page to page: each
    comes to rest after at most two redirects on content that is the visitor's to see; where signing in and out leads; the
    language toggle keeps the page; links; the theme across page loads; what the gates assume when the status of the
    site cannot be read.
  \<^item> Widgets: the smaller components of \<open>react/ui\<close> and \<open>form/ui\<close>: a busy button runs no handler, the toasts on the screen
    follow the stack, trails of breadcrumbs, the shortcut of the search field, the theme button, radio buttons, column headers.
  \<^item> DeviceFrame: which parts of the device page (\<open>DeviceDetailPage.tsx\<close>) are on the screen for each reachable state of
    DeviceView: one panel, the one the address names, and which dialogs are open.
  \<^item> Calendar: the dates of Dates are right: a day can be computed back from its date, dates are ordered as days are
    (\<open>linorder\<close>), and \<open>formatDate\<close> tells the day.
  \<^item> Topbar: \<open>layout/Topbar\<close> and the sidebar as one state over the width of the window.
  \<^item> Dicts, DictEn, DictEs, Translations: \<open>i18n\<close> as data. The two languages agree text by text and
    key by key, the forms find every string their types declare, and two places where code and texts
    depend on each other.

  \<^bold>\<open>Bounds.\<close> No definition uses fuel: every recursion is structural or comes with a termination proof
  on the length of its text; only journeys through redirects are a partial function, and that they
  end is proved (Site). The constants are the code's: five toasts, 1000 live points, three failures
  before polling, a 60-second cooldown.

  \<^bold>\<open>Not modelled.\<close> The Go backend, the device firmware and the deployment files; the HTTP client library,
  React's scheduling of renders, the map and chart libraries; styles and markup (with the dialogs and
  components that are nothing else); rounding of floating-point numbers.

  \<^bold>\<open>Plan.\<close> What is left of the client is the markup of the charts and the landing page, and the notification list,
  which no page mounts.
\<close>

end
